(* ===== verification/Prelude.thy ===== *)
theory Prelude
  imports Complex_Main "HOL-Library.Multiset"
begin

text \<open>
  Shared vocabulary of the development: the service errors of \<open>app/common/exceptions.py\<close> as
  values, the result type with its sequencing operators, traversals that stop at the first error,
  and a few facts on lists of rows that the component theories use.
\<close>

section \<open>Fact collections\<close>

named_theorems result_simps \<open>equations that take a sequence of fallible steps apart\<close>
named_theorems money_intros \<open>introduction rules for amounts on the six-decimal grid\<close>

section \<open>Service errors\<close>

text \<open>
  One constructor per subclass of \<open>AppError\<close>, the one of \<open>daily_settlement_service.py\<close> included,
  carrying the instance's \<open>error_code\<close>; the last five are the Python exceptions that the
  modelled code raises itself.
\<close>

datatype app_error =
    BusinessValidationError string
  | ResourceNotFoundError string
  | ResourceConflictError string
  | BusinessRuleError string
  | DataAccessError string
  | AuthenticationError string
  | AuthorizationError string
  | ServiceUnavailableError string
  | RateLimitError string
  | DailySettlementError string
  | PyValueError
  | PyTypeError
  | PyKeyError
  | PyAssertionError
  | PyRuntimeError

fun status_code :: "app_error \<Rightarrow> nat" where
  "status_code (BusinessValidationError _) = 400"
| "status_code (ResourceNotFoundError _) = 404"
| "status_code (ResourceConflictError _) = 409"
| "status_code (BusinessRuleError _) = 422"
| "status_code (DataAccessError _) = 500"
| "status_code (AuthenticationError _) = 401"
| "status_code (AuthorizationError _) = 403"
| "status_code (ServiceUnavailableError _) = 503"
| "status_code (RateLimitError _) = 429"
| "status_code (DailySettlementError _) = 400"
| "status_code PyValueError = 500"
| "status_code PyTypeError = 500"
| "status_code PyKeyError = 500"
| "status_code PyAssertionError = 500"
| "status_code PyRuntimeError = 500"

type_synonym 'a result = "app_error + 'a"

section \<open>Sequencing fallible steps\<close>

definition rbind :: "'a result \<Rightarrow> ('a \<Rightarrow> 'b result) \<Rightarrow> 'b result" where
  "rbind m f = (case m of Inl e \<Rightarrow> Inl e | Inr x \<Rightarrow> f x)"

text \<open>\<open>ensure c e\<close> is \<open>if not c: raise e\<close>.\<close>

definition ensure :: "bool \<Rightarrow> app_error \<Rightarrow> unit result" where
  "ensure c e = (if c then Inr () else Inl e)"

lemma rbind_simps [simp]:
  "rbind (Inl e) f = Inl e"
  "rbind (Inr x) f = f x"
  by (simp_all add: rbind_def)

lemma ensure_True [simp]: "ensure True e = Inr ()"
  by (simp add: ensure_def)

lemma ensure_False [simp]: "ensure False e = Inl e"
  by (simp add: ensure_def)

lemma rbind_Inr_iff [result_simps]:
  "rbind m f = Inr y \<longleftrightarrow> (\<exists>x. m = Inr x \<and> f x = Inr y)"
  by (cases m) auto

lemma rbind_Inl_iff:
  "rbind m f = Inl e \<longleftrightarrow> m = Inl e \<or> (\<exists>x. m = Inr x \<and> f x = Inl e)"
  by (cases m) auto

lemma ensure_Inr_iff [result_simps]: "ensure c e = Inr u \<longleftrightarrow> c"
  by (simp add: ensure_def)

lemma ensure_Inl_iff: "ensure c e = Inl e' \<longleftrightarrow> \<not> c \<and> e' = e"
  by (auto simp: ensure_def)

lemma if_Inl_Inr_iff [result_simps]:
  "(if c then Inl e else r) = (Inr y :: 'a result) \<longleftrightarrow> \<not> c \<and> r = Inr y"
  by simp

text \<open>A loop whose body may raise, run over a list from the left.\<close>

fun rmap :: "('a \<Rightarrow> 'b result) \<Rightarrow> 'a list \<Rightarrow> 'b list result" where
  "rmap f [] = Inr []"
| "rmap f (x # xs) = rbind (f x) (\<lambda>y. rbind (rmap f xs) (\<lambda>ys. Inr (y # ys)))"

fun rfold :: "('s \<Rightarrow> 'a \<Rightarrow> 's result) \<Rightarrow> 's \<Rightarrow> 'a list \<Rightarrow> 's result" where
  "rfold f s [] = Inr s"
| "rfold f s (x # xs) = rbind (f s x) (\<lambda>s'. rfold f s' xs)"

lemma rmap_Inr_list_all2:
  "rmap f xs = Inr ys \<longleftrightarrow> list_all2 (\<lambda>x y. f x = Inr y) xs ys"
proof (induction xs arbitrary: ys)
  case Nil
  then show ?case by (cases ys) auto
next
  case (Cons x xs)
  then show ?case by (cases ys) (auto simp: rbind_Inr_iff)
qed

lemma rmap_Inr_length: "rmap f xs = Inr ys \<Longrightarrow> length ys = length xs"
  by (auto simp: rmap_Inr_list_all2 dest: list_all2_lengthD)

lemma rfold_Inr_invariant:
  assumes "rfold f s xs = Inr t" and "P s"
    and "\<And>s x s'. x \<in> set xs \<Longrightarrow> P s \<Longrightarrow> f s x = Inr s' \<Longrightarrow> P s'"
  shows "P t"
  using assms
proof (induction xs arbitrary: s)
  case Nil
  then show ?case by simp
next
  case (Cons x xs)
  from Cons.prems(1) obtain s' where s': "f s x = Inr s'" "rfold f s' xs = Inr t"
    by (auto simp: rbind_Inr_iff)
  with Cons.prems(2,3) have "P s'" by auto
  with s'(2) show ?case using Cons.prems(3) by (auto intro: Cons.IH)
qed

section \<open>Lists of rows\<close>

text \<open>The first row that satisfies a condition, \<open>db.scalar(select(...).where(...))\<close>.\<close>

abbreviation first_row :: "('r \<Rightarrow> bool) \<Rightarrow> 'r list \<Rightarrow> 'r option" where
  "first_row P rows \<equiv> List.find P rows"

lemma first_row_SomeD: "first_row P rows = Some r \<Longrightarrow> r \<in> set rows \<and> P r"
  by (auto simp: find_Some_iff)

lemma sum_list_map_add:
  "sum_list (map (\<lambda>x. f x + g x) xs) = sum_list (map f xs) + (sum_list (map g xs) :: 'b::comm_monoid_add)"
  by (induction xs) (auto simp: algebra_simps)

lemma sum_list_map_minus:
  "sum_list (map (\<lambda>x. f x - g x) xs) = sum_list (map f xs) - (sum_list (map g xs) :: 'b::ab_group_add)"
  by (induction xs) (auto simp: algebra_simps)

lemma sum_list_map_mono:
  "(\<And>x. x \<in> set xs \<Longrightarrow> f x \<le> g x) \<Longrightarrow>
   sum_list (map f xs) \<le> (sum_list (map g xs) :: 'b::ordered_comm_monoid_add)"
  by (induction xs) (auto intro: add_mono)

lemma sum_list_map_nonneg:
  "(\<And>x. x \<in> set xs \<Longrightarrow> 0 \<le> f x) \<Longrightarrow> 0 \<le> (sum_list (map f xs) :: 'b::ordered_comm_monoid_add)"
  by (induction xs) auto

end
