(* ===== verification/Money.thy ===== *)
theory Money
  imports Prelude
begin

text \<open>
  \<open>app/common/decimal_utils.py\<close>. A \<open>Decimal\<close> is its exact value, a rational; \<open>quantize_money\<close> is
  \<open>value.quantize(Decimal("0.000001"), rounding=ROUND_HALF_UP)\<close>, where Python's ROUND_HALF_UP sends
  a tie away from zero. The columns of the schema are \<open>Numeric(24, 6)\<close>, so the stored amounts are
  the fixed points of \<open>quantize_money\<close>, the predicate \<open>is_money\<close>.
\<close>

type_synonym decimal = rat

definition round_half_up :: "decimal \<Rightarrow> int" where
  "round_half_up x = (if 0 \<le> x then \<lfloor>x + 1 / 2\<rfloor> else - \<lfloor>1 / 2 - x\<rfloor>)"

definition quantize_money :: "decimal \<Rightarrow> decimal" where
  "quantize_money v = of_int (round_half_up (v * 1000000)) / 1000000"

definition is_money :: "decimal \<Rightarrow> bool" where
  "is_money x \<longleftrightarrow> quantize_money x = x"

section \<open>Rounding to an integer\<close>

lemma round_half_up_of_int [simp]: "round_half_up (of_int k) = k"
proof (cases "0 \<le> k")
  case True
  have "\<lfloor>of_int k + (1 / 2 :: rat)\<rfloor> = k" by linarith
  with True show ?thesis by (simp add: round_half_up_def)
next
  case False
  have "\<lfloor>1 / 2 - (of_int k :: rat)\<rfloor> = - k" by linarith
  with False show ?thesis by (simp add: round_half_up_def)
qed

lemma round_half_up_0 [simp]: "round_half_up 0 = 0"
  using round_half_up_of_int [of 0] by simp

lemma round_half_up_uminus: "round_half_up (- x) = - round_half_up x"
proof (cases "x = 0")
  case False
  then show ?thesis by (cases "0 < x") (auto simp: round_half_up_def algebra_simps)
qed simp

lemma round_half_up_error: "\<bar>of_int (round_half_up x) - x\<bar> \<le> 1 / 2"
proof (cases "0 \<le> x")
  case True
  have "of_int \<lfloor>x + 1 / 2\<rfloor> \<le> x + 1 / 2" "x + 1 / 2 < of_int \<lfloor>x + 1 / 2\<rfloor> + 1"
    by linarith+
  then have "\<bar>of_int \<lfloor>x + 1 / 2\<rfloor> - x\<bar> \<le> 1 / 2" by linarith
  with True show ?thesis by (simp add: round_half_up_def)
next
  case False
  have "of_int \<lfloor>1 / 2 - x\<rfloor> \<le> 1 / 2 - x" "1 / 2 - x < of_int \<lfloor>1 / 2 - x\<rfloor> + 1"
    by linarith+
  then have "\<bar>- of_int \<lfloor>1 / 2 - x\<rfloor> - x\<bar> \<le> 1 / 2" by linarith
  with False show ?thesis by (simp add: round_half_up_def)
qed

lemma round_half_up_nonneg: "0 \<le> x \<Longrightarrow> 0 \<le> round_half_up x"
  by (simp add: round_half_up_def)

lemma round_half_up_mono: assumes "x \<le> y" shows "round_half_up x \<le> round_half_up y"
proof -
  consider "0 \<le> x" | "x < 0" "0 \<le> y" | "y < 0" by linarith
  then show ?thesis
  proof cases
    case 1
    with assms show ?thesis by (simp add: round_half_up_def floor_mono)
  next
    case 2
    then have "round_half_up x \<le> 0" "0 \<le> round_half_up y"
      by (simp_all add: round_half_up_def)
    then show ?thesis by linarith
  next
    case 3
    with assms have "\<lfloor>1 / 2 - y\<rfloor> \<le> \<lfloor>1 / 2 - x\<rfloor>" by (intro floor_mono) simp
    with 3 assms show ?thesis by (simp add: round_half_up_def)
  qed
qed

section \<open>Six decimals\<close>

lemma is_money_iff_grid: "is_money x \<longleftrightarrow> (\<exists>k. x = of_int k / 1000000)"
proof
  assume "is_money x"
  then have "x = of_int (round_half_up (x * 1000000)) / 1000000"
    by (simp add: is_money_def quantize_money_def)
  then show "\<exists>k. x = of_int k / 1000000" ..
next
  assume "\<exists>k. x = of_int k / 1000000"
  then show "is_money x" by (auto simp: is_money_def quantize_money_def)
qed

lemma quantize_money_is_money [simp, money_intros]: "is_money (quantize_money x)"
  by (auto simp: is_money_iff_grid quantize_money_def)

lemma quantize_money_idem [simp]: "is_money x \<Longrightarrow> quantize_money x = x"
  by (simp add: is_money_def)

lemma is_money_0 [simp, money_intros]: "is_money 0"
  by (simp add: is_money_def quantize_money_def)

lemma quantize_money_0 [simp]: "quantize_money 0 = 0"
  by simp

lemma is_money_of_int [simp, money_intros]: "is_money (of_int k)"
  unfolding is_money_iff_grid by (rule exI [of _ "k * 1000000"]) simp

lemma is_money_uminus [money_intros]: "is_money x \<Longrightarrow> is_money (- x)"
  unfolding is_money_iff_grid by (metis minus_divide_left of_int_minus)

lemma is_money_add [money_intros]: "is_money x \<Longrightarrow> is_money y \<Longrightarrow> is_money (x + y)"
  unfolding is_money_iff_grid by (metis add_divide_distrib of_int_add)

lemma is_money_diff [money_intros]: "is_money x \<Longrightarrow> is_money y \<Longrightarrow> is_money (x - y)"
  unfolding is_money_iff_grid by (metis diff_divide_distrib of_int_diff)

lemma is_money_int_mult [money_intros]: "is_money x \<Longrightarrow> is_money (of_int k * x)"
  unfolding is_money_iff_grid by (metis of_int_mult times_divide_eq_right)

lemma is_money_max [money_intros]: "is_money x \<Longrightarrow> is_money y \<Longrightarrow> is_money (max x y)"
  by (simp add: max_def)

lemma is_money_sum_list [money_intros]:
  "(\<And>x. x \<in> set xs \<Longrightarrow> is_money (f x)) \<Longrightarrow> is_money (sum_list (map f xs))"
  by (induction xs) (auto intro: money_intros)

lemma quantize_money_mono: "x \<le> y \<Longrightarrow> quantize_money x \<le> quantize_money y"
  by (auto simp: quantize_money_def divide_right_mono intro: round_half_up_mono)

lemma quantize_money_nonneg [simp]: "0 \<le> x \<Longrightarrow> 0 \<le> quantize_money x"
  using quantize_money_mono [of 0 x] by simp

lemma quantize_money_le: "x \<le> y \<Longrightarrow> is_money y \<Longrightarrow> quantize_money x \<le> y"
  using quantize_money_mono [of x y] by simp

lemma quantize_money_ge: "y \<le> x \<Longrightarrow> is_money y \<Longrightarrow> y \<le> quantize_money x"
  using quantize_money_mono [of y x] by simp

lemma quantize_money_uminus: "quantize_money (- x) = - quantize_money x"
  by (simp add: quantize_money_def round_half_up_uminus)

lemma quantize_money_error: "\<bar>quantize_money x - x\<bar> \<le> 1 / 2000000"
proof -
  have "\<bar>of_int (round_half_up (x * 1000000)) - x * 1000000\<bar> \<le> 1 / 2"
    by (rule round_half_up_error)
  then show ?thesis unfolding quantize_money_def by (auto simp: abs_le_iff field_simps)
qed

end
