(* ===== verification/Domain.thy ===== *)
theory Domain
  imports Money
begin

text \<open>
  The closed vocabularies of \<open>app/enums/\<close>. A database column of one of these kinds is text; a
  datatype with an \<open>Unknown\<close> constructor stands for a column whose reader distinguishes text
  outside the enum (it raises or rejects), and keeps that text.
\<close>

section \<open>Time\<close>

text \<open>Dates are proleptic day numbers, instants are microseconds of UTC.\<close>

type_synonym date = int
type_synonym datetime = int

section \<open>Orders and positions (\<open>order_enums.py\<close>)\<close>

datatype order_direction = BUY | SELL | UnknownDirection string

datatype offset_flag = OPEN | CLOSE | CLOSE_TODAY | CLOSE_YESTERDAY | UnknownOffset string

datatype order_type = LIMIT | COUNTERPARTY | LAST | MARKET | UnknownOrderType string

datatype order_status = NEW | ACCEPTED | PARTIALLY_FILLED | PARTIALLY_CANCELLED | FILLED
  | CANCELLED | REJECTED

datatype submit_status = SUBMITTING | SUBMIT_ACCEPTED | SUBMIT_REJECTED

datatype position_direction = LONG | SHORT | UnknownPositionDirection string

datatype detail_status = DETAIL_OPEN | DETAIL_CLOSED

datatype freeze_status = ACTIVE | CONSUMED | RELEASED

datatype outbox_status = PENDING | PROCESSING | SENT | OUTBOX_FAILED

section \<open>Reference data, products, accounts\<close>

datatype commission_type = BY_VOLUME | BY_AMOUNT | UnknownCommission string

datatype instrument_type = FUTURES | FUTURES_OPTION | INDEX | INDEX_OPTION | STOCK
  | CONVERTIBLE_BOND | ETF | UnknownInstrument string

datatype product_family = FUTURES_FAMILY | OPTIONS_FAMILY | STOCKS_FAMILY
  | CONVERTIBLE_BONDS_FAMILY

datatype account_status = ACCOUNT_NORMAL | DISABLED | LIQUIDATION

datatype risk_state = NORMAL | WARNING | MARGIN_DEFICIT | LIQUIDATION_PENDING | LIQUIDATING
  | RECOVERED | VALUATION_UNAVAILABLE

datatype option_type = CALL | PUT

datatype margin_price_mode = ORDER_FREEZE | REALTIME | SETTLEMENT

datatype margin_algorithm = COMMODITY_FUTURES_OPTION | CFFEX_INDEX_OPTION
  | UnknownAlgorithm string

datatype batch_status = RUNNING | FAILED | COMPLETED

text \<open>\<open>CASH_SECURITY_INSTRUMENT_TYPES\<close> of \<open>instrument_enums.py\<close>.\<close>

definition cash_security_instrument_types :: "instrument_type set" where
  "cash_security_instrument_types = {STOCK, CONVERTIBLE_BOND, ETF}"

section \<open>The text of an enum member, \<open>.value\<close>\<close>

fun direction_value :: "order_direction \<Rightarrow> string" where
  "direction_value BUY = ''BUY''"
| "direction_value SELL = ''SELL''"
| "direction_value (UnknownDirection s) = s"

fun offset_value :: "offset_flag \<Rightarrow> string" where
  "offset_value OPEN = ''OPEN''"
| "offset_value CLOSE = ''CLOSE''"
| "offset_value CLOSE_TODAY = ''CLOSE_TODAY''"
| "offset_value CLOSE_YESTERDAY = ''CLOSE_YESTERDAY''"
| "offset_value (UnknownOffset s) = s"

fun order_type_value :: "order_type \<Rightarrow> string" where
  "order_type_value LIMIT = ''LIMIT''"
| "order_type_value COUNTERPARTY = ''COUNTERPARTY''"
| "order_type_value LAST = ''LAST''"
| "order_type_value MARKET = ''MARKET''"
| "order_type_value (UnknownOrderType s) = s"

fun order_status_value :: "order_status \<Rightarrow> string" where
  "order_status_value NEW = ''NEW''"
| "order_status_value ACCEPTED = ''ACCEPTED''"
| "order_status_value PARTIALLY_FILLED = ''PARTIALLY_FILLED''"
| "order_status_value PARTIALLY_CANCELLED = ''PARTIALLY_CANCELLED''"
| "order_status_value FILLED = ''FILLED''"
| "order_status_value CANCELLED = ''CANCELLED''"
| "order_status_value REJECTED = ''REJECTED''"

fun position_direction_value :: "position_direction \<Rightarrow> string" where
  "position_direction_value LONG = ''LONG''"
| "position_direction_value SHORT = ''SHORT''"
| "position_direction_value (UnknownPositionDirection s) = s"

fun instrument_type_value :: "instrument_type \<Rightarrow> string" where
  "instrument_type_value FUTURES = ''FUTURES''"
| "instrument_type_value FUTURES_OPTION = ''FUTURES_OPTION''"
| "instrument_type_value INDEX = ''INDEX''"
| "instrument_type_value INDEX_OPTION = ''INDEX_OPTION''"
| "instrument_type_value STOCK = ''STOCK''"
| "instrument_type_value CONVERTIBLE_BOND = ''CONVERTIBLE_BOND''"
| "instrument_type_value ETF = ''ETF''"
| "instrument_type_value (UnknownInstrument s) = s"

fun risk_state_value :: "risk_state \<Rightarrow> string" where
  "risk_state_value NORMAL = ''NORMAL''"
| "risk_state_value WARNING = ''WARNING''"
| "risk_state_value MARGIN_DEFICIT = ''MARGIN_DEFICIT''"
| "risk_state_value LIQUIDATION_PENDING = ''LIQUIDATION_PENDING''"
| "risk_state_value LIQUIDATING = ''LIQUIDATING''"
| "risk_state_value RECOVERED = ''RECOVERED''"
| "risk_state_value VALUATION_UNAVAILABLE = ''VALUATION_UNAVAILABLE''"

section \<open>The payload of an outbox event\<close>

text \<open>
  A JSON object as the code builds it, in the order of its keys. \<open>JDecimal\<close> is a decimal written
  with \<open>format(value, "f")\<close>, \<open>JDate\<close> and \<open>JTime\<close> are \<open>isoformat()\<close> texts.
\<close>

datatype json = JString string | JInt int | JDecimal decimal | JDate date | JTime datetime
  | JBool bool | JNull

type_synonym payload = "(string \<times> json) list"

text \<open>A JSON column holding a rule snapshot, \<open>None\<close> for SQL NULL.\<close>

type_synonym rule_snapshot = "payload option"

end
