(* ===== verification/Codes.thy ===== *)
theory Codes
  imports Domain
begin

text \<open>
  \<open>app/common/code_utils.py\<close> and the \<open>strip().upper()\<close> normalisation that the registries, the
  idempotency check and the query services share. Text is ASCII: \<open>strip\<close> removes the ASCII
  characters that \<open>str.strip\<close> counts as white space, \<open>upper\<close> maps the ASCII lower-case letters.
\<close>

definition is_space :: "char \<Rightarrow> bool" where
  "is_space c \<longleftrightarrow> of_char c \<in> {9 .. 13 :: nat} \<union> {28 .. 32}"

definition upper_char :: "char \<Rightarrow> char" where
  "upper_char c = (if of_char c \<in> {97 .. 122 :: nat} then char_of (of_char c - 32 :: nat) else c)"

definition upper :: "string \<Rightarrow> string" where
  "upper s = map upper_char s"

definition lstrip :: "string \<Rightarrow> string" where
  "lstrip s = dropWhile is_space s"

definition strip :: "string \<Rightarrow> string" where
  "strip s = rev (lstrip (rev (lstrip s)))"

definition normalize_text :: "string \<Rightarrow> string" where
  "normalize_text s = upper (strip s)"

definition normalize_code :: "string \<Rightarrow> string result" where
  "normalize_code v =
     (let normalized_value = normalize_text v
      in if normalized_value = [] then Inl PyValueError else Inr normalized_value)"

section \<open>Normalised text\<close>

lemma of_char_upper_char:
  "(of_char (upper_char c) :: nat) =
     (if of_char c \<in> {97 .. 122 :: nat} then of_char c - 32 else of_char c)"
  using of_char_of [where ?'a = nat] by (auto simp: upper_char_def)

lemma upper_char_idem [simp]: "upper_char (upper_char c) = upper_char c"
proof -
  have "(of_char (upper_char c) :: nat) \<notin> {97 .. 122}"
    by (auto simp: of_char_upper_char split: if_splits)
  then show ?thesis by (simp only: upper_char_def [of "upper_char c"] if_False)
qed

lemma is_space_upper_char [simp]: "is_space (upper_char c) = is_space c"
  by (auto simp: is_space_def of_char_upper_char split: if_splits)

lemma upper_idem [simp]: "upper (upper s) = upper s"
  by (simp add: upper_def)

lemma lstrip_upper: "lstrip (upper s) = upper (lstrip s)"
  by (simp add: lstrip_def upper_def dropWhile_map comp_def)

lemma strip_upper: "strip (upper s) = upper (strip s)"
proof -
  have rev_upper: "rev (upper t) = upper (rev t)" for t
    by (simp add: upper_def rev_map)
  show ?thesis by (simp add: strip_def lstrip_upper rev_upper)
qed

lemma lstrip_idem [simp]: "lstrip (lstrip s) = lstrip s"
  by (simp add: lstrip_def dropWhile_idem)

lemma lstrip_id_iff: "lstrip s = s \<longleftrightarrow> s = [] \<or> \<not> is_space (hd s)"
  unfolding lstrip_def by (rule dropWhile_eq_self_iff)

lemma lstrip_rev_lstrip: "lstrip s = s \<Longrightarrow> lstrip (rev (lstrip (rev s))) = rev (lstrip (rev s))"
proof -
  assume s: "lstrip s = s"
  obtain ys where ys: "rev s = ys @ lstrip (rev s)"
    by (metis lstrip_def takeWhile_dropWhile_id)
  then have split: "s = rev (lstrip (rev s)) @ rev ys"
    by (metis rev_append rev_rev_ident)
  show ?thesis
  proof (cases "rev (lstrip (rev s)) = []")
    case True
    then show ?thesis by (simp add: lstrip_id_iff)
  next
    case False
    with split have "hd s = hd (rev (lstrip (rev s)))" "s \<noteq> []"
      by (metis hd_append2, auto)
    with s False show ?thesis by (simp add: lstrip_id_iff)
  qed
qed

lemma strip_idem [simp]: "strip (strip s) = strip s"
proof -
  let ?l = "lstrip s"
  have "lstrip (rev (lstrip (rev ?l))) = rev (lstrip (rev ?l))"
    by (rule lstrip_rev_lstrip) simp
  then show ?thesis by (simp add: strip_def)
qed

lemma normalize_text_idem [simp]: "normalize_text (normalize_text s) = normalize_text s"
  by (simp add: normalize_text_def strip_upper)

lemma normalize_code_Inr_iff [result_simps]:
  "normalize_code v = Inr w \<longleftrightarrow> w = normalize_text v \<and> w \<noteq> []"
  by (auto simp: normalize_code_def Let_def)

end
