(* ===== verification/Matching.thy ===== *)
theory Matching
  imports Codes "HOL-Library.AList"
begin

text \<open>
  \<open>app/matching/\<close>: the level-one engine for futures and options (\<open>engines/vn.py\<close>), the cash-security
  strategy (\<open>cash_security.py\<close>), the registries that select them (\<open>registry.py\<close>,
  \<open>product_strategy.py\<close>), and the interface \<open>level_one_matching\<close> both matchers implement.
\<close>

section \<open>Snapshots and results (\<open>types.py\<close>, \<open>cash_security.py\<close>)\<close>

record matching_order =
  mo_direction :: order_direction
  mo_offset_flag :: "offset_flag option"
  mo_order_type :: order_type
  mo_limit_price :: decimal
  mo_remaining_volume :: int

record matching_market_data =
  mm_bid_price_1 :: "decimal option"
  mm_bid_volume_1 :: int
  mm_ask_price_1 :: "decimal option"
  mm_ask_volume_1 :: int

record match_result =
  r_matched :: bool
  r_fill_price :: "decimal option"
  r_fill_volume :: int
  r_reason :: "string option"
  r_engine_name :: string
  r_engine_version :: string

record cash_security_order_snapshot =
  cso_order_id :: string
  cso_instrument_type :: instrument_type
  cso_direction :: order_direction
  cso_limit_price :: decimal
  cso_remaining_volume :: int

record cash_security_market_snapshot =
  csm_bid_price_1 :: "decimal option"
  csm_bid_volume_1 :: int
  csm_ask_price_1 :: "decimal option"
  csm_ask_volume_1 :: int

record cash_security_match_result =
  csr_matched :: bool
  csr_fill_price :: "decimal option"
  csr_fill_volume :: int
  csr_reason :: "string option"

section \<open>\<open>VnMatchingEngine\<close>\<close>

definition vn_not_matched :: "string \<Rightarrow> match_result" where
  "vn_not_matched reason =
     \<lparr>r_matched = False, r_fill_price = None, r_fill_volume = 0, r_reason = Some reason,
      r_engine_name = ''VN'', r_engine_version = ''1.0''\<rparr>"

definition vn_matched :: "decimal \<Rightarrow> int \<Rightarrow> match_result" where
  "vn_matched price volume =
     \<lparr>r_matched = True, r_fill_price = Some price, r_fill_volume = volume, r_reason = None,
      r_engine_name = ''VN'', r_engine_version = ''1.0''\<rparr>"

definition vn_match :: "matching_order \<Rightarrow> matching_market_data \<Rightarrow> match_result" where
  "vn_match ord mkt =
     (if mo_remaining_volume ord \<le> 0 then vn_not_matched ''NO_REMAINING_VOLUME''
      else case mo_direction ord of
        BUY \<Rightarrow>
          (case mm_ask_price_1 mkt of
             None \<Rightarrow> vn_not_matched ''INVALID_ASK_PRICE''
           | Some fill_price \<Rightarrow>
               if fill_price \<le> 0 then vn_not_matched ''INVALID_ASK_PRICE''
               else if mm_ask_volume_1 mkt \<le> 0 then vn_not_matched ''NO_ASK_VOLUME''
               else if mo_limit_price ord < fill_price
               then vn_not_matched ''BUY_LIMIT_NOT_REACHED''
               else vn_matched fill_price (min (mo_remaining_volume ord) (mm_ask_volume_1 mkt)))
      | SELL \<Rightarrow>
          (case mm_bid_price_1 mkt of
             None \<Rightarrow> vn_not_matched ''INVALID_BID_PRICE''
           | Some fill_price \<Rightarrow>
               if fill_price \<le> 0 then vn_not_matched ''INVALID_BID_PRICE''
               else if mm_bid_volume_1 mkt \<le> 0 then vn_not_matched ''NO_BID_VOLUME''
               else if fill_price < mo_limit_price ord
               then vn_not_matched ''SELL_LIMIT_NOT_REACHED''
               else vn_matched fill_price (min (mo_remaining_volume ord) (mm_bid_volume_1 mkt)))
      | UnknownDirection _ \<Rightarrow> vn_not_matched ''UNSUPPORTED_DIRECTION'')"

section \<open>\<open>CashSecurityMatchingStrategy\<close>\<close>

definition cash_no_match :: "string \<Rightarrow> cash_security_match_result" where
  "cash_no_match reason =
     \<lparr>csr_matched = False, csr_fill_price = None, csr_fill_volume = 0, csr_reason = Some reason\<rparr>"

definition cash_filled :: "decimal \<Rightarrow> int \<Rightarrow> cash_security_match_result" where
  "cash_filled price volume =
     \<lparr>csr_matched = True, csr_fill_price = Some price, csr_fill_volume = volume, csr_reason = None\<rparr>"

definition cash_security_match ::
  "cash_security_order_snapshot \<Rightarrow> cash_security_market_snapshot \<Rightarrow> cash_security_match_result" where
  "cash_security_match ord mkt =
     (if cso_instrument_type ord \<notin> cash_security_instrument_types
      then cash_no_match ''UNSUPPORTED_INSTRUMENT''
      else if cso_remaining_volume ord \<le> 0 then cash_no_match ''NO_REMAINING_VOLUME''
      else if cso_direction ord = BUY then
        (case csm_ask_price_1 mkt of
           None \<Rightarrow> cash_no_match ''INVALID_ASK_PRICE''
         | Some price \<Rightarrow>
             if price \<le> 0 then cash_no_match ''INVALID_ASK_PRICE''
             else if csm_ask_volume_1 mkt \<le> 0 then cash_no_match ''NO_ASK_VOLUME''
             else if cso_limit_price ord < price then cash_no_match ''BUY_LIMIT_NOT_REACHED''
             else cash_filled price (min (cso_remaining_volume ord) (csm_ask_volume_1 mkt)))
      else if cso_direction ord = SELL then
        (case csm_bid_price_1 mkt of
           None \<Rightarrow> cash_no_match ''INVALID_BID_PRICE''
         | Some price \<Rightarrow>
             if price \<le> 0 then cash_no_match ''INVALID_BID_PRICE''
             else if csm_bid_volume_1 mkt \<le> 0 then cash_no_match ''NO_BID_VOLUME''
             else if price < cso_limit_price ord then cash_no_match ''SELL_LIMIT_NOT_REACHED''
             else cash_filled price (min (cso_remaining_volume ord) (csm_bid_volume_1 mkt)))
      else cash_no_match ''UNSUPPORTED_DIRECTION'')"

section \<open>The contract of a level-one matcher\<close>

text \<open>
  What the settlement code relies on, over views of the order (direction, limit, remaining volume),
  the book (the opposite quote of a direction) and the result.
\<close>

locale level_one_matching =
  fixes match :: "'o \<Rightarrow> 'm \<Rightarrow> 'r"
    and supported :: "'o \<Rightarrow> bool"
    and dir :: "'o \<Rightarrow> order_direction"
    and limit :: "'o \<Rightarrow> decimal"
    and remaining :: "'o \<Rightarrow> int"
    and opposite_price :: "order_direction \<Rightarrow> 'm \<Rightarrow> decimal option"
    and opposite_volume :: "order_direction \<Rightarrow> 'm \<Rightarrow> int"
    and matched :: "'r \<Rightarrow> bool"
    and price :: "'r \<Rightarrow> decimal option"
    and volume :: "'r \<Rightarrow> int"
  assumes matched_iff:
    "matched (match ord mkt) \<longleftrightarrow>
       supported ord \<and> 0 < remaining ord \<and> (dir ord = BUY \<or> dir ord = SELL)
       \<and> (\<exists>q. opposite_price (dir ord) mkt = Some q \<and> 0 < q
             \<and> (if dir ord = BUY then q \<le> limit ord else limit ord \<le> q))
       \<and> 0 < opposite_volume (dir ord) mkt"
    and matched_price:
    "matched (match ord mkt) \<Longrightarrow> price (match ord mkt) = opposite_price (dir ord) mkt"
    and matched_volume:
    "matched (match ord mkt) \<Longrightarrow>
       volume (match ord mkt) = min (remaining ord) (opposite_volume (dir ord) mkt)"
    and unmatched_empty:
    "\<not> matched (match ord mkt) \<Longrightarrow> price (match ord mkt) = None \<and> volume (match ord mkt) = 0"
begin

lemma fill_within_limit:
  assumes "matched (match ord mkt)"
  obtains q where "price (match ord mkt) = Some q" "0 < q"
    "dir ord = BUY \<Longrightarrow> q \<le> limit ord" "dir ord = SELL \<Longrightarrow> limit ord \<le> q"
  using assms matched_iff [of ord mkt] matched_price [OF assms] by (auto split: if_splits)

lemma fill_volume_bounds:
  assumes "matched (match ord mkt)"
  shows "1 \<le> volume (match ord mkt) \<and> volume (match ord mkt) \<le> remaining ord
    \<and> volume (match ord mkt) \<le> opposite_volume (dir ord) mkt"
  using matched_volume [OF assms] assms matched_iff [of ord mkt] by auto

lemma volume_nonneg: "0 \<le> volume (match ord mkt)"
  using fill_volume_bounds [of ord mkt] unmatched_empty [of ord mkt] by linarith

lemma fully_filled_iff:
  assumes "matched (match ord mkt)"
  shows "volume (match ord mkt) = remaining ord \<longleftrightarrow> remaining ord \<le> opposite_volume (dir ord) mkt"
  using matched_volume [OF assms] by auto

end

fun vn_opposite_price :: "order_direction \<Rightarrow> matching_market_data \<Rightarrow> decimal option" where
  "vn_opposite_price BUY mkt = mm_ask_price_1 mkt"
| "vn_opposite_price SELL mkt = mm_bid_price_1 mkt"
| "vn_opposite_price (UnknownDirection _) mkt = None"

fun vn_opposite_volume :: "order_direction \<Rightarrow> matching_market_data \<Rightarrow> int" where
  "vn_opposite_volume BUY mkt = mm_ask_volume_1 mkt"
| "vn_opposite_volume SELL mkt = mm_bid_volume_1 mkt"
| "vn_opposite_volume (UnknownDirection _) mkt = 0"

fun cash_opposite_price ::
  "order_direction \<Rightarrow> cash_security_market_snapshot \<Rightarrow> decimal option" where
  "cash_opposite_price BUY mkt = csm_ask_price_1 mkt"
| "cash_opposite_price SELL mkt = csm_bid_price_1 mkt"
| "cash_opposite_price (UnknownDirection _) mkt = None"

fun cash_opposite_volume ::
  "order_direction \<Rightarrow> cash_security_market_snapshot \<Rightarrow> int" where
  "cash_opposite_volume BUY mkt = csm_ask_volume_1 mkt"
| "cash_opposite_volume SELL mkt = csm_bid_volume_1 mkt"
| "cash_opposite_volume (UnknownDirection _) mkt = 0"

interpretation vn: level_one_matching vn_match "\<lambda>_. True" mo_direction mo_limit_price
  mo_remaining_volume vn_opposite_price vn_opposite_volume r_matched r_fill_price r_fill_volume
  by unfold_locales
     (auto simp: vn_match_def vn_matched_def vn_not_matched_def
           split: order_direction.splits option.splits if_splits)

interpretation cash: level_one_matching cash_security_match
  "\<lambda>ord. cso_instrument_type ord \<in> cash_security_instrument_types" cso_direction cso_limit_price
  cso_remaining_volume cash_opposite_price cash_opposite_volume csr_matched csr_fill_price
  csr_fill_volume
  by unfold_locales
     (auto simp: cash_security_match_def cash_filled_def cash_no_match_def
           split: order_direction.splits option.splits if_splits)

section \<open>Registries\<close>

text \<open>
  \<open>MatchingEngineRegistry\<close>: factories by normalised name; registering a name again replaces its
  factory, an unknown name raises. \<open>MatchingStrategyRegistry\<close> refuses a second registration.
\<close>

type_synonym 'e engine_registry = "(string \<times> 'e) list"

definition engine_register :: "string \<Rightarrow> 'e \<Rightarrow> 'e engine_registry \<Rightarrow> 'e engine_registry result" where
  "engine_register name factory reg =
     (let normalized_name = normalize_text name
      in if normalized_name = [] then Inl PyValueError
         else Inr (AList.update normalized_name factory reg))"

definition engine_create :: "'e engine_registry \<Rightarrow> string \<Rightarrow> 'e result" where
  "engine_create reg name =
     (case map_of reg (normalize_text name) of
        None \<Rightarrow> Inl PyValueError
      | Some factory \<Rightarrow> Inr factory)"

definition default_engine_registry ::
  "(matching_order \<Rightarrow> matching_market_data \<Rightarrow> match_result) engine_registry" where
  "default_engine_registry = [(''VN'', vn_match)]"

type_synonym 's strategy_registry = "(product_family \<times> 's) list"

definition strategy_register ::
  "product_family list \<Rightarrow> 's \<Rightarrow> 's strategy_registry \<Rightarrow> 's strategy_registry result" where
  "strategy_register families strategy reg =
     rfold (\<lambda>r family. if map_of r family \<noteq> None then Inl PyValueError
                       else Inr ((family, strategy) # r)) reg families"

definition strategy_resolve :: "'s strategy_registry \<Rightarrow> product_family \<Rightarrow> 's result" where
  "strategy_resolve reg family =
     (case map_of reg family of None \<Rightarrow> Inl PyValueError | Some s \<Rightarrow> Inr s)"

lemma strategy_register_keeps:
  assumes "strategy_register families s reg = Inr reg'" and "map_of reg fam = Some t"
  shows "map_of reg' fam = Some t"
proof -
  let ?step = "\<lambda>r family. if map_of r family \<noteq> None then Inl PyValueError
                           else Inr ((family, s) # r)"
  show ?thesis
    by (rule rfold_Inr_invariant [where f = ?step and P = "\<lambda>r. map_of r fam = Some t"])
       (use assms in \<open>auto simp: strategy_register_def split: if_splits\<close>)
qed

end
