(* ===== verification/Schema.thy ===== *)
theory Schema
  imports Domain
begin

text \<open>
  The rows of \<open>app/models/\<close> that the trading core reads and writes, one record per mapped class.
  A field is the column with the prefix of its table. Numeric columns are \<open>decimal\<close>, nullable
  columns options. The relational constraints of the tables appear as the \<open>_ok\<close> predicates.
\<close>

section \<open>\<open>Account\<close>\<close>

record account =
  a_account_id :: string
  a_user_id :: string
  a_account_name :: string
  a_account_type :: string
  a_option_trading_enabled :: bool
  a_initial_cash :: decimal
  a_cash_balance :: decimal
  a_available_cash :: decimal
  a_frozen_cash :: decimal
  a_equity :: decimal
  a_used_margin :: decimal
  a_frozen_margin :: decimal
  a_realized_pnl :: decimal
  a_unrealized_pnl :: decimal
  a_daily_position_pnl :: decimal
  a_option_used_margin :: decimal
  a_option_realtime_required_margin :: decimal
  a_long_option_market_value :: decimal
  a_short_option_market_value :: decimal
  a_net_option_market_value :: decimal
  a_stock_market_value :: decimal
  a_corporate_action_receivable :: decimal
  a_corporate_action_income :: decimal
  a_pending_security_value :: decimal
  a_rights_subscription_receivable :: decimal
  a_risk_available_cash :: decimal
  a_risk_state :: risk_state
  a_risk_version :: int
  a_daily_close_pnl :: decimal
  a_daily_commission :: decimal
  a_daily_pnl :: decimal
  a_cumulative_net_pnl :: decimal
  a_used_commission :: decimal
  a_frozen_commission :: decimal
  a_risk_ratio :: decimal
  a_status :: account_status
  a_trading_day :: "date option"
  a_created_at :: datetime
  a_updated_at :: datetime

section \<open>\<open>Order\<close>\<close>

record order =
  o_order_id :: string
  o_client_order_id :: string
  o_account_id :: string
  o_order_book_id :: string
  o_symbol :: string
  o_exchange_id :: string
  o_trading_day :: date
  o_instrument_type :: instrument_type
  o_underlying_order_book_id :: "string option"
  o_underlying_exchange_id :: "string option"
  o_underlying_symbol :: "string option"
  o_direction :: order_direction
  o_offset_flag :: "offset_flag option"
  o_order_type :: order_type
  o_commission_type :: "commission_type option"
  o_commission_parameter :: "decimal option"
  o_commission_contract_multiplier :: "decimal option"
  o_fee_rule_id :: "int option"
  o_fee_rule_version :: "string option"
  o_fee_rule_snapshot :: rule_snapshot
  o_limit_price :: decimal
  o_submitted_limit_price :: "decimal option"
  o_resolved_price :: decimal
  o_market_protection_price :: "decimal option"
  o_price_snapshot_time :: "datetime option"
  o_price_snapshot_source :: "string option"
  o_price_snapshot_event_id :: "string option"
  o_price_snapshot_stream_message_id :: "string option"
  o_price_snapshot_bid1 :: "decimal option"
  o_price_snapshot_bid_volume1 :: "int option"
  o_price_snapshot_ask1 :: "decimal option"
  o_price_snapshot_ask_volume1 :: "int option"
  o_price_snapshot_last :: "decimal option"
  o_total_volume :: int
  o_traded_volume :: int
  o_remaining_volume :: int
  o_cancelled_volume :: int
  o_average_price :: "decimal option"
  o_status :: order_status
  o_submit_status :: submit_status
  o_frozen_margin :: decimal
  o_frozen_cash :: decimal
  o_frozen_commission :: decimal
  o_frozen_position_volume :: int
  o_margin_rule_id :: "int option"
  o_margin_rule_version :: "string option"
  o_margin_price_mode :: "margin_price_mode option"
  o_margin_underlying_price :: "decimal option"
  o_margin_option_price :: "decimal option"
  o_margin_rule_snapshot :: rule_snapshot
  o_margin_snapshot_schema_version :: "string option"
  o_margin_calculation_version :: "string option"
  o_margin_risk_state :: risk_state
  o_order_source :: string
  o_liquidation_task_id :: "string option"
  o_reduce_only :: bool
  o_reject_code :: "string option"
  o_reject_message :: "string option"
  o_cancel_reason_code :: "string option"
  o_cancel_reason_message :: "string option"
  o_created_at :: datetime
  o_accepted_at :: "datetime option"
  o_cancelled_at :: "datetime option"
  o_updated_at :: datetime

section \<open>\<open>Position\<close> and \<open>PositionDetail\<close>\<close>

record position =
  p_position_id :: string
  p_account_id :: string
  p_order_book_id :: string
  p_exchange_id :: string
  p_symbol :: string
  p_instrument_type :: instrument_type
  p_direction :: position_direction
  p_total_volume :: int
  p_today_volume :: int
  p_yesterday_volume :: int
  p_frozen_volume :: int
  p_settlement_locked_volume :: int
  p_pending_share_volume :: int
  p_available_volume :: int
  p_average_open_price :: decimal
  p_position_cost :: decimal
  p_used_margin :: decimal
  p_initial_occupied_margin :: decimal
  p_realtime_required_margin :: decimal
  p_option_market_value :: decimal
  p_market_value :: decimal
  p_mark_price :: "decimal option"
  p_mark_time :: "datetime option"
  p_mark_source_event_id :: "string option"
  p_daily_pnl_base_cost :: decimal
  p_yesterday_pnl_base_cost :: decimal
  p_today_pnl_base_cost :: decimal
  p_daily_pnl_base_established :: bool
  p_margin_rule_id :: "int option"
  p_margin_rule_version :: "string option"
  p_margin_rule_snapshot :: rule_snapshot
  p_margin_price_mode :: "margin_price_mode option"
  p_margin_underlying_price :: "decimal option"
  p_margin_option_price :: "decimal option"
  p_margin_calculated_at :: "datetime option"
  p_multiplier_snapshot :: decimal
  p_realized_pnl :: decimal
  p_unrealized_pnl :: decimal
  p_daily_position_pnl :: decimal
  p_daily_close_pnl :: decimal
  p_trading_day :: date
  p_created_at :: datetime
  p_updated_at :: datetime

record detail =
  d_id :: int
  d_position_detail_id :: string
  d_position_id :: string
  d_account_id :: string
  d_open_trade_id :: string
  d_order_book_id :: string
  d_exchange_id :: string
  d_symbol :: string
  d_instrument_type :: instrument_type
  d_direction :: position_direction
  d_open_trading_day :: date
  d_open_price :: decimal
  d_pnl_base_price :: decimal
  d_original_volume :: int
  d_remaining_volume :: int
  d_frozen_volume :: int
  d_open_margin :: decimal
  d_remaining_margin :: decimal
  d_initial_occupied_margin :: decimal
  d_realtime_required_margin :: decimal
  d_margin_rule_id :: "int option"
  d_margin_rule_version :: "string option"
  d_margin_rule_snapshot :: rule_snapshot
  d_margin_price_mode :: "margin_price_mode option"
  d_margin_underlying_price :: "decimal option"
  d_margin_option_price :: "decimal option"
  d_margin_calculated_at :: "datetime option"
  d_multiplier_snapshot :: decimal
  d_open_commission :: decimal
  d_status :: detail_status
  d_created_at :: datetime
  d_updated_at :: datetime

section \<open>Freeze allocations, trades, outbox events\<close>

record freeze_allocation =
  f_allocation_id :: string
  f_order_id :: string
  f_position_id :: string
  f_position_detail_id :: string
  f_account_id :: string
  f_exchange_id :: string
  f_symbol :: string
  f_offset_flag :: offset_flag
  f_resolved_offset_flag :: offset_flag
  f_commission_type :: commission_type
  f_commission_parameter :: decimal
  f_commission_contract_multiplier :: decimal
  f_original_frozen_volume :: int
  f_remaining_frozen_volume :: int
  f_consumed_volume :: int
  f_released_volume :: int
  f_original_frozen_commission :: decimal
  f_remaining_frozen_commission :: decimal
  f_consumed_commission :: decimal
  f_released_commission :: decimal
  f_status :: freeze_status
  f_created_at :: datetime
  f_updated_at :: datetime

record trade =
  t_trade_id :: string
  t_order_id :: string
  t_account_id :: string
  t_market_event_id :: string
  t_market_stream_message_id :: string
  t_order_book_id :: string
  t_exchange_id :: string
  t_symbol :: string
  t_trading_day :: date
  t_instrument_type :: instrument_type
  t_direction :: order_direction
  t_offset_flag :: "offset_flag option"
  t_trade_price :: decimal
  t_trade_volume :: int
  t_turnover :: decimal
  t_margin :: decimal
  t_premium_cash_flow :: decimal
  t_margin_rule_id :: "int option"
  t_margin_rule_version :: "string option"
  t_margin_calculation_version :: "string option"
  t_commission :: decimal
  t_realized_pnl :: decimal
  t_daily_close_pnl :: decimal
  t_trade_time :: datetime
  t_created_at :: datetime

record trade_position_allocation =
  tp_trade_position_allocation_id :: string
  tp_trade_id :: string
  tp_order_id :: string
  tp_allocation_id :: string
  tp_position_id :: string
  tp_position_detail_id :: string
  tp_account_id :: string
  tp_order_book_id :: string
  tp_exchange_id :: string
  tp_symbol :: string
  tp_resolved_offset_flag :: offset_flag
  tp_open_trading_day :: date
  tp_close_trading_day :: date
  tp_open_price :: decimal
  tp_close_price :: decimal
  tp_close_volume :: int
  tp_released_margin :: decimal
  tp_commission :: decimal
  tp_realized_pnl :: decimal
  tp_daily_close_pnl :: decimal
  tp_created_at :: datetime

record outbox_event =
  e_event_id :: string
  e_aggregate_type :: string
  e_aggregate_id :: string
  e_event_type :: string
  e_payload :: payload
  e_status :: outbox_status
  e_retry_count :: int
  e_max_retries :: int
  e_next_retry_at :: "datetime option"
  e_last_error :: "string option"
  e_created_at :: datetime
  e_sent_at :: "datetime option"
  e_updated_at :: datetime

section \<open>Reference data read by the trading core\<close>

text \<open>
  The columns of the reference tables that the calculators and services use; the synchronisation
  metadata of these tables is left out.
\<close>

record instrument =
  i_id :: int
  i_order_book_id :: string
  i_symbol :: string
  i_exchange_id :: string
  i_product_id :: "string option"
  i_market_type :: string
  i_market_tplus :: "int option"
  i_round_lot :: "int option"
  i_instrument_type :: instrument_type
  i_underlying_instrument_id :: "int option"
  i_is_active :: bool
  i_is_tradeable :: bool
  i_price_tick :: decimal
  i_contract_multiplier :: "decimal option"
  i_min_volume :: int
  i_max_volume :: int
  i_option_type :: "option_type option"
  i_strike_price :: "decimal option"

record fee_rule =
  fr_exchange_id :: string
  fr_symbol :: string
  fr_commission_type :: commission_type
  fr_open_commission :: decimal
  fr_close_commission :: decimal
  fr_close_today_commission :: decimal

record margin_rule =
  mr_exchange_id :: string
  mr_symbol :: string
  mr_long_margin_rate :: "decimal option"
  mr_short_margin_rate :: "decimal option"

text \<open>\<open>FeeRuleItem\<close> and \<open>OptionMarginRule\<close>: versioned rules scoped to an instrument, a product or an exchange.\<close>

record fee_rule_item =
  fi_id :: int
  fi_exchange_id :: string
  fi_product_id :: "string option"
  fi_instrument_id :: "int option"
  fi_instrument_type :: instrument_type
  fi_direction :: order_direction
  fi_offset_flag :: "offset_flag option"
  fi_fee_type :: string
  fi_commission_type :: commission_type
  fi_commission_parameter :: decimal
  fi_minimum_fee :: decimal
  fi_aggregation_scope :: string
  fi_trading_day :: date
  fi_rule_version :: string
  fi_data_source :: string
  fi_is_active :: bool

record option_margin_rule_row =
  mo_id :: int
  mo_exchange_id :: string
  mo_product_id :: "string option"
  mo_instrument_id :: "int option"
  mo_instrument_type :: instrument_type
  mo_margin_algorithm :: margin_algorithm
  mo_margin_adjustment_rate :: decimal
  mo_minimum_guarantee_rate :: decimal
  mo_out_of_money_deduction_rate :: decimal
  mo_minimum_underlying_margin_ratio :: decimal
  mo_extra_margin_rate :: decimal
  mo_trading_day :: date
  mo_rule_version :: string
  mo_is_active :: bool

section \<open>Table constraints\<close>

text \<open>\<open>ck_order_volume_balance\<close> and the sign constraints of \<open>orders\<close>.\<close>

definition order_volume_balanced :: "order \<Rightarrow> bool" where
  "order_volume_balanced r \<longleftrightarrow>
     o_total_volume r = o_traded_volume r + o_remaining_volume r + o_cancelled_volume r"

text \<open>The volume constraints of \<open>position\<close>.\<close>

definition position_volumes_ok :: "position \<Rightarrow> bool" where
  "position_volumes_ok r \<longleftrightarrow>
     0 \<le> p_today_volume r \<and> 0 \<le> p_yesterday_volume r \<and> 0 \<le> p_frozen_volume r
     \<and> 0 \<le> p_settlement_locked_volume r
     \<and> p_total_volume r = p_today_volume r + p_yesterday_volume r
     \<and> p_available_volume r
         = p_total_volume r - p_frozen_volume r - p_settlement_locked_volume r
     \<and> p_frozen_volume r + p_settlement_locked_volume r \<le> p_total_volume r"

text \<open>The constraints of \<open>position_detail\<close>.\<close>

definition detail_ok :: "detail \<Rightarrow> bool" where
  "detail_ok r \<longleftrightarrow>
     0 < d_original_volume r \<and> 0 \<le> d_remaining_volume r \<and> 0 \<le> d_frozen_volume r
     \<and> d_remaining_volume r \<le> d_original_volume r
     \<and> d_frozen_volume r \<le> d_remaining_volume r
     \<and> 0 \<le> d_remaining_margin r \<and> 0 \<le> d_initial_occupied_margin r
     \<and> 0 \<le> d_realtime_required_margin r
     \<and> 0 < d_multiplier_snapshot r \<and> 0 < d_pnl_base_price r"

text \<open>The constraints of \<open>position_freeze_allocation\<close>.\<close>

definition allocation_ok :: "freeze_allocation \<Rightarrow> bool" where
  "allocation_ok r \<longleftrightarrow>
     0 < f_original_frozen_volume r \<and> 0 \<le> f_remaining_frozen_volume r
     \<and> 0 \<le> f_consumed_volume r \<and> 0 \<le> f_released_volume r
     \<and> f_original_frozen_volume r
         = f_remaining_frozen_volume r + f_consumed_volume r + f_released_volume r
     \<and> f_resolved_offset_flag r \<in> {CLOSE_TODAY, CLOSE_YESTERDAY}
     \<and> 0 \<le> f_commission_parameter r \<and> 0 < f_commission_contract_multiplier r
     \<and> 0 \<le> f_original_frozen_commission r \<and> 0 \<le> f_remaining_frozen_commission r
     \<and> 0 \<le> f_consumed_commission r \<and> 0 \<le> f_released_commission r
     \<and> f_original_frozen_commission r
         = f_remaining_frozen_commission r + f_consumed_commission r + f_released_commission r"

end
