(* ===== verification/Proportional.thy ===== *)
theory Proportional
  imports Schema
begin

text \<open>
  The pro-rata rule by which a fill takes its share of a frozen amount. The code has it four times:
  \<open>TradeSettlementService._allocate_frozen\<close>, \<open>OptionTradeSettlementStrategy._allocate\<close>,
  \<open>CloseTradeSettlementHandler._allocate_frozen_commission\<close> and, with range checks,
  \<open>MarginReleaseCalculator.calculate\<close>. The locale \<open>tail_allocator\<close> states what their callers rely
  on: the last fill takes everything that is left, so that a sequence of fills drains the amount
  exactly.
\<close>

section \<open>The four copies\<close>

definition settlement_allocate_frozen :: "decimal \<Rightarrow> int \<Rightarrow> int \<Rightarrow> decimal" where
  "settlement_allocate_frozen remaining_amount fill_volume remaining_volume_before_fill =
     (if fill_volume = remaining_volume_before_fill then quantize_money remaining_amount
      else quantize_money (remaining_amount * of_int fill_volume
                           / of_int remaining_volume_before_fill))"

definition option_allocate :: "decimal \<Rightarrow> int \<Rightarrow> int \<Rightarrow> decimal" where
  "option_allocate amount fill_volume remaining_volume =
     (if fill_volume = remaining_volume then quantize_money amount
      else quantize_money (amount * of_int fill_volume / of_int remaining_volume))"

definition close_allocate_frozen_commission :: "decimal \<Rightarrow> int \<Rightarrow> int \<Rightarrow> decimal" where
  "close_allocate_frozen_commission amount fill_volume remaining_volume =
     (if fill_volume = remaining_volume then quantize_money amount
      else quantize_money (amount * of_int fill_volume / of_int remaining_volume))"

definition margin_release :: "decimal \<Rightarrow> int \<Rightarrow> int \<Rightarrow> decimal result" where
  "margin_release remaining_margin close_volume remaining_volume_before_close =
     (if remaining_margin < 0 \<or> close_volume \<le> 0 \<or> remaining_volume_before_close \<le> 0
         \<or> remaining_volume_before_close < close_volume
      then Inl (DataAccessError ''POSITION_MARGIN_INCONSISTENT'')
      else if close_volume = remaining_volume_before_close
      then Inr (quantize_money remaining_margin)
      else Inr (quantize_money (remaining_margin * of_int close_volume
                                / of_int remaining_volume_before_close)))"

section \<open>The contract\<close>

text \<open>The amounts a list of fills takes, one after the other, from \<open>amount\<close> over \<open>volume\<close>.\<close>

fun release_sequence ::
  "(decimal \<Rightarrow> int \<Rightarrow> int \<Rightarrow> decimal) \<Rightarrow> decimal \<Rightarrow> int \<Rightarrow> int list \<Rightarrow> decimal list" where
  "release_sequence alloc amount volume [] = []"
| "release_sequence alloc amount volume (fill # fills) =
     (let part = alloc amount fill volume
      in part # release_sequence alloc (quantize_money (amount - part)) (volume - fill) fills)"

locale tail_allocator =
  fixes alloc :: "decimal \<Rightarrow> int \<Rightarrow> int \<Rightarrow> decimal"
  assumes all_left: "0 < v \<Longrightarrow> 0 \<le> a \<Longrightarrow> is_money a \<Longrightarrow> alloc a v v = a"
    and part_money: "is_money (alloc a f v)"
    and part_nonneg: "0 \<le> a \<Longrightarrow> 0 < f \<Longrightarrow> f \<le> v \<Longrightarrow> 0 \<le> alloc a f v"
    and part_le: "0 \<le> a \<Longrightarrow> is_money a \<Longrightarrow> 0 < f \<Longrightarrow> f \<le> v \<Longrightarrow> alloc a f v \<le> a"
begin

lemma remainder_money: "is_money a \<Longrightarrow> is_money (a - alloc a f v)"
  by (intro money_intros part_money)

lemma remainder_quantized [simp]:
  "is_money a \<Longrightarrow> quantize_money (a - alloc a f v) = a - alloc a f v"
  by (simp add: remainder_money)

lemma sequence_bounds:
  assumes "0 \<le> a" "is_money a" "\<forall>f \<in> set fills. 0 < f" "sum_list fills \<le> v"
  shows "(\<forall>x \<in> set (release_sequence alloc a v fills). 0 \<le> x \<and> is_money x)
    \<and> sum_list (release_sequence alloc a v fills) \<le> a"
  using assms
proof (induction fills arbitrary: a v)
  case Nil
  then show ?case by simp
next
  case (Cons f fills)
  let ?part = "alloc a f v"
  have "0 \<le> sum_list fills" using Cons.prems(3) by (intro sum_list_nonneg) auto
  then have f: "0 < f" "f \<le> v" using Cons.prems by auto
  have part: "0 \<le> ?part" "?part \<le> a" using f Cons.prems by (auto intro: part_nonneg part_le)
  have "(\<forall>x \<in> set (release_sequence alloc (a - ?part) (v - f) fills). 0 \<le> x \<and> is_money x)
      \<and> sum_list (release_sequence alloc (a - ?part) (v - f) fills) \<le> a - ?part"
    using Cons.prems part by (intro Cons.IH) (auto intro: remainder_money)
  with part Cons.prems(2) show ?case by (simp add: Let_def part_money)
qed

lemma sequence_drains:
  assumes "0 \<le> a" "is_money a" "\<forall>f \<in> set fills. 0 < f" "sum_list fills = v" "fills \<noteq> []"
  shows "sum_list (release_sequence alloc a v fills) = a"
  using assms
proof (induction fills arbitrary: a v)
  case Nil
  then show ?case by simp
next
  case (Cons f fills)
  let ?part = "alloc a f v"
  show ?case
  proof (cases "fills = []")
    case True
    with Cons.prems show ?thesis by (simp add: Let_def all_left)
  next
    case False
    have "0 \<le> sum_list fills" using Cons.prems(3) by (intro sum_list_nonneg) auto
    then have f: "0 < f" "f \<le> v" using Cons.prems by auto
    then have "?part \<le> a" using Cons.prems by (auto intro: part_le)
    then have "sum_list (release_sequence alloc (a - ?part) (v - f) fills) = a - ?part"
      using Cons.prems False by (intro Cons.IH) (auto intro: remainder_money)
    with Cons.prems(2) show ?thesis by (simp add: Let_def)
  qed
qed

end

section \<open>All four satisfy it\<close>

lemma pro_rata_bounds:
  assumes "0 \<le> a" "0 < f" "f \<le> v"
  shows "0 \<le> a * rat_of_int f / rat_of_int v" "a * rat_of_int f / rat_of_int v \<le> a"
proof -
  have v: "0 < rat_of_int v" using assms by simp
  show "0 \<le> a * rat_of_int f / rat_of_int v" using assms v by simp
  have "a * rat_of_int f \<le> a * rat_of_int v" using assms by (intro mult_left_mono) auto
  then show "a * rat_of_int f / rat_of_int v \<le> a" using v by (simp add: pos_divide_le_eq)
qed

lemma pro_rata_quantized:
  assumes "0 \<le> a" "is_money a" "0 < f" "f \<le> v"
  shows "quantize_money (a * rat_of_int f / rat_of_int v) \<le> a"
  using assms by (intro quantize_money_le pro_rata_bounds)

interpretation futures_alloc: tail_allocator settlement_allocate_frozen
  by unfold_locales
     (auto simp: settlement_allocate_frozen_def pro_rata_quantized
           intro: quantize_money_nonneg pro_rata_bounds)

interpretation option_alloc: tail_allocator option_allocate
  by unfold_locales
     (auto simp: option_allocate_def pro_rata_quantized
           intro: quantize_money_nonneg pro_rata_bounds)

interpretation commission_alloc: tail_allocator close_allocate_frozen_commission
  by unfold_locales
     (auto simp: close_allocate_frozen_commission_def pro_rata_quantized
           intro: quantize_money_nonneg pro_rata_bounds)

text \<open>The margin released from a detail, zero where the calculator raises.\<close>

definition margin_released :: "decimal \<Rightarrow> int \<Rightarrow> int \<Rightarrow> decimal" where
  "margin_released margin close_volume before =
     (case margin_release margin close_volume before of Inl _ \<Rightarrow> 0 | Inr released \<Rightarrow> released)"

interpretation margin_alloc: tail_allocator margin_released
  by unfold_locales
     (auto simp: margin_released_def margin_release_def pro_rata_quantized
           intro: quantize_money_nonneg pro_rata_bounds)

lemma margin_release_Inr_iff:
  "margin_release m c v = Inr r \<longleftrightarrow> 0 \<le> m \<and> 0 < c \<and> c \<le> v \<and> r = margin_released m c v"
  by (auto simp: margin_release_def margin_released_def)

lemma margin_release_last_fill:
  "0 \<le> m \<Longrightarrow> is_money m \<Longrightarrow> 0 < v \<Longrightarrow> margin_release m v v = Inr m"
  by (auto simp: margin_release_Inr_iff margin_alloc.all_left)

end
