(* ===== verification/Fees.thy ===== *)
theory Fees
  imports Proportional
begin

text \<open>
  \<open>app/services/fee_calculator.py\<close>. A nullable column that reaches the calculator is an option: the
  \<open>isinstance(x, Decimal)\<close> checks of the code fail on \<open>None\<close> and on nothing else here, since every
  other argument is a \<open>Decimal\<close> or an \<open>int\<close> by its type. Fee buckets keep the insertion order of the
  Python dictionary.
\<close>

section \<open>Rules and snapshots\<close>

record fee_rule_snapshot_data =
  frs_rule_id :: int
  frs_rule_version :: string
  frs_instrument_type :: instrument_type
  frs_direction :: order_direction
  frs_offset_flag :: offset_flag
  frs_commission_type :: commission_type
  frs_commission_parameter :: decimal
  frs_contract_multiplier :: decimal
  frs_data_source :: string

record stock_fee_component =
  sf_fee_type :: string
  sf_rule_item_id :: int
  sf_rule_version :: string
  sf_direction :: order_direction
  sf_calculation_type :: commission_type
  sf_commission_parameter :: decimal
  sf_minimum_fee :: decimal
  sf_aggregation_scope :: string
  sf_contract_multiplier :: decimal
  sf_data_source :: string

record fee_bucket_key =
  bk_resolved_offset_flag :: offset_flag
  bk_commission_type :: commission_type
  bk_commission_parameter :: decimal
  bk_commission_contract_multiplier :: decimal

record fee_bucket_entry =
  be_key :: fee_bucket_key
  be_volume :: int

section \<open>\<open>FeeCalculator\<close>\<close>

fun resolve_commission_parameter :: "offset_flag \<Rightarrow> fee_rule \<Rightarrow> decimal result" where
  "resolve_commission_parameter OPEN rule = Inr (fr_open_commission rule)"
| "resolve_commission_parameter CLOSE rule = Inr (fr_close_commission rule)"
| "resolve_commission_parameter CLOSE_TODAY rule = Inr (fr_close_today_commission rule)"
| "resolve_commission_parameter CLOSE_YESTERDAY rule = Inr (fr_close_commission rule)"
| "resolve_commission_parameter (UnknownOffset _) rule =
     Inl (BusinessValidationError ''UNSUPPORTED_OFFSET_FLAG'')"

fun raw_fee ::
  "decimal \<Rightarrow> int \<Rightarrow> commission_type \<Rightarrow> decimal \<Rightarrow> decimal \<Rightarrow> decimal result" where
  "raw_fee price volume BY_VOLUME parameter multiplier = Inr (of_int volume * parameter)"
| "raw_fee price volume BY_AMOUNT parameter multiplier =
     Inr (price * of_int volume * multiplier * parameter)"
| "raw_fee price volume (UnknownCommission _) parameter multiplier =
     Inl (BusinessValidationError ''UNSUPPORTED_COMMISSION_TYPE'')"

definition fee_from_snapshot ::
  "decimal \<Rightarrow> int \<Rightarrow> commission_type option \<Rightarrow> decimal option \<Rightarrow> decimal option
   \<Rightarrow> decimal result" where
  "fee_from_snapshot price volume commission_type commission_parameter contract_multiplier =
     (if price \<le> 0 then Inl (BusinessValidationError ''INVALID_FEE_PRICE'')
      else if volume \<le> 0 then Inl (BusinessValidationError ''INVALID_FEE_VOLUME'')
      else case commission_parameter of
        None \<Rightarrow> Inl (BusinessValidationError ''INVALID_COMMISSION_TYPE'')
      | Some parameter \<Rightarrow>
        if parameter < 0 then Inl (BusinessValidationError ''INVALID_COMMISSION'')
        else (case contract_multiplier of
          None \<Rightarrow> Inl (BusinessValidationError ''INVALID_CONTRACT_MULTIPLIER_TYPE'')
        | Some multiplier \<Rightarrow>
          if multiplier \<le> 0 then Inl (BusinessValidationError ''INVALID_CONTRACT_MULTIPLIER'')
          else (case commission_type of
            None \<Rightarrow> Inl (BusinessValidationError ''UNSUPPORTED_COMMISSION_TYPE'')
          | Some ctype \<Rightarrow>
              rbind (raw_fee price volume ctype parameter multiplier)
                (\<lambda>fee. Inr (quantize_money fee)))))"

definition calculate_fee ::
  "decimal \<Rightarrow> int \<Rightarrow> offset_flag \<Rightarrow> instrument \<Rightarrow> fee_rule \<Rightarrow> decimal result" where
  "calculate_fee price volume offset instrument rule =
     (if price \<le> 0 then Inl (BusinessValidationError ''INVALID_FEE_PRICE'')
      else if volume \<le> 0 then Inl (BusinessValidationError ''INVALID_FEE_VOLUME'')
      else rbind (resolve_commission_parameter offset rule)
        (\<lambda>commission. fee_from_snapshot price volume (Some (fr_commission_type rule))
           (Some commission) (i_contract_multiplier instrument)))"

text \<open>\<open>calculate_stock_components\<close>: the loop carries the total and the fee types seen so far.\<close>

fun stock_components_loop ::
  "decimal \<Rightarrow> int \<Rightarrow> string list \<Rightarrow> decimal \<Rightarrow> stock_fee_component list \<Rightarrow> decimal result" where
  "stock_components_loop price volume seen acc [] = Inr acc"
| "stock_components_loop price volume seen acc (c # cs) =
     (if sf_fee_type c \<in> set seen
      then Inl (BusinessValidationError ''DUPLICATE_STOCK_FEE_COMPONENT'')
      else rbind (fee_from_snapshot price volume (Some (sf_calculation_type c))
                    (Some (sf_commission_parameter c)) (Some (sf_contract_multiplier c)))
        (\<lambda>fee. stock_components_loop price volume (sf_fee_type c # seen)
           (acc + max fee (quantize_money (sf_minimum_fee c))) cs))"

definition calculate_stock_components ::
  "decimal \<Rightarrow> int \<Rightarrow> stock_fee_component list \<Rightarrow> decimal result" where
  "calculate_stock_components price volume components =
     rbind (stock_components_loop price volume [] 0 components)
       (\<lambda>fee_sum. Inr (quantize_money fee_sum))"

section \<open>\<open>calculate_bucket_allocations\<close>\<close>

text \<open>\<open>grouped_indices.setdefault(key, []).append(index)\<close> on an insertion-ordered dictionary.\<close>

fun append_index ::
  "fee_bucket_key \<Rightarrow> nat \<Rightarrow> (fee_bucket_key \<times> nat list) list \<Rightarrow> (fee_bucket_key \<times> nat list) list"
where
  "append_index key index [] = [(key, [index])]"
| "append_index key index ((k, indices) # groups) =
     (if k = key then (k, indices @ [index]) # groups
      else (k, indices) # append_index key index groups)"

fun known_commission_type :: "commission_type \<Rightarrow> bool" where
  "known_commission_type BY_VOLUME = True"
| "known_commission_type BY_AMOUNT = True"
| "known_commission_type (UnknownCommission _) = False"

fun group_indices ::
  "nat \<Rightarrow> fee_bucket_entry list \<Rightarrow> (fee_bucket_key \<times> nat list) list
   \<Rightarrow> (fee_bucket_key \<times> nat list) list result" where
  "group_indices index [] groups = Inr groups"
| "group_indices index (entry # entries) groups =
     (if be_volume entry \<le> 0 then Inl (BusinessValidationError ''INVALID_FEE_VOLUME'')
      else if \<not> known_commission_type (bk_commission_type (be_key entry))
      then Inl (BusinessValidationError ''UNSUPPORTED_COMMISSION_TYPE'')
      else group_indices (Suc index) entries (append_index (be_key entry) index groups))"

text \<open>
  The shares of one bucket over the volumes of its entries: by cumulative proportion, the last entry
  takes the rest.
\<close>

fun bucket_shares ::
  "decimal \<Rightarrow> int \<Rightarrow> decimal \<Rightarrow> int \<Rightarrow> int list \<Rightarrow> decimal list" where
  "bucket_shares bucket_commission total_volume allocated cumulative [] = []"
| "bucket_shares bucket_commission total_volume allocated cumulative [v] =
     [quantize_money (bucket_commission - allocated)]"
| "bucket_shares bucket_commission total_volume allocated cumulative (v # w # vs) =
     (let cumulative_volume = cumulative + v;
          cumulative_amount = quantize_money
            (bucket_commission * of_int cumulative_volume / of_int total_volume)
      in quantize_money (cumulative_amount - allocated)
         # bucket_shares bucket_commission total_volume cumulative_amount cumulative_volume
             (w # vs))"

definition write_shares :: "decimal list \<Rightarrow> nat list \<Rightarrow> decimal list \<Rightarrow> decimal list" where
  "write_shares res indices shares = fold (\<lambda>(i, s) r. r[i := s]) (zip indices shares) res"

definition allocate_bucket ::
  "decimal \<Rightarrow> fee_bucket_entry list \<Rightarrow> decimal list \<Rightarrow> fee_bucket_key \<times> nat list
   \<Rightarrow> decimal list result" where
  "allocate_bucket price entries res bucket =
     (let key = fst bucket; indices = snd bucket;
          volumes = map (\<lambda>i. be_volume (entries ! i)) indices;
          total_volume = sum_list volumes
      in rbind (fee_from_snapshot price total_volume (Some (bk_commission_type key))
                  (Some (bk_commission_parameter key))
                  (Some (bk_commission_contract_multiplier key)))
           (\<lambda>bucket_commission.
              Inr (write_shares res indices
                     (bucket_shares bucket_commission total_volume 0 0 volumes))))"

definition calculate_bucket_allocations ::
  "decimal \<Rightarrow> fee_bucket_entry list \<Rightarrow> decimal list result" where
  "calculate_bucket_allocations price entries =
     (if entries = [] then Inr []
      else rbind (group_indices 0 entries [])
        (\<lambda>groups. rfold (allocate_bucket price entries) (replicate (length entries) 0) groups))"

section \<open>Single fees\<close>

lemma fee_from_snapshot_Inr_iff:
  "fee_from_snapshot price volume ct param cm = Inr fee \<longleftrightarrow>
     0 < price \<and> 0 < volume \<and>
     (\<exists>p m t f. param = Some p \<and> 0 \<le> p \<and> cm = Some m \<and> 0 < m \<and> ct = Some t
        \<and> raw_fee price volume t p m = Inr f \<and> fee = quantize_money f)"
  by (auto simp: fee_from_snapshot_def rbind_Inr_iff not_le not_less split: option.splits)

lemma raw_fee_nonneg:
  "raw_fee price volume t p m = Inr f \<Longrightarrow> 0 < price \<Longrightarrow> 0 < volume \<Longrightarrow> 0 \<le> p \<Longrightarrow> 0 < m \<Longrightarrow> 0 \<le> f"
  by (cases t) auto

lemma fee_from_snapshot_money:
  assumes "fee_from_snapshot price volume ct param cm = Inr fee"
  shows "0 \<le> fee \<and> is_money fee"
  using assms by (auto simp: fee_from_snapshot_Inr_iff intro!: quantize_money_nonneg intro: raw_fee_nonneg)

lemma raw_fee_mono_volume:
  assumes "raw_fee price v t p m = Inr f" "raw_fee price w t p m = Inr g" "v \<le> w"
    "0 < price" "0 \<le> p" "0 < m"
  shows "f \<le> g"
  using assms by (cases t) (auto intro!: mult_right_mono mult_left_mono)

lemma raw_fee_total: "raw_fee price v t p m = Inr f \<Longrightarrow> \<exists>g. raw_fee q w t p m = Inr g"
  by (cases t) auto

section \<open>Shares of one bucket\<close>

lemma bucket_shares_length [simp]:
  "length (bucket_shares b n a c vs) = length vs"
  by (induction b n a c vs rule: bucket_shares.induct) (auto simp: Let_def)

lemma bucket_shares_sum:
  assumes "is_money a" "is_money b" "vs \<noteq> []"
  shows "sum_list (bucket_shares b n a c vs) = b - a"
  using assms
  by (induction b n a c vs rule: bucket_shares.induct)
     (auto simp: Let_def is_money_diff)

lemma bucket_shares_nonneg:
  assumes "0 \<le> b" "is_money b" "0 < n" "\<forall>v \<in> set vs. 0 < v" "0 \<le> c" "c + sum_list vs = n"
    and "a = quantize_money (b * of_int c / of_int n)"
  shows "\<forall>s \<in> set (bucket_shares b n a c vs). 0 \<le> s \<and> is_money s"
  using assms
proof (induction b n a c vs rule: bucket_shares.induct)
  case (1 b n a c)
  then show ?case by simp
next
  case (2 b n a c v)
  then have "a \<le> b"
    by (auto simp: field_simps intro!: quantize_money_le mult_left_mono)
  then show ?case by simp
next
  case (3 b n a c v w vs)
  let ?a' = "quantize_money (b * of_int (c + v) / of_int n)"
  have "a \<le> ?a'"
    unfolding 3(8) using 3(2,4,5)
    by (intro quantize_money_mono divide_right_mono mult_left_mono) auto
  moreover have "\<forall>s \<in> set (bucket_shares b n ?a' (c + v) (w # vs)). 0 \<le> s \<and> is_money s"
    using 3(2-) by (intro 3(1)) auto
  ultimately show ?case by (simp add: Let_def)
qed

section \<open>Grouping\<close>

text \<open>The indices, among the first \<open>n\<close> entries, of the entries with a given bucket key.\<close>

definition key_indices :: "fee_bucket_entry list \<Rightarrow> nat \<Rightarrow> fee_bucket_key \<Rightarrow> nat list" where
  "key_indices es n k = filter (\<lambda>i. be_key (es ! i) = k) [0..<n]"

lemma key_indices_Suc:
  "key_indices es (Suc n) k = key_indices es n k @ (if be_key (es ! n) = k then [n] else [])"
  by (simp add: key_indices_def)

lemma key_indices_distinct [simp]: "distinct (key_indices es n k)"
  by (simp add: key_indices_def)

lemma set_key_indices [simp]: "set (key_indices es n k) = {i. i < n \<and> be_key (es ! i) = k}"
  by (auto simp: key_indices_def)

lemma map_of_append_index:
  "map_of (append_index key i groups) k =
     (if k = key then Some ((case map_of groups key of None \<Rightarrow> [] | Some l \<Rightarrow> l) @ [i])
      else map_of groups k)"
  by (induction key i groups rule: append_index.induct) auto

lemma fst_append_index:
  "fst ` set (append_index key i groups) = insert key (fst ` set groups)"
  by (induction key i groups rule: append_index.induct) auto

lemma distinct_append_index:
  "distinct (map fst groups) \<Longrightarrow> distinct (map fst (append_index key i groups))"
  by (induction key i groups rule: append_index.induct) (auto simp: fst_append_index image_iff)

definition grouped_upto ::
  "fee_bucket_entry list \<Rightarrow> nat \<Rightarrow> (fee_bucket_key \<times> nat list) list \<Rightarrow> bool" where
  "grouped_upto es n groups \<longleftrightarrow> distinct (map fst groups) \<and>
     (\<forall>k. map_of groups k = (if key_indices es n k = [] then None else Some (key_indices es n k)))"

lemma grouped_upto_step:
  assumes "grouped_upto es n groups"
  shows "grouped_upto es (Suc n) (append_index (be_key (es ! n)) n groups)"
  using assms
  by (auto simp: grouped_upto_def distinct_append_index map_of_append_index key_indices_Suc)

lemma group_indices_grouped:
  assumes "group_indices n entries groups = Inr groups'" "entries = drop n es" "n \<le> length es"
    "grouped_upto es n groups"
  shows "grouped_upto es (length es) groups' \<and> (\<forall>e \<in> set entries. 0 < be_volume e)"
  using assms
proof (induction entries arbitrary: n groups)
  case Nil
  then show ?case by simp
next
  case (Cons e entries)
  then have n: "n < length es" "e = es ! n" "entries = drop (Suc n) es"
    by (metis drop_all linorder_not_le list.distinct(1), metis nth_via_drop,
        metis drop_Suc list.sel(3) tl_drop)
  from Cons.prems(1) have
    "group_indices (Suc n) entries (append_index (be_key e) n groups) = Inr groups'"
    "0 < be_volume e"
    by (auto split: if_splits)
  with Cons.IH [of "Suc n" "append_index (be_key e) n groups"] n Cons.prems(4)
  show ?case by (auto intro: grouped_upto_step)
qed

lemma grouped_upto_concat:
  assumes "grouped_upto es n groups"
  shows "distinct (concat (map snd groups)) \<and> (\<forall>k idx. (k, idx) \<in> set groups \<longrightarrow>
    idx = key_indices es n k \<and> idx \<noteq> [])"
proof -
  have keys: "idx = key_indices es n k \<and> idx \<noteq> []" if "(k, idx) \<in> set groups" for k idx
  proof -
    have "map_of groups k = Some idx"
      using assms that by (intro map_of_is_SomeI) (auto simp: grouped_upto_def)
    with assms show ?thesis by (metis grouped_upto_def option.distinct(1) option.inject)
  qed
  have "distinct (map fst groups)" using assms by (simp add: grouped_upto_def)
  then have "distinct (concat (map snd groups))"
    using keys
  proof (induction groups)
    case Nil
    then show ?case by simp
  next
    case (Cons g groups)
    obtain k idx where g: "g = (k, idx)" by (cases g)
    have "set idx \<inter> set (concat (map snd groups)) = {}"
    proof -
      have "i \<notin> set idx'" if "i \<in> set idx" "(k', idx') \<in> set groups" for i k' idx'
      proof -
        have "k \<noteq> k'" using Cons.prems(1) that(2) by (force simp: g)
        moreover have "idx = key_indices es n k" "idx' = key_indices es n k'"
          using Cons.prems(2) [of k idx] Cons.prems(2) [of k' idx'] that(2) by (simp_all add: g)
        ultimately show ?thesis using that(1) by auto
      qed
      then show ?thesis by fastforce
    qed
    moreover have "distinct idx" using Cons.prems(2) [of k idx] by (simp add: g)
    moreover have "distinct (concat (map snd groups))"
    proof (rule Cons.IH)
      show "distinct (map fst groups)" using Cons.prems(1) by (simp add: g)
    next
      fix k' idx' assume "(k', idx') \<in> set groups"
      then show "idx' = key_indices es n k' \<and> idx' \<noteq> []" by (intro Cons.prems(2)) simp
    qed
    ultimately show ?case by (simp add: g)
  qed
  with keys show ?thesis by blast
qed

section \<open>Writing the shares back\<close>

lemma write_shares_Cons:
  "write_shares res (i # is) (s # ss) = write_shares (res[i := s]) is ss"
  by (simp add: write_shares_def)

lemma write_shares_Nil [simp]: "write_shares res [] ss = res"
  by (simp add: write_shares_def)

lemma write_shares_frame:
  "length is = length ss \<Longrightarrow> length (write_shares res is ss) = length res
     \<and> (\<forall>j. j \<notin> set is \<longrightarrow> write_shares res is ss ! j = res ! j)"
  by (induction "is" ss arbitrary: res rule: list_induct2) (auto simp: write_shares_Cons)

lemma write_shares_written:
  "length is = length ss \<Longrightarrow> distinct is \<Longrightarrow> \<forall>i \<in> set is. i < length res \<Longrightarrow>
     map ((!) (write_shares res is ss)) is = ss"
  by (induction "is" ss arbitrary: res rule: list_induct2)
     (auto simp: write_shares_Cons write_shares_frame)

lemma allocate_bucket_Inr:
  assumes "allocate_bucket price es res (k, idx) = Inr out"
    and "distinct idx" "\<forall>i \<in> set idx. i < length res"
  shows "length out = length res \<and> (\<forall>j. j \<notin> set idx \<longrightarrow> out ! j = res ! j) \<and>
    (\<exists>b. fee_from_snapshot price (\<Sum>i \<leftarrow> idx. be_volume (es ! i)) (Some (bk_commission_type k))
          (Some (bk_commission_parameter k)) (Some (bk_commission_contract_multiplier k)) = Inr b
       \<and> map ((!) out) idx = bucket_shares b (\<Sum>i \<leftarrow> idx. be_volume (es ! i)) 0 0
                                (map (\<lambda>i. be_volume (es ! i)) idx))"
  using assms
  by (auto simp: allocate_bucket_def Let_def rbind_Inr_iff write_shares_frame write_shares_written)

lemma allocate_buckets_Inr:
  assumes "rfold (allocate_bucket price es) res groups = Inr out"
    and "distinct (concat (map snd groups))"
    and "\<forall>i \<in> set (concat (map snd groups)). i < length res"
  shows "length out = length res \<and>
    (\<forall>j. j \<notin> set (concat (map snd groups)) \<longrightarrow> out ! j = res ! j) \<and>
    (\<forall>(k, idx) \<in> set groups.
      \<exists>b. fee_from_snapshot price (\<Sum>i \<leftarrow> idx. be_volume (es ! i)) (Some (bk_commission_type k))
            (Some (bk_commission_parameter k)) (Some (bk_commission_contract_multiplier k)) = Inr b
         \<and> map ((!) out) idx = bucket_shares b (\<Sum>i \<leftarrow> idx. be_volume (es ! i)) 0 0
                                  (map (\<lambda>i. be_volume (es ! i)) idx))"
  using assms
proof (induction groups arbitrary: res)
  case Nil
  then show ?case by simp
next
  case (Cons g groups)
  obtain k idx where g: "g = (k, idx)" by (cases g)
  from Cons.prems(1) obtain mid where
    mid: "allocate_bucket price es res (k, idx) = Inr mid"
    and rest: "rfold (allocate_bucket price es) mid groups = Inr out"
    by (auto simp: g rbind_Inr_iff)
  have idx: "distinct idx" "\<forall>i \<in> set idx. i < length res"
    "set idx \<inter> set (concat (map snd groups)) = {}"
    using Cons.prems(2,3) by (auto simp: g)
  note first = allocate_bucket_Inr [OF mid idx(1,2)]
  have IH: "length out = length mid \<and>
    (\<forall>j. j \<notin> set (concat (map snd groups)) \<longrightarrow> out ! j = mid ! j) \<and>
    (\<forall>(k, idx) \<in> set groups.
      \<exists>b. fee_from_snapshot price (\<Sum>i \<leftarrow> idx. be_volume (es ! i)) (Some (bk_commission_type k))
            (Some (bk_commission_parameter k)) (Some (bk_commission_contract_multiplier k)) = Inr b
         \<and> map ((!) out) idx = bucket_shares b (\<Sum>i \<leftarrow> idx. be_volume (es ! i)) 0 0
                                  (map (\<lambda>i. be_volume (es ! i)) idx))"
    using Cons.prems(2,3) rest first by (intro Cons.IH) (auto simp: g)
  have kept: "map ((!) out) idx = map ((!) mid) idx"
    using IH idx(3) by (intro map_cong refl) blast
  from IH first show ?case by (auto simp: g kept)
qed

section \<open>The buckets conserve their fee\<close>

lemma calculate_bucket_allocations_Inr:
  assumes "calculate_bucket_allocations price es = Inr shares"
  shows "length shares = length es \<and> (\<forall>e \<in> set es. 0 < be_volume e) \<and>
    (\<forall>e \<in> set es. let k = be_key e; idx = key_indices es (length es) k in
      \<exists>b. fee_from_snapshot price (\<Sum>i \<leftarrow> idx. be_volume (es ! i)) (Some (bk_commission_type k))
            (Some (bk_commission_parameter k)) (Some (bk_commission_contract_multiplier k)) = Inr b
         \<and> map ((!) shares) idx = bucket_shares b (\<Sum>i \<leftarrow> idx. be_volume (es ! i)) 0 0
                                     (map (\<lambda>i. be_volume (es ! i)) idx))"
proof (cases "es = []")
  case True
  with assms show ?thesis by (simp add: calculate_bucket_allocations_def)
next
  case False
  with assms obtain groups where
    groups: "group_indices 0 es [] = Inr groups"
    and shares: "rfold (allocate_bucket price es) (replicate (length es) 0) groups = Inr shares"
    by (auto simp: calculate_bucket_allocations_def rbind_Inr_iff)
  have grouped: "grouped_upto es (length es) groups" "\<forall>e \<in> set es. 0 < be_volume e"
    using group_indices_grouped [OF groups]
    by (auto simp: grouped_upto_def key_indices_def)
  note parts = grouped_upto_concat [OF grouped(1)]
  have bound: "\<forall>i \<in> set (concat (map snd groups)). i < length (replicate (length es) (0 :: rat))"
  proof
    fix i assume "i \<in> set (concat (map snd groups))"
    then obtain k idx where "(k, idx) \<in> set groups" "i \<in> set idx" by auto
    with parts have "i \<in> set (key_indices es (length es) k)" by auto
    then show "i < length (replicate (length es) (0 :: rat))" by simp
  qed
  note out = allocate_buckets_Inr [OF shares conjunct1 [OF parts] bound]
  have "let k = be_key e; idx = key_indices es (length es) k in
      \<exists>b. fee_from_snapshot price (\<Sum>i \<leftarrow> idx. be_volume (es ! i)) (Some (bk_commission_type k))
            (Some (bk_commission_parameter k)) (Some (bk_commission_contract_multiplier k)) = Inr b
         \<and> map ((!) shares) idx = bucket_shares b (\<Sum>i \<leftarrow> idx. be_volume (es ! i)) 0 0
                                     (map (\<lambda>i. be_volume (es ! i)) idx)"
    if "e \<in> set es" for e
  proof -
    from that obtain i where "i < length es" "e = es ! i" by (auto simp: in_set_conv_nth)
    then have "key_indices es (length es) (be_key e) \<noteq> []"
      by (auto simp: key_indices_def filter_empty_conv)
    with grouped(1) have "(be_key e, key_indices es (length es) (be_key e)) \<in> set groups"
      by (intro map_of_SomeD) (simp add: grouped_upto_def)
    with out show ?thesis unfolding Let_def by blast
  qed
  with out grouped(2) show ?thesis by simp
qed

lemma bucket_allocations_conserve:
  assumes "calculate_bucket_allocations price es = Inr shares"
  shows "length shares = length es \<and> (\<forall>s \<in> set shares. 0 \<le> s \<and> is_money s) \<and>
    (\<forall>e \<in> set es. let k = be_key e; idx = key_indices es (length es) k in
       fee_from_snapshot price (\<Sum>i \<leftarrow> idx. be_volume (es ! i)) (Some (bk_commission_type k))
         (Some (bk_commission_parameter k)) (Some (bk_commission_contract_multiplier k))
       = Inr (\<Sum>i \<leftarrow> idx. shares ! i))"
proof -
  note out = calculate_bucket_allocations_Inr [OF assms]
  have each: "fee_from_snapshot price (\<Sum>i \<leftarrow> idx. be_volume (es ! i)) (Some (bk_commission_type k))
         (Some (bk_commission_parameter k)) (Some (bk_commission_contract_multiplier k))
       = Inr (\<Sum>i \<leftarrow> idx. shares ! i) \<and> (\<forall>i \<in> set idx. 0 \<le> shares ! i \<and> is_money (shares ! i))"
    if e: "e \<in> set es" and k: "k = be_key e" and idx: "idx = key_indices es (length es) k"
    for e k idx
  proof -
    let ?vs = "map (\<lambda>i. be_volume (es ! i)) idx"
    from out e obtain b where
      fee: "fee_from_snapshot price (sum_list ?vs) (Some (bk_commission_type k))
         (Some (bk_commission_parameter k)) (Some (bk_commission_contract_multiplier k)) = Inr b"
      and shares: "map ((!) shares) idx = bucket_shares b (sum_list ?vs) 0 0 ?vs"
      unfolding k idx Let_def by blast
    have b: "0 \<le> b" "is_money b" using fee_from_snapshot_money [OF fee] by auto
    have pos: "\<forall>v \<in> set ?vs. 0 < v" using out by (auto simp: idx)
    have n: "0 < sum_list ?vs" using fee by (auto simp: fee_from_snapshot_Inr_iff)
    then have "?vs \<noteq> []" by auto
    then have "sum_list (map ((!) shares) idx) = b"
      using b by (simp add: shares bucket_shares_sum del: map_is_Nil_conv)
    moreover have "\<forall>s \<in> set (map ((!) shares) idx). 0 \<le> s \<and> is_money s"
      unfolding shares using b n pos by (intro bucket_shares_nonneg) auto
    ultimately show ?thesis using fee by simp
  qed
  have "0 \<le> s \<and> is_money s" if "s \<in> set shares" for s
  proof -
    from that out obtain i where i: "i < length es" "s = shares ! i"
      by (metis in_set_conv_nth)
    with each [of "es ! i" "be_key (es ! i)" "key_indices es (length es) (be_key (es ! i))"]
    show ?thesis by auto
  qed
  with each out show ?thesis by (simp add: Let_def)
qed

end
