(* ===== verification/Core_Properties.thy ===== *)
theory Core_Properties
  imports Matching Proportional Fees
begin

text \<open>
  Properties of the pure parts of a fill: the price and volume a match yields, the shares of the
  frozen amounts that successive fills take, and the commission spread over the details of a close.
\<close>

section \<open>Matching\<close>

text \<open>
  The VN engine matches exactly when it may and never beyond what it may. An order with remaining
  volume is matched if and only if the opposite side quotes a positive price within the order's limit
  with volume behind it; the fill is at that quote and takes the smaller of the two volumes; an
  unmatched result carries neither price nor volume.
\<close>

theorem vn_match_exact:
  "(r_matched (vn_match ord mkt)
      = (0 < mo_remaining_volume ord \<and> mo_direction ord \<in> {BUY, SELL}
         \<and> 0 < vn_opposite_volume (mo_direction ord) mkt
         \<and> (case vn_opposite_price (mo_direction ord) mkt of
              None \<Rightarrow> False
            | Some q \<Rightarrow> 0 < q \<and> (if mo_direction ord = BUY then q \<le> mo_limit_price ord
                                 else mo_limit_price ord \<le> q))))
   \<and> (if r_matched (vn_match ord mkt)
      then r_fill_price (vn_match ord mkt) = vn_opposite_price (mo_direction ord) mkt
           \<and> r_fill_volume (vn_match ord mkt)
               = min (mo_remaining_volume ord) (vn_opposite_volume (mo_direction ord) mkt)
           \<and> 0 < r_fill_volume (vn_match ord mkt)
      else r_fill_price (vn_match ord mkt) = None \<and> r_fill_volume (vn_match ord mkt) = 0)"
  using vn.fill_volume_bounds [of ord mkt] unfolding vn.matched_iff
  by (auto simp: vn.matched_price vn.matched_volume vn.unmatched_empty vn.matched_iff
      split: option.split)

text \<open>
  The two matching algorithms agree. On the same order and the same level-one quotes, the cash
  security strategy gives the match, price, volume and reason of the VN engine, for every instrument
  it supports.
\<close>

theorem matching_engines_agree:
  assumes "cso_instrument_type c \<in> cash_security_instrument_types"
    and "cso_direction c = mo_direction ord" "cso_limit_price c = mo_limit_price ord"
      "cso_remaining_volume c = mo_remaining_volume ord"
    and "csm_bid_price_1 q = mm_bid_price_1 mkt" "csm_bid_volume_1 q = mm_bid_volume_1 mkt"
      "csm_ask_price_1 q = mm_ask_price_1 mkt" "csm_ask_volume_1 q = mm_ask_volume_1 mkt"
  shows "csr_matched (cash_security_match c q) = r_matched (vn_match ord mkt)
    \<and> csr_fill_price (cash_security_match c q) = r_fill_price (vn_match ord mkt)
    \<and> csr_fill_volume (cash_security_match c q) = r_fill_volume (vn_match ord mkt)
    \<and> csr_reason (cash_security_match c q) = r_reason (vn_match ord mkt)"
  using assms
  by (auto simp: cash_security_match_def vn_match_def cash_no_match_def cash_filled_def
      vn_matched_def vn_not_matched_def split: order_direction.split option.split)

theorem matching_engines_agree_witness:
  "\<exists>c q ord mkt. csr_matched (cash_security_match c q) \<and> r_matched (vn_match ord mkt)
     \<and> csr_fill_volume (cash_security_match c q) = r_fill_volume (vn_match ord mkt)"
proof -
  let ?c = "\<lparr>cso_order_id = ''O'', cso_instrument_type = STOCK, cso_direction = BUY,
    cso_limit_price = 10, cso_remaining_volume = 300\<rparr>"
  let ?q = "\<lparr>csm_bid_price_1 = Some 9, csm_bid_volume_1 = 5, csm_ask_price_1 = Some 10,
    csm_ask_volume_1 = 200\<rparr>"
  let ?o = "\<lparr>mo_direction = BUY, mo_offset_flag = None, mo_order_type = LIMIT,
    mo_limit_price = 10, mo_remaining_volume = 300\<rparr>"
  let ?m = "\<lparr>mm_bid_price_1 = Some 9, mm_bid_volume_1 = 5, mm_ask_price_1 = Some 10,
    mm_ask_volume_1 = 200\<rparr>"
  have "cso_instrument_type ?c \<in> cash_security_instrument_types"
    by (simp add: cash_security_instrument_types_def)
  from matching_engines_agree [OF this, of ?o ?q ?m]
  have "csr_matched (cash_security_match ?c ?q) = r_matched (vn_match ?o ?m)
    \<and> csr_fill_volume (cash_security_match ?c ?q) = r_fill_volume (vn_match ?o ?m)" by simp
  moreover have "r_matched (vn_match ?o ?m)" by (simp add: vn_match_def vn_matched_def)
  ultimately show ?thesis by blast
qed

section \<open>Proportional release\<close>

text \<open>
  C39: fills drain what was frozen, exactly. However an order's volume is split into fills, the
  margins that a futures open, an option open, the frozen commission of a close and the margin of a
  detail give up are never negative, never overdraw, and together are the amount that was there, to
  the last of the six decimals.
\<close>

theorem fills_drain_frozen:
  assumes "0 \<le> amount" "is_money amount" "fills \<noteq> []" "list_all (\<lambda>v. 0 < v) fills"
    and "alloc \<in> {settlement_allocate_frozen, option_allocate, close_allocate_frozen_commission,
      margin_released}"
  shows "sum_list (release_sequence alloc amount (sum_list fills) fills) = amount
    \<and> list_all (\<lambda>x. 0 \<le> x \<and> is_money x) (release_sequence alloc amount (sum_list fills) fills)"
proof -
  have fills: "\<forall>f \<in> set fills. 0 < f" using assms(4) by (simp add: list_all_iff)
  note prems = assms(1,2) fills
  have "sum_list (release_sequence alloc amount (sum_list fills) fills) = amount"
    using assms(5) futures_alloc.sequence_drains [OF prems refl assms(3)]
      option_alloc.sequence_drains [OF prems refl assms(3)]
      commission_alloc.sequence_drains [OF prems refl assms(3)]
      margin_alloc.sequence_drains [OF prems refl assms(3)] by blast
  moreover have "\<forall>x \<in> set (release_sequence alloc amount (sum_list fills) fills).
      0 \<le> x \<and> is_money x"
    using assms(5) futures_alloc.sequence_bounds [OF prems order_refl]
      option_alloc.sequence_bounds [OF prems order_refl]
      commission_alloc.sequence_bounds [OF prems order_refl]
      margin_alloc.sequence_bounds [OF prems order_refl] by blast
  ultimately show ?thesis by (simp add: list_all_iff)
qed

theorem fills_drain_frozen_witness:
  "sum_list (release_sequence settlement_allocate_frozen 100 3 [1, 2]) = 100
   \<and> sum_list (release_sequence margin_released 100 7 [2, 2, 3]) = 100"
  using fills_drain_frozen [of 100 "[1, 2]" settlement_allocate_frozen]
    fills_drain_frozen [of 100 "[2, 2, 3]" margin_released] is_money_of_int [of 100]
  by (simp del: release_sequence.simps is_money_of_int)

section \<open>Commission per detail\<close>

text \<open>
  The commission of a close is spread without loss. The details are grouped into buckets by
  offset flag and fee rule, wherever they stand in the list; the shares are stored amounts, none is
  negative, and the shares of a bucket add up to exactly the fee of the bucket's whole volume.
\<close>

theorem bucket_commission_conserved:
  assumes "calculate_bucket_allocations price es = Inr shares"
  shows "length shares = length es \<and> list_all (\<lambda>s. 0 \<le> s \<and> is_money s) shares
    \<and> list_all (\<lambda>e. let k = be_key e; idx = key_indices es (length es) k in
       fee_from_snapshot price (\<Sum>i \<leftarrow> idx. be_volume (es ! i)) (Some (bk_commission_type k))
         (Some (bk_commission_parameter k)) (Some (bk_commission_contract_multiplier k))
       = Inr (\<Sum>i \<leftarrow> idx. shares ! i)) es"
  using bucket_allocations_conserve [OF assms] by (simp add: list_all_iff)

theorem bucket_commission_conserved_witness:
  "\<exists>shares. calculate_bucket_allocations 3500
       [\<lparr>be_key = \<lparr>bk_resolved_offset_flag = CLOSE_TODAY, bk_commission_type = BY_VOLUME,
           bk_commission_parameter = 1/3, bk_commission_contract_multiplier = 10\<rparr>, be_volume = 1\<rparr>,
        \<lparr>be_key = \<lparr>bk_resolved_offset_flag = CLOSE_TODAY, bk_commission_type = BY_VOLUME,
           bk_commission_parameter = 1/3, bk_commission_contract_multiplier = 10\<rparr>, be_volume = 2\<rparr>]
     = Inr shares \<and> length shares = 2 \<and> sum_list shares = 1"
proof -
  let ?k = "\<lparr>bk_resolved_offset_flag = CLOSE_TODAY, bk_commission_type = BY_VOLUME,
    bk_commission_parameter = 1/3, bk_commission_contract_multiplier = 10\<rparr>"
  let ?es = "[\<lparr>be_key = ?k, be_volume = 1\<rparr>, \<lparr>be_key = ?k, be_volume = 2\<rparr>]"
  obtain shares where run: "calculate_bucket_allocations 3500 ?es = Inr shares"
    by (simp add: calculate_bucket_allocations_def allocate_bucket_def fee_from_snapshot_def)
  note all = bucket_commission_conserved [OF run]
  have "shares ! 0 + shares ! Suc 0 = 1"
    using all is_money_of_int [of 1]
    by (simp add: key_indices_def upt_rec fee_from_snapshot_def Let_def del: is_money_of_int)
  moreover have "shares = [shares ! 0, shares ! Suc 0]" using all by (cases shares; cases "tl shares") auto
  then have "sum_list shares = shares ! 0 + shares ! Suc 0" by (metis add.right_neutral sum_list.Cons sum_list.Nil)
  ultimately show ?thesis using run all by simp
qed

end
