(* ===== verification/Products.thy ===== *)
theory Products
  imports Codes
begin

text \<open>
  \<open>app/services/product_strategy_registry.py\<close>: instrument types are dispatched to a product family
  by their normalised text; what was never registered is an error, never a fallback.
\<close>

record product_strategy =
  family :: product_family
  instrument_types :: "string list"
  is_option :: bool

definition futures_product_strategy :: product_strategy where
  "futures_product_strategy =
     \<lparr>family = FUTURES_FAMILY, instrument_types = [''FUTURES''], is_option = False\<rparr>"

definition option_product_strategy :: product_strategy where
  "option_product_strategy =
     \<lparr>family = OPTIONS_FAMILY, instrument_types = [''FUTURES_OPTION'', ''INDEX_OPTION''],
      is_option = True\<rparr>"

definition stock_product_strategy :: product_strategy where
  "stock_product_strategy =
     \<lparr>family = STOCKS_FAMILY, instrument_types = [''STOCK''], is_option = False\<rparr>"

definition convertible_bond_product_strategy :: product_strategy where
  "convertible_bond_product_strategy =
     \<lparr>family = CONVERTIBLE_BONDS_FAMILY, instrument_types = [''CONVERTIBLE_BOND''],
      is_option = False\<rparr>"

type_synonym product_registry = "(string \<times> product_strategy) list"

definition product_register :: "product_strategy \<Rightarrow> product_registry \<Rightarrow> product_registry result" where
  "product_register strategy reg =
     (if instrument_types strategy = [] then Inl PyValueError
      else rfold (\<lambda>r instrument_type.
             let normalized = normalize_text instrument_type
             in if normalized = [] then Inl PyValueError
                else if map_of r normalized \<noteq> None then Inl PyValueError
                else Inr ((normalized, strategy) # r))
           reg (instrument_types strategy))"

definition product_resolve :: "product_registry \<Rightarrow> instrument_type \<Rightarrow> product_strategy result" where
  "product_resolve reg it =
     (case map_of reg (normalize_text (instrument_type_value it)) of
        None \<Rightarrow> Inl (BusinessRuleError ''PRODUCT_STRATEGY_NOT_REGISTERED'')
      | Some strategy \<Rightarrow> Inr strategy)"

text \<open>The module registers its four strategies when it is loaded.\<close>

definition build_product_registry :: "product_registry result" where
  "build_product_registry =
     rfold (\<lambda>reg s. product_register s reg) []
       [futures_product_strategy, option_product_strategy, stock_product_strategy,
        convertible_bond_product_strategy]"

definition product_strategy_registry :: product_registry where
  "product_strategy_registry = (case build_product_registry of Inl _ \<Rightarrow> [] | Inr reg \<Rightarrow> reg)"

definition resolve_product_strategy :: "instrument_type \<Rightarrow> product_strategy result" where
  "resolve_product_strategy = product_resolve product_strategy_registry"

section \<open>The registry as built\<close>

lemma normalize_instrument_types [simp]:
  "normalize_text ''FUTURES'' = ''FUTURES''"
  "normalize_text ''FUTURES_OPTION'' = ''FUTURES_OPTION''"
  "normalize_text ''INDEX_OPTION'' = ''INDEX_OPTION''"
  "normalize_text ''INDEX'' = ''INDEX''"
  "normalize_text ''STOCK'' = ''STOCK''"
  "normalize_text ''CONVERTIBLE_BOND'' = ''CONVERTIBLE_BOND''"
  "normalize_text ''ETF'' = ''ETF''"
  by code_simp+

lemma product_strategy_registry_eq:
  "product_strategy_registry =
     [(''CONVERTIBLE_BOND'', convertible_bond_product_strategy),
      (''STOCK'', stock_product_strategy),
      (''INDEX_OPTION'', option_product_strategy), (''FUTURES_OPTION'', option_product_strategy),
      (''FUTURES'', futures_product_strategy)]"
  by (simp add: product_strategy_registry_def build_product_registry_def product_register_def
      futures_product_strategy_def option_product_strategy_def stock_product_strategy_def
      convertible_bond_product_strategy_def Let_def)

lemma resolve_product_strategy_simps [simp]:
  "resolve_product_strategy FUTURES = Inr futures_product_strategy"
  "resolve_product_strategy FUTURES_OPTION = Inr option_product_strategy"
  "resolve_product_strategy INDEX_OPTION = Inr option_product_strategy"
  "resolve_product_strategy STOCK = Inr stock_product_strategy"
  "resolve_product_strategy CONVERTIBLE_BOND = Inr convertible_bond_product_strategy"
  "resolve_product_strategy INDEX =
     Inl (BusinessRuleError ''PRODUCT_STRATEGY_NOT_REGISTERED'')"
  "resolve_product_strategy ETF = Inl (BusinessRuleError ''PRODUCT_STRATEGY_NOT_REGISTERED'')"
  by (simp_all add: resolve_product_strategy_def product_resolve_def product_strategy_registry_eq)

section \<open>Property\<close>

text \<open>
  No registration takes an instrument type over from another strategy, and a type that is
  registered a second time is refused; a resolved strategy is one that lists the type.
\<close>

theorem product_registration_is_exclusive:
  assumes "product_register s reg = Inr reg'"
  shows "(\<forall>key t. map_of reg key = Some t \<longrightarrow> map_of reg' key = Some t)
    \<and> (\<forall>it \<in> set (instrument_types s). map_of reg (normalize_text it) = None)
    \<and> (\<forall>it \<in> set (instrument_types s). map_of reg' (normalize_text it) = Some s)
    \<and> (\<exists>e. product_register s reg' = Inl e)"
proof -
  let ?step = "\<lambda>r instrument_type.
             let normalized = normalize_text instrument_type
             in if normalized = [] then Inl PyValueError
                else if map_of r normalized \<noteq> None then Inl PyValueError
                else Inr ((normalized, s) # r)"
  have steps: "(\<forall>it \<in> set its. map_of r (normalize_text it) = None)
      \<and> (\<forall>key t. map_of r key = Some t \<longrightarrow> map_of r' key = Some t)
      \<and> (\<forall>it \<in> set its. map_of r' (normalize_text it) = Some s)"
    if "rfold ?step r its = Inr r'" for its r r'
    using that
  proof (induction its arbitrary: r)
    case (Cons it its)
    then have new: "normalize_text it \<noteq> []" "map_of r (normalize_text it) = None"
      and rest: "rfold ?step ((normalize_text it, s) # r) its = Inr r'"
      by (auto simp: rbind_Inr_iff Let_def split: if_splits)
    note IH = Cons.IH [OF rest]
    have "map_of r' key = Some t" if "map_of r key = Some t" for key t
    proof -
      from that new have "key \<noteq> normalize_text it" by auto
      with that IH show ?thesis by auto
    qed
    moreover have "map_of r' (normalize_text it) = Some s" using IH by auto
    ultimately show ?case using IH new by (auto split: if_splits)
  qed simp
  from assms have ne: "instrument_types s \<noteq> []"
    and run: "rfold ?step reg (instrument_types s) = Inr reg'"
    by (auto simp: product_register_def split: if_splits)
  note s = steps [OF run]
  have "\<exists>e. product_register s reg' = Inl e"
  proof (cases "product_register s reg'")
    case (Inr reg'')
    then have "rfold ?step reg' (instrument_types s) = Inr reg''"
      by (simp add: product_register_def ne)
    from steps [OF this] s ne show ?thesis by (cases "instrument_types s") auto
  qed simp
  with s show ?thesis by blast
qed

theorem product_registration_is_exclusive_witness:
  "\<exists>reg' e. product_register stock_product_strategy [] = Inr reg'
     \<and> product_register stock_product_strategy reg' = Inl e"
proof -
  have "product_register stock_product_strategy [] = Inr [(''STOCK'', stock_product_strategy)]"
    by (simp add: product_register_def stock_product_strategy_def Let_def)
  from product_registration_is_exclusive [OF this] this show ?thesis by blast
qed

end
