(* ===== verification/Calculators.thy ===== *)
theory Calculators
  imports Proportional Codes
begin

text \<open>
  The pure calculators: \<open>realized_pnl_calculator.py\<close>, \<open>pnl_calculator.py\<close>, \<open>margin_calculator.py\<close>,
  \<open>option_premium_calculator.py\<close>, \<open>price_tick_validation.py\<close> and \<open>account_valuation_calculator.py\<close>
  under \<open>app/services/\<close>. Arguments are decimals and integers by their types, so the
  \<open>isinstance\<close> checks of the code leave a branch only where a column is nullable.
\<close>

section \<open>\<open>RealizedPnlCalculator\<close>\<close>

definition realized_pnl ::
  "order_direction \<Rightarrow> decimal \<Rightarrow> decimal \<Rightarrow> int \<Rightarrow> decimal \<Rightarrow> decimal result" where
  "realized_pnl close_direction open_price close_price volume contract_multiplier =
     (case close_direction of
        SELL \<Rightarrow> Inr (quantize_money
                  ((close_price - open_price) * of_int volume * contract_multiplier))
      | BUY \<Rightarrow> Inr (quantize_money
                  ((open_price - close_price) * of_int volume * contract_multiplier))
      | UnknownDirection _ \<Rightarrow> Inl (BusinessValidationError ''INVALID_CLOSE_DIRECTION''))"

section \<open>\<open>PnlCalculator\<close>\<close>

record pnl_detail_snapshot =
  pd_position_detail_id :: string
  pd_open_price :: decimal
  pd_pnl_base_price :: decimal
  pd_remaining_volume :: int

record position_pnl_snapshot =
  ps_position_id :: string
  ps_account_id :: string
  ps_order_book_id :: string
  ps_exchange_id :: string
  ps_symbol :: string
  ps_direction :: position_direction
  ps_contract_multiplier :: decimal
  ps_persisted_unrealized_pnl :: decimal
  ps_persisted_daily_position_pnl :: decimal
  ps_details :: "pnl_detail_snapshot list"
  ps_instrument_type :: instrument_type
  ps_total_volume :: int
  ps_persisted_realtime_required_margin :: decimal
  ps_persisted_used_margin :: decimal
  ps_option_type :: "option_type option"
  ps_strike_price :: "decimal option"
  ps_underlying_exchange_id :: "string option"
  ps_underlying_symbol :: "string option"
  ps_underlying_order_book_id :: "string option"
  ps_margin_rule_snapshot :: "(string \<times> string) list"
  ps_source_fact_version :: string
  ps_uses_settlement_basis :: bool
  ps_trading_day :: "date option"

text \<open>\<open>PositionPnlSnapshot.underlying_key\<close>: \<open>None\<close> and the empty text are both falsy.\<close>

definition underlying_key :: "position_pnl_snapshot \<Rightarrow> (string \<times> string) option" where
  "underlying_key s =
     (case (ps_underlying_exchange_id s, ps_underlying_order_book_id s) of
        (Some ex, Some code) \<Rightarrow>
          if ex = [] \<or> code = [] then None else Some (normalize_text ex, normalize_text code)
      | _ \<Rightarrow> None)"

record position_pnl_result =
  pr_cumulative_unrealized_pnl :: decimal
  pr_daily_position_pnl :: decimal
  pr_cash_unrealized_pnl :: decimal

record close_pnl_result =
  cp_realized_pnl :: decimal
  cp_daily_close_pnl :: decimal

fun pnl_sign :: "position_direction \<Rightarrow> decimal" where
  "pnl_sign LONG = 1"
| "pnl_sign _ = - 1"

fun known_position_direction :: "position_direction \<Rightarrow> bool" where
  "known_position_direction (UnknownPositionDirection _) = False"
| "known_position_direction _ = True"

text \<open>The loop of \<open>calculate_position\<close> over the details, with its two running sums.\<close>

definition pnl_step ::
  "decimal \<Rightarrow> decimal \<Rightarrow> position_direction \<Rightarrow> decimal \<times> decimal \<Rightarrow> pnl_detail_snapshot
   \<Rightarrow> (decimal \<times> decimal) result" where
  "pnl_step mark_price multiplier direction acc dt =
     (if pd_remaining_volume dt \<le> 0 then Inr acc
      else if pd_open_price dt \<le> 0 \<or> pd_pnl_base_price dt \<le> 0
      then Inl (BusinessValidationError ''INVALID_PNL_INPUT'')
      else let quantity = of_int (pd_remaining_volume dt) * multiplier
           in Inr (fst acc + (mark_price - pd_open_price dt) * quantity * pnl_sign direction,
                   snd acc + (mark_price - pd_pnl_base_price dt) * quantity * pnl_sign direction))"

definition calculate_position :: "decimal \<Rightarrow> position_pnl_snapshot \<Rightarrow> position_pnl_result result"
where
  "calculate_position mark_price snapshot =
     (if mark_price \<le> 0 \<or> ps_contract_multiplier snapshot \<le> 0
      then Inl (BusinessValidationError ''INVALID_PNL_INPUT'')
      else if \<not> known_position_direction (ps_direction snapshot)
      then Inl (BusinessValidationError ''INVALID_POSITION_DIRECTION'')
      else rbind (rfold (pnl_step mark_price (ps_contract_multiplier snapshot)
                           (ps_direction snapshot)) (0, 0) (ps_details snapshot))
        (\<lambda>(cumulative, daily).
           let cumulative = quantize_money cumulative; daily = quantize_money daily
           in Inr \<lparr>pr_cumulative_unrealized_pnl = cumulative, pr_daily_position_pnl = daily,
                   pr_cash_unrealized_pnl =
                     (if ps_uses_settlement_basis snapshot then daily else cumulative)\<rparr>))"

definition calculate_close ::
  "position_direction \<Rightarrow> decimal \<Rightarrow> decimal \<Rightarrow> decimal \<Rightarrow> int \<Rightarrow> decimal \<Rightarrow> close_pnl_result result"
where
  "calculate_close direction close_price open_price pnl_base_price volume contract_multiplier =
     (if \<not> known_position_direction direction
      then Inl (BusinessValidationError ''INVALID_POSITION_DIRECTION'')
      else if close_price \<le> 0 \<or> open_price \<le> 0 \<or> pnl_base_price \<le> 0
          \<or> contract_multiplier \<le> 0 \<or> volume \<le> 0
      then Inl (BusinessValidationError ''INVALID_PNL_INPUT'')
      else let quantity = of_int volume * contract_multiplier
           in Inr \<lparr>cp_realized_pnl =
                     quantize_money ((close_price - open_price) * quantity * pnl_sign direction),
                   cp_daily_close_pnl =
                     quantize_money ((close_price - pnl_base_price) * quantity
                                     * pnl_sign direction)\<rparr>)"

section \<open>\<open>MarginCalculator\<close>, \<open>OptionPremiumCalculator\<close>, \<open>validate_price_tick\<close>\<close>

definition calculate_open_margin ::
  "decimal \<Rightarrow> int \<Rightarrow> order_direction \<Rightarrow> instrument \<Rightarrow> margin_rule \<Rightarrow> decimal result" where
  "calculate_open_margin price volume direction instrument rule =
     (if price \<le> 0 then Inl (BusinessValidationError ''INVALID_OPEN_PRICE'')
      else if volume \<le> 0 then Inl (BusinessValidationError ''INVALID_OPEN_VOLUME'')
      else case i_contract_multiplier instrument of
        None \<Rightarrow> Inl (BusinessValidationError ''CONTRACT_MULTIPLIER_MISSING'')
      | Some contract_multiplier \<Rightarrow>
        if contract_multiplier \<le> 0
        then Inl (BusinessValidationError ''INVALID_CONTRACT_MULTIPLIER'')
        else rbind
          (case direction of
             BUY \<Rightarrow> Inr (mr_long_margin_rate rule)
           | SELL \<Rightarrow> Inr (mr_short_margin_rate rule)
           | UnknownDirection _ \<Rightarrow>
               Inl (BusinessValidationError ''UNSUPPORTED_ORDER_DIRECTION''))
          (\<lambda>rate. case rate of
             None \<Rightarrow> Inl (BusinessValidationError ''MARGIN_RATE_MISSING'')
           | Some margin_rate \<Rightarrow>
             if margin_rate < 0 then Inl (BusinessValidationError ''INVALID_MARGIN_RATE'')
             else if 1 < margin_rate then Inl (BusinessValidationError ''INVALID_MARGIN_RATE'')
             else Inr (quantize_money
                         (price * of_int volume * contract_multiplier * margin_rate))))"

definition option_premium :: "decimal \<Rightarrow> int \<Rightarrow> decimal \<Rightarrow> decimal result" where
  "option_premium price volume multiplier =
     (if price \<le> 0 \<or> multiplier \<le> 0 \<or> volume \<le> 0
      then Inl (BusinessValidationError ''INVALID_OPTION_PREMIUM_INPUT'')
      else Inr (quantize_money (price * of_int volume * multiplier)))"

text \<open>Python's \<open>%\<close> on decimals keeps the sign of the dividend: the quotient is truncated.\<close>

definition decimal_trunc :: "decimal \<Rightarrow> int" where
  "decimal_trunc x = (if 0 \<le> x then \<lfloor>x\<rfloor> else - \<lfloor>- x\<rfloor>)"

definition decimal_mod :: "decimal \<Rightarrow> decimal \<Rightarrow> decimal" where
  "decimal_mod a b = a - b * of_int (decimal_trunc (a / b))"

definition validate_price_tick :: "decimal \<Rightarrow> decimal \<Rightarrow> unit result" where
  "validate_price_tick price price_tick =
     (if price_tick \<le> 0 then Inl (BusinessValidationError ''INVALID_PRICE_TICK'')
      else if decimal_mod price price_tick \<noteq> 0
      then Inl (BusinessValidationError ''PRICE_TICK_MISMATCH'')
      else Inr ())"

section \<open>\<open>AccountValuationCalculator\<close>\<close>

record valuation_input =
  v_cash_balance :: decimal
  v_futures_unrealized_pnl :: decimal
  v_long_option_market_value :: decimal
  v_short_option_market_value :: decimal
  v_used_margin :: decimal
  v_option_used_margin :: decimal
  v_option_realtime_required_margin :: decimal
  v_frozen_margin :: decimal
  v_frozen_cash :: decimal
  v_frozen_commission :: decimal
  v_option_collateral_ratio :: decimal

record account_valuation_result =
  vr_equity :: decimal
  vr_available_cash :: decimal
  vr_effective_required_margin :: decimal
  vr_risk_available_cash :: decimal
  vr_net_option_market_value :: decimal

definition account_valuation :: "valuation_input \<Rightarrow> account_valuation_result" where
  "account_valuation v =
     (let net_option_value =
            quantize_money (v_long_option_market_value v - v_short_option_market_value v);
          equity = quantize_money
            (v_cash_balance v + v_futures_unrealized_pnl v + net_option_value);
          available = quantize_money
            (v_cash_balance v + v_futures_unrealized_pnl v
             + v_long_option_market_value v * v_option_collateral_ratio v
             - v_short_option_market_value v - v_used_margin v - v_frozen_margin v
             - v_frozen_cash v - v_frozen_commission v);
          futures_margin = max (v_used_margin v - v_option_used_margin v) 0;
          effective_margin = quantize_money
            (futures_margin
             + max (v_option_used_margin v) (v_option_realtime_required_margin v));
          risk_available = quantize_money
            (v_cash_balance v + v_futures_unrealized_pnl v
             + v_long_option_market_value v * v_option_collateral_ratio v
             - v_short_option_market_value v - effective_margin - v_frozen_margin v
             - v_frozen_cash v - v_frozen_commission v)
      in \<lparr>vr_equity = equity, vr_available_cash = available,
          vr_effective_required_margin = effective_margin,
          vr_risk_available_cash = risk_available,
          vr_net_option_market_value = net_option_value\<rparr>)"

section \<open>Facts\<close>

lemma realized_pnl_money: "realized_pnl d op cp v m = Inr x \<Longrightarrow> is_money x"
  by (auto simp: realized_pnl_def split: order_direction.splits)

lemma calculate_close_Inr_iff:
  "calculate_close direction cp op bp v m = Inr r \<longleftrightarrow>
     known_position_direction direction \<and> 0 < cp \<and> 0 < op \<and> 0 < bp \<and> 0 < m \<and> 0 < v
     \<and> r = \<lparr>cp_realized_pnl = quantize_money ((cp - op) * (of_int v * m) * pnl_sign direction),
            cp_daily_close_pnl = quantize_money ((cp - bp) * (of_int v * m) * pnl_sign direction)\<rparr>"
  by (auto simp: calculate_close_def Let_def not_le)

lemma calculate_close_money:
  "calculate_close direction cp op bp v m = Inr r \<Longrightarrow>
     is_money (cp_realized_pnl r) \<and> is_money (cp_daily_close_pnl r)"
  by (simp add: calculate_close_Inr_iff)

text \<open>The direction of the position a closing order reduces.\<close>

definition closed_position_direction :: "order_direction \<Rightarrow> position_direction" where
  "closed_position_direction d = (if d = SELL then LONG else SHORT)"

lemma realized_pnl_agrees:
  assumes "d = SELL \<or> d = BUY"
    and "calculate_close (closed_position_direction d) cp op bp v m = Inr r"
  shows "realized_pnl d op cp v m = Inr (cp_realized_pnl r)"
  using assms
  by (auto simp: calculate_close_Inr_iff closed_position_direction_def realized_pnl_def
        algebra_simps)

lemma calculate_open_margin_Inr_iff:
  "calculate_open_margin price volume d ins rule = Inr margin \<longleftrightarrow>
     0 < price \<and> 0 < volume \<and>
     (\<exists>m r. i_contract_multiplier ins = Some m \<and> 0 < m
        \<and> (d = BUY \<and> mr_long_margin_rate rule = Some r
           \<or> d = SELL \<and> mr_short_margin_rate rule = Some r)
        \<and> 0 \<le> r \<and> r \<le> 1 \<and> margin = quantize_money (price * of_int volume * m * r))"
  by (auto simp: calculate_open_margin_def not_le not_less
        split: option.splits order_direction.splits)

lemma decimal_trunc_of_int [simp]: "decimal_trunc (of_int k) = k"
  by (auto simp: decimal_trunc_def simp flip: of_int_minus)

lemma decimal_mod_0_iff:
  assumes "b \<noteq> 0"
  shows "decimal_mod a b = 0 \<longleftrightarrow> (\<exists>k. a = of_int k * b)"
proof
  assume "decimal_mod a b = 0"
  then show "\<exists>k. a = of_int k * b"
    by (intro exI [of _ "decimal_trunc (a / b)"]) (simp add: decimal_mod_def algebra_simps)
next
  assume "\<exists>k. a = of_int k * b"
  then obtain k where "a = of_int k * b" ..
  with assms show "decimal_mod a b = 0" by (simp add: decimal_mod_def)
qed

lemma validate_price_tick_Inr_iff:
  "validate_price_tick price tick = Inr u \<longleftrightarrow> 0 < tick \<and> (\<exists>k. price = of_int k * tick)"
  by (auto simp: validate_price_tick_def not_le decimal_mod_0_iff)

section \<open>Properties\<close>

text \<open>The price difference of the live details to a base price, times the quantity, signed.\<close>

definition live_pnl ::
  "(pnl_detail_snapshot \<Rightarrow> decimal) \<Rightarrow> decimal \<Rightarrow> position_pnl_snapshot \<Rightarrow> decimal" where
  "live_pnl base mark s =
     (\<Sum>dt \<leftarrow> filter (\<lambda>dt. 0 < pd_remaining_volume dt) (ps_details s).
        (mark - base dt) * of_int (pd_remaining_volume dt) * ps_contract_multiplier s
        * pnl_sign (ps_direction s))"

lemma pnl_loop_sums:
  assumes "rfold (pnl_step mark m d) (c, y) dts = Inr (c', y')"
  shows "c' = c + (\<Sum>dt \<leftarrow> filter (\<lambda>dt. 0 < pd_remaining_volume dt) dts.
               (mark - pd_open_price dt) * of_int (pd_remaining_volume dt) * m * pnl_sign d)
    \<and> y' = y + (\<Sum>dt \<leftarrow> filter (\<lambda>dt. 0 < pd_remaining_volume dt) dts.
               (mark - pd_pnl_base_price dt) * of_int (pd_remaining_volume dt) * m * pnl_sign d)"
  using assms
proof (induction dts arbitrary: c y)
  case Nil
  then show ?case by simp
next
  case (Cons dt dts)
  from Cons.prems obtain c1 y1 where
    step: "pnl_step mark m d (c, y) dt = Inr (c1, y1)"
    and rest: "rfold (pnl_step mark m d) (c1, y1) dts = Inr (c', y')"
    by (auto simp: rbind_Inr_iff)
  from Cons.IH [OF rest] step show ?case
    by (auto simp: pnl_step_def Let_def algebra_simps split: if_splits)
qed

text \<open>
  A position is valued at the sum, over its live details, of the difference of the mark to the
  base price times the quantity, with the sign of the direction, rounded once to six decimals: the
  cumulative figure against the opening price, the daily one against the settlement base, and the
  cash figure is the daily one exactly when the account has been settled before.
\<close>

theorem calculate_position_value:
  assumes "calculate_position mark s = Inr r"
  shows "pr_cumulative_unrealized_pnl r = quantize_money (live_pnl pd_open_price mark s)
    \<and> pr_daily_position_pnl r = quantize_money (live_pnl pd_pnl_base_price mark s)
    \<and> pr_cash_unrealized_pnl r =
        quantize_money (live_pnl (if ps_uses_settlement_basis s then pd_pnl_base_price
                                  else pd_open_price) mark s)"
  using assms
  by (auto simp: calculate_position_def rbind_Inr_iff Let_def live_pnl_def split: if_splits
        dest!: pnl_loop_sums)

definition sample_pnl_snapshot :: position_pnl_snapshot where
  "sample_pnl_snapshot =
     \<lparr>ps_position_id = ''P1'', ps_account_id = ''A1'', ps_order_book_id = ''RB2610'',
      ps_exchange_id = ''SHFE'', ps_symbol = ''RB2610'', ps_direction = SHORT,
      ps_contract_multiplier = 10, ps_persisted_unrealized_pnl = 0,
      ps_persisted_daily_position_pnl = 0,
      ps_details =
        [\<lparr>pd_position_detail_id = ''D1'', pd_open_price = 3500, pd_pnl_base_price = 3480,
          pd_remaining_volume = 2\<rparr>,
         \<lparr>pd_position_detail_id = ''D2'', pd_open_price = 3600, pd_pnl_base_price = 3600,
          pd_remaining_volume = 0\<rparr>],
      ps_instrument_type = FUTURES, ps_total_volume = 2,
      ps_persisted_realtime_required_margin = 0, ps_persisted_used_margin = 0,
      ps_option_type = None, ps_strike_price = None, ps_underlying_exchange_id = None,
      ps_underlying_symbol = None, ps_underlying_order_book_id = None,
      ps_margin_rule_snapshot = [], ps_source_fact_version = ''0'',
      ps_uses_settlement_basis = True, ps_trading_day = None\<rparr>"

lemma quantize_money_numeral [simp]:
  "quantize_money (numeral k) = numeral k"
  "quantize_money (- numeral k) = - numeral k"
  "quantize_money 1 = 1"
  using quantize_money_idem [OF is_money_of_int [of "numeral k"]]
    quantize_money_idem [OF is_money_of_int [of "- numeral k"]]
    quantize_money_idem [OF is_money_of_int [of 1]]
  by simp_all

lemma sample_pnl_value:
  "calculate_position 3450 sample_pnl_snapshot =
     Inr \<lparr>pr_cumulative_unrealized_pnl = 1000, pr_daily_position_pnl = 600,
          pr_cash_unrealized_pnl = 600\<rparr>"
  by (simp add: calculate_position_def sample_pnl_snapshot_def pnl_step_def)

theorem calculate_position_value_witness:
  "quantize_money (live_pnl pd_open_price 3450 sample_pnl_snapshot) = 1000"
  using calculate_position_value [OF sample_pnl_value] by simp

text \<open>
  The realized figure of a close is the same by both calculators the close handler calls: the
  close direction of \<open>RealizedPnlCalculator\<close> and the position direction of \<open>PnlCalculator\<close> agree
  when the direction is the one of the position that the closing order reduces, and a position
  whose base price is its opening price has equal realized and daily figures.
\<close>

theorem close_pnl_calculators_agree:
  assumes "d = SELL \<or> d = BUY"
    and "calculate_close (closed_position_direction d) cp op bp v m = Inr r"
  shows "realized_pnl d op cp v m = Inr (cp_realized_pnl r)
    \<and> (bp = op \<longrightarrow> cp_daily_close_pnl r = cp_realized_pnl r)"
  using realized_pnl_agrees [OF assms] assms(2) by (auto simp: calculate_close_Inr_iff)

theorem close_pnl_calculators_agree_witness:
  "realized_pnl BUY 3500 3450 2 10 = Inr 1000"
proof -
  have "calculate_close (closed_position_direction BUY) 3450 3500 3480 2 10
      = Inr \<lparr>cp_realized_pnl = 1000, cp_daily_close_pnl = 600\<rparr>"
    by (simp add: calculate_close_def closed_position_direction_def)
  from close_pnl_calculators_agree [OF _ this] show ?thesis by simp
qed

text \<open>
  The opening margin is never negative, never more than the six-decimal value of the whole
  contract, and buying and selling at the same rate cost the same.
\<close>

theorem open_margin_bounds:
  assumes "calculate_open_margin price volume d ins rule = Inr margin"
  shows "\<exists>m. i_contract_multiplier ins = Some m \<and> 0 \<le> margin \<and> is_money margin
    \<and> margin \<le> quantize_money (price * of_int volume * m)
    \<and> (mr_long_margin_rate rule = mr_short_margin_rate rule \<longrightarrow>
        calculate_open_margin price volume BUY ins rule = Inr margin
        \<and> calculate_open_margin price volume SELL ins rule = Inr margin)"
proof -
  from assms obtain m r where m: "i_contract_multiplier ins = Some m" "0 < m"
    and r: "0 \<le> r" "r \<le> 1" "margin = quantize_money (price * of_int volume * m * r)"
    and pos: "0 < price" "0 < volume"
    and rate: "mr_long_margin_rate rule = Some r \<or> mr_short_margin_rate rule = Some r"
    by (auto simp: calculate_open_margin_Inr_iff)
  have "0 \<le> price * of_int volume * m" using m pos by simp
  then have "price * of_int volume * m * r \<le> price * of_int volume * m"
    using r(1,2) by (rule mult_right_le_one_le)
  then have "margin \<le> quantize_money (price * of_int volume * m)"
    unfolding r(3) by (rule quantize_money_mono)
  moreover have "0 \<le> margin" using m pos r by simp
  moreover have "calculate_open_margin price volume BUY ins rule = Inr margin
      \<and> calculate_open_margin price volume SELL ins rule = Inr margin"
    if "mr_long_margin_rate rule = mr_short_margin_rate rule"
  proof -
    from that rate have "mr_long_margin_rate rule = Some r" "mr_short_margin_rate rule = Some r"
      by auto
    with m pos r show ?thesis by (auto simp: calculate_open_margin_Inr_iff)
  qed
  ultimately show ?thesis using m(1) r(3) by auto
qed

definition sample_instrument :: instrument where
  "sample_instrument =
     \<lparr>i_id = 1, i_order_book_id = ''RB2610'', i_symbol = ''RB2610'', i_exchange_id = ''SHFE'',
      i_product_id = Some ''RB'', i_market_type = ''FUTURES'', i_market_tplus = None,
      i_round_lot = None, i_instrument_type = FUTURES, i_underlying_instrument_id = None,
      i_is_active = True, i_is_tradeable = True, i_price_tick = 1,
      i_contract_multiplier = Some 10, i_min_volume = 1, i_max_volume = 500,
      i_option_type = None, i_strike_price = None\<rparr>"

definition sample_margin_rule :: margin_rule where
  "sample_margin_rule =
     \<lparr>mr_exchange_id = ''SHFE'', mr_symbol = ''RB2610'', mr_long_margin_rate = Some (1 / 10),
      mr_short_margin_rate = Some (1 / 10)\<rparr>"

theorem open_margin_bounds_witness:
  "calculate_open_margin 3500 2 SELL sample_instrument
     sample_margin_rule = Inr 7000"
proof -
  have "calculate_open_margin 3500 2 BUY sample_instrument
     sample_margin_rule = Inr 7000"
    by (simp add: calculate_open_margin_def sample_instrument_def sample_margin_rule_def)
  from open_margin_bounds [OF this] show ?thesis by (auto simp: sample_margin_rule_def)
qed

text \<open>
  Over amounts with six decimals, what an account may spend after its real-time option margin
  is its book figure less the shortfall of the booked option margin, so it is never above the book
  figure, and equal to it exactly when the booked option margin covers the real-time requirement.
\<close>

theorem risk_available_shortfall:
  assumes "is_money (v_used_margin v)" "is_money (v_option_used_margin v)"
    "is_money (v_option_realtime_required_margin v)"
    and "v_option_used_margin v \<le> v_used_margin v"
  shows "let r = account_valuation v;
             shortfall = max 0 (v_option_realtime_required_margin v - v_option_used_margin v)
    in vr_effective_required_margin r = v_used_margin v + shortfall
       \<and> vr_risk_available_cash r \<le> vr_available_cash r
       \<and> (shortfall = 0 \<longrightarrow> vr_risk_available_cash r = vr_available_cash r)"
proof -
  let ?short = "max 0 (v_option_realtime_required_margin v - v_option_used_margin v)"
  have eq: "max (v_used_margin v - v_option_used_margin v) 0
      + max (v_option_used_margin v) (v_option_realtime_required_margin v)
      = v_used_margin v + ?short"
    using assms(4) by (simp add: max_def)
  have "is_money (v_used_margin v + ?short)" using assms(1-3) by (intro money_intros)
  with eq have "vr_effective_required_margin (account_valuation v) = v_used_margin v + ?short"
    by (simp only: account_valuation_def Let_def account_valuation_result.simps eq
        quantize_money_idem)
  moreover have "vr_risk_available_cash (account_valuation v) \<le> vr_available_cash (account_valuation v)"
    using \<open>is_money (v_used_margin v + ?short)\<close>
    unfolding account_valuation_def Let_def account_valuation_result.simps eq
    by (intro quantize_money_mono) simp
  moreover have "vr_risk_available_cash (account_valuation v) = vr_available_cash (account_valuation v)"
    if "?short = 0"
    unfolding account_valuation_def Let_def account_valuation_result.simps eq that
    using assms(1) by simp
  ultimately show ?thesis unfolding Let_def by blast
qed

definition sample_valuation :: valuation_input where
  "sample_valuation =
     \<lparr>v_cash_balance = 100000, v_futures_unrealized_pnl = 0, v_long_option_market_value = 0,
      v_short_option_market_value = 3000, v_used_margin = 20000, v_option_used_margin = 12000,
      v_option_realtime_required_margin = 15000, v_frozen_margin = 0, v_frozen_cash = 0,
      v_frozen_commission = 5, v_option_collateral_ratio = 0\<rparr>"

theorem risk_available_shortfall_witness:
  "vr_effective_required_margin (account_valuation sample_valuation) = 23000"
  using risk_available_shortfall [of sample_valuation]
  by (simp add: sample_valuation_def is_money_def Let_def)

end
