(* ===== verification/Option_Margin.thy ===== *)
theory Option_Margin
  imports Calculators
begin

text \<open>
  The seller's margin of an option: \<open>option_margin_calculator.py\<close> (the request, rule and result),
  \<open>commodity_option_margin_calculator.py\<close>, \<open>cffex_index_option_margin_calculator.py\<close> and the resolver
  that chooses between them. The locale \<open>seller_margin\<close> is the contract of
  \<open>OptionMarginCalculator\<close>, the protocol both calculators implement.
\<close>

record option_margin_rule =
  mrs_rule_id :: int
  mrs_rule_version :: string
  mrs_margin_algorithm :: margin_algorithm
  mrs_margin_adjustment_rate :: decimal
  mrs_minimum_guarantee_rate :: decimal
  mrs_out_of_money_deduction_rate :: decimal
  mrs_minimum_underlying_margin_ratio :: decimal
  mrs_extra_margin_rate :: decimal

record option_margin_input =
  om_option_type :: option_type
  om_strike_price :: decimal
  om_option_price :: decimal
  om_underlying_price :: decimal
  om_option_multiplier :: decimal
  om_underlying_multiplier :: decimal
  om_volume :: int
  om_price_mode :: margin_price_mode
  om_calculated_at :: datetime
  om_rule :: option_margin_rule
  om_underlying_margin_per_lot :: decimal

record option_margin_result =
  or_margin_per_lot :: decimal
  or_total_margin :: decimal
  or_premium_component :: decimal
  or_risk_component :: decimal
  or_out_of_money_amount :: decimal
  or_underlying_price :: decimal
  or_option_price :: decimal
  or_rule_id :: int
  or_rule_version :: string
  or_price_mode :: margin_price_mode
  or_calculated_at :: datetime
  or_calculation_version :: string

definition option_rule_to_json_mapping :: "option_margin_rule \<Rightarrow> payload" where
  "option_rule_to_json_mapping r =
     [(''rule_id'', JInt (mrs_rule_id r)),
      (''rule_version'', JString (mrs_rule_version r)),
      (''margin_algorithm'', JString (case mrs_margin_algorithm r of
          COMMODITY_FUTURES_OPTION \<Rightarrow> ''COMMODITY_FUTURES_OPTION''
        | CFFEX_INDEX_OPTION \<Rightarrow> ''CFFEX_INDEX_OPTION''
        | UnknownAlgorithm s \<Rightarrow> s)),
      (''margin_adjustment_rate'', JDecimal (mrs_margin_adjustment_rate r)),
      (''minimum_guarantee_rate'', JDecimal (mrs_minimum_guarantee_rate r)),
      (''out_of_money_deduction_rate'', JDecimal (mrs_out_of_money_deduction_rate r)),
      (''minimum_underlying_margin_ratio'', JDecimal (mrs_minimum_underlying_margin_ratio r)),
      (''extra_margin_rate'', JDecimal (mrs_extra_margin_rate r))]"

section \<open>Commodity options\<close>

definition commodity_validate :: "option_margin_input \<Rightarrow> unit result" where
  "commodity_validate q =
     (if om_strike_price q \<le> 0 \<or> om_option_price q < 0 \<or> om_underlying_price q \<le> 0
         \<or> om_option_multiplier q \<le> 0 \<or> om_underlying_multiplier q \<le> 0
         \<or> om_underlying_margin_per_lot q < 0 \<or> om_volume q \<le> 0
      then Inl (BusinessValidationError ''INVALID_OPTION_MARGIN_INPUT'') else Inr ())"

text \<open>The computation after the checks.\<close>

definition commodity_result :: "option_margin_input \<Rightarrow> option_margin_result" where
  "commodity_result q =
     (let out_of_money_points =
           (if om_option_type q = CALL
            then max (om_strike_price q - om_underlying_price q) 0
            else max (om_underlying_price q - om_strike_price q) 0);
         out_of_money = quantize_money (out_of_money_points * om_underlying_multiplier q);
         premium = quantize_money (om_option_price q * om_option_multiplier q);
         rule = om_rule q;
         risk0 = max (om_underlying_margin_per_lot q
                        - out_of_money * mrs_out_of_money_deduction_rate rule)
                     (om_underlying_margin_per_lot q
                        * mrs_minimum_underlying_margin_ratio rule);
         risk = quantize_money (max risk0 0);
         margin_per_lot = quantize_money ((premium + risk) * (1 + mrs_extra_margin_rate rule));
         margin_total = quantize_money (margin_per_lot * of_int (om_volume q))
     in \<lparr>or_margin_per_lot = margin_per_lot, or_total_margin = margin_total,
             or_premium_component = premium, or_risk_component = risk,
             or_out_of_money_amount = out_of_money,
             or_underlying_price = om_underlying_price q, or_option_price = om_option_price q,
             or_rule_id = mrs_rule_id rule, or_rule_version = mrs_rule_version rule,
             or_price_mode = om_price_mode q, or_calculated_at = om_calculated_at q,
             or_calculation_version = ''OPTION_MARGIN_V1''\<rparr>)"

definition commodity_margin :: "option_margin_input \<Rightarrow> option_margin_result result" where
  "commodity_margin q = rbind (commodity_validate q) (\<lambda>_. Inr (commodity_result q))"

section \<open>CFFEX index options\<close>

definition cffex_result :: "option_margin_input \<Rightarrow> option_margin_result" where
  "cffex_result q =
     (let rule = om_rule q;
          out_of_money_points =
            (if om_option_type q = CALL
             then max (om_strike_price q - om_underlying_price q) 0
             else max (om_underlying_price q - om_strike_price q) 0);
          minimum_component =
            (if om_option_type q = CALL
             then mrs_minimum_guarantee_rate rule * om_underlying_price q
                  * om_option_multiplier q * mrs_margin_adjustment_rate rule
             else mrs_minimum_guarantee_rate rule * om_strike_price q
                  * om_option_multiplier q * mrs_margin_adjustment_rate rule);
          out_of_money = quantize_money (out_of_money_points * om_option_multiplier q);
          premium = quantize_money (om_option_price q * om_option_multiplier q);
          adjusted_underlying = om_underlying_price q * om_option_multiplier q
                                * mrs_margin_adjustment_rate rule;
          risk = quantize_money (max (adjusted_underlying - out_of_money) minimum_component);
          margin_per_lot = quantize_money ((premium + risk) * (1 + mrs_extra_margin_rate rule))
      in \<lparr>or_margin_per_lot = margin_per_lot,
          or_total_margin = quantize_money (margin_per_lot * of_int (om_volume q)),
          or_premium_component = premium, or_risk_component = risk,
          or_out_of_money_amount = out_of_money,
          or_underlying_price = om_underlying_price q, or_option_price = om_option_price q,
          or_rule_id = mrs_rule_id rule, or_rule_version = mrs_rule_version rule,
          or_price_mode = om_price_mode q, or_calculated_at = om_calculated_at q,
          or_calculation_version = ''OPTION_MARGIN_V1''\<rparr>)"

definition cffex_margin :: "option_margin_input \<Rightarrow> option_margin_result result" where
  "cffex_margin q =
     (if om_strike_price q \<le> 0 \<or> om_option_price q < 0 \<or> om_underlying_price q \<le> 0
         \<or> om_option_multiplier q \<le> 0 \<or> om_volume q \<le> 0
      then Inl (BusinessValidationError ''INVALID_OPTION_MARGIN_INPUT'')
      else Inr (cffex_result q))"

text \<open>\<open>OptionMarginCalculatorResolver.resolve\<close>; the exchange plays no part in the choice.\<close>

definition resolve_option_margin ::
  "instrument_type \<Rightarrow> string \<Rightarrow> margin_algorithm
   \<Rightarrow> (option_margin_input \<Rightarrow> option_margin_result result) result" where
  "resolve_option_margin itype exchange_id algorithm =
     (if itype = FUTURES_OPTION \<and> algorithm = COMMODITY_FUTURES_OPTION then Inr commodity_margin
      else if itype = INDEX_OPTION \<and> algorithm = CFFEX_INDEX_OPTION then Inr cffex_margin
      else Inl (BusinessRuleError ''OPTION_MARGIN_ALGORITHM_NOT_FOUND''))"

section \<open>The contract of a seller's margin calculator\<close>

text \<open>Rates are non-negative: the table constraints of \<open>option_margin_rule\<close>.\<close>

definition rates_ok :: "option_margin_rule \<Rightarrow> bool" where
  "rates_ok r \<longleftrightarrow> 0 \<le> mrs_margin_adjustment_rate r \<and> 0 \<le> mrs_minimum_guarantee_rate r
     \<and> 0 \<le> mrs_out_of_money_deduction_rate r \<and> 0 \<le> mrs_minimum_underlying_margin_ratio r
     \<and> 0 \<le> mrs_extra_margin_rate r"

locale seller_margin =
  fixes margin :: "option_margin_input \<Rightarrow> option_margin_result result"
    and least_risk :: "option_margin_input \<Rightarrow> decimal"
  assumes volume_pos: "margin q = Inr r \<Longrightarrow> 0 < om_volume q"
    and premium_nonneg: "margin q = Inr r \<Longrightarrow> 0 \<le> or_premium_component r"
    and components_money: "margin q = Inr r \<Longrightarrow>
      is_money (or_premium_component r) \<and> is_money (or_risk_component r)"
    and risk_floor: "margin q = Inr r \<Longrightarrow> rates_ok (om_rule q) \<Longrightarrow>
      0 \<le> least_risk q \<and> quantize_money (least_risk q) \<le> or_risk_component r"
    and per_lot: "margin q = Inr r \<Longrightarrow> or_margin_per_lot r =
      quantize_money ((or_premium_component r + or_risk_component r)
                      * (1 + mrs_extra_margin_rate (om_rule q)))"
    and total_margin: "margin q = Inr r \<Longrightarrow>
      or_total_margin r = quantize_money (or_margin_per_lot r * of_int (om_volume q))"
begin

lemma total_exact:
  assumes "margin q = Inr r"
  shows "or_total_margin r = or_margin_per_lot r * of_int (om_volume q)"
proof -
  have "is_money (of_int (om_volume q) * or_margin_per_lot r)"
    by (intro is_money_int_mult) (simp add: per_lot [OF assms])
  then show ?thesis by (simp add: total_margin [OF assms] mult.commute)
qed

lemma covers:
  assumes "margin q = Inr r" and "rates_ok (om_rule q)"
  shows "or_premium_component r + quantize_money (least_risk q) \<le> or_margin_per_lot r
    \<and> 0 \<le> or_total_margin r"
proof -
  note c = components_money [OF assms(1)] and p = premium_nonneg [OF assms(1)]
    and f = risk_floor [OF assms]
  let ?base = "or_premium_component r + or_risk_component r"
  have base: "0 \<le> quantize_money (least_risk q)" "0 \<le> ?base"
    using p f quantize_money_nonneg [of "least_risk q"] by linarith+
  have "?base * 1 \<le> ?base * (1 + mrs_extra_margin_rate (om_rule q))"
    using base assms(2) by (intro mult_left_mono) (auto simp: rates_ok_def)
  then have "?base \<le> or_margin_per_lot r"
    unfolding per_lot [OF assms(1)] using c by (intro quantize_money_ge) (auto intro: money_intros)
  with base f p volume_pos [OF assms(1)] show ?thesis
    by (auto simp: total_exact [OF assms(1)] intro!: mult_nonneg_nonneg)
qed

end

definition commodity_least_risk :: "option_margin_input \<Rightarrow> decimal" where
  "commodity_least_risk q = max 0
     (om_underlying_margin_per_lot q * mrs_minimum_underlying_margin_ratio (om_rule q))"

definition cffex_least_risk :: "option_margin_input \<Rightarrow> decimal" where
  "cffex_least_risk q = max 0
     (mrs_minimum_guarantee_rate (om_rule q)
      * (if om_option_type q = CALL then om_underlying_price q else om_strike_price q)
      * om_option_multiplier q * mrs_margin_adjustment_rate (om_rule q))"

lemma commodity_margin_Inr_iff:
  "commodity_margin q = Inr r \<longleftrightarrow> r = commodity_result q \<and> 0 < om_strike_price q
     \<and> 0 \<le> om_option_price q \<and> 0 < om_underlying_price q \<and> 0 < om_option_multiplier q
     \<and> 0 < om_underlying_multiplier q \<and> 0 \<le> om_underlying_margin_per_lot q \<and> 0 < om_volume q"
  by (auto simp: commodity_margin_def commodity_validate_def not_le not_less split: if_splits)

lemma cffex_margin_Inr_iff:
  "cffex_margin q = Inr r \<longleftrightarrow> r = cffex_result q \<and> 0 < om_strike_price q
     \<and> 0 \<le> om_option_price q \<and> 0 < om_underlying_price q \<and> 0 < om_option_multiplier q
     \<and> 0 < om_volume q"
  by (auto simp: cffex_margin_def not_le not_less split: if_splits)

lemma commodity_risk_floor:
  "quantize_money (commodity_least_risk q) \<le> or_risk_component (commodity_result q)"
  unfolding commodity_result_def Let_def commodity_least_risk_def option_margin_result.simps
  by (intro quantize_money_mono) simp

lemma cffex_risk_floor:
  assumes "cffex_margin q = Inr r" "rates_ok (om_rule q)"
  shows "quantize_money (cffex_least_risk q) \<le> or_risk_component (cffex_result q)"
proof -
  have "0 \<le> mrs_minimum_guarantee_rate (om_rule q)
      * (if om_option_type q = CALL then om_underlying_price q else om_strike_price q)
      * om_option_multiplier q * mrs_margin_adjustment_rate (om_rule q)"
    using assms by (auto simp: cffex_margin_Inr_iff rates_ok_def)
  then show ?thesis
    unfolding cffex_result_def Let_def cffex_least_risk_def option_margin_result.simps
    by (intro quantize_money_mono) (auto split: if_splits)
qed

lemma least_risk_nonneg: "0 \<le> commodity_least_risk q" "0 \<le> cffex_least_risk q"
  by (simp_all add: commodity_least_risk_def cffex_least_risk_def)

lemma commodity_fields:
  "or_premium_component (commodity_result q)
     = quantize_money (om_option_price q * om_option_multiplier q)"
  "is_money (or_risk_component (commodity_result q))"
  "or_margin_per_lot (commodity_result q) =
     quantize_money ((or_premium_component (commodity_result q) + or_risk_component (commodity_result q))
                     * (1 + mrs_extra_margin_rate (om_rule q)))"
  "or_total_margin (commodity_result q) =
     quantize_money (or_margin_per_lot (commodity_result q) * of_int (om_volume q))"
  unfolding commodity_result_def Let_def option_margin_result.simps
  by (rule refl quantize_money_is_money)+

lemma cffex_fields:
  "or_premium_component (cffex_result q)
     = quantize_money (om_option_price q * om_option_multiplier q)"
  "is_money (or_risk_component (cffex_result q))"
  "or_margin_per_lot (cffex_result q) =
     quantize_money ((or_premium_component (cffex_result q) + or_risk_component (cffex_result q))
                     * (1 + mrs_extra_margin_rate (om_rule q)))"
  "or_total_margin (cffex_result q) =
     quantize_money (or_margin_per_lot (cffex_result q) * of_int (om_volume q))"
  unfolding cffex_result_def Let_def option_margin_result.simps
  by (rule refl quantize_money_is_money)+

interpretation commodity: seller_margin commodity_margin commodity_least_risk
proof unfold_locales
  fix q r assume "commodity_margin q = Inr r"
  then show "0 \<le> commodity_least_risk q
      \<and> quantize_money (commodity_least_risk q) \<le> or_risk_component r"
    using commodity_risk_floor by (auto simp: commodity_margin_Inr_iff least_risk_nonneg)
qed (auto simp only: commodity_margin_Inr_iff,
     auto simp: commodity_fields intro!: quantize_money_nonneg)

interpretation cffex: seller_margin cffex_margin cffex_least_risk
proof unfold_locales
  fix q r assume "cffex_margin q = Inr r" "rates_ok (om_rule q)"
  then show "0 \<le> cffex_least_risk q
      \<and> quantize_money (cffex_least_risk q) \<le> or_risk_component r"
    using cffex_risk_floor by (auto simp: cffex_margin_Inr_iff least_risk_nonneg)
qed (auto simp only: cffex_margin_Inr_iff,
     auto simp: cffex_fields intro!: quantize_money_nonneg)

section \<open>Property\<close>

text \<open>
  Whichever calculator the resolver picks for an option, with non-negative rates the margin per
  lot covers the premium plus the rule's minimum risk amount, and the total is exactly the per-lot
  margin times the volume, never negative.
\<close>

theorem option_margin_covers:
  assumes "resolve_option_margin itype exchange algorithm = Inr calc"
    and "calc q = Inr r" and "rates_ok (om_rule q)"
  shows "or_total_margin r = or_margin_per_lot r * of_int (om_volume q) \<and> 0 \<le> or_total_margin r
    \<and> or_premium_component r
        + quantize_money (if itype = FUTURES_OPTION then commodity_least_risk q
                          else cffex_least_risk q) \<le> or_margin_per_lot r"
  using assms commodity.total_exact commodity.covers cffex.total_exact cffex.covers
  by (auto simp: resolve_option_margin_def split: if_splits)

definition sample_option_rule :: option_margin_rule where
  "sample_option_rule =
     \<lparr>mrs_rule_id = 1, mrs_rule_version = ''v1'', mrs_margin_algorithm = COMMODITY_FUTURES_OPTION,
      mrs_margin_adjustment_rate = 0, mrs_minimum_guarantee_rate = 0,
      mrs_out_of_money_deduction_rate = 1 / 2, mrs_minimum_underlying_margin_ratio = 1 / 2,
      mrs_extra_margin_rate = 0\<rparr>"

definition sample_option_request :: option_margin_input where
  "sample_option_request =
     \<lparr>om_option_type = CALL, om_strike_price = 3600, om_option_price = 50,
      om_underlying_price = 3500, om_option_multiplier = 10, om_underlying_multiplier = 10,
      om_volume = 3, om_price_mode = ORDER_FREEZE, om_calculated_at = 0,
      om_rule = sample_option_rule, om_underlying_margin_per_lot = 3500\<rparr>"

theorem option_margin_covers_witness:
  "\<exists>r. commodity_margin sample_option_request = Inr r \<and> or_margin_per_lot r = 3500
     \<and> or_total_margin r = 3500 * 3"
proof -
  obtain r where r: "commodity_margin sample_option_request = Inr r" "or_margin_per_lot r = 3500"
    by (auto simp: commodity_margin_def commodity_validate_def commodity_result_def
          sample_option_request_def sample_option_rule_def Let_def)
  have "resolve_option_margin FUTURES_OPTION ''SHFE'' COMMODITY_FUTURES_OPTION = Inr commodity_margin"
    by (simp add: resolve_option_margin_def)
  from option_margin_covers [OF this r(1)]
  have "or_total_margin r = or_margin_per_lot r * of_int (om_volume sample_option_request)"
    by (simp add: rates_ok_def sample_option_request_def sample_option_rule_def)
  with r show ?thesis by (simp add: sample_option_request_def)
qed

end
