(* ===== verification/Close_Allocator.thy ===== *)
theory Close_Allocator
  imports Schema "HOL-Library.Product_Lexorder"
begin

text \<open>
  \<open>app/services/position_close_allocator.py\<close>: which position details a closing order freezes, and for
  which share of it. \<open>sorted(..., key=lambda item: item.id)\<close> is the stable \<open>sort_key d_id\<close>.
\<close>

record position_freeze_plan =
  fp_detail :: detail
  fp_volume :: int
  fp_resolved_offset_flag :: offset_flag

definition free_volume :: "detail \<Rightarrow> int" where
  "free_volume dt = d_remaining_volume dt - d_frozen_volume dt"

definition close_candidates ::
  "detail list \<Rightarrow> offset_flag \<Rightarrow> date \<Rightarrow> (detail list \<times> string) result" where
  "close_candidates details offset trading_day =
     (let available = filter (\<lambda>dt. 0 < free_volume dt) details;
          yesterday = sort_key d_id
            (filter (\<lambda>dt. d_open_trading_day dt < trading_day) available);
          today = sort_key d_id
            (filter (\<lambda>dt. d_open_trading_day dt = trading_day) available)
      in case offset of
           CLOSE_TODAY \<Rightarrow> Inr (today, ''INSUFFICIENT_TODAY_POSITION'')
         | CLOSE_YESTERDAY \<Rightarrow> Inr (yesterday, ''INSUFFICIENT_YESTERDAY_POSITION'')
         | CLOSE \<Rightarrow> Inr (yesterday @ today, ''INSUFFICIENT_CLOSE_POSITION'')
         | _ \<Rightarrow> Inl (BusinessRuleError ''UNSUPPORTED_OFFSET_FLAG''))"

definition resolved_flag :: "date \<Rightarrow> detail \<Rightarrow> offset_flag" where
  "resolved_flag trading_day dt =
     (if d_open_trading_day dt = trading_day then CLOSE_TODAY else CLOSE_YESTERDAY)"

text \<open>The loop over the candidates: the plans made and the volume still to place.\<close>

fun allocate_loop ::
  "date \<Rightarrow> int \<Rightarrow> detail list \<Rightarrow> position_freeze_plan list \<times> int" where
  "allocate_loop trading_day remaining [] = ([], remaining)"
| "allocate_loop trading_day remaining (dt # dts) =
     (let allocated = min (free_volume dt) remaining;
          plan = (if 0 < allocated
                  then [\<lparr>fp_detail = dt, fp_volume = allocated,
                         fp_resolved_offset_flag = resolved_flag trading_day dt\<rparr>] else []);
          remaining' = (if 0 < allocated then remaining - allocated else remaining)
      in if remaining' = 0 then (plan, 0)
         else (let (plans, left) = allocate_loop trading_day remaining' dts
               in (plan @ plans, left)))"

definition allocate_close ::
  "detail list \<Rightarrow> offset_flag \<Rightarrow> date \<Rightarrow> int \<Rightarrow> position_freeze_plan list result" where
  "allocate_close details offset trading_day volume =
     (if volume \<le> 0 then Inl (BusinessRuleError ''INVALID_CLOSE_VOLUME'')
      else rbind (close_candidates details offset trading_day) (\<lambda>(candidates, error_code).
        let (plans, remaining) = allocate_loop trading_day volume candidates
        in if 0 < remaining then Inl (BusinessRuleError error_code) else Inr plans))"

section \<open>The loop\<close>

lemma allocate_loop_spec:
  assumes "allocate_loop day r dts = (plans, left)" "0 < r" "\<forall>dt \<in> set dts. 0 < free_volume dt"
  shows "0 \<le> left \<and> sum_list (map fp_volume plans) = r - left
    \<and> map fp_detail plans = take (length plans) dts
    \<and> (\<forall>p \<in> set plans. 0 < fp_volume p \<and> fp_volume p \<le> free_volume (fp_detail p)
         \<and> fp_resolved_offset_flag p = resolved_flag day (fp_detail p))
    \<and> (\<forall>p \<in> set (butlast plans). fp_volume p = free_volume (fp_detail p))
    \<and> left = max 0 (r - sum_list (map free_volume dts))"
  using assms
proof (induction dts arbitrary: r plans left)
  case Nil
  then show ?case by simp
next
  case (Cons dt dts)
  have free: "0 < free_volume dt" and frees: "\<forall>dt \<in> set dts. 0 < free_volume dt"
    using Cons.prems(3) by auto
  then have sum: "0 \<le> sum_list (map free_volume dts)"
    by (intro sum_list_map_nonneg) (auto intro: less_imp_le)
  show ?case
  proof (cases "r \<le> free_volume dt")
    case True
    then have "allocate_loop day r (dt # dts) =
        ([\<lparr>fp_detail = dt, fp_volume = r, fp_resolved_offset_flag = resolved_flag day dt\<rparr>], 0)"
      using Cons.prems(2) by (simp add: min_absorb2)
    with Cons.prems(1) have "left = 0" and
      "plans = [\<lparr>fp_detail = dt, fp_volume = r, fp_resolved_offset_flag = resolved_flag day dt\<rparr>]"
      by simp_all
    with True Cons.prems(2) sum show ?thesis by simp
  next
    case False
    obtain ps l where rest: "allocate_loop day (r - free_volume dt) dts = (ps, l)"
      by (cases "allocate_loop day (r - free_volume dt) dts")
    have "allocate_loop day r (dt # dts) = (\<lparr>fp_detail = dt, fp_volume = free_volume dt,
        fp_resolved_offset_flag = resolved_flag day dt\<rparr> # ps, l)"
      using False free rest by (simp add: min_absorb1 Let_def)
    with Cons.prems(1) have
      plans: "plans = \<lparr>fp_detail = dt, fp_volume = free_volume dt,
                fp_resolved_offset_flag = resolved_flag day dt\<rparr> # ps" and left: "left = l"
      by simp_all
    from False have "0 < r - free_volume dt" by simp
    note IH = Cons.IH [OF rest this frees]
    have "p = \<lparr>fp_detail = dt, fp_volume = free_volume dt,
        fp_resolved_offset_flag = resolved_flag day dt\<rparr> \<or> p \<in> set (butlast ps)"
      if "p \<in> set (butlast plans)" for p
      using that by (auto simp: plans split: if_splits)
    with IH free show ?thesis unfolding plans left by (auto simp: algebra_simps)
  qed
qed

section \<open>Which details are eligible\<close>

definition eligible :: "offset_flag \<Rightarrow> date \<Rightarrow> detail \<Rightarrow> bool" where
  "eligible offset day dt \<longleftrightarrow> 0 < free_volume dt \<and>
     (case offset of
        CLOSE_TODAY \<Rightarrow> d_open_trading_day dt = day
      | CLOSE_YESTERDAY \<Rightarrow> d_open_trading_day dt < day
      | CLOSE \<Rightarrow> d_open_trading_day dt \<le> day
      | _ \<Rightarrow> False)"

lemma close_candidates_Inr:
  assumes "close_candidates details offset day = Inr (cands, code)"
  shows "mset cands = mset (filter (eligible offset day) details)
    \<and> sorted (map (\<lambda>dt. (d_open_trading_day dt = day, d_id dt)) cands)"
proof -
  let ?y = "filter (\<lambda>dt. d_open_trading_day dt < day) (filter (\<lambda>dt. 0 < free_volume dt) details)"
  let ?t = "filter (\<lambda>dt. d_open_trading_day dt = day) (filter (\<lambda>dt. 0 < free_volume dt) details)"
  have ordered: "sorted (map (\<lambda>dt. (b, d_id dt)) (sort_key d_id xs))" for b :: bool and xs
    by (auto simp: sorted_map intro: sorted_wrt_mono_rel [OF _ sorted_sort_key [unfolded sorted_map]])
  have y: "map (\<lambda>dt. (d_open_trading_day dt = day, d_id dt)) (sort_key d_id ?y)
      = map (\<lambda>dt. (False, d_id dt)) (sort_key d_id ?y)"
    and t: "map (\<lambda>dt. (d_open_trading_day dt = day, d_id dt)) (sort_key d_id ?t)
      = map (\<lambda>dt. (True, d_id dt)) (sort_key d_id ?t)"
    by auto
  have both: "mset ?y + mset ?t = mset (filter (eligible CLOSE day) details)"
    by (induction details) (auto simp: eligible_def simp del: filter_filter)
  have today: "filter (eligible CLOSE_TODAY day) details = ?t"
    and yesterday: "filter (eligible CLOSE_YESTERDAY day) details = ?y"
    unfolding filter_filter by (rule filter_cong; auto simp: eligible_def)+
  show ?thesis
  proof (cases offset)
    case CLOSE_TODAY
    with assms have "cands = sort_key d_id ?t" by (simp add: close_candidates_def Let_def)
    with CLOSE_TODAY show ?thesis by (simp only: today t ordered mset_sort simp_thms)
  next
    case CLOSE_YESTERDAY
    with assms have "cands = sort_key d_id ?y" by (simp add: close_candidates_def Let_def)
    with CLOSE_YESTERDAY show ?thesis by (simp only: yesterday y ordered mset_sort simp_thms)
  next
    case CLOSE
    with assms have cands: "cands = sort_key d_id ?y @ sort_key d_id ?t"
      by (simp add: close_candidates_def Let_def)
    have "sorted (map (\<lambda>dt. (d_open_trading_day dt = day, d_id dt)) cands)"
      unfolding cands map_append y t sorted_append using ordered by auto
    with CLOSE both cands show ?thesis by (simp only: mset_append mset_sort simp_thms)
  qed (use assms in \<open>auto simp: close_candidates_def Let_def\<close>)
qed

lemma close_candidates_total:
  "offset \<in> {CLOSE, CLOSE_TODAY, CLOSE_YESTERDAY} \<Longrightarrow>
     \<exists>cands code. close_candidates details offset day = Inr (cands, code)"
  by (auto simp: close_candidates_def Let_def)

lemma sum_list_mset_eq: "mset xs = mset ys \<Longrightarrow> sum_list (map f xs) = (sum_list (map f ys) :: int)"
  by (metis mset_map sum_mset_sum_list)

section \<open>Properties\<close>

text \<open>
  C36: an accepted allocation places exactly the requested volume, never more on a detail than its
  free volume, only on eligible details, each marked close-today or close-yesterday by its opening
  day; the details used are the first ones in the order yesterday before today and then by id, and
  every one but the last is used up.
\<close>

theorem allocate_close_fifo:
  assumes "allocate_close details offset day volume = Inr plans"
  shows "sum_list (map fp_volume plans) = volume
    \<and> (\<forall>p \<in> set plans. fp_detail p \<in> set details \<and> eligible offset day (fp_detail p)
         \<and> 0 < fp_volume p \<and> fp_volume p \<le> free_volume (fp_detail p)
         \<and> fp_resolved_offset_flag p = resolved_flag day (fp_detail p))
    \<and> (\<exists>cands. mset cands = mset (filter (eligible offset day) details)
         \<and> sorted (map (\<lambda>dt. (d_open_trading_day dt = day, d_id dt)) cands)
         \<and> map fp_detail plans = take (length plans) cands)
    \<and> (\<forall>p \<in> set (butlast plans). fp_volume p = free_volume (fp_detail p))"
proof -
  have volume: "0 < volume"
    using assms by (cases "volume \<le> 0") (simp_all add: allocate_close_def)
  with assms obtain cands code where
    cands: "close_candidates details offset day = Inr (cands, code)"
    unfolding allocate_close_def by (auto simp: rbind_Inr_iff)
  obtain plans' left where loop': "allocate_loop day volume cands = (plans', left)"
    by (cases "allocate_loop day volume cands")
  have loop: "allocate_loop day volume cands = (plans, left)" "left \<le> 0"
    using assms volume cands loop' by (auto simp: allocate_close_def split: if_splits)
  note c = close_candidates_Inr [OF cands]
  have set_cands: "set cands = {dt \<in> set details. eligible offset day dt}"
    using c by (metis set_filter set_mset_mset)
  then have "\<forall>dt \<in> set cands. 0 < free_volume dt" by (auto simp: eligible_def)
  note l = allocate_loop_spec [OF loop(1) volume this]
  have "fp_detail p \<in> set cands" if "p \<in> set plans" for p
    using l that by (metis image_eqI in_set_takeD list.set_map)
  with c l loop(2) set_cands show ?thesis by auto
qed

text \<open>
  An allocation succeeds exactly when the volume is positive, the flag is a closing one and the
  eligible details have that much free volume.
\<close>

theorem allocate_close_succeeds_iff:
  "(\<exists>plans. allocate_close details offset day volume = Inr plans) \<longleftrightarrow>
     0 < volume \<and> offset \<in> {CLOSE, CLOSE_TODAY, CLOSE_YESTERDAY}
     \<and> volume \<le> sum_list (map free_volume (filter (eligible offset day) details))"
proof (cases "0 < volume \<and> offset \<in> {CLOSE, CLOSE_TODAY, CLOSE_YESTERDAY}")
  case True
  then obtain cands code where cands: "close_candidates details offset day = Inr (cands, code)"
    using close_candidates_total by blast
  obtain plans left where loop: "allocate_loop day volume cands = (plans, left)"
    by (cases "allocate_loop day volume cands")
  note c = close_candidates_Inr [OF cands]
  then have "set cands = {dt \<in> set details. eligible offset day dt}"
    by (metis set_filter set_mset_mset)
  then have "\<forall>dt \<in> set cands. 0 < free_volume dt" by (auto simp: eligible_def)
  then have "left = max 0 (volume - sum_list (map free_volume cands))"
    using allocate_loop_spec [OF loop] True by blast
  moreover have "sum_list (map free_volume cands)
      = sum_list (map free_volume (filter (eligible offset day) details))"
    using c by (intro sum_list_mset_eq) simp
  ultimately show ?thesis
    using True cands loop by (auto simp: allocate_close_def)
next
  case False
  then show ?thesis
    by (auto simp: allocate_close_def close_candidates_def Let_def split: offset_flag.splits)
qed

definition sample_detail :: "int \<Rightarrow> date \<Rightarrow> int \<Rightarrow> int \<Rightarrow> detail" where
  "sample_detail i day remaining frozen =
     \<lparr>d_id = i, d_position_detail_id = ''PD'', d_position_id = ''P1'', d_account_id = ''A1'',
      d_open_trade_id = ''T0'', d_order_book_id = ''RB2610'', d_exchange_id = ''SHFE'',
      d_symbol = ''RB2610'', d_instrument_type = FUTURES, d_direction = LONG,
      d_open_trading_day = day, d_open_price = 3500, d_pnl_base_price = 3500,
      d_original_volume = remaining, d_remaining_volume = remaining, d_frozen_volume = frozen,
      d_open_margin = 7000, d_remaining_margin = 7000, d_initial_occupied_margin = 7000,
      d_realtime_required_margin = 0, d_margin_rule_id = None, d_margin_rule_version = None,
      d_margin_rule_snapshot = None, d_margin_price_mode = None,
      d_margin_underlying_price = None, d_margin_option_price = None,
      d_margin_calculated_at = None, d_multiplier_snapshot = 10, d_open_commission = 5,
      d_status = DETAIL_OPEN, d_created_at = 0, d_updated_at = 0\<rparr>"

theorem allocate_close_fifo_witness:
  "\<exists>plans. allocate_close [sample_detail 2 10 3 0, sample_detail 1 10 2 1, sample_detail 3 9 2 0]
     CLOSE 10 4 = Inr plans \<and> sum_list (map fp_volume plans) = 4"
proof -
  have "allocate_close [sample_detail 2 10 3 0, sample_detail 1 10 2 1, sample_detail 3 9 2 0]
     CLOSE 10 4 = Inr
       [\<lparr>fp_detail = sample_detail 3 9 2 0, fp_volume = 2,
         fp_resolved_offset_flag = CLOSE_YESTERDAY\<rparr>,
        \<lparr>fp_detail = sample_detail 1 10 2 1, fp_volume = 1, fp_resolved_offset_flag = CLOSE_TODAY\<rparr>,
        \<lparr>fp_detail = sample_detail 2 10 3 0, fp_volume = 1, fp_resolved_offset_flag = CLOSE_TODAY\<rparr>]"
    by (simp add: allocate_close_def close_candidates_def free_volume_def sample_detail_def
        resolved_flag_def)
  from allocate_close_fifo [OF this] this show ?thesis by blast
qed

end
