(* ===== verification/Risk_State.thy ===== *)
theory Risk_State
  imports Schema
begin

text \<open>
  \<open>app/services/account_risk_state_service.py\<close>: the account's risk states, the thresholds with
  hysteresis and the barrier that every opening order passes; and the settlement gate of
  \<open>app/services/settlement_gate_service.py\<close>.
\<close>

section \<open>The decision\<close>

record risk_thresholds =
  warning_ratio :: decimal
  liquidation_ratio :: decimal
  recovery_ratio :: decimal

record risk_indicators =
  ri_valuation_available :: bool
  ri_equity :: decimal
  ri_risk_available_cash :: decimal
  ri_risk_ratio :: decimal

record risk_decision =
  rd_state :: risk_state
  rd_reason :: string

definition open_blocked_states :: "risk_state list" where
  "open_blocked_states =
     [MARGIN_DEFICIT, LIQUIDATION_PENDING, LIQUIDATING, VALUATION_UNAVAILABLE]"

definition validate_thresholds :: "risk_thresholds \<Rightarrow> unit result" where
  "validate_thresholds th = ensure
     (0 \<le> recovery_ratio th \<and> recovery_ratio th < warning_ratio th
        \<and> warning_ratio th < liquidation_ratio th)
     PyValueError"

definition limit_exceeded :: "risk_thresholds \<Rightarrow> risk_indicators \<Rightarrow> bool" where
  "limit_exceeded th i \<longleftrightarrow>
     ri_equity i \<le> 0 \<or> ri_risk_available_cash i < 0 \<or> liquidation_ratio th \<le> ri_risk_ratio i"

definition evaluate :: "risk_thresholds \<Rightarrow> risk_state \<Rightarrow> risk_indicators \<Rightarrow> risk_decision result" where
  "evaluate th current i = rbind (validate_thresholds th) (\<lambda>_. Inr
     (if \<not> ri_valuation_available i then
        \<lparr>rd_state = VALUATION_UNAVAILABLE, rd_reason = ''VALUATION_UNAVAILABLE''\<rparr>
      else if limit_exceeded th i then
        (if current \<in> {LIQUIDATION_PENDING, LIQUIDATING}
         then \<lparr>rd_state = current, rd_reason = ''RISK_LIMIT_STILL_EXCEEDED''\<rparr>
         else \<lparr>rd_state = MARGIN_DEFICIT,
                rd_reason = (if ri_equity i \<le> 0 then ''EQUITY_NON_POSITIVE''
                             else ''RISK_LIMIT_EXCEEDED'')\<rparr>)
      else if warning_ratio th \<le> ri_risk_ratio i
           \<or> (current \<noteq> NORMAL \<and> recovery_ratio th < ri_risk_ratio i) then
        \<lparr>rd_state = WARNING, rd_reason = ''RISK_WARNING_RATIO''\<rparr>
      else if current \<in> {WARNING, MARGIN_DEFICIT, LIQUIDATION_PENDING, LIQUIDATING,
                          VALUATION_UNAVAILABLE} then
        \<lparr>rd_state = RECOVERED, rd_reason = ''RISK_RECOVERED''\<rparr>
      else if current = RECOVERED then
        \<lparr>rd_state = NORMAL, rd_reason = ''RECOVERY_CONFIRMED''\<rparr>
      else \<lparr>rd_state = NORMAL, rd_reason = ''RISK_NORMAL''\<rparr>))"

definition resolve_full_evaluation :: "bool \<Rightarrow> bool \<Rightarrow> risk_state" where
  "resolve_full_evaluation valuation_unavailable margin_deficit =
     (if valuation_unavailable then VALUATION_UNAVAILABLE
      else if margin_deficit then MARGIN_DEFICIT else NORMAL)"

definition preserve_for_local_update :: "risk_state \<Rightarrow> bool \<Rightarrow> bool \<Rightarrow> risk_state" where
  "preserve_for_local_update current valuation_unavailable margin_deficit =
     (if valuation_unavailable \<or> current = VALUATION_UNAVAILABLE then VALUATION_UNAVAILABLE
      else if margin_deficit \<or> current \<in> {MARGIN_DEFICIT, LIQUIDATION_PENDING, LIQUIDATING} then
        (if current \<noteq> NORMAL then current else MARGIN_DEFICIT)
      else current)"

definition ensure_open_allowed :: "risk_state \<Rightarrow> unit result" where
  "ensure_open_allowed s =
     ensure (s \<notin> set open_blocked_states) (BusinessRuleError ''ACCOUNT_RISK_OPEN_BLOCKED'')"

section \<open>The settlement gate\<close>

record settlement_batch =
  sb_trading_day :: date
  sb_status :: batch_status

text \<open>\<open>get_latest_batch\<close>: \<open>order_by(trading_day.desc()).limit(1)\<close>; the column is unique.\<close>

fun get_latest_batch :: "settlement_batch list \<Rightarrow> settlement_batch option" where
  "get_latest_batch [] = None"
| "get_latest_batch (b # bs) =
     (case get_latest_batch bs of
        None \<Rightarrow> Some b
      | Some c \<Rightarrow> Some (if sb_trading_day c < sb_trading_day b then b else c))"

text \<open>
  The bound dialect is \<open>postgresql\<close> or \<open>sqlite\<close>; the lock orders the transaction against the
  settlement run and changes no row.
\<close>

definition ensure_trading_open :: "settlement_batch list \<Rightarrow> date option \<Rightarrow> unit result" where
  "ensure_trading_open batches trading_day =
     (case get_latest_batch batches of
        None \<Rightarrow> Inr ()
      | Some latest \<Rightarrow>
          if sb_status latest \<noteq> COMPLETED
          then Inl (BusinessRuleError ''DAILY_SETTLEMENT_TRADING_CLOSED'')
          else (case trading_day of
                  None \<Rightarrow> Inr ()
                | Some day \<Rightarrow>
                    if day \<le> sb_trading_day latest
                    then Inl (BusinessRuleError ''TRADING_DAY_ALREADY_SETTLED'') else Inr ()))"

section \<open>Runs of the state machine\<close>

definition thresholds_ok :: "risk_thresholds \<Rightarrow> bool" where
  "thresholds_ok th \<longleftrightarrow> 0 \<le> recovery_ratio th \<and> recovery_ratio th < warning_ratio th
     \<and> warning_ratio th < liquidation_ratio th"

lemma evaluate_Inr_thresholds: "evaluate th s i = Inr d \<Longrightarrow> thresholds_ok th"
  by (simp add: evaluate_def validate_thresholds_def thresholds_ok_def rbind_Inr_iff ensure_Inr_iff)

lemma evaluate_ok: "thresholds_ok th \<Longrightarrow> \<exists>d. evaluate th s i = Inr d"
  by (simp add: evaluate_def validate_thresholds_def thresholds_ok_def)

text \<open>One evaluation moves the state of the account.\<close>

inductive risk_step :: "risk_thresholds \<Rightarrow> risk_state \<Rightarrow> risk_indicators \<Rightarrow> risk_state \<Rightarrow> bool"
  for th where
  risk_step: "evaluate th s i = Inr d \<Longrightarrow> risk_step th s i (rd_state d)"

inductive_cases risk_stepE: "risk_step th s i s'"

inductive risk_run ::
  "risk_thresholds \<Rightarrow> risk_state \<Rightarrow> (risk_indicators \<times> risk_state) list \<Rightarrow> risk_state \<Rightarrow> bool"
  for th s where
  run_nil: "risk_run th s [] s"
| run_snoc: "risk_run th s tr t \<Longrightarrow> risk_step th t i u \<Longrightarrow> risk_run th s (tr @ [(i, u)]) u"

inductive_cases risk_runE: "risk_run th s tr t"

definition healthy :: "risk_thresholds \<Rightarrow> risk_indicators \<Rightarrow> bool" where
  "healthy th i \<longleftrightarrow> ri_valuation_available i \<and> \<not> limit_exceeded th i \<and> ri_risk_ratio i \<le> recovery_ratio th"

lemma risk_step_iff:
  "risk_step th s i s' \<longleftrightarrow> thresholds_ok th \<and> s' =
     (if \<not> ri_valuation_available i then VALUATION_UNAVAILABLE
      else if limit_exceeded th i then
        (if s \<in> {LIQUIDATION_PENDING, LIQUIDATING} then s else MARGIN_DEFICIT)
      else if warning_ratio th \<le> ri_risk_ratio i
           \<or> (s \<noteq> NORMAL \<and> recovery_ratio th < ri_risk_ratio i) then WARNING
      else if s \<in> {NORMAL, RECOVERED} then NORMAL else RECOVERED)"
  (is "?l = ?r")
proof
  assume ?l
  then obtain d where d: "evaluate th s i = Inr d" "s' = rd_state d" by (auto elim: risk_stepE)
  with evaluate_Inr_thresholds [OF d(1)] show ?r
    by (cases s) (auto simp: evaluate_def validate_thresholds_def thresholds_ok_def)
next
  assume r: ?r
  then obtain d where d: "evaluate th s i = Inr d" using evaluate_ok by blast
  with r have "s' = rd_state d"
    by (cases s) (auto simp: evaluate_def validate_thresholds_def thresholds_ok_def)
  with d show ?l by (auto intro: risk_step.intros)
qed

lemma risk_step_to_normal:
  "risk_step th s i NORMAL \<Longrightarrow> s \<in> {NORMAL, RECOVERED} \<and> ri_valuation_available i
     \<and> \<not> limit_exceeded th i \<and> ri_risk_ratio i < warning_ratio th
     \<and> (s = RECOVERED \<longrightarrow> healthy th i)"
  by (auto simp: risk_step_iff healthy_def split: if_splits)

lemma risk_step_to_recovered:
  "risk_step th s i RECOVERED \<Longrightarrow> healthy th i \<and> s \<notin> {NORMAL, RECOVERED}"
  by (auto simp: risk_step_iff healthy_def split: if_splits)

lemma risk_run_last: "risk_run th s tr t \<Longrightarrow> t = (if tr = [] then s else snd (last tr))"
  by (induction rule: risk_run.induct) auto

section \<open>Properties\<close>

text \<open>
  C37: recovery is confirmed twice. A run of evaluations that starts in a state other than NORMAL or
  RECOVERED and reaches NORMAL has an evaluation that enters RECOVERED and, right after it, one that
  enters NORMAL, both on reliable valuations with positive ri_equity, no shortfall and a risk ratio at
  or below the recovery threshold.
\<close>

theorem recovery_is_confirmed_twice:
  assumes "risk_run th s tr NORMAL" "s \<notin> {NORMAL, RECOVERED}"
  shows "\<exists>pre i j post. tr = pre @ [(i, RECOVERED), (j, NORMAL)] @ post
     \<and> healthy th i \<and> healthy th j"
proof -
  have "(t = NORMAL \<longrightarrow> (\<exists>pre i j post. tr = pre @ [(i, RECOVERED), (j, NORMAL)] @ post
           \<and> healthy th i \<and> healthy th j))
        \<and> (t = RECOVERED \<longrightarrow> (\<exists>pre i. tr = pre @ [(i, RECOVERED)] \<and> healthy th i))"
    if "risk_run th s tr t" for tr t
    using that
  proof (induction rule: risk_run.induct)
    case run_nil
    then show ?case using assms(2) by auto
  next
    case (run_snoc tr t i u)
    show ?case
    proof (intro conjI impI)
      assume "u = NORMAL"
      with run_snoc.hyps have step: "risk_step th t i NORMAL" by simp
      from risk_step_to_normal [OF step] consider "t = NORMAL" | "t = RECOVERED" "healthy th i" by auto
      then show "\<exists>pre i' j post. tr @ [(i, u)] = pre @ [(i', RECOVERED), (j, NORMAL)] @ post
          \<and> healthy th i' \<and> healthy th j"
      proof cases
        case 1
        with run_snoc.IH obtain pre i' j post where
          "tr = pre @ [(i', RECOVERED), (j, NORMAL)] @ post" "healthy th i'" "healthy th j" by auto
        then show ?thesis by (intro exI [of _ pre] exI [of _ i'] exI [of _ j] exI) auto
      next
        case 2
        with run_snoc.IH obtain pre i' where "tr = pre @ [(i', RECOVERED)]" "healthy th i'" by auto
        with 2 \<open>u = NORMAL\<close> show ?thesis
          by (intro exI [of _ pre] exI [of _ i'] exI [of _ i] exI [of _ "[]"]) auto
      qed
    next
      assume "u = RECOVERED"
      with run_snoc.hyps have "healthy th i" by (auto dest: risk_step_to_recovered)
      with \<open>u = RECOVERED\<close> show "\<exists>pre i'. tr @ [(i, u)] = pre @ [(i', RECOVERED)] \<and> healthy th i'"
        by auto
    qed
  qed
  with assms(1) show ?thesis by blast
qed

definition sample_thresholds :: risk_thresholds where
  "sample_thresholds = \<lparr>warning_ratio = 4 / 5, liquidation_ratio = 1, recovery_ratio = 7 / 10\<rparr>"

definition sample_healthy :: risk_indicators where
  "sample_healthy = \<lparr>ri_valuation_available = True, ri_equity = 1000, ri_risk_available_cash = 500,
     ri_risk_ratio = 1 / 2\<rparr>"

lemma sample_steps:
  "risk_step sample_thresholds MARGIN_DEFICIT sample_healthy RECOVERED"
  "risk_step sample_thresholds RECOVERED sample_healthy NORMAL"
  by (simp_all add: risk_step_iff thresholds_ok_def limit_exceeded_def sample_thresholds_def
      sample_healthy_def)

theorem recovery_is_confirmed_twice_witness:
  "\<exists>pre i j post. [(sample_healthy, RECOVERED), (sample_healthy, NORMAL)]
     = pre @ [(i, RECOVERED), (j, NORMAL)] @ post
     \<and> healthy sample_thresholds i \<and> healthy sample_thresholds j"
proof -
  have "risk_run sample_thresholds MARGIN_DEFICIT
      (([] @ [(sample_healthy, RECOVERED)]) @ [(sample_healthy, NORMAL)]) NORMAL"
    using sample_steps by (metis run_nil run_snoc)
  then show ?thesis by (intro recovery_is_confirmed_twice [where s = MARGIN_DEFICIT]) simp_all
qed

lemma hysteresis_band_steps:
  assumes "risk_run th s tr t"
    and "\<forall>(i, u) \<in> set tr. ri_valuation_available i \<and> \<not> limit_exceeded th i
           \<and> recovery_ratio th < ri_risk_ratio i \<and> ri_risk_ratio i < warning_ratio th"
  shows "\<forall>(i, u) \<in> set tr. u = (if s = NORMAL then NORMAL else WARNING)"
  using assms
proof (induction rule: risk_run.induct)
  case run_nil
  then show ?case by simp
next
  case (run_snoc tr t i u)
  have "t = (if tr = [] then s else snd (last tr))" by (rule risk_run_last [OF run_snoc.hyps(1)])
  moreover have IH: "\<forall>(i, u) \<in> set tr. u = (if s = NORMAL then NORMAL else WARNING)"
    using run_snoc.IH run_snoc.prems by simp
  then have "snd (last tr) = (if s = NORMAL then NORMAL else WARNING)" if "tr \<noteq> []"
    using last_in_set [OF that] by (cases "last tr") auto
  ultimately have "t = NORMAL \<longleftrightarrow> s = NORMAL" by (auto split: if_splits)
  with run_snoc.hyps(2) run_snoc.prems have "u = (if s = NORMAL then NORMAL else WARNING)"
    by (auto simp: risk_step_iff)
  with IH show ?case by simp
qed

text \<open>
  Hysteresis. While the valuation stays reliable and within the hard limits and the risk ratio
  stays strictly between the recovery and the warning threshold, an account that was NORMAL stays
  NORMAL through every run, and any other account is in WARNING after every evaluation.
\<close>

theorem hysteresis_band:
  assumes "risk_run th s tr t"
    and "\<forall>(i, u) \<in> set tr. ri_valuation_available i \<and> \<not> limit_exceeded th i
           \<and> recovery_ratio th < ri_risk_ratio i \<and> ri_risk_ratio i < warning_ratio th"
  shows "snd ` set tr \<subseteq> {if s = NORMAL then NORMAL else WARNING}"
  using hysteresis_band_steps [OF assms] by force

theorem hysteresis_band_witness:
  "snd ` set ([] @ [(\<lparr>ri_valuation_available = True, ri_equity = 1000, ri_risk_available_cash = 100,
       ri_risk_ratio = 3 / 4\<rparr>, WARNING)]) \<subseteq> {if WARNING = NORMAL then NORMAL else WARNING}"
proof (rule hysteresis_band)
  show "risk_run sample_thresholds WARNING ([] @ [(\<lparr>ri_valuation_available = True, ri_equity = 1000,
      ri_risk_available_cash = 100, ri_risk_ratio = 3 / 4\<rparr>, WARNING)]) WARNING"
    by (rule run_snoc [OF run_nil]) (simp add: risk_step_iff thresholds_ok_def limit_exceeded_def sample_thresholds_def)
qed (simp add: limit_exceeded_def sample_thresholds_def)

text \<open>
  Whatever the state before, an evaluation without a reliable valuation or beyond a hard limit
  (no ri_equity, a shortfall, a ratio at the liquidation threshold) ends in a state that rejects every
  opening order, a liquidation under way is not restarted, and the other evaluations end in a state
  that accepts opening orders; with ordered thresholds one of the two always happens.
\<close>

theorem evaluate_controls_opening:
  assumes "thresholds_ok th"
  shows "\<exists>d. evaluate th s i = Inr d
     \<and> (ensure_open_allowed (rd_state d) = Inr () \<longleftrightarrow>
          ri_valuation_available i \<and> 0 < ri_equity i \<and> 0 \<le> ri_risk_available_cash i
          \<and> ri_risk_ratio i < liquidation_ratio th)
     \<and> (ri_valuation_available i \<and> limit_exceeded th i \<and> s \<in> {LIQUIDATION_PENDING, LIQUIDATING}
          \<longrightarrow> rd_state d = s)
     \<and> (rd_state d \<in> {LIQUIDATION_PENDING, LIQUIDATING} \<longrightarrow> rd_state d = s)"
proof -
  obtain d where d: "evaluate th s i = Inr d" using evaluate_ok [OF assms] by blast
  then have step: "risk_step th s i (rd_state d)" by (rule risk_step)
  show ?thesis
  proof (intro exI [of _ d] conjI)
    show "ensure_open_allowed (rd_state d) = Inr () \<longleftrightarrow> ri_valuation_available i \<and> 0 < ri_equity i
        \<and> 0 \<le> ri_risk_available_cash i \<and> ri_risk_ratio i < liquidation_ratio th"
      using step by (auto simp: risk_step_iff ensure_open_allowed_def open_blocked_states_def
          ensure_Inr_iff limit_exceeded_def)
  qed (use d step in \<open>auto simp: risk_step_iff split: if_splits\<close>)
qed

theorem evaluate_controls_opening_witness:
  "\<exists>d. evaluate sample_thresholds LIQUIDATING sample_healthy = Inr d
     \<and> ensure_open_allowed (rd_state d) = Inr ()"
  using evaluate_controls_opening [of sample_thresholds LIQUIDATING sample_healthy]
  by (auto simp: thresholds_ok_def sample_thresholds_def sample_healthy_def)

text \<open>
  A local update never reports NORMAL for an account in another state, keeps every state that
  blocks opening orders blocked, and is idempotent; an unreliable valuation always wins.
\<close>

theorem local_update_preserves_severity:
  "(preserve_for_local_update s vu md = NORMAL \<longrightarrow> s = NORMAL)
   \<and> (s \<in> set open_blocked_states \<longrightarrow> preserve_for_local_update s vu md \<in> set open_blocked_states)
   \<and> preserve_for_local_update s True md = VALUATION_UNAVAILABLE
   \<and> preserve_for_local_update (preserve_for_local_update s vu md) vu md
       = preserve_for_local_update s vu md"
  by (cases s) (auto simp: preserve_for_local_update_def open_blocked_states_def)

theorem local_update_preserves_severity_witness:
  "preserve_for_local_update LIQUIDATING False False \<in> set open_blocked_states"
  using local_update_preserves_severity [of LIQUIDATING False False]
  by (simp add: open_blocked_states_def)

text \<open>
  A margin deficit found by a local update is recorded for a NORMAL account only: in WARNING and
  RECOVERED the state stays and opening orders still pass.
\<close>

lemma local_margin_deficit_not_recorded:
  "preserve_for_local_update NORMAL False True = MARGIN_DEFICIT"
  "s \<in> {WARNING, RECOVERED} \<Longrightarrow> preserve_for_local_update s False True = s
     \<and> ensure_open_allowed (preserve_for_local_update s False True) = Inr ()"
  by (auto simp: preserve_for_local_update_def ensure_open_allowed_def open_blocked_states_def)

lemma get_latest_batch_None [simp]: "get_latest_batch bs = None \<longleftrightarrow> bs = []"
  by (cases bs) (auto split: option.splits)

lemma get_latest_batch_Some:
  "get_latest_batch bs = Some b \<Longrightarrow>
     b \<in> set bs \<and> (\<forall>c \<in> set bs. sb_trading_day c \<le> sb_trading_day b)"
proof (induction bs arbitrary: b)
  case (Cons a bs)
  then show ?case
    by (cases "get_latest_batch bs") (fastforce split: if_splits)+
qed simp

text \<open>
  Trading for a day passes the settlement gate exactly when no settlement has been started or
  the most recent one is complete and the day is after every settled day.
\<close>

theorem gate_open_iff:
  assumes "distinct (map sb_trading_day batches)"
  shows "ensure_trading_open batches (Some day) = Inr () \<longleftrightarrow>
     (\<forall>b \<in> set batches. sb_trading_day b < day
        \<and> ((\<forall>c \<in> set batches. sb_trading_day c \<le> sb_trading_day b) \<longrightarrow> sb_status b = COMPLETED))"
proof (cases "get_latest_batch batches")
  case None
  then show ?thesis by (simp add: ensure_trading_open_def)
next
  case (Some latest)
  note l = get_latest_batch_Some [OF Some]
  have only: "b = latest"
    if "b \<in> set batches" "\<forall>c \<in> set batches. sb_trading_day c \<le> sb_trading_day b" for b
    using that l assms by (metis antisym distinct_map inj_onD)
  have "ensure_trading_open batches (Some day) = Inr ()
      \<longleftrightarrow> sb_status latest = COMPLETED \<and> sb_trading_day latest < day"
    using Some by (simp add: ensure_trading_open_def)
  also have "\<dots> \<longleftrightarrow> (\<forall>b \<in> set batches. sb_trading_day b < day
      \<and> ((\<forall>c \<in> set batches. sb_trading_day c \<le> sb_trading_day b) \<longrightarrow> sb_status b = COMPLETED))"
  proof safe
    fix b assume "sb_trading_day latest < day" "b \<in> set batches"
    with l show "sb_trading_day b < day" by fastforce
  next
    fix b assume "sb_status latest = COMPLETED" "b \<in> set batches"
      "\<forall>c \<in> set batches. sb_trading_day c \<le> sb_trading_day b"
    with only show "sb_status b = COMPLETED" by simp
  qed (use l in auto)
  finally show ?thesis .
qed

theorem gate_open_iff_witness:
  "ensure_trading_open [\<lparr>sb_trading_day = 10, sb_status = COMPLETED\<rparr>] (Some 11) = Inr ()"
  by (subst gate_open_iff) auto

end
