(* ===== verification/Freeze.thy ===== *)
theory Freeze
  imports Schema
begin

text \<open>
  \<open>app/services/order_freeze_service.py\<close>: the cash, margin and commission an order takes out of the
  available cash when it is placed, and what a cancellation gives back. The service receives the
  locked account row (or None) and returns it changed; an error leaves the row to the rollback.
\<close>

section \<open>The operations\<close>

definition validate_account_tradable :: "account option \<Rightarrow> account result" where
  "validate_account_tradable account =
     (case account of
        None \<Rightarrow> Inl (ResourceNotFoundError ''ACCOUNT_NOT_FOUND'')
      | Some a \<Rightarrow> if a_status a \<noteq> ACCOUNT_NORMAL
                  then Inl (BusinessRuleError ''ACCOUNT_NOT_TRADABLE'') else Inr a)"

text \<open>The accounts whose unset risk figure is repaired from the book value before the check.\<close>

definition legacy_futures_account :: "account \<Rightarrow> bool" where
  "legacy_futures_account a \<longleftrightarrow>
     quantize_money (a_risk_available_cash a) = 0 \<and> 0 < quantize_money (a_available_cash a)
     \<and> a_risk_state a = NORMAL \<and> a_option_used_margin a = 0
     \<and> a_option_realtime_required_margin a = 0 \<and> a_long_option_market_value a = 0
     \<and> a_short_option_market_value a = 0"

definition freeze_open_order :: "account option \<Rightarrow> decimal \<Rightarrow> decimal \<Rightarrow> account result" where
  "freeze_open_order account frozen_margin frozen_commission =
     rbind (validate_account_tradable account) (\<lambda>a0.
     if frozen_margin < 0 then Inl (BusinessValidationError ''INVALID_FROZEN_MARGIN'')
     else if frozen_commission < 0
     then Inl (BusinessValidationError ''INVALID_FROZEN_COMMISSION'')
     else
       let required = quantize_money (frozen_margin + frozen_commission);
           available_cash = quantize_money (a_available_cash a0);
           risk_available_cash = (if legacy_futures_account a0 then available_cash
                                  else quantize_money (a_risk_available_cash a0));
           a = (if legacy_futures_account a0
                then a0\<lparr>a_risk_available_cash := available_cash\<rparr> else a0)
       in if available_cash < required
          then Inl (BusinessRuleError ''INSUFFICIENT_AVAILABLE_CASH'')
          else if risk_available_cash < required
          then Inl (BusinessRuleError ''INSUFFICIENT_RISK_AVAILABLE_CASH'')
          else Inr (a\<lparr>
            a_available_cash := quantize_money (a_available_cash a - required),
            a_risk_available_cash := quantize_money (a_risk_available_cash a - required),
            a_frozen_margin := quantize_money (a_frozen_margin a + frozen_margin),
            a_frozen_commission := quantize_money (a_frozen_commission a + frozen_commission)\<rparr>))"

definition freeze_option_resources ::
  "account option \<Rightarrow> decimal \<Rightarrow> decimal \<Rightarrow> decimal \<Rightarrow> account result" where
  "freeze_option_resources account frozen_cash frozen_margin frozen_commission =
     rbind (validate_account_tradable account) (\<lambda>a.
     if \<exists>v \<in> set [frozen_cash, frozen_margin, frozen_commission]. v < 0
     then Inl (BusinessValidationError ''INVALID_OPTION_FROZEN_RESOURCE'')
     else
       let required = quantize_money (sum_list [frozen_cash, frozen_margin, frozen_commission]);
           spendable = min (quantize_money (a_available_cash a))
                           (quantize_money (a_risk_available_cash a))
       in if spendable < required
          then Inl (BusinessRuleError ''INSUFFICIENT_RISK_AVAILABLE_CASH'')
          else Inr (a\<lparr>
            a_available_cash := quantize_money (a_available_cash a - required),
            a_risk_available_cash := quantize_money (a_risk_available_cash a - required),
            a_frozen_cash := quantize_money (a_frozen_cash a + frozen_cash),
            a_frozen_margin := quantize_money (a_frozen_margin a + frozen_margin),
            a_frozen_commission := quantize_money (a_frozen_commission a + frozen_commission)\<rparr>))"

definition freeze_stock_buy :: "account option \<Rightarrow> decimal \<Rightarrow> decimal \<Rightarrow> account result" where
  "freeze_stock_buy account frozen_cash frozen_commission =
     rbind (validate_account_tradable account) (\<lambda>a.
     if frozen_cash < 0 \<or> frozen_commission < 0
     then Inl (BusinessValidationError ''INVALID_STOCK_FROZEN_RESOURCE'')
     else
       let required = quantize_money (frozen_cash + frozen_commission)
       in if quantize_money (a_available_cash a) < required
          then Inl (BusinessRuleError ''INSUFFICIENT_AVAILABLE_CASH'')
          else Inr (a\<lparr>
            a_available_cash := quantize_money (a_available_cash a - required),
            a_frozen_cash := quantize_money (a_frozen_cash a + frozen_cash),
            a_frozen_commission := quantize_money (a_frozen_commission a + frozen_commission)\<rparr>))"

definition release_stock_buy :: "account option \<Rightarrow> decimal \<Rightarrow> decimal \<Rightarrow> account result" where
  "release_stock_buy account frozen_cash frozen_commission =
     (case account of
        None \<Rightarrow> Inl (ResourceNotFoundError ''ACCOUNT_NOT_FOUND'')
      | Some a \<Rightarrow>
          let cash = quantize_money frozen_cash; commission = quantize_money frozen_commission
          in if cash < 0 \<or> commission < 0
             then Inl (BusinessValidationError ''INVALID_STOCK_RELEASE_RESOURCE'')
             else if a_frozen_cash a < cash \<or> a_frozen_commission a < commission
             then Inl (DataAccessError ''STOCK_CANCEL_FROZEN_RESOURCE_INCONSISTENT'')
             else Inr (a\<lparr>
               a_available_cash := quantize_money (a_available_cash a + cash + commission),
               a_frozen_cash := quantize_money (a_frozen_cash a - cash),
               a_frozen_commission := quantize_money (a_frozen_commission a - commission)\<rparr>))"

definition freeze_close_order_commission :: "account option \<Rightarrow> decimal \<Rightarrow> account result" where
  "freeze_close_order_commission account frozen_commission =
     rbind (validate_account_tradable account) (\<lambda>a.
     if frozen_commission < 0
     then Inl (BusinessValidationError ''INVALID_FROZEN_COMMISSION'')
     else
       let commission = quantize_money frozen_commission
       in if a_available_cash a < commission
          then Inl (BusinessRuleError ''INSUFFICIENT_AVAILABLE_CASH'')
          else Inr (a\<lparr>
            a_available_cash := quantize_money (a_available_cash a - commission),
            a_risk_available_cash := quantize_money (a_risk_available_cash a - commission),
            a_frozen_commission := quantize_money (a_frozen_commission a + commission)\<rparr>))"

definition release_open_order_frozen_resources ::
  "account option \<Rightarrow> decimal \<Rightarrow> decimal \<Rightarrow> decimal \<Rightarrow> account result" where
  "release_open_order_frozen_resources account frozen_margin frozen_commission frozen_cash =
     (case account of
        None \<Rightarrow> Inl (ResourceNotFoundError ''ACCOUNT_NOT_FOUND'')
      | Some a \<Rightarrow>
          let released_margin = quantize_money frozen_margin;
              released_commission = quantize_money frozen_commission;
              released_cash = quantize_money frozen_cash
          in if released_margin < 0
             then Inl (BusinessValidationError ''INVALID_RELEASED_MARGIN'')
             else if released_commission < 0
             then Inl (BusinessValidationError ''INVALID_RELEASED_COMMISSION'')
             else if released_cash < 0
             then Inl (BusinessValidationError ''INVALID_RELEASED_CASH'')
             else if a_frozen_margin a < released_margin
             then Inl (DataAccessError ''CANCEL_FROZEN_RESOURCE_INCONSISTENT'')
             else if a_frozen_commission a < released_commission
             then Inl (DataAccessError ''CANCEL_FROZEN_RESOURCE_INCONSISTENT'')
             else if a_frozen_cash a < released_cash
             then Inl (DataAccessError ''CANCEL_FROZEN_RESOURCE_INCONSISTENT'')
             else
               let released = quantize_money
                     (released_margin + released_commission + released_cash)
               in Inr (a\<lparr>
                 a_available_cash := quantize_money (a_available_cash a + released),
                 a_frozen_margin := quantize_money (a_frozen_margin a - released_margin),
                 a_frozen_commission :=
                   quantize_money (a_frozen_commission a - released_commission),
                 a_frozen_cash := quantize_money (a_frozen_cash a - released_cash),
                 a_risk_available_cash :=
                   quantize_money (a_risk_available_cash a + released)\<rparr>))"

definition release_close_order_commission ::
  "account option \<Rightarrow> decimal \<Rightarrow> decimal \<Rightarrow> account result" where
  "release_close_order_commission account frozen_commission frozen_cash =
     release_open_order_frozen_resources account 0 frozen_commission frozen_cash"

section \<open>The abstract ledger\<close>

text \<open>
  What an order holds, and the four pools of an account it is moved between. \<open>reserve\<close> and
  \<open>unreserve\<close> are the exact transfers that the service must implement.
\<close>

record reservation =
  rs_margin :: decimal
  rs_cash :: decimal
  rs_commission :: decimal

record cash_pools =
  cp_available :: decimal
  cp_margin :: decimal
  cp_cash :: decimal
  cp_commission :: decimal

definition reserve :: "reservation \<Rightarrow> cash_pools \<Rightarrow> cash_pools" where
  "reserve r p = \<lparr>cp_available = cp_available p - (rs_margin r + rs_cash r + rs_commission r),
     cp_margin = cp_margin p + rs_margin r, cp_cash = cp_cash p + rs_cash r,
     cp_commission = cp_commission p + rs_commission r\<rparr>"

definition unreserve :: "reservation \<Rightarrow> cash_pools \<Rightarrow> cash_pools" where
  "unreserve r p = \<lparr>cp_available = cp_available p + (rs_margin r + rs_cash r + rs_commission r),
     cp_margin = cp_margin p - rs_margin r, cp_cash = cp_cash p - rs_cash r,
     cp_commission = cp_commission p - rs_commission r\<rparr>"

definition liquid :: "cash_pools \<Rightarrow> decimal" where
  "liquid p = cp_available p + cp_margin p + cp_cash p + cp_commission p"

definition pools :: "account \<Rightarrow> cash_pools" where
  "pools a = \<lparr>cp_available = a_available_cash a, cp_margin = a_frozen_margin a,
     cp_cash = a_frozen_cash a, cp_commission = a_frozen_commission a\<rparr>"

definition pools_money :: "account \<Rightarrow> bool" where
  "pools_money a \<longleftrightarrow> is_money (a_available_cash a) \<and> is_money (a_frozen_margin a)
     \<and> is_money (a_frozen_cash a) \<and> is_money (a_frozen_commission a)
     \<and> is_money (a_risk_available_cash a)"

definition reservation_money :: "reservation \<Rightarrow> bool" where
  "reservation_money r \<longleftrightarrow>
     is_money (rs_margin r) \<and> is_money (rs_cash r) \<and> is_money (rs_commission r)"

definition reservation_nonneg :: "reservation \<Rightarrow> bool" where
  "reservation_nonneg r \<longleftrightarrow> 0 \<le> rs_margin r \<and> 0 \<le> rs_cash r \<and> 0 \<le> rs_commission r"

definition held_in :: "reservation \<Rightarrow> cash_pools \<Rightarrow> bool" where
  "held_in r p \<longleftrightarrow>
     rs_margin r \<le> cp_margin p \<and> rs_cash r \<le> cp_cash p \<and> rs_commission r \<le> cp_commission p"

text \<open>The columns a freeze or release may write are the four pools and the risk figure.\<close>

definition frozen_frame :: "account \<Rightarrow> account \<Rightarrow> bool" where
  "frozen_frame a a' \<longleftrightarrow> a' = a\<lparr>a_available_cash := a_available_cash a',
     a_frozen_cash := a_frozen_cash a', a_frozen_margin := a_frozen_margin a',
     a_frozen_commission := a_frozen_commission a',
     a_risk_available_cash := a_risk_available_cash a'\<rparr>"

lemma unreserve_reserve [simp]: "unreserve r (reserve r p) = p"
  by (simp add: reserve_def unreserve_def)

lemma liquid_reserve [simp]: "liquid (reserve r p) = liquid p"
  by (simp add: reserve_def liquid_def)

lemma liquid_unreserve [simp]: "liquid (unreserve r p) = liquid p"
  by (simp add: unreserve_def liquid_def)

section \<open>The contract of a freezing product\<close>

text \<open>
  \<open>freeze\<close> places an order's reservation, \<open>release\<close> gives it back, for the reservations that
  \<open>fits\<close> the product (a stock order holds no margin).
\<close>

locale frozen_pool =
  fixes fits :: "reservation \<Rightarrow> bool"
    and freeze :: "account \<Rightarrow> reservation \<Rightarrow> account result"
    and release :: "account \<Rightarrow> reservation \<Rightarrow> account result"
  assumes freeze_refines:
      "fits r \<Longrightarrow> pools_money a \<Longrightarrow> reservation_money r \<Longrightarrow> freeze a r = Inr a' \<Longrightarrow>
         pools a' = reserve r (pools a) \<and> 0 \<le> cp_available (pools a') \<and> reservation_nonneg r
         \<and> pools_money a' \<and> frozen_frame a a'"
    and release_refines:
      "fits r \<Longrightarrow> pools_money a \<Longrightarrow> reservation_money r \<Longrightarrow> reservation_nonneg r \<Longrightarrow>
         held_in r (pools a) \<Longrightarrow>
         \<exists>a'. release a r = Inr a' \<and> pools a' = unreserve r (pools a) \<and> pools_money a'
           \<and> frozen_frame a a'"
begin

lemma freeze_then_release:
  assumes "fits r" "pools_money a" "reservation_money r" "freeze a r = Inr a1"
    and "0 \<le> a_frozen_margin a" "0 \<le> a_frozen_cash a" "0 \<le> a_frozen_commission a"
  shows "\<exists>a2. release a1 r = Inr a2 \<and> pools a2 = pools a"
proof -
  note f = freeze_refines [OF assms(1-4)]
  then have "held_in r (pools a1)"
    using assms(5-7) by (simp add: held_in_def reserve_def pools_def)
  with f release_refines [OF assms(1), of a1] assms(3) show ?thesis by auto
qed

lemma freeze_keeps_liquid:
  "fits r \<Longrightarrow> pools_money a \<Longrightarrow> reservation_money r \<Longrightarrow> freeze a r = Inr a' \<Longrightarrow>
     liquid (pools a') = liquid (pools a)"
  using freeze_refines by auto

end

definition freeze_open where
  "freeze_open a r = freeze_open_order (Some a) (rs_margin r) (rs_commission r)"
definition freeze_option where
  "freeze_option a r =
     freeze_option_resources (Some a) (rs_cash r) (rs_margin r) (rs_commission r)"
definition freeze_stock where
  "freeze_stock a r = freeze_stock_buy (Some a) (rs_cash r) (rs_commission r)"
definition freeze_close where
  "freeze_close a r = freeze_close_order_commission (Some a) (rs_commission r)"
definition release_open where
  "release_open a r =
     release_open_order_frozen_resources (Some a) (rs_margin r) (rs_commission r) (rs_cash r)"
definition release_stock where
  "release_stock a r = release_stock_buy (Some a) (rs_cash r) (rs_commission r)"
definition release_close where
  "release_close a r = release_close_order_commission (Some a) (rs_commission r) (rs_cash r)"

lemmas ledger_defs = pools_def pools_money_def reserve_def unreserve_def reservation_money_def
  reservation_nonneg_def held_in_def frozen_frame_def

lemma release_open_refines:
  assumes "pools_money a" "reservation_money r" "reservation_nonneg r" "held_in r (pools a)"
  shows "\<exists>a'. release_open a r = Inr a' \<and> pools a' = unreserve r (pools a) \<and> pools_money a'
           \<and> frozen_frame a a'"
  using assms
  by (simp add: release_open_def release_open_order_frozen_resources_def ledger_defs Let_def
      not_less is_money_add is_money_diff algebra_simps)

lemma release_open_Inr:
  assumes "release_open_order_frozen_resources (Some a) m c k = Inr a'" "pools_money a"
    "is_money m" "is_money c" "is_money k"
  shows "a' = a\<lparr>a_available_cash := a_available_cash a + (m + c + k),
      a_frozen_margin := a_frozen_margin a - m, a_frozen_commission := a_frozen_commission a - c,
      a_frozen_cash := a_frozen_cash a - k,
      a_risk_available_cash := a_risk_available_cash a + (m + c + k)\<rparr>
    \<and> 0 \<le> m \<and> 0 \<le> c \<and> 0 \<le> k"
  using assms
  by (auto simp: release_open_order_frozen_resources_def pools_money_def Let_def is_money_add
      is_money_diff not_less split: if_splits)

lemma validate_account_tradable_Some:
  "validate_account_tradable (Some a) = Inr a' \<longleftrightarrow> a' = a \<and> a_status a = ACCOUNT_NORMAL"
  by (auto simp: validate_account_tradable_def)

interpretation futures_open: frozen_pool "\<lambda>r. rs_cash r = 0" freeze_open release_open
proof (unfold_locales, goal_cases)
  case (1 r a a')
  then show ?case
    by (auto simp: freeze_open_def freeze_open_order_def rbind_Inr_iff ledger_defs Let_def not_less
        validate_account_tradable_Some is_money_add is_money_diff split: if_splits)
qed (rule release_open_refines)

interpretation option_open: frozen_pool "\<lambda>_. True" freeze_option release_open
proof (unfold_locales, goal_cases)
  case (1 r a a')
  then show ?case
    by (auto simp: freeze_option_def freeze_option_resources_def rbind_Inr_iff ledger_defs Let_def
        not_less validate_account_tradable_Some is_money_add is_money_diff algebra_simps
        split: if_splits)
qed (rule release_open_refines)

interpretation stock_buy: frozen_pool "\<lambda>r. rs_margin r = 0" freeze_stock release_stock
proof (unfold_locales, goal_cases)
  case (1 r a a')
  then show ?case
    by (auto simp: freeze_stock_def freeze_stock_buy_def rbind_Inr_iff ledger_defs Let_def not_less
        validate_account_tradable_Some is_money_add is_money_diff split: if_splits)
next
  case (2 r a)
  then show ?case
    by (simp add: release_stock_def release_stock_buy_def ledger_defs Let_def not_less
        is_money_add is_money_diff algebra_simps)
qed

interpretation close_commission:
  frozen_pool "\<lambda>r. rs_margin r = 0 \<and> rs_cash r = 0" freeze_close release_close
proof (unfold_locales, goal_cases)
  case (1 r a a')
  then show ?case
    by (auto simp: freeze_close_def freeze_close_order_commission_def rbind_Inr_iff ledger_defs
        Let_def not_less validate_account_tradable_Some is_money_add is_money_diff
        split: if_splits)
next
  case (2 r a)
  then have "release_close a r = release_open a r"
    by (simp add: release_close_def release_close_order_commission_def release_open_def)
  with release_open_refines 2 show ?case by simp
qed

section \<open>Accounts with many live orders\<close>

text \<open>
  Any interleaving of placements and cancellations on one account. A live order is the product it
  was placed for and what its row still holds.
\<close>

datatype freeze_kind = FUTURES_OPEN | OPTION_OPEN | STOCK_BUY | CLOSE_ORDER

datatype freeze_op = Place freeze_kind reservation | Cancel nat

fun kind_freeze :: "freeze_kind \<Rightarrow> account \<Rightarrow> reservation \<Rightarrow> account result" where
  "kind_freeze FUTURES_OPEN = freeze_open"
| "kind_freeze OPTION_OPEN = freeze_option"
| "kind_freeze STOCK_BUY = freeze_stock"
| "kind_freeze CLOSE_ORDER = freeze_close"

fun kind_release :: "freeze_kind \<Rightarrow> account \<Rightarrow> reservation \<Rightarrow> account result" where
  "kind_release FUTURES_OPEN = release_open"
| "kind_release OPTION_OPEN = release_open"
| "kind_release STOCK_BUY = release_stock"
| "kind_release CLOSE_ORDER = release_close"

fun kind_fits :: "freeze_kind \<Rightarrow> reservation \<Rightarrow> bool" where
  "kind_fits FUTURES_OPEN r \<longleftrightarrow> rs_cash r = 0"
| "kind_fits OPTION_OPEN r \<longleftrightarrow> True"
| "kind_fits STOCK_BUY r \<longleftrightarrow> rs_margin r = 0"
| "kind_fits CLOSE_ORDER r \<longleftrightarrow> rs_margin r = 0 \<and> rs_cash r = 0"

type_synonym ledger = "account \<times> (freeze_kind \<times> reservation) list"

fun ledger_step :: "ledger \<Rightarrow> freeze_op \<Rightarrow> ledger result" where
  "ledger_step (a, live) (Place k r) =
     rbind (kind_freeze k a r) (\<lambda>a'. Inr (a', live @ [(k, r)]))"
| "ledger_step (a, live) (Cancel n) =
     (case drop n live of
        [] \<Rightarrow> Inl (ResourceNotFoundError ''ORDER_NOT_FOUND'')
      | (k, r) # rest \<Rightarrow> rbind (kind_release k a r) (\<lambda>a'. Inr (a', take n live @ rest)))"

fun op_ok :: "freeze_op \<Rightarrow> bool" where
  "op_ok (Place k r) \<longleftrightarrow> kind_fits k r \<and> reservation_money r"
| "op_ok (Cancel n) \<longleftrightarrow> True"

definition held :: "(freeze_kind \<times> reservation) list \<Rightarrow> reservation" where
  "held live = \<lparr>rs_margin = sum_list (map (rs_margin \<circ> snd) live),
     rs_cash = sum_list (map (rs_cash \<circ> snd) live),
     rs_commission = sum_list (map (rs_commission \<circ> snd) live)\<rparr>"

definition order_ok :: "freeze_kind \<times> reservation \<Rightarrow> bool" where
  "order_ok kr \<longleftrightarrow> kind_fits (fst kr) (snd kr) \<and> reservation_money (snd kr)
     \<and> reservation_nonneg (snd kr)"

text \<open>The account is the opening one with every live reservation taken out of it.\<close>

definition ledger_inv :: "cash_pools \<Rightarrow> ledger \<Rightarrow> bool" where
  "ledger_inv p0 s \<longleftrightarrow> pools_money (fst s) \<and> list_all order_ok (snd s)
     \<and> pools (fst s) = reserve (held (snd s)) p0"

lemma kind_freeze_refines:
  assumes "kind_fits k r" "pools_money a" "reservation_money r" "kind_freeze k a r = Inr a'"
  shows "pools a' = reserve r (pools a) \<and> 0 \<le> cp_available (pools a') \<and> reservation_nonneg r
    \<and> pools_money a' \<and> frozen_frame a a'"
proof (cases k)
  case FUTURES_OPEN
  with assms show ?thesis by (intro futures_open.freeze_refines) simp_all
next
  case OPTION_OPEN
  with assms show ?thesis by (intro option_open.freeze_refines) simp_all
next
  case STOCK_BUY
  with assms show ?thesis by (intro stock_buy.freeze_refines) simp_all
next
  case CLOSE_ORDER
  with assms show ?thesis by (intro close_commission.freeze_refines) simp_all
qed

lemma kind_release_refines:
  assumes "kind_fits k r" "pools_money a" "reservation_money r" "reservation_nonneg r"
    "held_in r (pools a)"
  shows "\<exists>a'. kind_release k a r = Inr a' \<and> pools a' = unreserve r (pools a) \<and> pools_money a'
    \<and> frozen_frame a a'"
  using assms futures_open.release_refines option_open.release_refines stock_buy.release_refines
    close_commission.release_refines
  by (cases k) simp_all

lemma held_snoc: "reserve (held (live @ [(k, r)])) p = reserve r (reserve (held live) p)"
  by (simp add: reserve_def held_def algebra_simps)

lemma held_remove:
  "reserve (held (xs @ ys)) p = unreserve r (reserve (held (xs @ (k, r) # ys)) p)"
  by (simp add: reserve_def unreserve_def held_def algebra_simps)

lemma held_nonneg: "list_all order_ok live \<Longrightarrow> reservation_nonneg (held live)"
  by (auto simp: held_def reservation_nonneg_def list_all_iff order_ok_def intro!: sum_list_nonneg)

lemma live_held_in:
  assumes "list_all order_ok (xs @ (k, r) # ys)"
    "0 \<le> cp_margin p" "0 \<le> cp_cash p" "0 \<le> cp_commission p"
  shows "held_in r (reserve (held (xs @ (k, r) # ys)) p)"
proof -
  from assms(1) have "reservation_nonneg (held (xs @ ys))" by (intro held_nonneg) simp
  with assms show ?thesis
    by (simp add: held_in_def reserve_def held_def reservation_nonneg_def order_ok_def)
qed

definition pools_nonneg :: "cash_pools \<Rightarrow> bool" where
  "pools_nonneg p \<longleftrightarrow> 0 \<le> cp_margin p \<and> 0 \<le> cp_cash p \<and> 0 \<le> cp_commission p"

lemma cancel_live_succeeds:
  assumes "ledger_inv p0 (a, xs @ (k, r) # ys)" "pools_nonneg p0"
  shows "\<exists>a'. kind_release k a r = Inr a' \<and> ledger_inv p0 (a', xs @ ys)"
proof -
  from assms have "held_in r (pools a)"
    by (simp add: ledger_inv_def live_held_in pools_nonneg_def)
  moreover have "order_ok (k, r)" "list_all order_ok (xs @ ys)" "pools_money a"
    using assms by (simp_all add: ledger_inv_def)
  ultimately obtain a' where "kind_release k a r = Inr a'" "pools a' = unreserve r (pools a)"
    "pools_money a'"
    using kind_release_refines [of k r a] by (auto simp: order_ok_def)
  moreover have "reserve (held (xs @ ys)) p0 = unreserve r (pools a)"
    using assms(1) held_remove [of xs ys p0 r k] by (simp add: ledger_inv_def)
  ultimately show ?thesis using assms by (auto simp: ledger_inv_def)
qed

lemma ledger_step_inv:
  assumes "ledger_step s op = Inr s'" "ledger_inv p0 s" "op_ok op" "pools_nonneg p0"
  shows "ledger_inv p0 s'"
proof (cases op)
  case (Place k r)
  obtain a live where s: "s = (a, live)" by (cases s)
  with Place assms(1) obtain a' where a': "kind_freeze k a r = Inr a'" "s' = (a', live @ [(k, r)])"
    by (auto simp: rbind_Inr_iff)
  have "kind_fits k r" "reservation_money r" "pools_money a" "list_all order_ok live"
    "pools a = reserve (held live) p0"
    using assms(2,3) Place s by (simp_all add: ledger_inv_def)
  with kind_freeze_refines [OF _ _ _ a'(1)] show ?thesis
    by (simp add: ledger_inv_def held_snoc order_ok_def a'(2))
next
  case (Cancel n)
  obtain a live where s: "s = (a, live)" by (cases s)
  with Cancel assms(1) obtain k r rest a' where d: "drop n live = (k, r) # rest"
    and a': "kind_release k a r = Inr a'" "s' = (a', take n live @ rest)"
    by (auto simp: rbind_Inr_iff split: list.splits)
  from d have "live = take n live @ (k, r) # rest" by (metis append_take_drop_id)
  with assms(2) s have "ledger_inv p0 (a, take n live @ (k, r) # rest)" by simp
  from cancel_live_succeeds [OF this assms(4)] a' show ?thesis by auto
qed

section \<open>Properties\<close>

text \<open>
  Whatever orders are placed and cancelled on an account, and in whatever order, its frozen
  margin, cash and commission are what it had frozen before plus what the live orders hold, the sum
  of available and frozen money never changes, and each live order can be cancelled: the release
  never finds the frozen pools too small.
\<close>

theorem ledger_conserves:
  assumes "rfold ledger_step (a, []) ops = Inr (a', live)"
    and "pools_money a" "list_all op_ok ops" "pools_nonneg (pools a)"
  shows "pools a' = reserve (held live) (pools a) \<and> liquid (pools a') = liquid (pools a)
    \<and> (\<forall>n < length live. \<exists>s. ledger_step (a', live) (Cancel n) = Inr s)"
proof -
  have "reserve (held []) (pools a) = pools a" by (simp add: reserve_def held_def)
  with assms(2) have start: "ledger_inv (pools a) (a, [])" by (simp add: ledger_inv_def)
  have inv: "ledger_inv (pools a) (a', live)"
    using assms(1) start
    by (rule rfold_Inr_invariant) (use assms(3,4) ledger_step_inv in \<open>auto simp: list_all_iff\<close>)
  have "\<exists>s. ledger_step (a', live) (Cancel n) = Inr s" if "n < length live" for n
  proof -
    obtain k r where kr: "live ! n = (k, r)" by (cases "live ! n")
    with that have d: "drop n live = (k, r) # drop (Suc n) live"
      by (simp flip: Cons_nth_drop_Suc)
    then have "live = take n live @ (k, r) # drop (Suc n) live" by (metis append_take_drop_id)
    with inv have "ledger_inv (pools a) (a', take n live @ (k, r) # drop (Suc n) live)" by simp
    from cancel_live_succeeds [OF this assms(4)] d show ?thesis by (auto simp: rbind_Inr_iff)
  qed
  with inv show ?thesis by (simp add: ledger_inv_def)
qed

definition sample_account :: account where
  "sample_account =
     \<lparr>a_account_id = ''A1'', a_user_id = ''U1'', a_account_name = ''demo'',
      a_account_type = ''FUTURES'', a_option_trading_enabled = True, a_initial_cash = 100000,
      a_cash_balance = 100000, a_available_cash = 100000, a_frozen_cash = 0, a_equity = 100000,
      a_used_margin = 0, a_frozen_margin = 0, a_realized_pnl = 0, a_unrealized_pnl = 0,
      a_daily_position_pnl = 0, a_option_used_margin = 0, a_option_realtime_required_margin = 0,
      a_long_option_market_value = 0, a_short_option_market_value = 0,
      a_net_option_market_value = 0, a_stock_market_value = 0, a_corporate_action_receivable = 0,
      a_corporate_action_income = 0, a_pending_security_value = 0,
      a_rights_subscription_receivable = 0, a_risk_available_cash = 100000,
      a_risk_state = NORMAL, a_risk_version = 0, a_daily_close_pnl = 0, a_daily_commission = 0,
      a_daily_pnl = 0, a_cumulative_net_pnl = 0, a_used_commission = 0, a_frozen_commission = 0,
      a_risk_ratio = 0, a_status = ACCOUNT_NORMAL, a_trading_day = None, a_created_at = 0,
      a_updated_at = 0\<rparr>"

lemma quantize_money_of_numeral [simp]:
  "quantize_money (numeral k) = numeral k" "quantize_money (- numeral k) = - numeral k"
  using quantize_money_idem [OF is_money_of_int [of "numeral k"]]
    quantize_money_idem [OF is_money_of_int [of "- numeral k"]] by simp_all

lemma is_money_numeral [simp]: "is_money (numeral k)"
  using is_money_of_int [of "numeral k"] by simp

lemma is_money_1 [simp]: "is_money 1"
  using is_money_of_int [of 1] by simp

theorem ledger_conserves_witness:
  "\<exists>a' live. rfold ledger_step (sample_account, [])
      [Place FUTURES_OPEN \<lparr>rs_margin = 7000, rs_cash = 0, rs_commission = 5\<rparr>,
       Place OPTION_OPEN \<lparr>rs_margin = 0, rs_cash = 300, rs_commission = 2\<rparr>, Cancel 0] = Inr (a', live)
    \<and> liquid (pools a') = liquid (pools sample_account)"
proof -
  let ?ops = "[Place FUTURES_OPEN \<lparr>rs_margin = 7000, rs_cash = 0, rs_commission = 5\<rparr>,
       Place OPTION_OPEN \<lparr>rs_margin = 0, rs_cash = 300, rs_commission = 2\<rparr>, Cancel 0]"
  have "\<exists>a' live. rfold ledger_step (sample_account, []) ?ops = Inr (a', live)"
    by (simp add: sample_account_def freeze_open_def freeze_open_order_def freeze_option_def
        freeze_option_resources_def validate_account_tradable_def legacy_futures_account_def
        release_open_def release_open_order_frozen_resources_def)
  moreover have "pools_money sample_account" "pools_nonneg (pools sample_account)"
    by (simp_all add: pools_money_def pools_nonneg_def pools_def sample_account_def)
  ultimately show ?thesis
    using ledger_conserves [of sample_account ?ops] by (auto simp: reservation_money_def)
qed

text \<open>
  An opening order is refused exactly when the account is missing or not normal, an amount is
  negative, or the required sum exceeds the available cash or the risk-available cash, the latter
  taken from the available cash for an account whose risk figure was never set; and the row of an
  accepted one differs from the old row in the frozen pools and the risk figure only.
\<close>

theorem freeze_open_order_accepts_iff:
  assumes "pools_money a" "is_money m" "is_money c"
  shows "((\<exists>a'. freeze_open_order (Some a) m c = Inr a') \<longleftrightarrow>
      a_status a = ACCOUNT_NORMAL \<and> 0 \<le> m \<and> 0 \<le> c \<and> m + c \<le> a_available_cash a
      \<and> (legacy_futures_account a \<or> m + c \<le> a_risk_available_cash a))
    \<and> (\<forall>a'. freeze_open_order (Some a) m c = Inr a' \<longrightarrow> frozen_frame a a'
         \<and> a_available_cash a' = a_available_cash a - (m + c)
         \<and> a_frozen_margin a' = a_frozen_margin a + m
         \<and> a_frozen_commission a' = a_frozen_commission a + c)"
  using assms
  by (auto simp: freeze_open_order_def rbind_Inr_iff validate_account_tradable_Some ledger_defs
      Let_def not_less is_money_add is_money_diff)

theorem freeze_open_order_accepts_iff_witness:
  "\<exists>a'. freeze_open_order (Some sample_account) 7000 5 = Inr a'"
  using freeze_open_order_accepts_iff [of sample_account 7000 5]
  by (simp add: pools_money_def sample_account_def)

text \<open>
  Placing a closing, option or stock order and cancelling it unfilled gives back the very row
  the account had, every column included.
\<close>

theorem freeze_release_roundtrip:
  assumes "pools_money a" "reservation_money r" "kind_fits k r" "k \<noteq> FUTURES_OPEN"
    and "pools_nonneg (pools a)" "kind_freeze k a r = Inr a1"
  shows "kind_release k a1 r = Inr a"
proof (cases k)
  case OPTION_OPEN
  with assms show ?thesis
    by (auto simp: freeze_option_def freeze_option_resources_def rbind_Inr_iff ledger_defs Let_def
        not_less validate_account_tradable_Some is_money_add is_money_diff algebra_simps
        release_open_def release_open_order_frozen_resources_def pools_nonneg_def split: if_splits)
next
  case STOCK_BUY
  with assms show ?thesis
    by (auto simp: freeze_stock_def freeze_stock_buy_def rbind_Inr_iff ledger_defs Let_def
        not_less validate_account_tradable_Some is_money_add is_money_diff algebra_simps
        release_stock_def release_stock_buy_def pools_nonneg_def split: if_splits)
next
  case CLOSE_ORDER
  with assms show ?thesis
    by (auto simp: freeze_close_def freeze_close_order_commission_def rbind_Inr_iff ledger_defs
        Let_def not_less validate_account_tradable_Some is_money_add is_money_diff algebra_simps
        release_close_def release_close_order_commission_def
        release_open_order_frozen_resources_def pools_nonneg_def split: if_splits)
qed (use assms in simp)

theorem freeze_release_roundtrip_witness:
  "\<exists>a1. kind_freeze CLOSE_ORDER sample_account \<lparr>rs_margin = 0, rs_cash = 0, rs_commission = 5\<rparr>
        = Inr a1
     \<and> kind_release CLOSE_ORDER a1 \<lparr>rs_margin = 0, rs_cash = 0, rs_commission = 5\<rparr>
        = Inr sample_account"
proof -
  let ?r = "\<lparr>rs_margin = 0, rs_cash = 0, rs_commission = 5\<rparr>"
  obtain a1 where "kind_freeze CLOSE_ORDER sample_account ?r = Inr a1"
    by (simp add: freeze_close_def freeze_close_order_commission_def validate_account_tradable_def
        sample_account_def)
  with freeze_release_roundtrip [of sample_account ?r CLOSE_ORDER a1] show ?thesis
    by (auto simp: pools_money_def pools_nonneg_def pools_def sample_account_def
        reservation_money_def)
qed

end
