(* ===== verification/Database.thy ===== *)
theory Database
  imports Risk_State "HOL-Library.AList"
begin

text \<open>
  The tables the trading core reads and writes, in primary-key order, and the queries of
  \<open>app/repositories/\<close> it uses. A service runs in one transaction: its model returns the tables to
  commit or the error after which the tables are the old ones. Row locks order transactions and
  change no row. An object the session has loaded and the service has changed is written back by its
  unique key.
\<close>

record db =
  db_accounts :: "account list"
  db_orders :: "order list"
  db_instruments :: "instrument list"
  db_margin_rules :: "margin_rule list"
  db_fee_rules :: "fee_rule list"
  db_fee_items :: "fee_rule_item list"
  db_option_margin_rules :: "option_margin_rule_row list"
  db_positions :: "position list"
  db_details :: "detail list"
  db_allocations :: "freeze_allocation list"
  db_trades :: "trade list"
  db_trade_allocations :: "trade_position_allocation list"
  db_outbox :: "outbox_event list"
  db_batches :: "settlement_batch list"

section \<open>Rows by key\<close>

definition find_row :: "('r \<Rightarrow> 'k) \<Rightarrow> 'k \<Rightarrow> 'r list \<Rightarrow> 'r option" where
  "find_row key k rows = first_row (\<lambda>r. key r = k) rows"

definition replace_row :: "('r \<Rightarrow> 'k) \<Rightarrow> 'r \<Rightarrow> 'r list \<Rightarrow> 'r list" where
  "replace_row key r rows = map (\<lambda>x. if key x = key r then r else x) rows"

lemma find_row_Nil [simp]: "find_row key k [] = None"
  by (simp add: find_row_def)

lemma find_row_Cons [simp]:
  "find_row key k (r # rows) = (if key r = k then Some r else find_row key k rows)"
  by (simp add: find_row_def)

lemma find_row_SomeD: "find_row key k rows = Some r \<Longrightarrow> r \<in> set rows \<and> key r = k"
  by (auto simp: find_row_def dest: first_row_SomeD)

lemma find_row_None_iff: "find_row key k rows = None \<longleftrightarrow> k \<notin> key ` set rows"
  by (induction rows) auto

lemma find_row_distinct:
  "distinct (map key rows) \<Longrightarrow> r \<in> set rows \<Longrightarrow> find_row key (key r) rows = Some r"
  by (induction rows) auto

lemma find_row_replace:
  "find_row key k (replace_row key r rows) =
     (if key r = k \<and> k \<in> key ` set rows then Some r else find_row key k rows)"
  by (induction rows) (auto simp: replace_row_def)

lemma find_row_replace_Some:
  "find_row key k rows = Some old \<Longrightarrow>
     find_row key k (replace_row key r rows) = Some (if key r = k then r else old)"
  by (induction rows) (auto simp: replace_row_def split: if_splits)

lemma first_row_unique:
  assumes "x \<in> set rows" "P x" "\<And>y. y \<in> set rows \<Longrightarrow> P y \<Longrightarrow> y = x"
  shows "first_row P rows = Some x"
proof (cases "first_row P rows")
  case None
  with assms(1,2) show ?thesis by (simp add: find_None_iff)
next
  case (Some y)
  then have "y \<in> set rows" "P y" using first_row_SomeD by fastforce+
  then have "y = x" by (rule assms(3))
  with Some show ?thesis by simp
qed

lemma map_replace_row [simp]: "map key (replace_row key r rows) = map key rows"
  by (simp add: replace_row_def)

lemma length_replace_row [simp]: "length (replace_row key r rows) = length rows"
  by (simp add: replace_row_def)

lemma replace_row_absent: "key r \<notin> key ` set rows \<Longrightarrow> replace_row key r rows = rows"
  by (induction rows) (auto simp: replace_row_def)

lemma set_replace_row: "set (replace_row key r rows) \<subseteq> insert r (set rows)"
  by (auto simp: replace_row_def)

text \<open>Replacing one row changes a sum over the table by the change of that row.\<close>

lemma sum_replace_row:
  assumes "distinct (map key rows)" "find_row key (key r) rows = Some old"
  shows "sum_list (map f (replace_row key r rows))
       = (sum_list (map f rows) - f old + f r :: 'b::ab_group_add)"
  using assms
proof (induction rows)
  case (Cons x rows)
  show ?case
  proof (cases "key x = key r")
    case True
    with Cons.prems have "key r \<notin> key ` set rows" by auto
    then have "replace_row key r rows = rows" by (rule replace_row_absent)
    with True Cons.prems(2) show ?thesis by (auto simp: replace_row_def)
  next
    case False
    with Cons have "sum_list (map f (replace_row key r rows)) = sum_list (map f rows) - f old + f r"
      by simp
    with False show ?thesis by (auto simp: replace_row_def algebra_simps)
  qed
qed simp

section \<open>Repositories\<close>

definition get_order :: "db \<Rightarrow> string \<Rightarrow> order option" where
  "get_order d oid = find_row o_order_id oid (db_orders d)"

definition get_account :: "db \<Rightarrow> string \<Rightarrow> account option" where
  "get_account d aid = find_row a_account_id aid (db_accounts d)"

text \<open>\<open>get_owned_account_for_update\<close> and \<open>get_by_order_id_for_user_for_update\<close> (a join).\<close>

definition get_owned_account :: "db \<Rightarrow> string \<Rightarrow> string \<Rightarrow> account option" where
  "get_owned_account d aid uid =
     first_row (\<lambda>a. a_account_id a = aid \<and> a_user_id a = uid) (db_accounts d)"

definition get_order_for_user :: "db \<Rightarrow> string \<Rightarrow> string \<Rightarrow> order option" where
  "get_order_for_user d oid uid =
     first_row (\<lambda>r. o_order_id r = oid
       \<and> (\<exists>a \<in> set (db_accounts d). a_account_id a = o_account_id r \<and> a_user_id a = uid))
       (db_orders d)"

definition get_instrument :: "db \<Rightarrow> string \<Rightarrow> instrument option" where
  "get_instrument d code = find_row i_order_book_id code (db_instruments d)"

definition get_position ::
  "db \<Rightarrow> string \<Rightarrow> string \<Rightarrow> string \<Rightarrow> position_direction \<Rightarrow> position option" where
  "get_position d aid ex code dir =
     first_row (\<lambda>p. p_account_id p = aid \<and> p_exchange_id p = ex \<and> p_symbol p = code
                  \<and> p_direction p = dir) (db_positions d)"

definition list_details_by_ids :: "db \<Rightarrow> string \<Rightarrow> string list \<Rightarrow> detail list" where
  "list_details_by_ids d pid ids =
     filter (\<lambda>x. d_position_id x = pid \<and> d_position_detail_id x \<in> set ids) (db_details d)"

definition list_allocations_by_order :: "db \<Rightarrow> string \<Rightarrow> freeze_allocation list" where
  "list_allocations_by_order d oid = filter (\<lambda>f. f_order_id f = oid) (db_allocations d)"

text \<open>
  The join lists a detail once for each of its allocations; its readers put the rows in a dictionary
  by detail id, so the list without repetitions gives the same lookups.
\<close>

definition list_details_by_order :: "db \<Rightarrow> string \<Rightarrow> string \<Rightarrow> detail list" where
  "list_details_by_order d pid oid =
     filter (\<lambda>x. d_position_id x = pid
               \<and> (\<exists>f \<in> set (db_allocations d). f_position_detail_id f = d_position_detail_id x
                    \<and> f_position_id f = pid \<and> f_order_id f = oid)) (db_details d)"

definition list_open_details :: "detail list \<Rightarrow> string \<Rightarrow> detail list" where
  "list_open_details details pid =
     filter (\<lambda>x. d_position_id x = pid \<and> 0 < d_remaining_volume x) details"

definition get_trade_by_order_market_event :: "db \<Rightarrow> string \<Rightarrow> string \<Rightarrow> trade option" where
  "get_trade_by_order_market_event d oid ev =
     first_row (\<lambda>t. t_order_id t = oid \<and> t_market_event_id t = ev) (db_trades d)"

definition put_order :: "order \<Rightarrow> db \<Rightarrow> db" where
  "put_order r d = d\<lparr>db_orders := replace_row o_order_id r (db_orders d)\<rparr>"

definition put_account :: "account \<Rightarrow> db \<Rightarrow> db" where
  "put_account r d = d\<lparr>db_accounts := replace_row a_account_id r (db_accounts d)\<rparr>"

definition put_position :: "position \<Rightarrow> db \<Rightarrow> db" where
  "put_position r d = d\<lparr>db_positions := replace_row p_position_id r (db_positions d)\<rparr>"

definition put_details :: "detail list \<Rightarrow> db \<Rightarrow> db" where
  "put_details rs d = d\<lparr>db_details := fold (replace_row d_position_detail_id) rs (db_details d)\<rparr>"

definition put_allocations :: "freeze_allocation list \<Rightarrow> db \<Rightarrow> db" where
  "put_allocations rs d =
     d\<lparr>db_allocations := fold (replace_row f_allocation_id) rs (db_allocations d)\<rparr>"

definition add_position :: "position \<Rightarrow> db \<Rightarrow> db" where
  "add_position r d = d\<lparr>db_positions := db_positions d @ [r]\<rparr>"

definition add_detail :: "detail \<Rightarrow> db \<Rightarrow> db" where
  "add_detail r d = d\<lparr>db_details := db_details d @ [r]\<rparr>"

definition add_trade :: "trade \<Rightarrow> db \<Rightarrow> db" where
  "add_trade r d = d\<lparr>db_trades := db_trades d @ [r]\<rparr>"

definition add_trade_allocations :: "trade_position_allocation list \<Rightarrow> db \<Rightarrow> db" where
  "add_trade_allocations rs d = d\<lparr>db_trade_allocations := db_trade_allocations d @ rs\<rparr>"

definition add_events :: "outbox_event list \<Rightarrow> db \<Rightarrow> db" where
  "add_events es d = d\<lparr>db_outbox := db_outbox d @ es\<rparr>"

lemmas put_defs = put_order_def put_account_def put_position_def put_details_def
  put_allocations_def add_position_def add_detail_def add_trade_def add_trade_allocations_def
  add_events_def

section \<open>Integrity of the tables\<close>

text \<open>The unique constraints of the tables, with ascending detail keys.\<close>

definition keys_ok :: "db \<Rightarrow> bool" where
  "keys_ok d \<longleftrightarrow> distinct (map o_order_id (db_orders d))
     \<and> distinct (map a_account_id (db_accounts d))
     \<and> distinct (map p_position_id (db_positions d))
     \<and> distinct (map (\<lambda>p. (p_account_id p, p_exchange_id p, p_symbol p, p_direction p))
                  (db_positions d))
     \<and> distinct (map d_position_detail_id (db_details d))
     \<and> distinct (map f_allocation_id (db_allocations d))
     \<and> distinct (map (\<lambda>t. (t_order_id t, t_market_event_id t)) (db_trades d))"

section \<open>The store of one kind of row\<close>

text \<open>What the services assume of a table: reading what was written, and nothing else changed.\<close>

locale row_store =
  fixes get :: "'d \<Rightarrow> 'k \<Rightarrow> 'r option"
    and put :: "'r \<Rightarrow> 'd \<Rightarrow> 'd"
    and key :: "'r \<Rightarrow> 'k"
  assumes get_key: "get d k = Some r \<Longrightarrow> key r = k"
    and get_put_same: "get d (key r) \<noteq> None \<Longrightarrow> get (put r d) (key r) = Some r"
    and get_put_other: "k \<noteq> key r \<Longrightarrow> get (put r d) k = get d k"
begin

lemma update_row:
  assumes "get d k = Some r" "key (f r) = key r"
  shows "get (put (f r) d) k = Some (f r)" "k' \<noteq> k \<Longrightarrow> get (put (f r) d) k' = get d k'"
  using assms get_key [OF assms(1)] get_put_same [of d "f r"] get_put_other [of k' "f r" d]
  by auto

lemma put_twice:
  assumes "get d k = Some r" "key s = k" "key t = k"
  shows "get (put t (put s d)) k = Some t"
  using assms get_put_same [of d s] get_put_same [of "put s d" t] by auto

end

interpretation orders: row_store get_order put_order o_order_id
  by unfold_locales
     (auto simp: get_order_def put_order_def find_row_replace find_row_None_iff
           dest: find_row_SomeD)

interpretation accounts: row_store get_account put_account a_account_id
  by unfold_locales
     (auto simp: get_account_def put_account_def find_row_replace find_row_None_iff
           dest: find_row_SomeD)

end
