(* ===== verification/Outbox_Events.thy ===== *)
theory Outbox_Events
  imports Database
begin

text \<open>
  The outbox rows a transaction writes beside its business rows: \<open>OutboxRepository.create_event\<close> and
  the account, position and order facts of \<open>app/services/realtime_fact_event_service.py\<close>. The id
  factories are the \<open>uuid\<close> library: an event id is an argument.
\<close>

definition max_retries_default :: int where
  "max_retries_default = 10"

definition create_event ::
  "string \<Rightarrow> string \<Rightarrow> string \<Rightarrow> string \<Rightarrow> payload \<Rightarrow> datetime \<Rightarrow> outbox_event" where
  "create_event event_id aggregate_type aggregate_id event_type payload created_at =
     \<lparr>e_event_id = event_id, e_aggregate_type = aggregate_type, e_aggregate_id = aggregate_id,
      e_event_type = event_type, e_payload = payload, e_status = PENDING, e_retry_count = 0,
      e_max_retries = max_retries_default, e_next_retry_at = None, e_last_error = None,
      e_created_at = created_at, e_sent_at = None, e_updated_at = created_at\<rparr>"

text \<open>The optional texts and amounts of a payload.\<close>

definition json_offset :: "offset_flag option \<Rightarrow> json" where
  "json_offset f = (case f of None \<Rightarrow> JNull | Some x \<Rightarrow> JString (offset_value x))"

definition json_decimal :: "decimal option \<Rightarrow> json" where
  "json_decimal v = (case v of None \<Rightarrow> JNull | Some x \<Rightarrow> JDecimal x)"

definition json_money :: "decimal option \<Rightarrow> json" where
  "json_money v = (case v of None \<Rightarrow> JNull | Some x \<Rightarrow> JDecimal (quantize_money x))"

definition json_time :: "datetime option \<Rightarrow> json" where
  "json_time t = (case t of None \<Rightarrow> JNull | Some x \<Rightarrow> JTime x)"

definition fact_reason_field :: "string option \<Rightarrow> payload" where
  "fact_reason_field r = (case r of None \<Rightarrow> [] | Some x \<Rightarrow> [(''fact_reason'', JString x)])"

section \<open>\<open>RealtimeFactEventService\<close>\<close>

definition account_updated_payload ::
  "string \<Rightarrow> account \<Rightarrow> string \<Rightarrow> string option \<Rightarrow> string option \<Rightarrow> bool \<Rightarrow> payload" where
  "account_updated_payload event_id a account_id account_type fact_reason include_valuation =
     [(''event_id'', JString event_id), (''event_type'', JString ''ACCOUNT_FACT_UPDATED''),
      (''account_id'', JString account_id),
      (''account_type'', JString (case account_type of
         Some t \<Rightarrow> if t = [] then a_account_type a else t | None \<Rightarrow> a_account_type a)),
      (''cash_balance'', JDecimal (a_cash_balance a)),
      (''available_cash'', JDecimal (a_available_cash a)), (''equity'', JDecimal (a_equity a)),
      (''used_margin'', JDecimal (a_used_margin a)),
      (''option_used_margin'', JDecimal (a_option_used_margin a)),
      (''frozen_margin'', JDecimal (a_frozen_margin a)),
      (''frozen_cash'', JDecimal (a_frozen_cash a)),
      (''frozen_commission'', JDecimal (a_frozen_commission a)),
      (''used_commission'', JDecimal (a_used_commission a)),
      (''realized_pnl'', JDecimal (a_realized_pnl a)),
      (''daily_close_pnl'', JDecimal (a_daily_close_pnl a)),
      (''daily_commission'', JDecimal (a_daily_commission a)),
      (''daily_pnl'', JDecimal (a_daily_pnl a)),
      (''cumulative_net_pnl'', JDecimal (a_cumulative_net_pnl a)),
      (''updated_at'', JTime (a_updated_at a))]
     @ fact_reason_field fact_reason
     @ (if include_valuation then
          [(''unrealized_pnl'', JDecimal (a_unrealized_pnl a)),
           (''daily_position_pnl'', JDecimal (a_daily_position_pnl a)),
           (''stock_market_value'', JDecimal (a_stock_market_value a)),
           (''corporate_action_receivable'', JDecimal (a_corporate_action_receivable a)),
           (''pending_security_value'', JDecimal (a_pending_security_value a))]
        else [])"

definition create_account_updated ::
  "string \<Rightarrow> account \<Rightarrow> datetime \<Rightarrow> string option \<Rightarrow> string option \<Rightarrow> string option \<Rightarrow> bool
   \<Rightarrow> outbox_event" where
  "create_account_updated event_id a occurred_at account_id account_type fact_reason
     include_valuation =
     (let resolved = (case account_id of
            Some i \<Rightarrow> if i = [] then a_account_id a else i | None \<Rightarrow> a_account_id a)
      in create_event event_id ''ACCOUNT'' resolved ''ACCOUNT_FACT_UPDATED''
           (account_updated_payload event_id a resolved account_type fact_reason
              include_valuation)
           occurred_at)"

definition position_event_type :: "position \<Rightarrow> string" where
  "position_event_type p =
     (if p_total_volume p = 0 then ''POSITION_CLOSED'' else ''POSITION_UPDATED'')"

definition position_updated_payload :: "string \<Rightarrow> position \<Rightarrow> string option \<Rightarrow> payload" where
  "position_updated_payload event_id p fact_reason =
     [(''event_id'', JString event_id), (''event_type'', JString (position_event_type p)),
      (''position_id'', JString (p_position_id p)), (''account_id'', JString (p_account_id p)),
      (''exchange_id'', JString (p_exchange_id p)), (''symbol'', JString (p_symbol p)),
      (''order_book_id'', JString (p_order_book_id p)),
      (''instrument_type'', JString (instrument_type_value (p_instrument_type p))),
      (''direction'', JString (position_direction_value (p_direction p))),
      (''total_volume'', JInt (p_total_volume p)), (''today_volume'', JInt (p_today_volume p)),
      (''yesterday_volume'', JInt (p_yesterday_volume p)),
      (''available_volume'', JInt (p_available_volume p)),
      (''frozen_volume'', JInt (p_frozen_volume p)),
      (''settlement_locked_volume'', JInt (p_settlement_locked_volume p)),
      (''pending_share_volume'', JInt (p_pending_share_volume p)),
      (''average_open_price'', JDecimal (p_average_open_price p)),
      (''position_cost'', JDecimal (p_position_cost p)),
      (''daily_pnl_base_cost'', JDecimal (p_daily_pnl_base_cost p)),
      (''used_margin'', JDecimal (p_used_margin p)),
      (''realtime_required_margin'', JDecimal (p_realtime_required_margin p)),
      (''realized_pnl'', JDecimal (p_realized_pnl p)),
      (''daily_close_pnl'', JDecimal (p_daily_close_pnl p)),
      (''trading_day'', JDate (p_trading_day p)), (''updated_at'', JTime (p_updated_at p))]
     @ fact_reason_field fact_reason"

definition create_position_updated ::
  "string \<Rightarrow> position \<Rightarrow> datetime \<Rightarrow> string option \<Rightarrow> outbox_event" where
  "create_position_updated event_id p occurred_at fact_reason =
     create_event event_id ''POSITION'' (p_position_id p) (position_event_type p)
       (position_updated_payload event_id p fact_reason) occurred_at"

fun submit_status_value :: "submit_status \<Rightarrow> string" where
  "submit_status_value SUBMITTING = ''SUBMITTING''"
| "submit_status_value SUBMIT_ACCEPTED = ''ACCEPTED''"
| "submit_status_value SUBMIT_REJECTED = ''REJECTED''"

fun margin_price_mode_value :: "margin_price_mode \<Rightarrow> string" where
  "margin_price_mode_value ORDER_FREEZE = ''ORDER_FREEZE''"
| "margin_price_mode_value REALTIME = ''REALTIME''"
| "margin_price_mode_value SETTLEMENT = ''SETTLEMENT''"

definition order_margin_payload :: "string \<Rightarrow> order \<Rightarrow> payload" where
  "order_margin_payload event_id r =
     [(''event_id'', JString event_id), (''event_type'', JString ''ORDER_MARGIN_UPDATED''),
      (''order_id'', JString (o_order_id r)),
      (''client_order_id'', JString (o_client_order_id r)),
      (''account_id'', JString (o_account_id r)), (''exchange_id'', JString (o_exchange_id r)),
      (''symbol'', JString (o_symbol r)), (''order_book_id'', JString (o_order_book_id r)),
      (''trading_day'', JDate (o_trading_day r)),
      (''instrument_type'', JString (instrument_type_value (o_instrument_type r))),
      (''direction'', JString (direction_value (o_direction r))),
      (''offset_flag'', json_offset (o_offset_flag r)),
      (''order_type'', JString (order_type_value (o_order_type r))),
      (''limit_price'', JDecimal (o_limit_price r)),
      (''resolved_price'', JDecimal (o_resolved_price r)),
      (''market_protection_price'', json_decimal (o_market_protection_price r)),
      (''total_volume'', JInt (o_total_volume r)), (''traded_volume'', JInt (o_traded_volume r)),
      (''remaining_volume'', JInt (o_remaining_volume r)),
      (''cancelled_volume'', JInt (o_cancelled_volume r)),
      (''average_price'', json_decimal (o_average_price r)),
      (''status'', JString (order_status_value (o_status r))),
      (''submit_status'', JString (submit_status_value (o_submit_status r))),
      (''frozen_margin'', JDecimal (o_frozen_margin r)),
      (''frozen_cash'', JDecimal (o_frozen_cash r)),
      (''frozen_commission'', JDecimal (o_frozen_commission r)),
      (''frozen_position_volume'', JInt (o_frozen_position_volume r)),
      (''margin_price_mode'', (case o_margin_price_mode r of
         None \<Rightarrow> JNull | Some m \<Rightarrow> JString (margin_price_mode_value m))),
      (''margin_underlying_price'', json_decimal (o_margin_underlying_price r)),
      (''margin_option_price'', json_decimal (o_margin_option_price r)),
      (''margin_calculation_version'', (case o_margin_calculation_version r of
         None \<Rightarrow> JNull | Some v \<Rightarrow> JString v)),
      (''margin_risk_state'', JString (risk_state_value (o_margin_risk_state r))),
      (''accepted_at'', json_time (o_accepted_at r)),
      (''cancelled_at'', json_time (o_cancelled_at r)), (''updated_at'', JTime (o_updated_at r))]"

definition create_order_margin_updated :: "string \<Rightarrow> order \<Rightarrow> datetime \<Rightarrow> outbox_event" where
  "create_order_margin_updated event_id r occurred_at =
     create_event event_id ''ORDER'' (o_order_id r) ''ORDER_MARGIN_UPDATED''
       (order_margin_payload event_id r) occurred_at"

text \<open>The field of a payload.\<close>

definition payload_field :: "string \<Rightarrow> outbox_event \<Rightarrow> json option" where
  "payload_field k e = map_of (e_payload e) k"

lemma create_event_sel [simp]:
  "e_event_id (create_event i aty ai ety p t) = i"
  "e_aggregate_type (create_event i aty ai ety p t) = aty"
  "e_aggregate_id (create_event i aty ai ety p t) = ai"
  "e_event_type (create_event i aty ai ety p t) = ety"
  "e_payload (create_event i aty ai ety p t) = p"
  "e_status (create_event i aty ai ety p t) = PENDING"
  "e_retry_count (create_event i aty ai ety p t) = 0"
  by (simp_all add: create_event_def)

end
