(* ===== verification/Outbox_Publisher.thy ===== *)
theory Outbox_Publisher
  imports Outbox_Events
begin

text \<open>
  The life of an outbox event: the state changes of \<open>app/repositories/outbox_repository.py\<close> and the
  rounds of \<open>app/workers/outbox_publisher_worker.py\<close>. The Redis stream is a parameter: a publish call
  answers with a message id or an error text. Instants are microseconds.
\<close>

section \<open>The repository\<close>

definition seconds :: "int \<Rightarrow> int" where
  "seconds n = n * 1000000"

definition due_pending :: "datetime \<Rightarrow> outbox_event \<Rightarrow> bool" where
  "due_pending now e \<longleftrightarrow> e_status e = PENDING
     \<and> (case e_next_retry_at e of None \<Rightarrow> True | Some t \<Rightarrow> t \<le> now)"

definition expired_processing :: "datetime \<Rightarrow> outbox_event \<Rightarrow> bool" where
  "expired_processing now e \<longleftrightarrow> e_status e = PROCESSING
     \<and> (case e_next_retry_at e of None \<Rightarrow> False | Some t \<Rightarrow> t \<le> now)"

definition claim_event :: "datetime \<Rightarrow> int \<Rightarrow> outbox_event \<Rightarrow> outbox_event" where
  "claim_event now timeout e =
     e\<lparr>e_status := PROCESSING, e_next_retry_at := Some (now + seconds timeout),
       e_updated_at := now\<rparr>"

text \<open>
  The rows in id order; \<open>locked\<close> are the ids another worker holds, which SKIP LOCKED passes over.
  The first \<open>n\<close> remaining due rows are claimed.
\<close>

fun claim_pending_events ::
  "(string \<Rightarrow> bool) \<Rightarrow> nat \<Rightarrow> datetime \<Rightarrow> int \<Rightarrow> outbox_event list
   \<Rightarrow> outbox_event list \<times> string list" where
  "claim_pending_events locked n now timeout [] = ([], [])"
| "claim_pending_events locked n now timeout (e # es) =
     (if 0 < n \<and> (due_pending now e \<or> expired_processing now e) \<and> \<not> locked (e_event_id e)
      then (let (rows, ids) = claim_pending_events locked (n - 1) now timeout es
            in (claim_event now timeout e # rows, e_event_id e # ids))
      else (let (rows, ids) = claim_pending_events locked n now timeout es
            in (e # rows, ids)))"

definition mark_sent :: "datetime \<Rightarrow> outbox_event \<Rightarrow> outbox_event" where
  "mark_sent now e =
     e\<lparr>e_status := SENT, e_sent_at := Some now, e_next_retry_at := None, e_last_error := None,
       e_updated_at := now\<rparr>"

definition mark_failed :: "string \<Rightarrow> datetime \<Rightarrow> outbox_event \<Rightarrow> outbox_event" where
  "mark_failed err now e =
     e\<lparr>e_status := OUTBOX_FAILED, e_next_retry_at := None, e_last_error := Some (take 4000 err),
       e_updated_at := now\<rparr>"

definition retry_delay_seconds :: "int \<Rightarrow> int" where
  "retry_delay_seconds retry_count = min (5 * 2 ^ nat (retry_count - 1)) 300"

definition mark_retry :: "string \<Rightarrow> datetime \<Rightarrow> outbox_event \<Rightarrow> outbox_event" where
  "mark_retry err now e0 =
     (let e = e0\<lparr>e_retry_count := e_retry_count e0 + 1, e_last_error := Some (take 4000 err),
                e_updated_at := now\<rparr>
      in if e_max_retries e \<le> e_retry_count e then mark_failed err now e
         else e\<lparr>e_status := PENDING,
                e_next_retry_at := Some (now + seconds (retry_delay_seconds (e_retry_count e)))\<rparr>)"

section \<open>The worker\<close>

datatype publish_outcome = SKIPPED | WAS_SENT | WAS_RETRIED | WAS_FAILED

text \<open>
  \<open>_publish_one\<close> in its own transaction; \<open>publish\<close> is the Redis call, its error text as \<open>Inl\<close>. The
  third component lists the event if it reached the stream.
\<close>

definition publish_one ::
  "(outbox_event \<Rightarrow> string + string) \<Rightarrow> datetime \<Rightarrow> outbox_event list \<Rightarrow> string
   \<Rightarrow> outbox_event list \<times> publish_outcome \<times> string list" where
  "publish_one publish now rows event_id =
     (case find_row e_event_id event_id rows of
        None \<Rightarrow> (rows, SKIPPED, [])
      | Some e \<Rightarrow>
          if e_status e \<noteq> PROCESSING then (rows, SKIPPED, [])
          else (case publish e of
            Inl err \<Rightarrow>
              let e' = mark_retry err now e
              in (replace_row e_event_id e' rows,
                  if e_status e' = OUTBOX_FAILED then WAS_FAILED else WAS_RETRIED, [])
          | Inr message_id \<Rightarrow>
              (replace_row e_event_id (mark_sent now e) rows, WAS_SENT, [event_id])))"

fun publish_all ::
  "(outbox_event \<Rightarrow> string + string) \<Rightarrow> datetime \<Rightarrow> outbox_event list \<Rightarrow> string list
   \<Rightarrow> outbox_event list \<times> publish_outcome list \<times> string list" where
  "publish_all publish now rows [] = (rows, [], [])"
| "publish_all publish now rows (i # ids) =
     (let (rows', out, msgs) = publish_one publish now rows i;
          (rows'', outs, msgs') = publish_all publish now rows' ids
      in (rows'', out # outs, msgs @ msgs'))"

record publish_run_result =
  run_claimed :: nat
  run_sent :: nat
  run_retried :: nat
  run_failed :: nat

definition run_once ::
  "(outbox_event \<Rightarrow> string + string) \<Rightarrow> (string \<Rightarrow> bool) \<Rightarrow> nat \<Rightarrow> datetime \<Rightarrow> int
   \<Rightarrow> outbox_event list \<Rightarrow> outbox_event list \<times> publish_run_result \<times> string list" where
  "run_once publish locked batch_size now timeout rows =
     (let (rows', ids) = claim_pending_events locked batch_size now timeout rows;
          (rows'', outs, msgs) = publish_all publish now rows' ids
      in (rows'',
          \<lparr>run_claimed = length ids, run_sent = count_list outs WAS_SENT,
           run_retried = count_list outs WAS_RETRIED, run_failed = count_list outs WAS_FAILED\<rparr>,
          msgs))"

section \<open>Several workers, crashes included\<close>

text \<open>
  The table and the stream. Any worker may claim, publish and record at any time; a worker may also
  die between the Redis call and the commit, which leaves the message in the stream and the row
  PROCESSING until its lease runs out.
\<close>

type_synonym outbox_state = "outbox_event list \<times> string list"

inductive outbox_step :: "outbox_state \<Rightarrow> outbox_state \<Rightarrow> bool" where
  step_create:
    "e_event_id e \<notin> e_event_id ` set rows \<Longrightarrow>
     e = create_event i aty ai ety p t \<Longrightarrow>
     outbox_step (rows, stream) (rows @ [e], stream)"
| step_claim:
    "claim_pending_events locked n now timeout rows = (rows', ids) \<Longrightarrow>
     outbox_step (rows, stream) (rows', stream)"
| step_publish:
    "publish_one publish now rows i = (rows', out, msgs) \<Longrightarrow>
     outbox_step (rows, stream) (rows', stream @ msgs)"
| step_crash:
    "publish_one publish now rows i = (rows', out, msgs) \<Longrightarrow>
     outbox_step (rows, stream) (rows, stream @ msgs)"

inductive_cases outbox_stepE: "outbox_step (rows, stream) (rows', stream')"

inductive outbox_reachable :: "outbox_state \<Rightarrow> bool" where
  reach_init: "outbox_reachable ([], [])"
| reach_step: "outbox_reachable s \<Longrightarrow> outbox_step s s' \<Longrightarrow> outbox_reachable s'"

definition event_ok :: "string list \<Rightarrow> outbox_event \<Rightarrow> bool" where
  "event_ok stream e \<longleftrightarrow>
     0 \<le> e_retry_count e \<and> e_retry_count e \<le> e_max_retries e \<and> 0 < e_max_retries e
     \<and> (e_status e = OUTBOX_FAILED \<longleftrightarrow> e_retry_count e = e_max_retries e)
     \<and> (e_status e = SENT \<longrightarrow> e_event_id e \<in> set stream)
     \<and> (e_status e = PROCESSING \<longrightarrow> e_next_retry_at e \<noteq> None)
     \<and> (e_status e \<in> {SENT, OUTBOX_FAILED} \<longrightarrow> e_next_retry_at e = None)"

text \<open>What no step may change: identity and content of the events, and the terminal states.\<close>

definition event_kept :: "outbox_event \<Rightarrow> outbox_event \<Rightarrow> bool" where
  "event_kept e e' \<longleftrightarrow>
     e_event_id e' = e_event_id e \<and> e_payload e' = e_payload e
     \<and> e_max_retries e' = e_max_retries e \<and> e_retry_count e \<le> e_retry_count e'
     \<and> (e_status e \<in> {SENT, OUTBOX_FAILED} \<longrightarrow> e' = e)"

lemma event_kept_refl [simp]: "event_kept e e"
  by (simp add: event_kept_def)

lemma claim_kept:
  assumes "claim_pending_events locked n now timeout rows = (rows', ids)"
  shows "list_all2 (\<lambda>e e'. event_kept e e' \<and> (event_ok stream e \<longrightarrow> event_ok stream e')) rows rows'"
  using assms
proof (induction locked n now timeout rows arbitrary: rows' ids
    rule: claim_pending_events.induct)
  case (2 locked n now timeout e es)
  have "event_kept e (claim_event now timeout e)
      \<and> (event_ok stream e \<longrightarrow> event_ok stream (claim_event now timeout e))"
    if "due_pending now e \<or> expired_processing now e"
    using that by (auto simp: event_kept_def event_ok_def claim_event_def due_pending_def
        expired_processing_def)
  with 2 show ?case by (auto split: if_splits prod.splits)
qed simp

lemma replace_row_kept:
  assumes "find_row key k rows = Some e" "key e' = k" "P e e'" "\<And>x. P x x"
    "distinct (map key rows)"
  shows "list_all2 P rows (replace_row key e' rows)"
proof -
  have "e \<in> set rows" "key e = k" using find_row_SomeD [OF assms(1)] by auto
  moreover have "inj_on key (set rows)" using assms(5) by (simp add: distinct_map)
  ultimately have "x = e" if "x \<in> set rows" "key x = key e'" for x
    using that assms(2) by (auto dest: inj_onD)
  then have "P x (if key x = key e' then e' else x)" if "x \<in> set rows" for x
    using that assms(3,4) by (cases "key x = key e'") auto
  then show ?thesis
    unfolding replace_row_def list_all2_map2 by (simp add: list_all2_same)
qed

lemma mark_retry_ok:
  assumes "e_status e = PROCESSING" "event_ok stream e"
  shows "event_ok stream' (mark_retry err now e) \<and> event_kept e (mark_retry err now e)"
  using assms by (auto simp: event_ok_def event_kept_def mark_retry_def mark_failed_def Let_def)

lemma publish_kept:
  assumes "publish_one publish now rows i = (rows', out, msgs)" "distinct (map e_event_id rows)"
    "\<forall>e \<in> set rows. event_ok stream e"
  shows "list_all2 (\<lambda>e e'. event_kept e e' \<and> event_ok (stream @ msgs) e') rows rows'"
proof -
  have weaken: "event_ok (stream @ ms) e" if "event_ok stream e" for ms e
    using that by (auto simp: event_ok_def)
  have same: "list_all2 (\<lambda>e e'. event_kept e e' \<and> event_ok (stream @ ms) e') rows rows" for ms
    using assms(3) weaken by (auto simp: list_all2_same)
  show ?thesis
  proof (cases "find_row e_event_id i rows")
    case None
    with assms(1) same [of "[]"] show ?thesis by (auto simp: publish_one_def)
  next
    case (Some e)
    then have e: "e \<in> set rows" "e_event_id e = i" using find_row_SomeD by fastforce+
    show ?thesis
    proof (cases "e_status e = PROCESSING")
      case False
      with Some assms(1) same [of "[]"] show ?thesis by (auto simp: publish_one_def)
    next
      case True
      have ok: "event_ok stream e" using assms(3) e by simp
      have "\<exists>e'. rows' = replace_row e_event_id e' rows \<and> event_kept e e'
          \<and> event_ok (stream @ msgs) e'"
      proof (cases "publish e")
        case (Inl err)
        with Some True assms(1) have "rows' = replace_row e_event_id (mark_retry err now e) rows"
          by (simp add: publish_one_def Let_def)
        with mark_retry_ok [OF True ok] show ?thesis by blast
      next
        case (Inr mid)
        with Some True assms(1) have r: "rows' = replace_row e_event_id (mark_sent now e) rows"
          "msgs = [i]" by (auto simp: publish_one_def)
        have "event_kept e (mark_sent now e) \<and> event_ok (stream @ [i]) (mark_sent now e)"
          using True ok e(2) by (auto simp: event_kept_def event_ok_def mark_sent_def)
        with r show ?thesis by blast
      qed
      then obtain e' where rows': "rows' = replace_row e_event_id e' rows"
        and e': "event_kept e e'" "event_ok (stream @ msgs) e'" by blast
      have "list_all2 (\<lambda>e e'. event_kept e e'
          \<and> (event_ok (stream @ msgs) e \<longrightarrow> event_ok (stream @ msgs) e')) rows rows'"
        unfolding rows' using e' Some e assms(2)
        by (intro replace_row_kept [where k = i]) (auto simp: event_kept_def)
      then show ?thesis
        using assms(3) weaken by (auto simp: list_all2_conv_all_nth)
    qed
  qed
qed

definition outbox_inv :: "outbox_state \<Rightarrow> bool" where
  "outbox_inv s \<longleftrightarrow> distinct (map e_event_id (fst s)) \<and> (\<forall>e \<in> set (fst s). event_ok (snd s) e)"

lemma list_all2_kept_ids:
  assumes "list_all2 (\<lambda>e e'. event_kept e e' \<and> Q e e') rows rows'"
  shows "map e_event_id rows' = map e_event_id rows"
  using assms by (induction rule: list_all2_induct) (auto simp: event_kept_def)

lemma outbox_step_inv:
  assumes "outbox_step s s'" "outbox_inv s"
  shows "outbox_inv s' \<and> (\<exists>new. list_all2 event_kept (fst s) (take (length (fst s)) (fst s'))
            \<and> fst s' = take (length (fst s)) (fst s') @ new)"
  using assms
proof (induction rule: outbox_step.induct)
  case (step_create e rows i aty ai ety p t stream)
  then show ?case
    by (auto simp: outbox_inv_def list_all2_same event_ok_def create_event_def
        max_retries_default_def)
next
  case (step_claim locked n now timeout rows rows' ids stream)
  note k = claim_kept [OF step_claim.hyps, of stream]
  from k have "length rows' = length rows" by (simp add: list_all2_lengthD)
  moreover have "list_all2 event_kept rows rows'"
    using k by (auto elim!: list.rel_mono_strong)
  moreover have "\<forall>e' \<in> set rows'. event_ok stream e'"
    using k step_claim.prems by (fastforce simp: outbox_inv_def list_all2_conv_all_nth in_set_conv_nth)
  ultimately show ?case
    using step_claim.prems list_all2_kept_ids [OF k] by (simp add: outbox_inv_def)
next
  case (step_publish publish now rows i rows' out msgs stream)
  have "distinct (map e_event_id rows)" "\<forall>e \<in> set rows. event_ok stream e"
    using step_publish.prems by (simp_all add: outbox_inv_def)
  note k = publish_kept [OF step_publish.hyps this]
  from k have "length rows' = length rows" by (simp add: list_all2_lengthD)
  moreover have "list_all2 event_kept rows rows'"
    using k by (auto elim!: list.rel_mono_strong)
  moreover have "\<forall>e' \<in> set rows'. event_ok (stream @ msgs) e'"
    using k by (fastforce simp: list_all2_conv_all_nth in_set_conv_nth)
  ultimately show ?case
    using step_publish.prems list_all2_kept_ids [OF k] by (simp add: outbox_inv_def)
next
  case (step_crash publish now rows i rows' out msgs stream)
  then show ?case by (auto simp: outbox_inv_def event_ok_def list_all2_same)
qed

lemma outbox_reachable_inv: "outbox_reachable s \<Longrightarrow> outbox_inv s"
  by (induction rule: outbox_reachable.induct) (auto simp: outbox_inv_def dest: outbox_step_inv)

section \<open>Properties\<close>


definition sample_event :: outbox_event where
  "sample_event = create_event ''EVT-1'' ''ORDER'' ''O1'' ''ORDER_ACCEPTED'' [] 0"


text \<open>The failures of one event, each after a claim.\<close>

fun fail_times :: "nat \<Rightarrow> outbox_event \<Rightarrow> outbox_event" where
  "fail_times 0 e = e"
| "fail_times (Suc n) e = mark_retry ''ConnectionError'' 0 (claim_event 0 60 (fail_times n e))"

lemma fail_times_run:
  assumes "e_retry_count e + int n \<le> e_max_retries e" "0 \<le> e_retry_count e"
    "e_retry_count e < e_max_retries e" "e_status e = PENDING"
  shows "e_retry_count (fail_times n e) = e_retry_count e + int n
    \<and> e_max_retries (fail_times n e) = e_max_retries e
    \<and> e_status (fail_times n e)
        = (if e_retry_count e + int n = e_max_retries e then OUTBOX_FAILED else PENDING)"
  using assms
  by (induction n) (auto simp: mark_retry_def mark_failed_def claim_event_def Let_def)

text \<open>
  C38: publishing that keeps failing stops: an event is retried with delays that never shrink and
  never exceed five minutes, and after exactly as many failures as it had retries left it is FAILED.
\<close>

theorem retries_are_bounded:
  assumes "e_status e = PENDING" "0 \<le> e_retry_count e" "e_retry_count e < e_max_retries e"
  shows "e_status (fail_times (nat (e_max_retries e - e_retry_count e)) e) = OUTBOX_FAILED
    \<and> (\<forall>n < nat (e_max_retries e - e_retry_count e). e_status (fail_times n e) = PENDING)
    \<and> (\<forall>i j. 1 \<le> i \<and> i \<le> j \<longrightarrow>
         5 \<le> retry_delay_seconds i \<and> retry_delay_seconds i \<le> retry_delay_seconds j
         \<and> retry_delay_seconds j \<le> 300)"
proof -
  have "retry_delay_seconds i \<le> retry_delay_seconds j" if "i \<le> j" for i j
  proof -
    have "nat (i - 1) \<le> nat (j - 1)" using that by simp
    then have "(2::int) ^ nat (i - 1) \<le> 2 ^ nat (j - 1)" by (rule power_increasing) simp
    then show ?thesis unfolding retry_delay_seconds_def by linarith
  qed
  moreover have "5 \<le> retry_delay_seconds i" for i
    using one_le_power [of "2::int" "nat (i - 1)"] by (simp add: retry_delay_seconds_def)
  moreover have "retry_delay_seconds j \<le> 300" for j by (simp add: retry_delay_seconds_def)
  moreover have "e_status (fail_times n e) = PENDING"
    if "n < nat (e_max_retries e - e_retry_count e)" for n
    using fail_times_run [of e n] that assms by auto
  ultimately show ?thesis
    using fail_times_run [of e "nat (e_max_retries e - e_retry_count e)"] assms by simp
qed

theorem retries_are_bounded_witness:
  "e_status (fail_times 10 sample_event) = OUTBOX_FAILED"
  using retries_are_bounded [of sample_event]
  by (simp add: sample_event_def create_event_def max_retries_default_def)

end
