(* ===== verification/Book.thy ===== *)
theory Book
  imports Database Calculators
begin

text \<open>
  The consistency of the book across tables, which every transaction of the trading core starts from
  and has to keep: what an account has frozen is held by its orders, what a detail has frozen is
  held by freeze allocations, a position is the sum of its details. The unique keys, the balance
  equations of the rows and their signs are part of it.
\<close>

section \<open>Sums over the rows that satisfy a condition\<close>

lemma distinct_key_eq:
  "distinct (map key xs) \<Longrightarrow> x \<in> set xs \<Longrightarrow> y \<in> set xs \<Longrightarrow> key x = key y \<Longrightarrow> x = y"
  by (auto simp: distinct_map dest: inj_onD)

definition sum_of :: "('r \<Rightarrow> bool) \<Rightarrow> ('r \<Rightarrow> 'n::ab_group_add) \<Rightarrow> 'r list \<Rightarrow> 'n" where
  "sum_of P f rows = (\<Sum>x \<leftarrow> rows. if P x then f x else 0)"

lemma sum_of_Nil [simp]: "sum_of P f [] = 0"
  by (simp add: sum_of_def)

lemma sum_of_Cons [simp]: "sum_of P f (x # xs) = (if P x then f x else 0) + sum_of P f xs"
  by (simp add: sum_of_def)

lemma sum_of_append [simp]: "sum_of P f (xs @ ys) = sum_of P f xs + sum_of P f ys"
  by (simp add: sum_of_def)

lemma sum_of_filter: "sum_of P f rows = sum_list (map f (filter P rows))"
  by (induction rows) auto

lemma sum_of_cong:
  "(\<And>x. x \<in> set xs \<Longrightarrow> P x = Q x) \<Longrightarrow> (\<And>x. x \<in> set xs \<Longrightarrow> P x \<Longrightarrow> f x = g x) \<Longrightarrow>
   sum_of P f xs = sum_of Q g xs"
  by (induction xs) auto

lemma sum_of_map:
  "(\<And>x. x \<in> set xs \<Longrightarrow> P (u x) = P x) \<Longrightarrow> sum_of P f (map u xs) = sum_of P (\<lambda>x. f (u x)) xs"
  by (induction xs) auto

lemma sum_of_minus: "sum_of P (\<lambda>x. f x - g x) xs = sum_of P f xs - sum_of P g xs"
  by (induction xs) auto

lemma sum_of_mono:
  fixes f g :: "'r \<Rightarrow> 'n::linordered_ab_group_add"
  shows "(\<And>x. x \<in> set xs \<Longrightarrow> P x \<Longrightarrow> f x \<le> g x) \<Longrightarrow> sum_of P f xs \<le> sum_of P g xs"
  by (induction xs) (auto intro: add_mono)

lemma sum_of_nonneg:
  fixes f :: "'r \<Rightarrow> 'n::linordered_ab_group_add"
  shows "(\<And>x. x \<in> set xs \<Longrightarrow> P x \<Longrightarrow> 0 \<le> f x) \<Longrightarrow> 0 \<le> sum_of P f xs"
  by (induction xs) auto

lemma sum_of_le_member:
  fixes f :: "'r \<Rightarrow> 'n::linordered_ab_group_add"
  assumes "r \<in> set xs" "P r" "\<And>x. x \<in> set xs \<Longrightarrow> P x \<Longrightarrow> 0 \<le> f x"
  shows "f r \<le> sum_of P f xs"
  using assms
proof (induction xs)
  case (Cons x xs)
  show ?case
  proof (cases "r = x")
    case True
    with Cons.prems sum_of_nonneg [of xs P f] show ?thesis by simp
  next
    case False
    with Cons have "f r \<le> sum_of P f xs" by simp
    moreover have "0 \<le> (if P x then f x else 0)" using Cons.prems by simp
    ultimately show ?thesis using add_mono by fastforce
  qed
qed simp

lemma sum_of_subset:
  fixes f :: "'r \<Rightarrow> 'n::linordered_ab_group_add"
  assumes "\<And>x. x \<in> set xs \<Longrightarrow> P x \<Longrightarrow> Q x" "\<And>x. x \<in> set xs \<Longrightarrow> Q x \<Longrightarrow> 0 \<le> f x"
  shows "sum_of P f xs \<le> sum_of Q f xs"
  using assms by (induction xs) (auto intro: add_increasing)

lemma sum_of_add: "sum_of P (\<lambda>x. f x + g x) xs = sum_of P f xs + sum_of P g xs"
  by (induction xs) (auto simp: algebra_simps)

lemma sum_of_zero: "(\<And>x. x \<in> set xs \<Longrightarrow> P x \<Longrightarrow> f x = 0) \<Longrightarrow> sum_of P f xs = 0"
  by (induction xs) auto

text \<open>A sum over one key picks at most one row.\<close>

lemma sum_of_single_key:
  assumes "distinct (map key xs)"
  shows "sum_of P (\<lambda>x. if key x = k then c else 0) xs
       = (if \<exists>x \<in> set xs. P x \<and> key x = k then c else 0)"
  using assms
proof (induction xs)
  case (Cons x xs)
  show ?case
  proof (cases "key x = k")
    case True
    from Cons.prems True have "k \<notin> key ` set xs" by auto
    then have "key y \<noteq> k" if "y \<in> set xs" for y
      using that by (metis imageI)
    then have "sum_of P (\<lambda>x. if key x = k then c else 0) xs = 0"
      and "\<not> (\<exists>y \<in> set xs. P y \<and> key y = k)"
      by (auto intro!: sum_of_zero)
    with True show ?thesis by (cases "P x") auto
  next
    case False
    with Cons show ?thesis by simp
  qed
qed simp

text \<open>Summing, over the rows with a condition, what hangs on each row by its key.\<close>

lemma sum_of_by_key:
  assumes "distinct (map key xs)"
  shows "sum_of P (\<lambda>x. sum_of (\<lambda>f. ref f = key x) g fs) xs
       = sum_of (\<lambda>f. \<exists>x \<in> set xs. P x \<and> key x = ref f) g fs"
proof (induction fs)
  case Nil
  then show ?case by (simp add: sum_of_zero)
next
  case (Cons f fs)
  have "sum_of P (\<lambda>x. if ref f = key x then g f else 0) xs
      = (if \<exists>x \<in> set xs. P x \<and> key x = ref f then g f else 0)"
    using sum_of_single_key [OF assms, of P "ref f" "g f"] by (simp add: eq_commute)
  with Cons show ?case by (simp add: sum_of_add)
qed

text \<open>A row is replaced by one that the condition does not distinguish.\<close>

lemma sum_of_replace:
  assumes "distinct (map key rows)" "find_row key (key r) rows = Some old" "P r = P old"
  shows "sum_of P f (replace_row key r rows)
       = sum_of P f rows + (if P old then f r - f old else 0)"
  unfolding sum_of_def sum_replace_row [OF assms(1,2)] using assms(3) by auto

text \<open>Several rows are written back by key.\<close>

lemma fold_replace_row:
  assumes "distinct (map key rs)"
  shows "fold (replace_row key) rs rows =
     map (\<lambda>x. case find_row key (key x) rs of None \<Rightarrow> x | Some r \<Rightarrow> r) rows"
  using assms
proof (induction rs arbitrary: rows)
  case (Cons r rs)
  then have "find_row key (key r) rs = None" by (simp add: find_row_None_iff)
  with Cons show ?case by (auto simp: replace_row_def)
qed simp

lemma find_row_map_filter:
  assumes "distinct (map key rows)" "\<And>x. key (u x) = key x" "x \<in> set rows"
  shows "find_row key (key x) (map u (filter S rows)) = (if S x then Some (u x) else None)"
  using assms(1,3)
proof (induction rows)
  case (Cons y rows)
  show ?case
  proof (cases "x = y")
    case True
    with Cons.prems(1) have "find_row key (key x) (map u (filter S rows)) = None"
      by (auto simp: find_row_None_iff assms(2))
    with True show ?thesis by (simp add: assms(2))
  next
    case False
    with Cons.prems have "x \<in> set rows" "key y \<noteq> key x" by auto
    with Cons show ?thesis by (simp add: assms(2))
  qed
qed simp

lemma write_back:
  assumes "distinct (map key rows)" "\<And>x. key (u x) = key x"
  shows "fold (replace_row key) (map u (filter S rows)) rows
       = map (\<lambda>x. if S x then u x else x) rows"
proof -
  have keys: "map key (map u (filter S rows)) = map key (filter S rows)"
    using assms(2) by simp
  have "distinct (map key (map u (filter S rows)))"
    unfolding keys using assms(1) by (rule distinct_map_filter)
  then show ?thesis
    using find_row_map_filter [OF assms] by (simp add: fold_replace_row cong: map_cong)
qed

section \<open>The book\<close>

definition is_derivative :: "instrument_type \<Rightarrow> bool" where
  "is_derivative it \<longleftrightarrow> it \<notin> cash_security_instrument_types"

definition order_closes :: "order \<Rightarrow> bool" where
  "order_closes r \<longleftrightarrow> o_offset_flag r \<in> {Some CLOSE, Some CLOSE_TODAY, Some CLOSE_YESTERDAY}"

definition order_row_ok :: "order \<Rightarrow> bool" where
  "order_row_ok r \<longleftrightarrow> order_volume_balanced r
     \<and> 0 \<le> o_traded_volume r \<and> 0 \<le> o_remaining_volume r \<and> 0 \<le> o_cancelled_volume r
     \<and> 0 \<le> o_frozen_margin r \<and> 0 \<le> o_frozen_cash r \<and> 0 \<le> o_frozen_commission r
     \<and> is_money (o_frozen_margin r) \<and> is_money (o_frozen_cash r)
     \<and> is_money (o_frozen_commission r)"

definition account_row_ok :: "account \<Rightarrow> bool" where
  "account_row_ok a \<longleftrightarrow> is_money (a_available_cash a) \<and> is_money (a_frozen_margin a)
     \<and> is_money (a_frozen_cash a) \<and> is_money (a_frozen_commission a)
     \<and> is_money (a_risk_available_cash a)"

definition of_account :: "string \<Rightarrow> order \<Rightarrow> bool" where
  "of_account aid r \<longleftrightarrow> o_account_id r = aid"

definition of_detail :: "string \<Rightarrow> freeze_allocation \<Rightarrow> bool" where
  "of_detail k f \<longleftrightarrow> f_position_detail_id f = k"

definition of_order :: "string \<Rightarrow> freeze_allocation \<Rightarrow> bool" where
  "of_order oid f \<longleftrightarrow> f_order_id f = oid"

definition of_position :: "string \<Rightarrow> detail \<Rightarrow> bool" where
  "of_position pid dt \<longleftrightarrow> d_position_id dt = pid"

text \<open>An account's frozen pools are what its orders hold.\<close>

definition account_backed :: "order list \<Rightarrow> account \<Rightarrow> bool" where
  "account_backed rs a \<longleftrightarrow>
     a_frozen_margin a = sum_of (of_account (a_account_id a)) o_frozen_margin rs
     \<and> a_frozen_cash a = sum_of (of_account (a_account_id a)) o_frozen_cash rs
     \<and> a_frozen_commission a = sum_of (of_account (a_account_id a)) o_frozen_commission rs"

text \<open>A detail's frozen volume is what the allocations hold on it.\<close>

definition detail_backed :: "freeze_allocation list \<Rightarrow> detail \<Rightarrow> bool" where
  "detail_backed fs dt \<longleftrightarrow>
     d_frozen_volume dt = sum_of (of_detail (d_position_detail_id dt)) f_remaining_frozen_volume fs"

text \<open>A derivative position is the sum of its details (a cash security position has none).\<close>

definition position_backed :: "detail list \<Rightarrow> position \<Rightarrow> bool" where
  "position_backed dts p \<longleftrightarrow> is_derivative (p_instrument_type p) \<longrightarrow>
     p_frozen_volume p = sum_of (of_position (p_position_id p)) d_frozen_volume dts
     \<and> p_total_volume p = sum_of (of_position (p_position_id p)) d_remaining_volume dts"

text \<open>A closing order holds what its allocations hold.\<close>

definition order_backed :: "freeze_allocation list \<Rightarrow> order \<Rightarrow> bool" where
  "order_backed fs r \<longleftrightarrow> order_closes r \<longrightarrow>
     o_frozen_position_volume r = sum_of (of_order (o_order_id r)) f_remaining_frozen_volume fs
     \<and> o_frozen_commission r
         = sum_of (of_order (o_order_id r)) f_remaining_frozen_commission fs"

definition book_ok :: "db \<Rightarrow> bool" where
  "book_ok d \<longleftrightarrow> keys_ok d
     \<and> (\<forall>r \<in> set (db_orders d). order_row_ok r \<and> order_backed (db_allocations d) r)
     \<and> (\<forall>a \<in> set (db_accounts d). account_row_ok a \<and> account_backed (db_orders d) a)
     \<and> (\<forall>f \<in> set (db_allocations d). allocation_ok f \<and> is_money (f_released_commission f)
          \<and> is_money (f_remaining_frozen_commission f) \<and> is_money (f_consumed_commission f))
     \<and> (\<forall>dt \<in> set (db_details d). detail_ok dt \<and> detail_backed (db_allocations d) dt)
     \<and> (\<forall>p \<in> set (db_positions d). position_volumes_ok p \<and> position_backed (db_details d) p)"

lemma book_ok_order:
  "book_ok d \<Longrightarrow> get_order d oid = Some r \<Longrightarrow>
     r \<in> set (db_orders d) \<and> o_order_id r = oid \<and> order_row_ok r
     \<and> order_backed (db_allocations d) r"
  unfolding book_ok_def get_order_def using find_row_SomeD by fastforce

lemma book_ok_account:
  "book_ok d \<Longrightarrow> get_account d aid = Some a \<Longrightarrow>
     a \<in> set (db_accounts d) \<and> a_account_id a = aid \<and> account_row_ok a
     \<and> account_backed (db_orders d) a"
  unfolding book_ok_def get_account_def using find_row_SomeD by fastforce

text \<open>The pools cover every single order of the account.\<close>

lemma account_covers_order:
  assumes "account_backed rs a" "r \<in> set rs" "o_account_id r = a_account_id a"
    "\<forall>x \<in> set rs. order_row_ok x"
  shows "o_frozen_margin r \<le> a_frozen_margin a \<and> o_frozen_cash r \<le> a_frozen_cash a
    \<and> o_frozen_commission r \<le> a_frozen_commission a"
  using assms
  by (auto simp: account_backed_def of_account_def order_row_ok_def intro!: sum_of_le_member)

text \<open>Replacing an order and its account moves both sides by the same amount.\<close>

lemma accounts_backed_replace:
  assumes "distinct (map o_order_id rs)" "find_row o_order_id (o_order_id r') rs = Some r"
    "o_account_id r' = o_account_id r" "account_backed rs a" "a_account_id a' = a_account_id a"
    "a_account_id a = o_account_id r"
    "a_frozen_margin a' = a_frozen_margin a + (o_frozen_margin r' - o_frozen_margin r)"
    "a_frozen_cash a' = a_frozen_cash a + (o_frozen_cash r' - o_frozen_cash r)"
    "a_frozen_commission a'
       = a_frozen_commission a + (o_frozen_commission r' - o_frozen_commission r)"
  shows "account_backed (replace_row o_order_id r' rs) a'"
  using assms
  by (simp add: account_backed_def sum_of_replace [where old = r] of_account_def)

lemma accounts_backed_other:
  assumes "distinct (map o_order_id rs)" "find_row o_order_id (o_order_id r') rs = Some r"
    "o_account_id r' = o_account_id r" "account_backed rs b" "a_account_id b \<noteq> o_account_id r"
  shows "account_backed (replace_row o_order_id r' rs) b"
  using assms
  by (simp add: account_backed_def sum_of_replace [where old = r] of_account_def)

text \<open>
  A step that replaces one order and its account and moves both frozen pools together keeps the
  accounts and the order rows consistent.
\<close>

definition pools_move_together :: "order \<Rightarrow> account \<Rightarrow> order \<Rightarrow> account \<Rightarrow> bool" where
  "pools_move_together r a r' a' \<longleftrightarrow>
     o_order_id r' = o_order_id r \<and> o_account_id r' = o_account_id r
     \<and> a_account_id a' = a_account_id a
     \<and> a_frozen_margin a' = a_frozen_margin a + (o_frozen_margin r' - o_frozen_margin r)
     \<and> a_frozen_cash a' = a_frozen_cash a + (o_frozen_cash r' - o_frozen_cash r)
     \<and> a_frozen_commission a'
         = a_frozen_commission a + (o_frozen_commission r' - o_frozen_commission r)"

lemma book_accounts_step:
  assumes book: "book_ok d" and r: "get_order d oid = Some r"
    and a: "get_account d (o_account_id r) = Some a"
    and move: "pools_move_together r a r' a'" and a_ok: "account_row_ok a'"
  shows "\<forall>b \<in> set (replace_row a_account_id a' (db_accounts d)).
      account_row_ok b \<and> account_backed (replace_row o_order_id r' (db_orders d)) b"
proof -
  have rr: "r \<in> set (db_orders d)" "o_order_id r = oid"
    and aa: "a \<in> set (db_accounts d)" "a_account_id a = o_account_id r"
      "account_backed (db_orders d) a"
    using book_ok_order [OF book r] book_ok_account [OF book a] by auto
  have keys: "distinct (map o_order_id (db_orders d))"
    using book by (simp add: book_ok_def keys_ok_def)
  have fr: "find_row o_order_id (o_order_id r') (db_orders d) = Some r"
    using find_row_distinct [OF keys rr(1)] move by (simp add: pools_move_together_def)
  have "account_backed (replace_row o_order_id r' (db_orders d)) a'"
    using move aa by (intro accounts_backed_replace [OF keys fr]) (auto simp: pools_move_together_def)
  moreover have "account_backed (replace_row o_order_id r' (db_orders d)) b"
    if "b \<in> set (db_accounts d)" "a_account_id b \<noteq> a_account_id a" for b
    using that move aa book
    by (intro accounts_backed_other [OF keys fr]) (auto simp: pools_move_together_def book_ok_def)
  moreover have "a_account_id a' = a_account_id a" using move by (simp add: pools_move_together_def)
  ultimately show ?thesis using book a_ok by (auto simp: replace_row_def book_ok_def)
qed

lemma book_orders_step:
  assumes "book_ok d" "order_row_ok r'" "order_backed (db_allocations d) r'"
  shows "\<forall>x \<in> set (replace_row o_order_id r' (db_orders d)).
      order_row_ok x \<and> order_backed (db_allocations d) x"
  using assms by (auto simp: replace_row_def book_ok_def)

end
