(* ===== verification/Samples.thy ===== *)
theory Samples
  imports Freeze Close_Allocator Book
begin

text \<open>
  A small book for the concrete instances: one account with an open order, a long position of two
  lots, one of which a closing order has frozen, and that closing order with its allocation.
\<close>

definition sample_order ::
  "string \<Rightarrow> order_direction \<Rightarrow> offset_flag \<Rightarrow> int \<Rightarrow> decimal \<Rightarrow> decimal \<Rightarrow> int \<Rightarrow> order" where
  "sample_order oid direction offset volume margin commission frozen_volume =
     \<lparr>o_order_id = oid, o_client_order_id = ''C1'', o_account_id = ''A1'',
      o_order_book_id = ''RB2610'', o_symbol = ''RB2610'', o_exchange_id = ''SHFE'',
      o_trading_day = 10, o_instrument_type = FUTURES, o_underlying_order_book_id = None,
      o_underlying_exchange_id = None, o_underlying_symbol = None, o_direction = direction,
      o_offset_flag = Some offset, o_order_type = LIMIT, o_commission_type = Some BY_VOLUME,
      o_commission_parameter = Some 5, o_commission_contract_multiplier = Some 10,
      o_fee_rule_id = Some 1, o_fee_rule_version = Some ''1'', o_fee_rule_snapshot = None,
      o_limit_price = 3500, o_submitted_limit_price = Some 3500, o_resolved_price = 3500,
      o_market_protection_price = None, o_price_snapshot_time = None,
      o_price_snapshot_source = None, o_price_snapshot_event_id = None,
      o_price_snapshot_stream_message_id = None, o_price_snapshot_bid1 = None,
      o_price_snapshot_bid_volume1 = None, o_price_snapshot_ask1 = None,
      o_price_snapshot_ask_volume1 = None, o_price_snapshot_last = None,
      o_total_volume = volume, o_traded_volume = 0, o_remaining_volume = volume,
      o_cancelled_volume = 0, o_average_price = None, o_status = ACCEPTED,
      o_submit_status = SUBMIT_ACCEPTED, o_frozen_margin = margin, o_frozen_cash = 0,
      o_frozen_commission = commission, o_frozen_position_volume = frozen_volume,
      o_margin_rule_id = None, o_margin_rule_version = None, o_margin_price_mode = None,
      o_margin_underlying_price = None, o_margin_option_price = None,
      o_margin_rule_snapshot = None, o_margin_snapshot_schema_version = None,
      o_margin_calculation_version = None, o_margin_risk_state = NORMAL,
      o_order_source = ''USER'', o_liquidation_task_id = None, o_reduce_only = False,
      o_reject_code = None, o_reject_message = None, o_cancel_reason_code = None,
      o_cancel_reason_message = None, o_created_at = 0, o_accepted_at = Some 0,
      o_cancelled_at = None, o_updated_at = 0\<rparr>"

definition sample_position :: "int \<Rightarrow> int \<Rightarrow> position" where
  "sample_position volume frozen =
     \<lparr>p_position_id = ''P1'', p_account_id = ''A1'', p_order_book_id = ''RB2610'',
      p_exchange_id = ''SHFE'', p_symbol = ''RB2610'', p_instrument_type = FUTURES,
      p_direction = LONG, p_total_volume = volume, p_today_volume = volume,
      p_yesterday_volume = 0, p_frozen_volume = frozen, p_settlement_locked_volume = 0,
      p_pending_share_volume = 0, p_available_volume = volume - frozen,
      p_average_open_price = 3500, p_position_cost = 70000, p_used_margin = 7000,
      p_initial_occupied_margin = 7000, p_realtime_required_margin = 0,
      p_option_market_value = 0, p_market_value = 0, p_mark_price = None, p_mark_time = None,
      p_mark_source_event_id = None, p_daily_pnl_base_cost = 0, p_yesterday_pnl_base_cost = 0,
      p_today_pnl_base_cost = 0, p_daily_pnl_base_established = False, p_margin_rule_id = None,
      p_margin_rule_version = None, p_margin_rule_snapshot = None, p_margin_price_mode = None,
      p_margin_underlying_price = None, p_margin_option_price = None,
      p_margin_calculated_at = None, p_multiplier_snapshot = 10, p_realized_pnl = 0,
      p_unrealized_pnl = 0, p_daily_position_pnl = 0, p_daily_close_pnl = 0,
      p_trading_day = 10, p_created_at = 0, p_updated_at = 0\<rparr>"

definition sample_allocation :: "string \<Rightarrow> string \<Rightarrow> int \<Rightarrow> decimal \<Rightarrow> freeze_allocation" where
  "sample_allocation fid oid volume commission =
     \<lparr>f_allocation_id = fid, f_order_id = oid, f_position_id = ''P1'',
      f_position_detail_id = ''PD'', f_account_id = ''A1'', f_exchange_id = ''SHFE'',
      f_symbol = ''RB2610'', f_offset_flag = CLOSE, f_resolved_offset_flag = CLOSE_TODAY,
      f_commission_type = BY_VOLUME, f_commission_parameter = 5,
      f_commission_contract_multiplier = 10, f_original_frozen_volume = volume,
      f_remaining_frozen_volume = volume, f_consumed_volume = 0, f_released_volume = 0,
      f_original_frozen_commission = commission, f_remaining_frozen_commission = commission,
      f_consumed_commission = 0, f_released_commission = 0, f_status = ACTIVE,
      f_created_at = 0, f_updated_at = 0\<rparr>"

definition sample_futures :: instrument where
  "sample_futures =
     \<lparr>i_id = 1, i_order_book_id = ''RB2610'', i_symbol = ''RB2610'', i_exchange_id = ''SHFE'',
      i_product_id = Some ''RB'', i_market_type = ''FUTURES'', i_market_tplus = None,
      i_round_lot = None, i_instrument_type = FUTURES, i_underlying_instrument_id = None,
      i_is_active = True, i_is_tradeable = True, i_price_tick = 1,
      i_contract_multiplier = Some 10, i_min_volume = 1, i_max_volume = 100,
      i_option_type = None, i_strike_price = None\<rparr>"

definition sample_fee_rule :: fee_rule where
  "sample_fee_rule =
     \<lparr>fr_exchange_id = ''SHFE'', fr_symbol = ''RB2610'', fr_commission_type = BY_VOLUME,
      fr_open_commission = 5, fr_close_commission = 5, fr_close_today_commission = 5\<rparr>"

definition sample_db :: db where
  "sample_db =
     \<lparr>db_accounts =
        [sample_account\<lparr>a_available_cash := 85990, a_frozen_margin := 7000, a_used_margin := 7000,
                        a_frozen_commission := 10, a_risk_available_cash := 85990\<rparr>],
      db_orders = [sample_order ''O1'' BUY OPEN 2 7000 5 0, sample_order ''O2'' SELL CLOSE 1 0 5 1],
      db_instruments = [sample_futures], db_margin_rules = [sample_margin_rule],
      db_fee_rules = [sample_fee_rule], db_fee_items = [], db_option_margin_rules = [],
      db_positions = [sample_position 2 1],
      db_details = [sample_detail 1 10 2 1], db_allocations = [sample_allocation ''F1'' ''O2'' 1 5],
      db_trades = [], db_trade_allocations = [], db_outbox = [], db_batches = []\<rparr>"

lemmas sample_defs = sample_db_def sample_order_def sample_position_def sample_allocation_def
  sample_futures_def sample_detail_def sample_account_def

lemma sample_book: "book_ok sample_db"
  by (simp add: book_ok_def keys_ok_def sample_defs order_row_ok_def order_volume_balanced_def
      order_backed_def order_closes_def account_row_ok_def account_backed_def allocation_ok_def
      detail_ok_def detail_backed_def position_volumes_ok_def position_backed_def of_account_def
      of_order_def of_detail_def of_position_def is_derivative_def
      cash_security_instrument_types_def)

end
