(* ===== verification/Option_Order_Margin.thy ===== *)
theory Option_Order_Margin
  imports Option_Margin Outbox_Events Freeze Samples
begin

text \<open>
  \<open>app/services/option_order_margin_adjustment_service.py\<close>: the re-check of an active option
  sell-open order under the latest prices. \<open>_calculate_required\<close>, which reads the tick store in Redis
  and the rule snapshot, is the argument \<open>required_of\<close>: the margin result or the error it raises.
  \<open>clock\<close> is \<open>utc_now\<close>.
\<close>

datatype margin_action = NOT_APPLICABLE | RISK_BLOCKED | ACTION_VALUATION_UNAVAILABLE
  | ACTION_RECOVERED | SUFFICIENT | ACTION_MARGIN_DEFICIT | ADDED

record margin_adjustment =
  ma_action :: margin_action
  ma_order_id :: string
  ma_required_margin :: decimal
  ma_added_margin :: decimal
  ma_account_id :: string
  ma_margin_risk_state :: risk_state
  ma_frozen_margin :: decimal

definition is_target_order :: "order \<Rightarrow> bool" where
  "is_target_order r \<longleftrightarrow>
     o_status r \<in> {ACCEPTED, PARTIALLY_FILLED} \<and> 0 < o_remaining_volume r
     \<and> o_instrument_type r \<in> {FUTURES_OPTION, INDEX_OPTION} \<and> o_direction r = SELL
     \<and> o_offset_flag r = Some OPEN \<and> o_order_type r \<in> {LIMIT, COUNTERPARTY, LAST}"

definition adjustment ::
  "margin_action \<Rightarrow> order \<Rightarrow> decimal \<Rightarrow> decimal \<Rightarrow> margin_adjustment" where
  "adjustment action r required added =
     \<lparr>ma_action = action, ma_order_id = o_order_id r, ma_required_margin = required,
      ma_added_margin = added, ma_account_id = o_account_id r,
      ma_margin_risk_state = o_margin_risk_state r,
      ma_frozen_margin = quantize_money (o_frozen_margin r)\<rparr>"

text \<open>The DataAccessError branch: the risk becomes a recoverable fact of both rows.\<close>

definition valuation_failed ::
  "datetime \<Rightarrow> order \<Rightarrow> account \<Rightarrow> margin_adjustment \<times> order \<times> account" where
  "valuation_failed clock r a =
     (let r' = r\<lparr>o_margin_risk_state := VALUATION_UNAVAILABLE, o_updated_at := clock\<rparr>;
          a' = a\<lparr>a_risk_state := preserve_for_local_update (a_risk_state a) True False,
                a_updated_at := clock\<rparr>
      in (adjustment ACTION_VALUATION_UNAVAILABLE r' 0 0, r', a'))"

text \<open>The branches after a successful calculation.\<close>

definition apply_required ::
  "datetime \<Rightarrow> option_margin_result \<Rightarrow> order \<Rightarrow> account
   \<Rightarrow> margin_adjustment \<times> order \<times> account" where
  "apply_required clock res r0 a =
     (let previous_order_risk = o_margin_risk_state r0;
          required = quantize_money (or_total_margin res);
          current = quantize_money (o_frozen_margin r0);
          r = r0\<lparr>o_margin_price_mode := Some (or_price_mode res),
                o_margin_underlying_price := Some (or_underlying_price res),
                o_margin_option_price := Some (or_option_price res),
                o_margin_calculation_version := Some (or_calculation_version res),
                o_updated_at := clock\<rparr>
      in if required \<le> current then
           (let r' = r\<lparr>o_margin_risk_state := NORMAL\<rparr>
            in (adjustment (if previous_order_risk \<noteq> NORMAL then ACTION_RECOVERED
                            else SUFFICIENT) r' required 0, r', a))
         else
           let delta = quantize_money (required - current)
           in if a_available_cash a < delta \<or> a_risk_available_cash a < delta then
                (let r' = r\<lparr>o_margin_risk_state := MARGIN_DEFICIT\<rparr>;
                     a' = a\<lparr>a_risk_state := preserve_for_local_update (a_risk_state a) False True,
                           a_updated_at := clock\<rparr>
                 in (adjustment ACTION_MARGIN_DEFICIT r' required 0, r', a'))
              else
                (let r' = r\<lparr>o_frozen_margin := required, o_margin_risk_state := NORMAL\<rparr>;
                     a' = a\<lparr>a_frozen_margin := quantize_money (a_frozen_margin a + delta),
                           a_available_cash := quantize_money (a_available_cash a - delta),
                           a_risk_available_cash :=
                             quantize_money (a_risk_available_cash a - delta),
                           a_updated_at := clock\<rparr>
                 in (adjustment ADDED r' required delta, r', a')))"

definition ensure_locked ::
  "(order \<Rightarrow> instrument \<Rightarrow> option_margin_result result) \<Rightarrow> datetime \<Rightarrow> bool
   \<Rightarrow> order \<Rightarrow> account \<Rightarrow> instrument \<Rightarrow> (margin_adjustment \<times> order \<times> account) result" where
  "ensure_locked required_of clock final_check r a ins =
     (if \<not> is_target_order r then
        Inr (\<lparr>ma_action = NOT_APPLICABLE, ma_order_id = o_order_id r, ma_required_margin = 0,
              ma_added_margin = 0, ma_account_id = o_account_id r,
              ma_margin_risk_state = NORMAL, ma_frozen_margin = 0\<rparr>, r, a)
      else if final_check \<and> a_risk_state a \<noteq> NORMAL then
        Inr (adjustment RISK_BLOCKED r 0 0, r, a)
      else case required_of r ins of
        Inl (DataAccessError _) \<Rightarrow> Inr (valuation_failed clock r a)
      | Inl e \<Rightarrow> Inl e
      | Inr res \<Rightarrow> Inr (apply_required clock res r a))"

section \<open>\<open>adjust\<close>: the periodic re-check in its own transaction\<close>

text \<open>
  \<open>fact_order\<close> and \<open>fact_account\<close> are the drawn event ids. A missing order is not a target.
\<close>

definition adjust_events ::
  "string \<Rightarrow> string \<Rightarrow> order \<Rightarrow> account \<Rightarrow> order \<Rightarrow> account \<Rightarrow> outbox_event list" where
  "adjust_events fact_order fact_account r a r' a' =
     (if (quantize_money (o_frozen_margin r'), o_margin_risk_state r')
         \<noteq> (quantize_money (o_frozen_margin r), o_margin_risk_state r)
      then [create_order_margin_updated fact_order r' (o_updated_at r')] else [])
     @ (if quantize_money (a_frozen_margin a') \<noteq> quantize_money (a_frozen_margin a)
        then [create_account_updated fact_account a' (o_updated_at r') None None
                (Some ''OPTION_ORDER_MARGIN_ADJUSTMENT'') False] else [])"

definition adjust ::
  "(order \<Rightarrow> instrument \<Rightarrow> option_margin_result result) \<Rightarrow> datetime \<Rightarrow> string \<Rightarrow> string
   \<Rightarrow> db \<Rightarrow> string \<Rightarrow> (db \<times> margin_action) result" where
  "adjust required_of clock fact_order fact_account d order_id =
     rbind (ensure_trading_open (db_batches d) None) (\<lambda>_.
     case get_order d order_id of
       None \<Rightarrow> Inr (d, NOT_APPLICABLE)
     | Some r \<Rightarrow>
       if \<not> is_target_order r then Inr (d, NOT_APPLICABLE)
       else (case (get_account d (o_account_id r), get_instrument d (o_order_book_id r)) of
         (Some a, Some ins) \<Rightarrow>
           rbind (ensure_locked required_of clock False r a ins) (\<lambda>(res, r', a').
             Inr (add_events (adjust_events fact_order fact_account r a r' a')
                    (put_order r' (put_account a' d)), ma_action res))
       | _ \<Rightarrow> Inl (DataAccessError ''OPTION_ORDER_CONTEXT_INCOMPLETE'')))"

section \<open>Facts\<close>

definition margin_step_ok :: "order \<Rightarrow> account \<Rightarrow> order \<Rightarrow> account \<Rightarrow> bool" where
  "margin_step_ok r a r' a' \<longleftrightarrow>
     o_order_id r' = o_order_id r \<and> o_account_id r' = o_account_id r
     \<and> a_account_id a' = a_account_id a
     \<and> o_frozen_margin r \<le> o_frozen_margin r'
     \<and> a_frozen_margin a' = a_frozen_margin a + (o_frozen_margin r' - o_frozen_margin r)
     \<and> a_available_cash a' = a_available_cash a - (o_frozen_margin r' - o_frozen_margin r)
     \<and> a_risk_available_cash a'
         = a_risk_available_cash a - (o_frozen_margin r' - o_frozen_margin r)
     \<and> a_frozen_cash a' = a_frozen_cash a \<and> a_frozen_commission a' = a_frozen_commission a
     \<and> a_used_margin a' = a_used_margin a
     \<and> o_frozen_cash r' = o_frozen_cash r \<and> o_frozen_commission r' = o_frozen_commission r
     \<and> (o_frozen_margin r' \<noteq> o_frozen_margin r \<longrightarrow> 0 \<le> a_available_cash a'
          \<and> 0 \<le> a_risk_available_cash a')
     \<and> o_total_volume r' = o_total_volume r \<and> o_traded_volume r' = o_traded_volume r
     \<and> o_remaining_volume r' = o_remaining_volume r
     \<and> o_cancelled_volume r' = o_cancelled_volume r \<and> o_status r' = o_status r
     \<and> o_offset_flag r' = o_offset_flag r \<and> o_trading_day r' = o_trading_day r
     \<and> o_direction r' = o_direction r \<and> o_average_price r' = o_average_price r
     \<and> o_frozen_position_volume r' = o_frozen_position_volume r
     \<and> is_money (o_frozen_margin r')"

lemma apply_required_step:
  assumes "apply_required clock res r a = (m, r', a')" "order_row_ok r" "account_row_ok a"
  shows "margin_step_ok r a r' a'
    \<and> (ma_action m \<in> {SUFFICIENT, ACTION_RECOVERED, ADDED} \<longrightarrow>
         quantize_money (or_total_margin res) \<le> o_frozen_margin r' \<and> o_margin_risk_state r' = NORMAL
         \<and> a_risk_state a' = a_risk_state a)
    \<and> (ma_action m \<notin> {SUFFICIENT, ACTION_RECOVERED, ADDED} \<longrightarrow>
         o_frozen_margin r' = o_frozen_margin r)
    \<and> ma_action m \<noteq> NOT_APPLICABLE \<and> ma_action m \<noteq> RISK_BLOCKED"
  using assms
  by (auto simp: apply_required_def adjustment_def Let_def margin_step_ok_def order_row_ok_def
      account_row_ok_def is_money_diff is_money_add not_less not_le split: if_splits)

lemma valuation_failed_step:
  assumes "valuation_failed clock r a = (m, r', a')" "order_row_ok r"
  shows "margin_step_ok r a r' a' \<and> ma_action m = ACTION_VALUATION_UNAVAILABLE
    \<and> o_frozen_margin r' = o_frozen_margin r"
  using assms
  by (auto simp: valuation_failed_def adjustment_def Let_def margin_step_ok_def order_row_ok_def)

lemma ensure_locked_step:
  assumes "ensure_locked req clock fc r a ins = Inr (m, r', a')" "order_row_ok r" "account_row_ok a"
  shows "margin_step_ok r a r' a'
    \<and> (ma_action m \<in> {SUFFICIENT, ACTION_RECOVERED, ADDED} \<longrightarrow>
        (\<exists>res. req r ins = Inr res \<and> quantize_money (or_total_margin res) \<le> o_frozen_margin r')
        \<and> o_margin_risk_state r' = NORMAL \<and> (fc \<longrightarrow> a_risk_state a' = NORMAL))
    \<and> (ma_action m \<notin> {SUFFICIENT, ACTION_RECOVERED, ADDED} \<longrightarrow>
        o_frozen_margin r' = o_frozen_margin r)
    \<and> (ma_action m = NOT_APPLICABLE \<longleftrightarrow> \<not> is_target_order r)
    \<and> (ma_action m = NOT_APPLICABLE \<longrightarrow> r' = r \<and> a' = a)"
proof -
  have refl: "margin_step_ok r a r a" using assms(2) by (simp add: margin_step_ok_def order_row_ok_def)
  show ?thesis
  proof (cases "is_target_order r \<and> \<not> (fc \<and> a_risk_state a \<noteq> NORMAL)")
    case False
    with assms(1) refl show ?thesis by (auto simp: ensure_locked_def adjustment_def split: if_splits)
  next
    case True
    show ?thesis
    proof (cases "req r ins")
      case (Inl e)
      with True assms(1) obtain s where "e = DataAccessError s"
        by (cases e) (auto simp: ensure_locked_def)
      with Inl True assms(1) have "valuation_failed clock r a = (m, r', a')"
        by (auto simp: ensure_locked_def)
      with valuation_failed_step [OF this assms(2)] True show ?thesis by auto
    next
      case (Inr res)
      with True assms(1) have "apply_required clock res r a = (m, r', a')"
        by (auto simp: ensure_locked_def)
      with apply_required_step [OF this assms(2,3)] Inr True show ?thesis by auto
    qed
  qed
qed

lemma margin_step_pools: "margin_step_ok r a r' a' \<Longrightarrow> pools_move_together r a r' a'"
  by (simp add: margin_step_ok_def pools_move_together_def)

lemma margin_step_rows:
  assumes "margin_step_ok r a r' a'" "order_row_ok r" "account_row_ok a" "order_backed fs r"
  shows "order_row_ok r' \<and> account_row_ok a' \<and> order_backed fs r'"
  using assms
  by (auto simp: margin_step_ok_def order_row_ok_def order_volume_balanced_def account_row_ok_def
      order_backed_def order_closes_def intro: is_money_add is_money_diff)

lemma margin_step_book:
  assumes book: "book_ok d" and r: "get_order d oid = Some r"
    and a: "get_account d (o_account_id r) = Some a" and step: "margin_step_ok r a r' a'"
  shows "book_ok (put_order r' (put_account a' d))"
proof -
  have rows: "order_row_ok r'" "account_row_ok a'" "order_backed (db_allocations d) r'"
    using margin_step_rows [OF step] book_ok_order [OF book r] book_ok_account [OF book a] by blast+
  note accounts = book_accounts_step [OF book r a margin_step_pools [OF step] rows(2)]
  note orders = book_orders_step [OF book rows(1,3)]
  from accounts orders book show ?thesis by (simp add: put_defs book_ok_def keys_ok_def)
qed

section \<open>Properties\<close>

text \<open>
  The final margin check of a fill. Whatever its outcome, the frozen margin of the order never
  shrinks, what is added to it is taken from the available cash and added to the account's frozen
  margin, and nothing else of the amounts and volumes moves; when the check lets a target order pass,
  its frozen margin covers the margin required at the current prices, its own risk mark is NORMAL and
  the account is NORMAL.
\<close>

theorem final_margin_check:
  assumes "ensure_locked req clock True r a ins = Inr (m, r', a')"
    and "order_row_ok r" "account_row_ok a"
  shows "o_frozen_margin r \<le> o_frozen_margin r'
    \<and> a_frozen_margin a' - a_frozen_margin a = o_frozen_margin r' - o_frozen_margin r
    \<and> liquid (pools a') = liquid (pools a)
    \<and> (o_frozen_margin r' \<noteq> o_frozen_margin r \<longrightarrow>
         0 \<le> a_available_cash a' \<and> 0 \<le> a_risk_available_cash a')
    \<and> (is_target_order r
         \<and> ma_action m \<notin> {RISK_BLOCKED, ACTION_MARGIN_DEFICIT, ACTION_VALUATION_UNAVAILABLE}
       \<longrightarrow> (\<exists>res. req r ins = Inr res \<and> quantize_money (or_total_margin res) \<le> o_frozen_margin r')
           \<and> o_margin_risk_state r' = NORMAL \<and> a_risk_state a' = NORMAL)"
proof -
  note s = ensure_locked_step [OF assms]
  moreover have "liquid (pools a') = liquid (pools a)"
    using s by (simp add: margin_step_ok_def liquid_def pools_def)
  ultimately show ?thesis
    by (cases "ma_action m") (auto simp: margin_step_ok_def)
qed

definition sample_option_order :: order where
  "sample_option_order = (sample_order ''O3'' SELL OPEN 1 500 5 0)
     \<lparr>o_instrument_type := FUTURES_OPTION\<rparr>"

definition sample_margin_result :: "decimal \<Rightarrow> option_margin_result" where
  "sample_margin_result m =
     \<lparr>or_margin_per_lot = m, or_total_margin = m, or_premium_component = 0, or_risk_component = m,
      or_out_of_money_amount = 0, or_underlying_price = 3500, or_option_price = 100,
      or_rule_id = 1, or_rule_version = ''1'', or_price_mode = REALTIME, or_calculated_at = 0,
      or_calculation_version = ''V1''\<rparr>"

theorem final_margin_check_witness:
  "\<exists>m r' a'. ensure_locked (\<lambda>_ _. Inr (sample_margin_result 800)) 7 True sample_option_order
       sample_account sample_futures = Inr (m, r', a')
     \<and> o_margin_risk_state r' = NORMAL \<and> a_risk_state a' = NORMAL
     \<and> liquid (pools a') = liquid (pools sample_account)"
proof -
  let ?run = "ensure_locked (\<lambda>_ _. Inr (sample_margin_result 800)) 7 True sample_option_order
       sample_account sample_futures"
  have target: "is_target_order sample_option_order"
    by (simp add: is_target_order_def sample_option_order_def sample_order_def)
  obtain m r' a' where run: "?run = Inr (m, r', a')" "ma_action m = ADDED"
    using target by (simp add: ensure_locked_def apply_required_def adjustment_def Let_def
        sample_margin_result_def sample_option_order_def sample_order_def sample_account_def)
  have "order_row_ok sample_option_order" "account_row_ok sample_account"
    by (simp_all add: order_row_ok_def order_volume_balanced_def account_row_ok_def
        sample_option_order_def sample_order_def sample_account_def)
  from final_margin_check [OF run(1) this] run target show ?thesis by auto
qed

text \<open>
  The periodic re-check keeps the book consistent: the margin it adds to an order is added to
  the frozen margin of the order's account as well.
\<close>

theorem adjust_keeps_book:
  assumes "adjust req clock fo fa d oid = Inr (d', action)" "book_ok d"
  shows "book_ok d'"
proof (cases "d' = d")
  case False
  from assms(1) False obtain r a ins m r' a' where
    r: "get_order d oid = Some r" and a: "get_account d (o_account_id r) = Some a"
    and step: "ensure_locked req clock False r a ins = Inr (m, r', a')"
    and d': "d' = add_events (adjust_events fo fa r a r' a') (put_order r' (put_account a' d))"
    by (auto simp: adjust_def rbind_Inr_iff split: option.splits if_splits)
  have "margin_step_ok r a r' a'"
    using ensure_locked_step [OF step] book_ok_order [OF assms(2) r] book_ok_account [OF assms(2) a]
    by blast
  with assms(2) r a have "book_ok (put_order r' (put_account a' d))" by (intro margin_step_book)
  then show ?thesis by (simp add: d' put_defs book_ok_def keys_ok_def)
qed (use assms(2) in simp)

theorem adjust_keeps_book_witness:
  "\<exists>d' action. adjust (\<lambda>_ _. Inl (DataAccessError ''OPTION_MARGIN_PRICE_UNAVAILABLE'')) 7 ''E1'' ''E2''
     sample_db ''O1'' = Inr (d', action) \<and> book_ok d'"
proof -
  let ?run = "adjust (\<lambda>_ _. Inl (DataAccessError ''OPTION_MARGIN_PRICE_UNAVAILABLE'')) 7 ''E1'' ''E2''
     sample_db ''O1''"
  obtain d' action where run: "?run = Inr (d', action)"
    by (simp add: adjust_def ensure_trading_open_def get_order_def sample_db_def sample_order_def
        is_target_order_def)
  from adjust_keeps_book [OF run sample_book] run show ?thesis by blast
qed

end
