(* ===== verification/Settlement_Base.thy ===== *)
theory Settlement_Base
  imports Option_Order_Margin Proportional Fees Matching
begin

text \<open>
  What the three settlement paths of \<open>app/services/trade_settlement_service.py\<close> share: the command,
  the result, the check that a locked order may still be filled, the update of a filled order and
  the outbox events of a trade. Drawn ids are arguments, collected in \<open>settlement_ids\<close>; \<open>si_row\<close> is
  the primary key the database gives to a new detail.
\<close>

record settlement_command =
  cmd_order_id :: string
  cmd_market_event_id :: string
  cmd_market_stream_message_id :: string
  cmd_tick_event_time :: datetime
  cmd_tick_sequence_id :: int
  cmd_match_result :: match_result

datatype settlement_action = NOT_MATCHED | ORDER_NOT_FOUND | IDEMPOTENT | ORDER_INACTIVE
  | SETTLED | MARGIN_CHECK margin_action

record settlement_result =
  sr_trade_id :: "string option"
  sr_order_id :: string
  sr_action :: settlement_action

record settlement_ids =
  si_trade :: string
  si_position :: string
  si_detail :: string
  si_row :: int
  si_trade_allocation :: "nat \<Rightarrow> string"
  si_trade_event :: string
  si_order_event :: string
  si_position_fact :: string
  si_account_fact :: string

definition active_order_statuses :: "order_status list" where
  "active_order_statuses = [ACCEPTED, PARTIALLY_FILLED]"

definition supported_offset_flags :: "offset_flag list" where
  "supported_offset_flags = [OPEN, CLOSE, CLOSE_TODAY, CLOSE_YESTERDAY]"

definition is_matchable_order :: "order \<Rightarrow> match_result \<Rightarrow> bool" where
  "is_matchable_order r m \<longleftrightarrow>
     o_status r \<in> set active_order_statuses \<and> 0 < o_remaining_volume r
     \<and> o_order_type r \<in> {LIMIT, COUNTERPARTY, LAST, MARKET}
     \<and> (case o_offset_flag r of None \<Rightarrow> False | Some f \<Rightarrow> f \<in> set supported_offset_flags)
     \<and> (case r_fill_price m of None \<Rightarrow> False | Some p \<Rightarrow> 0 < p) \<and> 0 < r_fill_volume m"

section \<open>The filled order\<close>

definition average_before :: "order \<Rightarrow> decimal" where
  "average_before r = (case o_average_price r of None \<Rightarrow> 0 | Some x \<Rightarrow> x)"

definition filled_average :: "order \<Rightarrow> int \<Rightarrow> decimal \<Rightarrow> decimal" where
  "filled_average r fill_volume fill_price =
     quantize_money ((average_before r * of_int (o_traded_volume r)
                      + fill_price * of_int fill_volume)
                     / of_int (o_traded_volume r + fill_volume))"

definition filled_order :: "datetime \<Rightarrow> int \<Rightarrow> decimal \<Rightarrow> order \<Rightarrow> order" where
  "filled_order now fill_volume fill_price r =
     r\<lparr>o_traded_volume := o_traded_volume r + fill_volume,
       o_remaining_volume := o_remaining_volume r - fill_volume,
       o_average_price := Some (filled_average r fill_volume fill_price),
       o_status := (if o_remaining_volume r - fill_volume = 0 then FILLED else PARTIALLY_FILLED),
       o_updated_at := now\<rparr>"

text \<open>An opening order that is filled completely also leaves its margin risk behind.\<close>

definition open_filled_order ::
  "datetime \<Rightarrow> int \<Rightarrow> decimal \<Rightarrow> decimal \<Rightarrow> decimal \<Rightarrow> order \<Rightarrow> order" where
  "open_filled_order now fill_volume fill_price margin commission r =
     (let r1 = filled_order now fill_volume fill_price r
      in r1\<lparr>o_margin_risk_state :=
             (if o_remaining_volume r1 = 0 then NORMAL else o_margin_risk_state r),
            o_frozen_margin := quantize_money (o_frozen_margin r - margin),
            o_frozen_commission := quantize_money (o_frozen_commission r - commission)\<rparr>)"

section \<open>A new position\<close>

definition opened_direction :: "order_direction \<Rightarrow> position_direction" where
  "opened_direction d = (if d = BUY then LONG else SHORT)"

text \<open>The row as built by the code, with the column defaults of \<open>models/position.py\<close>.\<close>

definition blank_position ::
  "string \<Rightarrow> datetime \<Rightarrow> order \<Rightarrow> instrument_type \<Rightarrow> decimal \<Rightarrow> position" where
  "blank_position pid now r itype multiplier =
     \<lparr>p_position_id = pid, p_account_id = o_account_id r, p_order_book_id = o_order_book_id r,
      p_exchange_id = o_exchange_id r, p_symbol = o_symbol r, p_instrument_type = itype,
      p_direction = opened_direction (o_direction r), p_total_volume = 0, p_today_volume = 0,
      p_yesterday_volume = 0, p_frozen_volume = 0, p_settlement_locked_volume = 0,
      p_pending_share_volume = 0, p_available_volume = 0, p_average_open_price = 0,
      p_position_cost = 0, p_used_margin = 0, p_initial_occupied_margin = 0,
      p_realtime_required_margin = 0, p_option_market_value = 0, p_market_value = 0,
      p_mark_price = None, p_mark_time = None, p_mark_source_event_id = None,
      p_daily_pnl_base_cost = 0, p_yesterday_pnl_base_cost = 0, p_today_pnl_base_cost = 0,
      p_daily_pnl_base_established = False, p_margin_rule_id = None,
      p_margin_rule_version = None, p_margin_rule_snapshot = None, p_margin_price_mode = None,
      p_margin_underlying_price = None, p_margin_option_price = None,
      p_margin_calculated_at = None, p_multiplier_snapshot = multiplier, p_realized_pnl = 0,
      p_unrealized_pnl = 0, p_daily_position_pnl = 0, p_daily_close_pnl = 0,
      p_trading_day = o_trading_day r, p_created_at = now, p_updated_at = now\<rparr>"

definition position_to_fill ::
  "string \<Rightarrow> datetime \<Rightarrow> order \<Rightarrow> instrument_type \<Rightarrow> decimal \<Rightarrow> position option \<Rightarrow> position"
where
  "position_to_fill pid now r itype multiplier pos =
     (case pos of Some p \<Rightarrow> p | None \<Rightarrow> blank_position pid now r itype multiplier)"

section \<open>What an opening fill writes\<close>

record open_fill =
  fo_trade :: trade
  fo_order :: order
  fo_account :: account
  fo_position :: position
  fo_detail :: detail

definition write_open_fill :: "position option \<Rightarrow> open_fill \<Rightarrow> db \<Rightarrow> db" where
  "write_open_fill old f d =
     add_trade (fo_trade f) (add_detail (fo_detail f)
       ((case old of None \<Rightarrow> add_position (fo_position f) | Some _ \<Rightarrow> put_position (fo_position f))
         (put_order (fo_order f) (put_account (fo_account f) d))))"

end
