(* ===== verification/Settlement_Events.thy ===== *)
theory Settlement_Events
  imports Settlement_Base
begin

text \<open>
  The outbox events of a settled trade, \<open>TradeSettlementService._create_outbox_events\<close>, and the
  lookup of the position they report.
\<close>

definition trade_created_payload :: "string \<Rightarrow> trade \<Rightarrow> order \<Rightarrow> payload" where
  "trade_created_payload event_id t r =
     [(''event_id'', JString event_id), (''event_type'', JString ''TRADE_CREATED''),
      (''trade_id'', JString (t_trade_id t)), (''order_id'', JString (t_order_id t)),
      (''account_id'', JString (t_account_id t)),
      (''market_event_id'', JString (t_market_event_id t)),
      (''market_stream_message_id'', JString (t_market_stream_message_id t)),
      (''exchange_id'', JString (t_exchange_id t)), (''symbol'', JString (t_symbol t)),
      (''order_book_id'', JString (t_order_book_id t)),
      (''trading_day'', JDate (t_trading_day t)),
      (''direction'', JString (direction_value (t_direction t))),
      (''offset_flag'', json_offset (t_offset_flag t)),
      (''order_type'', JString (order_type_value (o_order_type r))),
      (''resolved_price'', JDecimal (quantize_money (o_resolved_price r))),
      (''market_protection_price'', json_money (o_market_protection_price r)),
      (''trade_price'', JDecimal (quantize_money (t_trade_price t))),
      (''trade_volume'', JInt (t_trade_volume t)),
      (''turnover'', JDecimal (quantize_money (t_turnover t))),
      (''margin'', JDecimal (quantize_money (t_margin t))),
      (''premium_cash_flow'', JDecimal (quantize_money (t_premium_cash_flow t))),
      (''commission'', JDecimal (quantize_money (t_commission t))),
      (''realized_pnl'', JDecimal (quantize_money (t_realized_pnl t))),
      (''daily_close_pnl'', JDecimal (quantize_money (t_daily_close_pnl t))),
      (''trade_time'', JTime (t_trade_time t)), (''created_at'', JTime (t_created_at t))]"

definition fill_event_type :: "order \<Rightarrow> string" where
  "fill_event_type r =
     (if o_status r = FILLED then ''ORDER_FILLED'' else ''ORDER_PARTIALLY_FILLED'')"

definition order_filled_payload :: "string \<Rightarrow> trade \<Rightarrow> order \<Rightarrow> payload" where
  "order_filled_payload event_id t r =
     [(''event_id'', JString event_id), (''event_type'', JString (fill_event_type r)),
      (''order_id'', JString (o_order_id r)), (''account_id'', JString (o_account_id r)),
      (''exchange_id'', JString (o_exchange_id r)), (''symbol'', JString (o_symbol r)),
      (''order_book_id'', JString (o_order_book_id r)),
      (''direction'', JString (direction_value (o_direction r))),
      (''offset_flag'', json_offset (o_offset_flag r)),
      (''order_type'', JString (order_type_value (o_order_type r))),
      (''resolved_price'', JDecimal (quantize_money (o_resolved_price r))),
      (''market_protection_price'', json_money (o_market_protection_price r)),
      (''status'', JString (order_status_value (o_status r))),
      (''traded_volume'', JInt (o_traded_volume r)),
      (''remaining_volume'', JInt (o_remaining_volume r)),
      (''cancelled_volume'', JInt (o_cancelled_volume r)),
      (''average_price'', json_money (o_average_price r)),
      (''frozen_margin'', JDecimal (quantize_money (o_frozen_margin r))),
      (''frozen_cash'', JDecimal (quantize_money (o_frozen_cash r))),
      (''frozen_commission'', JDecimal (quantize_money (o_frozen_commission r))),
      (''frozen_position_volume'', JInt (o_frozen_position_volume r)),
      (''released_margin'', JDecimal (quantize_money (t_margin t))),
      (''commission'', JDecimal (quantize_money (t_commission t))),
      (''realized_pnl'', JDecimal (quantize_money (t_realized_pnl t))),
      (''daily_close_pnl'', JDecimal (quantize_money (t_daily_close_pnl t))),
      (''updated_at'', JTime (o_updated_at r))]"

text \<open>
  The futures path reports a new position before it is flushed: the columns it does not set are
  still \<open>None\<close> in the object, because their defaults are applied by the INSERT. Of the reported ones
  these are \<open>instrument_type\<close> and \<open>pending_share_volume\<close>; the amounts fall back to zero.
\<close>

definition unflushed_columns :: "string list" where
  "unflushed_columns = [''instrument_type'', ''pending_share_volume'']"

definition unflushed_position_event :: "outbox_event \<Rightarrow> outbox_event" where
  "unflushed_position_event e =
     e\<lparr>e_payload := map (\<lambda>(k, v). (k, if k \<in> set unflushed_columns then JNull else v))
                      (e_payload e)\<rparr>"

definition create_outbox_events ::
  "settlement_ids \<Rightarrow> trade \<Rightarrow> order \<Rightarrow> account \<Rightarrow> position \<Rightarrow> bool \<Rightarrow> datetime \<Rightarrow> outbox_event list"
where
  "create_outbox_events ids t r a p flushed now =
     [create_event (si_trade_event ids) ''TRADE'' (t_trade_id t) ''TRADE_CREATED''
        (trade_created_payload (si_trade_event ids) t r) now,
      create_event (si_order_event ids) ''ORDER'' (o_order_id r) (fill_event_type r)
        (order_filled_payload (si_order_event ids) t r) now,
      (let e = create_position_updated (si_position_fact ids) p now None
       in if flushed then e else unflushed_position_event e),
      create_account_updated (si_account_fact ids) a now (Some (o_account_id r)) None None False]"

text \<open>\<open>_get_affected_position\<close>, on the tables as flushed.\<close>

definition affected_direction :: "order \<Rightarrow> position_direction" where
  "affected_direction r =
     (if o_offset_flag r = Some OPEN then opened_direction (o_direction r)
      else closed_position_direction (o_direction r))"

definition get_affected_position :: "db \<Rightarrow> order \<Rightarrow> position result" where
  "get_affected_position d r =
     (case get_position d (o_account_id r) (o_exchange_id r) (o_symbol r) (affected_direction r) of
        None \<Rightarrow> Inl (DataAccessError ''SETTLEMENT_POSITION_NOT_FOUND'')
      | Some p \<Rightarrow> Inr p)"

end
