(* ===== verification/Open_Settlement.thy ===== *)
theory Open_Settlement
  imports Settlement_Events
begin

text \<open>
  The futures opening fill, the tail of \<open>TradeSettlementService.settle\<close>: the frozen margin becomes
  used margin in proportion to the fill, the frozen commission is released and the commission at
  the fill price is charged, the position grows and a detail is opened.
\<close>

definition futures_open_trade ::
  "settlement_ids \<Rightarrow> settlement_command \<Rightarrow> datetime \<Rightarrow> order \<Rightarrow> int \<Rightarrow> decimal \<Rightarrow> decimal
   \<Rightarrow> decimal \<Rightarrow> decimal \<Rightarrow> trade" where
  "futures_open_trade ids cmd now r fill_volume fill_price turnover margin commission =
     \<lparr>t_trade_id = si_trade ids, t_order_id = o_order_id r, t_account_id = o_account_id r,
      t_market_event_id = cmd_market_event_id cmd,
      t_market_stream_message_id = cmd_market_stream_message_id cmd,
      t_order_book_id = o_order_book_id r, t_exchange_id = o_exchange_id r,
      t_symbol = o_symbol r, t_trading_day = o_trading_day r, t_instrument_type = FUTURES,
      t_direction = o_direction r, t_offset_flag = o_offset_flag r, t_trade_price = fill_price,
      t_trade_volume = fill_volume, t_turnover = turnover, t_margin = margin,
      t_premium_cash_flow = 0, t_margin_rule_id = None, t_margin_rule_version = None,
      t_margin_calculation_version = None, t_commission = commission, t_realized_pnl = 0,
      t_daily_close_pnl = 0, t_trade_time = now, t_created_at = now\<rparr>"

definition futures_filled_account ::
  "datetime \<Rightarrow> decimal \<Rightarrow> decimal \<Rightarrow> decimal \<Rightarrow> account \<Rightarrow> account" where
  "futures_filled_account now margin released_commission commission a =
     (let cash = quantize_money (a_cash_balance a - commission);
          daily_commission = quantize_money (a_daily_commission a + commission)
      in a\<lparr>a_frozen_margin := quantize_money (a_frozen_margin a - margin),
           a_used_margin := quantize_money (a_used_margin a + margin),
           a_frozen_commission := quantize_money (a_frozen_commission a - released_commission),
           a_used_commission := quantize_money (a_used_commission a + commission),
           a_daily_commission := daily_commission,
           a_cash_balance := cash,
           a_available_cash :=
             quantize_money (a_available_cash a + released_commission - commission),
           a_equity := quantize_money (cash + a_unrealized_pnl a),
           a_daily_pnl :=
             quantize_money (a_daily_position_pnl a + a_daily_close_pnl a - daily_commission),
           a_updated_at := now\<rparr>)"

definition futures_filled_position ::
  "datetime \<Rightarrow> order \<Rightarrow> int \<Rightarrow> decimal \<Rightarrow> decimal \<Rightarrow> decimal \<Rightarrow> position \<Rightarrow> position" where
  "futures_filled_position now r fill_volume fill_price turnover margin p =
     (let volume = p_total_volume p + fill_volume
      in p\<lparr>p_average_open_price :=
             quantize_money ((p_average_open_price p * of_int (p_total_volume p)
                              + fill_price * of_int fill_volume) / of_int volume),
           p_total_volume := volume,
           p_today_volume := p_today_volume p + fill_volume,
           p_available_volume := volume - p_frozen_volume p - p_settlement_locked_volume p,
           p_position_cost := quantize_money (p_position_cost p + turnover),
           p_used_margin := quantize_money (p_used_margin p + margin),
           p_initial_occupied_margin := quantize_money (p_initial_occupied_margin p + margin),
           p_trading_day := o_trading_day r, p_updated_at := now\<rparr>)"

definition futures_open_detail ::
  "settlement_ids \<Rightarrow> datetime \<Rightarrow> order \<Rightarrow> string \<Rightarrow> int \<Rightarrow> decimal \<Rightarrow> decimal \<Rightarrow> decimal \<Rightarrow> decimal
   \<Rightarrow> detail" where
  "futures_open_detail ids now r pid fill_volume fill_price margin multiplier commission =
     \<lparr>d_id = si_row ids, d_position_detail_id = si_detail ids, d_position_id = pid,
      d_account_id = o_account_id r, d_open_trade_id = si_trade ids,
      d_order_book_id = o_order_book_id r, d_exchange_id = o_exchange_id r,
      d_symbol = o_symbol r, d_instrument_type = FUTURES,
      d_direction = opened_direction (o_direction r), d_open_trading_day = o_trading_day r,
      d_open_price = fill_price, d_pnl_base_price = fill_price,
      d_original_volume = fill_volume, d_remaining_volume = fill_volume, d_frozen_volume = 0,
      d_open_margin = margin, d_remaining_margin = margin, d_initial_occupied_margin = margin,
      d_realtime_required_margin = 0, d_margin_rule_id = None, d_margin_rule_version = None,
      d_margin_rule_snapshot = None, d_margin_price_mode = None,
      d_margin_underlying_price = None, d_margin_option_price = None,
      d_margin_calculated_at = None, d_multiplier_snapshot = multiplier,
      d_open_commission = commission, d_status = DETAIL_OPEN, d_created_at = now,
      d_updated_at = now\<rparr>"

text \<open>
  The fill itself. The multiplier is known to be there once the commission has been computed; a
  NULL one would raise in \<open>Decimal(...)\<close>.
\<close>

definition futures_open_fill ::
  "settlement_ids \<Rightarrow> settlement_command \<Rightarrow> datetime \<Rightarrow> order \<Rightarrow> account \<Rightarrow> position option \<Rightarrow> int
   \<Rightarrow> decimal \<Rightarrow> open_fill result" where
  "futures_open_fill ids cmd now r a pos fill_volume fill_price =
     (let margin = settlement_allocate_frozen (o_frozen_margin r) fill_volume
                     (o_remaining_volume r);
          released_commission = settlement_allocate_frozen (o_frozen_commission r) fill_volume
                                  (o_remaining_volume r)
      in rbind (fee_from_snapshot fill_price fill_volume (o_commission_type r)
                  (o_commission_parameter r) (o_commission_contract_multiplier r)) (\<lambda>commission.
      case o_commission_contract_multiplier r of
        None \<Rightarrow> Inl PyTypeError
      | Some multiplier \<Rightarrow>
        let turnover = quantize_money (fill_price * of_int fill_volume * multiplier);
            p0 = position_to_fill (si_position ids) now r FUTURES multiplier pos
        in if a_frozen_margin a < margin \<or> a_frozen_commission a < released_commission
           then Inl (DataAccessError ''OPEN_RESOURCE_INCONSISTENT'')
           else if p_multiplier_snapshot p0 \<noteq> multiplier
           then Inl (DataAccessError ''POSITION_MULTIPLIER_INCONSISTENT'')
           else Inr
             \<lparr>fo_trade = futures_open_trade ids cmd now r fill_volume fill_price turnover margin
                            commission,
              fo_order = open_filled_order now fill_volume fill_price margin released_commission r,
              fo_account = futures_filled_account now margin released_commission commission a,
              fo_position = futures_filled_position now r fill_volume fill_price turnover margin p0,
              fo_detail = futures_open_detail ids now r (p_position_id p0) fill_volume fill_price
                            margin multiplier commission\<rparr>))"

section \<open>What a fill does\<close>

definition futures_fill_margin :: "order \<Rightarrow> int \<Rightarrow> decimal" where
  "futures_fill_margin r v =
     settlement_allocate_frozen (o_frozen_margin r) v (o_remaining_volume r)"

definition futures_fill_released :: "order \<Rightarrow> int \<Rightarrow> decimal" where
  "futures_fill_released r v =
     settlement_allocate_frozen (o_frozen_commission r) v (o_remaining_volume r)"

text \<open>The successful fills, taken apart.\<close>

lemma futures_open_fill_Inr:
  assumes "futures_open_fill ids cmd now r a pos v price = Inr f"
  obtains commission multiplier p0 where
    "fee_from_snapshot price v (o_commission_type r) (o_commission_parameter r)
       (Some multiplier) = Inr commission"
    "o_commission_contract_multiplier r = Some multiplier"
    "p0 = position_to_fill (si_position ids) now r FUTURES multiplier pos"
    "futures_fill_margin r v \<le> a_frozen_margin a"
    "futures_fill_released r v \<le> a_frozen_commission a"
    "p_multiplier_snapshot p0 = multiplier"
    "fo_trade f = futures_open_trade ids cmd now r v price
       (quantize_money (price * of_int v * multiplier)) (futures_fill_margin r v) commission"
    "fo_order f = open_filled_order now v price (futures_fill_margin r v)
       (futures_fill_released r v) r"
    "fo_account f = futures_filled_account now (futures_fill_margin r v)
       (futures_fill_released r v) commission a"
    "fo_position f = futures_filled_position now r v price
       (quantize_money (price * of_int v * multiplier)) (futures_fill_margin r v) p0"
    "fo_detail f = futures_open_detail ids now r (p_position_id p0) v price
       (futures_fill_margin r v) multiplier commission"
  using assms
  unfolding futures_open_fill_def Let_def futures_fill_margin_def [symmetric]
    futures_fill_released_def [symmetric]
  by (auto simp: rbind_Inr_iff not_less split: option.splits if_splits)

end
