(* ===== verification/Option_Settlement.thy ===== *)
theory Option_Settlement
  imports Settlement_Events
begin

text \<open>
  \<open>OptionTradeSettlementStrategy.apply_open\<close> of \<open>app/services/option_trade_settlement_strategy.py\<close>:
  an option opening fill moves the premium between cash and the option market value, turns frozen
  margin into used margin and revalues the account. \<open>ratio\<close> is \<open>settings.option_collateral_ratio\<close>.
\<close>

section \<open>The account\<close>

text \<open>The snapshot of an account the valuation reads.\<close>

definition valuation_of :: "decimal \<Rightarrow> account \<Rightarrow> account_valuation_result" where
  "valuation_of ratio a = account_valuation
     \<lparr>v_cash_balance = a_cash_balance a, v_futures_unrealized_pnl = a_unrealized_pnl a,
      v_long_option_market_value = a_long_option_market_value a,
      v_short_option_market_value = a_short_option_market_value a,
      v_used_margin = a_used_margin a, v_option_used_margin = a_option_used_margin a,
      v_option_realtime_required_margin = a_option_realtime_required_margin a,
      v_frozen_margin = a_frozen_margin a, v_frozen_cash = a_frozen_cash a,
      v_frozen_commission = a_frozen_commission a, v_option_collateral_ratio = ratio\<rparr>"

definition revalued :: "decimal \<Rightarrow> account \<Rightarrow> account" where
  "revalued ratio a =
     (let v = valuation_of ratio a
      in a\<lparr>a_equity := vr_equity v, a_available_cash := vr_available_cash v,
           a_risk_available_cash := vr_risk_available_cash v,
           a_net_option_market_value := vr_net_option_market_value v\<rparr>)"

definition option_moved_account ::
  "order \<Rightarrow> decimal \<Rightarrow> decimal \<Rightarrow> decimal \<Rightarrow> decimal \<Rightarrow> decimal \<Rightarrow> account \<Rightarrow> account" where
  "option_moved_account r margin released_cash released_commission commission premium a =
     (let flow = (if o_direction r = BUY then - premium else premium);
          a1 = a\<lparr>a_frozen_margin := quantize_money (a_frozen_margin a - margin),
                 a_frozen_cash := quantize_money (a_frozen_cash a - released_cash),
                 a_frozen_commission :=
                   quantize_money (a_frozen_commission a - released_commission),
                 a_used_margin := quantize_money (a_used_margin a + margin),
                 a_option_used_margin := quantize_money (a_option_used_margin a + margin),
                 a_option_realtime_required_margin :=
                   quantize_money (a_option_realtime_required_margin a + margin),
                 a_used_commission := quantize_money (a_used_commission a + commission),
                 a_daily_commission := quantize_money (a_daily_commission a + commission),
                 a_cash_balance := quantize_money (a_cash_balance a + flow - commission)\<rparr>
      in if o_direction r = BUY
         then a1\<lparr>a_long_option_market_value :=
                   quantize_money (a_long_option_market_value a + premium)\<rparr>
         else a1\<lparr>a_short_option_market_value :=
                   quantize_money (a_short_option_market_value a + premium)\<rparr>)"

definition option_filled_account ::
  "decimal \<Rightarrow> datetime \<Rightarrow> order \<Rightarrow> decimal \<Rightarrow> decimal \<Rightarrow> decimal \<Rightarrow> decimal \<Rightarrow> decimal \<Rightarrow> account
   \<Rightarrow> account" where
  "option_filled_account ratio now r margin released_cash released_commission commission premium a =
     (let a2 = revalued ratio
            (option_moved_account r margin released_cash released_commission commission premium a)
      in a2\<lparr>a_daily_pnl := quantize_money
              (a_daily_position_pnl a2 + a_daily_close_pnl a2 - a_daily_commission a2),
            a_updated_at := now\<rparr>)"

section \<open>The order, the position, the detail and the trade\<close>

definition option_filled_order ::
  "datetime \<Rightarrow> int \<Rightarrow> decimal \<Rightarrow> decimal \<Rightarrow> decimal \<Rightarrow> decimal \<Rightarrow> order \<Rightarrow> order" where
  "option_filled_order now fill_volume fill_price margin released_cash released_commission r =
     (open_filled_order now fill_volume fill_price margin released_commission r)
       \<lparr>o_frozen_cash := quantize_money (o_frozen_cash r - released_cash)\<rparr>"

text \<open>Two JSON rule snapshots are the same object up to the order of keys; NULL is the empty one.\<close>

definition same_snapshot :: "rule_snapshot \<Rightarrow> rule_snapshot \<Rightarrow> bool" where
  "same_snapshot s t \<longleftrightarrow>
     set (case s of None \<Rightarrow> [] | Some m \<Rightarrow> m) = set (case t of None \<Rightarrow> [] | Some m \<Rightarrow> m)"

definition option_filled_position ::
  "datetime \<Rightarrow> order \<Rightarrow> int \<Rightarrow> decimal \<Rightarrow> decimal \<Rightarrow> decimal \<Rightarrow> position \<Rightarrow> position" where
  "option_filled_position now r fill_volume fill_price premium margin p =
     (let volume = p_total_volume p + fill_volume
      in p\<lparr>p_average_open_price :=
             quantize_money ((p_average_open_price p * of_int (p_total_volume p)
                              + fill_price * of_int fill_volume) / of_int volume),
           p_total_volume := volume, p_today_volume := p_today_volume p + fill_volume,
           p_available_volume := volume - p_frozen_volume p - p_settlement_locked_volume p,
           p_position_cost := quantize_money (p_position_cost p + premium),
           p_option_market_value := quantize_money (p_option_market_value p + premium),
           p_used_margin := quantize_money (p_used_margin p + margin),
           p_realtime_required_margin :=
             quantize_money (p_realtime_required_margin p + margin),
           p_initial_occupied_margin := quantize_money (p_initial_occupied_margin p + margin),
           p_margin_rule_id := o_margin_rule_id r,
           p_margin_rule_version := o_margin_rule_version r,
           p_margin_rule_snapshot := o_margin_rule_snapshot r,
           p_margin_price_mode := o_margin_price_mode r,
           p_margin_underlying_price := o_margin_underlying_price r,
           p_margin_option_price := Some fill_price, p_margin_calculated_at := Some now,
           p_updated_at := now\<rparr>)"

definition option_open_detail ::
  "settlement_ids \<Rightarrow> datetime \<Rightarrow> order \<Rightarrow> string \<Rightarrow> int \<Rightarrow> decimal \<Rightarrow> decimal \<Rightarrow> decimal \<Rightarrow> decimal
   \<Rightarrow> detail" where
  "option_open_detail ids now r pid fill_volume fill_price margin multiplier commission =
     \<lparr>d_id = si_row ids, d_position_detail_id = si_detail ids, d_position_id = pid,
      d_account_id = o_account_id r, d_open_trade_id = si_trade ids,
      d_order_book_id = o_order_book_id r, d_exchange_id = o_exchange_id r,
      d_symbol = o_symbol r, d_instrument_type = o_instrument_type r,
      d_direction = opened_direction (o_direction r), d_open_trading_day = o_trading_day r,
      d_open_price = fill_price, d_pnl_base_price = fill_price,
      d_original_volume = fill_volume, d_remaining_volume = fill_volume, d_frozen_volume = 0,
      d_open_margin = margin, d_remaining_margin = margin, d_initial_occupied_margin = margin,
      d_realtime_required_margin = margin, d_margin_rule_id = o_margin_rule_id r,
      d_margin_rule_version = o_margin_rule_version r,
      d_margin_rule_snapshot = o_margin_rule_snapshot r,
      d_margin_price_mode = o_margin_price_mode r,
      d_margin_underlying_price = o_margin_underlying_price r,
      d_margin_option_price = Some fill_price, d_margin_calculated_at = Some now,
      d_multiplier_snapshot = multiplier, d_open_commission = commission,
      d_status = DETAIL_OPEN, d_created_at = now, d_updated_at = now\<rparr>"

definition option_open_trade ::
  "settlement_ids \<Rightarrow> settlement_command \<Rightarrow> datetime \<Rightarrow> order \<Rightarrow> int \<Rightarrow> decimal \<Rightarrow> decimal
   \<Rightarrow> decimal \<Rightarrow> decimal \<Rightarrow> trade" where
  "option_open_trade ids cmd now r fill_volume fill_price premium margin commission =
     \<lparr>t_trade_id = si_trade ids, t_order_id = o_order_id r, t_account_id = o_account_id r,
      t_market_event_id = cmd_market_event_id cmd,
      t_market_stream_message_id = cmd_market_stream_message_id cmd,
      t_order_book_id = o_order_book_id r, t_exchange_id = o_exchange_id r,
      t_symbol = o_symbol r, t_trading_day = o_trading_day r,
      t_instrument_type = o_instrument_type r, t_direction = o_direction r,
      t_offset_flag = o_offset_flag r, t_trade_price = fill_price,
      t_trade_volume = fill_volume, t_turnover = premium, t_margin = margin,
      t_premium_cash_flow = (if o_direction r = BUY then - premium else premium),
      t_margin_rule_id = o_margin_rule_id r, t_margin_rule_version = o_margin_rule_version r,
      t_margin_calculation_version = o_margin_calculation_version r,
      t_commission = commission, t_realized_pnl = 0, t_daily_close_pnl = 0,
      t_trade_time = now, t_created_at = now\<rparr>"

section \<open>\<open>apply_open\<close>\<close>

definition option_fill_margin :: "order \<Rightarrow> int \<Rightarrow> decimal" where
  "option_fill_margin r v = option_allocate (o_frozen_margin r) v (o_remaining_volume r)"

definition option_fill_cash :: "order \<Rightarrow> int \<Rightarrow> decimal" where
  "option_fill_cash r v = option_allocate (o_frozen_cash r) v (o_remaining_volume r)"

definition option_fill_commission :: "order \<Rightarrow> int \<Rightarrow> decimal" where
  "option_fill_commission r v =
     option_allocate (o_frozen_commission r) v (o_remaining_volume r)"

definition option_rules_differ :: "position \<Rightarrow> order \<Rightarrow> bool" where
  "option_rules_differ p r \<longleftrightarrow> 0 < p_total_volume p
     \<and> (p_margin_rule_id p \<noteq> o_margin_rule_id r
        \<or> p_margin_rule_version p \<noteq> o_margin_rule_version r
        \<or> \<not> same_snapshot (p_margin_rule_snapshot p) (o_margin_rule_snapshot r))"

definition option_open_fill ::
  "decimal \<Rightarrow> settlement_ids \<Rightarrow> settlement_command \<Rightarrow> datetime \<Rightarrow> order \<Rightarrow> account
   \<Rightarrow> position option \<Rightarrow> int \<Rightarrow> decimal \<Rightarrow> open_fill result" where
  "option_open_fill ratio ids cmd now r a pos fill_volume fill_price =
     (if o_direction r = SELL \<and> a_risk_state a \<noteq> NORMAL
      then Inl (DataAccessError ''OPTION_RISK_INCREASE_NOT_ALLOWED'')
      else
        let margin = option_fill_margin r fill_volume;
            released_cash = option_fill_cash r fill_volume;
            released_commission = option_fill_commission r fill_volume
        in rbind (fee_from_snapshot fill_price fill_volume (o_commission_type r)
                    (o_commission_parameter r) (o_commission_contract_multiplier r))
        (\<lambda>commission. case o_commission_contract_multiplier r of
          None \<Rightarrow> Inl PyTypeError
        | Some multiplier \<Rightarrow>
          if multiplier \<le> 0 then Inl (DataAccessError ''OPTION_ORDER_MULTIPLIER_INVALID'')
          else let premium = quantize_money (fill_price * of_int fill_volume * multiplier);
                   p0 = position_to_fill (si_position ids) now r (o_instrument_type r)
                          multiplier pos
            in if a_frozen_margin a < margin \<or> a_frozen_cash a < released_cash
                  \<or> a_frozen_commission a < released_commission
               then Inl (DataAccessError ''OPTION_OPEN_RESOURCE_INCONSISTENT'')
               else if option_rules_differ p0 r
               then Inl (DataAccessError ''OPTION_POSITION_RULE_SNAPSHOT_INCONSISTENT'')
               else if p_multiplier_snapshot p0 \<noteq> multiplier
               then Inl (DataAccessError ''OPTION_POSITION_MULTIPLIER_INCONSISTENT'')
               else Inr
                 \<lparr>fo_trade = option_open_trade ids cmd now r fill_volume fill_price premium
                                margin commission,
                  fo_order = option_filled_order now fill_volume fill_price margin
                               released_cash released_commission r,
                  fo_account = option_filled_account ratio now r margin released_cash
                                 released_commission commission premium a,
                  fo_position = option_filled_position now r fill_volume fill_price premium
                                  margin p0,
                  fo_detail = option_open_detail ids now r (p_position_id p0) fill_volume
                                fill_price margin multiplier commission\<rparr>))"

lemma option_open_fill_Inr:
  assumes "option_open_fill ratio ids cmd now r a pos v price = Inr f"
  obtains commission multiplier p0 premium where
    "fee_from_snapshot price v (o_commission_type r) (o_commission_parameter r)
       (Some multiplier) = Inr commission"
    "o_commission_contract_multiplier r = Some multiplier" "0 < multiplier"
    "p0 = position_to_fill (si_position ids) now r (o_instrument_type r) multiplier pos"
    "premium = quantize_money (price * of_int v * multiplier)"
    "option_fill_margin r v \<le> a_frozen_margin a"
    "option_fill_cash r v \<le> a_frozen_cash a"
    "option_fill_commission r v \<le> a_frozen_commission a"
    "o_direction r = SELL \<Longrightarrow> a_risk_state a = NORMAL"
    "\<not> option_rules_differ p0 r" "p_multiplier_snapshot p0 = multiplier"
    "fo_trade f = option_open_trade ids cmd now r v price premium (option_fill_margin r v)
       commission"
    "fo_order f = option_filled_order now v price (option_fill_margin r v)
       (option_fill_cash r v) (option_fill_commission r v) r"
    "fo_account f = option_filled_account ratio now r (option_fill_margin r v)
       (option_fill_cash r v) (option_fill_commission r v) commission premium a"
    "fo_position f = option_filled_position now r v price premium (option_fill_margin r v) p0"
    "fo_detail f = option_open_detail ids now r (p_position_id p0) v price
       (option_fill_margin r v) multiplier commission"
  using assms unfolding option_open_fill_def Let_def
  by (auto simp: rbind_Inr_iff not_less split: option.splits if_splits)

end
