(* ===== verification/Close_Settlement.thy ===== *)
theory Close_Settlement
  imports Option_Settlement
begin

text \<open>
  \<open>CloseTradeSettlementHandler\<close> of \<open>app/services/close_trade_settlement_handler.py\<close>: a closing fill
  checks the order against its freeze allocations and details, computes what it takes from each
  allocation in their order, and then writes the details, the allocations, the trade, the order,
  the account and the position.
\<close>

section \<open>Checks before anything is changed\<close>

text \<open>\<open>_validate_allocation_balance\<close>.\<close>

definition allocation_balanced :: "freeze_allocation \<Rightarrow> bool" where
  "allocation_balanced f \<longleftrightarrow>
     f_original_frozen_volume f
       = f_remaining_frozen_volume f + f_consumed_volume f + f_released_volume f
     \<and> 0 < f_original_frozen_volume f \<and> 0 \<le> f_remaining_frozen_volume f
     \<and> 0 \<le> f_consumed_volume f \<and> 0 \<le> f_released_volume f
     \<and> quantize_money (f_original_frozen_commission f)
         = quantize_money (f_remaining_frozen_commission f + f_consumed_commission f
                           + f_released_commission f)
     \<and> 0 \<le> f_remaining_frozen_commission f \<and> 0 \<le> f_consumed_commission f
     \<and> 0 \<le> f_released_commission f"

text \<open>The body of the loop of \<open>_validate_before_mutation\<close>; every failure raises the same error.\<close>

definition close_allocation_ok ::
  "order \<Rightarrow> position \<Rightarrow> position_direction \<Rightarrow> detail list \<Rightarrow> freeze_allocation \<Rightarrow> bool" where
  "close_allocation_ok r p dir details f \<longleftrightarrow>
     allocation_balanced f
     \<and> f_order_id f = o_order_id r \<and> f_position_id f = p_position_id p
     \<and> f_account_id f = o_account_id r \<and> f_exchange_id f = o_exchange_id r
     \<and> f_symbol f = o_symbol r
     \<and> f_resolved_offset_flag f \<in> {CLOSE_TODAY, CLOSE_YESTERDAY}
     \<and> (case find_row d_position_detail_id (f_position_detail_id f) details of
          None \<Rightarrow> False
        | Some dt \<Rightarrow>
            d_position_id dt = p_position_id p \<and> d_account_id dt = o_account_id r
            \<and> d_exchange_id dt = o_exchange_id r \<and> d_symbol dt = o_symbol r
            \<and> d_direction dt = dir
            \<and> f_resolved_offset_flag f = (if d_open_trading_day dt = o_trading_day r
                                          then CLOSE_TODAY else CLOSE_YESTERDAY)
            \<and> d_open_trading_day dt \<le> o_trading_day r
            \<and> f_remaining_frozen_volume f \<le> d_frozen_volume dt
            \<and> f_remaining_frozen_volume f \<le> d_remaining_volume dt)"

definition bucket_key :: "freeze_allocation \<Rightarrow> fee_bucket_key" where
  "bucket_key f =
     \<lparr>bk_resolved_offset_flag = f_resolved_offset_flag f,
      bk_commission_type = f_commission_type f,
      bk_commission_parameter = f_commission_parameter f,
      bk_commission_contract_multiplier = f_commission_contract_multiplier f\<rparr>"

text \<open>A dictionary of totals built by \<open>totals[key] = quantize_money(totals.get(key, 0) + amount)\<close>.\<close>

definition bucket_total :: "(fee_bucket_key \<times> decimal) list \<Rightarrow> fee_bucket_key \<Rightarrow> decimal" where
  "bucket_total pairs key =
     fold (\<lambda>(k, x) t. if k = key then quantize_money (t + x) else t) pairs 0"

definition validate_before_mutation ::
  "order \<Rightarrow> position \<Rightarrow> detail list \<Rightarrow> freeze_allocation list \<Rightarrow> int \<Rightarrow> position_direction
   \<Rightarrow> unit result" where
  "validate_before_mutation r p details allocations fill_volume dir =
     (let inconsistent = DataAccessError ''CLOSE_ALLOCATION_INCONSISTENT'';
          keys = map bucket_key allocations;
          entries = map (\<lambda>f. \<lparr>be_key = bucket_key f, be_volume = f_original_frozen_volume f\<rparr>)
                      allocations;
          actual = zip keys (map f_original_frozen_commission allocations)
      in rbind (ensure (0 < fill_volume \<and> fill_volume \<le> o_remaining_volume r
                        \<and> order_volume_balanced r \<and> p_direction p = dir \<and> allocations \<noteq> []
                        \<and> list_all (close_allocation_ok r p dir details) allocations)
                  inconsistent) (\<lambda>_.
         rbind (calculate_bucket_allocations (o_limit_price r) entries) (\<lambda>shares.
         ensure (list_all (\<lambda>k. bucket_total (zip keys shares) k = bucket_total actual k) keys
                 \<and> sum_list (map f_remaining_frozen_volume allocations)
                     = o_frozen_position_volume r
                 \<and> o_frozen_position_volume r = o_remaining_volume r
                 \<and> quantize_money (sum_list (map f_remaining_frozen_commission allocations))
                     = quantize_money (o_frozen_commission r)) inconsistent)))"

section \<open>What the fill takes from each allocation\<close>

record close_consumption =
  cc_allocation :: freeze_allocation
  cc_detail :: detail
  cc_volume :: int
  cc_released_margin :: decimal
  cc_released_realtime_margin :: decimal
  cc_released_frozen_commission :: decimal
  cc_actual_commission :: decimal
  cc_realized_pnl :: decimal
  cc_daily_close_pnl :: decimal

definition close_consume ::
  "bool \<Rightarrow> order \<Rightarrow> position_direction \<Rightarrow> decimal \<Rightarrow> freeze_allocation \<Rightarrow> detail \<Rightarrow> int
   \<Rightarrow> close_consumption result" where
  "close_consume is_option r dir fill_price f dt consumed =
     rbind (margin_release (d_remaining_margin dt) consumed (d_remaining_volume dt)) (\<lambda>margin.
     rbind (if is_option
            then margin_release (d_realtime_required_margin dt) consumed (d_remaining_volume dt)
            else Inr 0) (\<lambda>realtime.
     rbind (realized_pnl (o_direction r) (d_open_price dt) fill_price consumed
              (d_multiplier_snapshot dt)) (\<lambda>pnl.
     rbind (calculate_close dir fill_price (d_open_price dt) (d_pnl_base_price dt) consumed
              (d_multiplier_snapshot dt)) (\<lambda>daily.
     Inr \<lparr>cc_allocation = f, cc_detail = dt, cc_volume = consumed, cc_released_margin = margin,
          cc_released_realtime_margin = realtime,
          cc_released_frozen_commission =
            close_allocate_frozen_commission (f_remaining_frozen_commission f) consumed
              (f_remaining_frozen_volume f),
          cc_actual_commission = 0, cc_realized_pnl = pnl,
          cc_daily_close_pnl = cp_daily_close_pnl daily\<rparr>))))"

text \<open>The loop gives the consumptions and what is left to consume.\<close>

fun consume_loop ::
  "bool \<Rightarrow> order \<Rightarrow> position \<Rightarrow> position_direction \<Rightarrow> decimal \<Rightarrow> detail list \<Rightarrow> int
   \<Rightarrow> freeze_allocation list \<Rightarrow> (close_consumption list \<times> int) result" where
  "consume_loop is_option r p dir fill_price details remaining [] = Inr ([], remaining)"
| "consume_loop is_option r p dir fill_price details remaining (f # fs) =
     (if remaining = 0 then Inr ([], 0)
      else if f_remaining_frozen_volume f \<le> 0
      then consume_loop is_option r p dir fill_price details remaining fs
      else case find_row d_position_detail_id (f_position_detail_id f) details of
        None \<Rightarrow> Inl PyKeyError
      | Some dt \<Rightarrow>
          if d_multiplier_snapshot dt \<le> 0 \<or> d_multiplier_snapshot dt \<noteq> p_multiplier_snapshot p
          then Inl (DataAccessError ''CLOSE_MULTIPLIER_SNAPSHOT_INCONSISTENT'')
          else let consumed = min (f_remaining_frozen_volume f) remaining
               in rbind (close_consume is_option r dir fill_price f dt consumed) (\<lambda>c.
                  rbind (consume_loop is_option r p dir fill_price details
                           (remaining - consumed) fs) (\<lambda>(cs, rest). Inr (c # cs, rest))))"

definition close_consumptions ::
  "bool \<Rightarrow> order \<Rightarrow> position \<Rightarrow> position_direction \<Rightarrow> decimal \<Rightarrow> detail list \<Rightarrow> int
   \<Rightarrow> freeze_allocation list \<Rightarrow> close_consumption list result" where
  "close_consumptions is_option r p dir fill_price details fill_volume allocations =
     rbind (consume_loop is_option r p dir fill_price details fill_volume allocations)
     (\<lambda>(cs, rest).
        if rest \<noteq> 0 then Inl (DataAccessError ''CLOSE_ALLOCATION_INCONSISTENT'')
        else rbind (calculate_bucket_allocations fill_price
               (map (\<lambda>c. \<lparr>be_key = bucket_key (cc_allocation c), be_volume = cc_volume c\<rparr>) cs))
             (\<lambda>commissions.
                Inr (map (\<lambda>(c, x). c\<lparr>cc_actual_commission := x\<rparr>) (zip cs commissions))))"

section \<open>Totals of the fill\<close>

record close_totals =
  ct_margin :: decimal
  ct_realtime_margin :: decimal
  ct_option_value :: decimal
  ct_frozen_commission :: decimal
  ct_frozen_cash :: decimal
  ct_commission :: decimal
  ct_realized_pnl :: decimal
  ct_daily_close_pnl :: decimal
  ct_turnover :: decimal

definition total_by :: "(close_consumption \<Rightarrow> decimal) \<Rightarrow> close_consumption list \<Rightarrow> decimal" where
  "total_by field cs = quantize_money (sum_list (map field cs))"

definition close_totals_of ::
  "bool \<Rightarrow> order \<Rightarrow> position \<Rightarrow> int \<Rightarrow> decimal \<Rightarrow> close_consumption list \<Rightarrow> close_totals" where
  "close_totals_of is_option r p fill_volume fill_price cs =
     \<lparr>ct_margin = total_by cc_released_margin cs,
      ct_realtime_margin = total_by cc_released_realtime_margin cs,
      ct_option_value =
        (if is_option then close_allocate_frozen_commission (p_option_market_value p) fill_volume
                             (p_total_volume p) else 0),
      ct_frozen_commission = total_by cc_released_frozen_commission cs,
      ct_frozen_cash =
        (if is_option then close_allocate_frozen_commission (o_frozen_cash r) fill_volume
                             (o_remaining_volume r) else 0),
      ct_commission = total_by cc_actual_commission cs,
      ct_realized_pnl = total_by cc_realized_pnl cs,
      ct_daily_close_pnl = total_by cc_daily_close_pnl cs,
      ct_turnover = total_by (\<lambda>c. fill_price * of_int (cc_volume c)
                                  * d_multiplier_snapshot (cc_detail c)) cs\<rparr>"

definition close_resources_ok ::
  "bool \<Rightarrow> position_direction \<Rightarrow> int \<Rightarrow> close_totals \<Rightarrow> account \<Rightarrow> position \<Rightarrow> bool" where
  "close_resources_ok is_option dir fill_volume t a p \<longleftrightarrow>
     ct_margin t \<le> a_used_margin a \<and> ct_frozen_commission t \<le> a_frozen_commission a
     \<and> ct_frozen_cash t \<le> a_frozen_cash a \<and> ct_margin t \<le> p_used_margin p
     \<and> (is_option \<longrightarrow> ct_realtime_margin t \<le> p_realtime_required_margin p
          \<and> ct_realtime_margin t \<le> a_option_realtime_required_margin a
          \<and> ct_option_value t \<le> (if dir = LONG then a_long_option_market_value a
                                 else a_short_option_market_value a))
     \<and> fill_volume \<le> p_frozen_volume p"

section \<open>The rows after the fill\<close>

text \<open>A detail and an allocation as one consumption leaves them.\<close>

definition consume_detail :: "bool \<Rightarrow> datetime \<Rightarrow> close_consumption \<Rightarrow> detail \<Rightarrow> detail" where
  "consume_detail is_option now c dt =
     (let remaining = d_remaining_volume dt - cc_volume c
      in dt\<lparr>d_remaining_volume := remaining,
            d_frozen_volume := d_frozen_volume dt - cc_volume c,
            d_remaining_margin := quantize_money (d_remaining_margin dt - cc_released_margin c),
            d_realtime_required_margin :=
              (if is_option
               then max (quantize_money (d_realtime_required_margin dt
                                         - cc_released_realtime_margin c)) 0
               else d_realtime_required_margin dt),
            d_status := (if remaining = 0 then DETAIL_CLOSED else DETAIL_OPEN),
            d_updated_at := now\<rparr>)"

definition consume_allocation ::
  "datetime \<Rightarrow> close_consumption \<Rightarrow> freeze_allocation \<Rightarrow> freeze_allocation" where
  "consume_allocation now c f =
     (let remaining = f_remaining_frozen_volume f - cc_volume c
      in f\<lparr>f_remaining_frozen_volume := remaining,
           f_consumed_volume := f_consumed_volume f + cc_volume c,
           f_remaining_frozen_commission :=
             quantize_money (f_remaining_frozen_commission f - cc_released_frozen_commission c),
           f_consumed_commission :=
             quantize_money (f_consumed_commission f + cc_released_frozen_commission c),
           f_status := (if remaining = 0 then CONSUMED else ACTIVE), f_updated_at := now\<rparr>)"

text \<open>The loop mutates the loaded objects, so each consumption reaches the row with its key.\<close>

definition consume_details ::
  "bool \<Rightarrow> datetime \<Rightarrow> close_consumption list \<Rightarrow> detail list \<Rightarrow> detail list" where
  "consume_details is_option now cs details =
     fold (\<lambda>c. map (\<lambda>dt. if d_position_detail_id dt = d_position_detail_id (cc_detail c)
                          then consume_detail is_option now c dt else dt)) cs details"

definition consume_allocations ::
  "datetime \<Rightarrow> close_consumption list \<Rightarrow> freeze_allocation list \<Rightarrow> freeze_allocation list" where
  "consume_allocations now cs allocations =
     fold (\<lambda>c. map (\<lambda>f. if f_allocation_id f = f_allocation_id (cc_allocation c)
                         then consume_allocation now c f else f)) cs allocations"

definition trade_allocation ::
  "settlement_ids \<Rightarrow> datetime \<Rightarrow> order \<Rightarrow> position \<Rightarrow> decimal \<Rightarrow> nat \<Rightarrow> close_consumption
   \<Rightarrow> trade_position_allocation" where
  "trade_allocation ids now r p fill_price i c =
     \<lparr>tp_trade_position_allocation_id = si_trade_allocation ids i, tp_trade_id = si_trade ids,
      tp_order_id = o_order_id r, tp_allocation_id = f_allocation_id (cc_allocation c),
      tp_position_id = p_position_id p,
      tp_position_detail_id = d_position_detail_id (cc_detail c),
      tp_account_id = o_account_id r, tp_order_book_id = o_order_book_id r,
      tp_exchange_id = o_exchange_id r, tp_symbol = o_symbol r,
      tp_resolved_offset_flag = f_resolved_offset_flag (cc_allocation c),
      tp_open_trading_day = d_open_trading_day (cc_detail c),
      tp_close_trading_day = o_trading_day r, tp_open_price = d_open_price (cc_detail c),
      tp_close_price = fill_price, tp_close_volume = cc_volume c,
      tp_released_margin = cc_released_margin c, tp_commission = cc_actual_commission c,
      tp_realized_pnl = cc_realized_pnl c, tp_daily_close_pnl = cc_daily_close_pnl c,
      tp_created_at = now\<rparr>"

definition trade_allocations ::
  "settlement_ids \<Rightarrow> datetime \<Rightarrow> order \<Rightarrow> position \<Rightarrow> decimal \<Rightarrow> close_consumption list
   \<Rightarrow> trade_position_allocation list" where
  "trade_allocations ids now r p fill_price cs =
     map (\<lambda>(i, c). trade_allocation ids now r p fill_price i c) (enumerate 0 cs)"

definition close_trade ::
  "bool \<Rightarrow> settlement_ids \<Rightarrow> settlement_command \<Rightarrow> datetime \<Rightarrow> order \<Rightarrow> int \<Rightarrow> decimal
   \<Rightarrow> close_totals \<Rightarrow> trade" where
  "close_trade is_option ids cmd now r fill_volume fill_price t =
     \<lparr>t_trade_id = si_trade ids, t_order_id = o_order_id r, t_account_id = o_account_id r,
      t_market_event_id = cmd_market_event_id cmd,
      t_market_stream_message_id = cmd_market_stream_message_id cmd,
      t_order_book_id = o_order_book_id r, t_exchange_id = o_exchange_id r,
      t_symbol = o_symbol r, t_trading_day = o_trading_day r,
      t_instrument_type = o_instrument_type r, t_direction = o_direction r,
      t_offset_flag = o_offset_flag r, t_trade_price = fill_price,
      t_trade_volume = fill_volume, t_turnover = ct_turnover t, t_margin = ct_margin t,
      t_premium_cash_flow =
        (if is_option then (if o_direction r = SELL then ct_turnover t else - ct_turnover t)
         else 0),
      t_margin_rule_id = o_margin_rule_id r, t_margin_rule_version = o_margin_rule_version r,
      t_margin_calculation_version = o_margin_calculation_version r,
      t_commission = ct_commission t, t_realized_pnl = ct_realized_pnl t,
      t_daily_close_pnl = ct_daily_close_pnl t, t_trade_time = now, t_created_at = now\<rparr>"

text \<open>The per-detail rows must add up to the trade.\<close>

definition trade_allocations_match :: "trade_position_allocation list \<Rightarrow> trade \<Rightarrow> bool" where
  "trade_allocations_match tps t \<longleftrightarrow>
     sum_list (map tp_close_volume tps) = t_trade_volume t
     \<and> quantize_money (sum_list (map tp_released_margin tps)) = t_margin t
     \<and> quantize_money (sum_list (map tp_realized_pnl tps)) = t_realized_pnl t
     \<and> quantize_money (sum_list (map tp_commission tps)) = t_commission t"

definition close_filled_order ::
  "bool \<Rightarrow> datetime \<Rightarrow> int \<Rightarrow> decimal \<Rightarrow> close_totals \<Rightarrow> order \<Rightarrow> order" where
  "close_filled_order is_option now fill_volume fill_price t r =
     (filled_order now fill_volume fill_price r)
       \<lparr>o_frozen_commission := quantize_money (o_frozen_commission r - ct_frozen_commission t),
        o_frozen_cash := (if is_option then quantize_money (o_frozen_cash r - ct_frozen_cash t)
                          else o_frozen_cash r),
        o_frozen_position_volume := o_frozen_position_volume r - fill_volume\<rparr>"

text \<open>The account: the common part, the option branch, the other branch.\<close>

definition close_common_account :: "close_totals \<Rightarrow> account \<Rightarrow> account" where
  "close_common_account t a =
     a\<lparr>a_used_margin := quantize_money (a_used_margin a - ct_margin t),
       a_frozen_commission := quantize_money (a_frozen_commission a - ct_frozen_commission t),
       a_used_commission := quantize_money (a_used_commission a + ct_commission t),
       a_realized_pnl := quantize_money (a_realized_pnl a + ct_realized_pnl t),
       a_daily_close_pnl := quantize_money (a_daily_close_pnl a + ct_daily_close_pnl t),
       a_daily_commission := quantize_money (a_daily_commission a + ct_commission t)\<rparr>"

definition close_option_account ::
  "decimal \<Rightarrow> position_direction \<Rightarrow> decimal \<Rightarrow> close_totals \<Rightarrow> account \<Rightarrow> account" where
  "close_option_account ratio dir premium_cash_flow t a =
     (let a1 = a\<lparr>a_frozen_cash := quantize_money (a_frozen_cash a - ct_frozen_cash t),
                 a_option_used_margin := quantize_money (a_option_used_margin a - ct_margin t),
                 a_option_realtime_required_margin :=
                   quantize_money (a_option_realtime_required_margin a - ct_realtime_margin t),
                 a_cash_balance :=
                   quantize_money (a_cash_balance a + premium_cash_flow - ct_commission t)\<rparr>;
          a2 = (if dir = LONG
                then a1\<lparr>a_long_option_market_value :=
                          quantize_money (a_long_option_market_value a - ct_option_value t)\<rparr>
                else a1\<lparr>a_short_option_market_value :=
                          quantize_money (a_short_option_market_value a - ct_option_value t)\<rparr>);
          a3 = revalued ratio a2
      in a3\<lparr>a_risk_state := preserve_for_local_update (a_risk_state a) False
                              (a_risk_available_cash a3 < 0)\<rparr>)"

definition close_futures_account :: "close_totals \<Rightarrow> account \<Rightarrow> account" where
  "close_futures_account t a =
     (let cash = quantize_money (a_cash_balance a + ct_daily_close_pnl t - ct_commission t)
      in a\<lparr>a_cash_balance := cash,
           a_available_cash :=
             quantize_money (a_available_cash a + ct_frozen_commission t - ct_commission t
                             + ct_margin t + ct_daily_close_pnl t),
           a_equity := quantize_money (cash + a_unrealized_pnl a)\<rparr>)"

definition close_filled_account ::
  "decimal \<Rightarrow> bool \<Rightarrow> datetime \<Rightarrow> position_direction \<Rightarrow> trade \<Rightarrow> close_totals \<Rightarrow> account \<Rightarrow> account"
where
  "close_filled_account ratio is_option now dir tr t a =
     (let a1 = close_common_account t a;
          a2 = (if is_option then close_option_account ratio dir (t_premium_cash_flow tr) t a1
                else close_futures_account t a1)
      in a2\<lparr>a_daily_pnl := quantize_money (a_daily_position_pnl a2 + a_daily_close_pnl a2
                                             - a_daily_commission a2),
            a_updated_at := now\<rparr>)"

text \<open>The position; its volumes by day, cost and average price come from the open details.\<close>

definition close_reduced_position ::
  "bool \<Rightarrow> int \<Rightarrow> close_totals \<Rightarrow> position \<Rightarrow> position" where
  "close_reduced_position is_option fill_volume t p =
     p\<lparr>p_total_volume := p_total_volume p - fill_volume,
       p_frozen_volume := p_frozen_volume p - fill_volume,
       p_used_margin := quantize_money (p_used_margin p - ct_margin t),
       p_realtime_required_margin :=
         (if is_option then quantize_money (p_realtime_required_margin p - ct_realtime_margin t)
          else p_realtime_required_margin p),
       p_option_market_value :=
         (if is_option then quantize_money (p_option_market_value p - ct_option_value t)
          else p_option_market_value p),
       p_realized_pnl := quantize_money (p_realized_pnl p + ct_realized_pnl t),
       p_daily_close_pnl := quantize_money (p_daily_close_pnl p + ct_daily_close_pnl t)\<rparr>"

definition close_recomputed_position :: "date \<Rightarrow> detail list \<Rightarrow> position \<Rightarrow> position" where
  "close_recomputed_position day open_details p =
     (let p1 = p\<lparr>p_today_volume := sum_list (map d_remaining_volume
                   (filter (\<lambda>x. d_open_trading_day x = day) open_details)),
                 p_yesterday_volume := sum_list (map d_remaining_volume
                   (filter (\<lambda>x. d_open_trading_day x < day) open_details)),
                 p_available_volume :=
                   p_total_volume p - p_frozen_volume p - p_settlement_locked_volume p\<rparr>
      in if p_total_volume p = 0
         then p1\<lparr>p_average_open_price := 0, p_position_cost := 0, p_used_margin := 0,
                 p_realtime_required_margin := 0, p_option_market_value := 0,
                 p_unrealized_pnl := 0\<rparr>
         else p1\<lparr>p_position_cost := quantize_money (sum_list (map
                   (\<lambda>x. d_open_price x * of_int (d_remaining_volume x) * d_multiplier_snapshot x)
                   open_details)),
                 p_average_open_price := quantize_money (sum_list (map
                   (\<lambda>x. d_open_price x * of_int (d_remaining_volume x)) open_details)
                   / of_int (p_total_volume p))\<rparr>)"

text \<open>The final check.\<close>

definition close_result_ok :: "order \<Rightarrow> position \<Rightarrow> freeze_allocation list \<Rightarrow> bool" where
  "close_result_ok r p allocations \<longleftrightarrow>
     p_total_volume p = p_today_volume p + p_yesterday_volume p
     \<and> p_available_volume p
         = p_total_volume p - p_frozen_volume p - p_settlement_locked_volume p
     \<and> order_volume_balanced r
     \<and> sum_list (map f_remaining_frozen_volume allocations) = o_frozen_position_volume r
     \<and> quantize_money (sum_list (map f_remaining_frozen_commission allocations))
         = o_frozen_commission r"

section \<open>\<open>apply\<close>\<close>

record close_fill =
  cf_trade :: trade
  cf_order :: order
  cf_account :: account
  cf_position :: position
  cf_details :: "detail list"
  cf_allocations :: "freeze_allocation list"
  cf_trade_allocations :: "trade_position_allocation list"

definition is_option_type :: "instrument_type \<Rightarrow> bool" where
  "is_option_type it \<longleftrightarrow> it \<in> {FUTURES_OPTION, INDEX_OPTION}"

fun known_instrument_type :: "instrument_type \<Rightarrow> bool" where
  "known_instrument_type (UnknownInstrument _) = False"
| "known_instrument_type _ = True"

text \<open>The part after the checks, on the rows that were loaded.\<close>

definition close_apply_loaded ::
  "decimal \<Rightarrow> settlement_ids \<Rightarrow> settlement_command \<Rightarrow> datetime \<Rightarrow> bool \<Rightarrow> position_direction
   \<Rightarrow> order \<Rightarrow> account \<Rightarrow> position \<Rightarrow> detail list \<Rightarrow> freeze_allocation list \<Rightarrow> detail list
   \<Rightarrow> int \<Rightarrow> decimal \<Rightarrow> close_fill result" where
  "close_apply_loaded ratio ids cmd now is_option dir r a p details allocations position_details
      fill_volume fill_price =
     rbind (close_consumptions is_option r p dir fill_price details fill_volume allocations)
     (\<lambda>cs.
      let t = close_totals_of is_option r p fill_volume fill_price cs;
          tps = trade_allocations ids now r p fill_price cs;
          tr = close_trade is_option ids cmd now r fill_volume fill_price t;
          allocations' = consume_allocations now cs allocations;
          r' = close_filled_order is_option now fill_volume fill_price t r;
          open_details = filter (\<lambda>x. 0 < d_remaining_volume x)
            (consume_details is_option now cs position_details);
          p' = close_recomputed_position (o_trading_day r) open_details
                 (close_reduced_position is_option fill_volume t p)
      in if \<not> close_resources_ok is_option dir fill_volume t a p
         then Inl (DataAccessError ''CLOSE_RESOURCE_INCONSISTENT'')
         else if \<not> trade_allocations_match tps tr
         then Inl (DataAccessError ''TRADE_POSITION_ALLOCATION_INCONSISTENT'')
         else if \<not> close_result_ok r' p' allocations'
         then Inl (DataAccessError ''CLOSE_POSITION_INCONSISTENT'')
         else Inr
           \<lparr>cf_trade = tr, cf_order = r',
            cf_account = close_filled_account ratio is_option now dir tr t a,
            cf_position = p'\<lparr>p_updated_at := now\<rparr>,
            cf_details = consume_details is_option now cs details,
            cf_allocations = allocations', cf_trade_allocations = tps\<rparr>)"

definition close_apply ::
  "decimal \<Rightarrow> settlement_ids \<Rightarrow> settlement_command \<Rightarrow> datetime \<Rightarrow> db \<Rightarrow> order \<Rightarrow> account \<Rightarrow> int
   \<Rightarrow> decimal \<Rightarrow> close_fill result" where
  "close_apply ratio ids cmd now d r a fill_volume fill_price =
     (if \<not> known_instrument_type (o_instrument_type r) then Inl PyValueError
      else
        let dir = closed_position_direction (o_direction r)
        in case get_position d (o_account_id r) (o_exchange_id r) (o_symbol r) dir of
          None \<Rightarrow> Inl (DataAccessError ''CLOSE_POSITION_NOT_FOUND'')
        | Some p \<Rightarrow>
          let allocations = list_allocations_by_order d (o_order_id r);
              details = list_details_by_ids d (p_position_id p)
                          (remdups (map f_position_detail_id allocations))
          in rbind (validate_before_mutation r p details allocations fill_volume dir) (\<lambda>_.
             close_apply_loaded ratio ids cmd now (is_option_type (o_instrument_type r)) dir r a p
               details allocations (list_open_details (db_details d) (p_position_id p))
               fill_volume fill_price))"

definition write_close_fill :: "close_fill \<Rightarrow> db \<Rightarrow> db" where
  "write_close_fill f d =
     add_trade_allocations (cf_trade_allocations f) (add_trade (cf_trade f)
       (put_allocations (cf_allocations f) (put_details (cf_details f)
         (put_position (cf_position f) (put_order (cf_order f)
           (put_account (cf_account f) d))))))"

end
