(* ===== verification/Settlement.thy ===== *)
theory Settlement
  imports Open_Settlement Close_Settlement Products
begin

text \<open>
  \<open>TradeSettlementService.settle\<close>: one fill of one order in one transaction. The three product paths
  are in the theories imported; here are the checks in front of them and the dispatch.
  \<open>required_of\<close> is \<open>_calculate_required\<close> of the option order margin service, \<open>clock\<close> its
  \<open>utc_now\<close>, \<open>ratio\<close> is \<open>settings.option_collateral_ratio\<close>. A unique-constraint conflict of two
  concurrent transactions, which the code answers with the trade found, is not modelled: the tables
  of one transaction satisfy the constraints.
\<close>

definition settled :: "string \<Rightarrow> order \<Rightarrow> settlement_result" where
  "settled tid r = \<lparr>sr_trade_id = Some tid, sr_order_id = o_order_id r, sr_action = SETTLED\<rparr>"

definition not_settled :: "string \<Rightarrow> settlement_action \<Rightarrow> settlement_result" where
  "not_settled oid action = \<lparr>sr_trade_id = None, sr_order_id = oid, sr_action = action\<rparr>"

text \<open>Closing.\<close>

definition settle_close ::
  "decimal \<Rightarrow> settlement_ids \<Rightarrow> settlement_command \<Rightarrow> datetime \<Rightarrow> db \<Rightarrow> order \<Rightarrow> account \<Rightarrow> int
   \<Rightarrow> decimal \<Rightarrow> (db \<times> settlement_result) result" where
  "settle_close ratio ids cmd now d r a fill_volume fill_price =
     rbind (close_apply ratio ids cmd now d r a fill_volume fill_price) (\<lambda>f.
     let d1 = write_close_fill f d
     in rbind (get_affected_position d1 (cf_order f)) (\<lambda>p.
        Inr (add_events (create_outbox_events ids (cf_trade f) (cf_order f) (cf_account f) p True
                           now) d1,
             settled (t_trade_id (cf_trade f)) (cf_order f))))"

text \<open>Opening an option position.\<close>

definition settle_option_open ::
  "decimal \<Rightarrow> settlement_ids \<Rightarrow> settlement_command \<Rightarrow> datetime \<Rightarrow> db \<Rightarrow> order \<Rightarrow> account
   \<Rightarrow> position option \<Rightarrow> int \<Rightarrow> decimal \<Rightarrow> (db \<times> settlement_result) result" where
  "settle_option_open ratio ids cmd now d r a pos fill_volume fill_price =
     rbind (option_open_fill ratio ids cmd now r a pos fill_volume fill_price) (\<lambda>f.
     let d1 = write_open_fill pos f d
     in rbind (get_affected_position d1 (fo_order f)) (\<lambda>p.
        Inr (add_events (create_outbox_events ids (fo_trade f) (fo_order f) (fo_account f) p True
                           now) d1,
             settled (t_trade_id (fo_trade f)) (fo_order f))))"

text \<open>Opening a futures position; a new one is reported before it is flushed.\<close>

definition settle_futures_open ::
  "settlement_ids \<Rightarrow> settlement_command \<Rightarrow> datetime \<Rightarrow> db \<Rightarrow> order \<Rightarrow> account \<Rightarrow> position option
   \<Rightarrow> int \<Rightarrow> decimal \<Rightarrow> (db \<times> settlement_result) result" where
  "settle_futures_open ids cmd now d r a pos fill_volume fill_price =
     rbind (futures_open_fill ids cmd now r a pos fill_volume fill_price) (\<lambda>f.
     Inr (add_events (create_outbox_events ids (fo_trade f) (fo_order f) (fo_account f)
                        (fo_position f) (pos \<noteq> None) now) (write_open_fill pos f d),
          settled (t_trade_id (fo_trade f)) (fo_order f)))"

definition blocking_actions :: "margin_action list" where
  "blocking_actions = [RISK_BLOCKED, ACTION_MARGIN_DEFICIT, ACTION_VALUATION_UNAVAILABLE]"

definition opening_position :: "db \<Rightarrow> order \<Rightarrow> position option" where
  "opening_position d r = get_position d (o_account_id r) (o_exchange_id r) (o_symbol r)
     (opened_direction (o_direction r))"

text \<open>The product path of an opening order.\<close>

definition settle_product ::
  "decimal \<Rightarrow> settlement_ids \<Rightarrow> settlement_command \<Rightarrow> datetime \<Rightarrow> db \<Rightarrow> product_family \<Rightarrow> order
   \<Rightarrow> account \<Rightarrow> int \<Rightarrow> decimal \<Rightarrow> (db \<times> settlement_result) result" where
  "settle_product ratio ids cmd now d product r a fill_volume fill_price =
     (if product = OPTIONS_FAMILY
      then settle_option_open ratio ids cmd now d r a (opening_position d r) fill_volume fill_price
      else if product \<noteq> FUTURES_FAMILY
      then Inl (DataAccessError ''PRODUCT_TRADE_SETTLEMENT_NOT_IMPLEMENTED'')
      else settle_futures_open ids cmd now d r a (opening_position d r) fill_volume fill_price)"

text \<open>Opening: the final margin check, which may commit a risk state, then the product path.\<close>

definition settle_open ::
  "(order \<Rightarrow> instrument \<Rightarrow> option_margin_result result) \<Rightarrow> datetime \<Rightarrow> decimal \<Rightarrow> settlement_ids
   \<Rightarrow> settlement_command \<Rightarrow> datetime \<Rightarrow> db \<Rightarrow> product_family \<Rightarrow> order \<Rightarrow> account \<Rightarrow> instrument
   \<Rightarrow> int \<Rightarrow> decimal \<Rightarrow> (db \<times> settlement_result) result" where
  "settle_open required_of clock ratio ids cmd now d product r a ins fill_volume fill_price =
     rbind (ensure_locked required_of clock True r a ins) (\<lambda>(check, r1, a1).
     if ma_action check \<in> set blocking_actions then
       Inr (put_order r1 (put_account a1 d),
            not_settled (o_order_id r1) (MARGIN_CHECK (ma_action check)))
     else settle_product ratio ids cmd now d product r1 a1 fill_volume fill_price)"

text \<open>An order that may be filled: its account, its instrument and its product.\<close>

definition settle_matchable ::
  "(order \<Rightarrow> instrument \<Rightarrow> option_margin_result result) \<Rightarrow> datetime \<Rightarrow> decimal \<Rightarrow> settlement_ids
   \<Rightarrow> settlement_command \<Rightarrow> db \<Rightarrow> order \<Rightarrow> decimal \<Rightarrow> (db \<times> settlement_result) result" where
  "settle_matchable required_of clock ratio ids cmd d r price =
     (let fill_volume = min (r_fill_volume (cmd_match_result cmd)) (o_remaining_volume r);
          fill_price = quantize_money price; now = cmd_tick_event_time cmd
      in case get_account d (o_account_id r) of
        None \<Rightarrow> Inl (DataAccessError ''SETTLEMENT_ACCOUNT_NOT_FOUND'')
      | Some a \<Rightarrow>
        (case get_instrument d (o_order_book_id r) of
          None \<Rightarrow> Inl (DataAccessError ''SETTLEMENT_INSTRUMENT_NOT_FOUND'')
        | Some ins \<Rightarrow>
          if i_instrument_type ins \<noteq> o_instrument_type r
          then Inl (DataAccessError ''SETTLEMENT_PRODUCT_TYPE_MISMATCH'')
          else rbind (resolve_product_strategy (o_instrument_type r)) (\<lambda>strategy.
            if o_offset_flag r \<noteq> Some OPEN
            then settle_close ratio ids cmd now d r a fill_volume fill_price
            else settle_open required_of clock ratio ids cmd now d (family strategy) r a ins
                   fill_volume fill_price)))"

definition settle ::
  "(order \<Rightarrow> instrument \<Rightarrow> option_margin_result result) \<Rightarrow> datetime \<Rightarrow> decimal \<Rightarrow> settlement_ids
   \<Rightarrow> db \<Rightarrow> settlement_command \<Rightarrow> (db \<times> settlement_result) result" where
  "settle required_of clock ratio ids d cmd =
     (if \<not> r_matched (cmd_match_result cmd)
      then Inr (d, not_settled (cmd_order_id cmd) NOT_MATCHED)
      else rbind (ensure_trading_open (db_batches d) None) (\<lambda>_.
        case get_order d (cmd_order_id cmd) of
          None \<Rightarrow> Inr (d, not_settled (cmd_order_id cmd) ORDER_NOT_FOUND)
        | Some r \<Rightarrow>
          rbind (ensure_trading_open (db_batches d) (Some (o_trading_day r))) (\<lambda>_.
          case get_trade_by_order_market_event d (cmd_order_id cmd) (cmd_market_event_id cmd) of
            Some t \<Rightarrow> Inr (d, \<lparr>sr_trade_id = Some (t_trade_id t), sr_order_id = cmd_order_id cmd,
                              sr_action = IDEMPOTENT\<rparr>)
          | None \<Rightarrow>
            if \<not> is_matchable_order r (cmd_match_result cmd)
            then Inr (d, not_settled (cmd_order_id cmd) ORDER_INACTIVE)
            else case r_fill_price (cmd_match_result cmd) of
              None \<Rightarrow> Inr (d, not_settled (cmd_order_id cmd) ORDER_INACTIVE)
            | Some price \<Rightarrow> settle_matchable required_of clock ratio ids cmd d r price)))"

end
