(* ===== verification/Open_Settlement_Book.thy ===== *)
theory Open_Settlement_Book
  imports Settlement Book
begin

text \<open>
  An opening fill keeps the book consistent. What the futures and the option path have in common is
  the relation \<open>opens\<close> between the rows before and after; the two paths satisfy it, and it is enough
  for the book.
\<close>

section \<open>The common effect\<close>

definition fresh_ids :: "db \<Rightarrow> settlement_ids \<Rightarrow> bool" where
  "fresh_ids d ids \<longleftrightarrow>
     si_position ids \<notin> p_position_id ` set (db_positions d)
     \<and> si_position ids \<notin> d_position_id ` set (db_details d)
     \<and> si_detail ids \<notin> d_position_detail_id ` set (db_details d)
     \<and> si_detail ids \<notin> f_position_detail_id ` set (db_allocations d)
     \<and> si_detail ids \<notin> tp_position_detail_id ` set (db_trade_allocations d)"

definition position_grows :: "int \<Rightarrow> position \<Rightarrow> position \<Rightarrow> bool" where
  "position_grows v p q \<longleftrightarrow>
     p_position_id q = p_position_id p \<and> p_account_id q = p_account_id p
     \<and> p_exchange_id q = p_exchange_id p \<and> p_symbol q = p_symbol p
     \<and> p_direction q = p_direction p \<and> p_instrument_type q = p_instrument_type p
     \<and> p_total_volume q = p_total_volume p + v \<and> p_today_volume q = p_today_volume p + v
     \<and> p_yesterday_volume q = p_yesterday_volume p \<and> p_frozen_volume q = p_frozen_volume p
     \<and> p_settlement_locked_volume q = p_settlement_locked_volume p
     \<and> p_available_volume q = p_total_volume q - p_frozen_volume q - p_settlement_locked_volume q"

text \<open>The position that a fill of order \<open>r\<close> goes to, when it has to be created.\<close>

definition blank_for :: "string \<Rightarrow> order \<Rightarrow> position \<Rightarrow> bool" where
  "blank_for pid r p \<longleftrightarrow> p_position_id p = pid \<and> p_account_id p = o_account_id r
     \<and> p_exchange_id p = o_exchange_id r \<and> p_symbol p = o_symbol r
     \<and> p_direction p = opened_direction (o_direction r)
     \<and> p_total_volume p = 0 \<and> p_today_volume p = 0 \<and> p_yesterday_volume p = 0
     \<and> p_frozen_volume p = 0 \<and> p_settlement_locked_volume p = 0 \<and> p_available_volume p = 0"

lemma blank_for_blank [simp]: "blank_for pid r (blank_position pid now r it m)"
  by (simp add: blank_for_def blank_position_def)

definition opens ::
  "settlement_ids \<Rightarrow> settlement_command \<Rightarrow> order \<Rightarrow> account \<Rightarrow> position option \<Rightarrow> int \<Rightarrow> open_fill
   \<Rightarrow> bool" where
  "opens ids cmd r a pos v f \<longleftrightarrow>
     pools_move_together r a (fo_order f) (fo_account f)
     \<and> order_row_ok (fo_order f) \<and> account_row_ok (fo_account f)
     \<and> o_offset_flag (fo_order f) = o_offset_flag r
     \<and> (\<exists>p0. (case pos of Some p \<Rightarrow> p0 = p | None \<Rightarrow> blank_for (si_position ids) r p0)
          \<and> position_grows v p0 (fo_position f) \<and> d_position_id (fo_detail f) = p_position_id p0)
     \<and> detail_ok (fo_detail f) \<and> d_position_detail_id (fo_detail f) = si_detail ids
     \<and> d_frozen_volume (fo_detail f) = 0 \<and> d_remaining_volume (fo_detail f) = v
     \<and> is_money (d_remaining_margin (fo_detail f)) \<and> d_original_volume (fo_detail f) = v
     \<and> d_account_id (fo_detail f) = o_account_id r
     \<and> a_used_margin (fo_account f)
         = quantize_money (a_used_margin a + d_remaining_margin (fo_detail f))
     \<and> t_order_id (fo_trade f) = o_order_id r
     \<and> t_market_event_id (fo_trade f) = cmd_market_event_id cmd"

section \<open>It keeps the book\<close>

lemma position_grows_ok:
  assumes "position_grows v p q" "position_volumes_ok p" "0 \<le> v" "position_backed dts p"
    "d_position_id dt = p_position_id p" "d_frozen_volume dt = 0" "d_remaining_volume dt = v"
  shows "position_volumes_ok q \<and> position_backed (dts @ [dt]) q"
  using assms
  by (auto simp: position_grows_def position_volumes_ok_def position_backed_def of_position_def)

lemma position_backed_other:
  "position_backed dts p \<Longrightarrow> d_position_id dt \<noteq> p_position_id p \<Longrightarrow>
     position_backed (dts @ [dt]) p"
  by (simp add: position_backed_def of_position_def)

lemma no_details_no_sum:
  "pid \<notin> d_position_id ` set dts \<Longrightarrow> sum_of (of_position pid) g dts = 0"
  by (rule sum_of_zero) (auto simp: of_position_def)

text \<open>The positions and their keys after the fill.\<close>

definition filled_positions :: "position option \<Rightarrow> position \<Rightarrow> position list \<Rightarrow> position list" where
  "filled_positions pos p ps =
     (case pos of None \<Rightarrow> ps @ [p] | Some _ \<Rightarrow> replace_row p_position_id p ps)"

definition position_key :: "position \<Rightarrow> string \<times> string \<times> string \<times> position_direction" where
  "position_key p = (p_account_id p, p_exchange_id p, p_symbol p, p_direction p)"

lemma position_grows_key: "position_grows v p q \<Longrightarrow> position_key q = position_key p"
  by (simp add: position_grows_def position_key_def)

lemma map_replace_same_key:
  assumes "distinct (map key rows)" "p \<in> set rows" "key q = key p" "g q = g p"
  shows "map g (replace_row key q rows) = map g rows"
proof -
  have "g (if key x = key q then q else x) = g x" if "x \<in> set rows" for x
  proof (cases "key x = key q")
    case True
    with assms that have "x = p" by (metis distinct_key_eq)
    with True assms(4) show ?thesis by simp
  qed simp
  then show ?thesis by (simp add: replace_row_def)
qed

lemma get_position_key:
  "get_position d aid ex sy dir = first_row (\<lambda>p. position_key p = (aid, ex, sy, dir)) (db_positions d)"
  by (simp add: get_position_def position_key_def)

lemma filled_positions_book:
  assumes book: "book_ok d"
    and pos: "pos = get_position d (o_account_id r) (o_exchange_id r) (o_symbol r)
                (opened_direction (o_direction r))"
    and fresh: "fresh_ids d ids"
    and p0: "case pos of Some p \<Rightarrow> p0 = p | None \<Rightarrow> blank_for (si_position ids) r p0"
    and grow: "position_grows v p0 q" and v: "0 \<le> v"
    and dt: "d_position_id dt = p_position_id p0" "d_frozen_volume dt = 0"
      "d_remaining_volume dt = v"
  shows "distinct (map p_position_id (filled_positions pos q (db_positions d)))
    \<and> distinct (map position_key (filled_positions pos q (db_positions d)))
    \<and> (\<forall>p \<in> set (filled_positions pos q (db_positions d)).
          position_volumes_ok p \<and> position_backed (db_details d @ [dt]) p)"
proof (cases pos)
  case None
  have ids: "distinct (map p_position_id (db_positions d))" "distinct (map position_key (db_positions d))"
    and rows: "\<forall>p \<in> set (db_positions d). position_volumes_ok p \<and> position_backed (db_details d) p"
    using book by (auto simp: book_ok_def keys_ok_def position_key_def [abs_def])
  from None p0 have blank: "blank_for (si_position ids) r p0" by simp
  have q: "p_position_id q = si_position ids" "position_key q = position_key p0"
    using blank grow by (auto simp: blank_for_def position_grows_def position_key_def)
  have "\<forall>p \<in> set (db_positions d). position_key p \<noteq> position_key q"
    using None pos q(2) blank
    by (auto simp: get_position_key find_None_iff blank_for_def position_key_def)
  then have keys: "position_key q \<notin> position_key ` set (db_positions d)" by force
  have fresh_id: "p_position_id q \<notin> p_position_id ` set (db_positions d)"
    using fresh q(1) by (simp add: fresh_ids_def)
  have p0_ok: "position_backed (db_details d) p0" "position_volumes_ok p0"
    using blank fresh no_details_no_sum
    by (auto simp: fresh_ids_def position_backed_def blank_for_def position_volumes_ok_def)
  have "d_position_id dt \<noteq> p_position_id p" if "p \<in> set (db_positions d)" for p
    using that fresh_id dt(1) q(1) blank unfolding blank_for_def by (metis imageI)
  then have "\<forall>p \<in> set (db_positions d). position_volumes_ok p
      \<and> position_backed (db_details d @ [dt]) p"
    using rows position_backed_other by blast
  moreover note position_grows_ok [OF grow p0_ok(2) v p0_ok(1) dt]
  ultimately show ?thesis using None ids keys fresh_id by (simp add: filled_positions_def)
next
  case (Some p)
  have ids: "distinct (map p_position_id (db_positions d))" "distinct (map position_key (db_positions d))"
    and rows: "\<forall>p \<in> set (db_positions d). position_volumes_ok p \<and> position_backed (db_details d) p"
    using book by (auto simp: book_ok_def keys_ok_def position_key_def [abs_def])
  from Some p0 have p: "p0 = p" by simp
  from Some pos have mem: "p \<in> set (db_positions d)"
    by (auto simp: get_position_def dest: first_row_SomeD)
  have q: "p_position_id q = p_position_id p" "position_key q = position_key p"
    using grow p by (auto simp: position_grows_def position_key_def)
  have "position_volumes_ok q \<and> position_backed (db_details d @ [dt]) q"
    using rows mem p by (intro position_grows_ok [OF grow _ v _ dt]) auto
  moreover have "position_volumes_ok x \<and> position_backed (db_details d @ [dt]) x"
    if "x \<in> set (db_positions d)" "p_position_id x \<noteq> p_position_id p" for x
    using rows that dt(1) p by (auto intro!: position_backed_other)
  ultimately have "\<forall>x \<in> set (replace_row p_position_id q (db_positions d)).
      position_volumes_ok x \<and> position_backed (db_details d @ [dt]) x"
    using q(1) by (auto simp: replace_row_def)
  then show ?thesis
    using Some ids map_replace_same_key [OF ids(1) mem q(1), of position_key] q(2)
    by (simp add: filled_positions_def)
qed

lemma opens_write_book:
  assumes book: "book_ok d" and r: "get_order d oid = Some r"
    and a: "get_account d (o_account_id r) = Some a"
    and pos: "pos = get_position d (o_account_id r) (o_exchange_id r) (o_symbol r)
                (opened_direction (o_direction r))"
    and fresh: "fresh_ids d ids" and isopen: "o_offset_flag r = Some OPEN"
    and new: "get_trade_by_order_market_event d (o_order_id r) (cmd_market_event_id cmd) = None"
    and opens: "opens ids cmd r a pos v f" and v: "0 \<le> v"
  shows "book_ok (write_open_fill pos f d)"
proof -
  from opens have move: "pools_move_together r a (fo_order f) (fo_account f)"
    and rows: "order_row_ok (fo_order f)" "account_row_ok (fo_account f)"
    and flag: "o_offset_flag (fo_order f) = o_offset_flag r"
    and dt: "detail_ok (fo_detail f)" "d_position_detail_id (fo_detail f) = si_detail ids"
      "d_frozen_volume (fo_detail f) = 0" "d_remaining_volume (fo_detail f) = v"
    and tr: "t_order_id (fo_trade f) = o_order_id r"
      "t_market_event_id (fo_trade f) = cmd_market_event_id cmd"
    by (auto simp: opens_def)
  from opens obtain p0 where p0: "case pos of Some p \<Rightarrow> p0 = p | None \<Rightarrow> blank_for (si_position ids) r p0"
    and grow: "position_grows v p0 (fo_position f)" and dp: "d_position_id (fo_detail f) = p_position_id p0"
    by (auto simp: opens_def)
  have backed: "order_backed (db_allocations d) (fo_order f)"
    using flag isopen by (simp add: order_backed_def order_closes_def)
  note accounts = book_accounts_step [OF book r a move rows(2)]
  note orders = book_orders_step [OF book rows(1) backed]
  note positions = filled_positions_book [OF book pos fresh p0 grow v dp dt(3,4)]
  have "of_detail (si_detail ids) x = False" if "x \<in> set (db_allocations d)" for x
    using fresh that unfolding fresh_ids_def of_detail_def by (metis imageI)
  then have "detail_backed (db_allocations d) (fo_detail f)"
    using dt(2,3) sum_of_zero [of "db_allocations d" "of_detail (si_detail ids)"]
    by (simp add: detail_backed_def)
  then have details: "\<forall>x \<in> set (db_details d @ [fo_detail f]).
      detail_ok x \<and> detail_backed (db_allocations d) x"
    "distinct (map d_position_detail_id (db_details d @ [fo_detail f]))"
    using book dt(1,2) fresh by (auto simp: book_ok_def keys_ok_def fresh_ids_def)
  have "distinct (map (\<lambda>t. (t_order_id t, t_market_event_id t)) (db_trades d @ [fo_trade f]))"
    using book new tr
    by (auto simp: book_ok_def keys_ok_def get_trade_by_order_market_event_def find_None_iff)
  moreover have "write_open_fill pos f d
     = d\<lparr>db_accounts := replace_row a_account_id (fo_account f) (db_accounts d),
         db_orders := replace_row o_order_id (fo_order f) (db_orders d),
         db_positions := filled_positions pos (fo_position f) (db_positions d),
         db_details := db_details d @ [fo_detail f], db_trades := db_trades d @ [fo_trade f]\<rparr>"
    by (simp add: write_open_fill_def filled_positions_def put_defs split: option.split)
  ultimately show ?thesis
    using accounts orders positions details book
    by (simp add: book_ok_def keys_ok_def position_key_def [abs_def])
qed

section \<open>Both paths open\<close>

lemma futures_fill_bounds:
  assumes "order_row_ok r" "0 < v" "v \<le> o_remaining_volume r"
  shows "0 \<le> futures_fill_margin r v" "futures_fill_margin r v \<le> o_frozen_margin r"
    "is_money (futures_fill_margin r v)" "0 \<le> futures_fill_released r v"
    "futures_fill_released r v \<le> o_frozen_commission r" "is_money (futures_fill_released r v)"
  using assms
  by (auto simp: futures_fill_margin_def futures_fill_released_def order_row_ok_def
      intro: futures_alloc.part_nonneg futures_alloc.part_le futures_alloc.part_money)

lemma option_fill_bounds:
  assumes "order_row_ok r" "0 < v" "v \<le> o_remaining_volume r"
  shows "0 \<le> option_fill_margin r v" "option_fill_margin r v \<le> o_frozen_margin r"
    "is_money (option_fill_margin r v)" "0 \<le> option_fill_cash r v"
    "option_fill_cash r v \<le> o_frozen_cash r" "is_money (option_fill_cash r v)"
    "0 \<le> option_fill_commission r v" "option_fill_commission r v \<le> o_frozen_commission r"
    "is_money (option_fill_commission r v)"
  using assms
  by (auto simp: option_fill_margin_def option_fill_cash_def option_fill_commission_def
      order_row_ok_def intro: option_alloc.part_nonneg option_alloc.part_le option_alloc.part_money)

lemma open_filled_order_row:
  assumes "order_row_ok r" "0 < v" "v \<le> o_remaining_volume r"
    "is_money m" "m \<le> o_frozen_margin r" "is_money c" "c \<le> o_frozen_commission r"
  shows "order_row_ok (open_filled_order now v price m c r)"
    and "o_frozen_margin (open_filled_order now v price m c r) = o_frozen_margin r - m"
    and "o_frozen_commission (open_filled_order now v price m c r) = o_frozen_commission r - c"
    and "o_frozen_cash (open_filled_order now v price m c r) = o_frozen_cash r"
    and "o_order_id (open_filled_order now v price m c r) = o_order_id r"
    and "o_account_id (open_filled_order now v price m c r) = o_account_id r"
    and "o_offset_flag (open_filled_order now v price m c r) = o_offset_flag r"
  using assms
  by (auto simp: open_filled_order_def filled_order_def Let_def order_row_ok_def
      order_volume_balanced_def is_money_diff)

lemma position_to_fill_cases:
  "case pos of Some p \<Rightarrow> position_to_fill pid now r it m pos = p
             | None \<Rightarrow> blank_for pid r (position_to_fill pid now r it m pos)"
  by (auto simp: position_to_fill_def split: option.split)

lemma futures_opens:
  assumes fill: "futures_open_fill ids cmd now r a pos v price = Inr f"
    and rows: "order_row_ok r" "account_row_ok a" and v: "0 < v" "v \<le> o_remaining_volume r"
    and same: "a_account_id a = o_account_id r"
  shows "opens ids cmd r a pos v f"
proof -
  from fill obtain commission multiplier p0 where
    fee: "fee_from_snapshot price v (o_commission_type r) (o_commission_parameter r)
       (Some multiplier) = Inr commission"
    and p0: "p0 = position_to_fill (si_position ids) now r FUTURES multiplier pos"
    and f: "fo_trade f = futures_open_trade ids cmd now r v price
       (quantize_money (price * of_int v * multiplier)) (futures_fill_margin r v) commission"
    "fo_order f = open_filled_order now v price (futures_fill_margin r v)
       (futures_fill_released r v) r"
    "fo_account f = futures_filled_account now (futures_fill_margin r v)
       (futures_fill_released r v) commission a"
    "fo_position f = futures_filled_position now r v price
       (quantize_money (price * of_int v * multiplier)) (futures_fill_margin r v) p0"
    "fo_detail f = futures_open_detail ids now r (p_position_id p0) v price
       (futures_fill_margin r v) multiplier commission"
    by (rule futures_open_fill_Inr) blast
  note b = futures_fill_bounds [OF rows(1) v]
  note o' = open_filled_order_row [OF rows(1) v b(3,2,6,5)]
  have fee_ok: "0 < price" "0 < multiplier" using fee by (auto simp: fee_from_snapshot_Inr_iff)
  have account: "account_row_ok (fo_account f)"
    "a_frozen_margin (fo_account f) = a_frozen_margin a - futures_fill_margin r v"
    "a_frozen_commission (fo_account f) = a_frozen_commission a - futures_fill_released r v"
    "a_frozen_cash (fo_account f) = a_frozen_cash a"
    "a_account_id (fo_account f) = a_account_id a"
    using rows(2) b by (auto simp: f futures_filled_account_def Let_def account_row_ok_def is_money_diff)
  have move: "pools_move_together r a (fo_order f) (fo_account f)"
    using o' account by (simp add: pools_move_together_def f(2))
  have pos: "case pos of Some p \<Rightarrow> p0 = p | None \<Rightarrow> blank_for (si_position ids) r p0"
    unfolding p0 by (rule position_to_fill_cases)
  have grow: "position_grows v p0 (fo_position f)"
    by (simp add: f position_grows_def futures_filled_position_def Let_def)
  have detail: "detail_ok (fo_detail f)" "d_position_detail_id (fo_detail f) = si_detail ids"
    "d_frozen_volume (fo_detail f) = 0" "d_remaining_volume (fo_detail f) = v"
    "d_position_id (fo_detail f) = p_position_id p0" "is_money (d_remaining_margin (fo_detail f))"
    "d_original_volume (fo_detail f) = v" "d_account_id (fo_detail f) = o_account_id r"
    "a_used_margin (fo_account f)
       = quantize_money (a_used_margin a + d_remaining_margin (fo_detail f))"
    using b v fee_ok by (simp_all add: f detail_ok_def futures_open_detail_def
        futures_filled_account_def Let_def)
  have rest: "o_offset_flag (fo_order f) = o_offset_flag r" "order_row_ok (fo_order f)"
    "t_order_id (fo_trade f) = o_order_id r"
    "t_market_event_id (fo_trade f) = cmd_market_event_id cmd"
    using o' by (simp_all add: f futures_open_trade_def)
  from move pos grow detail rest account(1) show ?thesis unfolding opens_def by blast
qed

lemma revalued_pools [simp]:
  "a_frozen_margin (revalued ratio a) = a_frozen_margin a"
  "a_frozen_cash (revalued ratio a) = a_frozen_cash a"
  "a_frozen_commission (revalued ratio a) = a_frozen_commission a"
  "a_account_id (revalued ratio a) = a_account_id a"
  "is_money (a_available_cash (revalued ratio a))"
  "is_money (a_risk_available_cash (revalued ratio a))"
  by (simp_all add: revalued_def valuation_of_def account_valuation_def Let_def)

lemma option_moved_account_pools [simp]:
  "a_frozen_margin (option_moved_account r m k c x p a) = quantize_money (a_frozen_margin a - m)"
  "a_frozen_cash (option_moved_account r m k c x p a) = quantize_money (a_frozen_cash a - k)"
  "a_frozen_commission (option_moved_account r m k c x p a)
     = quantize_money (a_frozen_commission a - c)"
  "a_account_id (option_moved_account r m k c x p a) = a_account_id a"
  by (simp_all add: option_moved_account_def Let_def)

lemma option_filled_account_pools:
  "a_frozen_margin (option_filled_account ratio now r m k c x p a) = quantize_money (a_frozen_margin a - m)"
  "a_frozen_cash (option_filled_account ratio now r m k c x p a) = quantize_money (a_frozen_cash a - k)"
  "a_frozen_commission (option_filled_account ratio now r m k c x p a)
     = quantize_money (a_frozen_commission a - c)"
  "a_account_id (option_filled_account ratio now r m k c x p a) = a_account_id a"
  "is_money (a_available_cash (option_filled_account ratio now r m k c x p a))"
  "is_money (a_risk_available_cash (option_filled_account ratio now r m k c x p a))"
  by (simp_all add: option_filled_account_def Let_def)

lemma option_opens:
  assumes fill: "option_open_fill ratio ids cmd now r a pos v price = Inr f"
    and rows: "order_row_ok r" "account_row_ok a" and v: "0 < v" "v \<le> o_remaining_volume r"
    and same: "a_account_id a = o_account_id r"
  shows "opens ids cmd r a pos v f"
proof -
  from fill obtain commission multiplier p0 premium where
    fee: "fee_from_snapshot price v (o_commission_type r) (o_commission_parameter r)
       (Some multiplier) = Inr commission"
    and p0: "p0 = position_to_fill (si_position ids) now r (o_instrument_type r) multiplier pos"
    and f: "fo_trade f = option_open_trade ids cmd now r v price premium (option_fill_margin r v)
       commission"
    "fo_order f = option_filled_order now v price (option_fill_margin r v)
       (option_fill_cash r v) (option_fill_commission r v) r"
    "fo_account f = option_filled_account ratio now r (option_fill_margin r v)
       (option_fill_cash r v) (option_fill_commission r v) commission premium a"
    "fo_position f = option_filled_position now r v price premium (option_fill_margin r v) p0"
    "fo_detail f = option_open_detail ids now r (p_position_id p0) v price
       (option_fill_margin r v) multiplier commission"
    by (rule option_open_fill_Inr) blast
  note b = option_fill_bounds [OF rows(1) v]
  note o' = open_filled_order_row [OF rows(1) v b(3,2,9,8)]
  have fee_ok: "0 < price" "0 < multiplier" using fee by (auto simp: fee_from_snapshot_Inr_iff)
  have order: "order_row_ok (fo_order f)" "o_frozen_cash (fo_order f) = o_frozen_cash r - option_fill_cash r v"
    using o' b(4,5,6) rows(1)
    by (auto simp: f option_filled_order_def order_row_ok_def is_money_diff order_volume_balanced_def)
  have account: "account_row_ok (fo_account f)"
    "a_frozen_margin (fo_account f) = a_frozen_margin a - option_fill_margin r v"
    "a_frozen_commission (fo_account f) = a_frozen_commission a - option_fill_commission r v"
    "a_frozen_cash (fo_account f) = a_frozen_cash a - option_fill_cash r v"
    "a_account_id (fo_account f) = a_account_id a"
    using rows(2) b option_filled_account_pools [of ratio now r "option_fill_margin r v"
        "option_fill_cash r v" "option_fill_commission r v" commission premium a]
    by (simp_all add: f account_row_ok_def is_money_diff)
  have move: "pools_move_together r a (fo_order f) (fo_account f)"
    using o' order account by (simp add: pools_move_together_def f(2) option_filled_order_def)
  have pos: "case pos of Some p \<Rightarrow> p0 = p | None \<Rightarrow> blank_for (si_position ids) r p0"
    unfolding p0 by (rule position_to_fill_cases)
  have grow: "position_grows v p0 (fo_position f)"
    by (simp add: f position_grows_def option_filled_position_def Let_def)
  have detail: "detail_ok (fo_detail f)" "d_position_detail_id (fo_detail f) = si_detail ids"
    "d_frozen_volume (fo_detail f) = 0" "d_remaining_volume (fo_detail f) = v"
    "d_position_id (fo_detail f) = p_position_id p0" "is_money (d_remaining_margin (fo_detail f))"
    "d_original_volume (fo_detail f) = v" "d_account_id (fo_detail f) = o_account_id r"
    "a_used_margin (fo_account f)
       = quantize_money (a_used_margin a + d_remaining_margin (fo_detail f))"
    using b v fee_ok by (simp_all add: f detail_ok_def option_open_detail_def
        option_filled_account_def option_moved_account_def revalued_def Let_def)
  have rest: "o_offset_flag (fo_order f) = o_offset_flag r" "order_row_ok (fo_order f)"
    "t_order_id (fo_trade f) = o_order_id r"
    "t_market_event_id (fo_trade f) = cmd_market_event_id cmd"
    using o' order(1) by (simp_all add: f option_filled_order_def option_open_trade_def)
  from move pos grow detail rest account(1) show ?thesis unfolding opens_def by blast
qed

end
