(* ===== verification/Close_Settlement_Book.thy ===== *)
theory Close_Settlement_Book
  imports Open_Settlement_Book "HOL-Library.Sublist"
begin

text \<open>
  A closing fill keeps the book consistent. The consumption loop is taken apart once, into the facts
  \<open>consumption_ok\<close> of each consumption; the rows after the fill are then the images of the old rows
  under \<open>consumed_detail\<close> and \<open>consumed_allocation\<close>.
\<close>

section \<open>The consumption loop\<close>

definition consumption_ok ::
  "bool \<Rightarrow> order \<Rightarrow> position_direction \<Rightarrow> decimal \<Rightarrow> detail list \<Rightarrow> close_consumption \<Rightarrow> bool" where
  "consumption_ok io r dir price details c \<longleftrightarrow>
     find_row d_position_detail_id (f_position_detail_id (cc_allocation c)) details
       = Some (cc_detail c)
     \<and> 0 < cc_volume c \<and> cc_volume c \<le> f_remaining_frozen_volume (cc_allocation c)
     \<and> margin_release (d_remaining_margin (cc_detail c)) (cc_volume c)
         (d_remaining_volume (cc_detail c)) = Inr (cc_released_margin c)
     \<and> (if io then margin_release (d_realtime_required_margin (cc_detail c)) (cc_volume c)
                    (d_remaining_volume (cc_detail c)) = Inr (cc_released_realtime_margin c)
        else cc_released_realtime_margin c = 0)
     \<and> cc_released_frozen_commission c
         = close_allocate_frozen_commission (f_remaining_frozen_commission (cc_allocation c))
             (cc_volume c) (f_remaining_frozen_volume (cc_allocation c))
     \<and> realized_pnl (o_direction r) (d_open_price (cc_detail c)) price (cc_volume c)
         (d_multiplier_snapshot (cc_detail c)) = Inr (cc_realized_pnl c)
     \<and> (\<exists>q. calculate_close dir price (d_open_price (cc_detail c))
               (d_pnl_base_price (cc_detail c)) (cc_volume c)
               (d_multiplier_snapshot (cc_detail c)) = Inr q
          \<and> cc_daily_close_pnl c = cp_daily_close_pnl q)"

lemma close_consume_ok:
  assumes "close_consume io r dir price f dt v = Inr c"
    "find_row d_position_detail_id (f_position_detail_id f) details = Some dt"
    "0 < v" "v \<le> f_remaining_frozen_volume f"
  shows "consumption_ok io r dir price details c \<and> cc_allocation c = f \<and> cc_volume c = v"
  using assms
  by (auto simp: close_consume_def consumption_ok_def rbind_Inr_iff split: if_splits)

lemma consume_loop_Inr:
  assumes "consume_loop io r p dir price details rem fs = Inr (cs, rest)" "0 \<le> rem"
  shows "(\<forall>c \<in> set cs. consumption_ok io r dir price details c)
    \<and> subseq (map cc_allocation cs) fs
    \<and> sum_list (map cc_volume cs) + rest = rem \<and> 0 \<le> rest"
  using assms
proof (induction fs arbitrary: rem cs)
  case Nil
  then show ?case by simp
next
  case (Cons f fs)
  show ?case
  proof (cases "rem = 0 \<or> f_remaining_frozen_volume f \<le> 0")
    case True
    with Cons show ?thesis by (cases "rem = 0") auto
  next
    case False
    then have pos: "rem \<noteq> 0" "0 < f_remaining_frozen_volume f" by auto
    let ?v = "min (f_remaining_frozen_volume f) rem"
    from Cons.prems(1) pos obtain dt c cs' where
      dt: "find_row d_position_detail_id (f_position_detail_id f) details = Some dt"
      and c: "close_consume io r dir price f dt ?v = Inr c"
      and loop: "consume_loop io r p dir price details (rem - ?v) fs = Inr (cs', rest)"
      and cs: "cs = c # cs'"
      by (auto simp: Let_def rbind_Inr_iff split: option.splits if_splits)
    have v: "0 < ?v" "?v \<le> f_remaining_frozen_volume f" using pos Cons.prems(2) by auto
    note ok = close_consume_ok [OF c dt v]
    have "0 \<le> rem - ?v" by simp
    from Cons.IH [OF loop this] ok cs show ?thesis by auto
  qed
qed

text \<open>The commissions are filled in afterwards and nothing else is changed.\<close>

lemma consumption_ok_commission [simp]:
  "consumption_ok io r dir price details (c\<lparr>cc_actual_commission := x\<rparr>)
     = consumption_ok io r dir price details c"
  by (simp add: consumption_ok_def)

lemma map_with_commissions:
  assumes "length xs = length cs" "\<And>c x. g (c\<lparr>cc_actual_commission := x\<rparr>) = g c"
  shows "map g (map (\<lambda>(c, x). c\<lparr>cc_actual_commission := x\<rparr>) (zip cs xs)) = map g cs"
  using assms(1)
proof (induction cs arbitrary: xs)
  case (Cons c cs)
  then show ?case by (cases xs) (auto simp: assms(2))
qed simp

definition consumptions_ok ::
  "bool \<Rightarrow> order \<Rightarrow> position_direction \<Rightarrow> decimal \<Rightarrow> detail list \<Rightarrow> freeze_allocation list \<Rightarrow> int
   \<Rightarrow> close_consumption list \<Rightarrow> bool" where
  "consumptions_ok io r dir price details fs v cs \<longleftrightarrow>
     (\<forall>c \<in> set cs. consumption_ok io r dir price details c)
     \<and> subseq (map cc_allocation cs) fs \<and> sum_list (map cc_volume cs) = v
     \<and> calculate_bucket_allocations price
         (map (\<lambda>c. \<lparr>be_key = bucket_key (cc_allocation c), be_volume = cc_volume c\<rparr>) cs)
         = Inr (map cc_actual_commission cs)"

lemma map_commissions:
  "length xs = length cs \<Longrightarrow>
     map cc_actual_commission (map (\<lambda>(c, x). c\<lparr>cc_actual_commission := x\<rparr>) (zip cs xs)) = xs"
proof (induction cs arbitrary: xs)
  case (Cons c cs)
  then show ?case by (cases xs) auto
qed simp

lemma close_consumptions_ok:
  assumes "close_consumptions io r p dir price details v fs = Inr cs" "0 \<le> v"
  shows "consumptions_ok io r dir price details fs v cs"
proof -
  from assms(1) obtain cs0 xs where loop: "consume_loop io r p dir price details v fs = Inr (cs0, 0)"
    and xs: "calculate_bucket_allocations price
        (map (\<lambda>c. \<lparr>be_key = bucket_key (cc_allocation c), be_volume = cc_volume c\<rparr>) cs0) = Inr xs"
    and cs: "cs = map (\<lambda>(c, x). c\<lparr>cc_actual_commission := x\<rparr>) (zip cs0 xs)"
    by (auto simp: close_consumptions_def rbind_Inr_iff split: if_splits)
  have len: "length xs = length cs0" using calculate_bucket_allocations_Inr [OF xs] by simp
  note base = consume_loop_Inr [OF loop assms(2)]
  have m: "map cc_allocation cs = map cc_allocation cs0" "map cc_volume cs = map cc_volume cs0"
    "map (\<lambda>c. \<lparr>be_key = bucket_key (cc_allocation c), be_volume = cc_volume c\<rparr>) cs
      = map (\<lambda>c. \<lparr>be_key = bucket_key (cc_allocation c), be_volume = cc_volume c\<rparr>) cs0"
    "map (consumption_ok io r dir price details) cs = map (consumption_ok io r dir price details) cs0"
    unfolding cs by (rule map_with_commissions [OF len], simp)+
  have "\<forall>c \<in> set cs. consumption_ok io r dir price details c"
    using base m(4) by (metis (no_types, lifting) in_set_conv_nth length_map nth_map)
  moreover have "map cc_actual_commission cs = xs" unfolding cs by (rule map_commissions [OF len])
  ultimately show ?thesis using base m(1,2,3) xs by (simp add: consumptions_ok_def)
qed

section \<open>The rows afterwards, one by one\<close>

definition on_detail :: "string \<Rightarrow> close_consumption \<Rightarrow> bool" where
  "on_detail k c \<longleftrightarrow> d_position_detail_id (cc_detail c) = k"

definition on_allocation :: "string \<Rightarrow> close_consumption \<Rightarrow> bool" where
  "on_allocation k c \<longleftrightarrow> f_allocation_id (cc_allocation c) = k"

definition consumed_detail ::
  "bool \<Rightarrow> datetime \<Rightarrow> close_consumption list \<Rightarrow> detail \<Rightarrow> detail" where
  "consumed_detail io now cs dt =
     fold (consume_detail io now) (filter (on_detail (d_position_detail_id dt)) cs) dt"

definition consumed_allocation ::
  "datetime \<Rightarrow> close_consumption list \<Rightarrow> freeze_allocation \<Rightarrow> freeze_allocation" where
  "consumed_allocation now cs f =
     fold (consume_allocation now) (filter (on_allocation (f_allocation_id f)) cs) f"

lemma consume_detail_frame [simp]:
  "d_position_detail_id (consume_detail io now c dt) = d_position_detail_id dt"
  "d_position_id (consume_detail io now c dt) = d_position_id dt"
  "d_account_id (consume_detail io now c dt) = d_account_id dt"
  "d_original_volume (consume_detail io now c dt) = d_original_volume dt"
  "d_remaining_volume (consume_detail io now c dt) = d_remaining_volume dt - cc_volume c"
  "d_frozen_volume (consume_detail io now c dt) = d_frozen_volume dt - cc_volume c"
  by (simp_all add: consume_detail_def Let_def)

lemma consume_allocation_frame [simp]:
  "f_allocation_id (consume_allocation now c f) = f_allocation_id f"
  "f_order_id (consume_allocation now c f) = f_order_id f"
  "f_position_detail_id (consume_allocation now c f) = f_position_detail_id f"
  "f_remaining_frozen_volume (consume_allocation now c f)
     = f_remaining_frozen_volume f - cc_volume c"
  by (simp_all add: consume_allocation_def Let_def)

lemma fold_consume_detail_frame:
  "d_position_detail_id (fold (consume_detail io now) cs dt) = d_position_detail_id dt
   \<and> d_position_id (fold (consume_detail io now) cs dt) = d_position_id dt
   \<and> d_account_id (fold (consume_detail io now) cs dt) = d_account_id dt
   \<and> d_original_volume (fold (consume_detail io now) cs dt) = d_original_volume dt
   \<and> d_remaining_volume (fold (consume_detail io now) cs dt)
       = d_remaining_volume dt - sum_list (map cc_volume cs)
   \<and> d_frozen_volume (fold (consume_detail io now) cs dt)
       = d_frozen_volume dt - sum_list (map cc_volume cs)"
  by (induction cs arbitrary: dt) auto

lemma fold_consume_allocation_frame:
  "f_allocation_id (fold (consume_allocation now) cs f) = f_allocation_id f
   \<and> f_order_id (fold (consume_allocation now) cs f) = f_order_id f
   \<and> f_position_detail_id (fold (consume_allocation now) cs f) = f_position_detail_id f
   \<and> f_remaining_frozen_volume (fold (consume_allocation now) cs f)
       = f_remaining_frozen_volume f - sum_list (map cc_volume cs)"
  by (induction cs arbitrary: f) auto

lemma consumed_detail_frame [simp]:
  "d_position_detail_id (consumed_detail io now cs dt) = d_position_detail_id dt"
  "d_position_id (consumed_detail io now cs dt) = d_position_id dt"
  "d_account_id (consumed_detail io now cs dt) = d_account_id dt"
  "d_original_volume (consumed_detail io now cs dt) = d_original_volume dt"
  "d_remaining_volume (consumed_detail io now cs dt)
     = d_remaining_volume dt - sum_of (on_detail (d_position_detail_id dt)) cc_volume cs"
  "d_frozen_volume (consumed_detail io now cs dt)
     = d_frozen_volume dt - sum_of (on_detail (d_position_detail_id dt)) cc_volume cs"
  by (simp_all add: consumed_detail_def fold_consume_detail_frame sum_of_filter)

lemma consumed_allocation_frame [simp]:
  "f_allocation_id (consumed_allocation now cs f) = f_allocation_id f"
  "f_order_id (consumed_allocation now cs f) = f_order_id f"
  "f_position_detail_id (consumed_allocation now cs f) = f_position_detail_id f"
  "f_remaining_frozen_volume (consumed_allocation now cs f)
     = f_remaining_frozen_volume f - sum_of (on_allocation (f_allocation_id f)) cc_volume cs"
  by (simp_all add: consumed_allocation_def fold_consume_allocation_frame sum_of_filter)

text \<open>The loops over the tables are maps.\<close>

lemma consume_details_map: "consume_details io now cs dts = map (consumed_detail io now cs) dts"
proof (induction cs arbitrary: dts)
  case Nil
  then show ?case by (simp add: consume_details_def consumed_detail_def map_idI)
next
  case (Cons c cs)
  have "consumed_detail io now cs (if d_position_detail_id dt = d_position_detail_id (cc_detail c)
          then consume_detail io now c dt else dt) = consumed_detail io now (c # cs) dt" for dt
    by (simp add: consumed_detail_def on_detail_def [abs_def])
  with Cons show ?case by (simp add: consume_details_def comp_def)
qed

lemma consume_allocations_map:
  "consume_allocations now cs fs = map (consumed_allocation now cs) fs"
proof (induction cs arbitrary: fs)
  case Nil
  then show ?case by (simp add: consume_allocations_def consumed_allocation_def map_idI)
next
  case (Cons c cs)
  have "consumed_allocation now cs (if f_allocation_id f = f_allocation_id (cc_allocation c)
          then consume_allocation now c f else f) = consumed_allocation now (c # cs) f" for f
    by (simp add: consumed_allocation_def on_allocation_def [abs_def])
  with Cons show ?case by (simp add: consume_allocations_def comp_def)
qed

text \<open>With one consumption per row, a row is untouched or consumed once.\<close>

lemma filter_single:
  assumes "distinct (map g cs)" "c \<in> set cs" "g c = k"
  shows "filter (\<lambda>x. g x = k) cs = [c]"
  using assms
proof (induction cs)
  case (Cons x cs)
  show ?case
  proof (cases "x = c")
    case True
    have "g y \<noteq> k" if "y \<in> set cs" for y
      using Cons.prems True that by (metis distinct.simps(2) imageI image_set list.simps(9))
    then have "filter (\<lambda>x. g x = k) cs = []" by (simp add: filter_empty_conv)
    with True Cons.prems show ?thesis by simp
  next
    case False
    with Cons.prems have "c \<in> set cs" "g x \<noteq> k" by auto
    with Cons show ?thesis by simp
  qed
qed simp

lemma consumed_detail_cases:
  assumes "distinct (map (\<lambda>c. d_position_detail_id (cc_detail c)) cs)"
  shows "(\<forall>c \<in> set cs. d_position_detail_id (cc_detail c) \<noteq> d_position_detail_id dt)
           \<and> consumed_detail io now cs dt = dt
       \<or> (\<exists>c \<in> set cs. d_position_detail_id (cc_detail c) = d_position_detail_id dt
           \<and> consumed_detail io now cs dt = consume_detail io now c dt)"
proof (cases "\<exists>c \<in> set cs. d_position_detail_id (cc_detail c) = d_position_detail_id dt")
  case True
  then obtain c where "c \<in> set cs" "d_position_detail_id (cc_detail c) = d_position_detail_id dt" ..
  with filter_single [OF assms this] show ?thesis
    by (auto simp: consumed_detail_def on_detail_def [abs_def])
next
  case False
  then have "filter (on_detail (d_position_detail_id dt)) cs = []"
    by (auto simp: filter_empty_conv on_detail_def)
  with False show ?thesis by (simp add: consumed_detail_def)
qed

lemma consumed_allocation_cases:
  assumes "distinct (map (\<lambda>c. f_allocation_id (cc_allocation c)) cs)"
  shows "(\<forall>c \<in> set cs. f_allocation_id (cc_allocation c) \<noteq> f_allocation_id f)
           \<and> consumed_allocation now cs f = f
       \<or> (\<exists>c \<in> set cs. f_allocation_id (cc_allocation c) = f_allocation_id f
           \<and> consumed_allocation now cs f = consume_allocation now c f)"
proof (cases "\<exists>c \<in> set cs. f_allocation_id (cc_allocation c) = f_allocation_id f")
  case True
  then obtain c where "c \<in> set cs" "f_allocation_id (cc_allocation c) = f_allocation_id f" ..
  with filter_single [OF assms this] show ?thesis
    by (auto simp: consumed_allocation_def on_allocation_def [abs_def])
next
  case False
  then have "filter (on_allocation (f_allocation_id f)) cs = []"
    by (auto simp: filter_empty_conv on_allocation_def)
  with False show ?thesis by (simp add: consumed_allocation_def)
qed

section \<open>How the consumptions hang on the tables\<close>

text \<open>
  Beside the book, settlement relies on two more facts of the schema: margins are stored with six
  decimals, and an order has at most one allocation per detail (\<open>uq_position_freeze_order_detail\<close>).
\<close>

definition settle_ready :: "db \<Rightarrow> bool" where
  "settle_ready d \<longleftrightarrow> (\<forall>dt \<in> set (db_details d). is_money (d_remaining_margin dt))
     \<and> distinct (map (\<lambda>f. (f_order_id f, f_position_detail_id f)) (db_allocations d))"

definition linked_consumptions :: "db \<Rightarrow> order \<Rightarrow> position \<Rightarrow> close_consumption list \<Rightarrow> bool" where
  "linked_consumptions d r p cs \<longleftrightarrow>
     distinct (map (\<lambda>c. f_allocation_id (cc_allocation c)) cs)
     \<and> distinct (map (\<lambda>c. d_position_detail_id (cc_detail c)) cs)
     \<and> (\<forall>c \<in> set cs. cc_allocation c \<in> set (db_allocations d)
          \<and> f_order_id (cc_allocation c) = o_order_id r
          \<and> cc_detail c \<in> set (db_details d) \<and> d_position_id (cc_detail c) = p_position_id p
          \<and> d_account_id (cc_detail c) = o_account_id r
          \<and> f_position_detail_id (cc_allocation c) = d_position_detail_id (cc_detail c)
          \<and> cc_volume c \<le> d_frozen_volume (cc_detail c)
          \<and> cc_volume c \<le> d_remaining_volume (cc_detail c))"

lemma subseq_members: "subseq xs ys \<Longrightarrow> set xs \<subseteq> set ys"
  by (auto elim: list_emb_set)

lemma subseq_distinct_map: "subseq xs ys \<Longrightarrow> distinct (map g ys) \<Longrightarrow> distinct (map g xs)"
  by (metis subseq_conv_nths subseq_map distinct_nthsI)

lemma consumptions_linked:
  assumes book: "book_ok d" and ready: "settle_ready d"
    and fs: "fs = list_allocations_by_order d (o_order_id r)"
    and details: "details = list_details_by_ids d (p_position_id p) ids"
    and checked: "list_all (close_allocation_ok r p dir details) fs"
    and cs: "consumptions_ok io r dir price details fs v cs"
  shows "linked_consumptions d r p cs"
proof -
  have alloc_in: "cc_allocation c \<in> set fs" if "c \<in> set cs" for c
    using cs that subseq_members [of "map cc_allocation cs" fs]
    by (auto simp: consumptions_ok_def)
  have each: "cc_allocation c \<in> set (db_allocations d)
      \<and> f_order_id (cc_allocation c) = o_order_id r
      \<and> cc_detail c \<in> set (db_details d) \<and> d_position_id (cc_detail c) = p_position_id p
      \<and> d_account_id (cc_detail c) = o_account_id r
      \<and> f_position_detail_id (cc_allocation c) = d_position_detail_id (cc_detail c)
      \<and> cc_volume c \<le> d_frozen_volume (cc_detail c)
      \<and> cc_volume c \<le> d_remaining_volume (cc_detail c)" if c: "c \<in> set cs" for c
  proof -
    have ok: "consumption_ok io r dir price details c" using cs c by (simp add: consumptions_ok_def)
    then have row: "find_row d_position_detail_id (f_position_detail_id (cc_allocation c)) details
        = Some (cc_detail c)" and v: "cc_volume c \<le> f_remaining_frozen_volume (cc_allocation c)"
      by (simp_all add: consumption_ok_def)
    note member = find_row_SomeD [OF row]
    have "close_allocation_ok r p dir details (cc_allocation c)"
      using checked alloc_in [OF c] by (simp add: list_all_iff)
    with row v alloc_in [OF c] member show ?thesis
      by (auto simp: close_allocation_ok_def fs details list_allocations_by_order_def
          list_details_by_ids_def)
  qed
  have sub: "subseq (map cc_allocation cs) fs" using cs by (simp add: consumptions_ok_def)
  have "distinct (map f_allocation_id fs)"
    using book by (auto simp: book_ok_def keys_ok_def fs list_allocations_by_order_def
        intro: distinct_map_filter)
  from subseq_distinct_map [OF sub this]
  have ids: "distinct (map (\<lambda>c. f_allocation_id (cc_allocation c)) cs)" by (simp add: comp_def)
  have "distinct (map (\<lambda>f. (f_order_id f, f_position_detail_id f)) fs)"
    using ready by (auto simp: settle_ready_def fs list_allocations_by_order_def
        intro: distinct_map_filter)
  from subseq_distinct_map [OF sub this]
  have "distinct (map (\<lambda>c. (f_order_id (cc_allocation c), f_position_detail_id (cc_allocation c))) cs)"
    by (simp add: comp_def)
  moreover have "map (\<lambda>c. (f_order_id (cc_allocation c), f_position_detail_id (cc_allocation c))) cs
      = map (Pair (o_order_id r)) (map (\<lambda>c. d_position_detail_id (cc_detail c)) cs)"
    using each by simp
  ultimately have "distinct (map (\<lambda>c. d_position_detail_id (cc_detail c)) cs)"
    by (metis distinct_map)
  with ids each show ?thesis unfolding linked_consumptions_def by blast
qed

section \<open>One consumed row\<close>

lemma consume_detail_ok:
  assumes "consumption_ok io r dir price details c" "detail_ok (cc_detail c)"
    "is_money (d_remaining_margin (cc_detail c))"
    "cc_volume c \<le> d_frozen_volume (cc_detail c)" "cc_volume c \<le> d_remaining_volume (cc_detail c)"
  shows "detail_ok (consume_detail io now c (cc_detail c))
    \<and> is_money (d_remaining_margin (consume_detail io now c (cc_detail c)))"
proof -
  let ?dt = "cc_detail c"
  from assms(1) have v: "0 < cc_volume c"
    and m: "margin_release (d_remaining_margin ?dt) (cc_volume c) (d_remaining_volume ?dt)
      = Inr (cc_released_margin c)"
    by (simp_all add: consumption_ok_def)
  then have "cc_released_margin c \<le> d_remaining_margin ?dt" "is_money (cc_released_margin c)"
    using assms(3) by (auto simp: margin_release_Inr_iff intro: margin_alloc.part_le margin_alloc.part_money)
  then have "0 \<le> quantize_money (d_remaining_margin ?dt - cc_released_margin c)" by simp
  with assms(2,4,5) v show ?thesis
    by (auto simp: detail_ok_def consume_detail_def Let_def)
qed

lemma consume_allocation_ok:
  assumes "consumption_ok io r dir price details c" "allocation_ok (cc_allocation c)"
    "is_money (f_remaining_frozen_commission (cc_allocation c))"
    "is_money (f_consumed_commission (cc_allocation c))"
    "is_money (f_released_commission (cc_allocation c))"
  shows "allocation_ok (consume_allocation now c (cc_allocation c))
    \<and> is_money (f_remaining_frozen_commission (consume_allocation now c (cc_allocation c)))
    \<and> is_money (f_consumed_commission (consume_allocation now c (cc_allocation c)))
    \<and> is_money (f_released_commission (consume_allocation now c (cc_allocation c)))"
proof -
  let ?f = "cc_allocation c"
  from assms(1) have v: "0 < cc_volume c" "cc_volume c \<le> f_remaining_frozen_volume ?f"
    and m: "cc_released_frozen_commission c
      = close_allocate_frozen_commission (f_remaining_frozen_commission ?f) (cc_volume c)
          (f_remaining_frozen_volume ?f)"
    by (simp_all add: consumption_ok_def)
  have "0 \<le> f_remaining_frozen_commission ?f" using assms(2) by (simp add: allocation_ok_def)
  then have rel: "0 \<le> cc_released_frozen_commission c"
    "cc_released_frozen_commission c \<le> f_remaining_frozen_commission ?f"
    "is_money (cc_released_frozen_commission c)"
    unfolding m using v assms(3)
    by (auto intro: commission_alloc.part_nonneg commission_alloc.part_le commission_alloc.part_money)
  with assms(2-5) v show ?thesis
    by (auto simp: allocation_ok_def consume_allocation_def Let_def is_money_diff is_money_add)
qed

section \<open>What is taken in total\<close>

lemma taken_from_details:
  fixes g :: "close_consumption \<Rightarrow> 'n::ab_group_add"
  assumes book: "book_ok d" and linked: "linked_consumptions d r p cs"
    and same: "\<forall>c \<in> set cs. P (cc_detail c) \<longleftrightarrow> B"
  shows "sum_of P (\<lambda>dt. sum_of (on_detail (d_position_detail_id dt)) g cs) (db_details d)
       = (if B then sum_list (map g cs) else 0)"
proof -
  have keys: "distinct (map d_position_detail_id (db_details d))"
    using book by (simp add: book_ok_def keys_ok_def)
  have hit: "(\<exists>x \<in> set (db_details d). P x
        \<and> d_position_detail_id x = d_position_detail_id (cc_detail c)) \<longleftrightarrow> B" if "c \<in> set cs" for c
  proof -
    have y: "cc_detail c \<in> set (db_details d)" "P (cc_detail c) \<longleftrightarrow> B"
      using linked same that by (auto simp: linked_consumptions_def)
    then show ?thesis using distinct_key_eq [OF keys _ y(1)] by metis
  qed
  have eq: "on_detail k = (\<lambda>c. d_position_detail_id (cc_detail c) = k)" for k
    by (rule ext) (simp add: on_detail_def)
  have "sum_of P (\<lambda>dt. sum_of (on_detail (d_position_detail_id dt)) g cs) (db_details d)
     = sum_of (\<lambda>c. \<exists>x \<in> set (db_details d). P x
          \<and> d_position_detail_id x = d_position_detail_id (cc_detail c)) g cs"
    unfolding eq by (rule sum_of_by_key [OF keys])
  also have "\<dots> = sum_of (\<lambda>c. B) g cs"
    using hit by (intro sum_of_cong) auto
  finally show ?thesis by (simp add: sum_of_def)
qed

lemma taken_from_position:
  assumes "book_ok d" "linked_consumptions d r p cs"
  shows "sum_of (of_position pid) (\<lambda>dt. sum_of (on_detail (d_position_detail_id dt)) cc_volume cs)
       (db_details d) = (if pid = p_position_id p then sum_list (map cc_volume cs) else 0)"
  using assms(2)
  by (intro taken_from_details [OF assms]) (auto simp: linked_consumptions_def of_position_def)

lemma taken_from_allocations:
  assumes book: "book_ok d" and linked: "linked_consumptions d r p cs"
  shows "sum_of (of_detail k) (\<lambda>f. sum_of (on_allocation (f_allocation_id f)) cc_volume cs)
       (db_allocations d) = sum_of (on_detail k) cc_volume cs"
proof -
  have keys: "distinct (map f_allocation_id (db_allocations d))"
    using book by (simp add: book_ok_def keys_ok_def)
  have hit: "(\<exists>x \<in> set (db_allocations d). of_detail k x
        \<and> f_allocation_id x = f_allocation_id (cc_allocation c)) \<longleftrightarrow> on_detail k c"
    if "c \<in> set cs" for c
  proof -
    have y: "cc_allocation c \<in> set (db_allocations d)"
      "f_position_detail_id (cc_allocation c) = d_position_detail_id (cc_detail c)"
      using linked that by (auto simp: linked_consumptions_def)
    show ?thesis
    proof
      assume "\<exists>x \<in> set (db_allocations d). of_detail k x
        \<and> f_allocation_id x = f_allocation_id (cc_allocation c)"
      then obtain x where x: "x \<in> set (db_allocations d)" "of_detail k x"
        "f_allocation_id x = f_allocation_id (cc_allocation c)" by auto
      then have "x = cc_allocation c" using distinct_key_eq [OF keys x(1) y(1)] by metis
      with x(2) y(2) show "on_detail k c" by (simp add: of_detail_def on_detail_def)
    qed (use y in \<open>auto simp: of_detail_def on_detail_def\<close>)
  qed
  have eq: "on_allocation a = (\<lambda>c. f_allocation_id (cc_allocation c) = a)" for a
    by (rule ext) (simp add: on_allocation_def)
  have "sum_of (of_detail k) (\<lambda>f. sum_of (on_allocation (f_allocation_id f)) cc_volume cs)
       (db_allocations d)
     = sum_of (\<lambda>c. \<exists>x \<in> set (db_allocations d). of_detail k x
          \<and> f_allocation_id x = f_allocation_id (cc_allocation c)) cc_volume cs"
    unfolding eq by (rule sum_of_by_key [OF keys])
  also have "\<dots> = sum_of (on_detail k) cc_volume cs"
    using hit by (intro sum_of_cong) auto
  finally show ?thesis .
qed

section \<open>The tables after the fill\<close>

lemma details_written:
  assumes "book_ok d" "linked_consumptions d r p cs" "details = filter S (db_details d)"
    "\<forall>c \<in> set cs. S (cc_detail c)"
  shows "fold (replace_row d_position_detail_id) (consume_details io now cs details) (db_details d)
       = map (consumed_detail io now cs) (db_details d)"
proof -
  have keys: "distinct (map d_position_detail_id (db_details d))"
    using assms(1) by (simp add: book_ok_def keys_ok_def)
  have "consumed_detail io now cs x = x" if x: "x \<in> set (db_details d)" "\<not> S x" for x
  proof -
    have "d_position_detail_id (cc_detail c) \<noteq> d_position_detail_id x" if "c \<in> set cs" for c
      using assms(2,4) that x distinct_key_eq [OF keys] by (auto simp: linked_consumptions_def)
    then have "filter (on_detail (d_position_detail_id x)) cs = []"
      by (simp add: filter_empty_conv on_detail_def)
    then show ?thesis by (simp add: consumed_detail_def)
  qed
  then show ?thesis
    unfolding assms(3) consume_details_map
    by (subst write_back [OF keys]) (auto intro: map_cong)
qed

lemma allocations_written:
  assumes "book_ok d" "linked_consumptions d r p cs"
    "allocations = filter S (db_allocations d)" "\<forall>c \<in> set cs. S (cc_allocation c)"
  shows "fold (replace_row f_allocation_id) (consume_allocations now cs allocations)
           (db_allocations d) = map (consumed_allocation now cs) (db_allocations d)"
    "x \<in> set (db_allocations d) \<Longrightarrow> \<not> S x \<Longrightarrow> consumed_allocation now cs x = x"
proof -
  have keys: "distinct (map f_allocation_id (db_allocations d))"
    using assms(1) by (simp add: book_ok_def keys_ok_def)
  have same: "consumed_allocation now cs x = x" if x: "x \<in> set (db_allocations d)" "\<not> S x" for x
  proof -
    have "f_allocation_id (cc_allocation c) \<noteq> f_allocation_id x" if "c \<in> set cs" for c
      using assms(2,4) that x distinct_key_eq [OF keys] by (auto simp: linked_consumptions_def)
    then have "filter (on_allocation (f_allocation_id x)) cs = []"
      by (simp add: filter_empty_conv on_allocation_def)
    then show ?thesis by (simp add: consumed_allocation_def)
  qed
  then show "x \<in> set (db_allocations d) \<Longrightarrow> \<not> S x \<Longrightarrow> consumed_allocation now cs x = x" .
  show "fold (replace_row f_allocation_id) (consume_allocations now cs allocations)
           (db_allocations d) = map (consumed_allocation now cs) (db_allocations d)"
    unfolding assms(3) consume_allocations_map
    by (subst write_back [OF keys]) (auto intro: map_cong simp: same)
qed

section \<open>A successful closing fill, taken apart\<close>

definition close_direction :: "order \<Rightarrow> position_direction" where
  "close_direction r = closed_position_direction (o_direction r)"

text \<open>The data of a fill: the position, its details and allocations, the consumptions.\<close>

definition close_setup ::
  "db \<Rightarrow> order \<Rightarrow> int \<Rightarrow> decimal \<Rightarrow> position \<Rightarrow> detail list \<Rightarrow> freeze_allocation list
   \<Rightarrow> close_consumption list \<Rightarrow> bool" where
  "close_setup d r v price p details fs cs \<longleftrightarrow>
     get_position d (o_account_id r) (o_exchange_id r) (o_symbol r) (close_direction r) = Some p
     \<and> fs = list_allocations_by_order d (o_order_id r)
     \<and> details = list_details_by_ids d (p_position_id p) (remdups (map f_position_detail_id fs))
     \<and> 0 < v \<and> v \<le> o_remaining_volume r \<and> order_volume_balanced r
     \<and> list_all (close_allocation_ok r p (close_direction r) details) fs
     \<and> sum_list (map f_remaining_frozen_volume fs) = o_frozen_position_volume r
     \<and> o_frozen_position_volume r = o_remaining_volume r
     \<and> consumptions_ok (is_option_type (o_instrument_type r)) r (close_direction r) price details
         fs v cs"

definition close_position_after ::
  "datetime \<Rightarrow> db \<Rightarrow> order \<Rightarrow> int \<Rightarrow> close_totals \<Rightarrow> close_consumption list \<Rightarrow> position \<Rightarrow> position"
where
  "close_position_after now d r v t cs p =
     close_recomputed_position (o_trading_day r)
       (filter (\<lambda>x. 0 < d_remaining_volume x)
          (consume_details (is_option_type (o_instrument_type r)) now cs
             (list_open_details (db_details d) (p_position_id p))))
       (close_reduced_position (is_option_type (o_instrument_type r)) v t p)"

definition close_written ::
  "decimal \<Rightarrow> settlement_ids \<Rightarrow> settlement_command \<Rightarrow> datetime \<Rightarrow> db \<Rightarrow> order \<Rightarrow> account \<Rightarrow> int
   \<Rightarrow> decimal \<Rightarrow> position \<Rightarrow> detail list \<Rightarrow> freeze_allocation list \<Rightarrow> close_consumption list
   \<Rightarrow> close_totals \<Rightarrow> close_fill \<Rightarrow> bool" where
  "close_written ratio ids cmd now d r a v price p details fs cs t f \<longleftrightarrow>
     t = close_totals_of (is_option_type (o_instrument_type r)) r p v price cs
     \<and> cf_trade f = close_trade (is_option_type (o_instrument_type r)) ids cmd now r v price t
     \<and> cf_order f = close_filled_order (is_option_type (o_instrument_type r)) now v price t r
     \<and> cf_account f = close_filled_account ratio (is_option_type (o_instrument_type r)) now
         (close_direction r) (cf_trade f) t a
     \<and> cf_position f = (close_position_after now d r v t cs p)\<lparr>p_updated_at := now\<rparr>
     \<and> cf_details f = consume_details (is_option_type (o_instrument_type r)) now cs details
     \<and> cf_allocations f = consume_allocations now cs fs
     \<and> cf_trade_allocations f = trade_allocations ids now r p price cs
     \<and> close_resources_ok (is_option_type (o_instrument_type r)) (close_direction r) v t a p
     \<and> trade_allocations_match (cf_trade_allocations f) (cf_trade f)
     \<and> close_result_ok (cf_order f) (close_position_after now d r v t cs p) (cf_allocations f)"

lemma close_apply_Inr:
  assumes "close_apply ratio ids cmd now d r a v price = Inr f"
  obtains p details fs cs t where "close_setup d r v price p details fs cs"
    "close_written ratio ids cmd now d r a v price p details fs cs t f"
proof -
  from assms obtain p where p: "get_position d (o_account_id r) (o_exchange_id r) (o_symbol r)
      (close_direction r) = Some p"
    by (auto simp: close_apply_def close_direction_def Let_def split: if_splits option.splits)
  define fs where "fs = list_allocations_by_order d (o_order_id r)"
  define details where
    "details = list_details_by_ids d (p_position_id p) (remdups (map f_position_detail_id fs))"
  from assms p have checked: "validate_before_mutation r p details fs v (close_direction r) = Inr ()"
    and loaded: "close_apply_loaded ratio ids cmd now (is_option_type (o_instrument_type r))
        (close_direction r) r a p details fs (list_open_details (db_details d) (p_position_id p))
        v price = Inr f"
    by (auto simp: close_apply_def close_direction_def fs_def details_def Let_def rbind_Inr_iff
        split: if_splits)
  from loaded obtain cs where
    cs: "close_consumptions (is_option_type (o_instrument_type r)) r p (close_direction r) price
        details v fs = Inr cs"
    and written: "close_written ratio ids cmd now d r a v price p details fs cs
        (close_totals_of (is_option_type (o_instrument_type r)) r p v price cs) f"
    by (auto simp: close_apply_loaded_def rbind_Inr_iff Let_def close_written_def
        close_position_after_def split: if_splits)
  have v: "0 < v" "v \<le> o_remaining_volume r" "order_volume_balanced r"
    "list_all (close_allocation_ok r p (close_direction r) details) fs"
    "sum_list (map f_remaining_frozen_volume fs) = o_frozen_position_volume r"
    "o_frozen_position_volume r = o_remaining_volume r"
    using checked by (auto simp: validate_before_mutation_def Let_def rbind_Inr_iff ensure_Inr_iff)
  have "consumptions_ok (is_option_type (o_instrument_type r)) r (close_direction r) price details
      fs v cs"
    using v(1) by (intro close_consumptions_ok [OF cs]) simp
  with p v have "close_setup d r v price p details fs cs"
    by (simp add: close_setup_def fs_def details_def)
  from that [OF this written] show thesis .
qed

section \<open>The book after a closing fill\<close>

lemma close_links:
  assumes "book_ok d" "settle_ready d" "close_setup d r v price p details fs cs"
  shows "linked_consumptions d r p cs"
proof -
  from assms(3) have fs: "fs = list_allocations_by_order d (o_order_id r)"
    and details: "details = list_details_by_ids d (p_position_id p)
        (remdups (map f_position_detail_id fs))"
    and checked: "list_all (close_allocation_ok r p (close_direction r) details) fs"
    and cs: "consumptions_ok (is_option_type (o_instrument_type r)) r (close_direction r) price
        details fs v cs"
    unfolding close_setup_def by blast+
  show ?thesis by (rule consumptions_linked [OF assms(1,2) fs details checked cs])
qed

lemma close_details_ok:
  assumes book: "book_ok d" and ready: "settle_ready d" and linked: "linked_consumptions d r p cs"
    and ok: "\<forall>c \<in> set cs. consumption_ok io r dir price details c"
    and x: "x \<in> set (map (consumed_detail io now cs) (db_details d))"
  shows "detail_ok x \<and> detail_backed (map (consumed_allocation now cs) (db_allocations d)) x
    \<and> is_money (d_remaining_margin x)"
proof -
  from x obtain dt where dt: "dt \<in> set (db_details d)" "x = consumed_detail io now cs dt" by auto
  have keys: "distinct (map d_position_detail_id (db_details d))"
    using book by (simp add: book_ok_def keys_ok_def)
  have old: "detail_ok dt" "detail_backed (db_allocations d) dt" "is_money (d_remaining_margin dt)"
    using book ready dt(1) by (simp_all add: book_ok_def settle_ready_def)
  have once: "distinct (map (\<lambda>c. d_position_detail_id (cc_detail c)) cs)"
    using linked by (simp add: linked_consumptions_def)
  have "detail_ok x \<and> is_money (d_remaining_margin x)"
    using consumed_detail_cases [OF once, of dt io now]
  proof (elim disjE conjE bexE)
    assume "consumed_detail io now cs dt = dt"
    with old dt(2) show ?thesis by simp
  next
    fix c assume c: "c \<in> set cs" "d_position_detail_id (cc_detail c) = d_position_detail_id dt"
      and eq: "consumed_detail io now cs dt = consume_detail io now c dt"
    from linked c(1) have link: "cc_detail c \<in> set (db_details d)"
      "cc_volume c \<le> d_frozen_volume (cc_detail c)" "cc_volume c \<le> d_remaining_volume (cc_detail c)"
      by (auto simp: linked_consumptions_def)
    have "cc_detail c = dt" by (rule distinct_key_eq [OF keys link(1) dt(1) c(2)])
    with consume_detail_ok [of io r dir price details c now] ok c(1) old link eq dt(2)
    show ?thesis by simp
  qed
  moreover have "detail_backed (map (consumed_allocation now cs) (db_allocations d)) x"
    using old(2) taken_from_allocations [OF book linked, of "d_position_detail_id dt"]
    by (simp add: detail_backed_def dt(2) sum_of_map of_detail_def sum_of_minus)
  ultimately show ?thesis by blast
qed

lemma close_allocations_ok:
  assumes book: "book_ok d" and linked: "linked_consumptions d r p cs"
    and ok: "\<forall>c \<in> set cs. consumption_ok io r dir price details c"
    and x: "x \<in> set (map (consumed_allocation now cs) (db_allocations d))"
  shows "allocation_ok x \<and> is_money (f_released_commission x)
    \<and> is_money (f_remaining_frozen_commission x) \<and> is_money (f_consumed_commission x)"
proof -
  from x obtain f where f: "f \<in> set (db_allocations d)" "x = consumed_allocation now cs f" by auto
  have keys: "distinct (map f_allocation_id (db_allocations d))"
    using book by (simp add: book_ok_def keys_ok_def)
  have old: "allocation_ok f" "is_money (f_released_commission f)"
    "is_money (f_remaining_frozen_commission f)" "is_money (f_consumed_commission f)"
    using book f(1) by (simp_all add: book_ok_def)
  have once: "distinct (map (\<lambda>c. f_allocation_id (cc_allocation c)) cs)"
    using linked by (simp add: linked_consumptions_def)
  show ?thesis
    using consumed_allocation_cases [OF once, of f now]
  proof (elim disjE conjE bexE)
    assume "consumed_allocation now cs f = f"
    with old f(2) show ?thesis by simp
  next
    fix c assume c: "c \<in> set cs" "f_allocation_id (cc_allocation c) = f_allocation_id f"
      and eq: "consumed_allocation now cs f = consume_allocation now c f"
    from linked c(1) have link: "cc_allocation c \<in> set (db_allocations d)"
      by (auto simp: linked_consumptions_def)
    have "cc_allocation c = f" by (rule distinct_key_eq [OF keys link f(1) c(2)])
    with consume_allocation_ok [of io r dir price details c now] ok c(1) old eq f(2)
    show ?thesis by simp
  qed
qed

text \<open>The details of one position, and what they hold together after the fill.\<close>

lemma position_sums_after:
  assumes book: "book_ok d" and linked: "linked_consumptions d r p cs"
    and q: "q \<in> set (db_positions d)" "is_derivative (p_instrument_type q)"
  shows "sum_of (of_position (p_position_id q)) d_frozen_volume
      (map (consumed_detail io now cs) (db_details d))
    = p_frozen_volume q - (if p_position_id q = p_position_id p then sum_list (map cc_volume cs) else 0)"
    and "sum_of (of_position (p_position_id q)) d_remaining_volume
      (map (consumed_detail io now cs) (db_details d))
    = p_total_volume q - (if p_position_id q = p_position_id p then sum_list (map cc_volume cs) else 0)"
proof -
  have backed: "position_backed (db_details d) q" using book q(1) by (simp add: book_ok_def)
  note taken = taken_from_position [OF book linked, of "p_position_id q"]
  show "sum_of (of_position (p_position_id q)) d_frozen_volume
      (map (consumed_detail io now cs) (db_details d))
    = p_frozen_volume q - (if p_position_id q = p_position_id p then sum_list (map cc_volume cs) else 0)"
    using backed q(2) taken
    by (simp add: position_backed_def sum_of_map of_position_def sum_of_minus)
  show "sum_of (of_position (p_position_id q)) d_remaining_volume
      (map (consumed_detail io now cs) (db_details d))
    = p_total_volume q - (if p_position_id q = p_position_id p then sum_list (map cc_volume cs) else 0)"
    using backed q(2) taken
    by (simp add: position_backed_def sum_of_map of_position_def sum_of_minus)
qed

text \<open>The order and its account.\<close>

lemma close_filled_account_pools:
  "a_account_id (close_filled_account ratio io now dir tr t a) = a_account_id a"
  "a_frozen_margin (close_filled_account ratio io now dir tr t a) = a_frozen_margin a"
  "a_frozen_commission (close_filled_account ratio io now dir tr t a)
     = quantize_money (a_frozen_commission a - ct_frozen_commission t)"
  "a_frozen_cash (close_filled_account ratio io now dir tr t a)
     = (if io then quantize_money (a_frozen_cash a - ct_frozen_cash t) else a_frozen_cash a)"
  "is_money (a_available_cash (close_filled_account ratio io now dir tr t a))"
  "is_money (a_risk_available_cash a) \<Longrightarrow>
     is_money (a_risk_available_cash (close_filled_account ratio io now dir tr t a))"
  by (simp_all add: close_filled_account_def close_common_account_def close_option_account_def
      close_futures_account_def Let_def)

lemma close_order_account:
  assumes rows: "order_row_ok r" "account_row_ok a" and same: "a_account_id a = o_account_id r"
    and v: "0 < v" "v \<le> o_remaining_volume r"
    and t: "t = close_totals_of io r p v price cs"
    and r': "r' = close_filled_order io now v price t r"
    and a': "a' = close_filled_account ratio io now dir tr t a"
    and nonneg: "0 \<le> o_frozen_commission r'"
  shows "pools_move_together r a r' a'" "account_row_ok a'" "order_row_ok r'"
proof -
  have money: "is_money (ct_frozen_commission t)" "is_money (ct_frozen_cash t)"
    by (simp_all add: t close_totals_of_def total_by_def commission_alloc.part_money)
  have cash: "ct_frozen_cash t \<le> o_frozen_cash r"
    using rows(1) v by (auto simp: t close_totals_of_def order_row_ok_def
        intro: commission_alloc.part_le)
  have row: "is_money (o_frozen_commission r)" "is_money (o_frozen_cash r)"
    "is_money (a_frozen_commission a)" "is_money (a_frozen_cash a)"
    using rows by (simp_all add: order_row_ok_def account_row_ok_def)
  note acc = close_filled_account_pools [where ratio = ratio and io = io and now = now and dir = dir
      and tr = tr and t = t and a = a]
  show "pools_move_together r a r' a'"
    using acc row money
    by (auto simp: pools_move_together_def r' a' close_filled_order_def filled_order_def is_money_diff)
  show "account_row_ok a'"
    using acc rows(2) row money by (auto simp: account_row_ok_def a' is_money_diff)
  show "order_row_ok r'"
    using rows(1) v nonneg cash money row
    by (auto simp: order_row_ok_def r' close_filled_order_def filled_order_def
        order_volume_balanced_def is_money_diff)
qed

text \<open>The position.\<close>

lemma sum_remaining_nonneg:
  "0 \<le> sum_list (map d_remaining_volume (filter (\<lambda>x. 0 < d_remaining_volume x \<and> P x) xs))"
  by (intro sum_list_nonneg) auto

lemma close_position_volumes:
  assumes "position_volumes_ok p" "close_result_ok r' (close_position_after now d r v t cs p) fs'"
    "v \<le> p_frozen_volume p"
  shows "position_volumes_ok ((close_position_after now d r v t cs p)\<lparr>p_updated_at := now\<rparr>)"
proof -
  let ?q = "close_position_after now d r v t cs p"
  have vols: "p_total_volume ?q = p_total_volume p - v" "p_frozen_volume ?q = p_frozen_volume p - v"
    "p_settlement_locked_volume ?q = p_settlement_locked_volume p"
    "0 \<le> p_today_volume ?q" "0 \<le> p_yesterday_volume ?q"
    by (auto simp: close_position_after_def close_recomputed_position_def
        close_reduced_position_def Let_def intro!: sum_remaining_nonneg)
  with assms show ?thesis by (auto simp: position_volumes_ok_def close_result_ok_def)
qed

lemma close_position_keys:
  "p_position_id (close_position_after now d r v t cs p) = p_position_id p"
  "position_key (close_position_after now d r v t cs p) = position_key p"
  "p_instrument_type (close_position_after now d r v t cs p) = p_instrument_type p"
  "p_total_volume (close_position_after now d r v t cs p) = p_total_volume p - v"
  "p_frozen_volume (close_position_after now d r v t cs p) = p_frozen_volume p - v"
  by (simp_all add: close_position_after_def close_recomputed_position_def position_key_def
      close_reduced_position_def Let_def)

lemma close_positions_ok:
  assumes book: "book_ok d" and linked: "linked_consumptions d r p cs"
    and p: "p \<in> set (db_positions d)" and v: "sum_list (map cc_volume cs) = v"
    and q: "p_position_id q = p_position_id p" "position_volumes_ok q"
      "p_instrument_type q = p_instrument_type p" "p_total_volume q = p_total_volume p - v"
      "p_frozen_volume q = p_frozen_volume p - v"
    and x: "x \<in> set (replace_row p_position_id q (db_positions d))"
  shows "position_volumes_ok x
    \<and> position_backed (map (consumed_detail io now cs) (db_details d)) x"
proof (cases "x = q")
  case True
  with q position_sums_after [OF book linked p, of io now] v show ?thesis
    by (simp add: position_backed_def)
next
  case False
  with x have x: "x \<in> set (db_positions d)" "p_position_id x \<noteq> p_position_id p"
    using q(1) by (auto simp: replace_row_def split: if_splits)
  with position_sums_after [OF book linked x(1), of io now] book show ?thesis
    by (simp add: position_backed_def book_ok_def)
qed

text \<open>The allocations of the orders.\<close>

lemma sum_of_order_list:
  "sum_of (of_order k) g (map (consumed_allocation now cs) fs)
     = sum_list (map g (map (consumed_allocation now cs) (filter (\<lambda>f. f_order_id f = k) fs)))"
proof -
  have "filter (of_order k) (map (consumed_allocation now cs) fs)
      = map (consumed_allocation now cs) (filter (\<lambda>f. f_order_id f = k) fs)"
    by (simp add: filter_map comp_def of_order_def)
  then show ?thesis unfolding sum_of_filter by simp
qed

lemma sum_of_other_order:
  fixes g :: "freeze_allocation \<Rightarrow> 'n::ab_group_add"
  assumes book: "book_ok d" and linked: "linked_consumptions d r p cs" and k: "k \<noteq> o_order_id r"
  shows "sum_of (of_order k) g (map (consumed_allocation now cs) (db_allocations d))
       = sum_of (of_order k) g (db_allocations d)"
proof -
  have same: "consumed_allocation now cs f = f"
    if "f \<in> set (db_allocations d)" "of_order k f" for f
    using linked that k
    by (intro allocations_written(2) [OF book linked refl, where S = "\<lambda>f. f_order_id f = o_order_id r"])
       (auto simp: linked_consumptions_def of_order_def)
  show ?thesis
    using same by (subst sum_of_map) (auto simp: of_order_def intro: sum_of_cong)
qed

lemma close_orders_backed:
  assumes book: "book_ok d" and linked: "linked_consumptions d r p cs"
    and ok: "\<forall>c \<in> set cs. consumption_ok io r dir price details c"
    and result: "close_result_ok r' q (consume_allocations now cs
                   (list_allocations_by_order d (o_order_id r)))"
    and ids: "o_order_id r' = o_order_id r"
    and x: "x \<in> set (replace_row o_order_id r' (db_orders d))"
  shows "order_backed (map (consumed_allocation now cs) (db_allocations d)) x
    \<and> (x = r' \<longrightarrow> 0 \<le> o_frozen_commission x)"
proof (cases "x = r'")
  case True
  let ?fs = "map (consumed_allocation now cs) (list_allocations_by_order d (o_order_id r))"
  have each: "\<forall>f \<in> set ?fs. allocation_ok f \<and> is_money (f_remaining_frozen_commission f)"
    using close_allocations_ok [OF book linked ok]
    by (auto simp: list_allocations_by_order_def)
  then have "is_money (sum_list (map f_remaining_frozen_commission ?fs))"
    "0 \<le> sum_list (map f_remaining_frozen_commission ?fs)"
    by (auto intro!: is_money_sum_list sum_list_map_nonneg simp del: map_map simp: allocation_ok_def)
  with result True ids show ?thesis
    unfolding order_backed_def sum_of_order_list consume_allocations_map close_result_ok_def
      list_allocations_by_order_def
    by (simp add: ids)
next
  case False
  with x have x: "x \<in> set (db_orders d)" "o_order_id x \<noteq> o_order_id r"
    using ids by (auto simp: replace_row_def split: if_splits)
  note untouched = sum_of_other_order [OF book linked x(2)]
  show ?thesis
    unfolding order_backed_def untouched
    using False x book by (simp add: order_backed_def book_ok_def)
qed

text \<open>The rows the fill reads and the tables it leaves.\<close>

definition close_context ::
  "db \<Rightarrow> order \<Rightarrow> int \<Rightarrow> decimal \<Rightarrow> position \<Rightarrow> detail list \<Rightarrow> freeze_allocation list
   \<Rightarrow> close_consumption list \<Rightarrow> bool" where
  "close_context d r v price p details fs cs \<longleftrightarrow>
     linked_consumptions d r p cs
     \<and> (\<forall>c \<in> set cs. consumption_ok (is_option_type (o_instrument_type r)) r (close_direction r)
          price details c)
     \<and> fs = list_allocations_by_order d (o_order_id r)
     \<and> 0 < v \<and> v \<le> o_remaining_volume r \<and> sum_list (map cc_volume cs) = v
     \<and> p \<in> set (db_positions d) \<and> position_volumes_ok p"

lemma close_contextI:
  assumes book: "book_ok d" and ready: "settle_ready d"
    and prep: "close_setup d r v price p details fs cs"
  shows "close_context d r v price p details fs cs"
proof -
  have cs: "consumptions_ok (is_option_type (o_instrument_type r)) r (close_direction r) price
      details fs v cs"
    using prep unfolding close_setup_def by blast
  have "p \<in> set (db_positions d)" "position_volumes_ok p"
    using prep book first_row_SomeD by (fastforce simp: close_setup_def get_position_def book_ok_def)+
  with close_links [OF book ready prep] cs prep show ?thesis
    by (simp add: close_context_def close_setup_def consumptions_ok_def)
qed

lemma close_tables:
  assumes book: "book_ok d" and ready: "settle_ready d"
    and prep: "close_setup d r v price p details fs cs"
    and w: "close_written ratio ids cmd now d r a v price p details fs cs t f"
  shows "write_close_fill f d
     = d\<lparr>db_accounts := replace_row a_account_id (cf_account f) (db_accounts d),
         db_orders := replace_row o_order_id (cf_order f) (db_orders d),
         db_positions := replace_row p_position_id (cf_position f) (db_positions d),
         db_details := map (consumed_detail (is_option_type (o_instrument_type r)) now cs)
           (db_details d),
         db_allocations := map (consumed_allocation now cs) (db_allocations d),
         db_trades := db_trades d @ [cf_trade f],
         db_trade_allocations := db_trade_allocations d @ cf_trade_allocations f\<rparr>"
proof -
  let ?io = "is_option_type (o_instrument_type r)"
  have ctx: "close_context d r v price p details fs cs" by (rule close_contextI [OF book ready prep])
  then have linked: "linked_consumptions d r p cs"
    and ok: "\<forall>c \<in> set cs. consumption_ok ?io r (close_direction r) price details c"
    by (simp_all add: close_context_def)
  have fs: "fs = filter (\<lambda>x. f_order_id x = o_order_id r) (db_allocations d)"
    and details: "details = filter (\<lambda>x. d_position_id x = p_position_id p
        \<and> d_position_detail_id x \<in> set (map f_position_detail_id fs)) (db_details d)"
    using prep by (simp_all add: close_setup_def list_allocations_by_order_def
        list_details_by_ids_def)
  from w have f: "cf_details f = consume_details ?io now cs details"
      "cf_allocations f = consume_allocations now cs fs"
    by (simp_all add: close_written_def)
  have "\<forall>c \<in> set cs. cc_detail c \<in> set details"
    using ok find_row_SomeD by (fastforce simp: consumption_ok_def)
  then have "fold (replace_row d_position_detail_id) (cf_details f) (db_details d)
      = map (consumed_detail ?io now cs) (db_details d)"
    unfolding f(1) by (intro details_written [OF book linked details]) (auto simp: details)
  moreover have "fold (replace_row f_allocation_id) (cf_allocations f) (db_allocations d)
      = map (consumed_allocation now cs) (db_allocations d)"
    unfolding f(2) using linked
    by (intro allocations_written(1) [OF book linked fs]) (auto simp: linked_consumptions_def)
  ultimately show ?thesis by (simp add: write_close_fill_def put_defs)
qed

text \<open>Order, account and position rows.\<close>

lemma close_rows:
  assumes book: "book_ok d" and r: "get_order d oid = Some r"
    and a: "get_account d (o_account_id r) = Some a"
    and ctx: "close_context d r v price p details fs cs"
    and w: "close_written ratio ids cmd now d r a v price p details fs cs t f"
  shows "pools_move_together r a (cf_order f) (cf_account f)" "account_row_ok (cf_account f)"
    "order_row_ok (cf_order f)"
    "\<forall>x \<in> set (replace_row o_order_id (cf_order f) (db_orders d)).
       order_backed (map (consumed_allocation now cs) (db_allocations d)) x"
proof -
  let ?io = "is_option_type (o_instrument_type r)"
  from ctx have linked: "linked_consumptions d r p cs" and v: "0 < v" "v \<le> o_remaining_volume r"
    and ok: "\<forall>c \<in> set cs. consumption_ok ?io r (close_direction r) price details c"
    and fs: "fs = list_allocations_by_order d (o_order_id r)"
    by (simp_all add: close_context_def)
  from w have t: "t = close_totals_of ?io r p v price cs"
    and f: "cf_order f = close_filled_order ?io now v price t r"
      "cf_account f = close_filled_account ratio ?io now (close_direction r) (cf_trade f) t a"
    and result: "close_result_ok (cf_order f) (close_position_after now d r v t cs p)
      (consume_allocations now cs fs)"
    unfolding close_written_def by metis+
  have oid: "o_order_id (cf_order f) = o_order_id r"
    by (simp add: f close_filled_order_def filled_order_def)
  note rr = book_ok_order [OF book r] and aa = book_ok_account [OF book a]
  note backed = close_orders_backed [OF book linked ok result [unfolded fs] oid]
  have r_in: "cf_order f \<in> set (replace_row o_order_id (cf_order f) (db_orders d))"
    using rr oid by (auto simp: replace_row_def)
  note oa = close_order_account [OF _ _ _ v t f]
  show "pools_move_together r a (cf_order f) (cf_account f)" "account_row_ok (cf_account f)"
    "order_row_ok (cf_order f)"
    using oa rr aa backed [OF r_in] by simp_all
  show "\<forall>x \<in> set (replace_row o_order_id (cf_order f) (db_orders d)).
      order_backed (map (consumed_allocation now cs) (db_allocations d)) x"
    using backed by blast
qed

lemma close_fill_positions:
  assumes book: "book_ok d" and ctx: "close_context d r v price p details fs cs"
    and w: "close_written ratio ids cmd now d r a v price p details fs cs t f"
  shows "\<forall>x \<in> set (replace_row p_position_id (cf_position f) (db_positions d)).
      position_volumes_ok x
      \<and> position_backed (map (consumed_detail (is_option_type (o_instrument_type r)) now cs)
           (db_details d)) x"
    and "map position_key (replace_row p_position_id (cf_position f) (db_positions d))
       = map position_key (db_positions d)"
proof -
  from ctx have linked: "linked_consumptions d r p cs" and cs_v: "sum_list (map cc_volume cs) = v"
    and p: "p \<in> set (db_positions d)" "position_volumes_ok p"
    by (simp_all add: close_context_def)
  from w have f: "cf_position f = (close_position_after now d r v t cs p)\<lparr>p_updated_at := now\<rparr>"
    and res: "v \<le> p_frozen_volume p"
    and result: "close_result_ok (cf_order f) (close_position_after now d r v t cs p)
      (cf_allocations f)"
    unfolding close_written_def close_resources_ok_def by metis+
  note keys = close_position_keys [of now d r v t cs p]
  show "\<forall>x \<in> set (replace_row p_position_id (cf_position f) (db_positions d)).
      position_volumes_ok x
      \<and> position_backed (map (consumed_detail (is_option_type (o_instrument_type r)) now cs)
           (db_details d)) x"
    using close_positions_ok [OF book linked p(1) cs_v, of "cf_position f" _
        "is_option_type (o_instrument_type r)" now]
      close_position_volumes [OF p(2) result res] keys
    by (auto simp: f)
  have "distinct (map p_position_id (db_positions d))" using book by (simp add: book_ok_def keys_ok_def)
  from map_replace_same_key [OF this p(1), of "cf_position f" position_key] keys
  show "map position_key (replace_row p_position_id (cf_position f) (db_positions d))
      = map position_key (db_positions d)"
    by (simp add: f position_key_def)
qed

lemma close_fill_book:
  assumes book: "book_ok d" and ready: "settle_ready d" and r: "get_order d oid = Some r"
    and a: "get_account d (o_account_id r) = Some a"
    and fill: "close_apply ratio ids cmd now d r a v price = Inr f"
    and new: "get_trade_by_order_market_event d (o_order_id r) (cmd_market_event_id cmd) = None"
  shows "book_ok (write_close_fill f d) \<and> settle_ready (write_close_fill f d)"
proof -
  from fill obtain p details fs cs t where prep: "close_setup d r v price p details fs cs"
    and w: "close_written ratio ids cmd now d r a v price p details fs cs t f"
    by (rule close_apply_Inr)
  have ctx: "close_context d r v price p details fs cs" by (rule close_contextI [OF book ready prep])
  then have linked: "linked_consumptions d r p cs"
    and ok: "\<forall>c \<in> set cs. consumption_ok (is_option_type (o_instrument_type r)) r
      (close_direction r) price details c"
    by (simp_all add: close_context_def)
  note rows = close_rows [OF book r a ctx w]
  note accounts = book_accounts_step [OF book r a rows(1,2)]
  have orders: "\<forall>x \<in> set (replace_row o_order_id (cf_order f) (db_orders d)). order_row_ok x
      \<and> order_backed (map (consumed_allocation now cs) (db_allocations d)) x"
    using rows(3,4) book by (auto simp: replace_row_def book_ok_def split: if_splits)
  have "cf_trade f = close_trade (is_option_type (o_instrument_type r)) ids cmd now r v price t"
    using w by (simp add: close_written_def)
  then have trades:
    "distinct (map (\<lambda>t. (t_order_id t, t_market_event_id t)) (db_trades d @ [cf_trade f]))"
    using book new
    by (auto simp: book_ok_def keys_ok_def get_trade_by_order_market_event_def find_None_iff
        close_trade_def)
  note positions = close_fill_positions [OF book ctx w]
  note d_ok = close_details_ok [OF book ready linked ok, where now = now]
  note f_ok = close_allocations_ok [OF book linked ok, where now = now]
  from accounts orders positions d_ok f_ok trades book ready show ?thesis
    unfolding close_tables [OF book ready prep w]
    by (simp add: book_ok_def settle_ready_def keys_ok_def position_key_def [abs_def] comp_def)
qed

end
