(* ===== verification/Settlement_Book.thy ===== *)
theory Settlement_Book
  imports Close_Settlement_Book
begin

text \<open>
  \<open>TradeSettlementService.settle\<close> as a whole: its outcomes, and what a settled fill leaves behind.
\<close>

section \<open>The outcomes of \<open>settle\<close>\<close>

text \<open>The order, account and fill of a command that reaches one of the product paths.\<close>

definition fill_context ::
  "db \<Rightarrow> settlement_command \<Rightarrow> order \<Rightarrow> account \<Rightarrow> int \<Rightarrow> bool" where
  "fill_context d cmd r a v \<longleftrightarrow>
     get_order d (cmd_order_id cmd) = Some r
     \<and> get_account d (o_account_id r) = Some a
     \<and> get_trade_by_order_market_event d (cmd_order_id cmd) (cmd_market_event_id cmd) = None
     \<and> is_matchable_order r (cmd_match_result cmd)
     \<and> v = min (r_fill_volume (cmd_match_result cmd)) (o_remaining_volume r)
     \<and> 0 < v \<and> v \<le> o_remaining_volume r"

text \<open>The gate has let the command through.\<close>

definition gate_passed :: "db \<Rightarrow> order \<Rightarrow> bool" where
  "gate_passed d r \<longleftrightarrow> ensure_trading_open (db_batches d) None = Inr ()
     \<and> ensure_trading_open (db_batches d) (Some (o_trading_day r)) = Inr ()"

text \<open>A command leaves the tables alone, or it reaches \<open>settle_matchable\<close>.\<close>

lemma settle_outcomes:
  assumes "settle req clock ratio ids d cmd = Inr (d', res)"
  shows "d' = d \<and> sr_action res \<in> {NOT_MATCHED, ORDER_NOT_FOUND, IDEMPOTENT, ORDER_INACTIVE}
    \<or> (\<exists>r price. get_order d (cmd_order_id cmd) = Some r \<and> gate_passed d r
        \<and> get_trade_by_order_market_event d (cmd_order_id cmd) (cmd_market_event_id cmd) = None
        \<and> is_matchable_order r (cmd_match_result cmd)
        \<and> settle_matchable req clock ratio ids cmd d r price = Inr (d', res))"
proof (cases "r_matched (cmd_match_result cmd)")
  case False
  with assms show ?thesis by (auto simp: settle_def not_settled_def)
next
  case True
  with assms have first: "ensure_trading_open (db_batches d) None = Inr ()"
    by (auto simp: settle_def rbind_Inr_iff)
  show ?thesis
  proof (cases "get_order d (cmd_order_id cmd)")
    case None
    with assms True first show ?thesis by (auto simp: settle_def not_settled_def)
  next
    case (Some r)
    note s = assms [unfolded settle_def, simplified True first Some, simplified]
    from s have second: "ensure_trading_open (db_batches d) (Some (o_trading_day r)) = Inr ()"
      by (auto simp: rbind_Inr_iff)
    show ?thesis
    proof (cases "get_trade_by_order_market_event d (cmd_order_id cmd) (cmd_market_event_id cmd)")
      case (Some t)
      with s second show ?thesis by (auto simp: not_settled_def)
    next
      case None
      note s = s [simplified second None, simplified]
      show ?thesis
      proof (cases "is_matchable_order r (cmd_match_result cmd)
            \<and> r_fill_price (cmd_match_result cmd) \<noteq> None")
        case False
        with s show ?thesis by (auto simp: not_settled_def split: if_splits)
      next
        case True
        with s obtain price where "settle_matchable req clock ratio ids cmd d r price = Inr (d', res)"
          by auto
        with True Some None first second show ?thesis unfolding gate_passed_def by blast
      qed
    qed
  qed
qed

lemma settle_close_action:
  "settle_close ratio ids cmd now d r a v price = Inr (d', res) \<Longrightarrow> sr_action res = SETTLED"
  by (auto simp: settle_close_def Let_def rbind_Inr_iff settled_def)

lemma settle_option_open_action:
  "settle_option_open ratio ids cmd now d r a pos v price = Inr (d', res) \<Longrightarrow>
     sr_action res = SETTLED"
  by (auto simp: settle_option_open_def Let_def rbind_Inr_iff settled_def)

lemma settle_futures_open_action:
  "settle_futures_open ids cmd now d r a pos v price = Inr (d', res) \<Longrightarrow> sr_action res = SETTLED"
  by (auto simp: settle_futures_open_def rbind_Inr_iff settled_def)

lemma settle_product_action:
  "settle_product ratio ids cmd now d product r a v price = Inr (d', res) \<Longrightarrow>
     sr_action res = SETTLED"
  by (auto simp: settle_product_def split: if_splits
      dest: settle_option_open_action settle_futures_open_action)

lemma settle_open_Inr_iff:
  "settle_open req clock ratio ids cmd now d product r a ins v price = Inr (d', res) \<longleftrightarrow>
   (\<exists>check r1 a1. ensure_locked req clock True r a ins = Inr (check, r1, a1)
      \<and> (if ma_action check \<in> set blocking_actions
         then d' = put_order r1 (put_account a1 d)
              \<and> res = not_settled (o_order_id r1) (MARGIN_CHECK (ma_action check))
         else settle_product ratio ids cmd now d product r1 a1 v price = Inr (d', res)))"
  unfolding settle_open_def rbind_Inr_iff by (auto split: if_splits)

lemma settle_open_action:
  "settle_open req clock ratio ids cmd now d product r a ins v price = Inr (d', res) \<Longrightarrow>
     sr_action res = SETTLED \<or> (\<exists>m. sr_action res = MARGIN_CHECK m)"
  by (auto simp: settle_open_Inr_iff not_settled_def split: if_splits dest: settle_product_action)

lemma settle_matchable_Inr_iff:
  "settle_matchable req clock ratio ids cmd d r price = Inr (d', res) \<longleftrightarrow>
   (\<exists>a ins strategy. get_account d (o_account_id r) = Some a
      \<and> get_instrument d (o_order_book_id r) = Some ins
      \<and> i_instrument_type ins = o_instrument_type r
      \<and> resolve_product_strategy (o_instrument_type r) = Inr strategy
      \<and> (if o_offset_flag r \<noteq> Some OPEN
         then settle_close ratio ids cmd (cmd_tick_event_time cmd) d r a
           (min (r_fill_volume (cmd_match_result cmd)) (o_remaining_volume r))
           (quantize_money price)
         else settle_open req clock ratio ids cmd (cmd_tick_event_time cmd) d (family strategy) r a
           ins (min (r_fill_volume (cmd_match_result cmd)) (o_remaining_volume r))
           (quantize_money price)) = Inr (d', res))"
  unfolding settle_matchable_def Let_def rbind_Inr_iff
  by (auto simp: rbind_Inr_iff split: option.splits if_splits)

lemma settle_matchable_action:
  "settle_matchable req clock ratio ids cmd d r price = Inr (d', res) \<Longrightarrow>
     sr_action res = SETTLED \<or> (\<exists>m. sr_action res = MARGIN_CHECK m)"
  unfolding settle_matchable_Inr_iff
  by (auto split: if_splits dest: settle_open_action settle_close_action)

text \<open>The three ways to settle, and the blocked margin check.\<close>

definition margin_checked ::
  "(order \<Rightarrow> instrument \<Rightarrow> option_margin_result result) \<Rightarrow> datetime \<Rightarrow> db \<Rightarrow> order \<Rightarrow> account
   \<Rightarrow> margin_action \<Rightarrow> order \<Rightarrow> account \<Rightarrow> bool" where
  "margin_checked req clock d r a action r1 a1 \<longleftrightarrow>
     (\<exists>ins check. get_instrument d (o_order_book_id r) = Some ins
        \<and> ensure_locked req clock True r a ins = Inr (check, r1, a1) \<and> action = ma_action check)"

lemma settle_cases:
  assumes "settle req clock ratio ids d cmd = Inr (d', res)"
  obtains
    (unchanged) "d' = d" "sr_action res \<in> {NOT_MATCHED, ORDER_NOT_FOUND, IDEMPOTENT, ORDER_INACTIVE}"
  | (blocked) r a v r1 a1 action where "fill_context d cmd r a v" "o_offset_flag r = Some OPEN"
      "margin_checked req clock d r a action r1 a1" "action \<in> set blocking_actions"
      "d' = put_order r1 (put_account a1 d)" "res = not_settled (o_order_id r1) (MARGIN_CHECK action)"
  | (close) r a v price f p where "fill_context d cmd r a v" "gate_passed d r"
      "o_offset_flag r \<noteq> Some OPEN"
      "close_apply ratio ids cmd (cmd_tick_event_time cmd) d r a v price = Inr f"
      "d' = add_events (create_outbox_events ids (cf_trade f) (cf_order f) (cf_account f) p True
              (cmd_tick_event_time cmd)) (write_close_fill f d)"
      "res = settled (t_trade_id (cf_trade f)) (cf_order f)"
  | (opened) r a v r1 a1 action price f p flushed where "fill_context d cmd r a v" "gate_passed d r"
      "o_offset_flag r = Some OPEN"
      "margin_checked req clock d r a action r1 a1" "action \<notin> set blocking_actions"
      "option_open_fill ratio ids cmd (cmd_tick_event_time cmd) r1 a1 (opening_position d r1) v price
         = Inr f
       \<or> futures_open_fill ids cmd (cmd_tick_event_time cmd) r1 a1 (opening_position d r1) v price
         = Inr f"
      "d' = add_events (create_outbox_events ids (fo_trade f) (fo_order f) (fo_account f) p flushed
              (cmd_tick_event_time cmd)) (write_open_fill (opening_position d r1) f d)"
      "res = settled (t_trade_id (fo_trade f)) (fo_order f)"
proof (cases "d' = d \<and> sr_action res \<in> {NOT_MATCHED, ORDER_NOT_FOUND, IDEMPOTENT, ORDER_INACTIVE}")
  case True
  then show thesis using unchanged by blast
next
  case False
  with settle_outcomes [OF assms] obtain r price where r: "get_order d (cmd_order_id cmd) = Some r"
    and gate: "gate_passed d r"
    and none: "get_trade_by_order_market_event d (cmd_order_id cmd) (cmd_market_event_id cmd) = None"
    and match: "is_matchable_order r (cmd_match_result cmd)"
    and s: "settle_matchable req clock ratio ids cmd d r price = Inr (d', res)" by blast
  define v where "v = min (r_fill_volume (cmd_match_result cmd)) (o_remaining_volume r)"
  from s obtain a ins strategy where a: "get_account d (o_account_id r) = Some a"
    and ins: "get_instrument d (o_order_book_id r) = Some ins"
    and "resolve_product_strategy (o_instrument_type r) = Inr strategy"
    and run: "(if o_offset_flag r \<noteq> Some OPEN
      then settle_close ratio ids cmd (cmd_tick_event_time cmd) d r a v (quantize_money price)
      else settle_open req clock ratio ids cmd (cmd_tick_event_time cmd) d (family strategy) r a ins
             v (quantize_money price)) = Inr (d', res)"
    unfolding settle_matchable_Inr_iff v_def by blast
  have ctx: "fill_context d cmd r a v"
    using r a none match by (auto simp: fill_context_def is_matchable_order_def v_def)
  show thesis
  proof (cases "o_offset_flag r = Some OPEN")
    case False
    with run obtain f p where "close_apply ratio ids cmd (cmd_tick_event_time cmd) d r a v
        (quantize_money price) = Inr f"
      "d' = add_events (create_outbox_events ids (cf_trade f) (cf_order f) (cf_account f) p True
              (cmd_tick_event_time cmd)) (write_close_fill f d)"
      "res = settled (t_trade_id (cf_trade f)) (cf_order f)"
      by (auto simp: settle_close_def Let_def rbind_Inr_iff)
    with close ctx gate False show thesis by blast
  next
    case True
    with run have "settle_open req clock ratio ids cmd (cmd_tick_event_time cmd) d (family strategy)
        r a ins v (quantize_money price) = Inr (d', res)" by simp
    then obtain check r1 a1 where
      locked: "ensure_locked req clock True r a ins = Inr (check, r1, a1)"
      and rest: "if ma_action check \<in> set blocking_actions
        then d' = put_order r1 (put_account a1 d)
             \<and> res = not_settled (o_order_id r1) (MARGIN_CHECK (ma_action check))
        else settle_product ratio ids cmd (cmd_tick_event_time cmd) d (family strategy) r1 a1 v
               (quantize_money price) = Inr (d', res)"
      unfolding settle_open_Inr_iff by blast
    have checked: "margin_checked req clock d r a (ma_action check) r1 a1"
      using ins locked by (auto simp: margin_checked_def)
    show thesis
    proof (cases "ma_action check \<in> set blocking_actions")
      case True
      with rest ctx checked \<open>o_offset_flag r = Some OPEN\<close> show thesis
        by (intro blocked) auto
    next
      case False
      with rest have "settle_option_open ratio ids cmd (cmd_tick_event_time cmd) d r1 a1
            (opening_position d r1) v (quantize_money price) = Inr (d', res)
          \<or> settle_futures_open ids cmd (cmd_tick_event_time cmd) d r1 a1
            (opening_position d r1) v (quantize_money price) = Inr (d', res)"
        by (auto simp: settle_product_def split: if_splits)
      then obtain f p flushed where
        "option_open_fill ratio ids cmd (cmd_tick_event_time cmd) r1 a1 (opening_position d r1) v
           (quantize_money price) = Inr f
         \<or> futures_open_fill ids cmd (cmd_tick_event_time cmd) r1 a1 (opening_position d r1) v
           (quantize_money price) = Inr f"
        "d' = add_events (create_outbox_events ids (fo_trade f) (fo_order f) (fo_account f) p flushed
              (cmd_tick_event_time cmd)) (write_open_fill (opening_position d r1) f d)"
        "res = settled (t_trade_id (fo_trade f)) (fo_order f)"
        unfolding settle_option_open_def settle_futures_open_def Let_def rbind_Inr_iff by blast
      with opened ctx gate checked False \<open>o_offset_flag r = Some OPEN\<close> show thesis by blast
    qed
  qed
qed

section \<open>Facts\<close>

lemma replace_row_twice [simp]:
  "key x = key y \<Longrightarrow> replace_row key x (replace_row key y rows) = replace_row key x rows"
  by (auto simp: replace_row_def)

lemma write_open_fill_twice:
  assumes "o_order_id (fo_order f) = o_order_id r1" "a_account_id (fo_account f) = a_account_id a1"
  shows "write_open_fill pos f (put_order r1 (put_account a1 d)) = write_open_fill pos f d"
  using assms by (simp add: write_open_fill_def put_defs split: option.split)

lemma book_ok_add_events [simp]: "book_ok (add_events es d) = book_ok d"
  by (simp add: book_ok_def keys_ok_def add_events_def)

lemma settle_ready_add_events [simp]: "settle_ready (add_events es d) = settle_ready d"
  by (simp add: settle_ready_def add_events_def)

lemma settle_ready_put [simp]:
  "settle_ready (put_order r d) = settle_ready d" "settle_ready (put_account a d) = settle_ready d"
  by (simp_all add: settle_ready_def put_defs)

text \<open>The rows after the margin check.\<close>

definition rechecked :: "order \<Rightarrow> account \<Rightarrow> db \<Rightarrow> db" where
  "rechecked r a d = put_order r (put_account a d)"

lemma get_after_recheck:
  assumes "get_order d oid = Some r" "get_account d (o_account_id r) = Some a"
    "margin_step_ok r a r1 a1"
  shows "get_order (rechecked r1 a1 d) oid = Some r1"
    "get_account (rechecked r1 a1 d) (o_account_id r1) = Some a1"
proof -
  from assms have ids: "o_order_id r1 = o_order_id r" "o_account_id r1 = o_account_id r"
    "a_account_id a1 = a_account_id a" by (simp_all add: margin_step_ok_def)
  have "o_order_id r = oid"
    using assms(1) unfolding get_order_def by (rule find_row_SomeD [THEN conjunct2])
  then show "get_order (rechecked r1 a1 d) oid = Some r1"
    using find_row_replace_Some [OF assms(1) [unfolded get_order_def], of r1] ids
    by (simp add: rechecked_def get_order_def put_defs)
  have "a_account_id a = o_account_id r"
    using assms(2) unfolding get_account_def by (rule find_row_SomeD [THEN conjunct2])
  then show "get_account (rechecked r1 a1 d) (o_account_id r1) = Some a1"
    using find_row_replace_Some [OF assms(2) [unfolded get_account_def], of a1] ids
    by (simp add: rechecked_def get_account_def put_defs)
qed

lemma margin_checked_step:
  assumes "margin_checked req clock d r a action r1 a1" "order_row_ok r" "account_row_ok a"
  shows "margin_step_ok r a r1 a1"
  using assms ensure_locked_step unfolding margin_checked_def by blast

lemma fill_context_rows:
  assumes "fill_context d cmd r a v" "book_ok d"
  shows "order_row_ok r" "account_row_ok a" "o_order_id r = cmd_order_id cmd"
    "a_account_id a = o_account_id r"
  using assms book_ok_order book_ok_account unfolding fill_context_def by blast+

text \<open>Both opening paths, on the rows after the margin check.\<close>

lemma either_path_opens:
  assumes "option_open_fill ratio ids cmd now r a pos v price = Inr f
       \<or> futures_open_fill ids cmd now r a pos v price = Inr f"
    "order_row_ok r" "account_row_ok a" "0 < v" "v \<le> o_remaining_volume r"
    "a_account_id a = o_account_id r"
  shows "opens ids cmd r a pos v f"
  using assms option_opens futures_opens by blast

text \<open>The rows an opening fill works on after the margin check, and what it makes of them.\<close>

lemma opened_rows:
  assumes ctx: "fill_context d cmd r a v" and book: "book_ok d"
    and check: "margin_checked req clock d r a action r1 a1"
    and fill: "option_open_fill ratio ids cmd now r1 a1 pos v price = Inr f
       \<or> futures_open_fill ids cmd now r1 a1 pos v price = Inr f"
  shows "margin_step_ok r a r1 a1" "book_ok (rechecked r1 a1 d)"
    "order_row_ok r1" "account_row_ok a1" "opens ids cmd r1 a1 pos v f"
    "write_open_fill pos f d = write_open_fill pos f (rechecked r1 a1 d)"
proof -
  note rows = fill_context_rows [OF ctx book]
  show step: "margin_step_ok r a r1 a1" by (rule margin_checked_step [OF check rows(1,2)])
  have got: "get_order d (cmd_order_id cmd) = Some r" "get_account d (o_account_id r) = Some a"
    and v: "0 < v" "v \<le> o_remaining_volume r"
    using ctx unfolding fill_context_def by blast+
  show book1: "book_ok (rechecked r1 a1 d)"
    unfolding rechecked_def by (rule margin_step_book [OF book got step])
  note got1 = get_after_recheck [OF got step]
  show rows1: "order_row_ok r1" "account_row_ok a1"
    using book_ok_order [OF book1 got1(1)] book_ok_account [OF book1 got1(2)] by auto
  have id1: "a_account_id a1 = o_account_id r1"
    using book_ok_account [OF book1 got1(2)] by auto
  show opens: "opens ids cmd r1 a1 pos v f"
    using v step by (intro either_path_opens [OF fill rows1 _ _ id1]) (auto simp: margin_step_ok_def)
  show "write_open_fill pos f d = write_open_fill pos f (rechecked r1 a1 d)"
    using opens unfolding rechecked_def
    by (subst write_open_fill_twice) (auto simp: opens_def pools_move_together_def)
qed

lemma opened_book:
  assumes ctx: "fill_context d cmd r a v" and book: "book_ok d" and ready: "settle_ready d"
    and check: "margin_checked req clock d r a action r1 a1" and isopen: "o_offset_flag r = Some OPEN"
    and fresh: "fresh_ids d ids"
    and fill: "option_open_fill ratio ids cmd now r1 a1 (opening_position d r1) v price = Inr f
       \<or> futures_open_fill ids cmd now r1 a1 (opening_position d r1) v price = Inr f"
  shows "book_ok (write_open_fill (opening_position d r1) f d)
    \<and> settle_ready (write_open_fill (opening_position d r1) f d)"
proof -
  note rows = opened_rows [OF ctx book check fill]
  have got: "get_order d (cmd_order_id cmd) = Some r" "get_account d (o_account_id r) = Some a"
    and v: "0 < v"
    and none: "get_trade_by_order_market_event d (cmd_order_id cmd) (cmd_market_event_id cmd) = None"
    using ctx unfolding fill_context_def by blast+
  have d0: "opening_position d r1 = get_position (rechecked r1 a1 d) (o_account_id r1)
      (o_exchange_id r1) (o_symbol r1) (opened_direction (o_direction r1))"
    "fresh_ids (rechecked r1 a1 d) ids"
    "get_trade_by_order_market_event (rechecked r1 a1 d) (o_order_id r1) (cmd_market_event_id cmd)
       = None"
    "o_offset_flag r1 = Some OPEN"
    using fresh none rows(1) isopen fill_context_rows(3) [OF ctx book]
    by (simp_all add: rechecked_def opening_position_def get_position_def fresh_ids_def put_defs
        get_trade_by_order_market_event_def margin_step_ok_def)
  note got1 = get_after_recheck [OF got rows(1)]
  have "book_ok (write_open_fill (opening_position d r1) f (rechecked r1 a1 d))"
    using v by (intro opens_write_book [OF rows(2) got1 d0(1,2,4,3) rows(5)]) simp
  moreover have "settle_ready (write_open_fill (opening_position d r1) f d)"
    using ready rows(5)
    by (auto simp: write_open_fill_def settle_ready_def put_defs opens_def split: option.split)
  ultimately show ?thesis using rows(6) by simp
qed

section \<open>The position that an event reports\<close>

lemma get_position_replaced:
  assumes keys: "distinct (map p_position_id (db_positions d))"
      "distinct (map position_key (db_positions d))"
    and p: "get_position d aid ex sy dir = Some p"
    and q: "p_position_id q = p_position_id p" "position_key q = position_key p"
    and pos: "db_positions d' = replace_row p_position_id q (db_positions d)"
  shows "get_position d' aid ex sy dir = Some q"
proof -
  have mem: "p \<in> set (db_positions d)" and key: "position_key p = (aid, ex, sy, dir)"
    using first_row_SomeD [OF p [unfolded get_position_key]] by auto
  have "q \<in> set (db_positions d')" using mem q(1) pos by (auto simp: replace_row_def)
  moreover have "distinct (map position_key (db_positions d'))"
    unfolding pos map_replace_same_key [OF keys(1) mem q] by (rule keys(2))
  ultimately have "find_row position_key (position_key q) (db_positions d') = Some q"
    by (intro find_row_distinct)
  with key q(2) show ?thesis by (simp add: get_position_key find_row_def)
qed

lemma close_finds_position:
  assumes book: "book_ok d" and fill: "close_apply ratio ids cmd now d r a v price = Inr f"
    and flag: "o_offset_flag r \<noteq> Some OPEN"
  shows "get_affected_position (write_close_fill f d) (cf_order f) = Inr (cf_position f)"
proof -
  from fill obtain p details fs cs t where prep: "close_setup d r v price p details fs cs"
    and w: "close_written ratio ids cmd now d r a v price p details fs cs t f"
    by (rule close_apply_Inr)
  have p: "get_position d (o_account_id r) (o_exchange_id r) (o_symbol r) (close_direction r) = Some p"
    using prep by (simp add: close_setup_def)
  have q: "cf_position f = (close_position_after now d r v t cs p)\<lparr>p_updated_at := now\<rparr>"
    "cf_order f = close_filled_order (is_option_type (o_instrument_type r)) now v price t r"
    using w by (simp_all add: close_written_def)
  have keys: "distinct (map p_position_id (db_positions d))"
    "distinct (map position_key (db_positions d))"
    using book by (simp_all add: book_ok_def keys_ok_def position_key_def [abs_def])
  have "get_position (write_close_fill f d) (o_account_id r) (o_exchange_id r) (o_symbol r)
      (close_direction r) = Some (cf_position f)"
    unfolding q(1)
    by (rule get_position_replaced [OF keys p])
       (simp_all add: close_position_keys [unfolded position_key_def] position_key_def q(1)
          write_close_fill_def put_defs)
  moreover have "affected_direction (cf_order f) = close_direction r"
    "o_account_id (cf_order f) = o_account_id r" "o_exchange_id (cf_order f) = o_exchange_id r"
    "o_symbol (cf_order f) = o_symbol r"
    using flag by (simp_all add: q(2) affected_direction_def close_direction_def
        close_filled_order_def filled_order_def Let_def)
  ultimately show ?thesis by (simp add: get_affected_position_def)
qed

section \<open>What a settled fill does to its order\<close>

definition order_fills :: "int \<Rightarrow> decimal \<Rightarrow> order \<Rightarrow> order \<Rightarrow> bool" where
  "order_fills v price r r' \<longleftrightarrow>
     o_order_id r' = o_order_id r \<and> o_account_id r' = o_account_id r
     \<and> o_trading_day r' = o_trading_day r \<and> o_offset_flag r' = o_offset_flag r
     \<and> o_total_volume r' = o_total_volume r \<and> o_cancelled_volume r' = o_cancelled_volume r
     \<and> o_traded_volume r' = o_traded_volume r + v
     \<and> o_remaining_volume r' = o_remaining_volume r - v
     \<and> o_average_price r' = Some (filled_average r v price)
     \<and> o_status r' = (if o_remaining_volume r' = 0 then FILLED else PARTIALLY_FILLED)"

definition trade_of_fill :: "settlement_command \<Rightarrow> int \<Rightarrow> decimal \<Rightarrow> order \<Rightarrow> trade \<Rightarrow> bool" where
  "trade_of_fill cmd v price r t \<longleftrightarrow>
     t_order_id t = o_order_id r \<and> t_account_id t = o_account_id r
     \<and> t_market_event_id t = cmd_market_event_id cmd
     \<and> t_trade_volume t = v \<and> t_trade_price t = price"

lemma open_fill_order:
  assumes "option_open_fill ratio ids cmd now r a pos v price = Inr f
       \<or> futures_open_fill ids cmd now r a pos v price = Inr f"
  shows "order_fills v price r (fo_order f) \<and> trade_of_fill cmd v price r (fo_trade f)"
  using assms
proof
  assume "option_open_fill ratio ids cmd now r a pos v price = Inr f"
  then show ?thesis
    by (rule option_open_fill_Inr)
      (simp add: order_fills_def trade_of_fill_def option_filled_order_def open_filled_order_def
        filled_order_def option_open_trade_def Let_def)
next
  assume "futures_open_fill ids cmd now r a pos v price = Inr f"
  then show ?thesis
    by (rule futures_open_fill_Inr)
      (simp add: order_fills_def trade_of_fill_def open_filled_order_def filled_order_def
        futures_open_trade_def Let_def)
qed

lemma close_fill_order:
  assumes "close_apply ratio ids cmd now d r a v price = Inr f"
  shows "order_fills v price r (cf_order f) \<and> trade_of_fill cmd v price r (cf_trade f)"
  using assms
  by (rule close_apply_Inr)
    (simp add: close_written_def order_fills_def trade_of_fill_def close_filled_order_def
      filled_order_def close_trade_def)

lemma order_fills_rechecked:
  "order_fills v price r1 r' \<Longrightarrow> margin_step_ok r a r1 a1 \<Longrightarrow> order_fills v price r r'"
  by (simp add: order_fills_def margin_step_ok_def filled_average_def average_before_def)

lemma trade_of_fill_rechecked:
  "trade_of_fill cmd v price r1 t \<Longrightarrow> margin_step_ok r a r1 a1 \<Longrightarrow> trade_of_fill cmd v price r t"
  by (simp add: trade_of_fill_def margin_step_ok_def)

lemma get_order_put:
  assumes "get_order d oid = Some r" "o_order_id r' = o_order_id r"
    "db_orders d' = replace_row o_order_id r' (db_orders d)"
  shows "get_order d' oid = Some r'"
proof -
  have "o_order_id r = oid"
    using assms(1) unfolding get_order_def by (rule find_row_SomeD [THEN conjunct2])
  then show ?thesis
    using find_row_replace_Some [OF assms(1) [unfolded get_order_def], of r'] assms(2,3)
    by (simp add: get_order_def)
qed

lemma settled_effect:
  assumes run: "settle req clock ratio ids d cmd = Inr (d', res)" and book: "book_ok d"
    and fin: "sr_action res = SETTLED"
  obtains r a v price r' t where "fill_context d cmd r a v" "gate_passed d r"
    "get_order d' (cmd_order_id cmd) = Some r'" "order_fills v price r r'"
    "trade_of_fill cmd v price r t" "db_trades d' = db_trades d @ [t]"
    "db_orders d' = replace_row o_order_id r' (db_orders d)"
    "db_batches d' = db_batches d" "res = settled (t_trade_id t) r'"
  using run
proof (cases rule: settle_cases)
  case unchanged
  with fin show thesis by auto
next
  case (blocked r a v r1 a1 action)
  with fin show thesis by (simp add: not_settled_def)
next
  case (close r a v price f p)
  note fill = close_fill_order [OF close(4)]
  have r: "get_order d (cmd_order_id cmd) = Some r" using close(1) by (simp add: fill_context_def)
  have "get_order d' (cmd_order_id cmd) = Some (cf_order f)"
    using fill close(5)
    by (intro get_order_put [OF r]) (simp_all add: order_fills_def write_close_fill_def put_defs)
  moreover have "db_trades d' = db_trades d @ [cf_trade f]"
    "db_orders d' = replace_row o_order_id (cf_order f) (db_orders d)" "db_batches d' = db_batches d"
    using close(5) by (simp_all add: write_close_fill_def put_defs)
  ultimately show thesis
    using close fill by (intro that [of r a v "cf_order f" price "cf_trade f"]) simp_all
next
  case (opened r a v r1 a1 action price f p flushed)
  note step = opened_rows(1) [OF opened(1) book opened(4,6)]
  note fill = open_fill_order [OF opened(6)]
  have fills: "order_fills v price r (fo_order f)" "trade_of_fill cmd v price r (fo_trade f)"
    using fill step order_fills_rechecked trade_of_fill_rechecked by blast+
  have r: "get_order d (cmd_order_id cmd) = Some r" using opened(1) by (simp add: fill_context_def)
  have "get_order d' (cmd_order_id cmd) = Some (fo_order f)"
    using fills opened(7) by (intro get_order_put [OF r])
      (simp_all add: order_fills_def write_open_fill_def put_defs split: option.split)
  moreover have "db_trades d' = db_trades d @ [fo_trade f]"
    "db_orders d' = replace_row o_order_id (fo_order f) (db_orders d)" "db_batches d' = db_batches d"
    using opened(7) by (simp_all add: write_open_fill_def put_defs split: option.split)
  ultimately show thesis using opened fills
    by (intro that [of r a v "fo_order f" price "fo_trade f"]) simp_all
qed

section \<open>Every outcome keeps the book\<close>

lemma settle_book:
  assumes run: "settle req clock ratio ids d cmd = Inr (d', res)"
    and book: "book_ok d" and ready: "settle_ready d" and fresh: "fresh_ids d ids"
  shows "book_ok d' \<and> settle_ready d'"
  using run
proof (cases rule: settle_cases)
  case unchanged
  with book ready show ?thesis by simp
next
  case (blocked r a v r1 a1 action)
  note rows = fill_context_rows [OF blocked(1) book]
  have got: "get_order d (cmd_order_id cmd) = Some r" "get_account d (o_account_id r) = Some a"
    using blocked(1) by (simp_all add: fill_context_def)
  from margin_step_book [OF book got margin_checked_step [OF blocked(3) rows(1,2)]] blocked(5) ready
  show ?thesis by simp
next
  case (close r a v price f p)
  have got: "get_order d (cmd_order_id cmd) = Some r" "get_account d (o_account_id r) = Some a"
    and new: "get_trade_by_order_market_event d (o_order_id r) (cmd_market_event_id cmd) = None"
    using close(1) fill_context_rows(3) [OF close(1) book] by (simp_all add: fill_context_def)
  from close_fill_book [OF book ready got close(4) new] close(5) show ?thesis by simp
next
  case (opened r a v r1 a1 action price f p flushed)
  from opened_book [OF opened(1) book ready opened(4,3) fresh opened(6)] opened(7)
  show ?thesis by simp
qed

end
