(* ===== verification/Settlement_Samples.thy ===== *)
theory Settlement_Samples
  imports Settlement_Book
begin

text \<open>The concrete fills: one lot of the open order and the close order of the sample book.\<close>

definition sample_settlement_ids :: settlement_ids where
  "sample_settlement_ids =
     \<lparr>si_trade = ''T1'', si_position = ''P9'', si_detail = ''PD9'', si_row = 9,
      si_trade_allocation = (\<lambda>_. ''TA1''), si_trade_event = ''E1'', si_order_event = ''E2'',
      si_position_fact = ''E3'', si_account_fact = ''E4''\<rparr>"

definition sample_command :: "string \<Rightarrow> int \<Rightarrow> settlement_command" where
  "sample_command oid volume =
     \<lparr>cmd_order_id = oid, cmd_market_event_id = ''M1'', cmd_market_stream_message_id = ''S1'',
      cmd_tick_event_time = 50, cmd_tick_sequence_id = 1,
      cmd_match_result =
        \<lparr>r_matched = True, r_fill_price = Some 3490, r_fill_volume = volume, r_reason = None,
         r_engine_name = ''E'', r_engine_version = ''1''\<rparr>\<rparr>"

definition no_margin_service :: "order \<Rightarrow> instrument \<Rightarrow> option_margin_result result" where
  "no_margin_service _ _ = Inl (DataAccessError ''OPTION_MARGIN_PRICE_UNAVAILABLE'')"

definition sample_settle :: "string \<Rightarrow> int \<Rightarrow> (db \<times> settlement_result) result" where
  "sample_settle oid volume =
     settle no_margin_service 60 (1/2) sample_settlement_ids sample_db (sample_command oid volume)"

lemma sample_command_fields [simp]:
  "cmd_order_id (sample_command oid v) = oid"
  "cmd_market_event_id (sample_command oid v) = ''M1''"
  "cmd_tick_event_time (sample_command oid v) = 50"
  "r_matched (cmd_match_result (sample_command oid v))"
  "r_fill_price (cmd_match_result (sample_command oid v)) = Some 3490"
  "r_fill_volume (cmd_match_result (sample_command oid v)) = v"
  by (simp_all add: sample_command_def)

lemma sample_futures_fields [simp]:
  "i_instrument_type sample_futures = FUTURES" "i_order_book_id sample_futures = ''RB2610''"
  by (simp_all add: sample_futures_def)

lemma sample_fresh: "fresh_ids sample_db sample_settlement_ids"
  by (simp add: fresh_ids_def sample_settlement_ids_def sample_defs)

lemma sample_ready: "settle_ready sample_db"
  by (simp add: settle_ready_def sample_defs)

lemma sample_order_fields [simp]:
  "o_order_id (sample_order oid dir off v m c z) = oid"
  "o_account_id (sample_order oid dir off v m c z) = ''A1''"
  "o_order_book_id (sample_order oid dir off v m c z) = ''RB2610''"
  "o_symbol (sample_order oid dir off v m c z) = ''RB2610''"
  "o_exchange_id (sample_order oid dir off v m c z) = ''SHFE''"
  "o_trading_day (sample_order oid dir off v m c z) = 10"
  "o_instrument_type (sample_order oid dir off v m c z) = FUTURES"
  "o_direction (sample_order oid dir off v m c z) = dir"
  "o_offset_flag (sample_order oid dir off v m c z) = Some off"
  "o_order_type (sample_order oid dir off v m c z) = LIMIT"
  "o_commission_type (sample_order oid dir off v m c z) = Some BY_VOLUME"
  "o_commission_parameter (sample_order oid dir off v m c z) = Some 5"
  "o_commission_contract_multiplier (sample_order oid dir off v m c z) = Some 10"
  "o_limit_price (sample_order oid dir off v m c z) = 3500"
  "o_total_volume (sample_order oid dir off v m c z) = v"
  "o_traded_volume (sample_order oid dir off v m c z) = 0"
  "o_remaining_volume (sample_order oid dir off v m c z) = v"
  "o_cancelled_volume (sample_order oid dir off v m c z) = 0"
  "o_average_price (sample_order oid dir off v m c z) = None"
  "o_status (sample_order oid dir off v m c z) = ACCEPTED"
  "o_frozen_margin (sample_order oid dir off v m c z) = m"
  "o_frozen_cash (sample_order oid dir off v m c z) = 0"
  "o_frozen_commission (sample_order oid dir off v m c z) = c"
  "o_frozen_position_volume (sample_order oid dir off v m c z) = z"
  by (simp_all add: sample_order_def)

lemma sample_position_fields [simp]:
  "p_position_id (sample_position volume frozen) = ''P1''"
  "p_account_id (sample_position volume frozen) = ''A1''"
  "p_exchange_id (sample_position volume frozen) = ''SHFE''"
  "p_symbol (sample_position volume frozen) = ''RB2610''"
  "p_direction (sample_position volume frozen) = LONG"
  "p_total_volume (sample_position volume frozen) = volume"
  "p_today_volume (sample_position volume frozen) = volume"
  "p_yesterday_volume (sample_position volume frozen) = 0"
  "p_frozen_volume (sample_position volume frozen) = frozen"
  "p_settlement_locked_volume (sample_position volume frozen) = 0"
  "p_used_margin (sample_position volume frozen) = 7000"
  "p_multiplier_snapshot (sample_position volume frozen) = 10"
  by (simp_all add: sample_position_def)

lemma sample_allocation_fields [simp]:
  "f_allocation_id (sample_allocation fid oid volume commission) = fid"
  "f_order_id (sample_allocation fid oid volume commission) = oid"
  "f_position_id (sample_allocation fid oid volume commission) = ''P1''"
  "f_position_detail_id (sample_allocation fid oid volume commission) = ''PD''"
  "f_account_id (sample_allocation fid oid volume commission) = ''A1''"
  "f_exchange_id (sample_allocation fid oid volume commission) = ''SHFE''"
  "f_symbol (sample_allocation fid oid volume commission) = ''RB2610''"
  "f_offset_flag (sample_allocation fid oid volume commission) = CLOSE"
  "f_resolved_offset_flag (sample_allocation fid oid volume commission) = CLOSE_TODAY"
  "f_commission_type (sample_allocation fid oid volume commission) = BY_VOLUME"
  "f_commission_parameter (sample_allocation fid oid volume commission) = 5"
  "f_commission_contract_multiplier (sample_allocation fid oid volume commission) = 10"
  "f_original_frozen_volume (sample_allocation fid oid volume commission) = volume"
  "f_remaining_frozen_volume (sample_allocation fid oid volume commission) = volume"
  "f_consumed_volume (sample_allocation fid oid volume commission) = 0"
  "f_released_volume (sample_allocation fid oid volume commission) = 0"
  "f_original_frozen_commission (sample_allocation fid oid volume commission) = commission"
  "f_remaining_frozen_commission (sample_allocation fid oid volume commission) = commission"
  "f_consumed_commission (sample_allocation fid oid volume commission) = 0"
  "f_released_commission (sample_allocation fid oid volume commission) = 0"
  "f_status (sample_allocation fid oid volume commission) = ACTIVE"
  by (simp_all add: sample_allocation_def)

lemma sample_detail_fields [simp]:
  "d_position_detail_id (sample_detail i day v z) = ''PD''"
  "d_position_id (sample_detail i day v z) = ''P1''"
  "d_account_id (sample_detail i day v z) = ''A1''"
  "d_exchange_id (sample_detail i day v z) = ''SHFE''"
  "d_symbol (sample_detail i day v z) = ''RB2610''"
  "d_direction (sample_detail i day v z) = LONG"
  "d_open_trading_day (sample_detail i day v z) = day"
  "d_open_price (sample_detail i day v z) = 3500"
  "d_pnl_base_price (sample_detail i day v z) = 3500"
  "d_remaining_volume (sample_detail i day v z) = v"
  "d_frozen_volume (sample_detail i day v z) = z"
  "d_remaining_margin (sample_detail i day v z) = 7000"
  "d_realtime_required_margin (sample_detail i day v z) = 0"
  "d_multiplier_snapshot (sample_detail i day v z) = 10"
  by (simp_all add: sample_detail_def)

definition sample_cash_account :: account where
  "sample_cash_account = sample_account\<lparr>a_available_cash := 85990, a_frozen_margin := 7000,
     a_used_margin := 7000, a_frozen_commission := 10, a_risk_available_cash := 85990\<rparr>"

lemma sample_gets:
  "get_order sample_db ''O1'' = Some (sample_order ''O1'' BUY OPEN 2 7000 5 0)"
  "get_order sample_db ''O2'' = Some (sample_order ''O2'' SELL CLOSE 1 0 5 1)"
  "get_instrument sample_db ''RB2610'' = Some sample_futures"
  "get_account sample_db ''A1'' = Some sample_cash_account"
  "get_position sample_db ''A1'' ''SHFE'' ''RB2610'' LONG = Some (sample_position 2 1)"
  "get_trade_by_order_market_event sample_db oid eid = None"
  "db_batches sample_db = []"
  by (simp_all add: sample_db_def sample_cash_account_def sample_account_def get_order_def get_instrument_def get_account_def get_position_def
      get_trade_by_order_market_event_def)


lemma sample_gate [simp]: "ensure_trading_open [] day = Inr ()"
  by (simp add: ensure_trading_open_def split: option.split)

lemma quantize_half [simp]: "quantize_money (5 / 2) = 5 / 2"
  by (simp add: quantize_money_def round_half_up_def floor_eq_iff)

lemma sample_open:
  "\<exists>d' res. sample_settle ''O1'' 1 = Inr (d', res) \<and> sr_action res = SETTLED"
  by (simp add: sample_settle_def settle_def sample_gets is_matchable_order_def settle_matchable_def
      active_order_statuses_def supported_offset_flags_def settle_open_def ensure_locked_def
      is_target_order_def adjustment_def blocking_actions_def settle_product_def Let_def
      opening_position_def opened_direction_def futures_product_strategy_def
      settle_futures_open_def futures_open_fill_def fee_from_snapshot_def sample_account_def
      sample_cash_account_def
      settlement_allocate_frozen_def position_to_fill_def settled_def)

lemma sample_close_rows:
  "list_allocations_by_order sample_db ''O2'' = [sample_allocation ''F1'' ''O2'' 1 5]"
  "list_details_by_ids sample_db ''P1'' [''PD''] = [sample_detail 1 10 2 1]"
  "list_open_details (db_details sample_db) ''P1'' = [sample_detail 1 10 2 1]"
  by (simp_all add: sample_defs list_allocations_by_order_def list_details_by_ids_def list_open_details_def)

lemma sample_bucket:
  "0 < price \<Longrightarrow> calculate_bucket_allocations price
     [\<lparr>be_key = bucket_key (sample_allocation ''F1'' ''O2'' 1 5), be_volume = 1\<rparr>] = Inr [5]"
  by (simp add: calculate_bucket_allocations_def allocate_bucket_def write_shares_def bucket_key_def
      sample_allocation_def fee_from_snapshot_def)

lemma sample_close_valid:
  "validate_before_mutation (sample_order ''O2'' SELL CLOSE 1 0 5 1) (sample_position 2 1)
     [sample_detail 1 10 2 1] [sample_allocation ''F1'' ''O2'' 1 5] 1 LONG = Inr ()"
  by (simp add: validate_before_mutation_def sample_bucket Let_def close_allocation_ok_def
      allocation_balanced_def order_volume_balanced_def ensure_def bucket_total_def)

definition sample_consumption :: close_consumption where
  "sample_consumption =
     \<lparr>cc_allocation = sample_allocation ''F1'' ''O2'' 1 5, cc_detail = sample_detail 1 10 2 1,
      cc_volume = 1, cc_released_margin = 3500, cc_released_realtime_margin = 0,
      cc_released_frozen_commission = 5, cc_actual_commission = 5, cc_realized_pnl = -100,
      cc_daily_close_pnl = -100\<rparr>"

lemma sample_close_consumptions:
  "close_consumptions False (sample_order ''O2'' SELL CLOSE 1 0 5 1) (sample_position 2 1) LONG 3490
     [sample_detail 1 10 2 1] 1 [sample_allocation ''F1'' ''O2'' 1 5] = Inr [sample_consumption]"
  by (simp add: close_consumptions_def close_consume_def Let_def sample_bucket margin_release_def
      realized_pnl_def calculate_close_def sample_consumption_def close_allocate_frozen_commission_def)

lemma sample_close_apply:
  "\<exists>f. close_apply ratio ids cmd now sample_db (sample_order ''O2'' SELL CLOSE 1 0 5 1)
     sample_cash_account 1 3490 = Inr f"
  by (simp add: close_apply_def sample_gets closed_position_direction_def sample_close_rows
      sample_close_valid Let_def is_option_type_def close_apply_loaded_def
      sample_close_consumptions)
    (simp add: close_resources_ok_def close_totals_of_def total_by_def trade_allocations_match_def
      trade_allocations_def close_result_ok_def close_trade_def trade_allocation_def
      close_filled_order_def close_recomputed_position_def close_reduced_position_def
      consume_details_def consume_allocations_def consume_detail_def consume_allocation_def
      filled_order_def order_volume_balanced_def sample_consumption_def sample_cash_account_def
      sample_account_def Let_def)

lemma sample_close:
  "\<exists>d' res. sample_settle ''O2'' 1 = Inr (d', res) \<and> sr_action res = SETTLED"
proof -
  let ?cmd = "sample_command ''O2'' 1"
  obtain f where f: "close_apply (1/2) sample_settlement_ids ?cmd 50 sample_db
      (sample_order ''O2'' SELL CLOSE 1 0 5 1) sample_cash_account 1 3490 = Inr f"
    using sample_close_apply by blast
  have "get_affected_position (write_close_fill f sample_db) (cf_order f) = Inr (cf_position f)"
    by (rule close_finds_position [OF sample_book f]) simp
  with f show ?thesis
    by (simp add: sample_settle_def settle_def sample_gets is_matchable_order_def
        settle_matchable_def active_order_statuses_def supported_offset_flags_def settle_close_def
        settled_def Let_def)
qed

end
