(* ===== verification/Settlement_Ledger.thy ===== *)
theory Settlement_Ledger
  imports Settlement_Samples
begin

text \<open>
  What a fill writes agrees with what it moves: the fills of an order are its trades, the margin an
  account uses is the margin its details carry, and what a detail has lost since it was opened is
  recorded by the rows of the closing trades.
\<close>

section \<open>The ledger\<close>

definition trades_backed :: "db \<Rightarrow> bool" where
  "trades_backed d \<longleftrightarrow> (\<forall>r \<in> set (db_orders d).
     o_traded_volume r = sum_of (\<lambda>t. t_order_id t = o_order_id r) t_trade_volume (db_trades d))"

definition margin_backed :: "db \<Rightarrow> bool" where
  "margin_backed d \<longleftrightarrow> (\<forall>a \<in> set (db_accounts d).
     a_used_margin a
       = sum_of (\<lambda>dt. d_account_id dt = a_account_id a) d_remaining_margin (db_details d))"

definition audit_backed :: "db \<Rightarrow> bool" where
  "audit_backed d \<longleftrightarrow> (\<forall>dt \<in> set (db_details d).
     d_original_volume dt = d_remaining_volume dt
       + sum_of (\<lambda>tp. tp_position_detail_id tp = d_position_detail_id dt) tp_close_volume
           (db_trade_allocations d))"

definition ledger_ok :: "db \<Rightarrow> bool" where
  "ledger_ok d \<longleftrightarrow> trades_backed d \<and> margin_backed d \<and> audit_backed d"

section \<open>Trades\<close>

lemma trades_backed_fill:
  assumes backed: "trades_backed d" and r: "get_order d oid = Some r"
    and fill: "o_traded_volume r' = o_traded_volume r + t_trade_volume t"
      "o_order_id r' = o_order_id r" "t_order_id t = o_order_id r"
    and rows: "db_orders d' = replace_row o_order_id r' (db_orders d)"
      "db_trades d' = db_trades d @ [t]"
  shows "trades_backed d'"
proof -
  have mem: "r \<in> set (db_orders d)"
    using r unfolding get_order_def by (rule find_row_SomeD [THEN conjunct1])
  have "o_traded_volume r' = sum_of (\<lambda>x. t_order_id x = o_order_id r') t_trade_volume
      (db_trades d @ [t])"
    using backed mem fill by (simp add: trades_backed_def)
  moreover have "o_traded_volume x = sum_of (\<lambda>y. t_order_id y = o_order_id x) t_trade_volume
      (db_trades d @ [t])" if "x \<in> set (db_orders d)" "o_order_id x \<noteq> o_order_id r" for x
    using backed that fill by (simp add: trades_backed_def)
  ultimately show ?thesis
    using fill(2) by (auto simp: trades_backed_def rows replace_row_def)
qed

lemma trades_backed_same:
  assumes "trades_backed d" "db_trades d' = db_trades d"
    "map (\<lambda>r. (o_order_id r, o_traded_volume r)) (db_orders d')
       = map (\<lambda>r. (o_order_id r, o_traded_volume r)) (db_orders d)"
  shows "trades_backed d'"
proof -
  have eq: "trades_backed d \<longleftrightarrow> list_all (\<lambda>(k, v). v = sum_of (\<lambda>t. t_order_id t = k) t_trade_volume
      (db_trades d)) (map (\<lambda>r. (o_order_id r, o_traded_volume r)) (db_orders d))" for d
    by (simp add: trades_backed_def list_all_iff)
  from assms show ?thesis unfolding eq by metis
qed

section \<open>Margin\<close>

lemma margin_backed_account:
  assumes backed: "margin_backed d" and keys: "distinct (map a_account_id (db_accounts d))"
    and a: "get_account d aid = Some a"
    and accounts: "db_accounts d' = replace_row a_account_id a' (db_accounts d)"
    and same: "a_account_id a' = a_account_id a"
    and own: "a_used_margin a' = a_used_margin a + m"
      "sum_of (\<lambda>dt. d_account_id dt = aid) d_remaining_margin (db_details d')
         = sum_of (\<lambda>dt. d_account_id dt = aid) d_remaining_margin (db_details d) + m"
    and other: "\<forall>b. b \<noteq> aid \<longrightarrow>
       sum_of (\<lambda>dt. d_account_id dt = b) d_remaining_margin (db_details d')
         = sum_of (\<lambda>dt. d_account_id dt = b) d_remaining_margin (db_details d)"
  shows "margin_backed d'"
proof -
  have mem: "a \<in> set (db_accounts d)" and id: "a_account_id a = aid"
    using a unfolding get_account_def by (auto dest: find_row_SomeD)
  have "a_used_margin a' = sum_of (\<lambda>dt. d_account_id dt = a_account_id a') d_remaining_margin
      (db_details d')"
    using backed mem id same own by (simp add: margin_backed_def)
  moreover have "a_used_margin b = sum_of (\<lambda>dt. d_account_id dt = a_account_id b)
      d_remaining_margin (db_details d')" if "b \<in> set (db_accounts d)" "a_account_id b \<noteq> aid" for b
    using backed that other by (simp add: margin_backed_def)
  ultimately show ?thesis
    using id same by (auto simp: margin_backed_def accounts replace_row_def)
qed

lemma money_sum_of: "(\<And>x. x \<in> set xs \<Longrightarrow> is_money (f x)) \<Longrightarrow> is_money (sum_of P f xs)"
  by (induction xs) (auto intro: is_money_add)

lemma used_margin_money:
  assumes "margin_backed d" "settle_ready d" "get_account d aid = Some a"
  shows "is_money (a_used_margin a)"
proof -
  have "a \<in> set (db_accounts d)"
    using assms(3) unfolding get_account_def by (rule find_row_SomeD [THEN conjunct1])
  with assms(1,2) show ?thesis
    by (auto simp: margin_backed_def settle_ready_def intro!: money_sum_of)
qed

text \<open>What a closing fill releases.\<close>

lemma sum_of_single:
  assumes "distinct (map (\<lambda>c. d_position_detail_id (cc_detail c)) cs)" "c \<in> set cs"
    "d_position_detail_id (cc_detail c) = k"
  shows "sum_of (on_detail k) g cs = g c"
  unfolding sum_of_filter using filter_single [OF assms] by (simp add: on_detail_def [abs_def])

lemma released_money:
  assumes "consumption_ok io r dir price details c" "is_money (d_remaining_margin (cc_detail c))"
  shows "is_money (cc_released_margin c)"
  using assms by (auto simp: consumption_ok_def margin_release_Inr_iff intro: margin_alloc.part_money)

lemma consumed_margin:
  assumes book: "book_ok d" and ready: "settle_ready d"
    and ctx: "close_context d r v price p details fs cs" and dt: "dt \<in> set (db_details d)"
  shows "d_remaining_margin (consumed_detail io now cs dt)
    = d_remaining_margin dt - sum_of (on_detail (d_position_detail_id dt)) cc_released_margin cs"
proof -
  have keys: "distinct (map d_position_detail_id (db_details d))"
    using book by (simp add: book_ok_def keys_ok_def)
  have linked: "linked_consumptions d r p cs" using ctx by (simp add: close_context_def)
  then have once: "distinct (map (\<lambda>c. d_position_detail_id (cc_detail c)) cs)"
    by (simp add: linked_consumptions_def)
  show ?thesis
    using consumed_detail_cases [OF once, of dt io now]
  proof (elim disjE conjE bexE)
    assume "\<forall>c \<in> set cs. d_position_detail_id (cc_detail c) \<noteq> d_position_detail_id dt"
      and same: "consumed_detail io now cs dt = dt"
    then have "sum_of (on_detail (d_position_detail_id dt)) cc_released_margin cs = 0"
      by (intro sum_of_zero) (simp add: on_detail_def)
    with same show ?thesis by simp
  next
    fix c assume c: "c \<in> set cs" "d_position_detail_id (cc_detail c) = d_position_detail_id dt"
      and eq: "consumed_detail io now cs dt = consume_detail io now c dt"
    from linked c(1) have "cc_detail c \<in> set (db_details d)" by (simp add: linked_consumptions_def)
    then have same: "cc_detail c = dt" by (rule distinct_key_eq [OF keys _ dt c(2)])
    have money: "is_money (d_remaining_margin dt)" using ready dt by (simp add: settle_ready_def)
    have "is_money (cc_released_margin c)"
      using ctx c(1) same money unfolding close_context_def by (blast intro: released_money)
    with money show ?thesis
      unfolding sum_of_single [OF once c]
      by (simp add: eq consume_detail_def Let_def is_money_diff)
  qed
qed

lemma close_margin_sum:
  assumes book: "book_ok d" and ready: "settle_ready d"
    and ctx: "close_context d r v price p details fs cs"
  shows "sum_of (\<lambda>dt. d_account_id dt = aid) d_remaining_margin
      (map (consumed_detail io now cs) (db_details d))
    = sum_of (\<lambda>dt. d_account_id dt = aid) d_remaining_margin (db_details d)
      - (if aid = o_account_id r then sum_list (map cc_released_margin cs) else 0)"
proof -
  have linked: "linked_consumptions d r p cs" using ctx by (simp add: close_context_def)
  have "sum_of (\<lambda>dt. d_account_id dt = aid) d_remaining_margin
      (map (consumed_detail io now cs) (db_details d))
    = sum_of (\<lambda>dt. d_account_id dt = aid) (\<lambda>dt. d_remaining_margin dt
        - sum_of (on_detail (d_position_detail_id dt)) cc_released_margin cs) (db_details d)"
    using consumed_margin [OF book ready ctx] by (subst sum_of_map) (auto intro: sum_of_cong)
  moreover have "sum_of (\<lambda>dt. d_account_id dt = aid)
      (\<lambda>dt. sum_of (on_detail (d_position_detail_id dt)) cc_released_margin cs) (db_details d)
    = (if aid = o_account_id r then sum_list (map cc_released_margin cs) else 0)"
    using linked
    by (intro taken_from_details [OF book linked]) (auto simp: linked_consumptions_def)
  ultimately show ?thesis by (simp add: sum_of_minus)
qed

section \<open>A closing fill\<close>

lemma close_margin_backed:
  assumes book: "book_ok d" and ready: "settle_ready d" and backed: "margin_backed d"
    and a: "get_account d (o_account_id r) = Some a"
    and prep: "close_setup d r v price p details fs cs"
    and w: "close_written ratio ids cmd now d r a v price p details fs cs t f"
  shows "margin_backed (write_close_fill f d)"
proof -
  let ?io = "is_option_type (o_instrument_type r)"
  have ctx: "close_context d r v price p details fs cs" by (rule close_contextI [OF book ready prep])
  from w have t: "t = close_totals_of ?io r p v price cs"
    and acc: "cf_account f = close_filled_account ratio ?io now (close_direction r) (cf_trade f) t a"
    by (simp_all add: close_written_def)
  have "is_money (cc_released_margin c)" if "c \<in> set cs" for c
    using ctx that ready unfolding close_context_def linked_consumptions_def settle_ready_def
    by (blast intro: released_money)
  then have margin: "ct_margin t = sum_list (map cc_released_margin cs)"
    by (simp add: t close_totals_of_def total_by_def is_money_sum_list)
  moreover have "is_money (ct_margin t)" by (simp add: t close_totals_of_def total_by_def)
  ultimately have used: "a_used_margin (cf_account f)
      = a_used_margin a + - sum_list (map cc_released_margin cs)"
    "a_account_id (cf_account f) = a_account_id a"
    using used_margin_money [OF backed ready a]
    by (simp_all add: acc close_filled_account_def close_common_account_def close_option_account_def
        close_futures_account_def revalued_def Let_def is_money_diff)
  have keys: "distinct (map a_account_id (db_accounts d))"
    using book by (simp add: book_ok_def keys_ok_def)
  show ?thesis
    by (rule margin_backed_account [OF backed keys a _ used(2,1)])
       (simp_all add: close_tables [OF book ready prep w] close_margin_sum [OF book ready ctx])
qed

lemma audit_rows:
  assumes "linked_consumptions d r p cs"
  shows "sum_of (\<lambda>tp. tp_position_detail_id tp = k) tp_close_volume
      (trade_allocations ids now r p price cs) = sum_of (on_detail k) cc_volume cs"
proof -
  have "sum_of (\<lambda>tp. tp_position_detail_id tp = k) tp_close_volume
      (map (\<lambda>(i, c). trade_allocation ids now r p price i c) (enumerate n cs))
    = sum_of (on_detail k) cc_volume cs" for n
    by (induction cs arbitrary: n) (auto simp: trade_allocation_def on_detail_def)
  then show ?thesis by (simp add: trade_allocations_def)
qed

lemma close_audit_backed:
  assumes book: "book_ok d" and ready: "settle_ready d" and backed: "audit_backed d"
    and prep: "close_setup d r v price p details fs cs"
    and w: "close_written ratio ids cmd now d r a v price p details fs cs t f"
  shows "audit_backed (write_close_fill f d)"
proof -
  have linked: "linked_consumptions d r p cs" by (rule close_links [OF book ready prep])
  have "cf_trade_allocations f = trade_allocations ids now r p price cs"
    using w by (simp add: close_written_def)
  with backed audit_rows [OF linked] show ?thesis
    by (simp add: audit_backed_def close_tables [OF book ready prep w])
qed

section \<open>An opening fill\<close>

lemma open_margin_backed:
  assumes book: "book_ok d" and ready: "settle_ready d" and backed: "margin_backed d"
    and a: "get_account d (o_account_id r) = Some a" and opens: "opens ids cmd r a pos v f"
  shows "margin_backed (write_open_fill pos f d)"
proof -
  have keys: "distinct (map a_account_id (db_accounts d))"
    using book by (simp add: book_ok_def keys_ok_def)
  have same: "a_account_id (fo_account f) = a_account_id a"
    using opens by (simp add: opens_def pools_move_together_def)
  have "a_used_margin (fo_account f) = a_used_margin a + d_remaining_margin (fo_detail f)"
    using opens used_margin_money [OF backed ready a] by (simp add: opens_def is_money_add)
  from margin_backed_account [OF backed keys a _ same this] opens show ?thesis
    by (simp add: write_open_fill_def put_defs opens_def split: option.split)
qed

lemma open_audit_backed:
  assumes backed: "audit_backed d" and fresh: "fresh_ids d ids" and opens: "opens ids cmd r a pos v f"
  shows "audit_backed (write_open_fill pos f d)"
proof -
  have "tp_position_detail_id tp \<noteq> si_detail ids" if "tp \<in> set (db_trade_allocations d)" for tp
    using fresh that unfolding fresh_ids_def by (metis imageI)
  then have "sum_of (\<lambda>tp. tp_position_detail_id tp = si_detail ids) tp_close_volume
      (db_trade_allocations d) = 0"
    by (intro sum_of_zero) auto
  with backed opens show ?thesis
    by (simp add: audit_backed_def write_open_fill_def put_defs opens_def split: option.split)
qed

section \<open>Every outcome\<close>

lemma ledger_ok_add_events [simp]: "ledger_ok (add_events es d) = ledger_ok d"
  by (simp add: ledger_ok_def trades_backed_def margin_backed_def audit_backed_def add_events_def)

lemma recheck_ledger:
  assumes book: "book_ok d" and ledger: "ledger_ok d" and r: "get_order d oid = Some r"
    and a: "get_account d (o_account_id r) = Some a" and step: "margin_step_ok r a r1 a1"
  shows "ledger_ok (rechecked r1 a1 d)"
proof -
  have keys: "distinct (map a_account_id (db_accounts d))" "distinct (map o_order_id (db_orders d))"
    using book by (simp_all add: book_ok_def keys_ok_def)
  have mem: "r \<in> set (db_orders d)"
    using r unfolding get_order_def by (rule find_row_SomeD [THEN conjunct1])
  have "map (\<lambda>r. (o_order_id r, o_traded_volume r)) (replace_row o_order_id r1 (db_orders d))
      = map (\<lambda>r. (o_order_id r, o_traded_volume r)) (db_orders d)"
    using step by (intro map_replace_same_key [OF keys(2) mem]) (simp_all add: margin_step_ok_def)
  then have "trades_backed (rechecked r1 a1 d)"
    using ledger by - (rule trades_backed_same [of d], simp_all add: ledger_ok_def rechecked_def put_defs)
  moreover have "margin_backed (rechecked r1 a1 d)"
    using ledger step
    by - (rule margin_backed_account [OF _ keys(1) a, where a' = a1 and m = 0],
       simp_all add: ledger_ok_def rechecked_def put_defs margin_step_ok_def)
  ultimately show ?thesis
    using ledger by (simp add: ledger_ok_def audit_backed_def rechecked_def put_defs)
qed

lemma close_ledger:
  assumes book: "book_ok d" and ready: "settle_ready d" and ledger: "ledger_ok d"
    and r: "get_order d oid = Some r" and a: "get_account d (o_account_id r) = Some a"
    and fill: "close_apply ratio ids cmd now d r a v price = Inr f"
  shows "ledger_ok (write_close_fill f d)"
proof -
  from fill obtain p details fs cs t where prep: "close_setup d r v price p details fs cs"
    and w: "close_written ratio ids cmd now d r a v price p details fs cs t f"
    by (rule close_apply_Inr)
  have "trades_backed (write_close_fill f d)"
    using ledger close_fill_order [OF fill]
    by - (rule trades_backed_fill [OF _ r, where r' = "cf_order f" and t = "cf_trade f"],
       simp_all add: ledger_ok_def order_fills_def trade_of_fill_def write_close_fill_def put_defs)
  with close_margin_backed [OF book ready _ a prep w] close_audit_backed [OF book ready _ prep w]
    ledger show ?thesis by (simp add: ledger_ok_def)
qed

lemma opened_ledger:
  assumes ctx: "fill_context d cmd r a v" and book: "book_ok d" and ready: "settle_ready d"
    and ledger: "ledger_ok d" and check: "margin_checked req clock d r a action r1 a1"
    and fresh: "fresh_ids d ids"
    and fill: "option_open_fill ratio ids cmd now r1 a1 pos v price = Inr f
       \<or> futures_open_fill ids cmd now r1 a1 pos v price = Inr f"
  shows "ledger_ok (write_open_fill pos f d)"
proof -
  let ?d = "rechecked r1 a1 d"
  note rows = opened_rows [OF ctx book check fill]
  have got: "get_order d (cmd_order_id cmd) = Some r" "get_account d (o_account_id r) = Some a"
    using ctx by (simp_all add: fill_context_def)
  have ledger1: "ledger_ok ?d" by (rule recheck_ledger [OF book ledger got rows(1)])
  note got1 = get_after_recheck [OF got rows(1)]
  have d1: "settle_ready ?d" "fresh_ids ?d ids"
    using ready fresh by (simp_all add: rechecked_def fresh_ids_def)
      (simp_all add: put_defs)
  have "trades_backed (write_open_fill pos f ?d)"
    using ledger1 open_fill_order [OF fill]
    by - (rule trades_backed_fill [OF _ got1(1), where r' = "fo_order f" and t = "fo_trade f"],
       simp_all add: ledger_ok_def order_fills_def trade_of_fill_def write_open_fill_def put_defs
         split: option.split)
  moreover have "margin_backed (write_open_fill pos f ?d)"
    using ledger1 by (intro open_margin_backed [OF rows(2) d1(1) _ got1(2) rows(5)])
      (simp add: ledger_ok_def)
  moreover have "audit_backed (write_open_fill pos f ?d)"
    using ledger1 by (intro open_audit_backed [OF _ d1(2) rows(5)]) (simp add: ledger_ok_def)
  ultimately show ?thesis unfolding rows(6) by (simp add: ledger_ok_def)
qed

lemma settle_ledger:
  assumes run: "settle req clock ratio ids d cmd = Inr (d', res)" and book: "book_ok d"
    and ready: "settle_ready d" and ledger: "ledger_ok d" and fresh: "fresh_ids d ids"
  shows "ledger_ok d'"
  using run
proof (cases rule: settle_cases)
  case unchanged
  with ledger show ?thesis by simp
next
  case (blocked r a v r1 a1 action)
  note rows = fill_context_rows [OF blocked(1) book]
  have got: "get_order d (cmd_order_id cmd) = Some r" "get_account d (o_account_id r) = Some a"
    using blocked(1) by (simp_all add: fill_context_def)
  from recheck_ledger [OF book ledger got margin_checked_step [OF blocked(3) rows(1,2)]] blocked(5)
  show ?thesis by (simp add: rechecked_def)
next
  case (close r a v price f p)
  have got: "get_order d (cmd_order_id cmd) = Some r" "get_account d (o_account_id r) = Some a"
    using close(1) by (simp_all add: fill_context_def)
  from close_ledger [OF book ready ledger got close(4)] close(5) show ?thesis by simp
next
  case (opened r a v r1 a1 action price f p flushed)
  from opened_ledger [OF opened(1) book ready ledger opened(4) fresh opened(6)] opened(7)
  show ?thesis by simp
qed

lemma sample_ledger: "ledger_ok sample_db"
  by (simp add: ledger_ok_def trades_backed_def margin_backed_def audit_backed_def sample_db_def
      sample_account_def sample_detail_def)

end
