(* ===== verification/Settlement_Properties.thy ===== *)
theory Settlement_Properties
  imports Settlement_Ledger
begin

text \<open>What trade settlement guarantees.\<close>

lemma first_row_append:
  "first_row P (xs @ ys) = (case first_row P xs of None \<Rightarrow> first_row P ys | Some x \<Rightarrow> Some x)"
  by (induction xs) auto

section \<open>Properties of the transaction\<close>

text \<open>
  C9: a fill keeps the book consistent, whatever path it takes and whatever its outcome: futures or
  option opening, closing, a margin check that blocks. The new rows draw fresh ids.
\<close>

theorem settle_keeps_book:
  assumes "settle req clock ratio ids d cmd = Inr (d', res)"
    and "book_ok d" "settle_ready d" "fresh_ids d ids"
  shows "book_ok d' \<and> settle_ready d'"
  by (rule settle_book [OF assms])

theorem settle_keeps_book_witness:
  "\<exists>d' res. sample_settle ''O2'' 1 = Inr (d', res) \<and> sr_action res = SETTLED
     \<and> book_ok d' \<and> settle_ready d'"
proof -
  from sample_close obtain d' res where
    run: "sample_settle ''O2'' 1 = Inr (d', res)" "sr_action res = SETTLED" by blast
  from settle_keeps_book [OF run(1) [unfolded sample_settle_def] sample_book sample_ready
      sample_fresh] run show ?thesis by blast
qed

text \<open>
  C10: a fill keeps the ledger: the traded volume of every order is the sum of its trades, the margin
  an account uses is the margin its details still carry, and every detail's original volume is what
  remains plus what the rows of the closing trades record.
\<close>

theorem settle_keeps_ledger:
  assumes "settle req clock ratio ids d cmd = Inr (d', res)"
    and "book_ok d" "settle_ready d" "ledger_ok d" "fresh_ids d ids"
  shows "ledger_ok d'"
  by (rule settle_ledger [OF assms])

theorem settle_keeps_ledger_witness:
  "\<exists>d' res. sample_settle ''O1'' 1 = Inr (d', res) \<and> sr_action res = SETTLED \<and> ledger_ok d'"
proof -
  from sample_open obtain d' res where
    run: "sample_settle ''O1'' 1 = Inr (d', res)" "sr_action res = SETTLED" by blast
  from settle_keeps_ledger [OF run(1) [unfolded sample_settle_def] sample_book sample_ready
      sample_ledger sample_fresh] run show ?thesis by blast
qed

text \<open>
  C11: a market event fills an order at most once. When a command has settled, any later command for
  the same order and market event, with whatever match result, clock, prices and ids, answers
  IDEMPOTENT with the trade that was made, and changes nothing.
\<close>

theorem settle_is_idempotent:
  assumes "settle req clock ratio ids d cmd = Inr (d', res)" "sr_action res = SETTLED" "book_ok d"
    and "cmd_order_id again = cmd_order_id cmd"
      "cmd_market_event_id again = cmd_market_event_id cmd" "r_matched (cmd_match_result again)"
  shows "settle req2 clock2 ratio2 ids2 d' again
    = Inr (d', \<lparr>sr_trade_id = sr_trade_id res, sr_order_id = cmd_order_id cmd,
                sr_action = IDEMPOTENT\<rparr>)"
proof -
  obtain r a v price r' t where
    ctx: "fill_context d cmd r a v" and gate: "gate_passed d r"
    and got: "get_order d' (cmd_order_id cmd) = Some r'" and fills: "order_fills v price r r'"
    and t: "trade_of_fill cmd v price r t" and rows: "db_trades d' = db_trades d @ [t]"
      "db_orders d' = replace_row o_order_id r' (db_orders d)" "db_batches d' = db_batches d"
    and res: "res = settled (t_trade_id t) r'"
    by (rule settled_effect [OF assms(1,3,2)])
  have "o_order_id r = cmd_order_id cmd" by (rule fill_context_rows(3) [OF ctx assms(3)])
  then have "get_trade_by_order_market_event d' (cmd_order_id cmd) (cmd_market_event_id cmd) = Some t"
    using ctx t rows(1)
    by (simp add: fill_context_def get_trade_by_order_market_event_def trade_of_fill_def
        first_row_append)
  moreover have "ensure_trading_open (db_batches d') None = Inr ()"
    "ensure_trading_open (db_batches d') (Some (o_trading_day r')) = Inr ()"
    using gate fills rows(3) by (simp_all add: gate_passed_def order_fills_def)
  ultimately show ?thesis
    using assms(4-6) got res by (simp add: settle_def settled_def)
qed

theorem settle_is_idempotent_witness:
  "\<exists>d' res. sample_settle ''O1'' 1 = Inr (d', res)
     \<and> settle no_margin_service 99 0 sample_settlement_ids d' (sample_command ''O1'' 2)
       = Inr (d', \<lparr>sr_trade_id = sr_trade_id res, sr_order_id = ''O1'', sr_action = IDEMPOTENT\<rparr>)"
proof -
  from sample_open obtain d' res where
    run: "sample_settle ''O1'' 1 = Inr (d', res)" "sr_action res = SETTLED" by blast
  from settle_is_idempotent [OF run(1) [unfolded sample_settle_def] run(2) sample_book,
      of "sample_command ''O1'' 2" no_margin_service 99 0 sample_settlement_ids] run(1)
  show ?thesis by simp
qed

text \<open>
  C12: what a settled fill does to its order. It fills the smaller of the matched and the remaining
  volume, never more than remains; the volumes stay balanced; the order ends FILLED exactly when
  nothing remains; exactly one trade is written, for that volume, order and market event, and it is
  the trade the result names.
\<close>

theorem settle_fills_order:
  assumes "settle req clock ratio ids d cmd = Inr (d', res)" "sr_action res = SETTLED" "book_ok d"
  shows "\<exists>r r' t v. get_order d (cmd_order_id cmd) = Some r
    \<and> get_order d' (cmd_order_id cmd) = Some r'
    \<and> v = min (r_fill_volume (cmd_match_result cmd)) (o_remaining_volume r) \<and> 0 < v
    \<and> o_traded_volume r' = o_traded_volume r + v
    \<and> o_remaining_volume r' = o_remaining_volume r - v \<and> 0 \<le> o_remaining_volume r'
    \<and> o_total_volume r' = o_total_volume r \<and> o_traded_volume r' \<le> o_total_volume r'
    \<and> o_status r' = (if o_remaining_volume r' = 0 then FILLED else PARTIALLY_FILLED)
    \<and> db_trades d' = db_trades d @ [t] \<and> t_order_id t = cmd_order_id cmd
    \<and> t_market_event_id t = cmd_market_event_id cmd \<and> t_trade_volume t = v
    \<and> sr_trade_id res = Some (t_trade_id t)"
proof -
  obtain r a v price r' t where
    ctx: "fill_context d cmd r a v" and "gate_passed d r"
    and got: "get_order d' (cmd_order_id cmd) = Some r'" and fills: "order_fills v price r r'"
    and t: "trade_of_fill cmd v price r t" and rows: "db_trades d' = db_trades d @ [t]"
      "db_orders d' = replace_row o_order_id r' (db_orders d)" "db_batches d' = db_batches d"
    and res: "res = settled (t_trade_id t) r'"
    by (rule settled_effect [OF assms(1,3,2)])
  note rows_ok = fill_context_rows [OF ctx assms(3)]
  have "o_traded_volume r' \<le> o_total_volume r'"
    using fills rows_ok(1) ctx
    by (auto simp: order_fills_def order_row_ok_def order_volume_balanced_def fill_context_def)
  with ctx got fills t rows(1) res rows_ok(3) show ?thesis
    by (auto simp: fill_context_def order_fills_def trade_of_fill_def settled_def)
qed

theorem settle_fills_order_witness:
  "\<exists>d' r'. (\<exists>res. sample_settle ''O1'' 1 = Inr (d', res)) \<and> get_order d' ''O1'' = Some r'
     \<and> o_traded_volume r' = 1 \<and> o_remaining_volume r' = 1 \<and> o_status r' = PARTIALLY_FILLED"
proof -
  from sample_open obtain d' res where
    run: "sample_settle ''O1'' 1 = Inr (d', res)" "sr_action res = SETTLED" by blast
  from settle_fills_order [OF run(1) [unfolded sample_settle_def] run(2) sample_book] run(1)
  show ?thesis by (auto simp: sample_gets)
qed

text \<open>
  C13: a command that is not settled moves nothing. Whatever the reason, no trade, position, detail,
  allocation, event or traded volume changes; and unless the final margin check of an opening fill
  answered, with one of its blocking outcomes, not a single row changes.
\<close>

theorem unsettled_moves_nothing:
  assumes "settle req clock ratio ids d cmd = Inr (d', res)" "sr_action res \<noteq> SETTLED" "book_ok d"
  shows "db_trades d' = db_trades d \<and> db_trade_allocations d' = db_trade_allocations d
    \<and> db_positions d' = db_positions d \<and> db_details d' = db_details d
    \<and> db_allocations d' = db_allocations d \<and> db_outbox d' = db_outbox d
    \<and> map (\<lambda>r. (o_order_id r, o_traded_volume r, o_remaining_volume r, o_status r)) (db_orders d')
        = map (\<lambda>r. (o_order_id r, o_traded_volume r, o_remaining_volume r, o_status r)) (db_orders d)
    \<and> (d' \<noteq> d \<longrightarrow> (\<exists>m \<in> set blocking_actions. sr_action res = MARGIN_CHECK m))"
  using assms(1)
proof (cases rule: settle_cases)
  case (blocked r a v r1 a1 action)
  note rows = fill_context_rows [OF blocked(1) assms(3)]
  have step: "margin_step_ok r a r1 a1" by (rule margin_checked_step [OF blocked(3) rows(1,2)])
  have "get_order d (cmd_order_id cmd) = Some r" using blocked(1) by (simp add: fill_context_def)
  then have mem: "r \<in> set (db_orders d)" unfolding get_order_def by (rule find_row_SomeD [THEN conjunct1])
  have keys: "distinct (map o_order_id (db_orders d))" using assms(3) by (simp add: book_ok_def keys_ok_def)
  have "map (\<lambda>r. (o_order_id r, o_traded_volume r, o_remaining_volume r, o_status r))
      (replace_row o_order_id r1 (db_orders d))
    = map (\<lambda>r. (o_order_id r, o_traded_volume r, o_remaining_volume r, o_status r)) (db_orders d)"
    using step by (intro map_replace_same_key [OF keys mem]) (simp_all add: margin_step_ok_def)
  with blocked(4-6) show ?thesis by (simp add: put_defs not_settled_def)
qed (use assms(2) in \<open>simp_all add: settled_def\<close>)

theorem unsettled_moves_nothing_witness:
  "\<exists>d' res. sample_settle ''O3'' 1 = Inr (d', res) \<and> sr_action res = ORDER_NOT_FOUND
     \<and> db_trades d' = [] \<and> d' = sample_db"
proof -
  have run: "sample_settle ''O3'' 1 = Inr (sample_db, not_settled ''O3'' ORDER_NOT_FOUND)"
    by (simp add: sample_settle_def settle_def sample_gets)
      (simp add: get_order_def sample_db_def)
  from unsettled_moves_nothing [OF run [unfolded sample_settle_def] _ sample_book] run
  show ?thesis by (simp add: not_settled_def sample_db_def)
qed

end
