(* ===== verification/Settlement_Money.thy ===== *)
theory Settlement_Money
  imports Settlement_Samples
begin

text \<open>Where the money of a fill goes, for each of the three product paths.\<close>

section \<open>Futures opening\<close>

text \<open>
  C14: a futures opening fill moves money and loses none. The margin of the trade leaves the frozen
  margin of the order and of the account and becomes used margin and the margin of the new detail;
  available, frozen and used money together fall by the commission, and so does the cash balance.
  The last fill of an order leaves neither margin nor commission frozen.
\<close>

theorem futures_fill_conserves:
  assumes "futures_open_fill ids cmd now r a pos v price = Inr f"
    and "order_row_ok r" "account_row_ok a" "0 < v" "v \<le> o_remaining_volume r"
    and "is_money (a_used_margin a)" "is_money (a_cash_balance a)"
  shows "0 \<le> t_commission (fo_trade f)
    \<and> a_available_cash (fo_account f) + a_frozen_margin (fo_account f)
        + a_frozen_commission (fo_account f) + a_used_margin (fo_account f)
      = a_available_cash a + a_frozen_margin a + a_frozen_commission a + a_used_margin a
        - t_commission (fo_trade f)
    \<and> a_cash_balance (fo_account f) = a_cash_balance a - t_commission (fo_trade f)
    \<and> a_used_margin (fo_account f) = a_used_margin a + t_margin (fo_trade f)
    \<and> o_frozen_margin (fo_order f) = o_frozen_margin r - t_margin (fo_trade f)
    \<and> a_frozen_margin (fo_account f) = a_frozen_margin a - t_margin (fo_trade f)
    \<and> d_remaining_margin (fo_detail f) = t_margin (fo_trade f)
    \<and> (v = o_remaining_volume r \<longrightarrow>
         o_frozen_margin (fo_order f) = 0 \<and> o_frozen_commission (fo_order f) = 0)"
proof -
  note b = futures_fill_bounds [OF assms(2,4,5)]
  note o' = open_filled_order_row [OF assms(2,4,5) b(3,2,6,5)]
  have full: "v = o_remaining_volume r \<longrightarrow>
      o_frozen_margin r - futures_fill_margin r v = 0
      \<and> o_frozen_commission r - futures_fill_released r v = 0"
    using assms(2) by (simp add: futures_fill_margin_def futures_fill_released_def
        settlement_allocate_frozen_def order_row_ok_def)
  from assms(1) obtain commission multiplier where
    fee: "fee_from_snapshot price v (o_commission_type r) (o_commission_parameter r)
       (Some multiplier) = Inr commission"
    and f: "t_commission (fo_trade f) = commission" "t_margin (fo_trade f) = futures_fill_margin r v"
      "d_remaining_margin (fo_detail f) = futures_fill_margin r v"
      "fo_order f = open_filled_order now v price (futures_fill_margin r v)
         (futures_fill_released r v) r"
      "fo_account f = futures_filled_account now (futures_fill_margin r v)
         (futures_fill_released r v) commission a"
    by (rule futures_open_fill_Inr) (auto simp: futures_open_trade_def futures_open_detail_def)
  note c = fee_from_snapshot_money [OF fee]
  show ?thesis
    using b c assms(3,6,7) unfolding f o'(2) [of now price] o'(3) [of now price]
    by (intro conjI full) (simp_all add: futures_filled_account_def account_row_ok_def Let_def is_money_diff is_money_add)
qed

theorem futures_fill_conserves_witness:
  "\<exists>f. futures_open_fill sample_settlement_ids (sample_command ''O1'' 2) 50
       (sample_order ''O1'' BUY OPEN 2 7000 5 0) sample_cash_account (Some (sample_position 2 1)) 2
       3490 = Inr f
     \<and> a_used_margin (fo_account f) = 7000 + t_margin (fo_trade f)
     \<and> a_cash_balance (fo_account f) = 100000 - t_commission (fo_trade f)
     \<and> o_frozen_margin (fo_order f) = 0"
proof -
  obtain f where run: "futures_open_fill sample_settlement_ids (sample_command ''O1'' 2) 50
       (sample_order ''O1'' BUY OPEN 2 7000 5 0) sample_cash_account (Some (sample_position 2 1)) 2
       3490 = Inr f"
    by (simp add: futures_open_fill_def fee_from_snapshot_def settlement_allocate_frozen_def
        position_to_fill_def sample_cash_account_def sample_account_def Let_def)
  have "order_row_ok (sample_order ''O1'' BUY OPEN 2 7000 5 0)" "account_row_ok sample_cash_account"
    "is_money (a_used_margin sample_cash_account)" "is_money (a_cash_balance sample_cash_account)"
    "a_used_margin sample_cash_account = 7000" "a_cash_balance sample_cash_account = 100000"
    by (simp_all add: order_row_ok_def order_volume_balanced_def account_row_ok_def
        sample_cash_account_def sample_account_def)
  with futures_fill_conserves [OF run] run show ?thesis by simp
qed

section \<open>Option opening\<close>

text \<open>
  An option opening fill exchanges cash for option value at the price of the fill. Cash balance
  plus net option value, and with them the account's equity, fall by the commission and by nothing
  else, whether the premium is paid or received; the frozen margin taken becomes used margin, option
  margin and realtime required margin alike.
\<close>

theorem option_fill_conserves:
  assumes "option_open_fill ratio ids cmd now r a pos v price = Inr f"
    and "order_row_ok r" "0 < v" "v \<le> o_remaining_volume r"
    and "is_money (a_cash_balance a)" "is_money (a_unrealized_pnl a)" "is_money (a_used_margin a)"
      "is_money (a_long_option_market_value a)" "is_money (a_short_option_market_value a)"
  shows "a_cash_balance (fo_account f)
      = a_cash_balance a + t_premium_cash_flow (fo_trade f) - t_commission (fo_trade f)
    \<and> a_long_option_market_value (fo_account f) - a_short_option_market_value (fo_account f)
      = a_long_option_market_value a - a_short_option_market_value a
        - t_premium_cash_flow (fo_trade f)
    \<and> a_equity (fo_account f)
      = a_cash_balance a + a_unrealized_pnl a + a_long_option_market_value a
        - a_short_option_market_value a - t_commission (fo_trade f)
    \<and> a_used_margin (fo_account f) = a_used_margin a + t_margin (fo_trade f)
    \<and> o_frozen_margin (fo_order f) = o_frozen_margin r - t_margin (fo_trade f)
    \<and> o_frozen_cash (fo_order f) = o_frozen_cash r - option_fill_cash r v
    \<and> (v = o_remaining_volume r \<longrightarrow> o_frozen_cash (fo_order f) = 0)"
proof -
  note b = option_fill_bounds [OF assms(2,3,4)]
  note o' = open_filled_order_row [OF assms(2,3,4) b(3,2,9,8)]
  have full: "v = o_remaining_volume r \<longrightarrow> o_frozen_cash r - option_fill_cash r v = 0"
    and cash: "is_money (o_frozen_cash r)"
    using assms(2) by (simp_all add: option_fill_cash_def option_allocate_def order_row_ok_def)
  from assms(1) obtain commission multiplier premium where
    fee: "fee_from_snapshot price v (o_commission_type r) (o_commission_parameter r)
       (Some multiplier) = Inr commission"
    and premium: "premium = quantize_money (price * of_int v * multiplier)"
    and f: "fo_trade f = option_open_trade ids cmd now r v price premium (option_fill_margin r v)
       commission"
      "fo_order f = option_filled_order now v price (option_fill_margin r v)
         (option_fill_cash r v) (option_fill_commission r v) r"
      "fo_account f = option_filled_account ratio now r (option_fill_margin r v)
         (option_fill_cash r v) (option_fill_commission r v) commission premium a"
    by (rule option_open_fill_Inr) blast
  have money: "is_money commission" "is_money premium"
    using fee_from_snapshot_money [OF fee] by (simp_all add: premium)
  have order: "o_frozen_margin (fo_order f) = o_frozen_margin r - option_fill_margin r v"
    "o_frozen_cash (fo_order f) = o_frozen_cash r - option_fill_cash r v"
    using o' b cash by (simp_all add: f option_filled_order_def is_money_diff)
  define flow where "flow = t_premium_cash_flow (fo_trade f)"
  have flow: "flow = (if o_direction r = BUY then - premium else premium)" "is_money flow"
    using money(2) by (simp_all add: flow_def f option_open_trade_def is_money_uminus)
  have trade: "t_commission (fo_trade f) = commission"
    "t_margin (fo_trade f) = option_fill_margin r v"
    by (simp_all add: f option_open_trade_def)
  let ?a = "option_moved_account r (option_fill_margin r v) (option_fill_cash r v)
    (option_fill_commission r v) commission premium a"
  have moved: "a_cash_balance ?a = a_cash_balance a + flow - commission"
    "a_used_margin ?a = a_used_margin a + option_fill_margin r v"
    "a_long_option_market_value ?a - a_short_option_market_value ?a
       = a_long_option_market_value a - a_short_option_market_value a - flow"
    "is_money (a_long_option_market_value ?a)" "is_money (a_short_option_market_value ?a)"
    "a_unrealized_pnl ?a = a_unrealized_pnl a"
    using assms(5-9) b(3) money flow
    by (simp_all add: option_moved_account_def Let_def is_money_diff is_money_add)
  have same: "a_cash_balance (fo_account f) = a_cash_balance ?a"
    "a_used_margin (fo_account f) = a_used_margin ?a"
    "a_long_option_market_value (fo_account f) = a_long_option_market_value ?a"
    "a_short_option_market_value (fo_account f) = a_short_option_market_value ?a"
    "a_equity (fo_account f) = vr_equity (valuation_of ratio ?a)"
    by (simp_all add: f option_filled_account_def revalued_def Let_def)
  have "is_money (a_cash_balance ?a)"
    unfolding moved(1) using assms(5) money flow(2) by (intro is_money_diff is_money_add)
  then have "vr_equity (valuation_of ratio ?a) = a_cash_balance ?a + a_unrealized_pnl a
      + (a_long_option_market_value ?a - a_short_option_market_value ?a)"
    using moved(4-6) assms(6)
    by (simp add: valuation_of_def account_valuation_def Let_def is_money_diff is_money_add)
  then show ?thesis
    unfolding order trade same flow_def [symmetric] moved(1-3) by (intro conjI full) simp_all
qed

definition sample_option_sell :: order where
  "sample_option_sell = (sample_order ''O3'' SELL OPEN 1 500 5 0)
     \<lparr>o_instrument_type := FUTURES_OPTION\<rparr>"

lemma sample_option_sell_fields [simp]:
  "o_commission_type sample_option_sell = Some BY_VOLUME" "o_direction sample_option_sell = SELL"
  "o_commission_parameter sample_option_sell = Some 5" "o_remaining_volume sample_option_sell = 1"
  "o_commission_contract_multiplier sample_option_sell = Some 10"
  "o_frozen_margin sample_option_sell = 500" "o_frozen_commission sample_option_sell = 5"
  "o_frozen_cash sample_option_sell = 0"
  by (simp_all add: sample_option_sell_def)

theorem option_fill_conserves_witness:
  "\<exists>f. option_open_fill (1/2) sample_settlement_ids (sample_command ''O3'' 1) 50 sample_option_sell
       (sample_account\<lparr>a_frozen_margin := 500, a_frozen_commission := 5\<rparr>) None 1 30 = Inr f
     \<and> a_cash_balance (fo_account f)
       = 100000 + t_premium_cash_flow (fo_trade f) - t_commission (fo_trade f)
     \<and> a_equity (fo_account f) = 100000 - t_commission (fo_trade f)"
proof -
  let ?a = "sample_account\<lparr>a_frozen_margin := 500, a_frozen_commission := 5\<rparr>"
  have v: "option_fill_margin sample_option_sell 1 = 500" "option_fill_cash sample_option_sell 1 = 0"
    "option_fill_commission sample_option_sell 1 = 5"
    by (simp_all add: option_fill_margin_def option_fill_cash_def option_fill_commission_def
        option_allocate_def)
  obtain f where run: "option_open_fill (1/2) sample_settlement_ids (sample_command ''O3'' 1) 50
      sample_option_sell ?a None 1 30 = Inr f"
    by (simp add: option_open_fill_def v fee_from_snapshot_def position_to_fill_def
        blank_position_def option_rules_differ_def sample_account_def Let_def)
  have "order_row_ok sample_option_sell"
    by (simp add: order_row_ok_def order_volume_balanced_def sample_option_sell_def)
  moreover have "a_cash_balance ?a = 100000" "a_unrealized_pnl ?a = 0" "a_used_margin ?a = 0"
    "a_long_option_market_value ?a = 0" "a_short_option_market_value ?a = 0"
    by (simp_all add: sample_account_def)
  ultimately show ?thesis using option_fill_conserves [OF run] run by simp
qed

section \<open>Futures closing\<close>

text \<open>
  C15: a futures closing fill releases margin and settles the day's result. Available, frozen and used
  money together change by the daily close result less the commission, and so does the cash balance;
  the trade's margin leaves the used margin; and the rows per detail add up to the trade in volume,
  margin, realized result and commission.
\<close>

theorem futures_close_conserves:
  assumes "close_apply ratio ids cmd now d r a v price = Inr f"
    and "o_instrument_type r \<notin> {FUTURES_OPTION, INDEX_OPTION}"
    and "account_row_ok a" "is_money (a_used_margin a)" "is_money (a_cash_balance a)"
  shows "a_available_cash (cf_account f) + a_frozen_commission (cf_account f)
        + a_used_margin (cf_account f)
      = a_available_cash a + a_frozen_commission a + a_used_margin a
        + t_daily_close_pnl (cf_trade f) - t_commission (cf_trade f)
    \<and> a_cash_balance (cf_account f)
      = a_cash_balance a + t_daily_close_pnl (cf_trade f) - t_commission (cf_trade f)
    \<and> a_used_margin (cf_account f) = a_used_margin a - t_margin (cf_trade f)
    \<and> 0 \<le> a_used_margin (cf_account f)
    \<and> t_trade_volume (cf_trade f) = v
    \<and> sum_list (map tp_close_volume (cf_trade_allocations f)) = v
    \<and> quantize_money (sum_list (map tp_released_margin (cf_trade_allocations f)))
      = t_margin (cf_trade f)
    \<and> quantize_money (sum_list (map tp_realized_pnl (cf_trade_allocations f)))
      = t_realized_pnl (cf_trade f)
    \<and> quantize_money (sum_list (map tp_commission (cf_trade_allocations f)))
      = t_commission (cf_trade f)"
proof -
  from assms(1) obtain p details fs cs t where
    w: "close_written ratio ids cmd now d r a v price p details fs cs t f"
    by (rule close_apply_Inr)
  have io: "is_option_type (o_instrument_type r) = False" using assms(2) by (simp add: is_option_type_def)
  from w have t: "t = close_totals_of False r p v price cs"
    and tr: "cf_trade f = close_trade False ids cmd now r v price t"
    and acc: "cf_account f = close_filled_account ratio False now (close_direction r) (cf_trade f) t a"
    and res: "ct_margin t \<le> a_used_margin a"
    and rows: "trade_allocations_match (cf_trade_allocations f) (cf_trade f)"
    unfolding close_written_def close_resources_ok_def io by blast+
  have money: "is_money (ct_margin t)" "is_money (ct_frozen_commission t)"
    "is_money (ct_commission t)" "is_money (ct_daily_close_pnl t)"
    by (simp_all add: t close_totals_of_def total_by_def)
  have trade: "t_daily_close_pnl (cf_trade f) = ct_daily_close_pnl t"
    "t_commission (cf_trade f) = ct_commission t" "t_margin (cf_trade f) = ct_margin t"
    "t_trade_volume (cf_trade f) = v"
    by (simp_all add: tr close_trade_def)
  have account: "a_available_cash (cf_account f) = a_available_cash a + ct_frozen_commission t
      - ct_commission t + ct_margin t + ct_daily_close_pnl t"
    "a_frozen_commission (cf_account f) = a_frozen_commission a - ct_frozen_commission t"
    "a_used_margin (cf_account f) = a_used_margin a - ct_margin t"
    "a_cash_balance (cf_account f) = a_cash_balance a + ct_daily_close_pnl t - ct_commission t"
    using assms(3-5) money
    by (simp_all add: acc close_filled_account_def close_common_account_def close_futures_account_def
        account_row_ok_def Let_def is_money_add is_money_diff)
  show ?thesis
    using rows res unfolding trade_allocations_match_def trade account by auto
qed

theorem futures_close_conserves_witness:
  "\<exists>f. close_apply (1/2) sample_settlement_ids (sample_command ''O2'' 1) 50 sample_db
       (sample_order ''O2'' SELL CLOSE 1 0 5 1) sample_cash_account 1 3490 = Inr f
     \<and> a_used_margin (cf_account f) = 7000 - t_margin (cf_trade f)
     \<and> a_cash_balance (cf_account f)
       = 100000 + t_daily_close_pnl (cf_trade f) - t_commission (cf_trade f)"
proof -
  obtain f where run: "close_apply (1/2) sample_settlement_ids (sample_command ''O2'' 1) 50 sample_db
      (sample_order ''O2'' SELL CLOSE 1 0 5 1) sample_cash_account 1 3490 = Inr f"
    using sample_close_apply by blast
  have "account_row_ok sample_cash_account" "a_used_margin sample_cash_account = 7000"
    "a_cash_balance sample_cash_account = 100000"
    by (simp_all add: account_row_ok_def sample_cash_account_def sample_account_def)
  with futures_close_conserves [OF run] run show ?thesis by simp
qed

section \<open>The events of a first futures fill\<close>

text \<open>
  The position event of a futures opening fill names the instrument type only when the position
  existed before. The first fill of a position reports it before the INSERT has applied the column
  defaults, so its event carries null; every other field of the trade is there.
\<close>

theorem first_futures_fill_event:
  assumes "settle_futures_open ids cmd now d r a pos v price = Inr (d', res)"
  shows "\<exists>e. e \<in> set (db_outbox d') \<and> e_aggregate_type e = ''POSITION''
    \<and> map_of (e_payload e) ''instrument_type''
      = Some (case pos of None \<Rightarrow> JNull
              | Some p \<Rightarrow> JString (instrument_type_value (p_instrument_type p)))"
proof -
  from assms obtain f where fill: "futures_open_fill ids cmd now r a pos v price = Inr f"
    and d': "d' = add_events (create_outbox_events ids (fo_trade f) (fo_order f) (fo_account f)
        (fo_position f) (pos \<noteq> None) now) (write_open_fill pos f d)"
    by (auto simp: settle_futures_open_def rbind_Inr_iff)
  from fill obtain multiplier where
    p: "fo_position f = futures_filled_position now r v price
       (quantize_money (price * of_int v * multiplier)) (futures_fill_margin r v)
       (position_to_fill (si_position ids) now r FUTURES multiplier pos)"
    by (rule futures_open_fill_Inr) blast
  define e where "e = (let e = create_position_updated (si_position_fact ids) (fo_position f) now None
       in if pos \<noteq> None then e else unflushed_position_event e)"
  have mem: "e \<in> set (db_outbox d')"
    by (simp add: e_def d' create_outbox_events_def add_events_def Let_def)
  have "e_aggregate_type e = ''POSITION''"
    by (simp add: e_def create_position_updated_def create_event_def unflushed_position_event_def
        Let_def)
  moreover have "map_of (e_payload e) ''instrument_type''
      = Some (case pos of None \<Rightarrow> JNull
              | Some p \<Rightarrow> JString (instrument_type_value (p_instrument_type p)))"
    by (cases pos) (simp_all add: e_def p create_position_updated_def create_event_def
        unflushed_position_event_def unflushed_columns_def position_updated_payload_def
        futures_filled_position_def position_to_fill_def Let_def)
  ultimately show ?thesis using mem by blast
qed

theorem first_futures_fill_event_witness:
  "\<exists>d' res e. settle_futures_open sample_settlement_ids (sample_command ''O1'' 2) 50 sample_db
       (sample_order ''O1'' BUY OPEN 2 7000 5 0) sample_cash_account None 2 3490 = Inr (d', res)
     \<and> e \<in> set (db_outbox d') \<and> map_of (e_payload e) ''instrument_type'' = Some JNull"
proof -
  obtain d' res where run: "settle_futures_open sample_settlement_ids (sample_command ''O1'' 2) 50
       sample_db (sample_order ''O1'' BUY OPEN 2 7000 5 0) sample_cash_account None 2 3490
     = Inr (d', res)"
    by (simp add: settle_futures_open_def futures_open_fill_def fee_from_snapshot_def
        settlement_allocate_frozen_def position_to_fill_def blank_position_def
        sample_cash_account_def sample_account_def Let_def)
  from first_futures_fill_event [OF run] run show ?thesis by auto
qed

end
