(* ===== verification/Order_Cancellation.thy ===== *)
theory Order_Cancellation
  imports Outbox_Events Freeze Products Close_Allocator Book
begin

text \<open>
  \<open>app/services/order_cancellation_service.py\<close> with \<open>app/services/account_access_scope.py\<close>: one
  transaction that locks the order and its account, gives back what the order still holds, closes the
  order and writes its events. The result is the committed tables and the returned order, or the
  error of a rolled back transaction.
\<close>

section \<open>Who may cancel\<close>

record access_scope =
  sc_user_id :: "string option"
  sc_is_admin :: bool
  sc_conceal :: bool

text \<open>\<open>AccountAccessScope.__post_init__\<close>.\<close>

definition make_scope :: "string option \<Rightarrow> bool \<Rightarrow> bool \<Rightarrow> access_scope result" where
  "make_scope user_id is_admin conceal =
     (let normalized = (case user_id of None \<Rightarrow> None | Some u \<Rightarrow> Some (strip u))
      in if is_admin then
           (if normalized \<noteq> None then Inl PyValueError
            else if conceal then Inl PyValueError
            else Inr \<lparr>sc_user_id = normalized, sc_is_admin = True, sc_conceal = False\<rparr>)
         else if normalized = None \<or> normalized = Some [] then Inl PyValueError
         else Inr \<lparr>sc_user_id = normalized, sc_is_admin = False, sc_conceal = conceal\<rparr>)"

definition scope_for_user :: "string \<Rightarrow> access_scope result" where
  "scope_for_user user_id = make_scope (Some user_id) False True"

definition scope_admin :: access_scope where
  "scope_admin = \<lparr>sc_user_id = None, sc_is_admin = True, sc_conceal = False\<rparr>"

text \<open>A user id that is NULL matches no row.\<close>

definition scoped_order :: "db \<Rightarrow> access_scope \<Rightarrow> string \<Rightarrow> order option" where
  "scoped_order d scope oid =
     (if sc_is_admin scope then get_order d oid
      else case sc_user_id scope of None \<Rightarrow> None | Some u \<Rightarrow> get_order_for_user d oid u)"

definition scoped_account :: "db \<Rightarrow> access_scope \<Rightarrow> string \<Rightarrow> account option" where
  "scoped_account d scope aid =
     (if sc_is_admin scope then get_account d aid
      else case sc_user_id scope of None \<Rightarrow> None | Some u \<Rightarrow> get_owned_account d aid u)"

definition missing_resource :: "access_scope \<Rightarrow> app_error" where
  "missing_resource scope =
     (if sc_conceal scope then ResourceNotFoundError ''RESOURCE_NOT_FOUND''
      else ResourceNotFoundError ''ORDER_NOT_FOUND'')"

definition locate_order ::
  "db \<Rightarrow> access_scope \<Rightarrow> string \<Rightarrow> string \<Rightarrow> (order \<times> account) result" where
  "locate_order d scope oid aid =
     (case scoped_order d scope oid of
        None \<Rightarrow> Inl (missing_resource scope)
      | Some r \<Rightarrow>
        (case scoped_account d scope (o_account_id r) of
           None \<Rightarrow> Inl (missing_resource scope)
         | Some a \<Rightarrow>
             if o_account_id r \<noteq> aid then Inl (ResourceConflictError ''ORDER_ACCOUNT_MISMATCH'')
             else Inr (r, a)))"

section \<open>Which orders can be cancelled\<close>

definition cancellable_statuses :: "order_status list" where
  "cancellable_statuses = [ACCEPTED, PARTIALLY_FILLED]"

definition idempotent_statuses :: "order_status list" where
  "idempotent_statuses = [CANCELLED, PARTIALLY_CANCELLED]"

fun known_order_type :: "order_type \<Rightarrow> bool" where
  "known_order_type (UnknownOrderType _) = False"
| "known_order_type _ = True"

definition is_close_flag :: "offset_flag option \<Rightarrow> bool" where
  "is_close_flag f \<longleftrightarrow> f \<in> {Some CLOSE, Some CLOSE_TODAY, Some CLOSE_YESTERDAY}"

definition check_cancellable :: "order \<Rightarrow> bool \<Rightarrow> unit result" where
  "check_cancellable r market_auto_cancel =
     (if (o_order_type r = MARKET \<and> \<not> market_auto_cancel) \<or> \<not> known_order_type (o_order_type r)
      then Inl (ResourceConflictError ''ORDER_NOT_CANCELLABLE'')
      else if o_status r \<notin> set cancellable_statuses
      then Inl (ResourceConflictError ''ORDER_NOT_CANCELLABLE'')
      else if o_remaining_volume r \<le> 0
      then Inl (DataAccessError ''CANCEL_ORDER_STATE_INCONSISTENT'')
      else if o_offset_flag r = Some OPEN then
        (if o_frozen_position_volume r \<noteq> 0
         then Inl (DataAccessError ''CANCEL_ORDER_STATE_INCONSISTENT'') else Inr ())
      else if is_close_flag (o_offset_flag r) then
        (if quantize_money (o_frozen_margin r) \<noteq> 0
            \<or> o_frozen_position_volume r \<noteq> o_remaining_volume r
         then Inl (DataAccessError ''CANCEL_ORDER_STATE_INCONSISTENT'') else Inr ())
      else Inl (ResourceConflictError ''ORDER_NOT_CANCELLABLE''))"

section \<open>Giving back the positions of a closing order\<close>

definition expected_resolved_offset :: "date \<Rightarrow> detail \<Rightarrow> offset_flag option" where
  "expected_resolved_offset trading_day dt =
     (if d_open_trading_day dt = trading_day then Some CLOSE_TODAY
      else if d_open_trading_day dt < trading_day then Some CLOSE_YESTERDAY else None)"

definition cancel_allocation_ok ::
  "order \<Rightarrow> position \<Rightarrow> position_direction \<Rightarrow> detail list \<Rightarrow> freeze_allocation \<Rightarrow> bool" where
  "cancel_allocation_ok r p dir details f \<longleftrightarrow>
     f_order_id f = o_order_id r \<and> f_position_id f = p_position_id p
     \<and> f_account_id f = o_account_id r \<and> f_exchange_id f = o_exchange_id r
     \<and> f_symbol f = o_symbol r
     \<and> f_resolved_offset_flag f \<in> {CLOSE_TODAY, CLOSE_YESTERDAY}
     \<and> (case find_row d_position_detail_id (f_position_detail_id f) details of
          None \<Rightarrow> False
        | Some dt \<Rightarrow>
            d_direction dt = dir
            \<and> Some (f_resolved_offset_flag f) = expected_resolved_offset (o_trading_day r) dt
            \<and> f_remaining_frozen_volume f \<le> d_frozen_volume dt
            \<and> f_remaining_frozen_volume f \<le> d_remaining_volume dt)
     \<and> f_original_frozen_volume f
         = f_remaining_frozen_volume f + f_consumed_volume f + f_released_volume f
     \<and> quantize_money (f_original_frozen_commission f)
         = quantize_money (f_remaining_frozen_commission f + f_consumed_commission f
                           + f_released_commission f)"

definition release_allocation :: "datetime \<Rightarrow> freeze_allocation \<Rightarrow> freeze_allocation" where
  "release_allocation now f =
     f\<lparr>f_remaining_frozen_volume := 0,
       f_released_volume := f_released_volume f + f_remaining_frozen_volume f,
       f_remaining_frozen_commission := 0,
       f_released_commission :=
         quantize_money (f_released_commission f + f_remaining_frozen_commission f),
       f_status := RELEASED, f_updated_at := now\<rparr>"

text \<open>The loop over the allocations; the details are a store that the allocations share.\<close>

fun release_allocations ::
  "datetime \<Rightarrow> detail list \<Rightarrow> freeze_allocation list
   \<Rightarrow> (detail list \<times> freeze_allocation list) result" where
  "release_allocations now details [] = Inr (details, [])"
| "release_allocations now details (f # fs) =
     (if f_remaining_frozen_volume f \<le> 0 \<and> f_remaining_frozen_commission f = 0
      then rbind (release_allocations now details fs)
             (\<lambda>(details', fs'). Inr (details', f # fs'))
      else case find_row d_position_detail_id (f_position_detail_id f) details of
        None \<Rightarrow> Inl PyKeyError
      | Some dt \<Rightarrow>
          let dt' = dt\<lparr>d_frozen_volume := d_frozen_volume dt - f_remaining_frozen_volume f,
                      d_updated_at := now\<rparr>
          in rbind (release_allocations now (replace_row d_position_detail_id dt' details) fs)
               (\<lambda>(details', fs'). Inr (details', release_allocation now f # fs')))"

definition release_position :: "datetime \<Rightarrow> int \<Rightarrow> position \<Rightarrow> position result" where
  "release_position now cancel_volume p =
     (if p_frozen_volume p < cancel_volume
      then Inl (DataAccessError ''CANCEL_POSITION_INCONSISTENT'')
      else let frozen = p_frozen_volume p - cancel_volume
           in Inr (p\<lparr>p_frozen_volume := frozen,
                     p_available_volume :=
                       p_total_volume p - frozen - p_settlement_locked_volume p,
                     p_updated_at := now\<rparr>))"

text \<open>The closing branch: the position, details and allocations as they are afterwards.\<close>

definition cancel_close_positions ::
  "db \<Rightarrow> datetime \<Rightarrow> order \<Rightarrow> (position \<times> detail list \<times> freeze_allocation list) result" where
  "cancel_close_positions d now r =
     (let dir = closed_position_direction (o_direction r);
          released_commission = quantize_money (o_frozen_commission r)
      in case get_position d (o_account_id r) (o_exchange_id r) (o_symbol r) dir of
        None \<Rightarrow> Inl (DataAccessError ''CANCEL_POSITION_INCONSISTENT'')
      | Some p \<Rightarrow>
        if p_direction p \<noteq> dir then Inl (DataAccessError ''CANCEL_POSITION_INCONSISTENT'')
        else
          let details = list_details_by_order d (p_position_id p) (o_order_id r);
              allocations = list_allocations_by_order d (o_order_id r);
              allocation_volume = sum_list (map f_remaining_frozen_volume allocations);
              allocation_commission =
                quantize_money (sum_list (map f_remaining_frozen_commission allocations))
          in if allocations = [] \<or> allocation_volume \<noteq> o_remaining_volume r
                \<or> allocation_volume \<noteq> o_frozen_position_volume r
                \<or> allocation_commission \<noteq> released_commission
             then Inl (DataAccessError ''CANCEL_POSITION_INCONSISTENT'')
             else if \<not> list_all (cancel_allocation_ok r p dir details) allocations
             then Inl (DataAccessError ''CANCEL_POSITION_INCONSISTENT'')
             else rbind (release_allocations now details allocations)
               (\<lambda>(details', allocations').
                  rbind (release_position now (o_remaining_volume r) p)
                    (\<lambda>p'. Inr (p', details', allocations'))))"

section \<open>The order and its event\<close>

text \<open>The two reason texts, in UTF-8.\<close>

definition market_cancel_message :: string where
  "market_cancel_message =
     [CHR 0xE5, CHR 0xB8, CHR 0x82, CHR 0xE4, CHR 0xBB, CHR 0xB7, CHR 0xE5, CHR 0x8D,
      CHR 0x95, CHR 0xE4, CHR 0xB8, CHR 0x80, CHR 0xE6, CHR 0xA1, CHR 0xA3, CHR 0xE6,
      CHR 0x92, CHR 0xAE, CHR 0xE5, CHR 0x90, CHR 0x88, CHR 0xE5, CHR 0x90, CHR 0x8E,
      CHR 0xE5, CHR 0x89, CHR 0xA9, CHR 0xE4, CHR 0xBD, CHR 0x99, CHR 0xE6, CHR 0x95,
      CHR 0xB0, CHR 0xE9, CHR 0x87, CHR 0x8F, CHR 0xE8, CHR 0x87, CHR 0xAA, CHR 0xE5,
      CHR 0x8A, CHR 0xA8, CHR 0xE6, CHR 0x92, CHR 0xA4, CHR 0xE9, CHR 0x94, CHR 0x80]"

definition user_cancel_message :: string where
  "user_cancel_message =
     [CHR 0xE7, CHR 0x94, CHR 0xA8, CHR 0xE6, CHR 0x88, CHR 0xB7, CHR 0xE4, CHR 0xB8,
      CHR 0xBB, CHR 0xE5, CHR 0x8A, CHR 0xA8, CHR 0xE6, CHR 0x92, CHR 0xA4, CHR 0xE5,
      CHR 0x8D, CHR 0x95]"

definition cancelled_order :: "datetime \<Rightarrow> bool \<Rightarrow> order \<Rightarrow> order" where
  "cancelled_order now market_auto_cancel r =
     r\<lparr>o_frozen_position_volume :=
         (if is_close_flag (o_offset_flag r) then 0 else o_frozen_position_volume r),
       o_cancelled_volume := o_cancelled_volume r + o_remaining_volume r,
       o_remaining_volume := 0, o_frozen_margin := 0, o_margin_risk_state := NORMAL,
       o_frozen_cash := 0, o_frozen_commission := 0, o_cancelled_at := Some now,
       o_cancel_reason_code :=
         Some (if market_auto_cancel then ''MARKET_REMAINDER_CANCELLED'' else ''USER_REQUEST''),
       o_cancel_reason_message :=
         Some (if market_auto_cancel then market_cancel_message else user_cancel_message),
       o_updated_at := now,
       o_status := (if o_traded_volume r = 0 then CANCELLED else PARTIALLY_CANCELLED)\<rparr>"

definition cancel_event_type :: "order \<Rightarrow> string" where
  "cancel_event_type r =
     (if o_traded_volume r = 0 then ''ORDER_CANCELLED'' else ''ORDER_PARTIALLY_CANCELLED'')"

definition json_text :: "string option \<Rightarrow> json" where
  "json_text s = (case s of None \<Rightarrow> JNull | Some x \<Rightarrow> JString x)"

definition cancel_event_payload ::
  "string \<Rightarrow> order \<Rightarrow> decimal \<Rightarrow> decimal \<Rightarrow> decimal \<Rightarrow> datetime \<Rightarrow> payload" where
  "cancel_event_payload event_id r released_margin released_cash released_commission now =
     [(''event_id'', JString event_id), (''event_type'', JString (cancel_event_type r)),
      (''order_id'', JString (o_order_id r)),
      (''client_order_id'', JString (o_client_order_id r)),
      (''account_id'', JString (o_account_id r)), (''exchange_id'', JString (o_exchange_id r)),
      (''symbol'', JString (o_symbol r)), (''order_book_id'', JString (o_order_book_id r)),
      (''trading_day'', JDate (o_trading_day r)),
      (''direction'', JString (direction_value (o_direction r))),
      (''offset_flag'', json_offset (o_offset_flag r)),
      (''order_type'', JString (order_type_value (o_order_type r))),
      (''resolved_price'', JDecimal (quantize_money (o_resolved_price r))),
      (''market_protection_price'', json_money (o_market_protection_price r)),
      (''status'', JString (order_status_value (o_status r))),
      (''total_volume'', JInt (o_total_volume r)), (''traded_volume'', JInt (o_traded_volume r)),
      (''remaining_volume'', JInt (o_remaining_volume r)),
      (''cancelled_volume'', JInt (o_cancelled_volume r)),
      (''average_price'', (case o_average_price r of
         None \<Rightarrow> JString [] | Some x \<Rightarrow> JDecimal (quantize_money x))),
      (''released_margin'', JDecimal (quantize_money released_margin)),
      (''released_cash'', JDecimal (quantize_money released_cash)),
      (''released_commission'', JDecimal (quantize_money released_commission)),
      (''frozen_margin'', JDecimal (quantize_money (o_frozen_margin r))),
      (''frozen_cash'', JDecimal (quantize_money (o_frozen_cash r))),
      (''frozen_commission'', JDecimal (quantize_money (o_frozen_commission r))),
      (''frozen_position_volume'', JInt (o_frozen_position_volume r)),
      (''cancelled_at'', JTime now), (''cancel_reason_code'', json_text (o_cancel_reason_code r)),
      (''cancel_reason_message'', json_text (o_cancel_reason_message r)),
      (''updated_at'', JTime (o_updated_at r))]"

section \<open>\<open>cancel_order\<close>\<close>

text \<open>The drawn ids: the order event, the account fact, the position fact.\<close>

record cancel_ids =
  ci_order_event :: string
  ci_account_fact :: string
  ci_position_fact :: string

text \<open>The account after the release, which is chosen by the order's offset flag.\<close>

definition cancel_release_account :: "order \<Rightarrow> account \<Rightarrow> account result" where
  "cancel_release_account r a =
     (let released_margin = quantize_money (o_frozen_margin r);
          released_cash = quantize_money (o_frozen_cash r);
          released_commission = quantize_money (o_frozen_commission r)
      in if o_offset_flag r = Some OPEN
         then release_open_order_frozen_resources (Some a) released_margin released_commission
                released_cash
         else release_close_order_commission (Some a) released_commission released_cash)"

definition cancel_positions ::
  "db \<Rightarrow> datetime \<Rightarrow> order \<Rightarrow> (position \<times> detail list \<times> freeze_allocation list) option result" where
  "cancel_positions d now r =
     (if is_close_flag (o_offset_flag r)
      then rbind (cancel_close_positions d now r) (\<lambda>x. Inr (Some x)) else Inr None)"

text \<open>The events of a cancellation, in the order they are added to the session.\<close>

definition cancel_events ::
  "cancel_ids \<Rightarrow> datetime \<Rightarrow> order \<Rightarrow> order \<Rightarrow> account \<Rightarrow> position option \<Rightarrow> outbox_event list" where
  "cancel_events ids now old r a p =
     [create_event (ci_order_event ids) ''ORDER'' (o_order_id r) (cancel_event_type r)
        (cancel_event_payload (ci_order_event ids) r (quantize_money (o_frozen_margin old))
           (quantize_money (o_frozen_cash old)) (quantize_money (o_frozen_commission old)) now)
        now,
      create_account_updated (ci_account_fact ids) a now (Some (o_account_id r)) None None False]
     @ (case p of None \<Rightarrow> []
        | Some p \<Rightarrow> [create_position_updated (ci_position_fact ids) p now None])"

definition write_cancellation ::
  "cancel_ids \<Rightarrow> datetime \<Rightarrow> order \<Rightarrow> order \<Rightarrow> account
   \<Rightarrow> (position \<times> detail list \<times> freeze_allocation list) option \<Rightarrow> db \<Rightarrow> db" where
  "write_cancellation ids now old r a released d =
     add_events (cancel_events ids now old r a (map_option fst released))
       (put_order r (put_account a
          (case released of None \<Rightarrow> d
           | Some (p, details, allocations) \<Rightarrow>
               put_position p (put_details details (put_allocations allocations d)))))"

definition cancel_located ::
  "db \<Rightarrow> cancel_ids \<Rightarrow> datetime \<Rightarrow> bool \<Rightarrow> order \<Rightarrow> account \<Rightarrow> (db \<times> order) result" where
  "cancel_located d ids now market_auto_cancel r a =
     rbind (check_cancellable r market_auto_cancel) (\<lambda>_.
     rbind (cancel_positions d now r) (\<lambda>released.
     rbind (cancel_release_account r a) (\<lambda>a'.
     let r' = cancelled_order now market_auto_cancel r; a'' = a'\<lparr>a_updated_at := now\<rparr>
     in if o_total_volume r' \<noteq> o_traded_volume r' + o_remaining_volume r' + o_cancelled_volume r'
        then Inl (DataAccessError ''CANCEL_ORDER_VOLUME_INCONSISTENT'')
        else Inr (write_cancellation ids now r r' a'' released d, r'))))"

definition cancel_order ::
  "db \<Rightarrow> cancel_ids \<Rightarrow> datetime \<Rightarrow> string \<Rightarrow> string \<Rightarrow> access_scope option \<Rightarrow> bool \<Rightarrow> bool
   \<Rightarrow> (db \<times> order) result" where
  "cancel_order d ids now order_id account_id scope settlement_internal market_auto_cancel =
     (case scope of
        None \<Rightarrow> Inl PyValueError
      | Some sc \<Rightarrow>
        rbind (if settlement_internal then Inr () else ensure_trading_open (db_batches d) None)
        (\<lambda>_. rbind (locate_order d sc (strip order_id) (strip account_id))
        (\<lambda>(r, a). rbind (resolve_product_strategy (o_instrument_type r))
        (\<lambda>_. if market_auto_cancel \<and> o_status r = FILLED then Inr (d, r)
             else if o_status r \<in> set idempotent_statuses then Inr (d, r)
             else cancel_located d ids now market_auto_cancel r a))))"

definition cancel_market_remainder ::
  "db \<Rightarrow> cancel_ids \<Rightarrow> datetime \<Rightarrow> string \<Rightarrow> (db \<times> order) result" where
  "cancel_market_remainder d ids now order_id =
     (case get_order d (strip order_id) of
        None \<Rightarrow> Inl (ResourceNotFoundError ''ORDER_NOT_FOUND'')
      | Some r \<Rightarrow>
          if o_order_type r \<noteq> MARKET
          then Inl (ResourceConflictError ''ORDER_NOT_CANCELLABLE'')
          else cancel_order d ids now order_id (o_account_id r) (Some scope_admin) True True)"

section \<open>What the release loop does\<close>

definition allocation_idle :: "freeze_allocation \<Rightarrow> bool" where
  "allocation_idle f \<longleftrightarrow> f_remaining_frozen_volume f \<le> 0 \<and> f_remaining_frozen_commission f = 0"

definition released_allocation :: "datetime \<Rightarrow> freeze_allocation \<Rightarrow> freeze_allocation" where
  "released_allocation now f = (if allocation_idle f then f else release_allocation now f)"

definition live_on :: "freeze_allocation list \<Rightarrow> string \<Rightarrow> freeze_allocation list" where
  "live_on fs k = filter (\<lambda>f. \<not> allocation_idle f \<and> f_position_detail_id f = k) fs"

definition released_detail :: "datetime \<Rightarrow> freeze_allocation list \<Rightarrow> detail \<Rightarrow> detail" where
  "released_detail now fs dt =
     (let live = live_on fs (d_position_detail_id dt)
      in if live = [] then dt
         else dt\<lparr>d_frozen_volume :=
                   d_frozen_volume dt - sum_list (map f_remaining_frozen_volume live),
                 d_updated_at := now\<rparr>)"

lemma released_detail_key [simp]:
  "d_position_detail_id (released_detail now fs dt) = d_position_detail_id dt"
  "d_position_id (released_detail now fs dt) = d_position_id dt"
  "d_remaining_volume (released_detail now fs dt) = d_remaining_volume dt"
  "d_remaining_margin (released_detail now fs dt) = d_remaining_margin dt"
  "d_original_volume (released_detail now fs dt) = d_original_volume dt"
  "d_account_id (released_detail now fs dt) = d_account_id dt"
  by (simp_all add: released_detail_def Let_def)

lemma released_allocation_key [simp]:
  "f_allocation_id (released_allocation now f) = f_allocation_id f"
  "f_order_id (released_allocation now f) = f_order_id f"
  "f_position_detail_id (released_allocation now f) = f_position_detail_id f"
  by (simp_all add: released_allocation_def release_allocation_def)

text \<open>The loop updates each detail once per allocation on it; the outcome is one update per detail.\<close>

lemma release_allocations_closed_form:
  assumes "distinct (map d_position_detail_id details)"
    and "\<forall>f \<in> set fs. f_position_detail_id f \<in> d_position_detail_id ` set details"
  shows "release_allocations now details fs
       = Inr (map (released_detail now fs) details, map (released_allocation now) fs)"
  using assms
proof (induction fs arbitrary: details)
  case Nil
  then show ?case by (simp add: released_detail_def live_on_def map_idI)
next
  case (Cons f fs)
  show ?case
  proof (cases "allocation_idle f")
    case True
    then have "released_detail now (f # fs) = released_detail now fs"
      by (intro ext) (simp add: released_detail_def live_on_def)
    with True Cons show ?thesis
      by (simp add: allocation_idle_def released_allocation_def)
  next
    case False
    from Cons.prems(2) obtain dt where "find_row d_position_detail_id (f_position_detail_id f) details
        = Some dt"
      by (cases "find_row d_position_detail_id (f_position_detail_id f) details")
         (auto simp: find_row_None_iff)
    note dt = this
    define dt' where "dt' = dt\<lparr>d_frozen_volume := d_frozen_volume dt - f_remaining_frozen_volume f,
                      d_updated_at := now\<rparr>"
    let ?mid = "replace_row d_position_detail_id dt' details"
    have key: "d_position_detail_id dt = f_position_detail_id f" "dt \<in> set details"
      using find_row_SomeD [OF dt] by auto
    have "d_position_detail_id ` set ?mid = d_position_detail_id ` set details"
      by (metis map_replace_row set_map)
    with Cons have IH: "release_allocations now ?mid fs
        = Inr (map (released_detail now fs) ?mid, map (released_allocation now) fs)"
      by simp
    have touched: "released_detail now fs dt' = released_detail now (f # fs) dt"
      using False key by (simp add: released_detail_def live_on_def dt'_def Let_def)
    have other: "released_detail now fs x = released_detail now (f # fs) x"
      if "d_position_detail_id x \<noteq> f_position_detail_id f" for x
      using that False by (simp add: released_detail_def live_on_def)
    have same: "x = dt" if "x \<in> set details" "d_position_detail_id x = f_position_detail_id f" for x
      using that key Cons.prems(1) by (metis distinct_map inj_onD)
    have "d_position_detail_id dt' = f_position_detail_id f" using key by (simp add: dt'_def)
    then have "map (released_detail now fs) ?mid = map (released_detail now (f # fs)) details"
      using touched other same by (auto simp: replace_row_def)
    moreover have "released_allocation now f = release_allocation now f"
      using False by (simp add: released_allocation_def)
    ultimately show ?thesis
      using False dt IH by (auto simp: allocation_idle_def dt'_def Let_def)
  qed
qed

lemma cancel_allocation_ok_detail:
  assumes "cancel_allocation_ok r p dir dts f"
  shows "f_position_detail_id f \<in> d_position_detail_id ` set dts"
proof -
  from assms obtain dt where "find_row d_position_detail_id (f_position_detail_id f) dts = Some dt"
    by (auto simp: cancel_allocation_ok_def split: option.splits)
  then show ?thesis by (metis find_row_SomeD imageI)
qed

lemma cancel_close_positions_Inr:
  assumes "cancel_close_positions d now r = Inr (p', dts', fs')" "keys_ok d"
  obtains p where
    "get_position d (o_account_id r) (o_exchange_id r) (o_symbol r)
       (closed_position_direction (o_direction r)) = Some p"
    "list_all (cancel_allocation_ok r p (closed_position_direction (o_direction r))
       (list_details_by_order d (p_position_id p) (o_order_id r)))
       (list_allocations_by_order d (o_order_id r))"
    "sum_list (map f_remaining_frozen_volume (list_allocations_by_order d (o_order_id r)))
       = o_remaining_volume r"
    "dts' = map (released_detail now (list_allocations_by_order d (o_order_id r)))
       (list_details_by_order d (p_position_id p) (o_order_id r))"
    "fs' = map (released_allocation now) (list_allocations_by_order d (o_order_id r))"
    "release_position now (o_remaining_volume r) p = Inr p'"
proof -
  let ?dir = "closed_position_direction (o_direction r)"
  let ?fs = "list_allocations_by_order d (o_order_id r)"
  from assms(1) obtain p where
    p: "get_position d (o_account_id r) (o_exchange_id r) (o_symbol r) ?dir = Some p"
    by (cases "get_position d (o_account_id r) (o_exchange_id r) (o_symbol r) ?dir")
       (simp_all add: cancel_close_positions_def Let_def)
  let ?dts = "list_details_by_order d (p_position_id p) (o_order_id r)"
  from assms(1) p have run: "list_all (cancel_allocation_ok r p ?dir ?dts) ?fs"
      "sum_list (map f_remaining_frozen_volume ?fs) = o_remaining_volume r"
      "rbind (release_allocations now ?dts ?fs) (\<lambda>(dts, fs).
         rbind (release_position now (o_remaining_volume r) p) (\<lambda>q. Inr (q, dts, fs)))
       = Inr (p', dts', fs')"
    by (auto simp: cancel_close_positions_def Let_def split: if_splits)
  have "distinct (map d_position_detail_id ?dts)"
    using assms(2) by (simp add: keys_ok_def list_details_by_order_def distinct_map_filter)
  moreover have "\<forall>f \<in> set ?fs. f_position_detail_id f \<in> d_position_detail_id ` set ?dts"
    using run(1) by (auto simp: list_all_iff dest: cancel_allocation_ok_detail)
  ultimately have "release_allocations now ?dts ?fs
      = Inr (map (released_detail now ?fs) ?dts, map (released_allocation now) ?fs)"
    by (rule release_allocations_closed_form)
  with run p that show thesis by (auto simp: rbind_Inr_iff)
qed

text \<open>The tables after the write-back.\<close>

lemma cancel_details_written:
  assumes "keys_ok d" "fs = list_allocations_by_order d oid"
    and ok: "\<forall>f \<in> set fs. f_position_id f = pid
          \<and> f_position_detail_id f \<in> d_position_detail_id ` set (list_details_by_order d pid oid)"
  shows "fold (replace_row d_position_detail_id)
       (map (released_detail now fs) (list_details_by_order d pid oid)) (db_details d)
     = map (released_detail now fs) (db_details d)"
proof -
  let ?S = "\<lambda>x. d_position_id x = pid \<and> (\<exists>f \<in> set (db_allocations d).
      f_position_detail_id f = d_position_detail_id x \<and> f_position_id f = pid \<and> f_order_id f = oid)"
  have keys: "distinct (map d_position_detail_id (db_details d))"
    using assms(1) by (simp add: keys_ok_def)
  have idle: "released_detail now fs x = x" if "x \<in> set (db_details d)" "\<not> ?S x" for x
  proof -
    have "f_position_detail_id f \<noteq> d_position_detail_id x" if f: "f \<in> set fs" for f
    proof
      assume eq: "f_position_detail_id f = d_position_detail_id x"
      from ok f obtain y where y: "y \<in> set (list_details_by_order d pid oid)"
        "d_position_detail_id y = f_position_detail_id f" by fastforce
      then have "y \<in> set (db_details d)" "?S y" by (auto simp: list_details_by_order_def)
      with y eq \<open>x \<in> set (db_details d)\<close> keys have "y = x" by (metis distinct_map inj_onD)
      with \<open>?S y\<close> \<open>\<not> ?S x\<close> show False by simp
    qed
    then have "live_on fs (d_position_detail_id x) = []" by (auto simp: live_on_def filter_empty_conv)
    then show ?thesis by (simp add: released_detail_def)
  qed
  have "fold (replace_row d_position_detail_id)
       (map (released_detail now fs) (list_details_by_order d pid oid)) (db_details d)
     = map (\<lambda>x. if ?S x then released_detail now fs x else x) (db_details d)"
    unfolding list_details_by_order_def using keys by (intro write_back) simp_all
  also have "\<dots> = map (released_detail now fs) (db_details d)"
    using idle by (auto intro: map_cong)
  finally show ?thesis .
qed

lemma cancel_allocations_written:
  assumes "keys_ok d"
  shows "fold (replace_row f_allocation_id)
       (map (released_allocation now) (list_allocations_by_order d oid)) (db_allocations d)
     = map (\<lambda>f. if f_order_id f = oid then released_allocation now f else f) (db_allocations d)"
  unfolding list_allocations_by_order_def using assms
  by (intro write_back) (simp_all add: keys_ok_def)

lemma released_allocation_volume:
  "0 \<le> f_remaining_frozen_volume f \<Longrightarrow>
     f_remaining_frozen_volume (released_allocation now f) = 0
     \<and> f_remaining_frozen_commission (released_allocation now f) = 0"
  by (auto simp: released_allocation_def release_allocation_def allocation_idle_def)

lemma released_allocation_ok:
  assumes "allocation_ok f" "is_money (f_released_commission f)"
    "is_money (f_remaining_frozen_commission f)" "is_money (f_consumed_commission f)"
  shows "allocation_ok (released_allocation now f)
    \<and> is_money (f_released_commission (released_allocation now f))
    \<and> is_money (f_remaining_frozen_commission (released_allocation now f))
    \<and> is_money (f_consumed_commission (released_allocation now f))"
  using assms
  by (simp add: allocation_ok_def released_allocation_def release_allocation_def is_money_add)

text \<open>On consistent allocations the released volume of a detail is a plain sum.\<close>

lemma live_on_sum:
  assumes "\<forall>f \<in> set fs. 0 \<le> f_remaining_frozen_volume f"
  shows "sum_list (map f_remaining_frozen_volume (live_on fs k))
       = sum_of (of_detail k) f_remaining_frozen_volume fs"
  using assms
  by (induction fs) (auto simp: live_on_def of_detail_def allocation_idle_def)

lemma released_detail_frozen:
  assumes "\<forall>f \<in> set fs. 0 \<le> f_remaining_frozen_volume f"
  shows "d_frozen_volume (released_detail now fs dt) = d_frozen_volume dt
       - sum_of (of_detail (d_position_detail_id dt)) f_remaining_frozen_volume fs"
  using live_on_sum [OF assms, of "d_position_detail_id dt"]
  by (auto simp: released_detail_def Let_def)

end
