(* ===== verification/Order_Cancellation_Book.thy ===== *)
theory Order_Cancellation_Book
  imports Order_Cancellation Samples
begin

text \<open>
  A cancellation keeps the book consistent across all tables: the proof goes table by table over the
  closed form of the release loop.
\<close>

section \<open>Closing branch: allocations, details, positions\<close>

text \<open>What the closing branch has established about the order's allocations.\<close>

definition linked_to :: "db \<Rightarrow> order \<Rightarrow> position \<Rightarrow> freeze_allocation list \<Rightarrow> bool" where
  "linked_to d r p fs \<longleftrightarrow> fs = list_allocations_by_order d (o_order_id r)
     \<and> (\<forall>f \<in> set fs. f_position_id f = p_position_id p \<and> f_position_detail_id f \<in>
          d_position_detail_id ` set (list_details_by_order d (p_position_id p) (o_order_id r)))
     \<and> sum_list (map f_remaining_frozen_volume fs) = o_remaining_volume r"

lemma of_detail_eq: "of_detail k = (\<lambda>f. f_position_detail_id f = k)"
  by (rule ext) (simp add: of_detail_def)

lemma linked_volume:
  assumes "book_ok d" "linked_to d r p fs"
  shows "sum_of (of_position pid)
       (\<lambda>dt. sum_of (of_detail (d_position_detail_id dt)) f_remaining_frozen_volume fs)
       (db_details d) = (if pid = p_position_id p then o_remaining_volume r else 0)"
proof -
  have keys: "distinct (map d_position_detail_id (db_details d))"
    using assms(1) by (simp add: book_ok_def keys_ok_def)
  have in_p: "(\<exists>x \<in> set (db_details d). of_position pid x
        \<and> d_position_detail_id x = f_position_detail_id f) \<longleftrightarrow> pid = p_position_id p"
    if f: "f \<in> set fs" for f
  proof -
    from assms(2) f obtain y where y: "y \<in> set (db_details d)"
      "d_position_id y = p_position_id p" "d_position_detail_id y = f_position_detail_id f"
      by (fastforce simp: linked_to_def list_details_by_order_def)
    show ?thesis
    proof
      assume "\<exists>x \<in> set (db_details d). of_position pid x
        \<and> d_position_detail_id x = f_position_detail_id f"
      then obtain x where x: "x \<in> set (db_details d)" "of_position pid x"
        "d_position_detail_id x = f_position_detail_id f" by auto
      then have "x = y" using distinct_key_eq [OF keys x(1) y(1)] y(3) by metis
      with x(2) y(2) show "pid = p_position_id p" by (simp add: of_position_def)
    qed (use y in \<open>auto simp: of_position_def\<close>)
  qed
  have "sum_of (of_position pid)
       (\<lambda>dt. sum_of (of_detail (d_position_detail_id dt)) f_remaining_frozen_volume fs)
       (db_details d)
     = sum_of (\<lambda>f. \<exists>x \<in> set (db_details d). of_position pid x
          \<and> d_position_detail_id x = f_position_detail_id f) f_remaining_frozen_volume fs"
    unfolding of_detail_eq by (rule sum_of_by_key [OF keys])
  also have "\<dots> = sum_of (\<lambda>f. pid = p_position_id p) f_remaining_frozen_volume fs"
    using in_p by (intro sum_of_cong) auto
  also have "\<dots> = (if pid = p_position_id p then o_remaining_volume r else 0)"
    using assms(2) by (auto simp: linked_to_def sum_of_def)
  finally show ?thesis .
qed

lemma linked_allocations:
  assumes "book_ok d" "linked_to d r p fs"
  shows "\<forall>f \<in> set fs. f \<in> set (db_allocations d) \<and> f_order_id f = o_order_id r
     \<and> 0 \<le> f_remaining_frozen_volume f"
  using assms by (auto simp: linked_to_def list_allocations_by_order_def book_ok_def allocation_ok_def)

definition cancelled_allocation :: "datetime \<Rightarrow> order \<Rightarrow> freeze_allocation \<Rightarrow> freeze_allocation" where
  "cancelled_allocation now r f =
     (if f_order_id f = o_order_id r then released_allocation now f else f)"

lemma cancelled_allocations_sum:
  assumes "book_ok d" "linked_to d r p fs"
  shows "sum_of (of_detail k) f_remaining_frozen_volume
       (map (cancelled_allocation now r) (db_allocations d))
     = sum_of (of_detail k) f_remaining_frozen_volume (db_allocations d)
       - sum_of (of_detail k) f_remaining_frozen_volume fs"
proof -
  have fs: "fs = filter (\<lambda>f. f_order_id f = o_order_id r) (db_allocations d)"
    using assms(2) by (simp add: linked_to_def list_allocations_by_order_def)
  have "sum_of (of_detail k) f_remaining_frozen_volume (map (cancelled_allocation now r) xs)
      = sum_of (of_detail k) f_remaining_frozen_volume xs
        - sum_of (of_detail k) f_remaining_frozen_volume
            (filter (\<lambda>f. f_order_id f = o_order_id r) xs)"
    if "\<forall>f \<in> set xs. 0 \<le> f_remaining_frozen_volume f" for xs
    using that
    by (induction xs)
       (auto simp: cancelled_allocation_def of_detail_def released_allocation_volume)
  moreover have "\<forall>f \<in> set (db_allocations d). 0 \<le> f_remaining_frozen_volume f"
    using assms(1) by (simp add: book_ok_def allocation_ok_def)
  ultimately show ?thesis unfolding fs by blast
qed

section \<open>Details and positions\<close>

lemma detail_covers_order:
  assumes "book_ok d" "linked_to d r p fs" "dt \<in> set (db_details d)"
  shows "sum_of (of_detail (d_position_detail_id dt)) f_remaining_frozen_volume fs
       \<le> d_frozen_volume dt"
proof -
  have "sum_of (of_detail (d_position_detail_id dt)) f_remaining_frozen_volume
        (map (cancelled_allocation 0 r) (db_allocations d)) \<ge> 0"
    using assms(1)
    by (intro sum_of_nonneg)
       (auto simp: book_ok_def allocation_ok_def cancelled_allocation_def released_allocation_volume)
  then show ?thesis
    using assms(1,3) cancelled_allocations_sum [OF assms(1,2), of "d_position_detail_id dt" 0]
    by (simp add: book_ok_def detail_backed_def)
qed

lemma released_details_ok:
  assumes "book_ok d" "linked_to d r p fs" "dt \<in> set (db_details d)"
  shows "detail_ok (released_detail now fs dt)
    \<and> detail_backed (map (cancelled_allocation now r) (db_allocations d)) (released_detail now fs dt)"
proof -
  have frozen: "d_frozen_volume (released_detail now fs dt) = d_frozen_volume dt
      - sum_of (of_detail (d_position_detail_id dt)) f_remaining_frozen_volume fs"
    using linked_allocations [OF assms(1,2)] by (intro released_detail_frozen) simp
  have pos: "0 \<le> sum_of (of_detail (d_position_detail_id dt)) f_remaining_frozen_volume fs"
    using linked_allocations [OF assms(1,2)] by (intro sum_of_nonneg) auto
  have dt: "detail_ok dt" "detail_backed (db_allocations d) dt"
    using assms(1,3) by (simp_all add: book_ok_def)
  have "detail_ok (released_detail now fs dt)
      \<longleftrightarrow> 0 \<le> d_frozen_volume (released_detail now fs dt)
        \<and> d_frozen_volume (released_detail now fs dt) \<le> d_remaining_volume dt"
    using dt(1) by (auto simp: detail_ok_def released_detail_def Let_def)
  with frozen pos detail_covers_order [OF assms] dt(1) have "detail_ok (released_detail now fs dt)"
    by (simp add: detail_ok_def)
  moreover have "detail_backed (map (cancelled_allocation now r) (db_allocations d))
      (released_detail now fs dt)"
    using dt(2) frozen cancelled_allocations_sum [OF assms(1,2)] by (simp add: detail_backed_def)
  ultimately show ?thesis by simp
qed

lemma released_positions_backed:
  assumes "book_ok d" "linked_to d r p fs" "q \<in> set (db_positions d)"
    "p_position_id q' = p_position_id q" "p_instrument_type q' = p_instrument_type q"
    "p_total_volume q' = p_total_volume q"
    "p_frozen_volume q' = p_frozen_volume q
       - (if p_position_id q = p_position_id p then o_remaining_volume r else 0)"
  shows "position_backed (map (released_detail now fs) (db_details d)) q'"
proof -
  let ?on = "\<lambda>dt. sum_of (of_detail (d_position_detail_id dt)) f_remaining_frozen_volume fs"
  have nonneg: "\<forall>f \<in> set fs. 0 \<le> f_remaining_frozen_volume f"
    using linked_allocations [OF assms(1,2)] by simp
  have "sum_of (of_position pid) d_frozen_volume (map (released_detail now fs) (db_details d))
      = sum_of (of_position pid) (\<lambda>dt. d_frozen_volume dt - ?on dt) (db_details d)" for pid
    using released_detail_frozen [OF nonneg] by (simp add: sum_of_map of_position_def)
  then have "sum_of (of_position (p_position_id q)) d_frozen_volume
        (map (released_detail now fs) (db_details d))
      = sum_of (of_position (p_position_id q)) d_frozen_volume (db_details d)
        - (if p_position_id q = p_position_id p then o_remaining_volume r else 0)"
    by (simp add: sum_of_minus linked_volume [OF assms(1,2)])
  moreover have "sum_of (of_position pid) d_remaining_volume
        (map (released_detail now fs) (db_details d))
      = sum_of (of_position pid) d_remaining_volume (db_details d)" for pid
    by (simp add: sum_of_map of_position_def)
  moreover have "position_backed (db_details d) q"
    using assms(1,3) by (simp add: book_ok_def)
  ultimately show ?thesis using assms(4-7) by (simp add: position_backed_def)
qed

section \<open>The order and its account\<close>

lemma quantize_order_amounts [simp]:
  "order_row_ok r \<Longrightarrow> quantize_money (o_frozen_margin r) = o_frozen_margin r"
  "order_row_ok r \<Longrightarrow> quantize_money (o_frozen_cash r) = o_frozen_cash r"
  "order_row_ok r \<Longrightarrow> quantize_money (o_frozen_commission r) = o_frozen_commission r"
  by (simp_all add: order_row_ok_def)

lemma account_row_ok_pools: "account_row_ok a \<longleftrightarrow> pools_money a"
  by (auto simp: account_row_ok_def pools_money_def)

lemma check_cancellable_Inr:
  "check_cancellable r auto = Inr u \<Longrightarrow>
     o_status r \<in> {ACCEPTED, PARTIALLY_FILLED} \<and> 0 < o_remaining_volume r
     \<and> (o_offset_flag r = Some OPEN \<and> o_frozen_position_volume r = 0
        \<or> is_close_flag (o_offset_flag r) \<and> quantize_money (o_frozen_margin r) = 0
          \<and> o_frozen_position_volume r = o_remaining_volume r)"
  by (auto simp: check_cancellable_def cancellable_statuses_def split: if_splits)

text \<open>Everything the order held goes back to the available cash.\<close>

lemma cancel_release_account_Inr:
  assumes "cancel_release_account r a = Inr a'" "check_cancellable r auto = Inr u"
    "order_row_ok r" "account_row_ok a"
  shows "a' = a\<lparr>
      a_available_cash := a_available_cash a
        + (o_frozen_margin r + o_frozen_commission r + o_frozen_cash r),
      a_frozen_margin := a_frozen_margin a - o_frozen_margin r,
      a_frozen_commission := a_frozen_commission a - o_frozen_commission r,
      a_frozen_cash := a_frozen_cash a - o_frozen_cash r,
      a_risk_available_cash := a_risk_available_cash a
        + (o_frozen_margin r + o_frozen_commission r + o_frozen_cash r)\<rparr>"
proof -
  have "release_open_order_frozen_resources (Some a) (o_frozen_margin r) (o_frozen_commission r)
      (o_frozen_cash r) = Inr a'"
    using assms(1,3) check_cancellable_Inr [OF assms(2)]
    by (auto simp: cancel_release_account_def release_close_order_commission_def Let_def
        is_close_flag_def split: if_splits)
  from release_open_Inr [OF this] assms(3,4) show ?thesis
    by (simp add: account_row_ok_pools order_row_ok_def)
qed

lemma cancel_release_account_succeeds:
  assumes "check_cancellable r auto = Inr u" "order_row_ok r" "account_backed rs a"
    "r \<in> set rs" "o_account_id r = a_account_id a" "\<forall>x \<in> set rs. order_row_ok x"
  shows "\<exists>a'. cancel_release_account r a = Inr a'"
proof -
  have "o_frozen_margin r \<le> a_frozen_margin a \<and> o_frozen_cash r \<le> a_frozen_cash a
    \<and> o_frozen_commission r \<le> a_frozen_commission a"
    using account_covers_order [OF assms(3-6)] .
  moreover have "0 \<le> o_frozen_margin r" "0 \<le> o_frozen_cash r" "0 \<le> o_frozen_commission r"
    "0 \<le> a_frozen_margin a"
    using assms(2) calculation by (auto simp: order_row_ok_def)
  ultimately show ?thesis
    using assms(2)
    by (auto simp: cancel_release_account_def release_close_order_commission_def Let_def
        release_open_order_frozen_resources_def not_less)
qed

lemma cancelled_order_sel [simp]:
  "o_order_id (cancelled_order now auto r) = o_order_id r"
  "o_account_id (cancelled_order now auto r) = o_account_id r"
  "o_offset_flag (cancelled_order now auto r) = o_offset_flag r"
  "o_total_volume (cancelled_order now auto r) = o_total_volume r"
  "o_traded_volume (cancelled_order now auto r) = o_traded_volume r"
  "o_remaining_volume (cancelled_order now auto r) = 0"
  "o_cancelled_volume (cancelled_order now auto r) = o_cancelled_volume r + o_remaining_volume r"
  "o_frozen_margin (cancelled_order now auto r) = 0"
  "o_frozen_cash (cancelled_order now auto r) = 0"
  "o_frozen_commission (cancelled_order now auto r) = 0"
  "o_status (cancelled_order now auto r)
     = (if o_traded_volume r = 0 then CANCELLED else PARTIALLY_CANCELLED)"
  "o_frozen_position_volume (cancelled_order now auto r)
     = (if is_close_flag (o_offset_flag r) then 0 else o_frozen_position_volume r)"
  by (simp_all add: cancelled_order_def)

lemma cancelled_order_row_ok:
  "order_row_ok r \<Longrightarrow> order_row_ok (cancelled_order now auto r)"
  by (auto simp: order_row_ok_def order_volume_balanced_def)

section \<open>The whole transaction\<close>

text \<open>The tables after a cancellation, one by one.\<close>

definition cancel_effect ::
  "db \<Rightarrow> datetime \<Rightarrow> bool \<Rightarrow> order \<Rightarrow> account \<Rightarrow> db \<Rightarrow> order \<Rightarrow> account \<Rightarrow> bool" where
  "cancel_effect d now auto r a d' r' a' \<longleftrightarrow>
     r' = cancelled_order now auto r \<and> cancel_release_account r a = Inr a'
     \<and> check_cancellable r auto = Inr ()
     \<and> db_orders d' = replace_row o_order_id r' (db_orders d)
     \<and> db_accounts d' = replace_row a_account_id (a'\<lparr>a_updated_at := now\<rparr>) (db_accounts d)
     \<and> db_trades d' = db_trades d \<and> db_trade_allocations d' = db_trade_allocations d
     \<and> db_instruments d' = db_instruments d \<and> db_batches d' = db_batches d"

lemma cancel_effectD:
  assumes "cancel_effect d now auto r a d' r' a'"
  shows "r' = cancelled_order now auto r" "cancel_release_account r a = Inr a'"
    "check_cancellable r auto = Inr ()"
    "db_orders d' = replace_row o_order_id r' (db_orders d)"
    "db_accounts d' = replace_row a_account_id (a'\<lparr>a_updated_at := now\<rparr>) (db_accounts d)"
    "db_trades d' = db_trades d"
  using assms unfolding cancel_effect_def by simp_all

definition cancel_close_effect :: "db \<Rightarrow> datetime \<Rightarrow> order \<Rightarrow> db \<Rightarrow> bool" where
  "cancel_close_effect d now r d' \<longleftrightarrow>
     (\<exists>p p' fs. p \<in> set (db_positions d) \<and> linked_to d r p fs
       \<and> release_position now (o_remaining_volume r) p = Inr p'
       \<and> db_positions d' = replace_row p_position_id p' (db_positions d)
       \<and> db_details d' = map (released_detail now fs) (db_details d)
       \<and> db_allocations d' = map (cancelled_allocation now r) (db_allocations d))"

lemma cancel_located_tables:
  assumes "cancel_located d ids now auto r a = Inr (d', r')" "book_ok d" "r \<in> set (db_orders d)"
    "a \<in> set (db_accounts d)" "o_account_id r = a_account_id a"
  obtains a' where "cancel_effect d now auto r a d' r' a'"
    "is_close_flag (o_offset_flag r) \<Longrightarrow> cancel_close_effect d now r d'"
    "\<not> is_close_flag (o_offset_flag r) \<Longrightarrow> db_positions d' = db_positions d
       \<and> db_details d' = db_details d \<and> db_allocations d' = db_allocations d"
proof -
  let ?r' = "cancelled_order now auto r"
  have keys: "keys_ok d" using assms(2) by (simp add: book_ok_def)
  from assms(1) obtain u x a' where x: "cancel_positions d now r = Inr x"
    and a': "cancel_release_account r a = Inr a'" and u: "check_cancellable r auto = Inr u"
    and last: "(if o_total_volume ?r' \<noteq> o_traded_volume ?r' + o_remaining_volume ?r'
           + o_cancelled_volume ?r'
         then Inl (DataAccessError ''CANCEL_ORDER_VOLUME_INCONSISTENT'')
         else Inr (write_cancellation ids now r ?r' (a'\<lparr>a_updated_at := now\<rparr>) x d, ?r'))
       = Inr (d', r')"
    unfolding cancel_located_def rbind_Inr_iff Let_def by blast
  from u have chk: "check_cancellable r auto = Inr ()" by simp
  from last have d': "d' = write_cancellation ids now r ?r' (a'\<lparr>a_updated_at := now\<rparr>) x d"
      "r' = ?r'"
    unfolding if_Inl_Inr_iff by auto
  have acc: "a_account_id a' = a_account_id a"
    using cancel_release_account_Inr [OF a' chk] assms(2-5) by (simp add: book_ok_def)
  have close: "cancel_close_effect d now r d'" if "is_close_flag (o_offset_flag r)"
  proof -
    from that x obtain p' dts' fs' where
      x': "cancel_close_positions d now r = Inr (p', dts', fs')" "x = Some (p', dts', fs')"
      by (auto simp: cancel_positions_def rbind_Inr_iff)
    let ?fs = "list_allocations_by_order d (o_order_id r)"
    from cancel_close_positions_Inr [OF x'(1) keys] obtain p where
      p: "get_position d (o_account_id r) (o_exchange_id r) (o_symbol r)
            (closed_position_direction (o_direction r)) = Some p"
      and ok: "list_all (cancel_allocation_ok r p (closed_position_direction (o_direction r))
            (list_details_by_order d (p_position_id p) (o_order_id r))) ?fs"
      and vol: "sum_list (map f_remaining_frozen_volume ?fs) = o_remaining_volume r"
      and dts: "dts' = map (released_detail now ?fs)
            (list_details_by_order d (p_position_id p) (o_order_id r))"
      and fs: "fs' = map (released_allocation now) ?fs"
      and rel: "release_position now (o_remaining_volume r) p = Inr p'" by blast
    have link: "linked_to d r p ?fs"
      unfolding linked_to_def
    proof (intro conjI ballI refl vol)
      fix f assume "f \<in> set ?fs"
      with ok have f: "cancel_allocation_ok r p (closed_position_direction (o_direction r))
          (list_details_by_order d (p_position_id p) (o_order_id r)) f"
        by (simp add: list_all_iff)
      then show "f_position_id f = p_position_id p" by (simp add: cancel_allocation_ok_def)
      from f show "f_position_detail_id f \<in> d_position_detail_id `
          set (list_details_by_order d (p_position_id p) (o_order_id r))"
        by (rule cancel_allocation_ok_detail)
    qed
    have "db_details d' = map (released_detail now ?fs) (db_details d)"
      unfolding d' x' dts using link
      by (simp add: write_cancellation_def put_defs cancel_details_written [OF keys] linked_to_def)
    moreover have "db_allocations d' = map (cancelled_allocation now r) (db_allocations d)"
      unfolding d' x' fs
      by (simp add: write_cancellation_def put_defs cancel_allocations_written [OF keys]
          cancelled_allocation_def [abs_def])
    moreover have "db_positions d' = replace_row p_position_id p' (db_positions d)"
      unfolding d' x' by (simp add: write_cancellation_def put_defs)
    moreover have "p \<in> set (db_positions d)"
      using p by (auto simp: get_position_def dest: first_row_SomeD)
    ultimately show ?thesis unfolding cancel_close_effect_def using link rel by blast
  qed
  have open_case: "x = None" if "\<not> is_close_flag (o_offset_flag r)"
    using x that by (simp add: cancel_positions_def)
  show thesis
  proof (rule that)
    show "cancel_effect d now auto r a d' r' a'"
      using a' chk by (simp add: cancel_effect_def d' write_cancellation_def put_defs
          split: option.split)
    show "\<not> is_close_flag (o_offset_flag r) \<Longrightarrow> db_positions d' = db_positions d
       \<and> db_details d' = db_details d \<and> db_allocations d' = db_allocations d"
      using open_case by (simp add: d' write_cancellation_def put_defs)
  qed (rule close)
qed

lemma locate_order_Inr:
  assumes "locate_order d sc oid aid = Inr (r, a)"
  shows "r \<in> set (db_orders d) \<and> a \<in> set (db_accounts d) \<and> o_order_id r = oid
    \<and> o_account_id r = aid \<and> a_account_id a = aid
    \<and> (\<not> sc_is_admin sc \<longrightarrow> sc_user_id sc = Some (a_user_id a))"
proof -
  have r: "scoped_order d sc oid = Some r" and a: "scoped_account d sc (o_account_id r) = Some a"
    and aid: "o_account_id r = aid"
    using assms by (auto simp: locate_order_def split: option.splits if_splits)
  have "r \<in> set (db_orders d) \<and> o_order_id r = oid"
    using r by (auto simp: scoped_order_def get_order_def get_order_for_user_def
        dest: find_row_SomeD first_row_SomeD split: if_splits option.splits)
  moreover have "a \<in> set (db_accounts d) \<and> a_account_id a = o_account_id r
      \<and> (\<not> sc_is_admin sc \<longrightarrow> sc_user_id sc = Some (a_user_id a))"
    using a by (auto simp: scoped_account_def get_account_def get_owned_account_def
        dest: find_row_SomeD first_row_SomeD split: if_splits option.splits)
  ultimately show ?thesis using aid by simp
qed

lemma cancel_order_Inr:
  assumes "cancel_order d ids now oid aid scope internal auto = Inr (d', r')"
  obtains sc r a st where "scope = Some sc" "locate_order d sc (strip oid) (strip aid) = Inr (r, a)"
    "resolve_product_strategy (o_instrument_type r) = Inr st"
    "(if internal then Inr () else ensure_trading_open (db_batches d) None) = Inr ()"
    "d' = d \<and> r' = r \<and> o_status r \<in> {CANCELLED, PARTIALLY_CANCELLED} \<union> (if auto then {FILLED} else {})
     \<or> o_status r \<notin> {CANCELLED, PARTIALLY_CANCELLED}
       \<and> cancel_located d ids now auto r a = Inr (d', r')"
proof -
  from assms obtain sc where sc: "scope = Some sc" by (auto simp: cancel_order_def split: option.splits)
  with assms obtain ra where loc: "locate_order d sc (strip oid) (strip aid) = Inr ra"
    and gate: "(if internal then Inr () else ensure_trading_open (db_batches d) None) = Inr ()"
    and rest: "(\<lambda>(r, a). rbind (resolve_product_strategy (o_instrument_type r))
        (\<lambda>_. if auto \<and> o_status r = FILLED then Inr (d, r)
             else if o_status r \<in> set idempotent_statuses then Inr (d, r)
             else cancel_located d ids now auto r a)) ra = Inr (d', r')"
    by (auto simp: cancel_order_def rbind_Inr_iff)
  obtain r a where ra: "ra = (r, a)" by (cases ra)
  with rest have "d' = d \<and> r' = r \<and> o_status r \<in> {CANCELLED, PARTIALLY_CANCELLED} \<union> (if auto then {FILLED} else {})
     \<or> o_status r \<notin> {CANCELLED, PARTIALLY_CANCELLED}
       \<and> cancel_located d ids now auto r a = Inr (d', r')"
    by (auto simp: rbind_Inr_iff idempotent_statuses_def split: if_splits)
  moreover obtain st where "resolve_product_strategy (o_instrument_type r) = Inr st"
    using rest ra by (auto simp: rbind_Inr_iff)
  ultimately show thesis using that sc loc gate unfolding ra by blast
qed

lemma release_position_Inr:
  "release_position now v p = Inr p' \<longleftrightarrow> v \<le> p_frozen_volume p \<and>
     p' = p\<lparr>p_frozen_volume := p_frozen_volume p - v,
            p_available_volume := p_total_volume p - (p_frozen_volume p - v)
              - p_settlement_locked_volume p,
            p_updated_at := now\<rparr>"
  by (auto simp: release_position_def Let_def)

lemma cancelled_allocation_other:
  "f_order_id f \<noteq> o_order_id r \<Longrightarrow> cancelled_allocation now r f = f"
  by (simp add: cancelled_allocation_def)

lemma cancelled_sum_other:
  assumes "oid \<noteq> o_order_id r"
  shows "sum_of (of_order oid) g (map (cancelled_allocation now r) fs) = sum_of (of_order oid) g fs"
  using assms by (induction fs) (auto simp: of_order_def cancelled_allocation_def)

lemma cancelled_order_allocations:
  assumes "book_ok d" "x \<in> set (db_orders d)" "o_order_id x \<noteq> o_order_id r"
  shows "order_backed (map (cancelled_allocation now r) (db_allocations d)) x"
proof -
  have "order_backed (db_allocations d) x" using assms(1,2) by (simp add: book_ok_def)
  with assms(3) show ?thesis by (simp add: order_backed_def cancelled_sum_other)
qed

lemma cancelled_order_backed:
  assumes "book_ok d" "o_order_id x = o_order_id r" "o_frozen_position_volume x = 0"
    "o_frozen_commission x = 0"
  shows "order_backed (map (cancelled_allocation now r) (db_allocations d)) x"
proof -
  have "\<forall>f \<in> set (db_allocations d). 0 \<le> f_remaining_frozen_volume f"
    using assms(1) by (simp add: book_ok_def allocation_ok_def)
  then have "sum_of (of_order (o_order_id x)) f_remaining_frozen_volume
        (map (cancelled_allocation now r) (db_allocations d)) = 0"
    "sum_of (of_order (o_order_id x)) f_remaining_frozen_commission
        (map (cancelled_allocation now r) (db_allocations d)) = 0"
    using assms(2)
    by (auto simp: of_order_def cancelled_allocation_def released_allocation_volume
        intro!: sum_of_zero)
  with assms(3,4) show ?thesis by (simp add: order_backed_def)
qed

lemma cancel_located_book:
  assumes "cancel_located d ids now auto r a = Inr (d', r')" "book_ok d" "r \<in> set (db_orders d)"
    "a \<in> set (db_accounts d)" "o_account_id r = a_account_id a"
  shows "book_ok d'"
proof -
  have keys: "keys_ok d" using assms(2) by (simp add: book_ok_def)
  have r: "order_row_ok r" "find_row o_order_id (o_order_id r) (db_orders d) = Some r"
    and rs: "distinct (map o_order_id (db_orders d))" "distinct (map a_account_id (db_accounts d))"
    and a: "account_row_ok a" "account_backed (db_orders d) a"
    using assms(2-4) by (auto simp: book_ok_def keys_ok_def intro: find_row_distinct)
  from cancel_located_tables [OF assms] obtain a' where
    eff: "cancel_effect d now auto r a d' r' a'"
    and cl: "is_close_flag (o_offset_flag r) \<Longrightarrow> cancel_close_effect d now r d'"
    and op: "\<not> is_close_flag (o_offset_flag r) \<Longrightarrow> db_positions d' = db_positions d
       \<and> db_details d' = db_details d \<and> db_allocations d' = db_allocations d" by blast
  note r' = cancel_effectD(1) [OF eff] and a' = cancel_effectD(2) [OF eff]
    and chk = cancel_effectD(3) [OF eff] and t = cancel_effectD(4-6) [OF eff]
  note a'_eq = cancel_release_account_Inr [OF a' chk r(1) a(1)]
  have accounts: "\<forall>b \<in> set (db_accounts d'). account_row_ok b \<and> account_backed (db_orders d') b"
  proof
    fix b assume "b \<in> set (db_accounts d')"
    then consider "b = a'\<lparr>a_updated_at := now\<rparr>"
      | "b \<in> set (db_accounts d)" "a_account_id b \<noteq> a_account_id a"
      using a'_eq by (auto simp: t replace_row_def)
    then show "account_row_ok b \<and> account_backed (db_orders d') b"
    proof cases
      case 1
      have "account_row_ok b"
        using 1 a(1) r(1) by (simp add: a'_eq account_row_ok_def order_row_ok_def is_money_add
            is_money_diff)
      moreover have "account_backed (db_orders d') b"
        unfolding t 1 using r rs a(2) assms(5)
        by (intro accounts_backed_replace [where r = r and a = a]) (simp_all add: r' a'_eq)
      ultimately show ?thesis ..
    next
      case 2
      then have "account_row_ok b" "account_backed (db_orders d) b"
        using assms(2) by (simp_all add: book_ok_def)
      moreover have "account_backed (db_orders d') b"
        unfolding t using r rs 2 assms(5) calculation(2)
        by (intro accounts_backed_other [where r = r]) (simp_all add: r')
      ultimately show ?thesis by simp
    qed
  qed
  have rows: "\<forall>x \<in> set (db_orders d'). order_row_ok x"
    using assms(2) cancelled_order_row_ok [OF r(1)]
    by (auto simp: t r' book_ok_def dest: subsetD [OF set_replace_row])
  have in_orders: "x = r' \<or> x \<in> set (db_orders d) \<and> o_order_id x \<noteq> o_order_id r"
    if "x \<in> set (db_orders d')" for x
    using that by (auto simp: t r' replace_row_def split: if_splits)
  show ?thesis
  proof (cases "is_close_flag (o_offset_flag r)")
    case False
    have "order_backed (db_allocations d') x" if "x \<in> set (db_orders d')" for x
      using in_orders [OF that] op [OF False] False assms(2)
      by (auto simp: r' order_backed_def order_closes_def is_close_flag_def book_ok_def)
    moreover have "keys_ok d'"
      using keys op [OF False] by (simp add: keys_ok_def t)
    ultimately show ?thesis
      using assms(2) accounts rows op [OF False] by (simp add: book_ok_def)
  next
    case True
    then obtain p p' fs where p: "p \<in> set (db_positions d)" and link: "linked_to d r p fs"
      and p': "release_position now (o_remaining_volume r) p = Inr p'"
      and u: "db_positions d' = replace_row p_position_id p' (db_positions d)"
       "db_details d' = map (released_detail now fs) (db_details d)"
       "db_allocations d' = map (cancelled_allocation now r) (db_allocations d)"
      using cl unfolding cancel_close_effect_def by blast
    have orders: "order_backed (db_allocations d') x" if x: "x \<in> set (db_orders d')" for x
      using in_orders [OF x]
    proof
      assume "x = r'"
      with True show ?thesis unfolding u by (intro cancelled_order_backed [OF assms(2)]) (simp_all add: r')
    qed (simp add: u cancelled_order_allocations [OF assms(2)])
    have details: "\<forall>dt \<in> set (db_details d'). detail_ok dt \<and> detail_backed (db_allocations d') dt"
      unfolding u using released_details_ok [OF assms(2) link] by auto
    have allocations: "\<forall>f \<in> set (db_allocations d'). allocation_ok f
        \<and> is_money (f_released_commission f) \<and> is_money (f_remaining_frozen_commission f)
        \<and> is_money (f_consumed_commission f)"
      unfolding u using assms(2) released_allocation_ok
      by (auto simp: book_ok_def cancelled_allocation_def)
    have pid: "p_position_id p' = p_position_id p" using p' by (simp add: release_position_Inr)
    have positions: "\<forall>q \<in> set (db_positions d'). position_volumes_ok q
        \<and> position_backed (db_details d') q"
    proof
      fix q assume "q \<in> set (db_positions d')"
      then consider "q = p'" | "q \<in> set (db_positions d)" "p_position_id q \<noteq> p_position_id p"
        by (auto simp: u replace_row_def pid)
      then show "position_volumes_ok q \<and> position_backed (db_details d') q"
      proof cases
        case 1
        have "position_volumes_ok p" using assms(2) p by (simp add: book_ok_def)
        moreover have "0 < o_remaining_volume r" using check_cancellable_Inr [OF chk] by simp
        ultimately have "position_volumes_ok q"
          using 1 p' by (auto simp: release_position_Inr position_volumes_ok_def)
        moreover have "position_backed (db_details d') q"
          unfolding u 1 using p'
          by (intro released_positions_backed [OF assms(2) link p]) (simp_all add: release_position_Inr)
        ultimately show ?thesis ..
      next
        case 2
        then have "position_volumes_ok q" using assms(2) by (simp add: book_ok_def)
        moreover have "position_backed (db_details d') q"
          unfolding u using 2 by (intro released_positions_backed [OF assms(2) link 2(1)]) simp_all
        ultimately show ?thesis ..
      qed
    qed
    have "map d_position_detail_id (db_details d') = map d_position_detail_id (db_details d)"
      "map f_allocation_id (db_allocations d') = map f_allocation_id (db_allocations d)"
      by (simp_all add: u cancelled_allocation_def)
    moreover have "map (\<lambda>q. (p_account_id q, p_exchange_id q, p_symbol q, p_direction q))
        (db_positions d') = map (\<lambda>q. (p_account_id q, p_exchange_id q, p_symbol q, p_direction q))
        (db_positions d)"
    proof -
      have "distinct (map p_position_id (db_positions d))" using keys by (simp add: keys_ok_def)
      then have "q = p" if "q \<in> set (db_positions d)" "p_position_id q = p_position_id p" for q
        using distinct_key_eq p that by metis
      then show ?thesis using p' by (auto simp: u replace_row_def release_position_Inr)
    qed
    ultimately have "keys_ok d'" using keys by (simp add: keys_ok_def t u del: map_map)
    with orders details allocations positions accounts rows show ?thesis by (simp add: book_ok_def)
  qed
qed

lemma cancel_order_book:
  assumes "cancel_order d ids now oid aid scope internal auto = Inr (d', r')" "book_ok d"
  shows "book_ok d'"
  using assms(1)
proof (rule cancel_order_Inr)
  fix sc r a
  assume loc: "locate_order d sc (strip oid) (strip aid) = Inr (r, a)"
    and "d' = d \<and> r' = r \<and> o_status r \<in> {CANCELLED, PARTIALLY_CANCELLED} \<union> (if auto then {FILLED} else {})
     \<or> o_status r \<notin> {CANCELLED, PARTIALLY_CANCELLED}
       \<and> cancel_located d ids now auto r a = Inr (d', r')"
  then show "book_ok d'"
    using cancel_located_book [OF _ assms(2)] assms(2) locate_order_Inr [OF loc] by auto
qed

text \<open>The same order and account are found in the committed tables.\<close>

lemma locate_after_cancel:
  assumes "locate_order d sc oid aid = Inr (r, a)" "cancel_effect d now auto r a d' r' a'"
    "book_ok d"
  shows "locate_order d' sc oid aid = Inr (r', a'\<lparr>a_updated_at := now\<rparr>)"
proof -
  note l = locate_order_Inr [OF assms(1)] and e = cancel_effectD [OF assms(2)]
  have rows: "order_row_ok r" "account_row_ok a" using assms(3) l by (simp_all add: book_ok_def)
  let ?a' = "a'\<lparr>a_updated_at := now\<rparr>"
  have a': "a_account_id ?a' = a_account_id a" "a_user_id ?a' = a_user_id a"
    using cancel_release_account_Inr [OF e(2,3) rows] by simp_all
  have keys: "distinct (map o_order_id (db_orders d))" "distinct (map a_account_id (db_accounts d))"
    using assms(3) by (simp_all add: book_ok_def keys_ok_def)
  have r: "find_row o_order_id oid (db_orders d') = Some r'"
    using find_row_distinct [OF keys(1), of r] l
    by (simp add: e(4) find_row_replace_Some) (simp add: e(1))
  have ac: "find_row a_account_id aid (db_accounts d') = Some ?a'"
    using find_row_distinct [OF keys(2), of a] l a' by (simp add: e(5) find_row_replace_Some)
  have r': "o_account_id r' = aid" "o_order_id r' = oid" using e(1) l by simp_all
  show ?thesis
  proof (cases "sc_is_admin sc")
    case True
    with r ac r' show ?thesis
      by (simp add: locate_order_def scoped_order_def scoped_account_def get_order_def
          get_account_def)
  next
    case False
    then have u: "sc_user_id sc = Some (a_user_id a)" using l by simp
    have keys': "distinct (map o_order_id (db_orders d'))"
      "distinct (map a_account_id (db_accounts d'))" using keys by (simp_all add: e(4,5))
    have in': "r' \<in> set (db_orders d')" "?a' \<in> set (db_accounts d')"
      using find_row_SomeD [OF r] find_row_SomeD [OF ac] by simp_all
    have "get_owned_account d' aid (a_user_id a) = Some ?a'"
      unfolding get_owned_account_def using in'(2) a' l distinct_key_eq [OF keys'(2)]
      by (intro first_row_unique) auto
    moreover have "get_order_for_user d' oid (a_user_id a) = Some r'"
      unfolding get_order_for_user_def
    proof (rule first_row_unique [OF in'(1)])
      show "o_order_id r' = oid \<and> (\<exists>b \<in> set (db_accounts d').
          a_account_id b = o_account_id r' \<and> a_user_id b = a_user_id a)"
        using r' a' l in'(2) by (metis)
    next
      fix y assume "y \<in> set (db_orders d')" "o_order_id y = oid \<and> (\<exists>b \<in> set (db_accounts d').
          a_account_id b = o_account_id y \<and> a_user_id b = a_user_id a)"
      with r' show "y = r'" using distinct_key_eq [OF keys'(1) _ in'(1)] by simp
    qed
    ultimately show ?thesis
      using False u r' by (simp add: locate_order_def scoped_order_def scoped_account_def)
  qed
qed

section \<open>Properties\<close>

text \<open>
  C33: a cancellation keeps the book consistent. From tables in which the frozen pools of every
  account are what its orders hold, the frozen volume of every detail is what the allocations hold,
  every derivative position is the sum of its details and every row satisfies its balance equations,
  whatever order is cancelled by whomever, the committed tables satisfy all of it again.
\<close>

theorem cancel_keeps_book:
  assumes "cancel_order d ids now oid aid scope internal auto = Inr (d', r')" "book_ok d"
  shows "book_ok d'"
  using assms by (rule cancel_order_book)

definition sample_ids :: cancel_ids where
  "sample_ids = \<lparr>ci_order_event = ''E1'', ci_account_fact = ''E2'', ci_position_fact = ''E3''\<rparr>"

lemma strip_sample [simp]: "strip ''O1'' = ''O1''" "strip ''O2'' = ''O2''" "strip ''A1'' = ''A1''"
  by code_simp+

definition sample_cancel :: "string \<Rightarrow> (db \<times> order) result" where
  "sample_cancel oid =
     cancel_order sample_db sample_ids 7 oid ''A1'' (Some scope_admin) False False"

lemmas cancel_defs = cancel_order_def ensure_trading_open_def locate_order_def scoped_order_def
  scoped_account_def get_order_def get_account_def scope_admin_def idempotent_statuses_def
  cancel_located_def check_cancellable_def cancellable_statuses_def is_close_flag_def
  cancel_positions_def cancel_close_positions_def closed_position_direction_def get_position_def
  list_details_by_order_def list_allocations_by_order_def cancel_allocation_ok_def
  expected_resolved_offset_def release_position_def cancel_release_account_def
  release_close_order_commission_def release_open_order_frozen_resources_def Let_def

lemma sample_cancel_O1: "\<exists>d' r'. sample_cancel ''O1'' = Inr (d', r')"
  by (simp add: sample_cancel_def cancel_defs sample_defs)

lemma sample_cancel_O2: "\<exists>d' r'. sample_cancel ''O2'' = Inr (d', r')"
  by (simp add: sample_cancel_def cancel_defs sample_defs replace_row_def)

theorem cancel_keeps_book_witness:
  "\<exists>d' r'. sample_cancel ''O2'' = Inr (d', r') \<and> book_ok d'"
proof -
  from sample_cancel_O2 obtain d' r' where run: "sample_cancel ''O2'' = Inr (d', r')" by blast
  from run have "book_ok d'" unfolding sample_cancel_def
    by (rule cancel_keeps_book [OF _ sample_book])
  with run show ?thesis by blast
qed

lemma active_cancel:
  assumes "cancel_order d ids now oid aid scope internal auto = Inr (d', r')" "book_ok d"
    and "get_order d (strip oid) = Some r" "o_status r \<in> {ACCEPTED, PARTIALLY_FILLED}"
    and "get_account d (strip aid) = Some a"
  shows "cancel_located d ids now auto r a = Inr (d', r') \<and> r \<in> set (db_orders d)
    \<and> a \<in> set (db_accounts d) \<and> o_order_id r = strip oid \<and> o_account_id r = strip aid
    \<and> a_account_id a = strip aid"
  using assms(1)
proof (rule cancel_order_Inr)
  fix sc r0 a0
  assume loc: "locate_order d sc (strip oid) (strip aid) = Inr (r0, a0)"
    and c: "d' = d \<and> r' = r0 \<and> o_status r0 \<in> {CANCELLED, PARTIALLY_CANCELLED} \<union> (if auto then {FILLED} else {})
     \<or> o_status r0 \<notin> {CANCELLED, PARTIALLY_CANCELLED}
       \<and> cancel_located d ids now auto r0 a0 = Inr (d', r')"
  note l = locate_order_Inr [OF loc]
  have keys: "distinct (map o_order_id (db_orders d))" "distinct (map a_account_id (db_accounts d))"
    using assms(2) by (simp_all add: book_ok_def keys_ok_def)
  have r0: "r0 = r"
    using find_row_distinct [OF keys(1), of r0] l assms(3) by (simp add: get_order_def)
  have a0: "a0 = a"
    using find_row_distinct [OF keys(2), of a0] l assms(5) by (simp add: get_account_def)
  show ?thesis
    using c assms(4) l by (auto simp: r0 a0 split: if_splits)
qed

lemma cancel_rows:
  assumes "cancel_order d ids now oid aid scope internal auto = Inr (d', r')" "book_ok d"
    and "get_order d (strip oid) = Some r" "o_status r \<in> {ACCEPTED, PARTIALLY_FILLED}"
    and "get_account d (strip aid) = Some a"
  shows "get_order d' (strip oid) = Some r'
    \<and> o_status r' = (if o_traded_volume r = 0 then CANCELLED else PARTIALLY_CANCELLED)
    \<and> o_remaining_volume r' = 0 \<and> o_traded_volume r' = o_traded_volume r
    \<and> o_cancelled_volume r' = o_cancelled_volume r + o_remaining_volume r
    \<and> order_volume_balanced r'
    \<and> o_frozen_margin r' = 0 \<and> o_frozen_cash r' = 0 \<and> o_frozen_commission r' = 0
    \<and> o_frozen_position_volume r' = 0
    \<and> (\<exists>a'. get_account d' (strip aid) = Some a'
         \<and> a_available_cash a' = a_available_cash a + o_frozen_margin r + o_frozen_cash r
             + o_frozen_commission r
         \<and> liquid (pools a') = liquid (pools a)
         \<and> frozen_frame (a\<lparr>a_updated_at := now\<rparr>) a')"
proof -
  have run: "cancel_located d ids now auto r a = Inr (d', r')"
    and l: "r \<in> set (db_orders d)" "a \<in> set (db_accounts d)" "o_order_id r = strip oid"
      "o_account_id r = strip aid" "a_account_id a = strip aid"
    using active_cancel [OF assms] by blast+
  from cancel_located_tables [OF run assms(2)] l obtain a' where
    eff: "cancel_effect d now auto r a d' r' a'" by auto
  note e = cancel_effectD [OF eff]
  have rows: "order_row_ok r" "account_row_ok a" using assms(2) l by (simp_all add: book_ok_def)
  note a' = cancel_release_account_Inr [OF e(2,3) rows]
  let ?a' = "a'\<lparr>a_updated_at := now\<rparr>"
  have "get_order d' (strip oid) = Some r'"
    using e(1) l assms(3) by (simp add: get_order_def e(4) find_row_replace_Some)
  moreover have "get_account d' (strip aid) = Some ?a'"
    using l assms(5) by (simp add: get_account_def e(5) find_row_replace_Some a')
  moreover have "order_volume_balanced r'" "o_frozen_position_volume r' = 0"
    using rows(1) check_cancellable_Inr [OF e(3)]
    by (auto simp: e(1) order_row_ok_def order_volume_balanced_def is_close_flag_def)
  moreover have "frozen_frame (a\<lparr>a_updated_at := now\<rparr>) ?a'"
    by (simp add: frozen_frame_def a')
  moreover have "liquid (pools ?a') = liquid (pools a)"
    "a_available_cash ?a' = a_available_cash a + o_frozen_margin r + o_frozen_cash r
             + o_frozen_commission r"
    by (simp_all add: liquid_def pools_def a')
  ultimately show ?thesis by (simp add: e(1))
qed

text \<open>
  What a cancellation of an active order does. The order ends CANCELLED, or PARTIALLY_CANCELLED
  when it had fills, with nothing remaining and nothing frozen, its volumes still balanced; its
  account gets back into the available cash exactly what the order held, the sum of available and
  frozen money is unchanged, and every column but the pools, the risk figure and the time of update
  keeps its value.
\<close>

theorem cancel_effect_on_order_and_account:
  assumes "cancel_order d ids now oid aid scope internal auto = Inr (d', r')" "book_ok d"
    and "get_order d (strip oid) = Some r" "o_status r \<in> {ACCEPTED, PARTIALLY_FILLED}"
    and "get_account d (strip aid) = Some a"
  shows "get_order d' (strip oid) = Some r'
    \<and> o_status r' = (if o_traded_volume r = 0 then CANCELLED else PARTIALLY_CANCELLED)
    \<and> o_remaining_volume r' = 0 \<and> o_traded_volume r' = o_traded_volume r
    \<and> o_cancelled_volume r' = o_cancelled_volume r + o_remaining_volume r
    \<and> order_volume_balanced r'
    \<and> o_frozen_margin r' = 0 \<and> o_frozen_cash r' = 0 \<and> o_frozen_commission r' = 0
    \<and> o_frozen_position_volume r' = 0
    \<and> (\<exists>a'. get_account d' (strip aid) = Some a'
         \<and> a_available_cash a' = a_available_cash a + o_frozen_margin r + o_frozen_cash r
             + o_frozen_commission r
         \<and> liquid (pools a') = liquid (pools a)
         \<and> frozen_frame (a\<lparr>a_updated_at := now\<rparr>) a')"
  by (rule cancel_rows [OF assms])

theorem cancel_effect_on_order_and_account_witness:
  "\<exists>d' r' a'. sample_cancel ''O1'' = Inr (d', r') \<and> o_status r' = CANCELLED
     \<and> get_account d' ''A1'' = Some a' \<and> a_available_cash a' = 85990 + 7005"
proof -
  obtain r a where r: "get_order sample_db ''O1'' = Some r" "o_status r = ACCEPTED"
      "o_traded_volume r = 0" "o_frozen_margin r = 7000" "o_frozen_cash r = 0"
      "o_frozen_commission r = 5"
    and a: "get_account sample_db ''A1'' = Some a" "a_available_cash a = 85990"
    by (simp add: get_order_def get_account_def sample_defs)
  from sample_cancel_O1 obtain d' r' where run: "sample_cancel ''O1'' = Inr (d', r')" by blast
  note eff = cancel_effect_on_order_and_account [OF run [unfolded sample_cancel_def] sample_book,
      of r a]
  have "o_status r' = CANCELLED \<and> (\<exists>a'. get_account d' ''A1'' = Some a'
      \<and> a_available_cash a' = 85990 + 7005)"
    using eff r a by auto
  with run show ?thesis by blast
qed

text \<open>
  Cancelling is idempotent. When a cancellation has been committed, the same request sent again
  at any later time succeeds, returns the same order and changes no table: nothing is released twice
  and no second event is written.
\<close>

theorem cancel_is_idempotent:
  assumes "cancel_order d ids now oid aid scope internal False = Inr (d', r')" "book_ok d"
  shows "cancel_order d' ids2 now2 oid aid scope internal False = Inr (d', r')"
  using assms(1)
proof (rule cancel_order_Inr)
  fix sc r a st
  assume sc: "scope = Some sc" and loc: "locate_order d sc (strip oid) (strip aid) = Inr (r, a)"
    and st: "resolve_product_strategy (o_instrument_type r) = Inr st"
    and gate: "(if internal then Inr () else ensure_trading_open (db_batches d) None) = Inr ()"
    and c: "d' = d \<and> r' = r \<and> o_status r \<in> {CANCELLED, PARTIALLY_CANCELLED}
         \<union> (if False then {FILLED} else {})
     \<or> o_status r \<notin> {CANCELLED, PARTIALLY_CANCELLED}
       \<and> cancel_located d ids now False r a = Inr (d', r')"
  from c show ?thesis
  proof
    assume "d' = d \<and> r' = r \<and> o_status r \<in> {CANCELLED, PARTIALLY_CANCELLED}
         \<union> (if False then {FILLED} else {})"
    with sc loc st gate show ?thesis
      by (auto simp: cancel_order_def idempotent_statuses_def split: if_splits)
  next
    assume run: "o_status r \<notin> {CANCELLED, PARTIALLY_CANCELLED}
       \<and> cancel_located d ids now False r a = Inr (d', r')"
    note l = locate_order_Inr [OF loc]
    from cancel_located_tables [OF run [THEN conjunct2] assms(2)] l obtain a' where
      eff: "cancel_effect d now False r a d' r' a'" by auto
    have "locate_order d' sc (strip oid) (strip aid) = Inr (r', a'\<lparr>a_updated_at := now\<rparr>)"
      by (rule locate_after_cancel [OF loc eff assms(2)])
    moreover have "o_status r' \<in> set idempotent_statuses"
      "o_instrument_type r' = o_instrument_type r" "db_batches d' = db_batches d"
      using eff by (auto simp: cancel_effect_def idempotent_statuses_def cancelled_order_def)
    ultimately show ?thesis using sc st gate by (simp add: cancel_order_def split: if_splits)
  qed
qed

theorem cancel_is_idempotent_witness:
  "\<exists>d' r'. sample_cancel ''O2'' = Inr (d', r')
     \<and> cancel_order d' sample_ids 99 ''O2'' ''A1'' (Some scope_admin) False False = Inr (d', r')"
proof -
  from sample_cancel_O2 obtain d' r' where run: "sample_cancel ''O2'' = Inr (d', r')" by blast
  with cancel_is_idempotent [OF run [unfolded sample_cancel_def] sample_book] show ?thesis by blast
qed

text \<open>
  A request under a user's scope only ever touches that user's orders, and cannot tell another
  user's order from one that does not exist: with the order deleted from the tables the answer is
  the same.
\<close>

theorem cancel_respects_ownership:
  assumes "scope_for_user uid = Inr sc" "keys_ok d"
  shows "(\<forall>d' r'. cancel_order d ids now oid aid (Some sc) internal auto = Inr (d', r') \<longrightarrow>
       (\<exists>a \<in> set (db_accounts d). a_account_id a = o_account_id r' \<and> a_user_id a = strip uid))
    \<and> (\<forall>r. get_order d (strip oid) = Some r
         \<and> (\<forall>a \<in> set (db_accounts d). a_account_id a = o_account_id r \<longrightarrow> a_user_id a \<noteq> strip uid)
       \<longrightarrow> cancel_order d ids now oid aid (Some sc) internal auto
           = cancel_order (d\<lparr>db_orders := filter (\<lambda>x. o_order_id x \<noteq> strip oid) (db_orders d)\<rparr>)
               ids now oid aid (Some sc) internal auto)"
proof -
  have sc: "sc_user_id sc = Some (strip uid)" "\<not> sc_is_admin sc" "sc_conceal sc"
    using assms by (auto simp: scope_for_user_def make_scope_def Let_def split: if_splits)
  have owned: "\<exists>a \<in> set (db_accounts d). a_account_id a = o_account_id r' \<and> a_user_id a = strip uid"
    if run: "cancel_order d ids now oid aid (Some sc) internal auto = Inr (d', r')" for d' r'
    using run
  proof (rule cancel_order_Inr)
    fix sc' r a
    assume s: "Some sc = Some sc'" and loc: "locate_order d sc' (strip oid) (strip aid) = Inr (r, a)"
      and c: "d' = d \<and> r' = r \<and> o_status r \<in> {CANCELLED, PARTIALLY_CANCELLED} \<union> (if auto then {FILLED} else {})
       \<or> o_status r \<notin> {CANCELLED, PARTIALLY_CANCELLED}
         \<and> cancel_located d ids now auto r a = Inr (d', r')"
    have "o_account_id r' = o_account_id r"
      using c by (auto simp: cancel_located_def rbind_Inr_iff Let_def if_Inl_Inr_iff)
    with locate_order_Inr [OF loc] s sc show ?thesis by auto
  qed
  have hidden: "cancel_order e ids now oid aid (Some sc) internal auto
      = rbind (if internal then Inr () else ensure_trading_open (db_batches e) None)
          (\<lambda>_. Inl (ResourceNotFoundError ''RESOURCE_NOT_FOUND''))"
    if "scoped_order e sc (strip oid) = None" for e
    using that sc by (simp add: cancel_order_def locate_order_def missing_resource_def)
  have foreign: "scoped_order d sc (strip oid) = None"
    if r: "get_order d (strip oid) = Some r"
      and no: "\<forall>a \<in> set (db_accounts d). a_account_id a = o_account_id r \<longrightarrow> a_user_id a \<noteq> strip uid"
    for r
  proof -
    have keys: "distinct (map o_order_id (db_orders d))" using assms(2) by (simp add: keys_ok_def)
    have rr: "r \<in> set (db_orders d)" "o_order_id r = strip oid"
      using find_row_SomeD r by (fastforce simp: get_order_def)+
    have "x = r" if "x \<in> set (db_orders d)" "o_order_id x = strip oid" for x
      using distinct_key_eq [OF keys that(1) rr(1)] that(2) rr(2) by simp
    then have "\<not> (\<exists>x \<in> set (db_orders d). o_order_id x = strip oid
        \<and> (\<exists>a \<in> set (db_accounts d). a_account_id a = o_account_id x \<and> a_user_id a = strip uid))"
      using no by blast
    then show ?thesis using sc by (auto simp: scoped_order_def get_order_for_user_def find_None_iff)
  qed
  have "scoped_order (d\<lparr>db_orders := filter (\<lambda>x. o_order_id x \<noteq> strip oid) (db_orders d)\<rparr>) sc
      (strip oid) = None"
    using sc by (auto simp: scoped_order_def get_order_for_user_def find_None_iff)
  from hidden [OF this] hidden [OF foreign] owned show ?thesis by simp
qed

lemma strip_user [simp]: "strip ''U1'' = ''U1''" "strip ''U2'' = ''U2''"
  by code_simp+

theorem cancel_respects_ownership_witness:
  "\<exists>sc. scope_for_user ''U2'' = Inr sc
     \<and> cancel_order sample_db sample_ids 7 ''O1'' ''A1'' (Some sc) False False
       = cancel_order (sample_db\<lparr>db_orders := [sample_order ''O2'' SELL CLOSE 1 0 5 1]\<rparr>)
           sample_ids 7 ''O1'' ''A1'' (Some sc) False False"
proof -
  obtain sc where sc: "scope_for_user ''U2'' = Inr sc"
    by (simp add: scope_for_user_def make_scope_def Let_def)
  have "keys_ok sample_db" using sample_book by (simp add: book_ok_def)
  note own = cancel_respects_ownership [OF sc this, of sample_ids 7 "''O1''" "''A1''" False False]
  obtain r where r: "get_order sample_db ''O1'' = Some r" "o_account_id r = ''A1''"
    by (simp add: get_order_def sample_defs)
  have f: "filter (\<lambda>x. o_order_id x \<noteq> ''O1'') (db_orders sample_db)
      = [sample_order ''O2'' SELL CLOSE 1 0 5 1]"
    by (simp add: sample_db_def) (simp add: sample_order_def)
  have "\<forall>a \<in> set (db_accounts sample_db). a_account_id a = o_account_id r \<longrightarrow> a_user_id a \<noteq> ''U2''"
    by (simp add: sample_db_def sample_account_def)
  with own [THEN conjunct2] r f sc show ?thesis by auto
qed

lemma open_order_cancels:
  assumes "book_ok d" "get_order d (strip oid) = Some r" "get_account d (o_account_id r) = Some a"
    and "o_status r \<in> {ACCEPTED, PARTIALLY_FILLED}" "0 < o_remaining_volume r"
    and "o_offset_flag r = Some OPEN" "o_frozen_position_volume r = 0"
    and "o_order_type r \<in> {LIMIT, COUNTERPARTY, LAST}"
    and "o_instrument_type r \<in> {FUTURES, FUTURES_OPTION, INDEX_OPTION}"
    and "strip aid = o_account_id r"
  shows "\<exists>d' r'. cancel_order d ids now oid aid (Some scope_admin) True auto = Inr (d', r')"
proof -
  have r: "r \<in> set (db_orders d)" "order_row_ok r" using book_ok_order [OF assms(1,2)] by auto
  have a: "a_account_id a = o_account_id r" "account_backed (db_orders d) a"
    using book_ok_account [OF assms(1,3)] by auto
  have chk: "check_cancellable r auto = Inr ()"
    using assms(4-8) by (auto simp: check_cancellable_def cancellable_statuses_def)
  have "\<forall>x \<in> set (db_orders d). order_row_ok x" using assms(1) by (simp add: book_ok_def)
  from cancel_release_account_succeeds [OF chk r(2) a(2) r(1) a(1) [symmetric] this]
  obtain a' where "cancel_release_account r a = Inr a'" ..
  moreover have "cancel_positions d now r = Inr None"
    using assms(6) by (simp add: cancel_positions_def is_close_flag_def)
  moreover have "o_total_volume r = o_traded_volume r + (o_cancelled_volume r + o_remaining_volume r)"
    using r(2) by (simp add: order_row_ok_def order_volume_balanced_def)
  ultimately have "\<exists>d' r'. cancel_located d ids now auto r a = Inr (d', r')"
    using chk by (simp add: cancel_located_def Let_def)
  moreover have "locate_order d scope_admin (strip oid) (strip aid) = Inr (r, a)"
    using assms(2,3,10) by (simp add: locate_order_def scoped_order_def scoped_account_def
        scope_admin_def)
  ultimately show ?thesis
    using assms(4,9) by (auto simp: cancel_order_def idempotent_statuses_def)
qed



end
