(* ===== verification/Order_Requests.thy ===== *)
theory Order_Requests
  imports Calculators Codes
begin

text \<open>
  What a client asks for: the request models of \<open>app/schemas/order_schema.py\<close>, the checks of
  \<open>app/services/order_validation_service.py\<close> and the idempotency check, which
  \<open>app/services/order_idempotency_service.py\<close> repeats for cash securities.
\<close>

section \<open>Requests\<close>

text \<open>
  \<open>rq_offset_flag\<close> is absent for cash securities, \<open>rq_cash_type\<close> is the class variable
  \<open>cash_security_instrument_type\<close> of their requests.
\<close>

record order_request =
  rq_client_order_id :: string
  rq_account_id :: string
  rq_exchange_id :: string
  rq_symbol :: string
  rq_direction :: order_direction
  rq_order_type :: order_type
  rq_limit_price :: "decimal option"
  rq_volume :: int
  rq_offset_flag :: "offset_flag option"
  rq_cash_type :: "instrument_type option"

definition length_within :: "nat \<Rightarrow> string \<Rightarrow> bool" where
  "length_within n s \<longleftrightarrow> 1 \<le> length s \<and> length s \<le> n"

text \<open>
  \<open>CommonOrderCreateRequest\<close>: the field validators run before the constraints of the fields and the
  model validator after them. A validation error of the library is a \<open>ValueError\<close>.
\<close>

definition validate_request :: "order_request \<Rightarrow> order_request result" where
  "validate_request q =
     rbind (normalize_code (rq_exchange_id q)) (\<lambda>ex.
     rbind (normalize_code (rq_symbol q)) (\<lambda>sy.
     let q' = q\<lparr>rq_client_order_id := strip (rq_client_order_id q),
                rq_account_id := strip (rq_account_id q), rq_exchange_id := ex, rq_symbol := sy\<rparr>
     in if \<not> length_within 64 (rq_client_order_id q') \<or> \<not> length_within 64 (rq_account_id q')
            \<or> \<not> length_within 32 ex \<or> \<not> length_within 64 sy
        then Inl PyValueError
        else if (case rq_limit_price q of None \<Rightarrow> False | Some p \<Rightarrow> p \<le> 0) then Inl PyValueError
        else if rq_volume q \<le> 0 then Inl PyValueError
        else if rq_order_type q = LIMIT \<and> rq_limit_price q = None then Inl PyValueError
        else if rq_order_type q \<noteq> LIMIT \<and> rq_limit_price q \<noteq> None then Inl PyValueError
        else Inr q'))"

section \<open>\<open>OrderValidationService\<close>\<close>

fun supported_order_type :: "order_type \<Rightarrow> bool" where
  "supported_order_type (UnknownOrderType _) = False"
| "supported_order_type _ = True"

definition validate_order ::
  "order_request \<Rightarrow> instrument option \<Rightarrow> decimal option \<Rightarrow> unit result" where
  "validate_order q instrument resolved_price =
     (case instrument of
        None \<Rightarrow> Inl (BusinessRuleError ''INSTRUMENT_NOT_FOUND'')
      | Some ins \<Rightarrow>
        if \<not> i_is_active ins then Inl (BusinessRuleError ''INSTRUMENT_INACTIVE'')
        else if \<not> supported_order_type (rq_order_type q)
        then Inl (BusinessValidationError ''UNSUPPORTED_ORDER_TYPE'')
        else if rq_offset_flag q
                  \<notin> {Some OPEN, Some CLOSE, Some CLOSE_TODAY, Some CLOSE_YESTERDAY}
        then Inl (BusinessValidationError ''UNSUPPORTED_OFFSET_FLAG'')
        else case (if resolved_price \<noteq> None then resolved_price else rq_limit_price q) of
          None \<Rightarrow> Inl (BusinessValidationError ''INVALID_ORDER_PRICE'')
        | Some price \<Rightarrow>
          if price \<le> 0 then Inl (BusinessValidationError ''INVALID_ORDER_PRICE'')
          else if rq_volume q \<le> 0 then Inl (BusinessValidationError ''INVALID_ORDER_VOLUME'')
          else if rq_volume q < i_min_volume ins
          then Inl (BusinessValidationError ''VOLUME_BELOW_MINIMUM'')
          else if i_max_volume ins < rq_volume q
          then Inl (BusinessValidationError ''VOLUME_ABOVE_MAXIMUM'')
          else validate_price_tick price (i_price_tick ins))"

definition validate_open_order :: "order_request \<Rightarrow> instrument option \<Rightarrow> unit result" where
  "validate_open_order q instrument =
     rbind (validate_order q instrument None) (\<lambda>_.
     if rq_offset_flag q \<noteq> Some OPEN
     then Inl (BusinessValidationError ''UNSUPPORTED_OFFSET_FLAG'') else Inr ())"

section \<open>Idempotency\<close>

text \<open>The fields that both sides of the comparison consist of.\<close>

type_synonym request_fields =
  "instrument_type \<times> string \<times> string \<times> string \<times> order_direction \<times> offset_flag option \<times> order_type
   \<times> decimal option \<times> int"

definition order_fields :: "order \<Rightarrow> request_fields" where
  "order_fields r =
     (o_instrument_type r, normalize_text (o_account_id r), normalize_text (o_exchange_id r),
      normalize_text (o_symbol r), o_direction r, o_offset_flag r, o_order_type r,
      (case o_submitted_limit_price r of
         Some p \<Rightarrow> Some (quantize_money p)
       | None \<Rightarrow> if o_order_type r = LIMIT then Some (quantize_money (o_limit_price r)) else None),
      o_total_volume r)"

definition request_fields_of :: "instrument_type \<Rightarrow> order_request \<Rightarrow> request_fields" where
  "request_fields_of existing_type q =
     ((case rq_cash_type q of Some t \<Rightarrow> t | None \<Rightarrow> existing_type),
      normalize_text (rq_account_id q), normalize_text (rq_exchange_id q),
      normalize_text (rq_symbol q), rq_direction q, rq_offset_flag q, rq_order_type q,
      map_option quantize_money (rq_limit_price q), rq_volume q)"

definition idempotency_key_reused :: app_error where
  "idempotency_key_reused = ResourceConflictError ''IDEMPOTENCY_KEY_REUSED''"

definition validate_idempotent_order_request :: "order \<Rightarrow> order_request \<Rightarrow> unit result" where
  "validate_idempotent_order_request r q =
     (if (case rq_cash_type q of
            Some t \<Rightarrow> o_instrument_type r \<noteq> t
          | None \<Rightarrow> o_instrument_type r \<in> cash_security_instrument_types)
      then Inl idempotency_key_reused
      else if order_fields r \<noteq> request_fields_of (o_instrument_type r) q
      then Inl idempotency_key_reused
      else Inr ())"

text \<open>\<open>OrderIdempotencyService.validate\<close>.\<close>

definition order_idempotency_validate :: "order \<Rightarrow> order_request \<Rightarrow> unit result" where
  "order_idempotency_validate r q =
     (let request_instrument_type = rq_cash_type q; existing = o_instrument_type r
      in if (request_instrument_type \<noteq> None \<and> request_instrument_type \<noteq> Some existing)
            \<or> (request_instrument_type = None \<and> existing \<in> cash_security_instrument_types)
         then Inl idempotency_key_reused
         else if order_fields r \<noteq> request_fields_of existing q then Inl idempotency_key_reused
         else Inr ())"

section \<open>Lemmas\<close>

lemma validate_request_Inr:
  assumes "validate_request q = Inr q'"
  shows "0 < rq_volume q' \<and> (rq_order_type q' = LIMIT \<longleftrightarrow> rq_limit_price q' \<noteq> None)
    \<and> (\<forall>p. rq_limit_price q' = Some p \<longrightarrow> 0 < p)
    \<and> normalize_text (rq_exchange_id q') = rq_exchange_id q'
    \<and> normalize_text (rq_symbol q') = rq_symbol q' \<and> rq_symbol q' \<noteq> []
    \<and> strip (rq_account_id q') = rq_account_id q'"
  using assms
  by (auto simp: validate_request_def rbind_Inr_iff normalize_code_Inr_iff Let_def
      split: if_splits option.splits)

lemma validate_order_Inr:
  "validate_order q instrument (Some price) = Inr () \<longleftrightarrow>
     (\<exists>ins. instrument = Some ins \<and> i_is_active ins \<and> supported_order_type (rq_order_type q)
        \<and> rq_offset_flag q \<in> {Some OPEN, Some CLOSE, Some CLOSE_TODAY, Some CLOSE_YESTERDAY}
        \<and> 0 < price \<and> 0 < rq_volume q \<and> i_min_volume ins \<le> rq_volume q
        \<and> rq_volume q \<le> i_max_volume ins
        \<and> validate_price_tick price (i_price_tick ins) = Inr ())"
  by (auto simp: validate_order_def split: option.splits if_splits)

lemma idempotent_Inr_iff:
  "validate_idempotent_order_request r q = Inr u \<longleftrightarrow>
     (case rq_cash_type q of
        Some t \<Rightarrow> o_instrument_type r = t
      | None \<Rightarrow> o_instrument_type r \<notin> cash_security_instrument_types)
     \<and> order_fields r = request_fields_of (o_instrument_type r) q"
  by (auto simp: validate_idempotent_order_request_def split: option.splits if_splits)

lemma idempotency_checks_agree: "order_idempotency_validate = validate_idempotent_order_request"
  by (intro ext)
     (auto simp: order_idempotency_validate_def validate_idempotent_order_request_def Let_def
       split: option.splits)

lemma validated_price_money:
  assumes "validate_price_tick price tick = Inr u" "is_money tick"
  shows "is_money price"
proof -
  from assms(1) obtain k where "price = of_int k * tick"
    by (auto simp: validate_price_tick_Inr_iff)
  with assms(2) show ?thesis by (simp add: is_money_int_mult)
qed

section \<open>Properties\<close>

text \<open>
  A placed order is valid: it is accepted by the validation exactly when the instrument is active,
  order type and offset flag are known, price and volume are positive, the volume is within the limits
  of the instrument and the price is a multiple of its tick.
\<close>

theorem order_accepted_iff_valid:
  "validate_order q (Some ins) (Some price) = Inr () \<longleftrightarrow>
     i_is_active ins \<and> supported_order_type (rq_order_type q)
     \<and> rq_offset_flag q \<in> {Some OPEN, Some CLOSE, Some CLOSE_TODAY, Some CLOSE_YESTERDAY}
     \<and> 0 < price \<and> 0 < rq_volume q
     \<and> i_min_volume ins \<le> rq_volume q \<and> rq_volume q \<le> i_max_volume ins
     \<and> 0 < i_price_tick ins \<and> (\<exists>k. price = of_int k * i_price_tick ins)"
  unfolding validate_order_Inr by (auto simp: validate_price_tick_Inr_iff)

end
