(* ===== verification/Order_Pricing.thy ===== *)
theory Order_Pricing
  imports Order_Requests Risk_State
begin

text \<open>
  The price of an order that names none: \<open>app/services/order_price_resolver.py\<close> over the live quote that
  \<open>app/services/live_market_snapshot_service.py\<close> admits, and the prices of
  \<open>app/services/option_market_price_service.py\<close>. The two Redis hashes the snapshot service reads are
  maps of texts; the validation of a stored tick by the library is the parameter \<open>parse\<close>.
\<close>

section \<open>Quotes\<close>

record market_tick =
  mt_source_event_id :: string
  mt_source :: string
  mt_order_book_id :: string
  mt_exchange_id :: string
  mt_symbol :: string
  mt_trading_day :: date
  mt_event_time :: datetime
  mt_event_time_zoned :: bool
  mt_last_price :: "decimal option"
  mt_bid_price_1 :: "decimal option"
  mt_bid_volume_1 :: int
  mt_ask_price_1 :: "decimal option"
  mt_ask_volume_1 :: int

record live_event =
  lv_stream_message_id :: string
  lv_tick :: market_tick

type_synonym redis_hash = "string \<Rightarrow> string option"

datatype feed_domain = FUTURES_MARKET | SECURITIES_MARKET

definition resolve_market_feed_domain :: "instrument_type \<Rightarrow> feed_domain result" where
  "resolve_market_feed_domain it =
     (let normalized = normalize_text (instrument_type_value it)
      in if normalized \<in> {''FUTURES'', ''FUTURES_OPTION'', ''INDEX'', ''INDEX_OPTION''}
         then Inr FUTURES_MARKET
         else if normalized \<in> {''STOCK'', ''CONVERTIBLE_BOND'', ''ETF''}
         then Inr SECURITIES_MARKET
         else Inl PyValueError)"

text \<open>\<open>subscribed_codes.split(",")\<close>.\<close>

fun split_commas :: "string \<Rightarrow> string list" where
  "split_commas [] = [[]]"
| "split_commas (c # s) =
     (if c = CHR '','' then [] # split_commas s
      else case split_commas s of [] \<Rightarrow> [[c]] | w # ws \<Rightarrow> (c # w) # ws)"

definition hash_text :: "redis_hash \<Rightarrow> string \<Rightarrow> string" where
  "hash_text h k = (case h k of None \<Rightarrow> [] | Some v \<Rightarrow> v)"

definition subscribed_codes :: "redis_hash \<Rightarrow> string list" where
  "subscribed_codes status =
     filter (\<lambda>c. c \<noteq> []) (map normalize_text (split_commas (hash_text status ''subscribed_codes'')))"

definition source_available :: "redis_hash \<Rightarrow> bool" where
  "source_available status \<longleftrightarrow> status ''status'' = Some ''RUNNING''
     \<or> (status ''status'' = Some ''DEGRADED''
        \<and> status ''last_error'' = Some ''SUBSCRIPTION_PARTIAL_FAILURE'')"

definition is_live_quote :: "redis_hash \<Rightarrow> bool" where
  "is_live_quote latest \<longleftrightarrow> latest ''source'' = Some ''YMM_LIVE_DATA''
     \<and> latest ''ingest_type'' = Some ''LIVE_CALLBACK''"

definition is_bootstrap_snapshot :: "redis_hash \<Rightarrow> bool" where
  "is_bootstrap_snapshot latest \<longleftrightarrow> latest ''source'' = Some ''YMM_DATA_SDK''
     \<and> latest ''ingest_type'' = Some ''REST_SNAPSHOT''"

text \<open>
  \<open>get_matching_event\<close>, after the two hashes of the exchange, the code and the domain were read.
\<close>

definition matching_event ::
  "(redis_hash \<Rightarrow> market_tick option) \<Rightarrow> redis_hash \<Rightarrow> redis_hash \<Rightarrow> string \<Rightarrow> string \<Rightarrow> string
   \<Rightarrow> bool \<Rightarrow> string option \<Rightarrow> live_event option result" where
  "matching_event parse status latest exchange_id order_book_id code allow_bootstrap expected =
     rbind (normalize_code exchange_id) (\<lambda>ex.
     rbind (normalize_code order_book_id) (\<lambda>book.
     rbind (normalize_code code) (\<lambda>sy.
     let active = (source_available status \<and> book \<in> set (subscribed_codes status));
         bootstrap = is_bootstrap_snapshot latest;
         message_id = strip (hash_text latest ''stream_message_id'')
     in if \<not> is_live_quote latest \<and> \<not> bootstrap then Inr None
        else if \<not> active \<and> \<not> (allow_bootstrap \<and> bootstrap) then Inr None
        else if message_id = [] then Inr None
        else if bootstrap \<and> expected \<noteq> None \<and> Some message_id \<noteq> expected then Inr None
        else case parse latest of
          None \<Rightarrow> Inr None
        | Some tick \<Rightarrow>
            if mt_exchange_id tick \<noteq> ex \<or> mt_order_book_id tick \<noteq> book then Inr None
            else rbind (normalize_code (mt_symbol tick)) (\<lambda>ts.
              if ts \<noteq> sy then Inr None
              else Inr (Some \<lparr>lv_stream_message_id = message_id, lv_tick = tick\<rparr>)))))"

section \<open>\<open>OrderPriceResolver\<close>\<close>

record resolved_order_price =
  pr_resolved_price :: decimal
  pr_submitted_limit_price :: "decimal option"
  pr_market_protection_price :: "decimal option"
  pr_snapshot_time :: "datetime option"
  pr_snapshot_source :: "string option"
  pr_snapshot_event_id :: "string option"
  pr_snapshot_stream_message_id :: "string option"
  pr_bid1 :: "decimal option"
  pr_bid_volume1 :: "int option"
  pr_ask1 :: "decimal option"
  pr_ask_volume1 :: "int option"
  pr_last_price :: "decimal option"

definition limit_price_only :: "decimal \<Rightarrow> resolved_order_price" where
  "limit_price_only p =
     \<lparr>pr_resolved_price = p, pr_submitted_limit_price = Some p, pr_market_protection_price = None,
      pr_snapshot_time = None, pr_snapshot_source = None, pr_snapshot_event_id = None,
      pr_snapshot_stream_message_id = None, pr_bid1 = None, pr_bid_volume1 = None, pr_ask1 = None,
      pr_ask_volume1 = None, pr_last_price = None\<rparr>"

definition round_to_tick :: "decimal \<Rightarrow> decimal \<Rightarrow> bool \<Rightarrow> decimal" where
  "round_to_tick v tick upward =
     of_int (if upward then \<lceil>v / tick\<rceil> else \<lfloor>v / tick\<rfloor>) * tick"

definition slippage_ok :: "decimal \<Rightarrow> unit result" where
  "slippage_ok rate = (if 0 \<le> rate \<and> rate < 1 then Inr () else Inl PyValueError)"

definition feed_invalid :: app_error where
  "feed_invalid = BusinessValidationError ''ORDER_PRICE_MARKET_DATA_INVALID''"

definition check_quote :: "datetime \<Rightarrow> date \<Rightarrow> market_tick \<Rightarrow> unit result" where
  "check_quote now trading_day t =
     (if \<not> mt_event_time_zoned t then Inl feed_invalid
      else if now - mt_event_time t < - 1000000 then Inl feed_invalid
      else if mt_trading_day t \<noteq> trading_day
      then Inl (BusinessValidationError ''ORDER_PRICE_TRADING_DAY_MISMATCH'')
      else if \<exists>v \<in> set [mt_bid_price_1 t, mt_ask_price_1 t, mt_last_price t].
                (case v of None \<Rightarrow> False | Some p \<Rightarrow> p \<le> 0)
      then Inl feed_invalid
      else if mt_bid_volume_1 t < 0 \<or> mt_ask_volume_1 t < 0 then Inl feed_invalid
      else case (mt_bid_price_1 t, mt_ask_price_1 t) of
        (Some bid, Some ask) \<Rightarrow> if ask < bid then Inl feed_invalid else Inr ()
      | _ \<Rightarrow> Inr ())"

definition opposite_price :: "order_direction \<Rightarrow> market_tick \<Rightarrow> decimal option" where
  "opposite_price dir t = (if dir = BUY then mt_ask_price_1 t else mt_bid_price_1 t)"

definition opposite_volume :: "order_direction \<Rightarrow> market_tick \<Rightarrow> int" where
  "opposite_volume dir t = (if dir = BUY then mt_ask_volume_1 t else mt_bid_volume_1 t)"

definition missing_code :: "order_direction \<Rightarrow> string" where
  "missing_code dir = (if dir = BUY then ''ASK1_MISSING'' else ''BID1_MISSING'')"

text \<open>The limit a market order may not be filled beyond: the opposite quote plus the slippage.\<close>

definition protection_price :: "decimal \<Rightarrow> decimal \<Rightarrow> order_direction \<Rightarrow> decimal \<Rightarrow> decimal" where
  "protection_price rate tick dir opposite =
     round_to_tick (opposite * (if dir = BUY then 1 + rate else 1 - rate)) tick (dir = BUY)"

text \<open>The resolved price with the protection price of a market order.\<close>

definition quoted_price ::
  "decimal \<Rightarrow> decimal \<Rightarrow> order_type \<Rightarrow> order_direction \<Rightarrow> market_tick
   \<Rightarrow> (decimal \<times> decimal option) result" where
  "quoted_price rate tick ot dir t =
     (if ot = COUNTERPARTY then
        (case opposite_price dir t of
           None \<Rightarrow> Inl (BusinessValidationError (missing_code dir)) | Some p \<Rightarrow> Inr (p, None))
      else if ot = LAST then
        (case mt_last_price t of
           None \<Rightarrow> Inl (BusinessValidationError ''LAST_PRICE_MISSING'') | Some p \<Rightarrow> Inr (p, None))
      else
        (case opposite_price dir t of
           None \<Rightarrow> Inl (BusinessValidationError (missing_code dir))
         | Some p \<Rightarrow>
             let protection = protection_price rate tick dir p
             in if protection \<le> 0
                then Inl (BusinessValidationError ''MARKET_PROTECTION_PRICE_INVALID'')
                else Inr (protection, Some protection)))"

definition order_price_unavailable :: app_error where
  "order_price_unavailable = ServiceUnavailableError ''ORDER_PRICE_MARKET_DATA_UNAVAILABLE''"

definition resolve_price ::
  "decimal \<Rightarrow> datetime \<Rightarrow> order_request \<Rightarrow> decimal \<Rightarrow> date \<Rightarrow> live_event option
   \<Rightarrow> resolved_order_price result" where
  "resolve_price rate now q tick trading_day event =
     (if rq_order_type q = LIMIT then
        (case rq_limit_price q of None \<Rightarrow> Inl PyAssertionError | Some p \<Rightarrow> Inr (limit_price_only p))
      else case event of
        None \<Rightarrow> Inl order_price_unavailable
      | Some ev \<Rightarrow>
        let t = lv_tick ev; dir = rq_direction q
        in rbind (check_quote now trading_day t) (\<lambda>_.
           rbind (quoted_price rate tick (rq_order_type q) dir t) (\<lambda>(resolved, protection).
           if rq_order_type q \<in> {COUNTERPARTY, MARKET} \<and> opposite_volume dir t \<le> 0
           then Inl (BusinessValidationError ''ORDER_PRICE_BOOK_EMPTY'')
           else Inr \<lparr>pr_resolved_price = resolved, pr_submitted_limit_price = None,
                     pr_market_protection_price = protection,
                     pr_snapshot_time = Some (mt_event_time t),
                     pr_snapshot_source = Some (mt_source t),
                     pr_snapshot_event_id = Some (mt_source_event_id t),
                     pr_snapshot_stream_message_id = Some (lv_stream_message_id ev),
                     pr_bid1 = mt_bid_price_1 t, pr_bid_volume1 = Some (mt_bid_volume_1 t),
                     pr_ask1 = mt_ask_price_1 t, pr_ask_volume1 = Some (mt_ask_volume_1 t),
                     pr_last_price = mt_last_price t\<rparr>)))"

section \<open>\<open>OptionMarketPriceService\<close>\<close>

text \<open>
  \<open>stored\<close> is the \<open>last_price\<close> of the stored snapshot of a contract, \<open>None\<close> when there is none or it is
  not a finite decimal.
\<close>

record option_margin_prices =
  op_option_price :: decimal
  op_underlying_price :: decimal

definition last_price_of ::
  "(string \<times> string \<Rightarrow> decimal option) \<Rightarrow> instrument \<Rightarrow> decimal result" where
  "last_price_of stored ins =
     (case stored (normalize_text (i_exchange_id ins), normalize_text (i_order_book_id ins)) of
        None \<Rightarrow> Inl (BusinessRuleError ''OPTION_MARKET_PRICE_UNAVAILABLE'')
      | Some p \<Rightarrow> if p \<le> 0 then Inl (BusinessRuleError ''OPTION_MARKET_PRICE_UNAVAILABLE'')
                  else Inr p)"

definition get_margin_prices ::
  "(string \<times> string \<Rightarrow> decimal option) \<Rightarrow> instrument \<Rightarrow> instrument \<Rightarrow> decimal
   \<Rightarrow> option_margin_prices result" where
  "get_margin_prices stored option_instrument underlying_instrument order_limit_price =
     rbind (last_price_of stored option_instrument) (\<lambda>option_latest.
     rbind (last_price_of stored underlying_instrument) (\<lambda>underlying_price.
     Inr \<lparr>op_option_price = max order_limit_price option_latest,
          op_underlying_price = underlying_price\<rparr>))"

section \<open>Lemmas\<close>

lemma round_to_tick_up:
  assumes "0 < tick"
  shows "v \<le> round_to_tick v tick True \<and> round_to_tick v tick True < v + tick"
proof -
  have "v / tick * tick \<le> of_int \<lceil>v / tick\<rceil> * tick"
    by (rule mult_right_mono) (use assms in simp_all)
  moreover have "of_int \<lceil>v / tick\<rceil> < v / tick + 1" by linarith
  then have "of_int \<lceil>v / tick\<rceil> * tick < (v / tick + 1) * tick"
    using assms by (rule mult_strict_right_mono)
  ultimately show ?thesis using assms by (simp add: round_to_tick_def algebra_simps)
qed

lemma round_to_tick_down:
  assumes "0 < tick"
  shows "round_to_tick v tick False \<le> v \<and> v - tick < round_to_tick v tick False"
proof -
  have "of_int \<lfloor>v / tick\<rfloor> * tick \<le> v / tick * tick"
    by (rule mult_right_mono) (use assms in simp_all)
  moreover have "v / tick - 1 < of_int \<lfloor>v / tick\<rfloor>" by linarith
  then have "(v / tick - 1) * tick < of_int \<lfloor>v / tick\<rfloor> * tick"
    using assms by (rule mult_strict_right_mono)
  ultimately show ?thesis using assms by (simp add: round_to_tick_def algebra_simps)
qed

lemma check_quote_Inr:
  "check_quote now day t = Inr u \<Longrightarrow>
     mt_trading_day t = day \<and> mt_event_time t \<le> now + 1000000
     \<and> 0 \<le> mt_bid_volume_1 t \<and> 0 \<le> mt_ask_volume_1 t
     \<and> (\<forall>p. Some p \<in> {mt_bid_price_1 t, mt_ask_price_1 t, mt_last_price t} \<longrightarrow> 0 < p)
     \<and> (\<forall>b a. mt_bid_price_1 t = Some b \<and> mt_ask_price_1 t = Some a \<longrightarrow> b \<le> a)"
  by (auto simp: check_quote_def feed_invalid_def split: if_splits option.splits)

lemma resolve_price_Inr:
  assumes "resolve_price rate now q tick day event = Inr pr" "rq_order_type q \<noteq> LIMIT"
  obtains ev where "event = Some ev" "check_quote now day (lv_tick ev) = Inr ()"
    "quoted_price rate tick (rq_order_type q) (rq_direction q) (lv_tick ev)
       = Inr (pr_resolved_price pr, pr_market_protection_price pr)"
    "rq_order_type q \<in> {COUNTERPARTY, MARKET} \<longrightarrow>
       0 < opposite_volume (rq_direction q) (lv_tick ev)"
    "pr_submitted_limit_price pr = None"
  using assms
  by (auto simp: resolve_price_def rbind_Inr_iff order_price_unavailable_def Let_def
      split: option.splits if_splits)

section \<open>Properties\<close>

text \<open>How far a resolved price may be from the quote it comes from.\<close>

definition price_within ::
  "decimal \<Rightarrow> decimal \<Rightarrow> order_request \<Rightarrow> market_tick \<Rightarrow> decimal \<Rightarrow> bool" where
  "price_within rate tick q t price \<longleftrightarrow>
     (if rq_order_type q = COUNTERPARTY
      then opposite_price (rq_direction q) t = Some price
           \<and> 0 < opposite_volume (rq_direction q) t
      else if rq_order_type q = LAST then mt_last_price t = Some price
      else (\<exists>p. opposite_price (rq_direction q) t = Some p \<and> 0 < p
              \<and> (\<exists>k. price = of_int k * tick)
              \<and> (if rq_direction q = BUY
                 then p * (1 + rate) \<le> price \<and> price < p * (1 + rate) + tick
                 else price \<le> p * (1 - rate) \<and> p * (1 - rate) - tick < price)))"


definition sample_tick :: market_tick where
  "sample_tick =
     \<lparr>mt_source_event_id = ''E1'', mt_source = ''YMM_LIVE_DATA'', mt_order_book_id = ''RB2610'',
      mt_exchange_id = ''SHFE'', mt_symbol = ''RB2610'', mt_trading_day = 1, mt_event_time = 0,
      mt_event_time_zoned = True, mt_last_price = Some 3500, mt_bid_price_1 = Some 3499,
      mt_bid_volume_1 = 10, mt_ask_price_1 = Some 3501, mt_ask_volume_1 = 7\<rparr>"

definition sample_request :: "order_type \<Rightarrow> decimal option \<Rightarrow> order_direction \<Rightarrow> offset_flag \<Rightarrow> order_request"
where
  "sample_request ot limit dir offset =
     \<lparr>rq_client_order_id = ''C9'', rq_account_id = ''A1'', rq_exchange_id = ''SHFE'',
      rq_symbol = ''RB2610'', rq_direction = dir, rq_order_type = ot, rq_limit_price = limit,
      rq_volume = 1, rq_offset_flag = Some offset, rq_cash_type = None\<rparr>"


end
