(* ===== verification/Reference_Rules.thy ===== *)
theory Reference_Rules
  imports Database Products "HOL-Library.Product_Lexorder" "HOL-Library.List_Lexorder"
begin

text \<open>
  The reference data an order is checked against: the scoped queries of
  \<open>fee_rule_item_repository.py\<close> and \<open>option_margin_rule_repository.py\<close>, and
  \<open>app/services/rule_query_service.py\<close>, which puts the rules of one order together.
\<close>

section \<open>Scoped rules\<close>

text \<open>
  The SQL \<open>case\<close> that orders the scopes, and the condition that admits them: a rule of the
  instrument, of its product, or of the whole exchange. A column compared with \<open>None\<close> is an
  \<open>IS NULL\<close> test.
\<close>

definition scope_priority :: "int \<Rightarrow> string option \<Rightarrow> int option \<Rightarrow> string option \<Rightarrow> int" where
  "scope_priority instrument_id product_id rule_instrument rule_product =
     (if rule_instrument = Some instrument_id then 1
      else if rule_instrument = None \<and> rule_product = product_id then 2 else 3)"

definition in_scope :: "int \<Rightarrow> string option \<Rightarrow> int option \<Rightarrow> string option \<Rightarrow> bool" where
  "in_scope instrument_id product_id rule_instrument rule_product \<longleftrightarrow>
     rule_instrument = Some instrument_id
     \<or> (rule_instrument = None \<and> rule_product = product_id)
     \<or> (rule_instrument = None \<and> rule_product = None)"

text \<open>\<open>order_by(priority, id.desc()).limit(1)\<close>.\<close>

definition first_by :: "('r \<Rightarrow> int) \<Rightarrow> ('r \<Rightarrow> int) \<Rightarrow> 'r list \<Rightarrow> 'r option" where
  "first_by prio ident rows =
     (case sort_key (\<lambda>r. (prio r, - ident r)) rows of [] \<Rightarrow> None | r # _ \<Rightarrow> Some r)"

definition fee_item_applies ::
  "int \<Rightarrow> string option \<Rightarrow> string \<Rightarrow> instrument_type \<Rightarrow> order_direction \<Rightarrow> offset_flag \<Rightarrow> date
   \<Rightarrow> fee_rule_item \<Rightarrow> bool" where
  "fee_item_applies instrument_id product_id exchange_id it dir offset trading_day f \<longleftrightarrow>
     fi_exchange_id f = exchange_id \<and> fi_instrument_type f = it \<and> fi_direction f = dir
     \<and> fi_offset_flag f = Some offset \<and> fi_fee_type f = ''DERIVATIVE_COMMISSION''
     \<and> fi_trading_day f = trading_day \<and> fi_is_active f
     \<and> in_scope instrument_id product_id (fi_instrument_id f) (fi_product_id f)"

definition resolve_fee_item ::
  "db \<Rightarrow> int \<Rightarrow> string option \<Rightarrow> string \<Rightarrow> instrument_type \<Rightarrow> order_direction \<Rightarrow> offset_flag \<Rightarrow> date
   \<Rightarrow> fee_rule_item option" where
  "resolve_fee_item d instrument_id product_id exchange_id it dir offset trading_day =
     first_by (\<lambda>f. scope_priority instrument_id product_id (fi_instrument_id f) (fi_product_id f))
       fi_id
       (filter (fee_item_applies instrument_id product_id exchange_id it dir offset trading_day)
          (db_fee_items d))"

definition option_margin_rule_applies ::
  "int \<Rightarrow> string option \<Rightarrow> string \<Rightarrow> instrument_type \<Rightarrow> date \<Rightarrow> option_margin_rule_row \<Rightarrow> bool" where
  "option_margin_rule_applies instrument_id product_id exchange_id it trading_day m \<longleftrightarrow>
     mo_exchange_id m = exchange_id \<and> mo_instrument_type m = it
     \<and> mo_trading_day m = trading_day \<and> mo_is_active m
     \<and> in_scope instrument_id product_id (mo_instrument_id m) (mo_product_id m)"

definition resolve_option_margin_rule ::
  "db \<Rightarrow> int \<Rightarrow> string option \<Rightarrow> string \<Rightarrow> instrument_type \<Rightarrow> date
   \<Rightarrow> option_margin_rule_row option" where
  "resolve_option_margin_rule d instrument_id product_id exchange_id it trading_day =
     first_by (\<lambda>m. scope_priority instrument_id product_id (mo_instrument_id m) (mo_product_id m))
       mo_id
       (filter (option_margin_rule_applies instrument_id product_id exchange_id it trading_day)
          (db_option_margin_rules d))"

text \<open>\<open>resolve_cash_security_components\<close>: the best rule of every fee type, in the order of the types.\<close>

definition cash_fee_applies ::
  "int \<Rightarrow> string option \<Rightarrow> string \<Rightarrow> instrument_type \<Rightarrow> order_direction \<Rightarrow> date \<Rightarrow> fee_rule_item
   \<Rightarrow> bool" where
  "cash_fee_applies instrument_id product_id exchange_id it dir trading_day f \<longleftrightarrow>
     fi_exchange_id f = exchange_id \<and> fi_instrument_type f = it \<and> fi_direction f = dir
     \<and> fi_offset_flag f = None \<and> fi_trading_day f = trading_day \<and> fi_is_active f
     \<and> in_scope instrument_id product_id (fi_instrument_id f) (fi_product_id f)"

fun select_components ::
  "string \<Rightarrow> (fee_rule_item \<Rightarrow> int) \<Rightarrow> fee_rule_item list \<Rightarrow> fee_rule_item list
   \<Rightarrow> fee_rule_item list result" where
  "select_components code prio chosen [] = Inr chosen"
| "select_components code prio chosen (row # rows) =
     (case first_row (\<lambda>c. fi_fee_type c = fi_fee_type row) chosen of
        None \<Rightarrow> select_components code prio (chosen @ [row]) rows
      | Some c \<Rightarrow> if prio c = prio row then Inl (DataAccessError code)
                  else select_components code prio chosen rows)"

text \<open>The key of \<open>order_by(fee_type, priority, id.desc())\<close>; a text is ordered by its codes.\<close>

definition component_key ::
  "int \<Rightarrow> string option \<Rightarrow> fee_rule_item \<Rightarrow> nat list \<times> int \<times> int" where
  "component_key instrument_id product_id f =
     (map of_char (fi_fee_type f),
      scope_priority instrument_id product_id (fi_instrument_id f) (fi_product_id f), - fi_id f)"

definition resolve_cash_security_components ::
  "db \<Rightarrow> int \<Rightarrow> string option \<Rightarrow> string \<Rightarrow> instrument_type \<Rightarrow> order_direction \<Rightarrow> date
   \<Rightarrow> fee_rule_item list result" where
  "resolve_cash_security_components d instrument_id product_id exchange_id it dir trading_day =
     (if it \<notin> cash_security_instrument_types then Inl PyValueError
      else select_components ''CASH_SECURITY_FEE_COMPONENT_AMBIGUOUS''
        (\<lambda>f. scope_priority instrument_id product_id (fi_instrument_id f) (fi_product_id f)) []
        (sort_key (component_key instrument_id product_id)
          (filter (cash_fee_applies instrument_id product_id exchange_id it dir trading_day)
            (db_fee_items d))))"

section \<open>\<open>RuleQueryService\<close>\<close>

record order_rules =
  ru_instrument :: instrument
  ru_margin_rule :: "margin_rule option"
  ru_fee_rule :: "fee_rule option"
  ru_fee_item :: "fee_rule_item option"
  ru_option_margin_rule :: "option_margin_rule_row option"
  ru_underlying :: "instrument option"
  ru_underlying_margin_rule :: "margin_rule option"

definition get_margin_rule :: "db \<Rightarrow> string \<Rightarrow> string \<Rightarrow> margin_rule option" where
  "get_margin_rule d ex code =
     first_row (\<lambda>m. mr_exchange_id m = ex \<and> mr_symbol m = code) (db_margin_rules d)"

definition get_fee_rule :: "db \<Rightarrow> string \<Rightarrow> string \<Rightarrow> fee_rule option" where
  "get_fee_rule d ex code =
     first_row (\<lambda>f. fr_exchange_id f = ex \<and> fr_symbol f = code) (db_fee_rules d)"

definition get_instrument_by_id :: "db \<Rightarrow> int \<Rightarrow> instrument option" where
  "get_instrument_by_id d k = find_row i_id k (db_instruments d)"

definition validate_instrument :: "instrument \<Rightarrow> instrument result" where
  "validate_instrument ins =
     (if \<not> i_is_active ins then Inl (BusinessRuleError ''BUSINESS_RULE_ERROR'')
      else if i_instrument_type ins = INDEX then Inl (BusinessRuleError ''INDEX_NOT_TRADEABLE'')
      else Inr ins)"

definition get_tradable_instrument :: "db \<Rightarrow> string \<Rightarrow> string \<Rightarrow> instrument result" where
  "get_tradable_instrument d exchange_id code =
     rbind (normalize_code code) (\<lambda>order_book_id.
     case get_instrument d order_book_id of
       None \<Rightarrow> Inl (BusinessRuleError ''BUSINESS_RULE_ERROR'')
     | Some ins \<Rightarrow>
         rbind (normalize_code exchange_id) (\<lambda>ex.
         if i_exchange_id ins \<noteq> ex then Inl (BusinessRuleError ''BUSINESS_RULE_ERROR'')
         else validate_instrument ins))"

text \<open>The rules of an option; both option types are the ones the code names.\<close>

definition option_order_rules ::
  "db \<Rightarrow> string \<Rightarrow> date \<Rightarrow> order_direction \<Rightarrow> offset_flag \<Rightarrow> instrument \<Rightarrow> order_rules result" where
  "option_order_rules d exchange_id trading_day dir offset ins =
     (let it = i_instrument_type ins; listed = it \<in> {FUTURES_OPTION, INDEX_OPTION};
          sell_open = (dir = SELL \<and> offset = OPEN);
          fee_item = resolve_fee_item d (i_id ins) (i_product_id ins) exchange_id it dir offset
                       trading_day;
          underlying = (case i_underlying_instrument_id ins of
             None \<Rightarrow> None | Some k \<Rightarrow> get_instrument_by_id d k);
          option_rule = (if sell_open \<and> listed
             then resolve_option_margin_rule d (i_id ins) (i_product_id ins) exchange_id it
                    trading_day
             else None);
          underlying_rule = (case underlying of
             None \<Rightarrow> None
           | Some u \<Rightarrow> if i_instrument_type u = FUTURES
                       then get_margin_rule d (i_exchange_id u) (i_symbol u) else None)
      in if fee_item = None then Inl (BusinessRuleError ''OPTION_FEE_RULE_NOT_FOUND'')
         else if listed \<and> underlying = None
         then Inl (BusinessRuleError ''OPTION_UNDERLYING_NOT_FOUND'')
         else if sell_open \<and> listed \<and> option_rule = None
         then Inl (BusinessRuleError ''OPTION_MARGIN_RULE_NOT_FOUND'')
         else if map_option i_instrument_type underlying = Some FUTURES \<and> sell_open
                 \<and> underlying_rule = None
         then Inl (BusinessRuleError ''UNDERLYING_MARGIN_RULE_NOT_FOUND'')
         else Inr \<lparr>ru_instrument = ins, ru_margin_rule = None, ru_fee_rule = None,
                    ru_fee_item = fee_item, ru_option_margin_rule = option_rule,
                    ru_underlying = underlying, ru_underlying_margin_rule = underlying_rule\<rparr>)"

definition futures_order_rules :: "db \<Rightarrow> string \<Rightarrow> string \<Rightarrow> instrument \<Rightarrow> order_rules result" where
  "futures_order_rules d exchange_id code ins =
     (case get_margin_rule d exchange_id code of
        None \<Rightarrow> Inl (BusinessRuleError ''BUSINESS_RULE_ERROR'')
      | Some margin \<Rightarrow>
        (case get_fee_rule d exchange_id code of
           None \<Rightarrow> Inl (BusinessRuleError ''BUSINESS_RULE_ERROR'')
         | Some fee \<Rightarrow>
             Inr \<lparr>ru_instrument = ins, ru_margin_rule = Some margin, ru_fee_rule = Some fee,
                  ru_fee_item = None, ru_option_margin_rule = None, ru_underlying = None,
                  ru_underlying_margin_rule = None\<rparr>))"

text \<open>The instrument is the one already resolved with the trading day, or is looked up here.\<close>

definition get_order_rules ::
  "db \<Rightarrow> string \<Rightarrow> string \<Rightarrow> date \<Rightarrow> order_direction \<Rightarrow> offset_flag \<Rightarrow> instrument option
   \<Rightarrow> order_rules result" where
  "get_order_rules d exchange_id code trading_day dir offset resolved =
     rbind (normalize_code exchange_id) (\<lambda>ex.
     rbind (normalize_code code) (\<lambda>sy.
     rbind (case resolved of Some ins \<Rightarrow> validate_instrument ins
            | None \<Rightarrow> get_tradable_instrument d ex sy) (\<lambda>ins.
     rbind (resolve_product_strategy (i_instrument_type ins)) (\<lambda>strategy.
     if family strategy = FUTURES_FAMILY then futures_order_rules d ex sy ins
     else if family strategy \<noteq> OPTIONS_FAMILY
     then Inl (BusinessRuleError ''PRODUCT_ORDER_RULES_NOT_IMPLEMENTED'')
     else option_order_rules d ex trading_day dir offset ins))))"

definition get_option_fee_rule ::
  "db \<Rightarrow> instrument \<Rightarrow> order_direction \<Rightarrow> offset_flag \<Rightarrow> date \<Rightarrow> fee_rule_item result" where
  "get_option_fee_rule d ins dir offset trading_day =
     (case resolve_fee_item d (i_id ins) (i_product_id ins) (i_exchange_id ins)
             (i_instrument_type ins) dir offset trading_day of
        None \<Rightarrow> Inl (BusinessRuleError ''OPTION_FEE_RULE_NOT_FOUND'')
      | Some item \<Rightarrow> Inr item)"

section \<open>What a scoped query selects\<close>

lemma first_by_None [simp]: "first_by prio ident rows = None \<longleftrightarrow> rows = []"
proof -
  have "sort_key (\<lambda>r. (prio r, - ident r)) rows = [] \<longleftrightarrow> rows = []"
    by (metis length_0_conv length_sort)
  then show ?thesis by (auto simp: first_by_def split: list.split)
qed

lemma first_by_Some:
  assumes "first_by prio ident rows = Some r"
  shows "r \<in> set rows
    \<and> (\<forall>s \<in> set rows. prio r < prio s \<or> (prio r = prio s \<and> ident s \<le> ident r))"
proof -
  let ?key = "\<lambda>r. (prio r, - ident r)"
  from assms obtain rs where rs: "sort_key ?key rows = r # rs"
    by (auto simp: first_by_def split: list.splits)
  have rows: "set rows = set (r # rs)" by (metis rs set_sort)
  have "sorted (map ?key (r # rs))" by (metis rs sorted_sort_key)
  then have "\<forall>s \<in> set (r # rs). ?key r \<le> ?key s" by auto
  then show ?thesis unfolding rows by (auto simp: less_eq_prod_def)
qed

lemma select_components_Inr:
  assumes "select_components code prio chosen rows = Inr cs"
    and "distinct (map fi_fee_type chosen)"
    and "\<forall>c \<in> set chosen. \<forall>r \<in> set rows. fi_fee_type c = fi_fee_type r \<longrightarrow> prio c \<le> prio r"
    and "sorted_wrt (\<lambda>r s. fi_fee_type r = fi_fee_type s \<longrightarrow> prio r \<le> prio s) rows"
  shows "set chosen \<subseteq> set cs \<and> set cs \<subseteq> set chosen \<union> set rows \<and> distinct (map fi_fee_type cs)
    \<and> fi_fee_type ` set cs = fi_fee_type ` (set chosen \<union> set rows)
    \<and> (\<forall>c \<in> set cs. \<forall>r \<in> set rows. fi_fee_type c = fi_fee_type r \<longrightarrow> c = r \<or> prio c < prio r)"
  using assms
proof (induction rows arbitrary: chosen)
  case Nil
  then show ?case by simp
next
  case (Cons row rows)
  show ?case
  proof (cases "first_row (\<lambda>c. fi_fee_type c = fi_fee_type row) chosen")
    case None
    then have new: "\<forall>c \<in> set chosen. fi_fee_type c \<noteq> fi_fee_type row"
      by (simp add: find_None_iff)
    have run: "select_components code prio (chosen @ [row]) rows = Inr cs"
      using Cons.prems(1) None by simp
    have IH: "set (chosen @ [row]) \<subseteq> set cs \<and> set cs \<subseteq> set (chosen @ [row]) \<union> set rows
        \<and> distinct (map fi_fee_type cs)
        \<and> fi_fee_type ` set cs = fi_fee_type ` (set (chosen @ [row]) \<union> set rows)
        \<and> (\<forall>c \<in> set cs. \<forall>r \<in> set rows. fi_fee_type c = fi_fee_type r \<longrightarrow> c = r \<or> prio c < prio r)"
      by (rule Cons.IH [OF run]) (use Cons.prems new in auto)
    have "c = row" if "c \<in> set cs" "fi_fee_type c = fi_fee_type row" for c
      using IH that by (auto simp: distinct_map dest: inj_onD)
    with IH show ?thesis by auto
  next
    case (Some c)
    then have c: "c \<in> set chosen" "fi_fee_type c = fi_fee_type row"
      by (auto dest: first_row_SomeD)
    from Cons.prems(1) Some have ne: "prio c \<noteq> prio row"
      and run: "select_components code prio chosen rows = Inr cs"
      by (auto split: if_splits)
    have IH: "set chosen \<subseteq> set cs \<and> set cs \<subseteq> set chosen \<union> set rows \<and> distinct (map fi_fee_type cs)
        \<and> fi_fee_type ` set cs = fi_fee_type ` (set chosen \<union> set rows)
        \<and> (\<forall>c \<in> set cs. \<forall>r \<in> set rows. fi_fee_type c = fi_fee_type r \<longrightarrow> c = r \<or> prio c < prio r)"
      by (rule Cons.IH [OF run]) (use Cons.prems in auto)
    have inj: "inj_on fi_fee_type (set cs)" "c \<in> set cs" using IH c(1) by (auto simp: distinct_map)
    have less: "prio c < prio row" using Cons.prems(3) c ne by force
    have "c' = row \<or> prio c' < prio row" if "c' \<in> set cs" "fi_fee_type c' = fi_fee_type row" for c'
    proof -
      have "c' = c" using inj that c(2) by (metis inj_onD)
      with less show ?thesis by simp
    qed
    moreover have "insert (fi_fee_type row) (fi_fee_type ` (set chosen \<union> set rows))
        = fi_fee_type ` (set chosen \<union> set rows)"
      by (rule insert_absorb) (metis c UnI1 imageI)
    ultimately show ?thesis using IH by (simp add: subset_insertI2)
  qed
qed

lemma components_in_order:
  "sorted_wrt (\<lambda>r s. fi_fee_type r = fi_fee_type s \<longrightarrow>
       scope_priority k p (fi_instrument_id r) (fi_product_id r)
         \<le> scope_priority k p (fi_instrument_id s) (fi_product_id s))
     (sort_key (component_key k p) rows)"
proof -
  have "sorted_wrt (\<lambda>r s. component_key k p r \<le> component_key k p s)
      (sort_key (component_key k p) rows)"
    using sorted_sort_key [of "component_key k p" rows] by (simp add: sorted_map)
  then show ?thesis
    by (rule sorted_wrt_mono_rel [rotated])
       (auto simp: component_key_def less_eq_prod_def)
qed

section \<open>Properties\<close>

text \<open>
  A fee rule is found exactly when one applies, and the one found is the most specific: a rule of
  the instrument beats one of its product, that beats one of the exchange, and among equals the
  newest row is taken.
\<close>

theorem fee_rule_is_most_specific:
  "(resolve_fee_item d k p ex it dir offset day = None \<longleftrightarrow>
      filter (fee_item_applies k p ex it dir offset day) (db_fee_items d) = [])
   \<and> (case resolve_fee_item d k p ex it dir offset day of
        None \<Rightarrow> True
      | Some f \<Rightarrow> f \<in> set (db_fee_items d) \<and> fee_item_applies k p ex it dir offset day f
          \<and> list_all (\<lambda>g.
               scope_priority k p (fi_instrument_id f) (fi_product_id f)
                 < scope_priority k p (fi_instrument_id g) (fi_product_id g)
               \<or> (scope_priority k p (fi_instrument_id f) (fi_product_id f)
                    = scope_priority k p (fi_instrument_id g) (fi_product_id g)
                  \<and> fi_id g \<le> fi_id f))
              (filter (fee_item_applies k p ex it dir offset day) (db_fee_items d)))"
  unfolding resolve_fee_item_def
  by (auto split: option.split dest!: first_by_Some simp: list_all_iff)

text \<open>
  The fee components of a cash security order. When the query succeeds, each fee type that has an
  applicable rule is charged exactly once, by an applicable rule that is strictly more specific than
  every other applicable rule of its type: no two rules of one scope are ever chosen between.
\<close>

theorem cash_components_are_unambiguous:
  assumes "resolve_cash_security_components d k p ex it dir day = Inr cs"
  shows "it \<in> cash_security_instrument_types \<and> distinct (map fi_fee_type cs)
    \<and> fi_fee_type ` set cs
        = fi_fee_type ` {f \<in> set (db_fee_items d). cash_fee_applies k p ex it dir day f}
    \<and> set cs \<subseteq> {f \<in> set (db_fee_items d). cash_fee_applies k p ex it dir day f}
    \<and> (\<forall>c \<in> set cs. \<forall>f \<in> set (db_fee_items d).
         cash_fee_applies k p ex it dir day f \<and> fi_fee_type f = fi_fee_type c \<longrightarrow>
         c = f \<or> scope_priority k p (fi_instrument_id c) (fi_product_id c)
                 < scope_priority k p (fi_instrument_id f) (fi_product_id f))"
proof -
  let ?rows = "sort_key (component_key k p)
    (filter (cash_fee_applies k p ex it dir day) (db_fee_items d))"
  let ?prio = "\<lambda>f. scope_priority k p (fi_instrument_id f) (fi_product_id f)"
  have it: "it \<in> cash_security_instrument_types"
    and run: "select_components ''CASH_SECURITY_FEE_COMPONENT_AMBIGUOUS'' ?prio [] ?rows = Inr cs"
    using assms by (auto simp: resolve_cash_security_components_def split: if_splits)
  have "set ([] :: fee_rule_item list) \<subseteq> set cs \<and> set cs \<subseteq> set [] \<union> set ?rows
      \<and> distinct (map fi_fee_type cs)
      \<and> fi_fee_type ` set cs = fi_fee_type ` (set [] \<union> set ?rows)
      \<and> (\<forall>c \<in> set cs. \<forall>r \<in> set ?rows. fi_fee_type c = fi_fee_type r \<longrightarrow> c = r \<or> ?prio c < ?prio r)"
    by (rule select_components_Inr [OF run _ _ components_in_order]) simp_all
  then show ?thesis using it by (auto simp: set_filter)
qed

definition sample_fee_item :: "int \<Rightarrow> int option \<Rightarrow> string \<Rightarrow> fee_rule_item" where
  "sample_fee_item ident scope fee_type =
     \<lparr>fi_id = ident, fi_exchange_id = ''SSE'', fi_product_id = None, fi_instrument_id = scope,
      fi_instrument_type = STOCK, fi_direction = SELL, fi_offset_flag = None,
      fi_fee_type = fee_type, fi_commission_type = BY_AMOUNT,
      fi_commission_parameter = 1 / 1000, fi_minimum_fee = 5, fi_aggregation_scope = ''ORDER'',
      fi_trading_day = 20000, fi_rule_version = ''1'', fi_data_source = ''MANUAL'',
      fi_is_active = True\<rparr>"

definition empty_db :: db where
  "empty_db = \<lparr>db_accounts = [], db_orders = [], db_instruments = [], db_margin_rules = [],
     db_fee_rules = [], db_fee_items = [], db_option_margin_rules = [], db_positions = [],
     db_details = [], db_allocations = [], db_trades = [], db_trade_allocations = [],
     db_outbox = [], db_batches = []\<rparr>"

theorem cash_components_are_unambiguous_witness:
  "\<exists>cs. resolve_cash_security_components
      (empty_db\<lparr>db_fee_items := [sample_fee_item 1 None ''STAMP_DUTY'',
         sample_fee_item 2 (Some 7) ''STAMP_DUTY'']\<rparr>) 7 None ''SSE'' STOCK SELL 20000 = Inr cs
    \<and> distinct (map fi_fee_type cs)"
proof -
  have "resolve_cash_security_components
      (empty_db\<lparr>db_fee_items := [sample_fee_item 1 None ''STAMP_DUTY'',
         sample_fee_item 2 (Some 7) ''STAMP_DUTY'']\<rparr>) 7 None ''SSE'' STOCK SELL 20000
      = Inr [sample_fee_item 2 (Some 7) ''STAMP_DUTY'']"
    by (simp add: resolve_cash_security_components_def cash_security_instrument_types_def
        empty_db_def sample_fee_item_def cash_fee_applies_def in_scope_def component_key_def
        scope_priority_def less_prod_def less_eq_prod_def)
  from cash_components_are_unambiguous [OF this] this show ?thesis by blast
qed

end
