(* ===== verification/Order_Terms.thy ===== *)
theory Order_Terms
  imports Order_Pricing Reference_Rules Option_Margin Fees
begin

text \<open>
  The terms on which \<open>OrderService.create_order\<close> accepts an order, all computed before any row is
  changed: the permission to trade options (\<open>option_trading_permission_service.py\<close>), the resolved
  price with the bootstrap of missing quotes, the fee terms, and the cash and margin an opening order
  freezes. What lies outside the database is a record of the service's constructor arguments.
\<close>

section \<open>The service's dependencies\<close>

record trading_settings =
  cf_option_trading_enabled :: bool
  cf_commodity_option_trading_enabled :: bool
  cf_index_option_buy_trading_enabled :: bool
  cf_index_option_short_trading_enabled :: bool

text \<open>The answer of the temporary subscription store in Redis.\<close>

datatype store_reply = Requested | RedisDown | StoreRefused app_error

text \<open>The two ways the trading day of an order is determined, or neither.\<close>

datatype day_source = DayProvider date | DayService "instrument \<Rightarrow> offset_flag \<Rightarrow> date result"
  | NoDaySource

text \<open>
  \<open>ce_feed\<close> is \<open>get_matching_event\<close> of the live snapshot service, its first argument
  \<open>allow_bootstrap_snapshot\<close>; \<open>ce_snapshot_ready\<close> tells whether the quotes of the codes could be
  fetched and put through the market data service; \<open>ce_stored_price\<close> is the stored last price before
  and after that. The three instants are the calls of \<open>utc_now\<close>.
\<close>

record order_env =
  ce_settings :: trading_settings
  ce_day :: day_source
  ce_max_slippage :: decimal
  ce_feed :: "bool \<Rightarrow> string \<Rightarrow> string \<Rightarrow> string \<Rightarrow> instrument_type \<Rightarrow> live_event option result"
  ce_has_resolver :: bool
  ce_store :: "(string \<Rightarrow> string list \<Rightarrow> store_reply) option"
  ce_snapshot_ready :: "string list \<Rightarrow> bool"
  ce_stored_price :: "(bool \<Rightarrow> string \<times> string \<Rightarrow> decimal option) option"
  ce_quoted_at :: datetime
  ce_calculated_at :: datetime
  ce_accepted_at :: datetime

section \<open>\<open>OptionTradingPermissionService\<close>\<close>

definition is_close_offset :: "offset_flag \<Rightarrow> bool" where
  "is_close_offset offset \<longleftrightarrow> offset \<in> {CLOSE, CLOSE_TODAY, CLOSE_YESTERDAY}"

definition option_permission ::
  "trading_settings \<Rightarrow> account \<Rightarrow> instrument \<Rightarrow> order_direction \<Rightarrow> offset_flag \<Rightarrow> unit result" where
  "option_permission cf a ins dir offset =
     (let it = i_instrument_type ins;
          long_side = ((dir = BUY \<and> offset = OPEN) \<or> (dir = SELL \<and> is_close_offset offset));
          short_side = ((dir = SELL \<and> offset = OPEN) \<or> (dir = BUY \<and> is_close_offset offset))
      in if a_risk_state a \<in> {MARGIN_DEFICIT, VALUATION_UNAVAILABLE} \<and> offset = OPEN
         then Inl (BusinessRuleError ''ACCOUNT_RISK_INCREASE_BLOCKED'')
         else if it = INDEX then Inl (BusinessRuleError ''INDEX_NOT_TRADEABLE'')
         else rbind (resolve_product_strategy it) (\<lambda>product.
           if family product = FUTURES_FAMILY then Inr ()
           else if (case it of UnknownInstrument _ \<Rightarrow> True | _ \<Rightarrow> False) then Inl PyValueError
           else if a_account_type a \<noteq> ''FUTURES''
           then Inl (BusinessRuleError ''OPTION_ACCOUNT_TYPE_UNSUPPORTED'')
           else if \<not> cf_option_trading_enabled cf \<or> \<not> a_option_trading_enabled a
           then Inl (BusinessRuleError ''OPTION_TRADING_NOT_ENABLED'')
           else if it = FUTURES_OPTION then
             (if \<not> cf_commodity_option_trading_enabled cf
              then Inl (BusinessRuleError ''COMMODITY_OPTION_TRADING_NOT_ENABLED'') else Inr ())
           else if long_side \<and> \<not> cf_index_option_buy_trading_enabled cf
           then Inl (BusinessRuleError ''INDEX_OPTION_BUY_TRADING_NOT_ENABLED'')
           else if short_side \<and> \<not> cf_index_option_short_trading_enabled cf
           then Inl (BusinessRuleError ''INDEX_OPTION_SHORT_TRADING_NOT_ENABLED'')
           else Inr ()))"

section \<open>Missing quotes\<close>

definition subscription_codes :: "order_rules \<Rightarrow> string list" where
  "subscription_codes rules =
     i_order_book_id (ru_instrument rules)
     # (case ru_underlying rules of
          Some u \<Rightarrow> if i_instrument_type (ru_instrument rules) \<in> {FUTURES_OPTION, INDEX_OPTION}
                    then [i_order_book_id u] else []
        | None \<Rightarrow> [])"

text \<open>\<open>_request_order_market_data\<close>: the codes that were registered.\<close>

definition request_order_market_data ::
  "order_env \<Rightarrow> order_request \<Rightarrow> offset_flag \<Rightarrow> order_rules \<Rightarrow> account \<Rightarrow> string list result" where
  "request_order_market_data env q offset rules a =
     (case ce_store env of
        None \<Rightarrow> Inl order_price_unavailable
      | Some store \<Rightarrow>
        rbind (if i_instrument_type (ru_instrument rules) \<in> {FUTURES_OPTION, INDEX_OPTION}
               then option_permission (ce_settings env) a (ru_instrument rules) (rq_direction q) offset
               else Inr ()) (\<lambda>_.
        case store (rq_account_id q) (subscription_codes rules) of
          Requested \<Rightarrow> Inr (subscription_codes rules)
        | RedisDown \<Rightarrow> Inl (ServiceUnavailableError ''MARKET_PRE_SUBSCRIPTION_UNAVAILABLE'')
        | StoreRefused e \<Rightarrow> Inl e))"

definition bootstrap_order_market_data ::
  "order_env \<Rightarrow> order_request \<Rightarrow> offset_flag \<Rightarrow> order_rules \<Rightarrow> account \<Rightarrow> bool result" where
  "bootstrap_order_market_data env q offset rules a =
     rbind (request_order_market_data env q offset rules a)
       (\<lambda>codes. Inr (ce_snapshot_ready env codes))"

definition market_data_preparing :: app_error where
  "market_data_preparing = ServiceUnavailableError ''ORDER_MARKET_DATA_PREPARING''"

text \<open>One attempt to price an order from the live quote.\<close>

definition price_attempt ::
  "order_env \<Rightarrow> bool \<Rightarrow> order_request \<Rightarrow> instrument \<Rightarrow> date \<Rightarrow> resolved_order_price result" where
  "price_attempt env bootstrap q ins trading_day =
     rbind (ce_feed env bootstrap (rq_exchange_id q) (i_order_book_id ins)
              (if i_symbol ins = [] then rq_symbol q else i_symbol ins) (i_instrument_type ins))
       (\<lambda>event. resolve_price (ce_max_slippage env) (ce_quoted_at env) q (i_price_tick ins)
                  trading_day event)"

definition price_order ::
  "order_env \<Rightarrow> order_request \<Rightarrow> offset_flag \<Rightarrow> order_rules \<Rightarrow> account \<Rightarrow> date
   \<Rightarrow> resolved_order_price result" where
  "price_order env q offset rules a trading_day =
     (let ins = ru_instrument rules
      in if rq_order_type q = LIMIT
         then (case rq_limit_price q of
                 None \<Rightarrow> Inl PyAssertionError | Some p \<Rightarrow> Inr (limit_price_only p))
         else if \<not> ce_has_resolver env then Inl PyRuntimeError
         else case price_attempt env False q ins trading_day of
           Inr pricing \<Rightarrow> Inr pricing
         | Inl e \<Rightarrow>
           if e \<noteq> order_price_unavailable then Inl e
           else rbind (bootstrap_order_market_data env q offset rules a) (\<lambda>ready.
             if \<not> ready then Inl market_data_preparing
             else case price_attempt env True q ins trading_day of
               Inr pricing \<Rightarrow> Inr pricing
             | Inl e' \<Rightarrow> if e' \<noteq> order_price_unavailable then Inl e'
                         else Inl market_data_preparing))"

text \<open>\<open>_get_option_margin_prices\<close>: with one retry after the quotes were fetched.\<close>

definition context_incomplete :: app_error where
  "context_incomplete = DataAccessError ''OPTION_MARGIN_CONTEXT_INCOMPLETE''"

definition option_price_unavailable :: app_error where
  "option_price_unavailable = BusinessRuleError ''OPTION_MARKET_PRICE_UNAVAILABLE''"

definition option_margin_prices_for ::
  "order_env \<Rightarrow> order_request \<Rightarrow> offset_flag \<Rightarrow> order_rules \<Rightarrow> account \<Rightarrow> decimal
   \<Rightarrow> option_margin_prices result" where
  "option_margin_prices_for env q offset rules a order_price =
     (case (ce_stored_price env, ru_underlying rules) of
        (Some stored, Some underlying) \<Rightarrow>
          (let ins = ru_instrument rules
           in case get_margin_prices (stored False) ins underlying order_price of
             Inr prices \<Rightarrow> Inr prices
           | Inl e \<Rightarrow>
             if e \<noteq> option_price_unavailable \<or> ce_store env = None then Inl e
             else rbind (bootstrap_order_market_data env q offset rules a) (\<lambda>ready.
               let preparing = Inl (ServiceUnavailableError ''OPTION_MARKET_DATA_PREPARING'')
               in if \<not> ready then preparing
                  else case get_margin_prices (stored True) ins underlying order_price of
                    Inr prices \<Rightarrow> Inr prices
                  | Inl e' \<Rightarrow> if e' \<noteq> option_price_unavailable then Inl e' else preparing))
      | _ \<Rightarrow> Inl context_incomplete)"

section \<open>Fee terms\<close>

record fee_terms =
  ft_is_option :: bool
  ft_commission_type :: commission_type
  ft_commission_parameter :: decimal
  ft_multiplier :: decimal
  ft_rule_id :: "int option"
  ft_rule_version :: "string option"
  ft_rule_snapshot :: rule_snapshot

fun commission_type_value :: "commission_type \<Rightarrow> string" where
  "commission_type_value BY_VOLUME = ''BY_VOLUME''"
| "commission_type_value BY_AMOUNT = ''BY_AMOUNT''"
| "commission_type_value (UnknownCommission s) = s"

definition fee_item_snapshot ::
  "fee_rule_item \<Rightarrow> instrument_type \<Rightarrow> order_direction \<Rightarrow> offset_flag \<Rightarrow> payload" where
  "fee_item_snapshot f it dir offset =
     [(''rule_id'', JInt (fi_id f)), (''rule_version'', JString (fi_rule_version f)),
      (''instrument_type'', JString (instrument_type_value it)),
      (''direction'', JString (direction_value dir)),
      (''offset_flag'', JString (offset_value offset)),
      (''commission_type'', JString (commission_type_value (fi_commission_type f))),
      (''commission_parameter'', JDecimal (fi_commission_parameter f)),
      (''data_source'', JString (fi_data_source f))]"

text \<open>\<open>Decimal(column)\<close> of a column that may be NULL.\<close>

definition decimal_of :: "decimal option \<Rightarrow> decimal result" where
  "decimal_of v = (case v of None \<Rightarrow> Inl PyTypeError | Some x \<Rightarrow> Inr x)"

definition option_fee_terms ::
  "order_rules \<Rightarrow> order_direction \<Rightarrow> offset_flag \<Rightarrow> fee_terms result" where
  "option_fee_terms rules dir offset =
     (case ru_fee_item rules of
        None \<Rightarrow> Inl (DataAccessError ''OPTION_FEE_RULE_INCONSISTENT'')
      | Some f \<Rightarrow>
        if \<not> known_commission_type (fi_commission_type f) then Inl PyValueError
        else rbind (decimal_of (i_contract_multiplier (ru_instrument rules))) (\<lambda>m.
          Inr \<lparr>ft_is_option = True, ft_commission_type = fi_commission_type f,
               ft_commission_parameter = fi_commission_parameter f, ft_multiplier = m,
               ft_rule_id = Some (fi_id f), ft_rule_version = Some (fi_rule_version f),
               ft_rule_snapshot = Some (fee_item_snapshot f
                 (i_instrument_type (ru_instrument rules)) dir offset)\<rparr>))"

definition futures_fee_terms :: "order_rules \<Rightarrow> offset_flag \<Rightarrow> fee_terms result" where
  "futures_fee_terms rules offset =
     (case (ru_fee_rule rules, ru_margin_rule rules) of
        (Some f, Some _) \<Rightarrow>
          if \<not> known_commission_type (fr_commission_type f) then Inl PyValueError
          else rbind (resolve_commission_parameter offset f) (\<lambda>parameter.
            rbind (decimal_of (i_contract_multiplier (ru_instrument rules))) (\<lambda>m.
            Inr \<lparr>ft_is_option = False, ft_commission_type = fr_commission_type f,
                 ft_commission_parameter = parameter, ft_multiplier = m, ft_rule_id = None,
                 ft_rule_version = None, ft_rule_snapshot = None\<rparr>))
      | _ \<Rightarrow> Inl (DataAccessError ''FUTURES_RULE_INCONSISTENT''))"

definition order_fee_terms ::
  "order_rules \<Rightarrow> order_direction \<Rightarrow> offset_flag \<Rightarrow> fee_terms result" where
  "order_fee_terms rules dir offset =
     rbind (resolve_product_strategy (i_instrument_type (ru_instrument rules))) (\<lambda>product.
       if family product = OPTIONS_FAMILY then option_fee_terms rules dir offset
       else if family product = FUTURES_FAMILY then futures_fee_terms rules offset
       else Inl (BusinessRuleError ''PRODUCT_ORDER_RESOURCE_NOT_IMPLEMENTED''))"

section \<open>What an order freezes\<close>

record frozen_terms =
  fz_margin :: decimal
  fz_cash :: decimal
  fz_commission :: decimal
  fz_margin_result :: "option_margin_result option"
  fz_margin_snapshot :: rule_snapshot

definition rule_snapshot_of :: "option_margin_rule_row \<Rightarrow> option_margin_rule" where
  "rule_snapshot_of m =
     \<lparr>mrs_rule_id = mo_id m, mrs_rule_version = mo_rule_version m,
      mrs_margin_algorithm = mo_margin_algorithm m,
      mrs_margin_adjustment_rate = mo_margin_adjustment_rate m,
      mrs_minimum_guarantee_rate = mo_minimum_guarantee_rate m,
      mrs_out_of_money_deduction_rate = mo_out_of_money_deduction_rate m,
      mrs_minimum_underlying_margin_ratio = mo_minimum_underlying_margin_ratio m,
      mrs_extra_margin_rate = mo_extra_margin_rate m\<rparr>"

text \<open>
  The underlying's multiplier, margin rate and margin per lot: of a futures underlying, or the
  placeholders of an index.
\<close>

definition underlying_margin ::
  "instrument_type \<Rightarrow> instrument \<Rightarrow> margin_rule option \<Rightarrow> decimal
   \<Rightarrow> (decimal \<times> decimal \<times> decimal) result" where
  "underlying_margin it underlying rule underlying_price =
     (if it \<noteq> FUTURES_OPTION then Inr (1, 0, 0)
      else case rule of
        None \<Rightarrow> Inl context_incomplete
      | Some m \<Rightarrow>
        rbind (decimal_of (i_contract_multiplier underlying)) (\<lambda>multiplier.
        rbind (decimal_of (mr_long_margin_rate m)) (\<lambda>long_rate.
        rbind (decimal_of (mr_short_margin_rate m)) (\<lambda>short_rate.
        let rate = max long_rate short_rate
        in Inr (multiplier, rate, quantize_money (underlying_price * multiplier * rate))))))"

definition seller_margin_input ::
  "order_env \<Rightarrow> instrument \<Rightarrow> int \<Rightarrow> option_margin_prices \<Rightarrow> decimal \<Rightarrow> decimal \<Rightarrow> decimal
   \<Rightarrow> option_margin_rule \<Rightarrow> option_margin_input result" where
  "seller_margin_input env ins volume prices multiplier underlying_multiplier per_lot rule =
     (case i_option_type ins of
        None \<Rightarrow> Inl PyValueError
      | Some ot \<Rightarrow>
        rbind (decimal_of (i_strike_price ins)) (\<lambda>strike.
        Inr \<lparr>om_option_type = ot, om_strike_price = strike,
             om_option_price = op_option_price prices,
             om_underlying_price = op_underlying_price prices,
             om_option_multiplier = multiplier, om_underlying_multiplier = underlying_multiplier,
             om_volume = volume, om_price_mode = ORDER_FREEZE,
             om_calculated_at = ce_calculated_at env, om_rule = rule,
             om_underlying_margin_per_lot = per_lot\<rparr>))"

text \<open>The margin of an option sell-open order with the snapshot that replays it.\<close>

definition option_seller_margin ::
  "order_env \<Rightarrow> order_request \<Rightarrow> offset_flag \<Rightarrow> order_rules \<Rightarrow> account \<Rightarrow> fee_terms \<Rightarrow> decimal
   \<Rightarrow> (option_margin_result \<times> payload) result" where
  "option_seller_margin env q offset rules a ft price =
     (case (ru_option_margin_rule rules, ru_underlying rules) of
        (Some row, Some underlying) \<Rightarrow>
          (let ins = ru_instrument rules; it = i_instrument_type ins; rule = rule_snapshot_of row
           in if it = FUTURES_OPTION \<and> ru_underlying_margin_rule rules = None
              then Inl context_incomplete
              else rbind (option_margin_prices_for env q offset rules a price) (\<lambda>prices.
                rbind (underlying_margin it underlying (ru_underlying_margin_rule rules)
                         (op_underlying_price prices)) (\<lambda>(multiplier, rate, per_lot).
                rbind (resolve_option_margin it (i_exchange_id ins) (mo_margin_algorithm row))
                  (\<lambda>calculator.
                rbind (seller_margin_input env ins (rq_volume q) prices (ft_multiplier ft)
                         multiplier per_lot rule) (\<lambda>input.
                rbind (calculator input) (\<lambda>res.
                Inr (res, option_rule_to_json_mapping rule
                  @ (if it = FUTURES_OPTION
                     then [(''underlying_margin_rate'', JDecimal rate),
                           (''underlying_multiplier'', JDecimal multiplier)] else []))))))))
      | _ \<Rightarrow> Inl context_incomplete)"

definition futures_open_margin ::
  "order_request \<Rightarrow> order_rules \<Rightarrow> decimal \<Rightarrow> decimal result" where
  "futures_open_margin q rules price =
     (case ru_margin_rule rules of
        None \<Rightarrow> Inl PyTypeError
      | Some rule \<Rightarrow>
          calculate_open_margin price (rq_volume q) (rq_direction q) (ru_instrument rules) rule)"

text \<open>
  The amounts frozen before the account is locked; the commission of a closing order is determined
  later, from its freeze allocations.
\<close>

definition frozen_terms_of ::
  "order_env \<Rightarrow> order_request \<Rightarrow> offset_flag \<Rightarrow> order_rules \<Rightarrow> account \<Rightarrow> fee_terms \<Rightarrow> decimal
   \<Rightarrow> frozen_terms result" where
  "frozen_terms_of env q offset rules a ft price =
     (let is_open = (offset = OPEN); is_opt = ft_is_option ft
      in rbind (if is_open \<and> \<not> is_opt then futures_open_margin q rules price else Inr 0) (\<lambda>margin.
         rbind (if is_opt \<and> rq_direction q = BUY
                then option_premium price (rq_volume q) (ft_multiplier ft) else Inr 0) (\<lambda>cash.
         rbind (if is_opt \<and> rq_direction q = SELL \<and> is_open
                then rbind (option_seller_margin env q offset rules a ft price)
                       (\<lambda>(res, snapshot). Inr (Some res, Some snapshot))
                else Inr (None, None)) (\<lambda>(res, snapshot).
         rbind (if is_open
                then fee_from_snapshot price (rq_volume q) (Some (ft_commission_type ft))
                       (Some (ft_commission_parameter ft)) (Some (ft_multiplier ft))
                else Inr 0) (\<lambda>commission.
         Inr \<lparr>fz_margin = (case res of None \<Rightarrow> margin | Some r \<Rightarrow> or_total_margin r),
              fz_cash = cash, fz_commission = commission, fz_margin_result = res,
              fz_margin_snapshot = snapshot\<rparr>)))))"

end
