(* ===== verification/Order_Creation.thy ===== *)
theory Order_Creation
  imports Order_Terms Order_Cancellation
begin

text \<open>
  \<open>OrderService.create_order\<close>: one transaction that authorises the account, answers a repeated client
  order id with the order it made, prepares the terms of the order, and under the account lock freezes
  cash, margin, commission and positions and writes the order with its events. The unique constraints
  are the freshness of the drawn ids; the one check constraint that the code does not establish
  itself, the volume balance of the position, fails at the flush and is reported as a conflict.
\<close>

section \<open>Who places the order\<close>

record order_placement =
  pl_source :: string
  pl_task_id :: "string option"
  pl_reduce_only :: bool

definition user_placement :: order_placement where
  "user_placement = \<lparr>pl_source = ''USER'', pl_task_id = None, pl_reduce_only = False\<rparr>"

definition check_placement :: "order_placement \<Rightarrow> order_request \<Rightarrow> unit result" where
  "check_placement pl q =
     (if pl_source pl = ''LIQUIDATION'' then
        (if pl_task_id pl = None \<or> pl_task_id pl = Some [] \<or> \<not> pl_reduce_only pl
         then Inl PyValueError
         else if rq_offset_flag q = Some OPEN then Inl PyValueError else Inr ())
      else if pl_task_id pl \<noteq> None \<or> pl_reduce_only pl then Inl PyValueError
      else Inr ())"

definition missing_account :: "access_scope \<Rightarrow> app_error" where
  "missing_account scope =
     (if sc_conceal scope then ResourceNotFoundError ''RESOURCE_NOT_FOUND''
      else ResourceNotFoundError ''ACCOUNT_NOT_FOUND'')"

definition get_client_order :: "db \<Rightarrow> string \<Rightarrow> string \<Rightarrow> order option" where
  "get_client_order d aid cid =
     first_row (\<lambda>r. o_account_id r = aid \<and> o_client_order_id r = cid) (db_orders d)"

definition scoped_client_order :: "db \<Rightarrow> access_scope \<Rightarrow> string \<Rightarrow> string \<Rightarrow> order option" where
  "scoped_client_order d scope aid cid =
     (if sc_is_admin scope then get_client_order d aid cid
      else case sc_user_id scope of
        None \<Rightarrow> None
      | Some uid \<Rightarrow>
          first_row (\<lambda>r. o_account_id r = aid \<and> o_client_order_id r = cid
            \<and> (\<exists>a \<in> set (db_accounts d). a_account_id a = o_account_id r \<and> a_user_id a = uid))
            (db_orders d))"

section \<open>Everything that is computed before the account is locked\<close>

record order_plan =
  pn_request :: order_request
  pn_offset :: offset_flag
  pn_rules :: order_rules
  pn_pricing :: resolved_order_price
  pn_fees :: fee_terms
  pn_frozen :: frozen_terms
  pn_trading_day :: date

definition order_trading_day ::
  "db \<Rightarrow> order_env \<Rightarrow> order_request \<Rightarrow> offset_flag \<Rightarrow> (date \<times> instrument option) result" where
  "order_trading_day d env q offset =
     (case ce_day env of
        DayProvider day \<Rightarrow> Inr (day, None)
      | NoDaySource \<Rightarrow> Inl PyRuntimeError
      | DayService day_of \<Rightarrow>
          rbind (get_tradable_instrument d (rq_exchange_id q) (rq_symbol q)) (\<lambda>ins.
          rbind (day_of ins offset) (\<lambda>day. Inr (day, Some ins))))"

definition prepare_order ::
  "db \<Rightarrow> order_env \<Rightarrow> order_request \<Rightarrow> offset_flag \<Rightarrow> account \<Rightarrow> order_plan result" where
  "prepare_order d env q offset a =
     rbind (order_trading_day d env q offset) (\<lambda>(day, resolved).
     rbind (ensure_trading_open (db_batches d) (Some day)) (\<lambda>_.
     rbind (get_order_rules d (rq_exchange_id q) (rq_symbol q) day (rq_direction q) offset resolved)
       (\<lambda>rules.
     rbind (price_order env q offset rules a day) (\<lambda>pricing.
     let price = pr_resolved_price pricing
     in rbind (validate_order q (Some (ru_instrument rules)) (Some price)) (\<lambda>_.
        rbind (order_fee_terms rules (rq_direction q) offset) (\<lambda>ft.
        rbind (frozen_terms_of env q offset rules a ft price) (\<lambda>fz.
        Inr \<lparr>pn_request = q, pn_offset = offset, pn_rules = rules, pn_pricing = pricing,
             pn_fees = ft, pn_frozen = fz, pn_trading_day = day\<rparr>)))))))"

section \<open>The checks under the lock\<close>

definition bind_trading_day :: "date \<Rightarrow> account \<Rightarrow> account result" where
  "bind_trading_day day a =
     (case a_trading_day a of
        None \<Rightarrow> Inr (a\<lparr>a_trading_day := Some day\<rparr>)
      | Some t \<Rightarrow> if t \<noteq> day then Inl (BusinessRuleError ''ACCOUNT_TRADING_DAY_MISMATCH'')
                  else Inr a)"

definition admit_account :: "order_env \<Rightarrow> order_plan \<Rightarrow> account \<Rightarrow> account result" where
  "admit_account env pn a =
     rbind (validate_account_tradable (Some a)) (\<lambda>_.
     rbind (bind_trading_day (pn_trading_day pn) a) (\<lambda>a1.
     rbind (if pn_offset pn = OPEN then ensure_open_allowed (a_risk_state a1) else Inr ()) (\<lambda>_.
     rbind (option_permission (ce_settings env) a1 (ru_instrument (pn_rules pn))
              (rq_direction (pn_request pn)) (pn_offset pn)) (\<lambda>_.
     Inr a1))))"

section \<open>Freezing\<close>

definition freeze_opening :: "order_plan \<Rightarrow> account \<Rightarrow> account result" where
  "freeze_opening pn a =
     (let fz = pn_frozen pn
      in if ft_is_option (pn_fees pn)
         then freeze_option_resources (Some a) (fz_cash fz) (fz_margin fz) (fz_commission fz)
         else freeze_open_order (Some a) (fz_margin fz) (fz_commission fz))"

definition list_available_details :: "db \<Rightarrow> string \<Rightarrow> detail list" where
  "list_available_details d pid =
     filter (\<lambda>x. d_position_id x = pid \<and> 0 < d_remaining_volume x - d_frozen_volume x) (db_details d)"

text \<open>The commission type and parameter of one freeze allocation.\<close>

definition allocation_fee ::
  "db \<Rightarrow> order_plan \<Rightarrow> position_freeze_plan \<Rightarrow> (commission_type \<times> decimal) result" where
  "allocation_fee d pn fp =
     (if ft_is_option (pn_fees pn)
      then rbind (get_option_fee_rule d (ru_instrument (pn_rules pn)) (rq_direction (pn_request pn))
                    (fp_resolved_offset_flag fp) (pn_trading_day pn)) (\<lambda>f.
        if known_commission_type (fi_commission_type f)
        then Inr (fi_commission_type f, fi_commission_parameter f) else Inl PyValueError)
      else (case ru_fee_rule (pn_rules pn) of
        None \<Rightarrow> Inl PyTypeError
      | Some rule \<Rightarrow>
          rbind (resolve_commission_parameter (fp_resolved_offset_flag fp) rule)
            (\<lambda>parameter. Inr (ft_commission_type (pn_fees pn), parameter))))"

definition allocation_entry ::
  "order_plan \<Rightarrow> position_freeze_plan \<Rightarrow> commission_type \<times> decimal \<Rightarrow> fee_bucket_entry" where
  "allocation_entry pn fp fee =
     \<lparr>be_key = \<lparr>bk_resolved_offset_flag = fp_resolved_offset_flag fp,
                bk_commission_type = fst fee, bk_commission_parameter = snd fee,
                bk_commission_contract_multiplier = ft_multiplier (pn_fees pn)\<rparr>,
      be_volume = fp_volume fp\<rparr>"

definition new_allocation ::
  "datetime \<Rightarrow> string \<Rightarrow> string \<Rightarrow> order_plan \<Rightarrow> position \<Rightarrow> position_freeze_plan
   \<Rightarrow> commission_type \<times> decimal \<Rightarrow> decimal \<Rightarrow> freeze_allocation" where
  "new_allocation now allocation_id order_id pn p fp fee commission =
     \<lparr>f_allocation_id = allocation_id, f_order_id = order_id, f_position_id = p_position_id p,
      f_position_detail_id = d_position_detail_id (fp_detail fp),
      f_account_id = rq_account_id (pn_request pn),
      f_exchange_id = i_exchange_id (ru_instrument (pn_rules pn)),
      f_symbol = i_symbol (ru_instrument (pn_rules pn)), f_offset_flag = pn_offset pn,
      f_resolved_offset_flag = fp_resolved_offset_flag fp, f_commission_type = fst fee,
      f_commission_parameter = snd fee,
      f_commission_contract_multiplier = ft_multiplier (pn_fees pn),
      f_original_frozen_volume = fp_volume fp, f_remaining_frozen_volume = fp_volume fp,
      f_consumed_volume = 0, f_released_volume = 0, f_original_frozen_commission = commission,
      f_remaining_frozen_commission = commission, f_consumed_commission = 0,
      f_released_commission = 0, f_status = ACTIVE, f_created_at = now, f_updated_at = now\<rparr>"

definition frozen_detail :: "datetime \<Rightarrow> position_freeze_plan \<Rightarrow> detail" where
  "frozen_detail now fp =
     (fp_detail fp)\<lparr>d_frozen_volume := d_frozen_volume (fp_detail fp) + fp_volume fp,
                   d_updated_at := now\<rparr>"

definition frozen_position :: "datetime \<Rightarrow> int \<Rightarrow> position \<Rightarrow> position" where
  "frozen_position now volume p =
     (let frozen = p_frozen_volume p + volume
      in p\<lparr>p_frozen_volume := frozen,
           p_available_volume := p_total_volume p - frozen - p_settlement_locked_volume p,
           p_updated_at := now\<rparr>)"

record create_ids =
  ki_order_id :: string
  ki_order_event :: string
  ki_account_fact :: string
  ki_position_fact :: string
  ki_allocation :: "nat \<Rightarrow> string"

text \<open>What a closing order freezes: its rows and its commission.\<close>

record close_freeze =
  cz_account :: account
  cz_position :: position
  cz_details :: "detail list"
  cz_allocations :: "freeze_allocation list"
  cz_commission :: decimal

definition close_allocations ::
  "datetime \<Rightarrow> create_ids \<Rightarrow> order_plan \<Rightarrow> position
   \<Rightarrow> (position_freeze_plan \<times> (commission_type \<times> decimal) \<times> decimal) list
   \<Rightarrow> freeze_allocation list" where
  "close_allocations now ids pn p snapshots =
     map (\<lambda>(k, fp, fee, commission).
            new_allocation now (ki_allocation ids k) (ki_order_id ids) pn p fp fee commission)
       (enumerate 0 snapshots)"

definition freeze_closing ::
  "db \<Rightarrow> datetime \<Rightarrow> create_ids \<Rightarrow> order_plan \<Rightarrow> account \<Rightarrow> close_freeze result" where
  "freeze_closing d now ids pn a =
     (let q = pn_request pn; ins = ru_instrument (pn_rules pn)
      in case get_position d (rq_account_id q) (i_exchange_id ins) (i_symbol ins)
                (closed_position_direction (rq_direction q)) of
        None \<Rightarrow> Inl (ResourceNotFoundError ''POSITION_NOT_FOUND'')
      | Some p \<Rightarrow>
        rbind (allocate_close (list_available_details d (p_position_id p)) (pn_offset pn)
                 (pn_trading_day pn) (rq_volume q)) (\<lambda>plans.
        rbind (rmap (allocation_fee d pn) plans) (\<lambda>fees.
        rbind (calculate_bucket_allocations (pr_resolved_price (pn_pricing pn))
                 (map2 (allocation_entry pn) plans fees)) (\<lambda>commissions.
        let commission = quantize_money (sum_list commissions)
        in rbind (if ft_is_option (pn_fees pn)
                  then freeze_option_resources (Some a) (fz_cash (pn_frozen pn)) 0 commission
                  else freeze_close_order_commission (Some a) commission) (\<lambda>a'.
           Inr \<lparr>cz_account = a', cz_position = frozen_position now (rq_volume q) p,
                cz_details = map (frozen_detail now) plans,
                cz_allocations =
                  close_allocations now ids pn p (zip plans (zip fees commissions)),
                cz_commission = commission\<rparr>)))))"

section \<open>The order row and its events\<close>

definition accepted_order ::
  "datetime \<Rightarrow> string \<Rightarrow> order_placement \<Rightarrow> order_plan \<Rightarrow> decimal \<Rightarrow> int \<Rightarrow> order" where
  "accepted_order now order_id pl pn commission position_volume =
     (let q = pn_request pn; ins = ru_instrument (pn_rules pn); pr = pn_pricing pn; ft = pn_fees pn;
          fz = pn_frozen pn; res = fz_margin_result fz; price = pr_resolved_price pr;
          u = (if ft_is_option ft then ru_underlying (pn_rules pn) else None)
      in \<lparr>o_order_id = order_id, o_client_order_id = rq_client_order_id q,
          o_account_id = rq_account_id q, o_order_book_id = i_order_book_id ins,
          o_symbol = i_symbol ins, o_exchange_id = i_exchange_id ins,
          o_trading_day = pn_trading_day pn, o_instrument_type = i_instrument_type ins,
          o_underlying_order_book_id = map_option i_order_book_id u,
          o_underlying_exchange_id = map_option i_exchange_id u,
          o_underlying_symbol = map_option i_symbol u, o_direction = rq_direction q,
          o_offset_flag = Some (pn_offset pn), o_order_type = rq_order_type q,
          o_commission_type = Some (ft_commission_type ft),
          o_commission_parameter = Some (ft_commission_parameter ft),
          o_commission_contract_multiplier = Some (ft_multiplier ft),
          o_fee_rule_id = ft_rule_id ft, o_fee_rule_version = ft_rule_version ft,
          o_fee_rule_snapshot = ft_rule_snapshot ft, o_limit_price = price,
          o_submitted_limit_price = pr_submitted_limit_price pr, o_resolved_price = price,
          o_market_protection_price = pr_market_protection_price pr,
          o_price_snapshot_time = pr_snapshot_time pr,
          o_price_snapshot_source = pr_snapshot_source pr,
          o_price_snapshot_event_id = pr_snapshot_event_id pr,
          o_price_snapshot_stream_message_id = pr_snapshot_stream_message_id pr,
          o_price_snapshot_bid1 = pr_bid1 pr, o_price_snapshot_bid_volume1 = pr_bid_volume1 pr,
          o_price_snapshot_ask1 = pr_ask1 pr, o_price_snapshot_ask_volume1 = pr_ask_volume1 pr,
          o_price_snapshot_last = pr_last_price pr, o_total_volume = rq_volume q,
          o_traded_volume = 0, o_remaining_volume = rq_volume q, o_cancelled_volume = 0,
          o_average_price = None, o_status = ACCEPTED, o_submit_status = SUBMIT_ACCEPTED,
          o_frozen_margin = fz_margin fz, o_frozen_cash = fz_cash fz,
          o_frozen_commission = commission, o_frozen_position_volume = position_volume,
          o_margin_rule_id = map_option or_rule_id res,
          o_margin_rule_version = map_option or_rule_version res,
          o_margin_price_mode = map_option or_price_mode res,
          o_margin_underlying_price = map_option or_underlying_price res,
          o_margin_option_price = map_option or_option_price res,
          o_margin_rule_snapshot = fz_margin_snapshot fz,
          o_margin_snapshot_schema_version = map_option (\<lambda>_. ''1'') res,
          o_margin_calculation_version = map_option or_calculation_version res,
          o_margin_risk_state = NORMAL, o_order_source = pl_source pl,
          o_liquidation_task_id = pl_task_id pl, o_reduce_only = pl_reduce_only pl,
          o_reject_code = None, o_reject_message = None, o_cancel_reason_code = None,
          o_cancel_reason_message = None, o_created_at = now, o_accepted_at = Some now,
          o_cancelled_at = None, o_updated_at = now\<rparr>)"

definition json_text :: "string option \<Rightarrow> json" where
  "json_text v = (case v of None \<Rightarrow> JNull | Some s \<Rightarrow> JString s)"

definition accepted_event_payload :: "string \<Rightarrow> datetime \<Rightarrow> order \<Rightarrow> payload" where
  "accepted_event_payload event_id now r =
     [(''event_id'', JString event_id), (''event_type'', JString ''ORDER_ACCEPTED''),
      (''order_id'', JString (o_order_id r)), (''account_id'', JString (o_account_id r)),
      (''client_order_id'', JString (o_client_order_id r)),
      (''exchange_id'', JString (o_exchange_id r)), (''symbol'', JString (o_symbol r)),
      (''order_book_id'', JString (o_order_book_id r)),
      (''trading_day'', JDate (o_trading_day r)),
      (''direction'', JString (direction_value (o_direction r))),
      (''offset_flag'', json_offset (o_offset_flag r)),
      (''order_type'', JString (order_type_value (o_order_type r))),
      (''limit_price'', JDecimal (o_resolved_price r)),
      (''submitted_limit_price'', json_decimal (o_submitted_limit_price r)),
      (''resolved_price'', JDecimal (o_resolved_price r)),
      (''market_protection_price'', json_decimal (o_market_protection_price r)),
      (''price_snapshot_time'', json_time (o_price_snapshot_time r)),
      (''price_snapshot_source'', json_text (o_price_snapshot_source r)),
      (''price_snapshot_bid1'', json_decimal (o_price_snapshot_bid1 r)),
      (''price_snapshot_ask1'', json_decimal (o_price_snapshot_ask1 r)),
      (''price_snapshot_last'', json_decimal (o_price_snapshot_last r)),
      (''total_volume'', JInt (o_total_volume r)),
      (''remaining_volume'', JInt (o_total_volume r)),
      (''frozen_margin'', JDecimal (o_frozen_margin r)),
      (''frozen_cash'', JDecimal (o_frozen_cash r)),
      (''frozen_commission'', JDecimal (o_frozen_commission r)),
      (''frozen_position_volume'', JInt (o_frozen_position_volume r)),
      (''order_source'', JString (o_order_source r)),
      (''liquidation_task_id'', json_text (o_liquidation_task_id r)),
      (''reduce_only'', JBool (o_reduce_only r)), (''accepted_at'', JTime now)]"

definition create_events ::
  "create_ids \<Rightarrow> datetime \<Rightarrow> order \<Rightarrow> account \<Rightarrow> position option \<Rightarrow> outbox_event list" where
  "create_events ids now r a p =
     [create_event (ki_order_event ids) ''ORDER'' (o_order_id r) ''ORDER_ACCEPTED''
        (accepted_event_payload (ki_order_event ids) now r) now,
      create_account_updated (ki_account_fact ids) a now (Some (o_account_id r)) None None False]
     @ (case p of None \<Rightarrow> []
        | Some p \<Rightarrow> [create_position_updated (ki_position_fact ids) p now None])"

section \<open>\<open>OrderService.create_order\<close>\<close>

text \<open>What freezing changed: the account, the commission and the rows of a closing order.\<close>

record order_freeze =
  oz_account :: account
  oz_commission :: decimal
  oz_closing :: "(position \<times> detail list \<times> freeze_allocation list) option"

definition freeze_order ::
  "db \<Rightarrow> datetime \<Rightarrow> create_ids \<Rightarrow> order_plan \<Rightarrow> account \<Rightarrow> order_freeze result" where
  "freeze_order d now ids pn a =
     (if pn_offset pn = OPEN
      then rbind (freeze_opening pn a) (\<lambda>a'.
        Inr \<lparr>oz_account = a', oz_commission = fz_commission (pn_frozen pn), oz_closing = None\<rparr>)
      else rbind (freeze_closing d now ids pn a) (\<lambda>cz.
        Inr \<lparr>oz_account = cz_account cz, oz_commission = cz_commission cz,
             oz_closing = Some (cz_position cz, cz_details cz, cz_allocations cz)\<rparr>))"

definition add_order :: "order \<Rightarrow> db \<Rightarrow> db" where
  "add_order r d = d\<lparr>db_orders := db_orders d @ [r]\<rparr>"

definition add_allocations :: "freeze_allocation list \<Rightarrow> db \<Rightarrow> db" where
  "add_allocations fs d = d\<lparr>db_allocations := db_allocations d @ fs\<rparr>"

definition write_creation ::
  "create_ids \<Rightarrow> datetime \<Rightarrow> order \<Rightarrow> account
   \<Rightarrow> (position \<times> detail list \<times> freeze_allocation list) option \<Rightarrow> db \<Rightarrow> db" where
  "write_creation ids now r a closing d =
     add_events (create_events ids now r a (map_option fst closing))
       (add_order r (put_account a
          (case closing of None \<Rightarrow> d
           | Some (p, details, allocations) \<Rightarrow>
               put_position p (put_details details (add_allocations allocations d)))))"

text \<open>The flush rejects a position that violates its volume constraint.\<close>

definition place_order ::
  "db \<Rightarrow> order_env \<Rightarrow> create_ids \<Rightarrow> order_placement \<Rightarrow> order_plan \<Rightarrow> account
   \<Rightarrow> (db \<times> order) result" where
  "place_order d env ids pl pn a =
     (let now = ce_accepted_at env
      in rbind (freeze_order d now ids pn a) (\<lambda>fo.
         let a' = (oz_account fo)\<lparr>a_updated_at := now\<rparr>;
             r = accepted_order now (ki_order_id ids) pl pn (oz_commission fo)
                   (if pn_offset pn = OPEN then 0 else rq_volume (pn_request pn))
         in case oz_closing fo of
              None \<Rightarrow> Inr (write_creation ids now r a' None d, r)
            | Some (p, rows) \<Rightarrow>
                if \<not> position_volumes_ok p then Inl (ResourceConflictError ''ORDER_CONFLICT'')
                else Inr (write_creation ids now r a' (Some (p, rows)) d, r)))"

text \<open>
  The transaction. No other transaction runs between its reads, so the account and the order found
  under the lock are the ones found before it. The request schema always has an offset flag.
\<close>

definition create_order ::
  "db \<Rightarrow> order_env \<Rightarrow> create_ids \<Rightarrow> access_scope option \<Rightarrow> order_placement \<Rightarrow> order_request
   \<Rightarrow> (db \<times> order) result" where
  "create_order d env ids scope pl q =
     (case scope of
        None \<Rightarrow> Inl PyValueError
      | Some sc \<Rightarrow>
        rbind (check_placement pl q) (\<lambda>_.
        case scoped_account d sc (rq_account_id q) of
          None \<Rightarrow> Inl (missing_account sc)
        | Some authorized \<Rightarrow>
          (case scoped_client_order d sc (rq_account_id q) (rq_client_order_id q) of
             Some r \<Rightarrow> rbind (validate_idempotent_order_request r q) (\<lambda>_. Inr (d, r))
           | None \<Rightarrow>
             (case rq_offset_flag q of
                None \<Rightarrow> Inl PyTypeError
              | Some offset \<Rightarrow>
                rbind (prepare_order d env q offset authorized) (\<lambda>pn.
                if a_account_type authorized = ''STOCK''
                then Inl (BusinessRuleError ''DERIVATIVE_ACCOUNT_TYPE_INVALID'')
                else case get_client_order d (rq_account_id q) (rq_client_order_id q) of
                  Some r \<Rightarrow> rbind (validate_idempotent_order_request r q) (\<lambda>_. Inr (d, r))
                | None \<Rightarrow> rbind (admit_account env pn authorized)
                            (\<lambda>a. place_order d env ids pl pn a))))))"

end
