(* ===== verification/Order_Creation_Book.thy ===== *)
theory Order_Creation_Book
  imports Order_Creation Close_Settlement_Book
begin

text \<open>
  Creating an order keeps the book consistent: what the new order freezes is taken from the pools of
  its account, from free volume of the details and is held by its freeze allocations.
\<close>

section \<open>What the terms of an order guarantee\<close>

definition terms_ok :: "offset_flag \<Rightarrow> bool \<Rightarrow> frozen_terms \<Rightarrow> bool" where
  "terms_ok offset is_opt fz \<longleftrightarrow>
     is_money (fz_margin fz) \<and> is_money (fz_cash fz) \<and> is_money (fz_commission fz)
     \<and> (is_opt \<or> fz_cash fz = 0) \<and> (offset = OPEN \<or> fz_margin fz = 0)"

lemma calculator_total_money:
  assumes "resolve_option_margin it ex alg = Inr calc" "calc input = Inr res"
  shows "is_money (or_total_margin res)"
  using assms
  by (auto simp: resolve_option_margin_def commodity_margin_Inr_iff cffex_margin_Inr_iff
      commodity_fields cffex_fields split: if_splits)

lemma option_seller_margin_money:
  assumes "option_seller_margin env q offset rules a ft price = Inr (res, snapshot)"
  shows "is_money (or_total_margin res)"
  using assms
  by (auto simp: option_seller_margin_def Let_def rbind_Inr_iff split: option.splits if_splits
      elim: calculator_total_money)

lemma frozen_terms_ok:
  assumes "frozen_terms_of env q offset rules a ft price = Inr fz"
  shows "terms_ok offset (ft_is_option ft) fz"
  using assms option_seller_margin_money fee_from_snapshot_money
  by (auto simp: frozen_terms_of_def Let_def rbind_Inr_iff terms_ok_def futures_open_margin_def
      calculate_open_margin_def option_premium_def split: option.splits if_splits)

lemma prepare_order_Inr:
  assumes "prepare_order d env q offset a = Inr pn"
  shows "pn_request pn = q \<and> pn_offset pn = offset
    \<and> terms_ok offset (ft_is_option (pn_fees pn)) (pn_frozen pn)
    \<and> validate_order q (Some (ru_instrument (pn_rules pn)))
         (Some (pr_resolved_price (pn_pricing pn))) = Inr ()
    \<and> ensure_trading_open (db_batches d) (Some (pn_trading_day pn)) = Inr ()"
  using assms
  by (auto simp: prepare_order_def Let_def rbind_Inr_iff frozen_terms_ok split: prod.splits)

lemma validated_volume: "validate_order q ins price = Inr u \<Longrightarrow> 0 < rq_volume q"
  by (auto simp: validate_order_def split: option.splits if_splits)

lemma admit_account_Inr:
  assumes "admit_account env pn a = Inr a1"
  shows "a1 = a\<lparr>a_trading_day := Some (pn_trading_day pn)\<rparr> \<and> a_status a = ACCOUNT_NORMAL
    \<and> (a_trading_day a = None \<or> a_trading_day a = Some (pn_trading_day pn))
    \<and> (pn_offset pn = OPEN \<longrightarrow> ensure_open_allowed (a_risk_state a) = Inr ())
    \<and> option_permission (ce_settings env) a1 (ru_instrument (pn_rules pn))
         (rq_direction (pn_request pn)) (pn_offset pn) = Inr ()"
  using assms
  by (auto simp: admit_account_def bind_trading_day_def validate_account_tradable_def rbind_Inr_iff
      split: option.splits if_splits)

section \<open>The account\<close>

text \<open>What an order holds, as a reservation of its account.\<close>

definition order_reservation :: "order \<Rightarrow> reservation" where
  "order_reservation r = \<lparr>rs_margin = o_frozen_margin r, rs_cash = o_frozen_cash r,
     rs_commission = o_frozen_commission r\<rparr>"

lemma pools_money_iff: "pools_money a \<longleftrightarrow> account_row_ok a"
  by (auto simp: pools_money_def account_row_ok_def)

lemma freeze_opening_refines:
  assumes "freeze_opening pn a = Inr a'" "terms_ok OPEN (ft_is_option (pn_fees pn)) (pn_frozen pn)"
    and "account_row_ok a"
  shows "pools a' = reserve \<lparr>rs_margin = fz_margin (pn_frozen pn), rs_cash = fz_cash (pn_frozen pn),
      rs_commission = fz_commission (pn_frozen pn)\<rparr> (pools a)
    \<and> account_row_ok a' \<and> frozen_frame a a' \<and> 0 \<le> a_available_cash a'
    \<and> 0 \<le> fz_margin (pn_frozen pn) \<and> 0 \<le> fz_cash (pn_frozen pn)
    \<and> 0 \<le> fz_commission (pn_frozen pn)"
proof -
  let ?fz = "pn_frozen pn"
  let ?r = "\<lparr>rs_margin = fz_margin ?fz, rs_cash = fz_cash ?fz, rs_commission = fz_commission ?fz\<rparr>"
  have money: "reservation_money ?r" "pools_money a"
    using assms(2,3) by (simp_all add: terms_ok_def reservation_money_def pools_money_iff)
  have "pools a' = reserve ?r (pools a) \<and> 0 \<le> cp_available (pools a') \<and> reservation_nonneg ?r
      \<and> pools_money a' \<and> frozen_frame a a'"
  proof (cases "ft_is_option (pn_fees pn)")
    case True
    with assms(1) have "freeze_option a ?r = Inr a'"
      by (simp add: freeze_opening_def freeze_option_def Let_def)
    from option_open.freeze_refines [OF TrueI money(2,1) this] show ?thesis .
  next
    case False
    with assms(1,2) have "freeze_open a ?r = Inr a'" "rs_cash ?r = 0"
      by (simp_all add: freeze_opening_def freeze_open_def terms_ok_def Let_def)
    from futures_open.freeze_refines [OF this(2) money(2,1) this(1)] show ?thesis .
  qed
  then show ?thesis by (simp add: reservation_nonneg_def pools_money_iff) (simp add: pools_def)
qed

text \<open>What a closing order froze, row by row.\<close>

lemma freeze_closing_Inr:
  assumes "freeze_closing d now ids pn a = Inr cz"
  obtains p plans fees commissions where
    "get_position d (rq_account_id (pn_request pn)) (i_exchange_id (ru_instrument (pn_rules pn)))
       (i_symbol (ru_instrument (pn_rules pn))) (closed_position_direction (rq_direction (pn_request pn)))
       = Some p"
    "allocate_close (list_available_details d (p_position_id p)) (pn_offset pn) (pn_trading_day pn)
       (rq_volume (pn_request pn)) = Inr plans"
    "length fees = length plans"
    "calculate_bucket_allocations (pr_resolved_price (pn_pricing pn))
       (map2 (allocation_entry pn) plans fees) = Inr commissions"
    "cz_commission cz = sum_list commissions"
    "cz_position cz = frozen_position now (rq_volume (pn_request pn)) p"
    "cz_details cz = map (frozen_detail now) plans"
    "cz_allocations cz = close_allocations now ids pn p (zip plans (zip fees commissions))"
    "(if ft_is_option (pn_fees pn)
      then freeze_option_resources (Some a) (fz_cash (pn_frozen pn)) 0 (sum_list commissions)
      else freeze_close_order_commission (Some a) (sum_list commissions)) = Inr (cz_account cz)"
    "\<forall>c \<in> set commissions. 0 \<le> c \<and> is_money c"
proof -
  from assms obtain p plans fees commissions a' where p:
    "get_position d (rq_account_id (pn_request pn)) (i_exchange_id (ru_instrument (pn_rules pn)))
       (i_symbol (ru_instrument (pn_rules pn))) (closed_position_direction (rq_direction (pn_request pn)))
       = Some p"
    and plans: "allocate_close (list_available_details d (p_position_id p)) (pn_offset pn)
       (pn_trading_day pn) (rq_volume (pn_request pn)) = Inr plans"
    and fees: "rmap (allocation_fee d pn) plans = Inr fees"
    and shares: "calculate_bucket_allocations (pr_resolved_price (pn_pricing pn))
       (map2 (allocation_entry pn) plans fees) = Inr commissions"
    and frozen: "(if ft_is_option (pn_fees pn)
      then freeze_option_resources (Some a) (fz_cash (pn_frozen pn)) 0
             (quantize_money (sum_list commissions))
      else freeze_close_order_commission (Some a) (quantize_money (sum_list commissions))) = Inr a'"
    and cz: "cz = \<lparr>cz_account = a', cz_position = frozen_position now (rq_volume (pn_request pn)) p,
        cz_details = map (frozen_detail now) plans,
        cz_allocations = close_allocations now ids pn p (zip plans (zip fees commissions)),
        cz_commission = quantize_money (sum_list commissions)\<rparr>"
    unfolding freeze_closing_def Let_def rbind_Inr_iff
    by (cases "get_position d (rq_account_id (pn_request pn))
        (i_exchange_id (ru_instrument (pn_rules pn))) (i_symbol (ru_instrument (pn_rules pn)))
        (closed_position_direction (rq_direction (pn_request pn)))") (auto simp: rbind_Inr_iff)
  have money: "\<forall>c \<in> set commissions. 0 \<le> c \<and> is_money c"
    using bucket_allocations_conserve [OF shares] by blast
  then have total: "quantize_money (sum_list commissions) = sum_list commissions"
    using is_money_sum_list [of commissions "\<lambda>c. c"] by (simp add: is_money_def)
  show thesis
    using p plans rmap_Inr_length [OF fees] shares frozen [unfolded total] cz [unfolded total] money
    by (intro that [of p plans fees commissions]) simp_all
qed

lemma freeze_closing_refines:
  assumes frozen: "(if ft_is_option (pn_fees pn)
      then freeze_option_resources (Some a) (fz_cash (pn_frozen pn)) 0 c
      else freeze_close_order_commission (Some a) c) = Inr a'"
    and terms: "terms_ok offset (ft_is_option (pn_fees pn)) (pn_frozen pn)" "offset \<noteq> OPEN"
    and money: "account_row_ok a" "is_money c"
  shows "pools a' = reserve \<lparr>rs_margin = fz_margin (pn_frozen pn), rs_cash = fz_cash (pn_frozen pn),
      rs_commission = c\<rparr> (pools a)
    \<and> account_row_ok a' \<and> frozen_frame a a' \<and> 0 \<le> a_available_cash a'
    \<and> 0 \<le> fz_margin (pn_frozen pn) \<and> 0 \<le> fz_cash (pn_frozen pn) \<and> 0 \<le> c"
proof -
  let ?r = "\<lparr>rs_margin = fz_margin (pn_frozen pn), rs_cash = fz_cash (pn_frozen pn),
      rs_commission = c\<rparr>"
  have margin: "fz_margin (pn_frozen pn) = 0" using terms by (simp add: terms_ok_def)
  have money: "reservation_money ?r" "pools_money a"
    using terms money by (simp_all add: terms_ok_def reservation_money_def pools_money_iff)
  have "pools a' = reserve ?r (pools a) \<and> 0 \<le> cp_available (pools a') \<and> reservation_nonneg ?r
      \<and> pools_money a' \<and> frozen_frame a a'"
  proof (cases "ft_is_option (pn_fees pn)")
    case True
    with frozen margin have "freeze_option a ?r = Inr a'" by (simp add: freeze_option_def)
    from option_open.freeze_refines [OF TrueI money(2,1) this] show ?thesis .
  next
    case False
    with frozen terms margin have "freeze_close a ?r = Inr a'" "rs_margin ?r = 0 \<and> rs_cash ?r = 0"
      by (simp_all add: freeze_close_def terms_ok_def)
    from close_commission.freeze_refines [OF this(2) money(2,1) this(1)] show ?thesis .
  qed
  then show ?thesis by (simp add: reservation_nonneg_def pools_money_iff) (simp add: pools_def)
qed

section \<open>The volume a closing order freezes\<close>

text \<open>The volume that the plans place on a detail.\<close>

definition placed :: "position_freeze_plan list \<Rightarrow> string \<Rightarrow> int" where
  "placed plans k = sum_of (\<lambda>fp. d_position_detail_id (fp_detail fp) = k) fp_volume plans"

lemma list_available_subset:
  "x \<in> set (list_available_details d pid) \<Longrightarrow> x \<in> set (db_details d) \<and> d_position_id x = pid"
  by (simp add: list_available_details_def)

text \<open>The plans of a close allocation use every detail at most once.\<close>

definition plans_ok :: "db \<Rightarrow> string \<Rightarrow> int \<Rightarrow> position_freeze_plan list \<Rightarrow> bool" where
  "plans_ok d pid volume plans \<longleftrightarrow>
     sum_list (map fp_volume plans) = volume
     \<and> distinct (map (\<lambda>fp. d_position_detail_id (fp_detail fp)) plans)
     \<and> (\<forall>fp \<in> set plans. fp_detail fp \<in> set (db_details d)
          \<and> d_position_id (fp_detail fp) = pid \<and> 0 < fp_volume fp
          \<and> fp_volume fp \<le> free_volume (fp_detail fp)
          \<and> fp_resolved_offset_flag fp \<in> {CLOSE_TODAY, CLOSE_YESTERDAY})"

lemma allocate_close_details:
  assumes "allocate_close (list_available_details d pid) offset day volume = Inr plans"
    and keys: "distinct (map d_position_detail_id (db_details d))"
  shows "plans_ok d pid volume plans"
proof -
  let ?ds = "list_available_details d pid"
  have volume: "0 < volume"
    using assms(1) by (cases "volume \<le> 0") (simp_all add: allocate_close_def)
  with assms(1) obtain cands code where
    cands: "close_candidates ?ds offset day = Inr (cands, code)"
    unfolding allocate_close_def by (auto simp: rbind_Inr_iff)
  obtain plans' left where loop': "allocate_loop day volume cands = (plans', left)"
    by (cases "allocate_loop day volume cands")
  have loop: "allocate_loop day volume cands = (plans, left)" "left \<le> 0"
    using assms(1) volume cands loop' by (auto simp: allocate_close_def split: if_splits)
  note c = close_candidates_Inr [OF cands]
  have mset: "mset cands = mset (filter (eligible offset day) ?ds)" using c by blast
  then have set_cands: "set cands = {dt \<in> set ?ds. eligible offset day dt}"
    by (metis set_filter set_mset_mset)
  then have "\<forall>dt \<in> set cands. 0 < free_volume dt" by (auto simp: eligible_def)
  note l = allocate_loop_spec [OF loop(1) volume this]
  have "distinct (map d_position_detail_id (filter (eligible offset day) ?ds))"
    unfolding list_available_details_def by (intro distinct_map_filter keys)
  moreover have "mset (map d_position_detail_id cands)
      = mset (map d_position_detail_id (filter (eligible offset day) ?ds))"
    using mset by simp
  ultimately have "distinct (map d_position_detail_id cands)"
    by (metis mset_eq_imp_distinct_iff)
  then have "distinct (map d_position_detail_id (map fp_detail plans))"
    using l by (metis distinct_take take_map)
  then have "distinct (map (\<lambda>fp. d_position_detail_id (fp_detail fp)) plans)"
    by (simp only: map_map comp_def)
  moreover have "fp_detail p \<in> set cands" if "p \<in> set plans" for p
    using l that by (metis image_eqI in_set_takeD list.set_map)
  ultimately show ?thesis
    using l loop(2) set_cands
    by (auto simp: plans_ok_def resolved_flag_def dest!: list_available_subset)
qed

section \<open>The details\<close>

definition frozen_detail_of :: "datetime \<Rightarrow> position_freeze_plan list \<Rightarrow> detail \<Rightarrow> detail" where
  "frozen_detail_of now plans x =
     (case find_row d_position_detail_id (d_position_detail_id x) (map (frozen_detail now) plans) of
        None \<Rightarrow> x | Some y \<Rightarrow> y)"

lemma frozen_detail_key [simp]:
  "d_position_detail_id (frozen_detail now fp) = d_position_detail_id (fp_detail fp)"
  by (simp add: frozen_detail_def)

lemma frozen_details_written:
  assumes "plans_ok d pid volume plans"
  shows "fold (replace_row d_position_detail_id) (map (frozen_detail now) plans) (db_details d)
       = map (frozen_detail_of now plans) (db_details d)"
  using assms
  by (subst fold_replace_row) (simp_all add: plans_ok_def comp_def frozen_detail_of_def [abs_def])

lemma placed_single:
  assumes "distinct (map (\<lambda>fp. d_position_detail_id (fp_detail fp)) plans)" "fp \<in> set plans"
  shows "placed plans (d_position_detail_id (fp_detail fp)) = fp_volume fp"
  using assms
proof (induction plans)
  case (Cons q plans)
  show ?case
  proof (cases "q = fp")
    case True
    with Cons.prems(1) have "placed plans (d_position_detail_id (fp_detail fp)) = 0"
      by (auto simp: placed_def image_iff intro!: sum_of_zero)
    with True show ?thesis by (simp add: placed_def)
  next
    case False
    with Cons.prems have "fp \<in> set plans"
      "d_position_detail_id (fp_detail q) \<noteq> d_position_detail_id (fp_detail fp)"
      by (auto simp: image_iff)
    with Cons show ?thesis by (simp add: placed_def)
  qed
qed simp

lemma frozen_detail_cases:
  assumes ok: "plans_ok d pid volume plans" and keys: "distinct (map d_position_detail_id (db_details d))"
    and x: "x \<in> set (db_details d)"
  obtains (kept) "frozen_detail_of now plans x = x" "placed plans (d_position_detail_id x) = 0"
      "\<forall>fp \<in> set plans. d_position_detail_id (fp_detail fp) \<noteq> d_position_detail_id x"
  | (frozen) fp where "fp \<in> set plans" "fp_detail fp = x"
      "frozen_detail_of now plans x = frozen_detail now fp"
      "placed plans (d_position_detail_id x) = fp_volume fp"
proof (cases "find_row d_position_detail_id (d_position_detail_id x) (map (frozen_detail now) plans)")
  case None
  then have none: "\<forall>fp \<in> set plans. d_position_detail_id (fp_detail fp) \<noteq> d_position_detail_id x"
    by (force simp: find_row_None_iff image_image image_iff)
  then have "placed plans (d_position_detail_id x) = 0"
    by (auto simp: placed_def intro!: sum_of_zero)
  with None none show thesis by (intro kept) (simp_all add: frozen_detail_of_def)
next
  case (Some y)
  then obtain fp where fp: "fp \<in> set plans" "y = frozen_detail now fp"
    "d_position_detail_id (fp_detail fp) = d_position_detail_id x"
    by (auto dest!: find_row_SomeD)
  have "fp_detail fp = x"
    using ok fp by (intro distinct_key_eq [OF keys _ x fp(3)]) (simp add: plans_ok_def)
  moreover have "placed plans (d_position_detail_id x) = fp_volume fp"
    using placed_single [of plans fp] ok fp by (simp add: plans_ok_def)
  ultimately show thesis using Some fp by (intro frozen [of fp]) (simp_all add: frozen_detail_of_def)
qed

lemma frozen_detail_frame:
  assumes "plans_ok d pid volume plans" "distinct (map d_position_detail_id (db_details d))"
    "x \<in> set (db_details d)"
  shows "d_position_detail_id (frozen_detail_of now plans x) = d_position_detail_id x
    \<and> d_position_id (frozen_detail_of now plans x) = d_position_id x
    \<and> d_account_id (frozen_detail_of now plans x) = d_account_id x
    \<and> d_remaining_volume (frozen_detail_of now plans x) = d_remaining_volume x
    \<and> d_original_volume (frozen_detail_of now plans x) = d_original_volume x
    \<and> d_remaining_margin (frozen_detail_of now plans x) = d_remaining_margin x
    \<and> d_frozen_volume (frozen_detail_of now plans x)
        = d_frozen_volume x + placed plans (d_position_detail_id x)"
  using assms
proof (cases rule: frozen_detail_cases [where now = now])
  case (frozen fp)
  then show ?thesis by (auto simp: frozen_detail_def)
qed simp

lemma frozen_detail_ok:
  assumes "plans_ok d pid volume plans" "distinct (map d_position_detail_id (db_details d))"
    "x \<in> set (db_details d)" "detail_ok x"
  shows "detail_ok (frozen_detail_of now plans x)"
  using assms(1-3)
proof (cases rule: frozen_detail_cases [where now = now])
  case (frozen fp)
  with assms(1) have "0 < fp_volume fp" "fp_volume fp \<le> free_volume x"
    by (auto simp: plans_ok_def)
  with frozen assms(4) show ?thesis
    by (auto simp: detail_ok_def frozen_detail_def free_volume_def)
qed (use assms(4) in simp)

text \<open>Over the details of a position, the placed volumes add up to the volume of the order.\<close>

lemma placed_sum:
  assumes "plans_ok d pid volume plans" "distinct (map d_position_detail_id (db_details d))"
  shows "sum_of (of_position q) (\<lambda>x. placed plans (d_position_detail_id x)) (db_details d)
       = (if q = pid then volume else 0)"
proof -
  have "sum_of (of_position q) (\<lambda>x. placed plans (d_position_detail_id x)) (db_details d)
      = sum_of (\<lambda>fp. \<exists>x \<in> set (db_details d). of_position q x
          \<and> d_position_detail_id x = d_position_detail_id (fp_detail fp)) fp_volume plans"
    unfolding placed_def
    by (rule sum_of_by_key [OF assms(2), where ref = "\<lambda>fp. d_position_detail_id (fp_detail fp)"])
  also have "\<dots> = sum_of (\<lambda>fp. q = pid) fp_volume plans"
  proof (rule sum_of_cong)
    fix fp assume "fp \<in> set plans"
    with assms(1) have fp: "fp_detail fp \<in> set (db_details d)" "d_position_id (fp_detail fp) = pid"
      by (auto simp: plans_ok_def)
    have "x = fp_detail fp" if "x \<in> set (db_details d)"
      "d_position_detail_id x = d_position_detail_id (fp_detail fp)" for x
      by (rule distinct_key_eq [OF assms(2) that(1) fp(1) that(2)])
    with fp show "(\<exists>x \<in> set (db_details d). of_position q x
          \<and> d_position_detail_id x = d_position_detail_id (fp_detail fp)) = (q = pid)"
      unfolding of_position_def by blast
  qed simp
  also have "\<dots> = (if q = pid then volume else 0)"
    using assms(1) by (simp add: sum_of_filter plans_ok_def)
  finally show ?thesis .
qed

section \<open>The freeze allocations\<close>

lemma sum_of_enumerate:
  assumes "\<And>k x. P (g (k, x)) = Q x" "\<And>k x. Q x \<Longrightarrow> f (g (k, x)) = h x"
  shows "sum_of P f (map g (enumerate n xs)) = sum_of Q h xs"
  by (induction xs arbitrary: n) (simp_all add: assms)

lemma sum_of_zip_fst:
  "length ys = length xs \<Longrightarrow>
     sum_of (\<lambda>x. Q (fst x)) (\<lambda>x. h (fst x)) (zip xs ys) = sum_of Q h xs"
  by (induction ys xs rule: list_induct2) simp_all

lemma sum_of_zip_snd:
  "length ys = length xs \<Longrightarrow> sum_of (\<lambda>_. True) (\<lambda>x. h (snd x)) (zip xs ys) = sum_list (map h ys)"
  by (induction ys xs rule: list_induct2) simp_all

lemma new_allocation_sel [simp]:
  "f_allocation_id (new_allocation now fid oid pn p fp fee c) = fid"
  "f_order_id (new_allocation now fid oid pn p fp fee c) = oid"
  "f_position_detail_id (new_allocation now fid oid pn p fp fee c)
     = d_position_detail_id (fp_detail fp)"
  "f_remaining_frozen_volume (new_allocation now fid oid pn p fp fee c) = fp_volume fp"
  "f_remaining_frozen_commission (new_allocation now fid oid pn p fp fee c) = c"
  by (simp_all add: new_allocation_def)

lemma allocations_of_detail:
  assumes "length rest = length plans"
  shows "sum_of (of_detail k) f_remaining_frozen_volume (close_allocations now ids pn p (zip plans rest))
       = placed plans k"
proof -
  let ?Q = "\<lambda>x. d_position_detail_id (fp_detail (fst x)) = k"
  have "sum_of (of_detail k) f_remaining_frozen_volume (close_allocations now ids pn p (zip plans rest))
      = sum_of ?Q (\<lambda>x. fp_volume (fst x)) (zip plans rest)"
    unfolding close_allocations_def
    by (rule sum_of_enumerate) (auto simp: of_detail_def split: prod.splits)
  also have "\<dots> = placed plans k"
    unfolding placed_def by (rule sum_of_zip_fst [OF assms])
  finally show ?thesis .
qed

lemma allocations_of_order:
  assumes "length rest = length plans"
  shows "sum_of (of_order oid) f_remaining_frozen_volume (close_allocations now ids pn p (zip plans rest))
       = (if oid = ki_order_id ids then sum_list (map fp_volume plans) else 0)"
proof -
  let ?Q = "\<lambda>x. oid = ki_order_id ids"
  have "sum_of (of_order oid) f_remaining_frozen_volume (close_allocations now ids pn p (zip plans rest))
      = sum_of (\<lambda>x. ?Q (fst x)) (\<lambda>x. fp_volume (fst x)) (zip plans rest)"
    unfolding close_allocations_def
    by (rule sum_of_enumerate) (auto simp: of_order_def split: prod.splits)
  also have "\<dots> = sum_of ?Q fp_volume plans" by (rule sum_of_zip_fst [OF assms])
  finally show ?thesis by (simp add: sum_of_filter)
qed

lemma commissions_of_order:
  assumes "length fees = length plans" "length cs = length plans"
  shows "sum_of (of_order oid) f_remaining_frozen_commission
       (close_allocations now ids pn p (zip plans (zip fees cs)))
       = (if oid = ki_order_id ids then sum_list cs else 0)"
proof -
  have "sum_of (of_order oid) f_remaining_frozen_commission
       (close_allocations now ids pn p (zip plans (zip fees cs)))
      = sum_of (\<lambda>x. oid = ki_order_id ids) (\<lambda>x. snd (snd x)) (zip plans (zip fees cs))"
    unfolding close_allocations_def
    by (rule sum_of_enumerate) (auto simp: of_order_def split: prod.splits)
  also have "\<dots> = (if oid = ki_order_id ids then sum_list cs else 0)"
    using sum_of_zip_snd [of "zip fees cs" plans snd] assms by (simp add: sum_of_def)
  finally show ?thesis .
qed

lemma close_allocations_ids:
  "map f_allocation_id (close_allocations now ids pn p xs) = map (ki_allocation ids) [0..<length xs]"
  by (auto simp: close_allocations_def nth_enumerate_eq split: prod.splits intro!: nth_equalityI)

lemma close_allocations_links:
  assumes "length rest = length plans"
  shows "map (\<lambda>f. (f_order_id f, f_position_detail_id f)) (close_allocations now ids pn p (zip plans rest))
       = map (\<lambda>fp. (ki_order_id ids, d_position_detail_id (fp_detail fp))) plans"
  using assms
  by (auto simp: close_allocations_def nth_enumerate_eq split: prod.splits intro!: nth_equalityI)

lemma bucket_fee_terms:
  assumes "calculate_bucket_allocations price es = Inr shares" "e \<in> set es"
  shows "0 \<le> bk_commission_parameter (be_key e) \<and> 0 < bk_commission_contract_multiplier (be_key e)"
  using calculate_bucket_allocations_Inr [OF assms(1)] assms(2)
  by (auto simp: Let_def fee_from_snapshot_Inr_iff)

lemma new_allocation_ok:
  assumes "0 < fp_volume fp" "fp_resolved_offset_flag fp \<in> {CLOSE_TODAY, CLOSE_YESTERDAY}"
    "0 \<le> snd fee" "0 < ft_multiplier (pn_fees pn)" "0 \<le> c" "is_money c"
  shows "allocation_ok (new_allocation now fid oid pn p fp fee c)
    \<and> is_money (f_released_commission (new_allocation now fid oid pn p fp fee c))
    \<and> is_money (f_remaining_frozen_commission (new_allocation now fid oid pn p fp fee c))
    \<and> is_money (f_consumed_commission (new_allocation now fid oid pn p fp fee c))"
  using assms by (auto simp: allocation_ok_def new_allocation_def)

lemma close_allocations_members:
  assumes "f \<in> set (close_allocations now ids pn p (zip plans (zip fees cs)))"
  obtains k fp fee c where "f = new_allocation now (ki_allocation ids k) (ki_order_id ids) pn p fp fee c"
    "(fp, fee) \<in> set (zip plans fees)" "fp \<in> set plans" "c \<in> set cs"
proof -
  from assms obtain k x where x: "(k, x) \<in> set (enumerate 0 (zip plans (zip fees cs)))"
    "f = (case x of (fp, fee, c) \<Rightarrow>
       new_allocation now (ki_allocation ids k) (ki_order_id ids) pn p fp fee c)"
    by (auto simp: close_allocations_def)
  obtain fp fee c where eq: "x = (fp, fee, c)" by (cases x)
  from x(1) have "k < length (zip plans (zip fees cs))" "zip plans (zip fees cs) ! k = x"
    by (auto simp: in_set_enumerate_eq)
  then have "(fp, fee, c) \<in> set (zip plans (zip fees cs))"
    unfolding eq in_set_conv_nth by blast
  then have "fp \<in> set plans" "(fee, c) \<in> set (zip fees cs)" "(fp, fee) \<in> set (zip plans fees)"
    by (auto simp: set_zip)
  moreover from this(2) have "c \<in> set cs" by (auto dest: set_zip_rightD)
  ultimately show thesis using x(2) eq by (intro that [of k fp fee c]) simp_all
qed

lemma close_allocations_rows_ok:
  assumes "plans_ok d pid volume plans" "\<forall>c \<in> set cs. 0 \<le> c \<and> is_money c"
    and fees: "calculate_bucket_allocations price (map2 (allocation_entry pn) plans fees) = Inr cs"
    and f: "f \<in> set (close_allocations now ids pn p (zip plans (zip fees cs)))"
  shows "allocation_ok f \<and> is_money (f_released_commission f)
    \<and> is_money (f_remaining_frozen_commission f) \<and> is_money (f_consumed_commission f)"
proof -
  from f obtain k fp fee c where
    eq: "f = new_allocation now (ki_allocation ids k) (ki_order_id ids) pn p fp fee c"
    and mem: "(fp, fee) \<in> set (zip plans fees)" "fp \<in> set plans" "c \<in> set cs"
    by (rule close_allocations_members)
  have "allocation_entry pn fp fee \<in> set (map2 (allocation_entry pn) plans fees)"
    using mem(1) by force
  from bucket_fee_terms [OF fees this] show ?thesis
    unfolding eq using assms(1,2) mem(2,3)
    by (intro new_allocation_ok) (auto simp: allocation_entry_def plans_ok_def)
qed

section \<open>The tables after the order is placed\<close>

text \<open>The ids drawn by the factories are not used yet: the unique constraints of the tables.\<close>

definition fresh_creation :: "db \<Rightarrow> create_ids \<Rightarrow> bool" where
  "fresh_creation d ids \<longleftrightarrow>
     ki_order_id ids \<notin> o_order_id ` set (db_orders d)
     \<and> ki_order_id ids \<notin> f_order_id ` set (db_allocations d)
     \<and> ki_order_id ids \<notin> t_order_id ` set (db_trades d)
     \<and> inj (ki_allocation ids)
     \<and> (\<forall>f \<in> set (db_allocations d). f_allocation_id f \<notin> range (ki_allocation ids))"

text \<open>The effect of \<open>place_order\<close> on the account and the orders, and of a closing order on the rest.\<close>

definition placement_effect ::
  "db \<Rightarrow> datetime \<Rightarrow> account \<Rightarrow> db \<Rightarrow> order \<Rightarrow> account \<Rightarrow> bool" where
  "placement_effect d now a d' r a' \<longleftrightarrow>
     db_orders d' = db_orders d @ [r]
     \<and> db_accounts d' = replace_row a_account_id a' (db_accounts d)
     \<and> db_trades d' = db_trades d \<and> db_trade_allocations d' = db_trade_allocations d
     \<and> db_batches d' = db_batches d \<and> db_instruments d' = db_instruments d
     \<and> pools a' = reserve (order_reservation r) (pools a)
     \<and> account_row_ok a' \<and> frozen_frame (a\<lparr>a_updated_at := now\<rparr>) a'
     \<and> 0 \<le> a_available_cash a' \<and> order_row_ok r \<and> o_status r = ACCEPTED
     \<and> o_traded_volume r = 0 \<and> o_cancelled_volume r = 0
     \<and> o_remaining_volume r = o_total_volume r"

definition closing_effect ::
  "db \<Rightarrow> datetime \<Rightarrow> create_ids \<Rightarrow> db \<Rightarrow> order \<Rightarrow> bool" where
  "closing_effect d now ids d' r \<longleftrightarrow>
     (\<exists>p plans fs.
        p \<in> set (db_positions d) \<and> plans_ok d (p_position_id p) (o_total_volume r) plans
        \<and> position_volumes_ok (frozen_position now (o_total_volume r) p)
        \<and> db_positions d' = replace_row p_position_id (frozen_position now (o_total_volume r) p)
            (db_positions d)
        \<and> db_details d' = map (frozen_detail_of now plans) (db_details d)
        \<and> db_allocations d' = db_allocations d @ fs
        \<and> o_frozen_position_volume r = o_total_volume r
        \<and> (\<forall>k. sum_of (of_detail k) f_remaining_frozen_volume fs = placed plans k)
        \<and> (\<forall>oid. sum_of (of_order oid) f_remaining_frozen_volume fs
              = (if oid = o_order_id r then o_total_volume r else 0)
            \<and> sum_of (of_order oid) f_remaining_frozen_commission fs
              = (if oid = o_order_id r then o_frozen_commission r else 0))
        \<and> map f_allocation_id fs = map (ki_allocation ids) [0..<length fs]
        \<and> map (\<lambda>f. (f_order_id f, f_position_detail_id f)) fs
            = map (\<lambda>fp. (o_order_id r, d_position_detail_id (fp_detail fp))) plans
        \<and> (\<forall>f \<in> set fs. allocation_ok f \<and> is_money (f_released_commission f)
             \<and> is_money (f_remaining_frozen_commission f) \<and> is_money (f_consumed_commission f)))"

lemma accepted_order_sel [simp]:
  "o_order_id (accepted_order now oid pl pn c v) = oid"
  "o_account_id (accepted_order now oid pl pn c v) = rq_account_id (pn_request pn)"
  "o_client_order_id (accepted_order now oid pl pn c v) = rq_client_order_id (pn_request pn)"
  "o_offset_flag (accepted_order now oid pl pn c v) = Some (pn_offset pn)"
  "o_total_volume (accepted_order now oid pl pn c v) = rq_volume (pn_request pn)"
  "o_traded_volume (accepted_order now oid pl pn c v) = 0"
  "o_remaining_volume (accepted_order now oid pl pn c v) = rq_volume (pn_request pn)"
  "o_cancelled_volume (accepted_order now oid pl pn c v) = 0"
  "o_status (accepted_order now oid pl pn c v) = ACCEPTED"
  "o_frozen_margin (accepted_order now oid pl pn c v) = fz_margin (pn_frozen pn)"
  "o_frozen_cash (accepted_order now oid pl pn c v) = fz_cash (pn_frozen pn)"
  "o_frozen_commission (accepted_order now oid pl pn c v) = c"
  "o_frozen_position_volume (accepted_order now oid pl pn c v) = v"
  by (simp_all add: accepted_order_def Let_def)

lemma add_defs: "add_order r d = d\<lparr>db_orders := db_orders d @ [r]\<rparr>"
  "add_allocations fs d = d\<lparr>db_allocations := db_allocations d @ fs\<rparr>"
  by (simp_all add: add_order_def add_allocations_def)

lemma frozen_frame_updated:
  assumes "frozen_frame a b"
  shows "frozen_frame (a\<lparr>a_updated_at := t\<rparr>) (b\<lparr>a_updated_at := t\<rparr>)"
proof -
  from assms obtain v w x y z where "b = a\<lparr>a_available_cash := v, a_frozen_cash := w,
      a_frozen_margin := x, a_frozen_commission := y, a_risk_available_cash := z\<rparr>"
    unfolding frozen_frame_def by blast
  then show ?thesis by (simp add: frozen_frame_def)
qed

lemma frozen_frame_kept:
  assumes "frozen_frame a b"
  shows "a_account_id b = a_account_id a" "a_used_margin b = a_used_margin a"
    "a_cash_balance b = a_cash_balance a" "a_equity b = a_equity a"
proof -
  from assms obtain v w x y z where "b = a\<lparr>a_available_cash := v, a_frozen_cash := w,
      a_frozen_margin := x, a_frozen_commission := y, a_risk_available_cash := z\<rparr>"
    unfolding frozen_frame_def by blast
  then show "a_account_id b = a_account_id a" "a_used_margin b = a_used_margin a"
    "a_cash_balance b = a_cash_balance a" "a_equity b = a_equity a" by simp_all
qed

lemma place_opening:
  assumes run: "place_order d env ids pl pn a = Inr (d', r)" and "pn_offset pn = OPEN"
    and terms: "terms_ok OPEN (ft_is_option (pn_fees pn)) (pn_frozen pn)" "0 < rq_volume (pn_request pn)"
    and a: "account_row_ok a"
  shows "(\<exists>a'. placement_effect d (ce_accepted_at env) a d' r a')
    \<and> r = accepted_order (ce_accepted_at env) (ki_order_id ids) pl pn (fz_commission (pn_frozen pn)) 0
    \<and> db_positions d' = db_positions d \<and> db_details d' = db_details d
    \<and> db_allocations d' = db_allocations d"
proof -
  let ?now = "ce_accepted_at env"
  let ?r = "accepted_order ?now (ki_order_id ids) pl pn (fz_commission (pn_frozen pn)) 0"
  from run assms(2) obtain a1 where freeze: "freeze_opening pn a = Inr a1"
    and r: "r = ?r" and d': "d' = write_creation ids ?now ?r (a1\<lparr>a_updated_at := ?now\<rparr>) None d"
    by (auto simp: place_order_def freeze_order_def Let_def rbind_Inr_iff)
  note f = freeze_opening_refines [OF freeze terms(1) a]
  let ?a = "a1\<lparr>a_updated_at := ?now\<rparr>"
  have "pools ?a = reserve (order_reservation r) (pools a)"
    using f by (simp add: r order_reservation_def) (simp add: pools_def)
  moreover have "account_row_ok ?a" using f by (simp add: account_row_ok_def)
  moreover have "frozen_frame (a\<lparr>a_updated_at := ?now\<rparr>) ?a"
    using f frozen_frame_updated by blast
  moreover have "order_row_ok r"
    using f terms by (simp add: r order_row_ok_def order_volume_balanced_def terms_ok_def)
  ultimately have "placement_effect d ?now a d' r ?a"
    using f by (simp add: placement_effect_def d' r write_creation_def put_defs add_defs)
  with r show ?thesis by (auto simp: d' write_creation_def put_defs add_defs)
qed

lemma closed_position_found:
  assumes "get_position d aid ex sy dir = Some p"
  shows "p \<in> set (db_positions d)"
  using assms unfolding get_position_key by (auto dest: first_row_SomeD)

lemma place_closing:
  assumes run: "place_order d env ids pl pn a = Inr (d', r)" and closing: "pn_offset pn \<noteq> OPEN"
    and terms: "terms_ok (pn_offset pn) (ft_is_option (pn_fees pn)) (pn_frozen pn)"
      "0 < rq_volume (pn_request pn)"
    and a: "account_row_ok a" and keys: "keys_ok d"
  shows "(\<exists>a'. placement_effect d (ce_accepted_at env) a d' r a')
    \<and> (\<exists>c. r = accepted_order (ce_accepted_at env) (ki_order_id ids) pl pn c
          (rq_volume (pn_request pn)))
    \<and> closing_effect d (ce_accepted_at env) ids d' r"
proof -
  let ?now = "ce_accepted_at env" and ?v = "rq_volume (pn_request pn)"
  from run closing obtain cz where freeze: "freeze_closing d ?now ids pn a = Inr cz"
    and vol: "position_volumes_ok (cz_position cz)"
    and r: "r = accepted_order ?now (ki_order_id ids) pl pn (cz_commission cz) ?v"
    and d': "d' = write_creation ids ?now r ((cz_account cz)\<lparr>a_updated_at := ?now\<rparr>)
        (Some (cz_position cz, cz_details cz, cz_allocations cz)) d"
    by (auto simp: place_order_def freeze_order_def Let_def rbind_Inr_iff split: if_splits)
  from freeze obtain p plans fees cs where p: "get_position d (rq_account_id (pn_request pn))
       (i_exchange_id (ru_instrument (pn_rules pn))) (i_symbol (ru_instrument (pn_rules pn)))
       (closed_position_direction (rq_direction (pn_request pn))) = Some p"
    and plans: "allocate_close (list_available_details d (p_position_id p)) (pn_offset pn)
       (pn_trading_day pn) ?v = Inr plans"
    and len: "length fees = length plans"
    and fees: "calculate_bucket_allocations (pr_resolved_price (pn_pricing pn))
       (map2 (allocation_entry pn) plans fees) = Inr cs"
    and cz: "cz_commission cz = sum_list cs" "cz_position cz = frozen_position ?now ?v p"
      "cz_details cz = map (frozen_detail ?now) plans"
      "cz_allocations cz = close_allocations ?now ids pn p (zip plans (zip fees cs))"
    and acc: "(if ft_is_option (pn_fees pn)
      then freeze_option_resources (Some a) (fz_cash (pn_frozen pn)) 0 (sum_list cs)
      else freeze_close_order_commission (Some a) (sum_list cs)) = Inr (cz_account cz)"
    and money: "\<forall>c \<in> set cs. 0 \<le> c \<and> is_money c"
    by (rule freeze_closing_Inr)
  have "distinct (map d_position_detail_id (db_details d))" using keys by (simp add: keys_ok_def)
  note ok = allocate_close_details [OF plans this]
  have lens: "length cs = length plans"
    using calculate_bucket_allocations_Inr [OF fees] len by simp
  have total: "is_money (sum_list cs)" using money is_money_sum_list [of cs "\<lambda>c. c"] by simp
  note f = freeze_closing_refines [OF acc terms(1) closing a total]
  let ?a = "(cz_account cz)\<lparr>a_updated_at := ?now\<rparr>"
  have "pools ?a = reserve (order_reservation r) (pools a)"
    using f by (simp add: r cz order_reservation_def) (simp add: pools_def)
  moreover have "account_row_ok ?a" using f by (simp add: account_row_ok_def)
  moreover have "frozen_frame (a\<lparr>a_updated_at := ?now\<rparr>) ?a"
    using f frozen_frame_updated by blast
  moreover have "order_row_ok r"
    using f terms total
    by (simp add: r cz order_row_ok_def order_volume_balanced_def terms_ok_def)
  ultimately have "placement_effect d ?now a d' r ?a"
    using f by (simp add: placement_effect_def d' write_creation_def put_defs add_defs r)
  moreover have "closing_effect d ?now ids d' r"
    unfolding closing_effect_def
  proof (intro exI conjI)
    let ?fs = "cz_allocations cz"
    show "p \<in> set (db_positions d)" using p by (rule closed_position_found)
    show "plans_ok d (p_position_id p) (o_total_volume r) plans" using ok by (simp add: r)
    show "db_details d' = map (frozen_detail_of ?now plans) (db_details d)"
      using frozen_details_written [OF ok]
      by (simp add: d' write_creation_def put_defs add_defs cz)
    show "\<forall>k. sum_of (of_detail k) f_remaining_frozen_volume ?fs = placed plans k"
      using len lens by (simp add: cz allocations_of_detail)
    show "\<forall>oid. sum_of (of_order oid) f_remaining_frozen_volume ?fs
              = (if oid = o_order_id r then o_total_volume r else 0)
            \<and> sum_of (of_order oid) f_remaining_frozen_commission ?fs
              = (if oid = o_order_id r then o_frozen_commission r else 0)"
      using len lens ok
      by (simp add: cz r allocations_of_order commissions_of_order plans_ok_def)
    show "map (\<lambda>f. (f_order_id f, f_position_detail_id f)) ?fs
        = map (\<lambda>fp. (o_order_id r, d_position_detail_id (fp_detail fp))) plans"
      using len lens by (simp add: cz r close_allocations_links)
    show "map f_allocation_id ?fs = map (ki_allocation ids) [0..<length ?fs]"
      by (simp add: cz close_allocations_ids) (simp add: close_allocations_def)
    show "\<forall>f \<in> set ?fs. allocation_ok f \<and> is_money (f_released_commission f)
             \<and> is_money (f_remaining_frozen_commission f) \<and> is_money (f_consumed_commission f)"
      using close_allocations_rows_ok [OF ok money fees] by (simp add: cz)
  qed (use vol in \<open>simp_all add: d' write_creation_def put_defs add_defs cz r\<close>)
  ultimately show ?thesis using r by blast
qed

section \<open>The book after the order is placed\<close>

lemma placement_accounts:
  assumes eff: "placement_effect d now a d' r a'" and book: "book_ok d"
    and a: "get_account d (o_account_id r) = Some b" and same: "pools a = pools b"
      "a_account_id a = a_account_id b"
  shows "\<forall>x \<in> set (db_accounts d'). account_row_ok x \<and> account_backed (db_orders d') x"
proof
  fix x assume x: "x \<in> set (db_accounts d')"
  note e = eff [unfolded placement_effect_def]
  have ids: "a_account_id a' = o_account_id r" "o_account_id r = a_account_id b"
    using e book_ok_account [OF book a] same frozen_frame_kept(1) [of "a\<lparr>a_updated_at := now\<rparr>" a']
    by simp_all
  have b: "account_backed (db_orders d) b" using book_ok_account [OF book a] by blast
  show "account_row_ok x \<and> account_backed (db_orders d') x"
  proof (cases "x = a'")
    case True
    have "pools a' = reserve (order_reservation r) (pools b)" using e same by simp
    then have "a_frozen_margin a' = a_frozen_margin b + o_frozen_margin r"
      "a_frozen_cash a' = a_frozen_cash b + o_frozen_cash r"
      "a_frozen_commission a' = a_frozen_commission b + o_frozen_commission r"
      by (simp_all add: pools_def reserve_def order_reservation_def)
    with True e b ids show ?thesis by (simp add: account_backed_def of_account_def)
  next
    case False
    with x e have "x \<in> set (db_accounts d)" "a_account_id x \<noteq> a_account_id a'"
      by (auto simp: replace_row_def split: if_splits)
    with book ids e show ?thesis
      by (auto simp: book_ok_def account_backed_def of_account_def)
  qed
qed

text \<open>The rows of an opening order are those of the account and the order alone.\<close>

lemma opening_order_book:
  assumes eff: "placement_effect d now a d' r a'" and book: "book_ok d"
    and a: "get_account d (o_account_id r) = Some b" and same: "pools a = pools b"
      "a_account_id a = a_account_id b"
    and fresh: "fresh_creation d ids" "o_order_id r = ki_order_id ids"
    and opens: "o_offset_flag r = Some OPEN" "db_positions d' = db_positions d"
      "db_details d' = db_details d" "db_allocations d' = db_allocations d"
  shows "book_ok d'"
proof -
  note e = eff [unfolded placement_effect_def]
  have "order_backed (db_allocations d) r" using opens by (simp add: order_backed_def order_closes_def)
  with placement_accounts [OF eff book a same] e book fresh opens show ?thesis
    by (simp add: book_ok_def keys_ok_def fresh_creation_def)
qed

lemma closing_details:
  assumes ok: "plans_ok d pid volume plans" and book: "book_ok d"
    and sums: "\<forall>k. sum_of (of_detail k) f_remaining_frozen_volume fs = placed plans k"
    and x: "x \<in> set (map (frozen_detail_of now plans) (db_details d))"
  shows "detail_ok x \<and> detail_backed (db_allocations d @ fs) x"
proof -
  from x obtain y where y: "y \<in> set (db_details d)" "x = frozen_detail_of now plans y" by auto
  have keys: "distinct (map d_position_detail_id (db_details d))"
    using book by (simp add: book_ok_def keys_ok_def)
  have old: "detail_ok y" "detail_backed (db_allocations d) y" using book y by (simp_all add: book_ok_def)
  have "detail_ok x" unfolding y(2) by (rule frozen_detail_ok [OF ok keys y(1) old(1)])
  moreover have "detail_backed (db_allocations d @ fs) x"
    using frozen_detail_frame [OF ok keys y(1), of now] old(2) sums
    by (simp add: detail_backed_def y(2))
  ultimately show ?thesis ..
qed

lemma closing_positions:
  assumes ok: "plans_ok d (p_position_id p) volume plans" and book: "book_ok d"
    and p: "p \<in> set (db_positions d)" and vol: "position_volumes_ok (frozen_position now volume p)"
    and q: "q \<in> set (replace_row p_position_id (frozen_position now volume p) (db_positions d))"
  shows "position_volumes_ok q \<and> position_backed (map (frozen_detail_of now plans) (db_details d)) q"
proof -
  let ?p = "frozen_position now volume p"
  have keys: "distinct (map d_position_detail_id (db_details d))"
    "distinct (map p_position_id (db_positions d))"
    using book by (simp_all add: book_ok_def keys_ok_def)
  have id: "p_position_id ?p = p_position_id p" "p_instrument_type ?p = p_instrument_type p"
    "p_total_volume ?p = p_total_volume p" "p_frozen_volume ?p = p_frozen_volume p + volume"
    by (simp_all add: frozen_position_def Let_def)
  have frozen: "sum_of (of_position k) d_frozen_volume (map (frozen_detail_of now plans) (db_details d))
      = sum_of (of_position k) d_frozen_volume (db_details d)
        + (if k = p_position_id p then volume else 0)" for k
  proof -
    have "sum_of (of_position k) d_frozen_volume (map (frozen_detail_of now plans) (db_details d))
        = sum_of (of_position k)
            (\<lambda>x. d_frozen_volume x + placed plans (d_position_detail_id x)) (db_details d)"
      using frozen_detail_frame [OF ok keys(1)]
      by (subst sum_of_map) (auto simp: of_position_def intro!: sum_of_cong)
    with placed_sum [OF ok keys(1), of k] show ?thesis by (simp add: sum_of_add)
  qed
  have remaining: "sum_of (of_position k) d_remaining_volume (map (frozen_detail_of now plans) (db_details d))
      = sum_of (of_position k) d_remaining_volume (db_details d)" for k
    using frozen_detail_frame [OF ok keys(1)]
    by (subst sum_of_map) (auto simp: of_position_def intro!: sum_of_cong)
  show ?thesis
  proof (cases "q = ?p")
    case True
    have "position_backed (db_details d) p" using book p by (simp add: book_ok_def)
    with True vol id frozen remaining show ?thesis by (simp add: position_backed_def)
  next
    case False
    with q have "q \<in> set (db_positions d)" "p_position_id q \<noteq> p_position_id p"
      by (auto simp: replace_row_def id split: if_splits)
    with book frozen remaining show ?thesis by (simp add: book_ok_def position_backed_def)
  qed
qed

lemma closing_orders:
  assumes book: "book_ok d" and fresh: "o_order_id r \<notin> o_order_id ` set (db_orders d)"
      "o_order_id r \<notin> f_order_id ` set (db_allocations d)"
    and sums: "\<forall>oid. sum_of (of_order oid) f_remaining_frozen_volume fs
              = (if oid = o_order_id r then o_total_volume r else 0)
            \<and> sum_of (of_order oid) f_remaining_frozen_commission fs
              = (if oid = o_order_id r then o_frozen_commission r else 0)"
    and vol: "o_frozen_position_volume r = o_total_volume r"
    and x: "x \<in> set (db_orders d @ [r])"
  shows "order_backed (db_allocations d @ fs) x"
proof (cases "x = r")
  case True
  have "sum_of (of_order (o_order_id r)) f_remaining_frozen_volume (db_allocations d) = 0"
    "sum_of (of_order (o_order_id r)) f_remaining_frozen_commission (db_allocations d) = 0"
    using fresh(2) by (auto simp: of_order_def image_iff intro!: sum_of_zero)
  with True sums vol show ?thesis by (simp add: order_backed_def)
next
  case False
  with x have old: "x \<in> set (db_orders d)" by simp
  with fresh(1) have "o_order_id x \<noteq> o_order_id r" by (metis imageI)
  with old book sums show ?thesis by (simp add: book_ok_def order_backed_def)
qed

lemma closing_order_book:
  assumes eff: "placement_effect d now a d' r a'" and book: "book_ok d"
    and a: "get_account d (o_account_id r) = Some b" and same: "pools a = pools b"
      "a_account_id a = a_account_id b"
    and fresh: "fresh_creation d ids" "o_order_id r = ki_order_id ids"
    and closes: "closing_effect d now ids d' r"
  shows "book_ok d'"
proof -
  note e = eff [unfolded placement_effect_def]
  from closes obtain p plans fs where p: "p \<in> set (db_positions d)"
    and ok: "plans_ok d (p_position_id p) (o_total_volume r) plans"
    and vol: "position_volumes_ok (frozen_position now (o_total_volume r) p)"
    and rows: "db_positions d' = replace_row p_position_id (frozen_position now (o_total_volume r) p)
        (db_positions d)" "db_details d' = map (frozen_detail_of now plans) (db_details d)"
      "db_allocations d' = db_allocations d @ fs"
    and held: "o_frozen_position_volume r = o_total_volume r"
    and details: "\<forall>k. sum_of (of_detail k) f_remaining_frozen_volume fs = placed plans k"
    and orders: "\<forall>oid. sum_of (of_order oid) f_remaining_frozen_volume fs
              = (if oid = o_order_id r then o_total_volume r else 0)
            \<and> sum_of (of_order oid) f_remaining_frozen_commission fs
              = (if oid = o_order_id r then o_frozen_commission r else 0)"
    and ids: "map f_allocation_id fs = map (ki_allocation ids) [0..<length fs]"
    and fs: "\<forall>f \<in> set fs. allocation_ok f \<and> is_money (f_released_commission f)
             \<and> is_money (f_remaining_frozen_commission f) \<and> is_money (f_consumed_commission f)"
    unfolding closing_effect_def by blast
  have keys: "distinct (map d_position_detail_id (db_details d))"
    using book by (simp add: book_ok_def keys_ok_def)
  have "map d_position_detail_id (db_details d') = map d_position_detail_id (db_details d)"
    using frozen_detail_frame [OF ok keys] by (simp add: rows cong: map_cong)
  moreover have "distinct (map f_allocation_id (db_allocations d'))"
    using fresh book
    by (auto simp: rows ids book_ok_def keys_ok_def fresh_creation_def distinct_map inj_on_def)
  moreover have "map p_position_id (db_positions d') = map p_position_id (db_positions d)"
    using book by (simp add: rows)
  moreover have "map position_key (db_positions d') = map position_key (db_positions d)"
    unfolding rows
    by (rule map_replace_same_key [OF _ p])
       (use book in \<open>simp_all add: book_ok_def keys_ok_def frozen_position_def position_key_def Let_def\<close>)
  ultimately have "keys_ok d'"
    using e book fresh
    by (simp add: book_ok_def keys_ok_def fresh_creation_def position_key_def [abs_def])
  moreover have "\<forall>x \<in> set (db_orders d'). order_row_ok x \<and> order_backed (db_allocations d') x"
  proof -
    have "o_order_id r \<notin> o_order_id ` set (db_orders d)"
      "o_order_id r \<notin> f_order_id ` set (db_allocations d)"
      using fresh by (simp_all add: fresh_creation_def)
    from closing_orders [OF book this orders held] e book show ?thesis
      by (auto simp: rows book_ok_def)
  qed
  ultimately show ?thesis
    using placement_accounts [OF eff book a same] closing_details [OF ok book details]
      closing_positions [OF ok book p vol] fs book
    unfolding book_ok_def rows by (auto simp: book_ok_def)
qed

section \<open>\<open>create_order\<close> as a whole\<close>

lemma scoped_client_order_SomeD:
  "scoped_client_order d sc aid cid = Some r \<Longrightarrow>
     r \<in> set (db_orders d) \<and> o_account_id r = aid \<and> o_client_order_id r = cid"
  by (auto simp: scoped_client_order_def get_client_order_def split: option.splits if_splits
      dest!: first_row_SomeD)

lemma get_client_order_SomeD:
  "get_client_order d aid cid = Some r \<Longrightarrow>
     r \<in> set (db_orders d) \<and> o_account_id r = aid \<and> o_client_order_id r = cid"
  by (auto simp: get_client_order_def dest!: first_row_SomeD)

lemma create_order_Inr:
  assumes "create_order d env ids scope pl q = Inr (d', r)"
  obtains
    (replayed) sc where "scope = Some sc" "d' = d" "r \<in> set (db_orders d)"
      "o_account_id r = rq_account_id q" "o_client_order_id r = rq_client_order_id q"
      "validate_idempotent_order_request r q = Inr ()"
  | (placed) sc a offset pn a1 where "scope = Some sc" "check_placement pl q = Inr ()"
      "scoped_account d sc (rq_account_id q) = Some a"
      "get_client_order d (rq_account_id q) (rq_client_order_id q) = None"
      "rq_offset_flag q = Some offset" "prepare_order d env q offset a = Inr pn"
      "a_account_type a \<noteq> ''STOCK''" "admit_account env pn a = Inr a1"
      "place_order d env ids pl pn a1 = Inr (d', r)"
proof -
  from assms obtain sc where sc: "scope = Some sc" by (cases scope) (simp_all add: create_order_def)
  with assms have check: "check_placement pl q = Inr ()"
    by (auto simp: create_order_def rbind_Inr_iff)
  from assms sc check obtain a where a: "scoped_account d sc (rq_account_id q) = Some a"
    by (cases "scoped_account d sc (rq_account_id q)") (simp_all add: create_order_def)
  show thesis
  proof (cases "scoped_client_order d sc (rq_account_id q) (rq_client_order_id q)")
    case (Some r')
    with assms sc check a have "d' = d" "r' = r" "validate_idempotent_order_request r q = Inr ()"
      by (auto simp: create_order_def rbind_Inr_iff)
    with sc scoped_client_order_SomeD [OF Some] show thesis by (intro replayed [of sc]) simp_all
  next
    case None
    with assms sc check a obtain offset pn where
      pn: "rq_offset_flag q = Some offset" "prepare_order d env q offset a = Inr pn"
      and rest: "a_account_type a \<noteq> ''STOCK''"
        "(case get_client_order d (rq_account_id q) (rq_client_order_id q) of
            Some r \<Rightarrow> rbind (validate_idempotent_order_request r q) (\<lambda>_. Inr (d, r))
          | None \<Rightarrow> rbind (admit_account env pn a) (place_order d env ids pl pn)) = Inr (d', r)"
      by (cases "rq_offset_flag q") (auto simp: create_order_def rbind_Inr_iff split: if_splits)
    show thesis
    proof (cases "get_client_order d (rq_account_id q) (rq_client_order_id q)")
      case (Some r')
      with rest have "d' = d" "r' = r" "validate_idempotent_order_request r q = Inr ()"
        by (auto simp: rbind_Inr_iff)
      with sc get_client_order_SomeD [OF Some] show thesis by (intro replayed [of sc]) simp_all
    next
      case none: None
      with rest obtain a1 where "admit_account env pn a = Inr a1"
        "place_order d env ids pl pn a1 = Inr (d', r)" by (auto simp: rbind_Inr_iff)
      with placed [OF sc check a none pn rest(1)] show thesis by blast
    qed
  qed
qed

lemma scoped_account_SomeD:
  assumes "scoped_account d sc aid = Some a" "keys_ok d"
  shows "get_account d aid = Some a" "a \<in> set (db_accounts d)" "a_account_id a = aid"
    "sc_is_admin sc \<or> sc_user_id sc = Some (a_user_id a)"
proof -
  have "a \<in> set (db_accounts d) \<and> a_account_id a = aid
      \<and> (sc_is_admin sc \<or> sc_user_id sc = Some (a_user_id a))"
    using assms(1)
    by (auto simp: scoped_account_def get_account_def get_owned_account_def
        split: if_splits option.splits dest!: find_row_SomeD first_row_SomeD)
  then show "a \<in> set (db_accounts d)" "a_account_id a = aid"
    "sc_is_admin sc \<or> sc_user_id sc = Some (a_user_id a)" by simp_all
  with assms(2) show "get_account d aid = Some a"
    unfolding get_account_def keys_ok_def by (metis find_row_distinct)
qed

text \<open>What a newly placed order leaves in the tables.\<close>

definition creation_effect ::
  "db \<Rightarrow> order_env \<Rightarrow> create_ids \<Rightarrow> order_request \<Rightarrow> order_plan \<Rightarrow> account \<Rightarrow> db \<Rightarrow> order \<Rightarrow> account
   \<Rightarrow> bool" where
  "creation_effect d env ids q pn a d' r a' \<longleftrightarrow>
     placement_effect d (ce_accepted_at env) (a\<lparr>a_trading_day := Some (pn_trading_day pn)\<rparr>) d' r a'
     \<and> o_order_id r = ki_order_id ids \<and> o_account_id r = rq_account_id q
     \<and> o_client_order_id r = rq_client_order_id q \<and> o_total_volume r = rq_volume q
     \<and> 0 < rq_volume q \<and> o_offset_flag r = rq_offset_flag q
     \<and> (if rq_offset_flag q = Some OPEN
        then db_positions d' = db_positions d \<and> db_details d' = db_details d
          \<and> db_allocations d' = db_allocations d \<and> o_frozen_position_volume r = 0
        else closing_effect d (ce_accepted_at env) ids d' r)"

lemma created_effect:
  assumes acc: "scoped_account d sc (rq_account_id q) = Some a"
    and off: "rq_offset_flag q = Some offset" and prep: "prepare_order d env q offset a = Inr pn"
    and admit: "admit_account env pn a = Inr a1"
    and place: "place_order d env ids pl pn a1 = Inr (d', r)" and book: "book_ok d"
  obtains a' where "creation_effect d env ids q pn a d' r a'"
    "get_account d (o_account_id r) = Some a"
proof -
  have keys: "keys_ok d" using book by (simp add: book_ok_def)
  note got = scoped_account_SomeD [OF acc keys]
  note pn = prepare_order_Inr [OF prep]
  have a1: "a1 = a\<lparr>a_trading_day := Some (pn_trading_day pn)\<rparr>" using admit_account_Inr [OF admit] by simp
  have ok: "account_row_ok a1" using book got(2) by (simp add: a1 book_ok_def account_row_ok_def)
  have vol: "0 < rq_volume (pn_request pn)" using pn validated_volume by auto
  show thesis
  proof (cases "offset = OPEN")
    case True
    then have open_pn: "pn_offset pn = OPEN" "terms_ok OPEN (ft_is_option (pn_fees pn)) (pn_frozen pn)"
      using pn by simp_all
    from place_opening [OF place open_pn vol ok] obtain a' where
      "placement_effect d (ce_accepted_at env) a1 d' r a'"
      "r = accepted_order (ce_accepted_at env) (ki_order_id ids) pl pn (fz_commission (pn_frozen pn)) 0"
      "db_positions d' = db_positions d" "db_details d' = db_details d"
      "db_allocations d' = db_allocations d" by blast
    with True off pn vol got show thesis
      by (intro that [of a']) (simp_all add: creation_effect_def a1)
  next
    case False
    then have closing: "pn_offset pn \<noteq> OPEN"
      "terms_ok (pn_offset pn) (ft_is_option (pn_fees pn)) (pn_frozen pn)" using pn by simp_all
    from place_closing [OF place closing vol ok keys] obtain a' c where
      "placement_effect d (ce_accepted_at env) a1 d' r a'"
      "r = accepted_order (ce_accepted_at env) (ki_order_id ids) pl pn c (rq_volume (pn_request pn))"
      "closing_effect d (ce_accepted_at env) ids d' r" by blast
    with False off pn vol got show thesis
      by (intro that [of a']) (simp_all add: creation_effect_def a1)
  qed
qed

lemma creation_book:
  assumes eff: "creation_effect d env ids q pn a d' r a'" and book: "book_ok d"
    and a: "get_account d (o_account_id r) = Some a" and fresh: "fresh_creation d ids"
  shows "book_ok d'"
proof -
  let ?a1 = "a\<lparr>a_trading_day := Some (pn_trading_day pn)\<rparr>"
  have same: "pools ?a1 = pools a" "a_account_id ?a1 = a_account_id a" by (simp_all add: pools_def)
  have place: "placement_effect d (ce_accepted_at env) ?a1 d' r a'"
    and id: "o_order_id r = ki_order_id ids" using eff by (simp_all add: creation_effect_def)
  show ?thesis
  proof (cases "rq_offset_flag q = Some OPEN")
    case True
    with eff show ?thesis
      by (intro opening_order_book [OF place book a same fresh id]) (simp_all add: creation_effect_def)
  next
    case False
    with eff show ?thesis
      by (intro closing_order_book [OF place book a same fresh id]) (simp add: creation_effect_def)
  qed
qed

end
