(* ===== verification/Trading.thy ===== *)
theory Trading
  imports Settlement_Ledger Order_Cancellation_Book Order_Creation_Book
begin

text \<open>
  The trading core as a state machine over the tables: the creation of orders, cancellations,
  settlements of fills and margin adjustments of option orders are its transactions, in any order and
  with any arguments. The consistency of the book and of the ledger is an invariant of it, and orders
  only progress.
\<close>

inductive trading_step :: "db \<Rightarrow> db \<Rightarrow> bool" where
  create_step: "create_order d env cids scope pl q = Inr (d', r) \<Longrightarrow> fresh_creation d cids \<Longrightarrow>
    trading_step d d'"
| cancel_step: "cancel_order d ids now oid aid scope internal auto = Inr (d', r) \<Longrightarrow>
    trading_step d d'"
| settle_step: "settle req clock ratio ids d cmd = Inr (d', res) \<Longrightarrow> fresh_ids d ids \<Longrightarrow>
    trading_step d d'"
| adjust_step: "adjust req clock fo fa d oid = Inr (d', action) \<Longrightarrow> trading_step d d'"

definition consistent :: "db \<Rightarrow> bool" where
  "consistent d \<longleftrightarrow> book_ok d \<and> settle_ready d \<and> ledger_ok d"

section \<open>Creation\<close>

lemma creation_details:
  assumes "creation_effect d env ids q pn a d' r a'" "book_ok d"
  obtains g where "db_details d' = map g (db_details d)"
    "\<forall>x \<in> set (db_details d). d_position_detail_id (g x) = d_position_detail_id x
       \<and> d_account_id (g x) = d_account_id x \<and> d_remaining_margin (g x) = d_remaining_margin x
       \<and> d_remaining_volume (g x) = d_remaining_volume x
       \<and> d_original_volume (g x) = d_original_volume x"
proof (cases "rq_offset_flag q = Some OPEN")
  case True
  with assms(1) show thesis by (intro that [of "\<lambda>x. x"]) (simp_all add: creation_effect_def)
next
  case False
  with assms(1) have "closing_effect d (ce_accepted_at env) ids d' r"
    by (simp add: creation_effect_def)
  then obtain p :: position and plans where ok: "plans_ok d (p_position_id p) (o_total_volume r) plans"
    and g: "db_details d' = map (frozen_detail_of (ce_accepted_at env) plans) (db_details d)"
    unfolding closing_effect_def by blast
  have "distinct (map d_position_detail_id (db_details d))"
    using assms(2) by (simp add: book_ok_def keys_ok_def)
  from frozen_detail_frame [OF ok this] g show thesis by (intro that) blast+
qed

lemma creation_links:
  assumes eff: "creation_effect d env ids q pn a d' r a'" and fresh: "fresh_creation d ids"
    and ready: "settle_ready d"
  shows "distinct (map (\<lambda>f. (f_order_id f, f_position_detail_id f)) (db_allocations d'))"
proof (cases "rq_offset_flag q = Some OPEN")
  case True
  with eff ready show ?thesis by (simp add: creation_effect_def settle_ready_def)
next
  case False
  with eff have closes: "closing_effect d (ce_accepted_at env) ids d' r"
    and id: "o_order_id r = ki_order_id ids" by (simp_all add: creation_effect_def)
  from closes obtain p :: position and plans fs where ok: "plans_ok d (p_position_id p) (o_total_volume r) plans"
    and rows: "db_allocations d' = db_allocations d @ fs"
      "map (\<lambda>f. (f_order_id f, f_position_detail_id f)) fs
        = map (\<lambda>fp. (o_order_id r, d_position_detail_id (fp_detail fp))) plans"
    unfolding closing_effect_def by blast
  have "distinct (map (\<lambda>f. (f_order_id f, f_position_detail_id f)) fs)"
    using ok unfolding rows(2) by (auto simp: plans_ok_def distinct_map inj_on_def)
  moreover have "x \<notin> set (map (\<lambda>f. (f_order_id f, f_position_detail_id f)) fs)"
    if x: "x \<in> set (map (\<lambda>f. (f_order_id f, f_position_detail_id f)) (db_allocations d))" for x
  proof -
    have "fst x \<noteq> o_order_id r" using x fresh id by (auto simp: fresh_creation_def image_iff)
    then show ?thesis unfolding rows(2) by auto
  qed
  ultimately show ?thesis
    using ready unfolding rows(1) settle_ready_def map_append distinct_append by blast
qed

lemma creation_ledger:
  assumes eff: "creation_effect d env ids q pn a d' r a'" and book: "book_ok d"
    and a: "get_account d (o_account_id r) = Some a" and fresh: "fresh_creation d ids"
    and ready: "settle_ready d" and ledger: "ledger_ok d"
  shows "settle_ready d' \<and> ledger_ok d'"
proof -
  from creation_details [OF eff book] obtain g where g: "db_details d' = map g (db_details d)"
    and kept: "\<forall>x \<in> set (db_details d). d_position_detail_id (g x) = d_position_detail_id x
       \<and> d_account_id (g x) = d_account_id x \<and> d_remaining_margin (g x) = d_remaining_margin x
       \<and> d_remaining_volume (g x) = d_remaining_volume x
       \<and> d_original_volume (g x) = d_original_volume x" by blast
  have e: "db_orders d' = db_orders d @ [r]" "db_trades d' = db_trades d"
    "db_accounts d' = replace_row a_account_id a' (db_accounts d)"
    "db_trade_allocations d' = db_trade_allocations d" "o_traded_volume r = 0"
    "o_order_id r = ki_order_id ids"
    using eff by (simp_all add: creation_effect_def placement_effect_def)
  have acc: "a_account_id a' = a_account_id a" "a_used_margin a' = a_used_margin a"
  proof -
    have "frozen_frame (a\<lparr>a_trading_day := Some (pn_trading_day pn), a_updated_at := ce_accepted_at env\<rparr>) a'"
      using eff by (simp add: creation_effect_def placement_effect_def)
    from frozen_frame_kept [OF this] show "a_account_id a' = a_account_id a"
      "a_used_margin a' = a_used_margin a" by simp_all
  qed
  have "trades_backed d'"
  proof -
    have "sum_of (\<lambda>t. t_order_id t = o_order_id r) t_trade_volume (db_trades d) = 0"
      using fresh e(6) by (auto simp: fresh_creation_def image_iff intro!: sum_of_zero)
    with ledger e show ?thesis by (auto simp: ledger_ok_def trades_backed_def)
  qed
  moreover have sums: "sum_of (\<lambda>dt. d_account_id dt = aid) d_remaining_margin (db_details d')
        = sum_of (\<lambda>dt. d_account_id dt = aid) d_remaining_margin (db_details d)" for aid
    using kept unfolding g by (subst sum_of_map) (auto intro!: sum_of_cong)
  have "margin_backed d'"
  proof (rule margin_backed_account [where d = d and a = a and aid = "a_account_id a" and m = 0])
    show "margin_backed d" using ledger by (simp add: ledger_ok_def)
    have aa: "a_account_id a = o_account_id r" using book_ok_account [OF book a] by simp
    with a show "get_account d (a_account_id a) = Some a" by simp
    show "db_accounts d' = replace_row a_account_id a' (db_accounts d)" by (rule e(3))
  qed (use acc book sums in \<open>simp_all add: book_ok_def keys_ok_def\<close>)
  moreover have "audit_backed d'"
    using ledger kept by (auto simp: ledger_ok_def audit_backed_def g e(4))
  moreover have "settle_ready d'"
    using creation_links [OF eff fresh ready] ready kept by (auto simp: settle_ready_def g)
  ultimately show ?thesis by (simp add: ledger_ok_def)
qed

lemma create_consistent:
  assumes run: "create_order d env ids scope pl q = Inr (d', r)" and fresh: "fresh_creation d ids"
    and ok: "consistent d"
  shows "consistent d'"
  using run
proof (cases rule: create_order_Inr)
  case (replayed sc)
  with ok show ?thesis by simp
next
  case (placed sc a offset pn a1)
  have parts: "book_ok d" "settle_ready d" "ledger_ok d" using ok by (simp_all add: consistent_def)
  from created_effect [OF placed(3,5,6,8,9) parts(1)] obtain a' where
    eff: "creation_effect d env ids q pn a d' r a'" and a: "get_account d (o_account_id r) = Some a" .
  from creation_book [OF eff parts(1) a fresh] creation_ledger [OF eff parts(1) a fresh parts(2,3)]
  show ?thesis by (simp add: consistent_def)
qed

section \<open>Cancellation\<close>

text \<open>What a cancellation leaves of the tables the ledger reads.\<close>

lemma cancelled_allocation_frame [simp]:
  "f_order_id (cancelled_allocation now r f) = f_order_id f"
  "f_position_detail_id (cancelled_allocation now r f) = f_position_detail_id f"
  by (simp_all add: cancelled_allocation_def)

definition details_kept :: "db \<Rightarrow> db \<Rightarrow> bool" where
  "details_kept d d' \<longleftrightarrow>
     (\<exists>g. db_details d' = map g (db_details d)
        \<and> (\<forall>dt. d_position_detail_id (g dt) = d_position_detail_id dt
             \<and> d_account_id (g dt) = d_account_id dt
             \<and> d_remaining_margin (g dt) = d_remaining_margin dt
             \<and> d_remaining_volume (g dt) = d_remaining_volume dt
             \<and> d_original_volume (g dt) = d_original_volume dt))
     \<and> map (\<lambda>f. (f_order_id f, f_position_detail_id f)) (db_allocations d')
         = map (\<lambda>f. (f_order_id f, f_position_detail_id f)) (db_allocations d)"

lemma details_keptI:
  assumes "db_details d' = map g (db_details d)"
    "\<And>dt. d_position_detail_id (g dt) = d_position_detail_id dt
       \<and> d_account_id (g dt) = d_account_id dt \<and> d_remaining_margin (g dt) = d_remaining_margin dt
       \<and> d_remaining_volume (g dt) = d_remaining_volume dt
       \<and> d_original_volume (g dt) = d_original_volume dt"
    "map (\<lambda>f. (f_order_id f, f_position_detail_id f)) (db_allocations d')
       = map (\<lambda>f. (f_order_id f, f_position_detail_id f)) (db_allocations d)"
  shows "details_kept d d'"
  unfolding details_kept_def using assms by blast

lemma details_kept_ready: "details_kept d d' \<Longrightarrow> settle_ready d \<Longrightarrow> settle_ready d'"
  unfolding details_kept_def settle_ready_def by auto

lemma details_kept_margin:
  "details_kept d d' \<Longrightarrow> sum_of (\<lambda>dt. d_account_id dt = aid) d_remaining_margin (db_details d')
     = sum_of (\<lambda>dt. d_account_id dt = aid) d_remaining_margin (db_details d)"
  unfolding details_kept_def by (auto simp: sum_of_map)

lemma details_kept_audit:
  "details_kept d d' \<Longrightarrow> db_trade_allocations d' = db_trade_allocations d \<Longrightarrow> audit_backed d \<Longrightarrow>
     audit_backed d'"
  unfolding details_kept_def audit_backed_def by auto

lemma cancel_details_kept:
  assumes "is_close_flag (o_offset_flag r) \<Longrightarrow> cancel_close_effect d now r d'"
    "\<not> is_close_flag (o_offset_flag r) \<Longrightarrow> db_positions d' = db_positions d
       \<and> db_details d' = db_details d \<and> db_allocations d' = db_allocations d"
  shows "details_kept d d'"
proof (cases "is_close_flag (o_offset_flag r)")
  case True
  with assms(1) obtain fs where "db_details d' = map (released_detail now fs) (db_details d)"
    "db_allocations d' = map (cancelled_allocation now r) (db_allocations d)"
    unfolding cancel_close_effect_def by blast
  then show ?thesis by (intro details_keptI [of _ "released_detail now fs"]) (simp_all add: comp_def)
next
  case False
  with assms(2) show ?thesis by (intro details_keptI [of _ "\<lambda>x. x"]) simp_all
qed

lemma cancel_located_ledger:
  assumes run: "cancel_located d ids now auto r a = Inr (d', r')" and book: "book_ok d"
    and r: "r \<in> set (db_orders d)" and a: "a \<in> set (db_accounts d)"
    and same: "o_account_id r = a_account_id a" and ready: "settle_ready d" and ledger: "ledger_ok d"
  shows "settle_ready d' \<and> ledger_ok d'"
proof -
  from cancel_located_tables [OF run book r a same] obtain a' where
    eff: "cancel_effect d now auto r a d' r' a'" and kept: "details_kept d d'"
    using cancel_details_kept by metis
  note e = cancel_effectD [OF eff]
  have rows: "order_row_ok r" "account_row_ok a" using book r a by (simp_all add: book_ok_def)
  have keys: "distinct (map o_order_id (db_orders d))" "distinct (map a_account_id (db_accounts d))"
    using book by (simp_all add: book_ok_def keys_ok_def)
  have "map (\<lambda>r. (o_order_id r, o_traded_volume r)) (db_orders d')
      = map (\<lambda>r. (o_order_id r, o_traded_volume r)) (db_orders d)"
    unfolding e(4) by (rule map_replace_same_key [OF keys(1) r]) (simp_all add: e(1))
  then have "trades_backed d'"
    using ledger e(6) by - (rule trades_backed_same [of d], simp_all add: ledger_ok_def)
  moreover have "margin_backed d'"
  proof (rule margin_backed_account [where d = d and a = a and aid = "a_account_id a" and m = 0])
    show "margin_backed d" using ledger by (simp add: ledger_ok_def)
    show "get_account d (a_account_id a) = Some a"
      unfolding get_account_def by (rule find_row_distinct [OF keys(2) a])
    show "db_accounts d' = replace_row a_account_id (a'\<lparr>a_updated_at := now\<rparr>) (db_accounts d)"
      by (rule e(5))
  qed (use keys cancel_release_account_Inr [OF e(2,3) rows] details_kept_margin [OF kept] in simp_all)
  moreover have "audit_backed d'"
    using details_kept_audit [OF kept] ledger eff by (simp add: ledger_ok_def cancel_effect_def)
  ultimately show ?thesis using details_kept_ready [OF kept ready] by (simp add: ledger_ok_def)
qed

lemma cancel_consistent:
  assumes "cancel_order d ids now oid aid scope internal auto = Inr (d', r')" "consistent d"
  shows "consistent d'"
proof -
  have book: "book_ok d'" using cancel_order_book [OF assms(1)] assms(2) by (simp add: consistent_def)
  from assms(1) show ?thesis
  proof (rule cancel_order_Inr)
    fix sc r a
    assume loc: "locate_order d sc (strip oid) (strip aid) = Inr (r, a)"
      and "d' = d \<and> r' = r \<and> o_status r \<in> {CANCELLED, PARTIALLY_CANCELLED} \<union> (if auto then {FILLED} else {})
       \<or> o_status r \<notin> {CANCELLED, PARTIALLY_CANCELLED}
         \<and> cancel_located d ids now auto r a = Inr (d', r')"
    then consider "d' = d" | "cancel_located d ids now auto r a = Inr (d', r')" by blast
    then show ?thesis
    proof cases
      case 2
      with cancel_located_ledger [OF 2] locate_order_Inr [OF loc] assms(2) book
      show ?thesis by (simp add: consistent_def)
    qed (use assms(2) in simp)
  qed
qed

section \<open>Adjustment\<close>

lemma adjust_Inr:
  assumes "adjust req clock fo fa d oid = Inr (d', action)" "d' \<noteq> d"
  obtains r a ins m r' a' where "get_order d oid = Some r"
    "get_account d (o_account_id r) = Some a"
    "ensure_locked req clock False r a ins = Inr (m, r', a')"
    "d' = add_events (adjust_events fo fa r a r' a') (rechecked r' a' d)"
proof -
  from assms obtain r a ins m r' a' where
    "get_order d oid = Some r" "get_account d (o_account_id r) = Some a"
    "ensure_locked req clock False r a ins = Inr (m, r', a')"
    "d' = add_events (adjust_events fo fa r a r' a') (put_order r' (put_account a' d))"
    by (auto simp: adjust_def rbind_Inr_iff split: option.splits if_splits)
  then show thesis by (intro that [of r a ins m r' a']) (simp_all add: rechecked_def)
qed

lemma adjust_consistent:
  assumes run: "adjust req clock fo fa d oid = Inr (d', action)" and ok: "consistent d"
  shows "consistent d'"
proof (cases "d' = d")
  case True
  with ok show ?thesis by simp
next
  case False
  from run False obtain r a ins m r' a' where r: "get_order d oid = Some r"
    and a: "get_account d (o_account_id r) = Some a"
    and lock: "ensure_locked req clock False r a ins = Inr (m, r', a')"
    and d': "d' = add_events (adjust_events fo fa r a r' a') (rechecked r' a' d)"
    by (rule adjust_Inr)
  have book: "book_ok d" and ledger: "ledger_ok d" and ready: "settle_ready d"
    using ok by (simp_all add: consistent_def)
  have step: "margin_step_ok r a r' a'"
    using ensure_locked_step [OF lock] book_ok_order [OF book r] book_ok_account [OF book a]
    by blast
  have "book_ok (rechecked r' a' d)"
    unfolding rechecked_def by (rule margin_step_book [OF book r a step])
  moreover have "ledger_ok (rechecked r' a' d)" by (rule recheck_ledger [OF book ledger r a step])
  ultimately show ?thesis using ready by (simp add: consistent_def d') (simp add: rechecked_def)
qed

lemma trading_step_consistent: "trading_step d d' \<Longrightarrow> consistent d \<Longrightarrow> consistent d'"
proof (induction rule: trading_step.induct)
  case (settle_step req clock ratio ids d cmd d' res)
  then show ?case using settle_book settle_ledger unfolding consistent_def by metis
qed (auto intro: create_consistent cancel_consistent adjust_consistent)

section \<open>Progress\<close>

definition order_evolves :: "order \<Rightarrow> order \<Rightarrow> bool" where
  "order_evolves r r' \<longleftrightarrow>
     o_order_id r' = o_order_id r \<and> o_total_volume r' = o_total_volume r
     \<and> o_traded_volume r \<le> o_traded_volume r' \<and> o_cancelled_volume r \<le> o_cancelled_volume r'
     \<and> o_remaining_volume r' \<le> o_remaining_volume r
     \<and> (o_status r \<notin> set active_order_statuses \<longrightarrow>
          o_status r' = o_status r \<and> o_traded_volume r' = o_traded_volume r
          \<and> o_remaining_volume r' = o_remaining_volume r
          \<and> o_cancelled_volume r' = o_cancelled_volume r)"

lemma order_evolves_refl [simp]: "order_evolves r r"
  by (simp add: order_evolves_def)

lemma order_evolves_trans: "order_evolves r s \<Longrightarrow> order_evolves s t \<Longrightarrow> order_evolves r t"
  unfolding order_evolves_def by auto

lemma evolves_replace:
  assumes keys: "distinct (map o_order_id rs)" and r: "r \<in> set rs" and ev: "order_evolves r r'"
  shows "list_all2 order_evolves rs (replace_row o_order_id r' rs)"
proof -
  have id: "o_order_id r' = o_order_id r" using ev by (simp add: order_evolves_def)
  have "order_evolves x (if o_order_id x = o_order_id r' then r' else x)" if x: "x \<in> set rs" for x
  proof (cases "o_order_id x = o_order_id r'")
    case True
    with id have "x = r" using distinct_key_eq [OF keys x r] by metis
    with True ev show ?thesis by simp
  qed simp
  then show ?thesis by (simp add: replace_row_def list_all2_map2 list.rel_refl_strong)
qed

lemma evolves_member: "get_order d oid = Some r \<Longrightarrow> r \<in> set (db_orders d)"
  unfolding get_order_def by (rule find_row_SomeD [THEN conjunct1])

lemma book_order_keys: "book_ok d \<Longrightarrow> distinct (map o_order_id (db_orders d))"
  by (simp add: book_ok_def keys_ok_def)

lemma cancel_evolves:
  assumes run: "cancel_order d ids now oid aid scope internal auto = Inr (d', r')" and book: "book_ok d"
  shows "list_all2 order_evolves (db_orders d) (db_orders d') \<and> db_trades d' = db_trades d"
  using run
proof (rule cancel_order_Inr)
  fix sc r a
  assume loc: "locate_order d sc (strip oid) (strip aid) = Inr (r, a)"
    and "d' = d \<and> r' = r \<and> o_status r \<in> {CANCELLED, PARTIALLY_CANCELLED} \<union> (if auto then {FILLED} else {})
     \<or> o_status r \<notin> {CANCELLED, PARTIALLY_CANCELLED}
       \<and> cancel_located d ids now auto r a = Inr (d', r')"
  then consider "d' = d" | "cancel_located d ids now auto r a = Inr (d', r')" by blast
  then show ?thesis
  proof cases
    case 1
    then show ?thesis by (simp add: list.rel_refl)
  next
    case 2
    note l = locate_order_Inr [OF loc]
    from cancel_located_tables [OF 2 book] l obtain a' where
      eff: "cancel_effect d now auto r a d' r' a'" by metis
    note e = cancel_effectD [OF eff]
    have ev: "order_evolves r r'"
      using check_cancellable_Inr [OF e(3)]
      by (auto simp: order_evolves_def e(1) active_order_statuses_def)
    show ?thesis
      using evolves_replace [OF book_order_keys [OF book] l [THEN conjunct1] ev] e(4,6) by simp
  qed
qed

lemma settle_evolves:
  assumes run: "settle req clock ratio ids d cmd = Inr (d', res)" and book: "book_ok d"
  shows "list_all2 order_evolves (db_orders d) (db_orders d')
    \<and> (\<exists>ts. db_trades d' = db_trades d @ ts)"
proof (cases "sr_action res = SETTLED")
  case True
  obtain r a v price r' t where ctx: "fill_context d cmd r a v" and "gate_passed d r"
    and "get_order d' (cmd_order_id cmd) = Some r'" and fills: "order_fills v price r r'"
    and "trade_of_fill cmd v price r t" and rows: "db_trades d' = db_trades d @ [t]"
      "db_orders d' = replace_row o_order_id r' (db_orders d)" "db_batches d' = db_batches d"
    and "res = settled (t_trade_id t) r'"
    by (rule settled_effect [OF run book True])
  have r: "r \<in> set (db_orders d)" using ctx evolves_member unfolding fill_context_def by blast
  have "order_evolves r r'"
    using fills ctx
    by (auto simp: order_evolves_def order_fills_def fill_context_def is_matchable_order_def)
  from evolves_replace [OF book_order_keys [OF book] r this] rows show ?thesis by simp
next
  case False
  from run show ?thesis
  proof (cases rule: settle_cases)
    case unchanged
    then show ?thesis by (simp add: list.rel_refl)
  next
    case (blocked r a v r1 a1 action)
    note rows = fill_context_rows [OF blocked(1) book]
    have step: "margin_step_ok r a r1 a1" by (rule margin_checked_step [OF blocked(3) rows(1,2)])
    have r: "r \<in> set (db_orders d)"
      using blocked(1) evolves_member unfolding fill_context_def by blast
    have "order_evolves r r1" using step by (simp add: order_evolves_def margin_step_ok_def)
    from evolves_replace [OF book_order_keys [OF book] r this] blocked(5) show ?thesis
      by (simp add: put_defs)
  qed (use False in \<open>simp_all add: settled_def\<close>)
qed

lemma adjust_evolves:
  assumes run: "adjust req clock fo fa d oid = Inr (d', action)" and book: "book_ok d"
  shows "list_all2 order_evolves (db_orders d) (db_orders d') \<and> db_trades d' = db_trades d"
proof (cases "d' = d")
  case True
  then show ?thesis by (simp add: list.rel_refl)
next
  case False
  from run False obtain r a ins m r' a' where r: "get_order d oid = Some r"
    and a: "get_account d (o_account_id r) = Some a"
    and lock: "ensure_locked req clock False r a ins = Inr (m, r', a')"
    and d': "d' = add_events (adjust_events fo fa r a r' a') (rechecked r' a' d)"
    by (rule adjust_Inr)
  have "margin_step_ok r a r' a'"
    using ensure_locked_step [OF lock] book_ok_order [OF book r] book_ok_account [OF book a]
    by blast
  then have "order_evolves r r'" by (simp add: order_evolves_def margin_step_ok_def)
  from evolves_replace [OF book_order_keys [OF book] evolves_member [OF r] this] d' show ?thesis
    by (simp add: rechecked_def put_defs)
qed

text \<open>New orders are appended, the orders that were there progress.\<close>

definition orders_progress :: "order list \<Rightarrow> order list \<Rightarrow> bool" where
  "orders_progress xs ys \<longleftrightarrow> (\<exists>zs news. ys = zs @ news \<and> list_all2 order_evolves xs zs)"

lemma orders_progressI: "list_all2 order_evolves xs ys \<Longrightarrow> orders_progress xs ys"
  unfolding orders_progress_def by (intro exI [of _ ys] exI [of _ "[]"]) simp

lemma orders_progress_refl [simp]: "orders_progress xs xs"
  by (intro orders_progressI) (simp add: list.rel_refl)

lemma orders_progress_trans:
  assumes "orders_progress xs ys" "orders_progress ys zs"
  shows "orders_progress xs zs"
proof -
  from assms(1) obtain us n1 where ys: "ys = us @ n1" "list_all2 order_evolves xs us"
    unfolding orders_progress_def by blast
  from assms(2) obtain vs n2 where zs: "zs = vs @ n2" "list_all2 order_evolves (us @ n1) vs"
    unfolding orders_progress_def ys(1) by blast
  from zs(2) obtain v1 v2 where v: "vs = v1 @ v2" "list_all2 order_evolves us v1"
    by (auto simp: list_all2_append1)
  have "list_all2 order_evolves xs v1"
    by (rule list_all2_trans [OF _ ys(2) v(2)]) (rule order_evolves_trans)
  then show ?thesis unfolding orders_progress_def zs(1) v(1) by auto
qed

lemma create_evolves:
  assumes run: "create_order d env ids scope pl q = Inr (d', r)" and book: "book_ok d"
  shows "orders_progress (db_orders d) (db_orders d') \<and> db_trades d' = db_trades d"
  using run
proof (cases rule: create_order_Inr)
  case (placed sc a offset pn a1)
  from created_effect [OF placed(3,5,6,8,9) book] obtain a' where
    "creation_effect d env ids q pn a d' r a'" by blast
  then have rows: "db_orders d' = db_orders d @ [r]" "db_trades d' = db_trades d"
    by (simp_all add: creation_effect_def placement_effect_def)
  have "list_all2 order_evolves (db_orders d) (db_orders d)" by (simp add: list.rel_refl)
  with rows show ?thesis unfolding orders_progress_def by blast
qed simp

lemma trading_step_evolves:
  "trading_step d d' \<Longrightarrow> book_ok d \<Longrightarrow>
     orders_progress (db_orders d) (db_orders d') \<and> (\<exists>ts. db_trades d' = db_trades d @ ts)"
proof (induction rule: trading_step.induct)
  case (create_step d env cids scope pl q d' r)
  then show ?case using create_evolves [of d env cids scope pl q d' r] by simp
next
  case (cancel_step d ids now oid aid scope internal auto d' r)
  then show ?case
    using cancel_evolves [of d ids now oid aid scope internal auto d' r] orders_progressI by simp
next
  case (settle_step req clock ratio ids d cmd d' res)
  then show ?case
    using settle_evolves [of req clock ratio ids d cmd d' res] orders_progressI by blast
next
  case (adjust_step req clock fo fa d oid d' action)
  then show ?case
    using adjust_evolves [of req clock fo fa d oid d' action] orders_progressI by simp
qed

section \<open>Properties\<close>

text \<open>
  C1: the consistency of book and ledger is an invariant of trading. From consistent tables, whatever
  creations, cancellations, settlements and margin adjustments are committed, in whatever order and
  with whatever arguments (the ids of new rows being new), the tables stay consistent.
\<close>

theorem trading_invariant:
  assumes "trading_step\<^sup>*\<^sup>* d d'" "consistent d"
  shows "consistent d'"
  using assms by (induction rule: rtranclp_induct) (auto intro: trading_step_consistent)

lemma sample_consistent: "consistent sample_db"
  by (simp add: consistent_def sample_book sample_ready sample_ledger)

lemma sample_step: "\<exists>d'. trading_step sample_db d' \<and> db_trades d' \<noteq> []"
proof -
  from sample_open obtain d' res where
    run: "sample_settle ''O1'' 1 = Inr (d', res)" "sr_action res = SETTLED" by blast
  note run' = run(1) [unfolded sample_settle_def]
  have "db_trades d' \<noteq> []" by (rule settled_effect [OF run' sample_book run(2)]) simp
  with settle_step [OF run' sample_fresh] show ?thesis by blast
qed

theorem trading_invariant_witness:
  "\<exists>d'. trading_step sample_db d' \<and> db_trades d' \<noteq> [] \<and> consistent d'"
proof -
  from sample_step obtain d' where d': "trading_step sample_db d'" "db_trades d' \<noteq> []" by blast
  from trading_invariant [OF r_into_rtranclp, OF d'(1) sample_consistent] d' show ?thesis by blast
qed

text \<open>
  C2: orders only progress. Along every run of the trading core no order disappears and new orders are
  appended; the total volume of an order is fixed, its traded and cancelled volume never fall and the
  remaining volume never grows; once it is neither ACCEPTED nor PARTIALLY_FILLED its status and
  volumes never change again; and the trades are a log that is only appended to.
\<close>

theorem orders_only_progress:
  assumes "trading_step\<^sup>*\<^sup>* d d'" "consistent d"
  shows "(\<exists>olds news. db_orders d' = olds @ news \<and> list_all2 order_evolves (db_orders d) olds)
    \<and> (\<exists>ts. db_trades d' = db_trades d @ ts)"
proof -
  from assms(1) have "orders_progress (db_orders d) (db_orders d')
    \<and> (\<exists>ts. db_trades d' = db_trades d @ ts)"
  proof (induction rule: rtranclp_induct)
    case (step y z)
    have "consistent y"
      using step(1) assms(2) by (induction rule: rtranclp_induct) (auto intro: trading_step_consistent)
    then have next_step: "orders_progress (db_orders y) (db_orders z)"
      "\<exists>ts. db_trades z = db_trades y @ ts"
      using trading_step_evolves [OF step(2)] by (simp_all add: consistent_def)
    with step(3) orders_progress_trans show ?case by fastforce
  qed simp
  then show ?thesis unfolding orders_progress_def by blast
qed

theorem orders_only_progress_witness:
  "\<exists>d'. trading_step sample_db d' \<and> 2 \<le> length (db_orders d') \<and> db_trades d' \<noteq> []"
proof -
  from sample_step obtain d' where d': "trading_step sample_db d'" "db_trades d' \<noteq> []" by blast
  from orders_only_progress [OF r_into_rtranclp, OF d'(1) sample_consistent] obtain olds news where
    "db_orders d' = olds @ news" "list_all2 order_evolves (db_orders sample_db) olds" by blast
  then have "2 \<le> length (db_orders d')"
    by (auto simp: sample_db_def dest: list_all2_lengthD)
  with d' show ?thesis by blast
qed

definition account_typed :: "account \<Rightarrow> bool" where
  "account_typed a \<longleftrightarrow> is_money (a_available_cash a) \<and> is_money (a_risk_available_cash a)
     \<and> (\<forall>x \<in> {a_frozen_margin a, a_frozen_cash a, a_frozen_commission a}. is_money x \<and> 0 \<le> x)"

definition order_typed :: "order \<Rightarrow> bool" where
  "order_typed r \<longleftrightarrow> order_volume_balanced r
     \<and> (\<forall>v \<in> {o_traded_volume r, o_remaining_volume r, o_cancelled_volume r}. 0 \<le> v)
     \<and> (\<forall>x \<in> {o_frozen_margin r, o_frozen_cash r, o_frozen_commission r}. is_money x \<and> 0 \<le> x)"

lemma consistent_typed:
  assumes "consistent d"
  shows "list_all account_typed (db_accounts d) \<and> list_all order_typed (db_orders d)
    \<and> list_all position_volumes_ok (db_positions d) \<and> list_all detail_ok (db_details d)"
proof -
  have rows: "\<forall>r \<in> set (db_orders d). order_row_ok r"
    and accounts: "\<forall>a \<in> set (db_accounts d). account_row_ok a \<and> account_backed (db_orders d) a"
    and rest: "\<forall>p \<in> set (db_positions d). position_volumes_ok p" "\<forall>x \<in> set (db_details d). detail_ok x"
    using assms by (simp_all add: consistent_def book_ok_def)
  have "account_typed a" if "a \<in> set (db_accounts d)" for a
    using that rows accounts
    by (auto simp: account_typed_def account_row_ok_def account_backed_def order_row_ok_def
        intro!: sum_of_nonneg)
  moreover have "order_typed r" if "r \<in> set (db_orders d)" for r
    using that rows by (auto simp: order_typed_def order_row_ok_def)
  ultimately show ?thesis using rest by (simp add: list_all_iff)
qed



end
