(* ===== verification/Trading_Day.thy ===== *)
theory Trading_Day
  imports Schema Codes
begin

text \<open>
  \<open>app/services/trading_day_service.py\<close>: the trading day an order belongs to, from the exchange
  calendar and the trading sessions of its product, behind a cache with a time to live. Instants are
  microseconds of UTC, so \<open>astimezone\<close> is the identity; a calendar date is taken in Shanghai time.
\<close>

section \<open>Schedule rows\<close>

text \<open>
  A joined row of \<open>product_trading_schedule\<close> and \<open>trading_calendar\<close>. The sessions are a JSON column:
  a list of objects, some other value, or text that is not JSON. A time that is missing or is not an
  ISO time is \<open>None\<close>, an absent flag is \<open>None\<close>.
\<close>

record raw_session =
  rw_start_at :: "datetime option"
  rw_end_at :: "datetime option"
  rw_allow_open :: "bool option"
  rw_allow_close :: "bool option"

datatype sessions_json = Sessions "raw_session list" | NotAList | InvalidJson

record schedule_row =
  sd_trading_day :: date
  sd_exchange_id :: string
  sd_product_code :: string
  sd_instrument_type :: string
  sd_sessions :: sessions_json
  sd_schedule_status :: string
  sd_calendar_is_open :: bool
  sd_calendar_status :: string

record trading_session =
  ts_trading_day :: date
  ts_start_at :: datetime
  ts_end_at :: datetime
  ts_allow_open :: bool
  ts_allow_close :: bool

record cached_schedule =
  cs_sessions :: "trading_session list"
  cs_expires_at :: int

datatype session_state = SESSION_OPEN | SESSION_CLOSED | SESSION_UNKNOWN

definition shanghai_date :: "datetime \<Rightarrow> date" where
  "shanghai_date t = (t + 28800000000) div 86400000000"

text \<open>\<open>TradingDayRepository\<close>: the rows of a key between two days, by day.\<close>

definition list_candidate_schedules ::
  "schedule_row list \<Rightarrow> string \<Rightarrow> string \<Rightarrow> string \<Rightarrow> date \<Rightarrow> date \<Rightarrow> schedule_row list" where
  "list_candidate_schedules rows ex product it start_day end_day =
     sort_key sd_trading_day (filter (\<lambda>s. sd_exchange_id s = ex \<and> sd_product_code s = product
       \<and> sd_instrument_type s = it \<and> start_day \<le> sd_trading_day s \<and> sd_trading_day s \<le> end_day)
       rows)"

definition list_cash_security_schedules ::
  "schedule_row list \<Rightarrow> string \<Rightarrow> string \<Rightarrow> date \<Rightarrow> date \<Rightarrow> schedule_row list" where
  "list_cash_security_schedules rows ex it start_day end_day =
     sort_key sd_trading_day (filter (\<lambda>s. sd_exchange_id s = ex
       \<and> sd_instrument_type s = it \<and> start_day \<le> sd_trading_day s \<and> sd_trading_day s \<le> end_day)
       rows)"

definition list_account_schedules ::
  "schedule_row list \<Rightarrow> string list \<Rightarrow> date \<Rightarrow> date \<Rightarrow> schedule_row list" where
  "list_account_schedules rows its start_day end_day =
     sort_key sd_trading_day (filter (\<lambda>s. sd_instrument_type s \<in> set its
       \<and> start_day \<le> sd_trading_day s \<and> sd_trading_day s \<le> end_day) rows)"

section \<open>Loading\<close>

definition schedule_open :: "schedule_row \<Rightarrow> bool" where
  "schedule_open s \<longleftrightarrow> sd_calendar_is_open s \<and> upper (sd_calendar_status s) = ''OPEN''
     \<and> upper (sd_schedule_status s) \<in> {''OPEN'', ''READY''}"

definition schedule_invalid :: app_error where
  "schedule_invalid = BusinessRuleError ''TRADING_SCHEDULE_INVALID''"

definition load_session :: "date \<Rightarrow> raw_session \<Rightarrow> trading_session result" where
  "load_session day raw =
     (case (rw_start_at raw, rw_end_at raw) of
        (Some start_at, Some end_at) \<Rightarrow>
          if end_at \<le> start_at then Inl schedule_invalid
          else Inr \<lparr>ts_trading_day = day, ts_start_at = start_at, ts_end_at = end_at,
                    ts_allow_open = (case rw_allow_open raw of None \<Rightarrow> True | Some b \<Rightarrow> b),
                    ts_allow_close = (case rw_allow_close raw of None \<Rightarrow> True | Some b \<Rightarrow> b)\<rparr>
      | _ \<Rightarrow> Inl schedule_invalid)"

definition load_row :: "schedule_row \<Rightarrow> trading_session list result" where
  "load_row s =
     (if \<not> schedule_open s then Inr []
      else case sd_sessions s of
        InvalidJson \<Rightarrow> Inl PyValueError
      | NotAList \<Rightarrow> Inl schedule_invalid
      | Sessions raws \<Rightarrow> rmap (load_session (sd_trading_day s)) raws)"

definition load_rows :: "schedule_row list \<Rightarrow> trading_session list result" where
  "load_rows rows = rbind (rmap load_row rows) (\<lambda>ls. Inr (concat ls))"

text \<open>A key without a product code is a cash security market.\<close>

type_synonym schedule_key = "string \<times> string option \<times> string"

definition load_schedule ::
  "schedule_row list \<Rightarrow> datetime \<Rightarrow> schedule_key \<Rightarrow> trading_session list result" where
  "load_schedule rows now key =
     (case key of (ex, product, it) \<Rightarrow>
        let start_day = shanghai_date now - 1; end_day = shanghai_date now + 14
        in load_rows (case product of
             None \<Rightarrow> list_cash_security_schedules rows ex it start_day end_day
           | Some p \<Rightarrow> list_candidate_schedules rows ex p it start_day end_day))"

section \<open>The cache\<close>

text \<open>\<open>max(int(cache_ttl_seconds), 1)\<close>; \<open>clock\<close> is the monotonic clock, in seconds.\<close>

definition cache_ttl :: "int \<Rightarrow> int" where
  "cache_ttl seconds = max seconds 1"

type_synonym schedule_cache = "schedule_key \<Rightarrow> cached_schedule option"

definition get_schedule ::
  "schedule_row list \<Rightarrow> int \<Rightarrow> schedule_cache \<Rightarrow> int \<Rightarrow> schedule_key \<Rightarrow> datetime
   \<Rightarrow> schedule_cache \<times> trading_session list result" where
  "get_schedule rows ttl cache clock key now =
     (let fresh = (case load_schedule rows now key of
            Inl e \<Rightarrow> (cache, Inl e)
          | Inr sessions \<Rightarrow>
              (cache(key \<mapsto> \<lparr>cs_sessions = sessions, cs_expires_at = clock + cache_ttl ttl\<rparr>),
               Inr sessions))
      in case cache key of
        None \<Rightarrow> fresh
      | Some c \<Rightarrow> if clock < cs_expires_at c then (cache, Inr (cs_sessions c)) else fresh)"

section \<open>The trading day of an order\<close>

definition active_at :: "datetime \<Rightarrow> trading_session \<Rightarrow> bool" where
  "active_at now s \<longleftrightarrow> ts_start_at s \<le> now \<and> now < ts_end_at s"

definition matching_days ::
  "(trading_session \<Rightarrow> bool) \<Rightarrow> datetime \<Rightarrow> trading_session list \<Rightarrow> date list" where
  "matching_days allow now sessions =
     remdups (map ts_trading_day (filter (\<lambda>s. active_at now s \<and> allow s) sessions))"

definition unique_day ::
  "(trading_session \<Rightarrow> bool) \<Rightarrow> datetime \<Rightarrow> trading_session list \<Rightarrow> date result" where
  "unique_day allow now sessions =
     (case matching_days allow now sessions of
        [] \<Rightarrow> Inl (BusinessRuleError (if sessions = [] then ''TRADING_SCHEDULE_MISSING''
                                      else ''OUTSIDE_TRADING_SESSION''))
      | [day] \<Rightarrow> Inr day
      | _ \<Rightarrow> Inl (BusinessRuleError ''TRADING_DAY_AMBIGUOUS''))"

definition text_or_empty :: "string option \<Rightarrow> string" where
  "text_or_empty t = (case t of None \<Rightarrow> [] | Some s \<Rightarrow> s)"

text \<open>The key of a derivative; \<open>normalize_code\<close> raises \<open>ValueError\<close> on an empty text.\<close>

definition derivative_key :: "instrument \<Rightarrow> schedule_key result" where
  "derivative_key ins =
     rbind (normalize_code (i_exchange_id ins)) (\<lambda>ex.
     rbind (normalize_code (text_or_empty (i_product_id ins))) (\<lambda>product.
     rbind (normalize_code (instrument_type_value (i_instrument_type ins))) (\<lambda>it.
     Inr (ex, Some product, it))))"

definition resolve_for_order ::
  "schedule_row list \<Rightarrow> int \<Rightarrow> schedule_cache \<Rightarrow> int \<Rightarrow> instrument \<Rightarrow> offset_flag \<Rightarrow> datetime
   \<Rightarrow> schedule_cache \<times> date result" where
  "resolve_for_order rows ttl cache clock ins offset now =
     (case derivative_key ins of
        Inl e \<Rightarrow> (cache, Inl e)
      | Inr key \<Rightarrow>
        (case get_schedule rows ttl cache clock key now of
           (cache', Inl e) \<Rightarrow> (cache', Inl e)
         | (cache', Inr sessions) \<Rightarrow>
             (cache', case offset of UnknownOffset _ \<Rightarrow> Inl PyValueError
                | OPEN \<Rightarrow> unique_day ts_allow_open now sessions
                | _ \<Rightarrow> unique_day ts_allow_close now sessions)))"

definition resolve_for_cash_security_order ::
  "schedule_row list \<Rightarrow> int \<Rightarrow> schedule_cache \<Rightarrow> int \<Rightarrow> instrument \<Rightarrow> datetime
   \<Rightarrow> schedule_cache \<times> date result" where
  "resolve_for_cash_security_order rows ttl cache clock ins now =
     (case rbind (normalize_code (i_exchange_id ins)) (\<lambda>ex.
           rbind (normalize_code (instrument_type_value (i_instrument_type ins))) (\<lambda>it.
           Inr (ex, None, it))) of
        Inl e \<Rightarrow> (cache, Inl e)
      | Inr key \<Rightarrow>
        (case get_schedule rows ttl cache clock key now of
           (cache', Inl e) \<Rightarrow> (cache', Inl e)
         | (cache', Inr sessions) \<Rightarrow> (cache', unique_day ts_allow_open now sessions)))"

section \<open>The state of a trading day\<close>

text \<open>
  \<open>session_state\<close> catches \<open>BusinessRuleError\<close>, \<open>TypeError\<close> and \<open>ValueError\<close> of the schedule lookup;
  the codes are normalised before that.
\<close>

definition state_of_sessions :: "date \<Rightarrow> datetime \<Rightarrow> trading_session list \<Rightarrow> session_state" where
  "state_of_sessions day now sessions =
     (let target = filter (\<lambda>s. ts_trading_day s = day) sessions
      in if target = [] then SESSION_UNKNOWN
         else if list_ex (\<lambda>s. active_at now s \<and> (ts_allow_open s \<or> ts_allow_close s)) target
         then SESSION_OPEN else SESSION_CLOSED)"

definition session_state ::
  "schedule_row list \<Rightarrow> int \<Rightarrow> schedule_cache \<Rightarrow> int \<Rightarrow> instrument \<Rightarrow> date \<Rightarrow> datetime
   \<Rightarrow> schedule_cache \<times> session_state result" where
  "session_state rows ttl cache clock ins day now =
     (case derivative_key ins of
        Inl e \<Rightarrow> (cache, Inl e)
      | Inr key \<Rightarrow>
        (case get_schedule rows ttl cache clock key now of
           (cache', Inl e) \<Rightarrow> (cache', Inr SESSION_UNKNOWN)
         | (cache', Inr sessions) \<Rightarrow> (cache', Inr (state_of_sessions day now sessions))))"

section \<open>The first trading day of an account\<close>

definition account_instrument_types :: "string \<Rightarrow> string list result" where
  "account_instrument_types account_type =
     rbind (normalize_code account_type) (\<lambda>t.
     if t \<in> {''STOCK'', ''SECURITIES_CASH''} then Inr [''STOCK'', ''CONVERTIBLE_BOND'', ''ETF'']
     else if t \<in> {''FUTURES'', ''OPTION''}
     then Inr [''FUTURES'', ''FUTURES_OPTION'', ''INDEX_OPTION'']
     else Inl (BusinessRuleError ''ACCOUNT_TRADING_DAY_UNSUPPORTED''))"

text \<open>The day of the session that starts next.\<close>

definition next_day :: "datetime \<Rightarrow> trading_session list \<Rightarrow> date result" where
  "next_day now sessions =
     (case sort_key ts_start_at (filter (\<lambda>s. now \<le> ts_start_at s) sessions) of
        [] \<Rightarrow> Inl (BusinessRuleError ''TRADING_SCHEDULE_MISSING'')
      | s # later \<Rightarrow>
          if \<exists>t \<in> set later. ts_start_at t = ts_start_at s \<and> ts_trading_day t \<noteq> ts_trading_day s
          then Inl (BusinessRuleError ''TRADING_DAY_AMBIGUOUS'')
          else Inr (ts_trading_day s))"

definition account_day :: "datetime \<Rightarrow> trading_session list \<Rightarrow> date result" where
  "account_day now sessions =
     (case matching_days (\<lambda>_. True) now sessions of
        [] \<Rightarrow> next_day now sessions
      | [day] \<Rightarrow> Inr day
      | _ \<Rightarrow> Inl (BusinessRuleError ''TRADING_DAY_AMBIGUOUS''))"

definition resolve_for_account_creation ::
  "schedule_row list \<Rightarrow> string \<Rightarrow> datetime \<Rightarrow> date result" where
  "resolve_for_account_creation rows account_type now =
     rbind (account_instrument_types account_type) (\<lambda>its.
     rbind (load_rows (list_account_schedules rows its (shanghai_date now - 1)
                         (shanghai_date now + 14)))
       (\<lambda>sessions. account_day now (filter ts_allow_open sessions)))"

section \<open>Lemmas\<close>

lemma load_session_Inr:
  "load_session day raw = Inr s \<Longrightarrow> ts_start_at s < ts_end_at s \<and> ts_trading_day s = day"
  by (auto simp: load_session_def schedule_invalid_def split: option.splits if_splits)

lemma load_row_Inr:
  "load_row r = Inr ss \<Longrightarrow> s \<in> set ss \<Longrightarrow>
     ts_start_at s < ts_end_at s \<and> ts_trading_day s = sd_trading_day r \<and> schedule_open r"
  by (auto simp: load_row_def rmap_Inr_list_all2 in_set_conv_nth list_all2_conv_all_nth
      split: if_splits sessions_json.splits dest!: load_session_Inr)

lemma load_rows_Inr:
  assumes "load_rows rows = Inr ss" "s \<in> set ss"
  shows "ts_start_at s < ts_end_at s
    \<and> (\<exists>r \<in> set rows. schedule_open r \<and> ts_trading_day s = sd_trading_day r)"
proof -
  from assms(1) obtain ls where ls: "list_all2 (\<lambda>r l. load_row r = Inr l) rows ls" "ss = concat ls"
    by (auto simp: load_rows_def rbind_Inr_iff rmap_Inr_list_all2)
  from assms(2) ls(2) obtain l where "l \<in> set ls" "s \<in> set l" by auto
  then obtain i where i: "i < length ls" "s \<in> set (ls ! i)" by (metis in_set_conv_nth)
  with ls(1) have "load_row (rows ! i) = Inr (ls ! i)" "i < length rows"
    by (auto simp: list_all2_conv_all_nth)
  with load_row_Inr [OF _ i(2)] show ?thesis by (meson nth_mem)
qed

lemma set_matching_days:
  "set (matching_days allow now sessions)
     = ts_trading_day ` {s \<in> set sessions. active_at now s \<and> allow s}"
  by (auto simp: matching_days_def)

lemma single_listed:
  assumes "distinct xs"
  shows "set xs = {x} \<longleftrightarrow> xs = [x]"
proof
  assume eq: "set xs = {x}"
  with distinct_card [OF assms] have "length xs = 1" by simp
  with eq show "xs = [x]" by (cases xs) auto
qed simp

lemma matching_days_single:
  "matching_days allow now sessions = [day] \<longleftrightarrow>
     ts_trading_day ` {s \<in> set sessions. active_at now s \<and> allow s} = {day}"
  using single_listed [of "matching_days allow now sessions" day]
  by (simp add: set_matching_days) (simp add: matching_days_def)

lemma unique_day_Inr_iff:
  "unique_day allow now sessions = Inr day \<longleftrightarrow>
     ts_trading_day ` {s \<in> set sessions. active_at now s \<and> allow s} = {day}"
  unfolding matching_days_single [symmetric]
  by (auto simp: unique_day_def split: list.splits)

text \<open>The cache holds what was loaded.\<close>

definition cached_ok :: "schedule_cache \<Rightarrow> bool" where
  "cached_ok cache \<longleftrightarrow>
     (\<forall>key c. cache key = Some c \<longrightarrow> (\<forall>s \<in> set (cs_sessions c). ts_start_at s < ts_end_at s))"

lemma get_schedule_ok:
  assumes "get_schedule rows ttl cache clock key now = (cache', r)" "cached_ok cache"
  shows "cached_ok cache' \<and> (\<forall>ss. r = Inr ss \<longrightarrow> (\<forall>s \<in> set ss. ts_start_at s < ts_end_at s))"
proof -
  have loaded: "ts_start_at s < ts_end_at s"
    if "load_schedule rows now key = Inr ss" "s \<in> set ss" for ss s
    using that by (auto simp: load_schedule_def Let_def split: prod.splits dest: load_rows_Inr)
  have ok: "ts_start_at s < ts_end_at s" if "cache k = Some c" "s \<in> set (cs_sessions c)" for k c s
    using assms(2) that unfolding cached_ok_def by blast
  from assms(1) consider
      (hit) c where "cache key = Some c" "cache' = cache" "r = Inr (cs_sessions c)"
    | (failed) "cache' = cache" "\<forall>ss. r \<noteq> Inr ss"
    | (loaded) ss where "load_schedule rows now key = Inr ss" "r = Inr ss"
        "cache' = cache(key \<mapsto> \<lparr>cs_sessions = ss, cs_expires_at = clock + cache_ttl ttl\<rparr>)"
    by (cases "load_schedule rows now key")
       (auto simp: get_schedule_def Let_def split: option.splits if_splits
         dest!: sym [of "Inl _" "load_schedule rows now key"])
  then show ?thesis
  proof cases
    case hit
    with ok assms(2) show ?thesis by auto
  next
    case failed
    with assms(2) show ?thesis by simp
  next
    case loaded
    with ok \<open>\<And>ss s. load_schedule rows now key = Inr ss \<Longrightarrow> s \<in> set ss \<Longrightarrow> ts_start_at s < ts_end_at s\<close>
    show ?thesis unfolding cached_ok_def by (simp only: fun_upd_apply) (metis cached_schedule.select_convs(1) option.inject sum.inject(2))
  qed
qed

text \<open>Within its time to live a cached schedule is returned again and again.\<close>

lemma get_schedule_cached:
  assumes "get_schedule rows ttl cache clock key now = (cache', Inr ss)" "0 < ttl"
  shows "(\<exists>c. cache' key = Some c \<and> cs_sessions c = ss \<and> clock < cs_expires_at c
            \<and> (\<forall>rows' t now'. t < cs_expires_at c \<longrightarrow>
                 get_schedule rows' ttl cache' t key now' = (cache', Inr ss)))"
  using assms
  by (auto simp: get_schedule_def cache_ttl_def Let_def split: option.splits sum.splits if_splits)

section \<open>Properties\<close>

definition order_allowed :: "offset_flag \<Rightarrow> trading_session \<Rightarrow> bool" where
  "order_allowed offset s \<longleftrightarrow> (if offset = OPEN then ts_allow_open s else ts_allow_close s)"

text \<open>
  The trading day of an accepted order. It is the day of a well-formed session that is running and
  admits the kind of order, every other such session agrees on it, and the session state of that day,
  asked at the same moment, is OPEN.
\<close>

theorem order_day_is_open:
  assumes "resolve_for_order rows ttl cache clock ins offset now = (cache', Inr day)"
    and "cached_ok cache"
  shows "cached_ok cache'
    \<and> (\<exists>sessions. (\<forall>s \<in> set sessions. ts_start_at s < ts_end_at s)
         \<and> ts_trading_day ` {s \<in> set sessions. active_at now s \<and> order_allowed offset s} = {day})
    \<and> session_state rows ttl cache' clock ins day now = (cache', Inr SESSION_OPEN)"
proof -
  from assms(1) obtain key sessions where key: "derivative_key ins = Inr key"
    and get: "get_schedule rows ttl cache clock key now = (cache', Inr sessions)"
    and day: "unique_day (order_allowed offset) now sessions = Inr day"
    by (cases offset)
       (auto simp: resolve_for_order_def order_allowed_def [abs_def]
         split: sum.splits prod.splits)
  note sched = get_schedule_ok [OF get assms(2)]
  note days = day [unfolded unique_day_Inr_iff]
  then obtain s where s: "s \<in> set sessions" "active_at now s" "order_allowed offset s"
    "ts_trading_day s = day" by blast
  then have "state_of_sessions day now sessions = SESSION_OPEN"
    by (auto simp: state_of_sessions_def Let_def order_allowed_def list_ex_iff filter_empty_conv
        split: if_splits)
  moreover from get have "get_schedule rows ttl cache' clock key now = (cache', Inr sessions)"
    by (cases "load_schedule rows now key")
       (auto simp: get_schedule_def Let_def cache_ttl_def split: option.splits if_splits)
  ultimately have "session_state rows ttl cache' clock ins day now = (cache', Inr SESSION_OPEN)"
    by (simp add: session_state_def key)
  with sched days show ?thesis by blast
qed

definition sample_schedule :: schedule_row where
  "sample_schedule =
     \<lparr>sd_trading_day = 1, sd_exchange_id = ''SHFE'', sd_product_code = ''RB'',
      sd_instrument_type = ''FUTURES'',
      sd_sessions = Sessions [\<lparr>rw_start_at = Some 100, rw_end_at = Some 200, rw_allow_open = None,
                               rw_allow_close = None\<rparr>],
      sd_schedule_status = ''ready'', sd_calendar_is_open = True, sd_calendar_status = ''OPEN''\<rparr>"

definition sample_rb :: instrument where
  "sample_rb =
     \<lparr>i_id = 1, i_order_book_id = ''RB2610'', i_symbol = ''RB2610'', i_exchange_id = ''SHFE'',
      i_product_id = Some ''RB'', i_market_type = ''FUTURES'', i_market_tplus = None,
      i_round_lot = None, i_instrument_type = FUTURES, i_underlying_instrument_id = None,
      i_is_active = True, i_is_tradeable = True, i_price_tick = 1, i_contract_multiplier = Some 10,
      i_min_volume = 1, i_max_volume = 100, i_option_type = None, i_strike_price = None\<rparr>"

lemma sample_derivative_key: "derivative_key sample_rb = Inr (''SHFE'', Some ''RB'', ''FUTURES'')"
  by code_simp

theorem order_day_is_open_witness:
  "\<exists>cache'. resolve_for_order [sample_schedule] 300 (\<lambda>_. None) 0 sample_rb OPEN 150
      = (cache', Inr 1)
    \<and> session_state [sample_schedule] 300 cache' 0 sample_rb 1 150 = (cache', Inr SESSION_OPEN)"
proof -
  have "snd (resolve_for_order [sample_schedule] 300 (\<lambda>_. None) 0 sample_rb OPEN 150) = Inr 1"
    by (simp add: resolve_for_order_def sample_derivative_key) code_simp
  then obtain cache' where
    run: "resolve_for_order [sample_schedule] 300 (\<lambda>_. None) 0 sample_rb OPEN 150
      = (cache', Inr 1)" by (metis prod.collapse)
  from order_day_is_open [OF run] run show ?thesis by (simp add: cached_ok_def)
qed

text \<open>
  The first trading day of a new account is that of the running sessions that admit opening, or,
  when none is running, that of the sessions that start next; sessions that disagree are refused.
\<close>

theorem account_day_is_current_or_next:
  assumes "account_day now sessions = Inr day"
  shows "ts_trading_day ` {s \<in> set sessions. active_at now s} = {day}
    \<or> ({s \<in> set sessions. active_at now s} = {}
       \<and> (\<exists>s \<in> set sessions. now \<le> ts_start_at s \<and> ts_trading_day s = day
            \<and> (\<forall>t \<in> set sessions. now \<le> ts_start_at t \<longrightarrow> ts_start_at s \<le> ts_start_at t
                 \<and> (ts_start_at t = ts_start_at s \<longrightarrow> ts_trading_day t = day))))"
proof (cases "matching_days (\<lambda>_. True) now sessions")
  case Nil
  let ?future = "filter (\<lambda>s. now \<le> ts_start_at s) sessions"
  from Nil assms obtain s later where sorted: "sort_key ts_start_at ?future = s # later"
    and same: "\<forall>t \<in> set later. ts_start_at t = ts_start_at s \<longrightarrow> ts_trading_day t = ts_trading_day s"
    and day: "ts_trading_day s = day"
    by (auto simp: account_day_def next_day_def split: list.splits if_splits)
  have members: "set ?future = insert s (set later)" by (metis sorted list.simps(15) set_sort)
  have "sorted (map ts_start_at (s # later))" by (metis sorted sorted_sort_key)
  then have first: "\<forall>t \<in> set later. ts_start_at s \<le> ts_start_at t" by simp
  have none: "{s \<in> set sessions. active_at now s} = {}"
    using Nil set_matching_days [of "\<lambda>_. True" now sessions] by auto
  have "s \<in> set ?future" using members by blast
  then have "s \<in> set sessions" "now \<le> ts_start_at s" by auto
  moreover have "t = s \<or> t \<in> set later" if "t \<in> set sessions" "now \<le> ts_start_at t" for t
    using that members by auto
  ultimately show ?thesis using first same day none by blast
next
  case (Cons d ds)
  with assms have "matching_days (\<lambda>_. True) now sessions = [day]"
    by (auto simp: account_day_def split: list.splits)
  then show ?thesis by (simp add: matching_days_single)
qed

theorem account_day_is_current_or_next_witness:
  "\<exists>s. account_day 150 [s, s\<lparr>ts_start_at := 500, ts_end_at := 600, ts_trading_day := 2\<rparr>] = Inr 1
     \<and> ts_trading_day ` {t \<in> {s, s\<lparr>ts_start_at := 500, ts_end_at := 600, ts_trading_day := 2\<rparr>}.
          active_at 150 t} = {1}"
proof -
  define s :: trading_session where
    "s = \<lparr>ts_trading_day = 1, ts_start_at = 100, ts_end_at = 200, ts_allow_open = True,
          ts_allow_close = True\<rparr>"
  let ?t = "s\<lparr>ts_start_at := 500, ts_end_at := 600, ts_trading_day := 2\<rparr>"
  have run: "account_day 150 [s, ?t] = Inr 1"
    by (simp add: account_day_def matching_days_def active_at_def s_def)
  have "active_at 150 s" by (simp add: active_at_def s_def)
  with account_day_is_current_or_next [OF run] run show ?thesis by auto
qed

text \<open>
  A derivative without a product code. Neither its orders get the business error the service
  means to raise nor is its session state UNKNOWN: normalising the empty code raises \<open>ValueError\<close>.
\<close>

theorem missing_product_raises:
  assumes "i_product_id ins = None" and "normalize_code (i_exchange_id ins) = Inr ex"
  shows "resolve_for_order rows ttl cache clock ins offset now = (cache, Inl PyValueError)
    \<and> session_state rows ttl cache clock ins day now = (cache, Inl PyValueError)"
proof -
  have "normalize_code [] = Inl PyValueError" by code_simp
  with assms have "derivative_key ins = Inl PyValueError"
    by (simp add: derivative_key_def text_or_empty_def)
  then show ?thesis by (simp add: resolve_for_order_def session_state_def)
qed

theorem missing_product_raises_witness:
  "resolve_for_order [sample_schedule] 300 (\<lambda>_. None) 0 (sample_rb\<lparr>i_product_id := None\<rparr>) OPEN 150
     = (\<lambda>_. None, Inl PyValueError)"
proof -
  have "i_product_id (sample_rb\<lparr>i_product_id := None\<rparr>) = None"
    "normalize_code (i_exchange_id (sample_rb\<lparr>i_product_id := None\<rparr>)) = Inr ''SHFE''"
    by code_simp+
  from missing_product_raises [OF this] show ?thesis by simp
qed

end
