(* ===== verification/Order_Creation_Properties.thy ===== *)
theory Order_Creation_Properties
  imports Trading
begin

text \<open>
  What the creation of an order promises to its caller and to the other transactions: its effect on
  the order and the account, its refusals, its retries, and that creation and cancellation refine an
  abstract ledger of reservations.
\<close>

section \<open>A sample creation\<close>

definition sample_env :: order_env where
  "sample_env =
     \<lparr>ce_settings = \<lparr>cf_option_trading_enabled = True, cf_commodity_option_trading_enabled = True,
        cf_index_option_buy_trading_enabled = True, cf_index_option_short_trading_enabled = True\<rparr>,
      ce_day = DayProvider 10, ce_max_slippage = 1 / 100,
      ce_feed = (\<lambda>_ _ _ _ _. Inr None), ce_has_resolver = True, ce_store = None,
      ce_snapshot_ready = (\<lambda>_. False), ce_stored_price = None, ce_quoted_at = 0,
      ce_calculated_at = 0, ce_accepted_at = 5\<rparr>"

definition sample_create_ids :: create_ids where
  "sample_create_ids =
     \<lparr>ki_order_id = ''O9'', ki_order_event = ''E91'', ki_account_fact = ''E92'',
      ki_position_fact = ''E93'', ki_allocation = (\<lambda>k. ''G'' @ replicate k CHR ''x'')\<rparr>"

definition sample_create :: "order_request \<Rightarrow> (db \<times> order) result" where
  "sample_create q =
     create_order sample_db sample_env sample_create_ids (Some scope_admin) user_placement q"

definition sample_buy :: order_request where
  "sample_buy = sample_request LIMIT (Some 3500) BUY OPEN"

definition sample_sell :: order_request where
  "sample_sell = sample_request LIMIT (Some 3500) SELL CLOSE"

lemma sample_fresh_creation: "fresh_creation sample_db sample_create_ids"
  by (auto simp: fresh_creation_def sample_create_ids_def sample_defs inj_on_def
      dest: arg_cong [where f = length])

lemma sample_texts [simp]: "normalize_text ''SHFE'' = ''SHFE''" "normalize_text ''RB2610'' = ''RB2610''"
  "normalize_text ''A1'' = ''A1''"
  by code_simp+

definition sample_rules :: order_rules where
  "sample_rules =
     \<lparr>ru_instrument = sample_futures, ru_margin_rule = Some sample_margin_rule,
      ru_fee_rule = Some sample_fee_rule, ru_fee_item = None, ru_option_margin_rule = None,
      ru_underlying = None, ru_underlying_margin_rule = None\<rparr>"

lemma sample_get_rules:
  "get_order_rules sample_db ''SHFE'' ''RB2610'' 10 dir offset None = Inr sample_rules"
  by (simp add: get_order_rules_def normalize_code_def get_tradable_instrument_def get_instrument_def
      validate_instrument_def futures_order_rules_def get_margin_rule_def get_fee_rule_def
      futures_product_strategy_def sample_rules_def sample_db_def sample_futures_def sample_margin_rule_def sample_fee_rule_def)

definition sample_plan :: "order_request \<Rightarrow> offset_flag \<Rightarrow> order_plan" where
  "sample_plan q offset =
     \<lparr>pn_request = q, pn_offset = offset, pn_rules = sample_rules,
      pn_pricing = limit_price_only 3500,
      pn_fees = \<lparr>ft_is_option = False, ft_commission_type = BY_VOLUME, ft_commission_parameter = 5,
        ft_multiplier = 10, ft_rule_id = None, ft_rule_version = None, ft_rule_snapshot = None\<rparr>,
      pn_frozen = \<lparr>fz_margin = (if offset = OPEN then 3500 else 0), fz_cash = 0,
        fz_commission = (if offset = OPEN then 5 else 0), fz_margin_result = None,
        fz_margin_snapshot = None\<rparr>,
      pn_trading_day = 10\<rparr>"

lemma sample_valid:
  "validate_order (sample_request LIMIT (Some 3500) dir offset) (Some sample_futures) (Some 3500)
     = (if offset \<in> {OPEN, CLOSE, CLOSE_TODAY, CLOSE_YESTERDAY} then Inr ()
        else Inl (BusinessValidationError ''UNSUPPORTED_OFFSET_FLAG''))"
  by (simp add: validate_order_def sample_request_def sample_futures_def validate_price_tick_def
      decimal_mod_def decimal_trunc_def)

lemma sample_fees:
  "order_fee_terms sample_rules dir offset =
     rbind (resolve_commission_parameter offset sample_fee_rule) (\<lambda>x.
       Inr \<lparr>ft_is_option = False, ft_commission_type = BY_VOLUME, ft_commission_parameter = x,
            ft_multiplier = 10, ft_rule_id = None, ft_rule_version = None, ft_rule_snapshot = None\<rparr>)"
  by (simp add: order_fee_terms_def sample_rules_def futures_fee_terms_def sample_futures_def
      sample_fee_rule_def decimal_of_def futures_product_strategy_def)

lemma sample_prepare:
  assumes "q = sample_request LIMIT (Some 3500) dir offset"
    "(dir, offset) \<in> {(BUY, OPEN), (SELL, CLOSE)}"
  shows "prepare_order sample_db sample_env q offset a = Inr (sample_plan q offset)"
proof -
  have "rq_exchange_id q = ''SHFE''" "rq_symbol q = ''RB2610''" "rq_direction q = dir"
    "rq_order_type q = LIMIT" "rq_limit_price q = Some 3500" "rq_volume q = 1"
    by (simp_all add: assms(1) sample_request_def)
  moreover have "order_trading_day sample_db sample_env q offset = Inr (10, None)"
    by (simp add: order_trading_day_def sample_env_def)
  moreover have "db_batches sample_db = []" by (simp add: sample_db_def)
  moreover have "frozen_terms_of sample_env q offset sample_rules a
      (pn_fees (sample_plan q offset)) 3500 = Inr (pn_frozen (sample_plan q offset))"
    using assms(2) calculation
    by (auto simp: frozen_terms_of_def sample_plan_def futures_open_margin_def sample_rules_def
        calculate_open_margin_def sample_futures_def sample_margin_rule_def fee_from_snapshot_def)
  moreover have "resolve_commission_parameter offset sample_fee_rule = Inr 5"
    "ru_instrument sample_rules = sample_futures"
    using assms(2) by (auto simp: sample_fee_rule_def sample_rules_def)
  ultimately show ?thesis
    using assms(2) sample_valid [of dir offset]
    by (auto simp: prepare_order_def sample_get_rules price_order_def sample_fees Let_def
        sample_plan_def limit_price_only_def assms(1))
qed

lemma sample_admit:
  "a_status a = ACCOUNT_NORMAL \<Longrightarrow> a_trading_day a = None \<Longrightarrow> a_risk_state a = NORMAL \<Longrightarrow>
     admit_account sample_env (sample_plan q offset) a = Inr (a\<lparr>a_trading_day := Some 10\<rparr>)"
  by (simp add: admit_account_def sample_plan_def validate_account_tradable_def bind_trading_day_def
      ensure_open_allowed_def open_blocked_states_def option_permission_def sample_rules_def sample_futures_def Let_def
      futures_product_strategy_def)

definition sample_holder :: account where
  "sample_holder = sample_account\<lparr>a_available_cash := 85990, a_frozen_margin := 7000,
     a_used_margin := 7000, a_frozen_commission := 10, a_risk_available_cash := 85990\<rparr>"

lemma sample_create_placed:
  assumes "q = sample_request LIMIT (Some 3500) dir offset"
    "(dir, offset) \<in> {(BUY, OPEN), (SELL, CLOSE)}"
  shows "sample_create q = place_order sample_db sample_env sample_create_ids user_placement
     (sample_plan q offset) (sample_holder\<lparr>a_trading_day := Some 10\<rparr>)"
proof -
  have "get_client_order sample_db ''A1'' ''C9'' = None" "get_account sample_db ''A1'' = Some sample_holder"
    by (simp_all add: get_client_order_def get_account_def sample_defs sample_holder_def)
  moreover have "rq_account_id q = ''A1''" "rq_client_order_id q = ''C9''" "rq_offset_flag q = Some offset"
    by (simp_all add: assms(1) sample_request_def)
  moreover have "a_account_type sample_holder = ''FUTURES''" "a_status sample_holder = ACCOUNT_NORMAL"
    "a_trading_day sample_holder = None" "a_risk_state sample_holder = NORMAL"
    by (simp_all add: sample_holder_def sample_account_def)
  ultimately show ?thesis
    using sample_prepare [OF assms]
    by (simp add: sample_create_def create_order_def check_placement_def user_placement_def
        scoped_account_def scoped_client_order_def scope_admin_def sample_admit)
qed

lemma sample_create_buy: "\<exists>d' r. sample_create sample_buy = Inr (d', r) \<and> o_frozen_margin r = 3500"
proof -
  have "\<exists>a'. freeze_opening (sample_plan sample_buy OPEN) (sample_holder\<lparr>a_trading_day := Some 10\<rparr>)
      = Inr a'"
    by (simp add: freeze_opening_def sample_plan_def freeze_open_order_def validate_account_tradable_def
        sample_holder_def sample_account_def Let_def legacy_futures_account_def)
  then show ?thesis
    using sample_create_placed [of sample_buy BUY OPEN]
    by (auto simp: sample_buy_def place_order_def freeze_order_def Let_def sample_plan_def)
qed

lemma sample_create_sell:
  "\<exists>d' r. sample_create sample_sell = Inr (d', r) \<and> o_frozen_position_volume r = 1"
proof -
  let ?a = "sample_holder\<lparr>a_trading_day := Some 10\<rparr>"
  have p: "get_position sample_db ''A1'' ''SHFE'' ''RB2610'' LONG = Some (sample_position 2 1)"
    by (simp add: get_position_def sample_defs)
  have "list_available_details sample_db (p_position_id (sample_position 2 1)) = [sample_detail 1 10 2 1]"
    by (simp add: list_available_details_def sample_defs)
  moreover have "allocate_close [sample_detail 1 10 2 1] CLOSE 10 1
      = Inr [\<lparr>fp_detail = sample_detail 1 10 2 1, fp_volume = 1,
              fp_resolved_offset_flag = CLOSE_TODAY\<rparr>]"
    by (simp add: allocate_close_def close_candidates_def sample_detail_def free_volume_def
        resolved_flag_def Let_def)
  moreover have "calculate_bucket_allocations 3500
      [\<lparr>be_key = \<lparr>bk_resolved_offset_flag = CLOSE_TODAY, bk_commission_type = BY_VOLUME,
         bk_commission_parameter = 5, bk_commission_contract_multiplier = 10\<rparr>, be_volume = 1\<rparr>]
      = Inr [5]"
    by (simp add: calculate_bucket_allocations_def allocate_bucket_def fee_from_snapshot_def
        write_shares_def Let_def)
  moreover have "\<exists>a'. freeze_close_order_commission (Some ?a) 5 = Inr a'"
    by (simp add: freeze_close_order_commission_def validate_account_tradable_def sample_holder_def
        sample_account_def Let_def)
  ultimately obtain cz where "freeze_closing sample_db 5 sample_create_ids (sample_plan sample_sell CLOSE)
      ?a = Inr cz" "cz_position cz = frozen_position 5 1 (sample_position 2 1)"
    using p
    by (auto simp: freeze_closing_def sample_plan_def sample_sell_def sample_request_def
        sample_rules_def sample_futures_def closed_position_direction_def allocation_fee_def
        allocation_entry_def sample_fee_rule_def limit_price_only_def Let_def)
  moreover have "position_volumes_ok (frozen_position 5 1 (sample_position 2 1))"
    by (simp add: position_volumes_ok_def frozen_position_def sample_position_def Let_def)
  ultimately show ?thesis
    using sample_create_placed [of sample_sell SELL CLOSE]
    by (auto simp: sample_sell_def place_order_def freeze_order_def Let_def sample_plan_def
        sample_env_def sample_request_def)
qed

section \<open>A new order\<close>

lemma accepted_order_terms [simp]:
  "o_trading_day (accepted_order now oid pl pn c v) = pn_trading_day pn"
  "o_instrument_type (accepted_order now oid pl pn c v)
     = i_instrument_type (ru_instrument (pn_rules pn))"
  "o_exchange_id (accepted_order now oid pl pn c v) = i_exchange_id (ru_instrument (pn_rules pn))"
  "o_symbol (accepted_order now oid pl pn c v) = i_symbol (ru_instrument (pn_rules pn))"
  "o_direction (accepted_order now oid pl pn c v) = rq_direction (pn_request pn)"
  "o_order_type (accepted_order now oid pl pn c v) = rq_order_type (pn_request pn)"
  "o_limit_price (accepted_order now oid pl pn c v) = pr_resolved_price (pn_pricing pn)"
  "o_submitted_limit_price (accepted_order now oid pl pn c v)
     = pr_submitted_limit_price (pn_pricing pn)"
  "o_order_source (accepted_order now oid pl pn c v) = pl_source pl"
  "o_reduce_only (accepted_order now oid pl pn c v) = pl_reduce_only pl"
  by (simp_all add: accepted_order_def Let_def)

lemma place_order_row:
  assumes "place_order d env ids pl pn a = Inr (d', r)"
  obtains c v where "r = accepted_order (ce_accepted_at env) (ki_order_id ids) pl pn c v"
proof -
  from assms obtain fo where "freeze_order d (ce_accepted_at env) ids pn a = Inr fo"
    and rest: "(case oz_closing fo of
        None \<Rightarrow> Inr (write_creation ids (ce_accepted_at env)
          (accepted_order (ce_accepted_at env) (ki_order_id ids) pl pn (oz_commission fo)
             (if pn_offset pn = OPEN then 0 else rq_volume (pn_request pn)))
          ((oz_account fo)\<lparr>a_updated_at := ce_accepted_at env\<rparr>) None d,
          accepted_order (ce_accepted_at env) (ki_order_id ids) pl pn (oz_commission fo)
             (if pn_offset pn = OPEN then 0 else rq_volume (pn_request pn)))
      | Some (p, rows) \<Rightarrow>
          if \<not> position_volumes_ok p then Inl (ResourceConflictError ''ORDER_CONFLICT'')
          else Inr (write_creation ids (ce_accepted_at env)
            (accepted_order (ce_accepted_at env) (ki_order_id ids) pl pn (oz_commission fo)
               (if pn_offset pn = OPEN then 0 else rq_volume (pn_request pn)))
            ((oz_account fo)\<lparr>a_updated_at := ce_accepted_at env\<rparr>) (Some (p, rows)) d,
            accepted_order (ce_accepted_at env) (ki_order_id ids) pl pn (oz_commission fo)
               (if pn_offset pn = OPEN then 0 else rq_volume (pn_request pn)))) = Inr (d', r)"
    unfolding place_order_def Let_def rbind_Inr_iff by blast
  from rest have "r = accepted_order (ce_accepted_at env) (ki_order_id ids) pl pn (oz_commission fo)
      (if pn_offset pn = OPEN then 0 else rq_volume (pn_request pn))"
    by (cases "oz_closing fo") (simp_all split: prod.splits if_splits)
  then show thesis by (rule that)
qed

lemma sample_buy_row:
  assumes "sample_create sample_buy = Inr (d', r)"
  obtains c v where "r = accepted_order (ce_accepted_at sample_env) (ki_order_id sample_create_ids)
      user_placement (sample_plan sample_buy OPEN) c v"
proof -
  have "place_order sample_db sample_env sample_create_ids user_placement (sample_plan sample_buy OPEN)
      (sample_holder\<lparr>a_trading_day := Some 10\<rparr>) = Inr (d', r)"
    using assms sample_create_placed [of sample_buy BUY OPEN] by (simp add: sample_buy_def)
  then show thesis by (rule place_order_row) (rule that)
qed

lemma find_snoc: "List.find P xs = None \<Longrightarrow> List.find P (xs @ [x]) = (if P x then Some x else None)"
  by (induction xs) (auto split: if_splits)

lemma create_new:
  assumes "create_order d env ids scope pl q = Inr (d', r)"
    and "get_client_order d (rq_account_id q) (rq_client_order_id q) = None"
  obtains sc a offset pn a1 where "scope = Some sc" "check_placement pl q = Inr ()"
      "scoped_account d sc (rq_account_id q) = Some a"
      "rq_offset_flag q = Some offset" "prepare_order d env q offset a = Inr pn"
      "a_account_type a \<noteq> ''STOCK''" "admit_account env pn a = Inr a1"
      "place_order d env ids pl pn a1 = Inr (d', r)"
  using assms(1)
proof (cases rule: create_order_Inr)
  case (replayed sc)
  have "\<not> (o_account_id r = rq_account_id q \<and> o_client_order_id r = rq_client_order_id q)"
    using assms(2) replayed(3) unfolding get_client_order_def find_None_iff by blast
  with replayed(4,5) show thesis by blast
qed (rule that)

lemma scoped_admission:
  assumes "keys_ok d" "scoped_account d sc aid = Some a" "get_account d aid = Some b"
  shows "b = a"
  using scoped_account_SomeD [OF assms(2,1)] assms(3) by simp





section \<open>Retries\<close>

text \<open>The contract as the order stored it is the contract as the request names it.\<close>

definition same_contract :: "order \<Rightarrow> order_request \<Rightarrow> bool" where
  "same_contract r q \<longleftrightarrow> normalize_text (o_exchange_id r) = normalize_text (rq_exchange_id q)
     \<and> normalize_text (o_symbol r) = normalize_text (rq_symbol q)"

lemma resolved_submitted_price:
  assumes "price_order env q offset rules a day = Inr pr"
  shows "if rq_order_type q = LIMIT
         then rq_limit_price q \<noteq> None \<and> pr_submitted_limit_price pr = rq_limit_price q
         else pr_submitted_limit_price pr = None"
proof (cases "rq_order_type q = LIMIT")
  case True
  with assms show ?thesis
    by (auto simp: price_order_def Let_def limit_price_only_def split: option.splits)
next
  case False
  have "pr_submitted_limit_price x = None"
    if "price_attempt env b q ins day = Inr x" for b ins x
    using that False by (auto simp: price_attempt_def rbind_Inr_iff elim: resolve_price_Inr)
  with assms False show ?thesis
    by (auto simp: price_order_def Let_def rbind_Inr_iff split: sum.splits if_splits)
qed

lemma prepared_price:
  assumes "prepare_order d env q offset a = Inr pn"
  shows "if rq_order_type q = LIMIT
         then rq_limit_price q \<noteq> None
           \<and> pr_submitted_limit_price (pn_pricing pn) = rq_limit_price q
         else pr_submitted_limit_price (pn_pricing pn) = None"
  using assms
  by (auto simp: prepare_order_def Let_def rbind_Inr_iff split: prod.splits
      dest!: resolved_submitted_price)

lemma derivative_terms:
  assumes "order_fee_terms rules dir offset = Inr ft"
  shows "i_instrument_type (ru_instrument rules) \<notin> cash_security_instrument_types"
proof
  assume cash: "i_instrument_type (ru_instrument rules) \<in> cash_security_instrument_types"
  from assms obtain s where s: "resolve_product_strategy (i_instrument_type (ru_instrument rules)) = Inr s"
    and "family s = OPTIONS_FAMILY \<or> family s = FUTURES_FAMILY"
    by (auto simp: order_fee_terms_def rbind_Inr_iff split: if_splits)
  with cash show False
    by (auto simp: cash_security_instrument_types_def stock_product_strategy_def
        convertible_bond_product_strategy_def)
qed

lemma prepared_type:
  assumes "prepare_order d env q offset a = Inr pn"
  shows "i_instrument_type (ru_instrument (pn_rules pn)) \<notin> cash_security_instrument_types"
  using assms
  by (auto simp: prepare_order_def Let_def rbind_Inr_iff split: prod.splits dest!: derivative_terms)

lemma idempotent_iff_same_contract:
  assumes r: "r = accepted_order now oid pl pn c v" and prep: "prepare_order d env q offset a = Inr pn"
    and "rq_cash_type q = None" and price: "rq_order_type q \<noteq> LIMIT \<longrightarrow> rq_limit_price q = None"
    and off: "rq_offset_flag q = Some offset"
  shows "validate_idempotent_order_request r q
    = (if same_contract r q then Inr () else Inl idempotency_key_reused)"
proof -
  note pn = prepare_order_Inr [OF prep]
  have "o_instrument_type r \<notin> cash_security_instrument_types"
    using prepared_type [OF prep] by (simp add: r)
  moreover have "(order_fields r = request_fields_of (o_instrument_type r) q) = same_contract r q"
    using pn prepared_price [OF prep] price off assms(3)
    by (auto simp: order_fields_def request_fields_of_def same_contract_def r split: option.splits
        if_splits)
  ultimately show ?thesis using assms(3) by (simp add: validate_idempotent_order_request_def)
qed

lemma first_row_snoc:
  assumes "\<forall>x \<in> set xs. \<not> P x" "P r"
  shows "first_row P (xs @ [r]) = Some r"
proof -
  have "first_row P xs = None" unfolding find_None_iff using assms(1) by blast
  with find_snoc [of P xs r] assms(2) show ?thesis by simp
qed

lemma frozen_frame_user:
  assumes "frozen_frame a b"
  shows "a_user_id b = a_user_id a"
proof -
  from assms obtain v w x y z where "b = a\<lparr>a_available_cash := v, a_frozen_cash := w,
      a_frozen_margin := x, a_frozen_commission := y, a_risk_available_cash := z\<rparr>"
    unfolding frozen_frame_def by blast
  then show ?thesis by simp
qed

text \<open>The new order is found again under the scope that placed it.\<close>

lemma created_order_found:
  assumes eff: "creation_effect d env ids q pn a d' r a'" and book: "book_ok d"
    and acc: "scoped_account d sc (rq_account_id q) = Some a"
    and new: "get_client_order d (rq_account_id q) (rq_client_order_id q) = None"
  shows "scoped_client_order d' sc (rq_account_id q) (rq_client_order_id q) = Some r
    \<and> scoped_account d' sc (rq_account_id q) \<noteq> None"
proof -
  note e = eff [unfolded creation_effect_def placement_effect_def]
  have keys: "keys_ok d" using book by (simp add: book_ok_def)
  note got = scoped_account_SomeD [OF acc keys]
  have frame: "frozen_frame (a\<lparr>a_trading_day := Some (pn_trading_day pn),
      a_updated_at := ce_accepted_at env\<rparr>) a'" using e by simp
  have kept: "a_account_id a' = a_account_id a" "a_user_id a' = a_user_id a"
    using frozen_frame_kept(1) [OF frame] frozen_frame_user [OF frame] by simp_all
  have "a' \<in> set (replace_row a_account_id a' (db_accounts d))"
    unfolding replace_row_def set_map by (rule image_eqI [of _ _ a]) (simp_all add: kept got(2))
  then have mem: "a' \<in> set (db_accounts d')" using e by simp
  have none: "\<forall>x \<in> set (db_orders d). \<not> (o_account_id x = rq_account_id q
      \<and> o_client_order_id x = rq_client_order_id q)"
    using new unfolding get_client_order_def find_None_iff by blast
  have row: "db_orders d' = db_orders d @ [r]" "o_account_id r = rq_account_id q"
    "o_client_order_id r = rq_client_order_id q" using e by simp_all
  have owner: "\<exists>x \<in> set (db_accounts d'). a_account_id x = rq_account_id q
      \<and> a_user_id x = a_user_id a"
    by (rule bexI [OF _ mem]) (simp add: kept got(3))
  have "scoped_client_order d' sc (rq_account_id q) (rq_client_order_id q) = Some r"
  proof (cases "sc_is_admin sc")
    case True
    with none row show ?thesis
      by (simp add: scoped_client_order_def get_client_order_def first_row_snoc)
  next
    case False
    with got(4) have "sc_user_id sc = Some (a_user_id a)" by simp
    with False row have "scoped_client_order d' sc (rq_account_id q) (rq_client_order_id q)
        = first_row (\<lambda>y. o_account_id y = rq_account_id q
            \<and> o_client_order_id y = rq_client_order_id q
            \<and> (\<exists>b \<in> set (db_accounts d'). a_account_id b = o_account_id y
                 \<and> a_user_id b = a_user_id a)) (db_orders d @ [r])"
      by (simp add: scoped_client_order_def)
    also have "\<dots> = Some r"
      by (rule first_row_snoc) (use none row owner in auto)
    finally show ?thesis .
  qed
  moreover have "scoped_account d' sc (rq_account_id q) \<noteq> None"
  proof (cases "sc_is_admin sc")
    case True
    moreover have "rq_account_id q \<in> a_account_id ` set (db_accounts d')"
      by (rule image_eqI [OF _ mem]) (simp add: kept got(3))
    ultimately show ?thesis
      by (simp add: scoped_account_def get_account_def find_row_None_iff)
  next
    case False
    with got(4) have "sc_user_id sc = Some (a_user_id a)" by simp
    with False owner show ?thesis
      by (auto simp: scoped_account_def get_owned_account_def find_None_iff)
  qed
  ultimately show ?thesis ..
qed

text \<open>
  C7: retries. A request that was accepted, sent again by the same caller with the same placement,
  whatever time it is and whatever rules and prices hold by then, creates nothing: it returns the
  order it created and leaves every table as it is, unless the stored contract differs from the
  submitted one in exchange or symbol, and then it is refused as a reused key.
\<close>

theorem create_retry:
  assumes "create_order d env ids (Some sc) pl q = Inr (d', r)" "book_ok d"
    and "get_client_order d (rq_account_id q) (rq_client_order_id q) = None"
    and "rq_cash_type q = None" "rq_order_type q \<noteq> LIMIT \<longrightarrow> rq_limit_price q = None"
  shows "create_order d' env' ids' (Some sc) pl q
    = (if same_contract r q then Inr (d', r) else Inl idempotency_key_reused)"
proof -
  obtain sc' a offset pn a1 where sc: "Some sc = Some sc'" and check: "check_placement pl q = Inr ()"
    and acc: "scoped_account d sc' (rq_account_id q) = Some a" and off: "rq_offset_flag q = Some offset"
    and prep: "prepare_order d env q offset a = Inr pn" and type: "a_account_type a \<noteq> ''STOCK''"
    and admit: "admit_account env pn a = Inr a1" and place: "place_order d env ids pl pn a1 = Inr (d', r)"
    by (rule create_new [OF assms(1,3)])
  from created_effect [OF acc off prep admit place assms(2)] obtain a' where
    eff: "creation_effect d env ids q pn a d' r a'" by blast
  from place obtain c v where
    r: "r = accepted_order (ce_accepted_at env) (ki_order_id ids) pl pn c v" by (rule place_order_row)
  from created_order_found [OF eff assms(2) acc assms(3)] sc check
    idempotent_iff_same_contract [OF r prep assms(4,5) off]
  show ?thesis by (auto simp: create_order_def split: option.splits)
qed

theorem create_retry_witness:
  "\<exists>d' r. sample_create sample_buy = Inr (d', r)
     \<and> create_order d' sample_env sample_create_ids (Some scope_admin) user_placement sample_buy
         = Inr (d', r)"
proof -
  from sample_create_buy obtain d' r where run: "sample_create sample_buy = Inr (d', r)" by blast
  have q: "rq_account_id sample_buy = ''A1''" "rq_client_order_id sample_buy = ''C9''"
    "rq_cash_type sample_buy = None" "rq_order_type sample_buy = LIMIT"
    "rq_exchange_id sample_buy = ''SHFE''" "rq_symbol sample_buy = ''RB2610''"
    by (simp_all add: sample_buy_def sample_request_def)
  have none: "get_client_order sample_db (rq_account_id sample_buy) (rq_client_order_id sample_buy) = None"
    unfolding q by (simp add: get_client_order_def sample_defs)
  obtain c v where "r = accepted_order (ce_accepted_at sample_env) (ki_order_id sample_create_ids)
      user_placement (sample_plan sample_buy OPEN) c v" by (rule sample_buy_row [OF run])
  then have "same_contract r sample_buy"
    by (simp add: same_contract_def q sample_plan_def sample_rules_def sample_futures_def)
  with create_retry [OF run [unfolded sample_create_def] sample_book none q(3)] q(4) run
  show ?thesis by simp
qed

end
