(* ===== verification/Order_Ledger.thy ===== *)
theory Order_Ledger
  imports Order_Creation_Properties
begin

text \<open>
  The abstract contract of order creation and cancellation: a ledger that knows, per account, its
  money pools and, per order, the account and what it holds there. Accepting an order holds money,
  cancelling one gives back what is held. The handlers over the tables implement it: every run of
  them is a run of the ledger.
\<close>

section \<open>The abstract ledger\<close>

record ledger =
  lg_pools :: "string \<Rightarrow> cash_pools option"
  lg_held :: "string \<Rightarrow> (string \<times> reservation) option"

definition no_reservation :: reservation where
  "no_reservation = \<lparr>rs_margin = 0, rs_cash = 0, rs_commission = 0\<rparr>"

definition hold :: "string \<Rightarrow> string \<Rightarrow> reservation \<Rightarrow> cash_pools \<Rightarrow> ledger \<Rightarrow> ledger" where
  "hold oid aid rs p l = l\<lparr>lg_pools := (lg_pools l)(aid \<mapsto> reserve rs p),
     lg_held := (lg_held l)(oid \<mapsto> (aid, rs))\<rparr>"

definition give_back :: "string \<Rightarrow> string \<Rightarrow> reservation \<Rightarrow> cash_pools \<Rightarrow> ledger \<Rightarrow> ledger" where
  "give_back oid aid rs p l = l\<lparr>lg_pools := (lg_pools l)(aid \<mapsto> unreserve rs p),
     lg_held := (lg_held l)(oid \<mapsto> (aid, no_reservation))\<rparr>"

inductive ledger_step :: "ledger \<Rightarrow> ledger \<Rightarrow> bool" where
  hold_step: "lg_held l oid = None \<Longrightarrow> lg_pools l aid = Some p \<Longrightarrow>
    0 \<le> cp_available (reserve rs p) \<Longrightarrow> ledger_step l (hold oid aid rs p l)"
| give_back_step: "lg_held l oid = Some (aid, rs) \<Longrightarrow> lg_pools l aid = Some p \<Longrightarrow>
    ledger_step l (give_back oid aid rs p l)"

text \<open>No step of the ledger makes or loses money.\<close>

definition liquid_of :: "ledger \<Rightarrow> string \<Rightarrow> decimal option" where
  "liquid_of l aid = map_option liquid (lg_pools l aid)"

lemma ledger_step_liquid: "ledger_step l l' \<Longrightarrow> liquid_of l' = liquid_of l"
  by (induction rule: ledger_step.induct)
    (auto simp: liquid_of_def hold_def give_back_def fun_eq_iff)

lemma ledger_steps_liquid: "ledger_step\<^sup>*\<^sup>* l l' \<Longrightarrow> liquid_of l' = liquid_of l"
  by (induction rule: rtranclp_induct) (auto dest: ledger_step_liquid)

section \<open>The ledger of the tables\<close>

definition ledger_of :: "db \<Rightarrow> ledger" where
  "ledger_of d = \<lparr>lg_pools = (\<lambda>aid. map_option pools (get_account d aid)),
     lg_held = (\<lambda>oid. map_option (\<lambda>r. (o_account_id r, order_reservation r)) (get_order d oid))\<rparr>"

lemma ledger_of_simps [simp]:
  "lg_pools (ledger_of d) aid = map_option pools (get_account d aid)"
  "lg_held (ledger_of d) oid = map_option (\<lambda>r. (o_account_id r, order_reservation r)) (get_order d oid)"
  by (simp_all add: ledger_of_def)

lemma get_account_put:
  assumes "db_accounts d' = replace_row a_account_id a' (db_accounts d)"
    and "get_account d (a_account_id a') = Some a"
  shows "get_account d' aid = (if aid = a_account_id a' then Some a' else get_account d aid)"
  using assms find_row_replace_Some [OF assms(2) [unfolded get_account_def], of a']
  by (auto simp: get_account_def find_row_replace)

lemma get_order_replaced:
  assumes "db_orders d' = replace_row o_order_id r' (db_orders d)"
    and "get_order d (o_order_id r') = Some r"
  shows "get_order d' oid = (if oid = o_order_id r' then Some r' else get_order d oid)"
  using assms find_row_replace_Some [OF assms(2) [unfolded get_order_def], of r']
  by (auto simp: get_order_def find_row_replace)

lemma get_order_snoc:
  assumes "db_orders d' = db_orders d @ [r]" "get_order d (o_order_id r) = None"
  shows "get_order d' oid = (if oid = o_order_id r then Some r else get_order d oid)"
proof -
  have "find_row o_order_id oid (xs @ [r]) = (case find_row o_order_id oid xs of
      None \<Rightarrow> if oid = o_order_id r then Some r else None | Some y \<Rightarrow> Some y)" for xs
    by (induction xs) auto
  with assms show ?thesis by (auto simp: get_order_def split: option.splits)
qed

text \<open>An accepted order is one step of the ledger.\<close>

lemma creation_refines:
  assumes eff: "creation_effect d env ids q pn a d' r a'" and a: "get_account d (o_account_id r) = Some a"
    and fresh: "fresh_creation d ids"
  shows "ledger_of d' = hold (o_order_id r) (o_account_id r) (order_reservation r) (pools a) (ledger_of d)"
    and "ledger_step (ledger_of d) (ledger_of d')"
proof -
  note e = eff [unfolded creation_effect_def placement_effect_def]
  have none: "get_order d (o_order_id r) = None"
    using fresh e by (auto simp: get_order_def find_row_None_iff fresh_creation_def)
  have frame: "frozen_frame (a\<lparr>a_trading_day := Some (pn_trading_day pn),
      a_updated_at := ce_accepted_at env\<rparr>) a'" using e by simp
  have "a_account_id a = o_account_id r"
    using a unfolding get_account_def by (rule find_row_SomeD [THEN conjunct2])
  with frozen_frame_kept(1) [OF frame] have id: "a_account_id a' = o_account_id r" by simp
  have p: "pools a' = reserve (order_reservation r) (pools a)" using e by (simp add: pools_def)
  have orders: "get_order d' oid = (if oid = o_order_id r then Some r else get_order d oid)" for oid
    by (rule get_order_snoc) (use e none in simp_all)
  have accounts: "get_account d' aid = (if aid = o_account_id r then Some a' else get_account d aid)"
    for aid
    using get_account_put [of d' a' d a aid] e a id by simp
  show eq: "ledger_of d' = hold (o_order_id r) (o_account_id r) (order_reservation r) (pools a) (ledger_of d)"
    by (simp add: ledger_of_def hold_def orders accounts fun_eq_iff p)
  have "0 \<le> a_available_cash a'" using e by simp
  then have "0 \<le> cp_available (pools a')" by (simp add: pools_def)
  then have "0 \<le> cp_available (reserve (order_reservation r) (pools a))" unfolding p .
  with none a show "ledger_step (ledger_of d) (ledger_of d')"
    unfolding eq by (intro hold_step) simp_all
qed

text \<open>A cancelled order is one step of the ledger.\<close>

lemma cancellation_refines:
  assumes run: "cancel_located d ids now auto r a = Inr (d', r')" and book: "book_ok d"
    and r: "r \<in> set (db_orders d)" and a: "a \<in> set (db_accounts d)"
    and same: "o_account_id r = a_account_id a"
  shows "ledger_of d' = give_back (o_order_id r) (a_account_id a) (order_reservation r) (pools a)
      (ledger_of d)"
    and "ledger_step (ledger_of d) (ledger_of d')"
proof -
  from cancel_located_tables [OF run book r a same] obtain a' where
    eff: "cancel_effect d now auto r a d' r' a'" .
  note e = cancel_effectD [OF eff]
  have rows: "order_row_ok r" "account_row_ok a" using book r a by (simp_all add: book_ok_def)
  note a' = cancel_release_account_Inr [OF e(2,3) rows]
  have keys: "distinct (map o_order_id (db_orders d))" "distinct (map a_account_id (db_accounts d))"
    using book by (simp_all add: book_ok_def keys_ok_def)
  have found: "get_order d (o_order_id r) = Some r" "get_account d (a_account_id a) = Some a"
    unfolding get_order_def get_account_def
    by (rule find_row_distinct [OF keys(1) r], rule find_row_distinct [OF keys(2) a])
  have orders: "get_order d' oid = (if oid = o_order_id r then Some r' else get_order d oid)" for oid
    using get_order_replaced [OF e(4), of r oid] found by (simp add: e(1))
  have accounts: "get_account d' aid
      = (if aid = a_account_id a then Some (a'\<lparr>a_updated_at := now\<rparr>) else get_account d aid)" for aid
    using get_account_put [OF e(5), of a aid] found by (simp add: a')
  have "pools (a'\<lparr>a_updated_at := now\<rparr>) = unreserve (order_reservation r) (pools a)"
    by (simp add: pools_def unreserve_def order_reservation_def a')
  moreover have "order_reservation r' = no_reservation" "o_account_id r' = a_account_id a"
    using same by (simp_all add: e(1) order_reservation_def no_reservation_def)
  ultimately show eq: "ledger_of d' = give_back (o_order_id r) (a_account_id a) (order_reservation r)
      (pools a) (ledger_of d)"
    by (simp add: ledger_of_def give_back_def orders accounts fun_eq_iff)
  show "ledger_step (ledger_of d) (ledger_of d')"
    unfolding eq by (intro give_back_step) (simp_all add: found same)
qed

section \<open>Runs\<close>

inductive order_step :: "db \<Rightarrow> db \<Rightarrow> bool" where
  create: "create_order d env cids scope pl q = Inr (d', r) \<Longrightarrow> fresh_creation d cids \<Longrightarrow> order_step d d'"
| cancel: "cancel_order d ids now oid aid scope internal auto = Inr (d', r) \<Longrightarrow> order_step d d'"

lemma order_step_refines:
  assumes "order_step d d'" "book_ok d"
  shows "book_ok d' \<and> ledger_step\<^sup>*\<^sup>* (ledger_of d) (ledger_of d')"
  using assms(1)
proof cases
  case (create env cids scope pl q r)
  from create(1) show ?thesis
  proof (cases rule: create_order_Inr)
    case replayed
    with assms(2) show ?thesis by simp
  next
    case (placed sc a offset pn a1)
    from created_effect [OF placed(3,5,6,8,9) assms(2)] obtain a' where
      eff: "creation_effect d env cids q pn a d' r a'" and a: "get_account d (o_account_id r) = Some a" .
    from creation_book [OF eff assms(2) a create(2)] creation_refines(2) [OF eff a create(2)]
    show ?thesis by blast
  qed
next
  case (cancel ids now oid aid scope internal auto r)
  note book = cancel_order_book [OF cancel(1) assms(2)]
  from cancel(1) show ?thesis
  proof (rule cancel_order_Inr)
    fix sc r0 a0
    assume loc: "locate_order d sc (strip oid) (strip aid) = Inr (r0, a0)"
      and "d' = d \<and> r = r0 \<and> o_status r0 \<in> {CANCELLED, PARTIALLY_CANCELLED} \<union> (if auto then {FILLED} else {})
       \<or> o_status r0 \<notin> {CANCELLED, PARTIALLY_CANCELLED}
         \<and> cancel_located d ids now auto r0 a0 = Inr (d', r)"
    then consider "d' = d" | "cancel_located d ids now auto r0 a0 = Inr (d', r)" by blast
    then show ?thesis
    proof cases
      case 2
      with cancellation_refines(2) [OF 2 assms(2)] locate_order_Inr [OF loc] book
      show ?thesis by auto
    qed (use book in simp)
  qed
qed

lemma order_run_refines:
  "order_step\<^sup>*\<^sup>* d d' \<Longrightarrow> book_ok d \<Longrightarrow> book_ok d' \<and> ledger_step\<^sup>*\<^sup>* (ledger_of d) (ledger_of d')"
  by (induction rule: rtranclp_induct) (auto dest: order_step_refines intro: rtranclp_trans)

text \<open>
  C3: creation and cancellation refine the abstract ledger. Whatever orders are created and
  cancelled, in any order, by whom, successfully or as repetitions, the tables move through steps of
  the ledger alone - an order holds what its account pays, once, out of a sufficient available
  amount, and gives back exactly what it still holds - and the liquid money of every account is at
  the end what it was.
\<close>

theorem creation_and_cancellation_refine_ledger:
  assumes "order_step\<^sup>*\<^sup>* d d'" "book_ok d"
  shows "ledger_step\<^sup>*\<^sup>* (ledger_of d) (ledger_of d')
    \<and> (\<forall>aid. map_option (\<lambda>a. liquid (pools a)) (get_account d' aid)
         = map_option (\<lambda>a. liquid (pools a)) (get_account d aid))"
proof -
  have steps: "ledger_step\<^sup>*\<^sup>* (ledger_of d) (ledger_of d')" using order_run_refines [OF assms] by blast
  then have "liquid_of (ledger_of d') aid = liquid_of (ledger_of d) aid" for aid
    by (simp add: ledger_steps_liquid)
  then show ?thesis using steps by (simp add: liquid_of_def option.map_comp comp_def)
qed

theorem creation_and_cancellation_refine_ledger_witness:
  "\<exists>d' r. order_step\<^sup>*\<^sup>* sample_db d' \<and> sample_create sample_buy = Inr (d', r)
     \<and> map_option (\<lambda>a. liquid (pools a)) (get_account d' ''A1'') = Some (liquid (pools sample_holder))"
proof -
  from sample_create_buy obtain d' r where run: "sample_create sample_buy = Inr (d', r)" by blast
  then have "order_step sample_db d'"
    unfolding sample_create_def by (rule order_step.create [OF _ sample_fresh_creation])
  then have steps: "order_step\<^sup>*\<^sup>* sample_db d'" by blast
  have "get_account sample_db ''A1'' = Some sample_holder"
    by (simp add: get_account_def sample_defs sample_holder_def)
  with creation_and_cancellation_refine_ledger [OF steps sample_book]
  have "map_option (\<lambda>a. liquid (pools a)) (get_account d' ''A1'') = Some (liquid (pools sample_holder))"
    by simp
  with steps run show ?thesis by blast
qed

section \<open>Creating and cancelling\<close>



end
