(* ===== verification/Cash_Securities.thy ===== *)
theory Cash_Securities
  imports Freeze Database Book
begin

text \<open>
  What the services for stocks, convertible bonds and ETFs share: their tables beside those of the
  trading core, and the three calculating services, \<open>app/services/cash_security_funds_service.py\<close>,
  \<open>cash_security_fee_service.py\<close> and \<open>cash_security_position_service.py\<close>. A holding of a cash security
  is one aggregate \<open>position\<close> row without details.
\<close>

section \<open>Tables\<close>

text \<open>\<open>OrderFeeComponentSnapshot\<close>: the fee rules of an order, as they were when it was accepted.\<close>

record fee_snapshot =
  fs_order_id :: string
  fs_fee_type :: string
  fs_rule_item_id :: int
  fs_rule_version :: string
  fs_direction :: order_direction
  fs_calculation_type :: commission_type
  fs_commission_parameter :: decimal
  fs_minimum_fee :: decimal
  fs_aggregation_scope :: string
  fs_contract_multiplier :: decimal
  fs_data_source :: string
  fs_created_at :: datetime

text \<open>\<open>CashSecurityOrderFeeAccumulator\<close> and \<open>CashSecurityTradeFeeComponent\<close>.\<close>

record fee_accumulator =
  fa_order_id :: string
  fa_fee_type :: string
  fa_cumulative_volume :: int
  fa_cumulative_turnover :: decimal
  fa_charged_fee :: decimal
  fa_created_at :: datetime
  fa_updated_at :: datetime

record trade_fee_component =
  tf_trade_id :: string
  tf_fee_type :: string
  tf_fee_amount :: decimal
  tf_created_at :: datetime

text \<open>\<open>StockTradingRule\<close> and \<open>StockDailyTradingFact\<close>.\<close>

record stock_rule =
  sk_id :: int
  sk_instrument_id :: int
  sk_buy_lot_size :: int
  sk_buy_volume_must_be_multiple :: bool
  sk_sell_min_unit :: int
  sk_sell_odd_lot_allowed :: bool
  sk_settlement_days :: int
  sk_price_limit_type :: string
  sk_rule_version :: string
  sk_effective_from :: date
  sk_effective_to :: "date option"

record daily_fact =
  df_instrument_id :: int
  df_trading_day :: date
  df_previous_close :: decimal
  df_upper_limit_price :: "decimal option"
  df_lower_limit_price :: "decimal option"
  df_is_suspended :: bool
  df_is_special_treatment :: bool
  df_is_tradeable :: bool
  df_source_event_id :: string
  df_data_source :: string
  df_synced_at :: datetime
  df_created_at :: datetime
  df_updated_at :: datetime

record cash_db =
  cd_core :: db
  cd_snapshots :: "fee_snapshot list"
  cd_accumulators :: "fee_accumulator list"
  cd_trade_fees :: "trade_fee_component list"
  cd_rules :: "stock_rule list"
  cd_facts :: "daily_fact list"

definition on_core :: "(db \<Rightarrow> db) \<Rightarrow> cash_db \<Rightarrow> cash_db" where
  "on_core f d = d\<lparr>cd_core := f (cd_core d)\<rparr>"

text \<open>
  \<open>OrderFeeComponentSnapshotRepository\<close> and \<open>CashSecurityFeeRepository\<close>; the rows of a table stand in
  the order of their ids.
\<close>

definition order_snapshots :: "cash_db \<Rightarrow> string \<Rightarrow> fee_snapshot list" where
  "order_snapshots d oid = filter (\<lambda>s. fs_order_id s = oid) (cd_snapshots d)"

definition get_accumulator :: "fee_accumulator list \<Rightarrow> string \<Rightarrow> string \<Rightarrow> fee_accumulator option" where
  "get_accumulator accs oid ft = first_row (\<lambda>a. fa_order_id a = oid \<and> fa_fee_type a = ft) accs"

definition accumulator_key :: "fee_accumulator \<Rightarrow> string \<times> string" where
  "accumulator_key a = (fa_order_id a, fa_fee_type a)"

definition add_snapshots :: "fee_snapshot list \<Rightarrow> cash_db \<Rightarrow> cash_db" where
  "add_snapshots rows d = d\<lparr>cd_snapshots := cd_snapshots d @ rows\<rparr>"

definition add_trade_components :: "trade_fee_component list \<Rightarrow> cash_db \<Rightarrow> cash_db" where
  "add_trade_components rows d = d\<lparr>cd_trade_fees := cd_trade_fees d @ rows\<rparr>"

section \<open>\<open>CashSecurityFundsService\<close>\<close>

definition cash_account_tradable :: "account option \<Rightarrow> account result" where
  "cash_account_tradable account =
     (case account of
        None \<Rightarrow> Inl (ResourceNotFoundError ''ACCOUNT_NOT_FOUND'')
      | Some a \<Rightarrow> if a_status a \<noteq> ACCOUNT_NORMAL
                  then Inl (BusinessRuleError ''ACCOUNT_NOT_TRADABLE'') else Inr a)"

definition freeze_buy :: "account option \<Rightarrow> decimal \<Rightarrow> decimal \<Rightarrow> account result" where
  "freeze_buy account frozen_cash frozen_commission =
     rbind (cash_account_tradable account) (\<lambda>a.
     let cash = quantize_money frozen_cash; commission = quantize_money frozen_commission
     in if cash < 0 \<or> commission < 0
        then Inl (BusinessValidationError ''INVALID_CASH_SECURITY_FROZEN_RESOURCE'')
        else
          let required = quantize_money (cash + commission)
          in if quantize_money (a_available_cash a) < required
             then Inl (BusinessRuleError ''INSUFFICIENT_AVAILABLE_CASH'')
             else Inr (a\<lparr>
               a_available_cash := quantize_money (a_available_cash a - required),
               a_frozen_cash := quantize_money (a_frozen_cash a + cash),
               a_frozen_commission := quantize_money (a_frozen_commission a + commission)\<rparr>))"

definition release_buy :: "account option \<Rightarrow> decimal \<Rightarrow> decimal \<Rightarrow> account result" where
  "release_buy account frozen_cash frozen_commission =
     (case account of
        None \<Rightarrow> Inl (ResourceNotFoundError ''ACCOUNT_NOT_FOUND'')
      | Some a \<Rightarrow>
          let cash = quantize_money frozen_cash; commission = quantize_money frozen_commission
          in if cash < 0 \<or> commission < 0
             then Inl (BusinessValidationError ''INVALID_CASH_SECURITY_RELEASE_RESOURCE'')
             else if a_frozen_cash a < cash \<or> a_frozen_commission a < commission
             then Inl (DataAccessError ''CASH_SECURITY_CANCEL_FROZEN_RESOURCE_INCONSISTENT'')
             else Inr (a\<lparr>
               a_available_cash := quantize_money (a_available_cash a + cash + commission),
               a_frozen_cash := quantize_money (a_frozen_cash a - cash),
               a_frozen_commission := quantize_money (a_frozen_commission a - commission)\<rparr>))"

text \<open>The funds service implements the freezing contract of the trading core.\<close>

definition freeze_cash where
  "freeze_cash a r = freeze_buy (Some a) (rs_cash r) (rs_commission r)"

definition release_cash where
  "release_cash a r = release_buy (Some a) (rs_cash r) (rs_commission r)"

interpretation cash_buy: frozen_pool "\<lambda>r. rs_margin r = 0" freeze_cash release_cash
proof (unfold_locales, goal_cases)
  case (1 r a a')
  then show ?case
    by (auto simp: freeze_cash_def freeze_buy_def rbind_Inr_iff ledger_defs Let_def not_less
        cash_account_tradable_def is_money_add is_money_diff split: if_splits)
next
  case (2 r a)
  then show ?case
    by (simp add: release_cash_def release_buy_def ledger_defs Let_def not_less is_money_add
        is_money_diff algebra_simps)
qed

section \<open>\<open>CashSecurityFeeService\<close>\<close>

record cash_fee_component =
  ck_fee_type :: string
  ck_rule_item_id :: int
  ck_rule_version :: string
  ck_direction :: order_direction
  ck_calculation_type :: commission_type
  ck_commission_parameter :: decimal
  ck_minimum_fee :: decimal
  ck_aggregation_scope :: string
  ck_contract_multiplier :: decimal
  ck_data_source :: string

fun calculate_component ::
  "decimal \<Rightarrow> int \<Rightarrow> commission_type \<Rightarrow> decimal \<Rightarrow> decimal \<Rightarrow> decimal result" where
  "calculate_component price volume (UnknownCommission _) parameter multiplier =
     Inl (BusinessValidationError ''UNSUPPORTED_COMMISSION_TYPE'')"
| "calculate_component price volume BY_VOLUME parameter multiplier =
     Inr (quantize_money (of_int volume * parameter))"
| "calculate_component price volume BY_AMOUNT parameter multiplier =
     Inr (quantize_money (price * of_int volume * multiplier * parameter))"

fun components_loop ::
  "decimal \<Rightarrow> int \<Rightarrow> string list \<Rightarrow> decimal \<Rightarrow> cash_fee_component list \<Rightarrow> decimal result" where
  "components_loop price volume seen acc [] = Inr acc"
| "components_loop price volume seen acc (c # cs) =
     (if ck_fee_type c \<in> set seen
      then Inl (BusinessValidationError ''DUPLICATE_CASH_SECURITY_FEE_COMPONENT'')
      else rbind (calculate_component price volume (ck_calculation_type c)
                    (ck_commission_parameter c) (ck_contract_multiplier c)) (\<lambda>raw_fee.
        components_loop price volume (ck_fee_type c # seen)
          (acc + max raw_fee (quantize_money (ck_minimum_fee c))) cs))"

definition calculate_components ::
  "decimal \<Rightarrow> int \<Rightarrow> cash_fee_component list \<Rightarrow> decimal result" where
  "calculate_components price volume components =
     rbind (components_loop price volume [] 0 components) (\<lambda>acc. Inr (quantize_money acc))"

section \<open>\<open>CashSecurityPositionService\<close>\<close>

fun settlement_days :: "instrument_type \<Rightarrow> int option \<Rightarrow> int result" where
  "settlement_days STOCK market_tplus = Inr 1"
| "settlement_days CONVERTIBLE_BOND market_tplus = Inr 0"
| "settlement_days ETF market_tplus =
     (case market_tplus of
        None \<Rightarrow> Inl (DataAccessError ''CASH_SECURITY_POSITION_INSTRUMENT_INVALID'')
      | Some n \<Rightarrow> if n \<in> {0, 1} then Inr n
                  else Inl (DataAccessError ''CASH_SECURITY_POSITION_INSTRUMENT_INVALID''))"
| "settlement_days _ market_tplus =
     Inl (DataAccessError ''CASH_SECURITY_POSITION_INSTRUMENT_INVALID'')"

text \<open>
  The columns of the base costs are not nullable, so the compatibility defaults of the code are not
  reached. A buy divides by a positive total volume.
\<close>

definition apply_buy ::
  "position \<Rightarrow> instrument_type \<Rightarrow> int \<Rightarrow> decimal \<Rightarrow> int option \<Rightarrow> position result" where
  "apply_buy p it volume turnover market_tplus =
     rbind (settlement_days it market_tplus) (\<lambda>days.
     let held = p_total_volume p + volume;
         cost = quantize_money (p_position_cost p + turnover);
         today_base = quantize_money (p_today_pnl_base_cost p + turnover);
         p1 = p\<lparr>p_total_volume := held, p_today_volume := p_today_volume p + volume,
                p_settlement_locked_volume :=
                  (if days = 1 then p_settlement_locked_volume p + volume
                   else p_settlement_locked_volume p),
                p_available_volume :=
                  (if days = 1 then p_available_volume p else p_available_volume p + volume),
                p_position_cost := cost, p_today_pnl_base_cost := today_base,
                p_average_open_price := quantize_money (cost / of_int held)\<rparr>
     in if \<not> p_daily_pnl_base_established p
        then Inr (p1\<lparr>p_daily_pnl_base_cost := quantize_money (p_daily_pnl_base_cost p + turnover)\<rparr>)
        else Inr (p1\<lparr>p_daily_pnl_base_cost :=
                       quantize_money (p_yesterday_pnl_base_cost p + today_base),
                     p_daily_pnl_base_established := True\<rparr>))"

text \<open>The part of a base cost that leaves with the volume sold out of its bucket.\<close>

definition base_reduction :: "decimal \<Rightarrow> int \<Rightarrow> int \<Rightarrow> decimal" where
  "base_reduction base sold before =
     (if sold = before then base
      else if sold \<noteq> 0 then quantize_money (base * of_int sold / of_int before) else 0)"

definition sold_cost :: "position \<Rightarrow> int \<Rightarrow> decimal" where
  "sold_cost p volume =
     (if volume = p_total_volume p then p_position_cost p
      else quantize_money (p_position_cost p * of_int volume / of_int (p_total_volume p)))"

definition t_plus_one_violation :: "instrument_type \<Rightarrow> app_error" where
  "t_plus_one_violation it =
     DataAccessError (if it = STOCK then ''STOCK_T_PLUS_ONE_VIOLATION''
                      else ''ETF_T_PLUS_ONE_VIOLATION'')"

definition sold_base_costs :: "position \<Rightarrow> int \<Rightarrow> int \<Rightarrow> position \<Rightarrow> position" where
  "sold_base_costs p yesterday_sold today_sold p1 =
     (let today_base = p_today_pnl_base_cost p; yesterday_base = p_yesterday_pnl_base_cost p;
          today_left = quantize_money
            (today_base - base_reduction today_base today_sold (p_today_volume p))
      in if \<not> p_daily_pnl_base_established p
         then p1\<lparr>p_today_pnl_base_cost := today_left,
                 p_daily_pnl_base_cost := quantize_money
                   (quantize_money (p_daily_pnl_base_cost p - today_base) + today_left)\<rparr>
         else
           let yesterday_left = quantize_money
                 (yesterday_base - base_reduction yesterday_base yesterday_sold (p_yesterday_volume p))
           in p1\<lparr>p_yesterday_pnl_base_cost := yesterday_left, p_today_pnl_base_cost := today_left,
                 p_daily_pnl_base_cost := quantize_money (yesterday_left + today_left)\<rparr>)"

definition apply_sell ::
  "position \<Rightarrow> instrument_type \<Rightarrow> int \<Rightarrow> int option \<Rightarrow> (position \<times> decimal) result" where
  "apply_sell p it volume market_tplus =
     (if p_frozen_volume p < volume \<or> p_total_volume p < volume
      then Inl (DataAccessError ''CASH_SECURITY_SELL_FREEZE_INCONSISTENT'')
      else rbind (settlement_days it market_tplus) (\<lambda>days.
        if days = 1 \<and> p_yesterday_volume p < volume then Inl (t_plus_one_violation it)
        else
          let yesterday_sold = (if days = 1 then volume else min (p_yesterday_volume p) volume);
              today_sold = volume - yesterday_sold;
              cost = sold_cost p volume;
              held = p_total_volume p - volume;
              frozen = p_frozen_volume p - volume;
              left = quantize_money (p_position_cost p - cost);
              p1 = sold_base_costs p yesterday_sold today_sold
                (p\<lparr>p_yesterday_volume := p_yesterday_volume p - yesterday_sold,
                   p_today_volume := p_today_volume p - today_sold, p_frozen_volume := frozen,
                   p_total_volume := held, p_position_cost := left,
                   p_available_volume := held - frozen - p_settlement_locked_volume p,
                   p_average_open_price :=
                     (if held \<noteq> 0 then quantize_money (left / of_int held) else 0)\<rparr>)
          in Inr (p1, cost)))"

end
