(* ===== verification/Cash_Policies.thy ===== *)
theory Cash_Policies
  imports Cash_Securities Order_Requests
begin

text \<open>
  Which orders for cash securities are admitted: the rule and fact tables
  (\<open>app/repositories/stock_trading_rule_repository.py\<close>,
  \<open>stock_daily_trading_fact_repository.py\<close>) and the three policies of
  \<open>app/services/stock_order_validation_service.py\<close>.
\<close>

section \<open>Rules with a period of validity\<close>

definition rule_effective :: "int \<Rightarrow> date \<Rightarrow> stock_rule \<Rightarrow> bool" where
  "rule_effective instrument_id trading_day r \<longleftrightarrow>
     sk_instrument_id r = instrument_id \<and> sk_effective_from r \<le> trading_day
     \<and> (case sk_effective_to r of None \<Rightarrow> True | Some until \<Rightarrow> trading_day \<le> until)"

text \<open>None stands for the \<open>LookupError\<close> of a missing or ambiguous rule.\<close>

definition resolve_for_trading_day :: "cash_db \<Rightarrow> int \<Rightarrow> date \<Rightarrow> stock_rule option" where
  "resolve_for_trading_day d instrument_id trading_day =
     (case filter (rule_effective instrument_id trading_day) (cd_rules d) of
        [r] \<Rightarrow> Some r
      | _ \<Rightarrow> None)"

definition periods_overlap :: "stock_rule \<Rightarrow> stock_rule \<Rightarrow> bool" where
  "periods_overlap r s \<longleftrightarrow>
     (case sk_effective_to r of None \<Rightarrow> True | Some until \<Rightarrow> sk_effective_from s \<le> until)
     \<and> (case sk_effective_to s of None \<Rightarrow> True | Some until \<Rightarrow> sk_effective_from r \<le> until)"

definition is_cash_instrument :: "cash_db \<Rightarrow> int \<Rightarrow> bool" where
  "is_cash_instrument d instrument_id \<longleftrightarrow>
     (\<exists>i \<in> set (db_instruments (cd_core d)). i_id i = instrument_id
        \<and> i_instrument_type i \<in> cash_security_instrument_types)"

definition create_rule :: "stock_rule \<Rightarrow> cash_db \<Rightarrow> cash_db result" where
  "create_rule r d =
     (if \<not> is_cash_instrument d (sk_instrument_id r) then Inl PyValueError
      else if \<exists>s \<in> set (cd_rules d). sk_instrument_id s = sk_instrument_id r
                \<and> sk_rule_version s = sk_rule_version r
      then Inl PyValueError
      else if \<exists>s \<in> set (cd_rules d). sk_instrument_id s = sk_instrument_id r \<and> periods_overlap r s
      then Inl PyValueError
      else Inr (d\<lparr>cd_rules := cd_rules d @ [r]\<rparr>))"

section \<open>Facts of a trading day\<close>

definition fact_key :: "daily_fact \<Rightarrow> int \<times> date" where
  "fact_key f = (df_instrument_id f, df_trading_day f)"

definition get_fact :: "cash_db \<Rightarrow> int \<Rightarrow> date \<Rightarrow> daily_fact option" where
  "get_fact d instrument_id trading_day = find_row fact_key (instrument_id, trading_day) (cd_facts d)"

datatype upsert_result = INSERTED | DUPLICATE | IGNORED_STALE | CONFLICT_SAME_TIMESTAMP | UPDATED

text \<open>An update keeps the time of creation of the row.\<close>

definition upsert_fact :: "daily_fact \<Rightarrow> cash_db \<Rightarrow> (cash_db \<times> upsert_result) result" where
  "upsert_fact f d =
     (if \<not> is_cash_instrument d (df_instrument_id f) then Inl PyValueError
      else case get_fact d (df_instrument_id f) (df_trading_day f) of
        None \<Rightarrow> Inr (d\<lparr>cd_facts := cd_facts d @ [f\<lparr>df_created_at := df_updated_at f\<rparr>]\<rparr>, INSERTED)
      | Some current \<Rightarrow>
          if df_source_event_id current = df_source_event_id f then Inr (d, DUPLICATE)
          else if df_synced_at f < df_synced_at current then Inr (d, IGNORED_STALE)
          else if df_synced_at f = df_synced_at current then Inr (d, CONFLICT_SAME_TIMESTAMP)
          else Inr (d\<lparr>cd_facts := replace_row fact_key
                 (f\<lparr>df_created_at := df_created_at current\<rparr>) (cd_facts d)\<rparr>, UPDATED))"

section \<open>The checks the policies share\<close>

definition validate_limits :: "decimal \<Rightarrow> stock_rule \<Rightarrow> daily_fact \<Rightarrow> unit result" where
  "validate_limits price rule daily =
     (case (df_upper_limit_price daily, df_lower_limit_price daily) of
        (Some highest, Some lowest) \<Rightarrow>
          if highest < price \<or> price < lowest
          then Inl (BusinessValidationError ''STOCK_PRICE_LIMIT_EXCEEDED'') else Inr ()
      | _ \<Rightarrow> if sk_price_limit_type rule = ''NONE'' then Inr ()
             else Inl (BusinessRuleError ''STOCK_PRICE_LIMIT_FACT_MISSING''))"

definition validate_common :: "order_request \<Rightarrow> decimal \<Rightarrow> instrument \<Rightarrow> unit result" where
  "validate_common q price ins =
     (if rq_volume q < i_min_volume ins
      then Inl (BusinessValidationError ''VOLUME_BELOW_MINIMUM'')
      else if i_max_volume ins < rq_volume q
      then Inl (BusinessValidationError ''VOLUME_ABOVE_MAXIMUM'')
      else validate_price_tick price (i_price_tick ins))"

record stock_order_reference =
  re_instrument :: instrument
  re_rule :: stock_rule
  re_daily_fact :: daily_fact

text \<open>The end of all three checks; the limit price of a cash security request is never absent.\<close>

definition validated_reference ::
  "instrument \<Rightarrow> stock_rule \<Rightarrow> daily_fact \<Rightarrow> order_request \<Rightarrow> stock_order_reference result" where
  "validated_reference ins rule daily q =
     (case rq_limit_price q of
        None \<Rightarrow> Inl PyTypeError
      | Some price \<Rightarrow>
          rbind (validate_limits price rule daily) (\<lambda>_.
          rbind (validate_common q price ins) (\<lambda>_.
          Inr \<lparr>re_instrument = ins, re_rule = rule, re_daily_fact = daily\<rparr>)))"

section \<open>The policies\<close>

datatype trading_policy = StockTradingPolicy | ConvertibleBondTradingPolicy | EtfTradingPolicy

definition stock_resolve_and_validate ::
  "cash_db \<Rightarrow> instrument option \<Rightarrow> order_request \<Rightarrow> date \<Rightarrow> stock_order_reference result" where
  "stock_resolve_and_validate d instrument q trading_day =
     (case instrument of
        None \<Rightarrow> Inl (BusinessRuleError ''STOCK_INSTRUMENT_NOT_FOUND'')
      | Some ins \<Rightarrow>
        if i_instrument_type ins \<noteq> STOCK
        then Inl (BusinessRuleError ''STOCK_INSTRUMENT_TYPE_INVALID'')
        else if i_market_type ins \<noteq> ''STOCK''
        then Inl (BusinessRuleError ''STOCK_MARKET_TYPE_INVALID'')
        else if \<not> i_is_active ins \<or> \<not> i_is_tradeable ins
        then Inl (BusinessRuleError ''STOCK_INSTRUMENT_NOT_TRADEABLE'')
        else case resolve_for_trading_day d (i_id ins) trading_day of
          None \<Rightarrow> Inl (BusinessRuleError ''STOCK_TRADING_RULE_UNAVAILABLE'')
        | Some rule \<Rightarrow>
          (case get_fact d (i_id ins) trading_day of
             None \<Rightarrow> Inl (BusinessRuleError ''STOCK_DAILY_FACT_MISSING'')
           | Some daily \<Rightarrow>
               if df_is_suspended daily \<or> \<not> df_is_tradeable daily
               then Inl (BusinessRuleError ''STOCK_DAILY_NOT_TRADEABLE'')
               else validated_reference ins rule daily q))"

definition bond_resolve_and_validate ::
  "cash_db \<Rightarrow> instrument option \<Rightarrow> order_request \<Rightarrow> date \<Rightarrow> stock_order_reference result" where
  "bond_resolve_and_validate d instrument q trading_day =
     (case instrument of
        None \<Rightarrow> Inl (BusinessRuleError ''CONVERTIBLE_BOND_INSTRUMENT_NOT_FOUND'')
      | Some ins \<Rightarrow>
        if i_instrument_type ins \<noteq> CONVERTIBLE_BOND
        then Inl (BusinessRuleError ''CONVERTIBLE_BOND_INSTRUMENT_TYPE_INVALID'')
        else if i_market_type ins \<noteq> ''BOND''
        then Inl (BusinessRuleError ''CONVERTIBLE_BOND_MARKET_TYPE_INVALID'')
        else if \<not> i_is_active ins \<or> \<not> i_is_tradeable ins
        then Inl (BusinessRuleError ''CONVERTIBLE_BOND_INSTRUMENT_NOT_TRADEABLE'')
        else case resolve_for_trading_day d (i_id ins) trading_day of
          None \<Rightarrow> Inl (BusinessRuleError ''CONVERTIBLE_BOND_TRADING_RULE_UNAVAILABLE'')
        | Some rule \<Rightarrow>
          (case get_fact d (i_id ins) trading_day of
             None \<Rightarrow> Inl (BusinessRuleError ''CONVERTIBLE_BOND_DAILY_NOT_TRADEABLE'')
           | Some daily \<Rightarrow>
               if df_is_suspended daily \<or> \<not> df_is_tradeable daily
               then Inl (BusinessRuleError ''CONVERTIBLE_BOND_DAILY_NOT_TRADEABLE'')
               else validated_reference ins rule daily q))"

definition etf_resolve_and_validate ::
  "cash_db \<Rightarrow> instrument option \<Rightarrow> order_request \<Rightarrow> date \<Rightarrow> stock_order_reference result" where
  "etf_resolve_and_validate d instrument q trading_day =
     (case instrument of
        None \<Rightarrow> Inl (BusinessRuleError ''ETF_INSTRUMENT_NOT_FOUND'')
      | Some ins \<Rightarrow>
        if i_instrument_type ins \<noteq> ETF
        then Inl (BusinessRuleError ''ETF_INSTRUMENT_TYPE_INVALID'')
        else if i_market_type ins \<noteq> ''FUND''
        then Inl (BusinessRuleError ''ETF_MARKET_TYPE_INVALID'')
        else if \<not> i_is_active ins \<or> \<not> i_is_tradeable ins
        then Inl (BusinessRuleError ''ETF_INSTRUMENT_NOT_TRADEABLE'')
        else case resolve_for_trading_day d (i_id ins) trading_day of
          None \<Rightarrow> Inl (BusinessRuleError ''ETF_TRADING_RULE_UNAVAILABLE'')
        | Some rule \<Rightarrow>
          if i_market_tplus ins \<notin> {Some 0, Some 1} \<or> i_round_lot ins = None
             \<or> Some (sk_settlement_days rule) \<noteq> i_market_tplus ins
             \<or> Some (sk_buy_lot_size rule) \<noteq> i_round_lot ins
          then Inl (BusinessRuleError ''ETF_TRADING_RULE_REFERENCE_MISMATCH'')
          else (case get_fact d (i_id ins) trading_day of
             None \<Rightarrow> Inl (BusinessRuleError ''ETF_DAILY_FACT_MISSING'')
           | Some daily \<Rightarrow>
               if df_is_suspended daily \<or> \<not> df_is_tradeable daily
               then Inl (BusinessRuleError ''ETF_DAILY_NOT_TRADEABLE'')
               else validated_reference ins rule daily q))"

fun resolve_and_validate ::
  "trading_policy \<Rightarrow> cash_db \<Rightarrow> instrument option \<Rightarrow> order_request \<Rightarrow> date
   \<Rightarrow> stock_order_reference result" where
  "resolve_and_validate StockTradingPolicy d = stock_resolve_and_validate d"
| "resolve_and_validate ConvertibleBondTradingPolicy d = bond_resolve_and_validate d"
| "resolve_and_validate EtfTradingPolicy d = etf_resolve_and_validate d"

section \<open>Volumes\<close>

definition stock_validate_buy :: "order_request \<Rightarrow> stock_rule \<Rightarrow> unit result" where
  "stock_validate_buy q rule =
     (if sk_buy_lot_size rule \<le> 0 then Inl (BusinessRuleError ''STOCK_BUY_LOT_INVALID'')
      else if sk_buy_volume_must_be_multiple rule \<and> rq_volume q mod sk_buy_lot_size rule \<noteq> 0
      then Inl (BusinessValidationError ''STOCK_BUY_LOT_MISMATCH'')
      else Inr ())"

definition stock_validate_sell ::
  "order_request \<Rightarrow> stock_rule \<Rightarrow> position option \<Rightarrow> position result" where
  "stock_validate_sell q rule position =
     (case position of
        None \<Rightarrow> Inl (BusinessRuleError ''STOCK_LONG_POSITION_REQUIRED'')
      | Some p \<Rightarrow>
        if p_direction p \<noteq> LONG then Inl (BusinessRuleError ''STOCK_LONG_POSITION_REQUIRED'')
        else if p_available_volume p < rq_volume q
        then Inl (BusinessRuleError ''STOCK_AVAILABLE_VOLUME_INSUFFICIENT'')
        else if sk_sell_min_unit rule \<le> 0
        then Inl (BusinessRuleError ''STOCK_SELL_UNIT_INVALID'')
        else if \<not> sk_sell_odd_lot_allowed rule \<and> rq_volume q mod sk_sell_min_unit rule \<noteq> 0
        then Inl (BusinessValidationError ''STOCK_SELL_UNIT_MISMATCH'')
        else Inr p)"

definition etf_validate_buy :: "order_request \<Rightarrow> stock_rule \<Rightarrow> unit result" where
  "etf_validate_buy q rule =
     (if sk_buy_lot_size rule \<le> 0 then Inl (BusinessRuleError ''ETF_BUY_LOT_INVALID'')
      else if rq_volume q mod sk_buy_lot_size rule \<noteq> 0
      then Inl (BusinessValidationError ''ETF_BUY_LOT_MISMATCH'')
      else Inr ())"

definition etf_validate_sell ::
  "order_request \<Rightarrow> stock_rule \<Rightarrow> position option \<Rightarrow> position result" where
  "etf_validate_sell q rule position =
     (case position of
        None \<Rightarrow> Inl (BusinessRuleError ''ETF_LONG_POSITION_REQUIRED'')
      | Some p \<Rightarrow>
        if p_direction p \<noteq> LONG then Inl (BusinessRuleError ''ETF_LONG_POSITION_REQUIRED'')
        else if p_available_volume p < rq_volume q
        then Inl (BusinessRuleError ''ETF_AVAILABLE_VOLUME_INSUFFICIENT'')
        else
          let lot = sk_sell_min_unit rule
          in if lot \<le> 0 then Inl (BusinessRuleError ''ETF_SELL_UNIT_INVALID'')
             else
               let order_remainder = rq_volume q mod lot;
                   available_remainder = p_available_volume p mod lot
               in if order_remainder \<noteq> 0
                     \<and> (\<not> sk_sell_odd_lot_allowed rule \<or> order_remainder \<noteq> available_remainder)
                  then Inl (BusinessValidationError ''ETF_SELL_ODD_LOT_SPLIT'')
                  else Inr p)"

fun validate_buy :: "trading_policy \<Rightarrow> order_request \<Rightarrow> stock_rule \<Rightarrow> unit result" where
  "validate_buy EtfTradingPolicy = etf_validate_buy"
| "validate_buy _ = stock_validate_buy"

fun validate_sell ::
  "trading_policy \<Rightarrow> order_request \<Rightarrow> stock_rule \<Rightarrow> position option \<Rightarrow> position result" where
  "validate_sell EtfTradingPolicy = etf_validate_sell"
| "validate_sell _ = stock_validate_sell"

end
