(* ===== verification/Cash_Orders.thy ===== *)
theory Cash_Orders
  imports Cash_Policies Order_Creation
begin

text \<open>
  Placing and withdrawing orders for cash securities: \<open>app/services/stock_order_service.py\<close> and
  \<open>stock_order_cancellation_service.py\<close>, which the services for convertible bonds and ETFs
  (\<open>convertible_bond_order_service.py\<close>, \<open>etf_order_service.py\<close>) instantiate. A buy freezes money,
  a sell freezes part of the holding.
\<close>

section \<open>The three services\<close>

record cash_service =
  sv_instrument_type :: instrument_type
  sv_policy :: trading_policy
  sv_accepted_event_type :: string
  sv_cancelled_event_type :: string

definition stock_order_service :: cash_service where
  "stock_order_service = \<lparr>sv_instrument_type = STOCK, sv_policy = StockTradingPolicy,
     sv_accepted_event_type = ''STOCK_ORDER_ACCEPTED'',
     sv_cancelled_event_type = ''STOCK_ORDER_CANCELLED''\<rparr>"

definition convertible_bond_order_service :: cash_service where
  "convertible_bond_order_service = \<lparr>sv_instrument_type = CONVERTIBLE_BOND,
     sv_policy = ConvertibleBondTradingPolicy,
     sv_accepted_event_type = ''CONVERTIBLE_BOND_ORDER_ACCEPTED'',
     sv_cancelled_event_type = ''CONVERTIBLE_BOND_ORDER_CANCELLED''\<rparr>"

definition etf_order_service :: cash_service where
  "etf_order_service = \<lparr>sv_instrument_type = ETF, sv_policy = EtfTradingPolicy,
     sv_accepted_event_type = ''ETF_ORDER_ACCEPTED'',
     sv_cancelled_event_type = ''ETF_ORDER_CANCELLED''\<rparr>"

text \<open>An error code that starts with the instrument type.\<close>

definition type_code :: "cash_service \<Rightarrow> string \<Rightarrow> string" where
  "type_code sv suffix = instrument_type_value (sv_instrument_type sv) @ suffix"

definition cash_account_types :: "string set" where
  "cash_account_types = {''STOCK'', ''SECURITIES_CASH''}"

section \<open>Reading the request\<close>

definition get_listed_instrument :: "db \<Rightarrow> string \<Rightarrow> string \<Rightarrow> instrument option" where
  "get_listed_instrument d ex code =
     first_row (\<lambda>i. i_exchange_id i = ex \<and> i_symbol i = code) (db_instruments d)"

definition exchange_alias :: "string \<Rightarrow> string" where
  "exchange_alias ex = (if ex = ''XSHG'' then ''SSE'' else if ex = ''XSHE'' then ''SZSE'' else ex)"

definition resolve_instrument :: "db \<Rightarrow> order_request \<Rightarrow> instrument option result" where
  "resolve_instrument d q =
     rbind (normalize_code (rq_exchange_id q)) (\<lambda>ex.
     rbind (normalize_code (rq_symbol q)) (\<lambda>code.
     Inr (if CHR ''.'' \<in> set code then get_instrument d code
          else get_listed_instrument d (exchange_alias ex) code)))"

definition instrument_not_found :: "cash_service \<Rightarrow> app_error" where
  "instrument_not_found sv = BusinessRuleError
     (if sv_instrument_type sv = CONVERTIBLE_BOND then ''CONVERTIBLE_BOND_INSTRUMENT_NOT_FOUND''
      else if sv_instrument_type sv = ETF then ''ETF_INSTRUMENT_NOT_FOUND''
      else ''STOCK_INSTRUMENT_NOT_FOUND'')"

definition fee_component_missing :: "cash_service \<Rightarrow> app_error" where
  "fee_component_missing sv = BusinessRuleError
     (if sv_instrument_type sv = CONVERTIBLE_BOND then ''CONVERTIBLE_BOND_FEE_COMPONENT_MISSING''
      else if sv_instrument_type sv = ETF then ''ETF_FEE_COMPONENT_MISSING''
      else ''STOCK_FEE_COMPONENT_MISSING'')"

definition require_stock_account :: "cash_service \<Rightarrow> account \<Rightarrow> unit result" where
  "require_stock_account sv a =
     (if a_account_type a \<notin> cash_account_types
      then Inl (BusinessRuleError (type_code sv ''_ACCOUNT_REQUIRED'')) else Inr ())"

text \<open>The order of an earlier request with the same client order id.\<close>

definition replay_cash_order :: "cash_service \<Rightarrow> order \<Rightarrow> order_request \<Rightarrow> unit result" where
  "replay_cash_order sv r q =
     rbind (order_idempotency_validate r q) (\<lambda>_.
     if o_instrument_type r \<noteq> sv_instrument_type sv then Inl idempotency_key_reused else Inr ())"

section \<open>The terms of the order\<close>

definition fee_component :: "decimal \<Rightarrow> fee_rule_item \<Rightarrow> cash_fee_component" where
  "fee_component multiplier item =
     \<lparr>ck_fee_type = fi_fee_type item, ck_rule_item_id = fi_id item,
      ck_rule_version = fi_rule_version item, ck_direction = fi_direction item,
      ck_calculation_type = fi_commission_type item,
      ck_commission_parameter = fi_commission_parameter item,
      ck_minimum_fee = fi_minimum_fee item, ck_aggregation_scope = fi_aggregation_scope item,
      ck_contract_multiplier = multiplier, ck_data_source = fi_data_source item\<rparr>"

definition snapshot_row :: "string \<Rightarrow> datetime \<Rightarrow> cash_fee_component \<Rightarrow> fee_snapshot" where
  "snapshot_row oid created_at c =
     \<lparr>fs_order_id = oid, fs_fee_type = ck_fee_type c, fs_rule_item_id = ck_rule_item_id c,
      fs_rule_version = ck_rule_version c, fs_direction = ck_direction c,
      fs_calculation_type = ck_calculation_type c,
      fs_commission_parameter = ck_commission_parameter c, fs_minimum_fee = ck_minimum_fee c,
      fs_aggregation_scope = ck_aggregation_scope c,
      fs_contract_multiplier = ck_contract_multiplier c, fs_data_source = ck_data_source c,
      fs_created_at = created_at\<rparr>"

record cash_plan =
  cq_price :: decimal
  cq_multiplier :: decimal
  cq_reference :: stock_order_reference
  cq_components :: "cash_fee_component list"
  cq_fee :: decimal
  cq_trading_day :: date

text \<open>
  What is computed before the account is locked. \<open>day_of\<close> is the provider of the trading day or
  \<open>resolve_for_cash_security_order\<close>.
\<close>

definition prepare_cash_order ::
  "cash_db \<Rightarrow> cash_service \<Rightarrow> (instrument \<Rightarrow> date result) \<Rightarrow> order_request \<Rightarrow> cash_plan result" where
  "prepare_cash_order d sv day_of q =
     rbind (resolve_instrument (cd_core d) q) (\<lambda>found.
     case found of
       None \<Rightarrow> Inl (instrument_not_found sv)
     | Some ins0 \<Rightarrow>
       rbind (day_of ins0) (\<lambda>day.
       rbind (resolve_and_validate (sv_policy sv) d (Some ins0) q day) (\<lambda>reference.
       let ins = re_instrument reference
       in rbind (resolve_cash_security_components (cd_core d) (i_id ins) (i_product_id ins)
                   (i_exchange_id ins) (sv_instrument_type sv) (rq_direction q) day) (\<lambda>items.
          if items = [] then Inl (fee_component_missing sv)
          else case (i_contract_multiplier ins, rq_limit_price q) of
            (Some multiplier, Some price) \<Rightarrow>
              let components = map (fee_component multiplier) items
              in rbind (calculate_components price (rq_volume q) components) (\<lambda>fee.
                 Inr \<lparr>cq_price = price, cq_multiplier = multiplier, cq_reference = reference,
                      cq_components = components, cq_fee = fee, cq_trading_day = day\<rparr>)
          | _ \<Rightarrow> Inl PyTypeError))))"

section \<open>Freezing and writing\<close>

record cash_freeze =
  cx_account :: account
  cx_cash :: decimal
  cx_commission :: decimal
  cx_volume :: int
  cx_position :: "position option"

definition freeze_sell :: "datetime \<Rightarrow> int \<Rightarrow> position \<Rightarrow> position" where
  "freeze_sell now volume p =
     p\<lparr>p_frozen_volume := p_frozen_volume p + volume,
       p_available_volume :=
         p_total_volume p - (p_frozen_volume p + volume) - p_settlement_locked_volume p,
       p_updated_at := now\<rparr>"

definition freeze_cash_order ::
  "cash_db \<Rightarrow> cash_service \<Rightarrow> datetime \<Rightarrow> order_request \<Rightarrow> cash_plan \<Rightarrow> account
   \<Rightarrow> cash_freeze result" where
  "freeze_cash_order d sv now q pn a =
     (let rule = re_rule (cq_reference pn); ins = re_instrument (cq_reference pn)
      in if rq_direction q = BUY then
           rbind (validate_buy (sv_policy sv) q rule) (\<lambda>_.
           let cash = quantize_money (cq_price pn * of_int (rq_volume q) * cq_multiplier pn)
           in rbind (freeze_buy (Some a) cash (cq_fee pn)) (\<lambda>a'.
              Inr \<lparr>cx_account = a', cx_cash = cash, cx_commission = cq_fee pn, cx_volume = 0,
                   cx_position = None\<rparr>))
         else
           rbind (cash_account_tradable (Some a)) (\<lambda>_.
           rbind (validate_sell (sv_policy sv) q rule
                    (get_position (cd_core d) (a_account_id a) (i_exchange_id ins) (i_symbol ins) LONG))
             (\<lambda>p. Inr \<lparr>cx_account = a, cx_cash = 0, cx_commission = 0, cx_volume = rq_volume q,
                       cx_position = Some (freeze_sell now (rq_volume q) p)\<rparr>)))"

definition accepted_cash_order ::
  "datetime \<Rightarrow> string \<Rightarrow> cash_service \<Rightarrow> order_request \<Rightarrow> cash_plan \<Rightarrow> cash_freeze \<Rightarrow> order" where
  "accepted_cash_order now order_id sv q pn cx =
     (let ins = re_instrument (cq_reference pn); price = cq_price pn
      in \<lparr>o_order_id = order_id, o_client_order_id = rq_client_order_id q,
          o_account_id = a_account_id (cx_account cx), o_order_book_id = i_order_book_id ins,
          o_symbol = i_symbol ins, o_exchange_id = i_exchange_id ins,
          o_trading_day = cq_trading_day pn, o_instrument_type = sv_instrument_type sv,
          o_underlying_order_book_id = None, o_underlying_exchange_id = None,
          o_underlying_symbol = None, o_direction = rq_direction q, o_offset_flag = None,
          o_order_type = rq_order_type q, o_commission_type = None, o_commission_parameter = None,
          o_commission_contract_multiplier = None, o_fee_rule_id = None,
          o_fee_rule_version = None, o_fee_rule_snapshot = None, o_limit_price = price,
          o_submitted_limit_price = Some price, o_resolved_price = price,
          o_market_protection_price = None, o_price_snapshot_time = None,
          o_price_snapshot_source = None, o_price_snapshot_event_id = None,
          o_price_snapshot_stream_message_id = None, o_price_snapshot_bid1 = None,
          o_price_snapshot_bid_volume1 = None, o_price_snapshot_ask1 = None,
          o_price_snapshot_ask_volume1 = None, o_price_snapshot_last = None,
          o_total_volume = rq_volume q, o_traded_volume = 0, o_remaining_volume = rq_volume q,
          o_cancelled_volume = 0, o_average_price = None, o_status = ACCEPTED,
          o_submit_status = SUBMIT_ACCEPTED, o_frozen_margin = 0, o_frozen_cash = cx_cash cx,
          o_frozen_commission = cx_commission cx, o_frozen_position_volume = cx_volume cx,
          o_margin_rule_id = None, o_margin_rule_version = None, o_margin_price_mode = None,
          o_margin_underlying_price = None, o_margin_option_price = None,
          o_margin_rule_snapshot = None, o_margin_snapshot_schema_version = None,
          o_margin_calculation_version = None, o_margin_risk_state = NORMAL,
          o_order_source = ''USER'', o_liquidation_task_id = None, o_reduce_only = False,
          o_reject_code = None, o_reject_message = None, o_cancel_reason_code = None,
          o_cancel_reason_message = None, o_created_at = now, o_accepted_at = Some now,
          o_cancelled_at = None, o_updated_at = now\<rparr>)"

text \<open>
  The drawn ids: the order, its event, the row id of that event, which becomes its business version,
  and the fact event.
\<close>

record cash_create_ids =
  cn_order_id :: string
  cn_order_event :: string
  cn_business_version :: string
  cn_fact_event :: string

text \<open>The event of an acceptance and of a cancellation have the same fields.\<close>

definition cash_order_payload ::
  "string \<Rightarrow> string \<Rightarrow> string \<Rightarrow> order \<Rightarrow> datetime \<Rightarrow> payload" where
  "cash_order_payload event_type event_id version r now =
     [(''event_type'', JString event_type), (''event_id'', JString event_id),
      (''account_id'', JString (o_account_id r)), (''account_type'', JString ''SECURITIES_CASH''),
      (''order_id'', JString (o_order_id r)),
      (''instrument_type'', JString (instrument_type_value (o_instrument_type r))),
      (''order_book_id'', JString (o_order_book_id r)),
      (''exchange_id'', JString (o_exchange_id r)), (''symbol'', JString (o_symbol r)),
      (''status'', JString (order_status_value (o_status r))),
      (''direction'', JString (direction_value (o_direction r))), (''offset_flag'', JNull),
      (''trading_day'', JDate (o_trading_day r)), (''created_at'', JTime now),
      (''business_version'', JString version)]"

definition cash_create_events ::
  "cash_create_ids \<Rightarrow> cash_service \<Rightarrow> datetime \<Rightarrow> order \<Rightarrow> account \<Rightarrow> position option
   \<Rightarrow> outbox_event list" where
  "cash_create_events ids sv now r a p =
     [create_event (cn_order_event ids) ''ORDER'' (o_order_id r) (sv_accepted_event_type sv)
        (cash_order_payload (sv_accepted_event_type sv) (cn_order_event ids)
           (cn_business_version ids) r now) now,
      (case p of
         None \<Rightarrow> create_account_updated (cn_fact_event ids) a now None (Some ''SECURITIES_CASH'')
                   (Some ''CASH_SECURITY_BUY_FROZEN'') False
       | Some p \<Rightarrow> create_position_updated (cn_fact_event ids) p now
                     (Some ''CASH_SECURITY_SELL_FROZEN''))]"

definition put_position_option :: "position option \<Rightarrow> db \<Rightarrow> db" where
  "put_position_option p d = (case p of None \<Rightarrow> d | Some p \<Rightarrow> put_position p d)"

definition place_cash_order ::
  "cash_db \<Rightarrow> cash_service \<Rightarrow> datetime \<Rightarrow> cash_create_ids \<Rightarrow> order_request \<Rightarrow> cash_plan \<Rightarrow> account
   \<Rightarrow> (cash_db \<times> order) result" where
  "place_cash_order d sv now ids q pn a =
     rbind (freeze_cash_order d sv now q pn a) (\<lambda>cx.
     let r = accepted_cash_order now (cn_order_id ids) sv q pn cx;
         a' = (cx_account cx)\<lparr>a_updated_at := now\<rparr>;
         rows = map (snapshot_row (cn_order_id ids) now) (cq_components pn)
     in Inr (add_snapshots rows (on_core (\<lambda>core.
               add_events (cash_create_events ids sv now r a' (cx_position cx))
                 (add_order r (put_account a' (put_position_option (cx_position cx) core)))) d), r))"

definition create_cash_order ::
  "cash_db \<Rightarrow> cash_service \<Rightarrow> bool \<Rightarrow> (instrument \<Rightarrow> date result) \<Rightarrow> datetime \<Rightarrow> cash_create_ids
   \<Rightarrow> access_scope \<Rightarrow> order_request \<Rightarrow> (cash_db \<times> order) result" where
  "create_cash_order d sv entry_enabled day_of now ids scope q =
     (if \<not> entry_enabled
      then Inl (BusinessRuleError (type_code sv ''_ORDER_ENTRY_DISABLED''))
      else case scoped_account (cd_core d) scope (rq_account_id q) of
        None \<Rightarrow> Inl (missing_account scope)
      | Some a \<Rightarrow>
        rbind (require_stock_account sv a) (\<lambda>_.
        case scoped_client_order (cd_core d) scope (rq_account_id q) (rq_client_order_id q) of
          Some r \<Rightarrow> rbind (replay_cash_order sv r q) (\<lambda>_. Inr (d, r))
        | None \<Rightarrow>
          rbind (prepare_cash_order d sv day_of q) (\<lambda>pn.
          case get_client_order (cd_core d) (rq_account_id q) (rq_client_order_id q) of
            Some r \<Rightarrow> rbind (replay_cash_order sv r q) (\<lambda>_. Inr (d, r))
          | None \<Rightarrow> place_cash_order d sv now ids q pn a)))"

section \<open>Cancellation\<close>

definition terminal_statuses :: "order_status list" where
  "terminal_statuses = [CANCELLED, FILLED, PARTIALLY_CANCELLED, REJECTED]"

definition stock_cancel_state_inconsistent :: app_error where
  "stock_cancel_state_inconsistent = DataAccessError ''STOCK_CANCEL_STATE_INCONSISTENT''"

text \<open>What is given back: the account of a buy, the position of a sell.\<close>

definition release_cash_order ::
  "cash_db \<Rightarrow> datetime \<Rightarrow> order \<Rightarrow> account \<Rightarrow> (account \<times> position option) result" where
  "release_cash_order d now r a =
     (let cash = quantize_money (o_frozen_cash r);
          commission = quantize_money (o_frozen_commission r);
          volume = o_frozen_position_volume r
      in if o_direction r = BUY then
           (if volume \<noteq> 0 \<or> o_frozen_margin r \<noteq> 0 then Inl stock_cancel_state_inconsistent
            else rbind (release_buy (Some a) cash commission) (\<lambda>a'. Inr (a', None)))
         else if o_direction r = SELL then
           (if cash \<noteq> 0 \<or> commission \<noteq> 0 then Inl stock_cancel_state_inconsistent
            else if volume \<noteq> o_remaining_volume r then Inl stock_cancel_state_inconsistent
            else case get_position (cd_core d) (o_account_id r) (o_exchange_id r) (o_symbol r) LONG of
              None \<Rightarrow> Inl (DataAccessError ''STOCK_CANCEL_POSITION_INCONSISTENT'')
            | Some p \<Rightarrow>
                if p_frozen_volume p < volume
                then Inl (DataAccessError ''STOCK_CANCEL_POSITION_INCONSISTENT'')
                else Inr (a, Some (p\<lparr>p_frozen_volume := p_frozen_volume p - volume,
                       p_available_volume := p_total_volume p - (p_frozen_volume p - volume)
                         - p_settlement_locked_volume p,
                       p_updated_at := now\<rparr>)))
         else Inl stock_cancel_state_inconsistent)"

definition cancelled_cash_order :: "datetime \<Rightarrow> order \<Rightarrow> order" where
  "cancelled_cash_order now r =
     r\<lparr>o_cancelled_volume := o_cancelled_volume r + o_remaining_volume r, o_remaining_volume := 0,
       o_frozen_cash := 0, o_frozen_commission := 0, o_frozen_position_volume := 0,
       o_cancelled_at := Some now, o_updated_at := now,
       o_cancel_reason_code := Some ''USER_REQUEST'',
       o_cancel_reason_message := Some ''USER_CANCELLED_STOCK_ORDER'',
       o_status := (if o_traded_volume r = 0 then CANCELLED else PARTIALLY_CANCELLED)\<rparr>"

record cash_cancel_ids =
  cy_order_event :: string
  cy_business_version :: string
  cy_fact_event :: string

definition cash_cancel_events ::
  "cash_cancel_ids \<Rightarrow> cash_service \<Rightarrow> datetime \<Rightarrow> order \<Rightarrow> account \<Rightarrow> position option
   \<Rightarrow> outbox_event list" where
  "cash_cancel_events ids sv now r a p =
     [create_event (cy_order_event ids) ''ORDER'' (o_order_id r) (sv_cancelled_event_type sv)
        (cash_order_payload (sv_cancelled_event_type sv) (cy_order_event ids)
           (cy_business_version ids) r now) now,
      (case p of
         None \<Rightarrow> create_account_updated (cy_fact_event ids) a now None (Some ''SECURITIES_CASH'')
                   (Some ''CASH_SECURITY_BUY_RELEASED'') False
       | Some p \<Rightarrow> create_position_updated (cy_fact_event ids) p now
                     (Some ''CASH_SECURITY_SELL_RELEASED''))]"

definition cancel_cash_located ::
  "cash_db \<Rightarrow> cash_service \<Rightarrow> datetime \<Rightarrow> cash_cancel_ids \<Rightarrow> order \<Rightarrow> account
   \<Rightarrow> (cash_db \<times> order) result" where
  "cancel_cash_located d sv now ids r a =
     (if o_status r \<notin> {ACCEPTED, PARTIALLY_FILLED} \<or> o_remaining_volume r \<le> 0
      then Inl (ResourceConflictError ''ORDER_NOT_CANCELLABLE'')
      else rbind (release_cash_order d now r a) (\<lambda>(a1, p).
        let r' = cancelled_cash_order now r; a' = a1\<lparr>a_updated_at := now\<rparr>
        in if o_total_volume r' \<noteq> o_traded_volume r' + o_remaining_volume r' + o_cancelled_volume r'
           then Inl (DataAccessError ''STOCK_CANCEL_VOLUME_INCONSISTENT'')
           else Inr (on_core (\<lambda>core. add_events (cash_cancel_events ids sv now r' a' p)
                       (put_order r' (put_account a' (put_position_option p core)))) d, r')))"

definition cancel_cash_order ::
  "cash_db \<Rightarrow> cash_service \<Rightarrow> bool \<Rightarrow> datetime \<Rightarrow> cash_cancel_ids \<Rightarrow> access_scope \<Rightarrow> string \<Rightarrow> string
   \<Rightarrow> (cash_db \<times> order) result" where
  "cancel_cash_order d sv entry_enabled now ids scope order_id request_account_id =
     (if \<not> entry_enabled
      then Inl (BusinessRuleError (type_code sv ''_ORDER_ENTRY_DISABLED''))
      else case scoped_order (cd_core d) scope (strip order_id) of
        None \<Rightarrow> Inl (missing_resource scope)
      | Some r \<Rightarrow>
        if o_instrument_type r \<noteq> sv_instrument_type sv
        then Inl (ResourceConflictError (type_code sv ''_ORDER_REQUIRED''))
        else case scoped_account (cd_core d) scope (o_account_id r) of
          None \<Rightarrow> Inl (missing_resource scope)
        | Some a \<Rightarrow>
          if a_account_type a \<notin> cash_account_types
          then Inl (DataAccessError (type_code sv ''_ORDER_ACCOUNT_INCONSISTENT''))
          else if strip request_account_id \<noteq> o_account_id r
          then Inl (ResourceConflictError ''ORDER_ACCOUNT_MISMATCH'')
          else if o_status r \<in> set terminal_statuses then Inr (d, r)
          else cancel_cash_located d sv now ids r a)"

end
