(* ===== verification/Cash_Settlement.thy ===== *)
theory Cash_Settlement
  imports Cash_Orders Matching
begin

text \<open>
  \<open>app/services/cash_security_settlement_service.py\<close>: one fill of a cash security order, in one
  transaction over the order, its account, its position, the fee accumulators of the order and the
  rows of the trade. The result is the committed tables and the answer, or the error of a transaction
  rolled back.
\<close>

section \<open>Fees\<close>

text \<open>
  A fee per trade, and a fee per order, of which a fill owes what the cumulative volume and turnover
  owe beyond what was charged before.
\<close>

fun fee_due :: "commission_type \<Rightarrow> decimal \<Rightarrow> int \<Rightarrow> decimal \<Rightarrow> decimal option" where
  "fee_due BY_VOLUME parameter volume turnover = Some (of_int volume * parameter)"
| "fee_due BY_AMOUNT parameter volume turnover = Some (turnover * parameter)"
| "fee_due (UnknownCommission _) parameter volume turnover = None"

definition at_least_minimum :: "fee_snapshot \<Rightarrow> decimal \<Rightarrow> decimal" where
  "at_least_minimum s due = max (quantize_money due) (quantize_money (fs_minimum_fee s))"

definition cash_fee_from_snapshot :: "fee_snapshot \<Rightarrow> int \<Rightarrow> decimal \<Rightarrow> decimal result" where
  "cash_fee_from_snapshot s volume turnover =
     (case fee_due (fs_calculation_type s) (fs_commission_parameter s) volume turnover of
        None \<Rightarrow> Inl (DataAccessError ''CASH_SECURITY_FEE_SNAPSHOT_INVALID'')
      | Some due \<Rightarrow> Inr (at_least_minimum s due))"

definition new_accumulator :: "datetime \<Rightarrow> string \<Rightarrow> string \<Rightarrow> fee_accumulator" where
  "new_accumulator now oid ft =
     \<lparr>fa_order_id = oid, fa_fee_type = ft, fa_cumulative_volume = 0, fa_cumulative_turnover = 0,
      fa_charged_fee = 0, fa_created_at = now, fa_updated_at = now\<rparr>"

text \<open>The accumulator is added when the first fill of the order needs it.\<close>

definition accumulator_for ::
  "datetime \<Rightarrow> string \<Rightarrow> string \<Rightarrow> fee_accumulator list \<Rightarrow> fee_accumulator \<times> fee_accumulator list"
where
  "accumulator_for now oid ft accs =
     (case get_accumulator accs oid ft of
        Some a \<Rightarrow> (a, accs)
      | None \<Rightarrow> let a = new_accumulator now oid ft in (a, accs @ [a]))"

definition accumulate_fee ::
  "datetime \<Rightarrow> fee_snapshot \<Rightarrow> int \<Rightarrow> decimal \<Rightarrow> fee_accumulator
   \<Rightarrow> (fee_accumulator \<times> decimal) result" where
  "accumulate_fee now s volume turnover a =
     (let next_volume = fa_cumulative_volume a + volume;
          next_turnover = quantize_money (fa_cumulative_turnover a + turnover)
      in case fee_due (fs_calculation_type s) (fs_commission_parameter s) next_volume next_turnover of
           None \<Rightarrow> Inl PyValueError
         | Some due \<Rightarrow>
             let total_due = at_least_minimum s due
             in Inr (a\<lparr>fa_cumulative_volume := next_volume, fa_cumulative_turnover := next_turnover,
                       fa_charged_fee := total_due, fa_updated_at := now\<rparr>,
                     quantize_money (total_due - fa_charged_fee a)))"

definition settle_fee ::
  "datetime \<Rightarrow> string \<Rightarrow> int \<Rightarrow> decimal \<Rightarrow> fee_snapshot \<Rightarrow> fee_accumulator list
   \<Rightarrow> (fee_accumulator list \<times> decimal) result" where
  "settle_fee now oid volume turnover s accs =
     (if fs_aggregation_scope s = ''TRADE'' then
        rbind (cash_fee_from_snapshot s volume turnover) (\<lambda>fee. Inr (accs, fee))
      else if fs_aggregation_scope s = ''ORDER'' then
        (case accumulator_for now oid (fs_fee_type s) accs of
           (a, accs1) \<Rightarrow>
             rbind (accumulate_fee now s volume turnover a) (\<lambda>(a', fee).
             Inr (replace_row accumulator_key a' accs1, fee)))
      else Inl (DataAccessError ''CASH_SECURITY_FEE_SCOPE_INVALID''))"

fun settle_fees_loop ::
  "datetime \<Rightarrow> string \<Rightarrow> string \<Rightarrow> int \<Rightarrow> decimal \<Rightarrow> fee_snapshot list
   \<Rightarrow> fee_accumulator list \<times> decimal \<times> trade_fee_component list
   \<Rightarrow> (fee_accumulator list \<times> decimal \<times> trade_fee_component list) result" where
  "settle_fees_loop now oid tid volume turnover [] st = Inr st"
| "settle_fees_loop now oid tid volume turnover (s # ss) (accs, charged, rows) =
     rbind (settle_fee now oid volume turnover s accs) (\<lambda>(accs', fee).
     settle_fees_loop now oid tid volume turnover ss
       (accs', charged + fee,
        rows @ [\<lparr>tf_trade_id = tid, tf_fee_type = fs_fee_type s, tf_fee_amount = fee,
                 tf_created_at = now\<rparr>]))"

definition settle_fees ::
  "cash_db \<Rightarrow> datetime \<Rightarrow> string \<Rightarrow> string \<Rightarrow> decimal \<Rightarrow> int \<Rightarrow> (cash_db \<times> decimal) result" where
  "settle_fees d now oid tid price volume =
     (let snapshots = order_snapshots d oid; turnover = quantize_money (price * of_int volume)
      in if snapshots = [] then Inl (DataAccessError ''CASH_SECURITY_FEE_SNAPSHOT_MISSING'')
         else rbind (settle_fees_loop now oid tid volume turnover snapshots
                       (cd_accumulators d, 0, [])) (\<lambda>(accs, charged, rows).
           Inr (add_trade_components rows (d\<lparr>cd_accumulators := accs\<rparr>), quantize_money charged)))"

section \<open>The position\<close>

definition new_cash_position ::
  "datetime \<Rightarrow> string \<Rightarrow> decimal \<Rightarrow> order \<Rightarrow> position" where
  "new_cash_position now pid multiplier r =
     \<lparr>p_position_id = pid, p_account_id = o_account_id r, p_order_book_id = o_order_book_id r,
      p_exchange_id = o_exchange_id r, p_symbol = o_symbol r,
      p_instrument_type = o_instrument_type r, p_direction = LONG, p_total_volume = 0,
      p_today_volume = 0, p_yesterday_volume = 0, p_frozen_volume = 0,
      p_settlement_locked_volume = 0, p_pending_share_volume = 0, p_available_volume = 0,
      p_average_open_price = 0, p_position_cost = 0, p_used_margin = 0,
      p_initial_occupied_margin = 0, p_realtime_required_margin = 0, p_option_market_value = 0,
      p_market_value = 0, p_mark_price = None, p_mark_time = None, p_mark_source_event_id = None,
      p_daily_pnl_base_cost = 0, p_yesterday_pnl_base_cost = 0, p_today_pnl_base_cost = 0,
      p_daily_pnl_base_established = True, p_margin_rule_id = None, p_margin_rule_version = None,
      p_margin_rule_snapshot = None, p_margin_price_mode = None,
      p_margin_underlying_price = None, p_margin_option_price = None,
      p_margin_calculated_at = None, p_multiplier_snapshot = multiplier, p_realized_pnl = 0,
      p_unrealized_pnl = 0, p_daily_position_pnl = 0, p_daily_close_pnl = 0,
      p_trading_day = o_trading_day r, p_created_at = now, p_updated_at = now\<rparr>"

definition cash_position_for_update ::
  "db \<Rightarrow> datetime \<Rightarrow> string \<Rightarrow> decimal \<Rightarrow> order \<Rightarrow> db \<times> position" where
  "cash_position_for_update d now pid multiplier r =
     (case get_position d (o_account_id r) (o_exchange_id r) (o_symbol r) LONG of
        Some p \<Rightarrow> (d, p)
      | None \<Rightarrow> let p = new_cash_position now pid multiplier r in (add_position p d, p))"

section \<open>The two directions\<close>

text \<open>What a fill makes of the order, the account and the position, and its realized profit.\<close>

record cash_fill =
  ch_order :: order
  ch_account :: account
  ch_position :: position
  ch_realized_pnl :: decimal

definition fill_buy ::
  "instrument \<Rightarrow> decimal \<Rightarrow> int \<Rightarrow> decimal \<Rightarrow> decimal \<Rightarrow> order \<Rightarrow> account \<Rightarrow> position
   \<Rightarrow> cash_fill result" where
  "fill_buy ins multiplier volume turnover commission r a p =
     (let remaining_after = o_remaining_volume r - volume;
          prior_cash = o_frozen_cash r; prior_commission = o_frozen_commission r;
          remaining_cash = quantize_money (o_limit_price r * of_int remaining_after * multiplier);
          remaining_commission =
            (if remaining_after = 0 then 0
             else max 0 (quantize_money (o_frozen_commission r - commission)));
          available_after = quantize_money
            (a_available_cash a + prior_cash + prior_commission - turnover - commission
             - remaining_cash - remaining_commission)
      in if available_after < 0
         then Inl (BusinessRuleError ''CASH_SECURITY_SETTLEMENT_CASH_INSUFFICIENT'')
         else if a_frozen_cash a < prior_cash \<or> a_frozen_commission a < prior_commission
         then Inl (DataAccessError ''CASH_SECURITY_BUY_FREEZE_INCONSISTENT'')
         else rbind (apply_buy p (o_instrument_type r) volume turnover (i_market_tplus ins)) (\<lambda>p'.
           Inr \<lparr>ch_order = r\<lparr>o_frozen_cash := remaining_cash,
                              o_frozen_commission := remaining_commission\<rparr>,
                ch_account = a\<lparr>
                  a_available_cash := available_after,
                  a_frozen_cash := quantize_money (a_frozen_cash a - prior_cash + remaining_cash),
                  a_frozen_commission := quantize_money
                    (a_frozen_commission a - prior_commission + remaining_commission),
                  a_cash_balance := quantize_money (a_cash_balance a - turnover - commission)\<rparr>,
                ch_position = p', ch_realized_pnl = 0\<rparr>))"

definition close_out :: "position \<Rightarrow> position" where
  "close_out p =
     (if p_total_volume p = 0
      then p\<lparr>p_market_value := 0, p_unrealized_pnl := 0, p_daily_position_pnl := 0,
             p_daily_pnl_base_cost := 0\<rparr> else p)"

definition fill_sell ::
  "instrument \<Rightarrow> int \<Rightarrow> decimal \<Rightarrow> decimal \<Rightarrow> order \<Rightarrow> account \<Rightarrow> position
   \<Rightarrow> cash_fill result" where
  "fill_sell ins volume turnover commission r a p =
     (if o_frozen_position_volume r < volume
      then Inl (DataAccessError ''CASH_SECURITY_SELL_FREEZE_INCONSISTENT'')
      else rbind (apply_sell p (o_instrument_type r) volume (i_market_tplus ins)) (\<lambda>(p1, cost).
        let realized = quantize_money (turnover - cost)
        in Inr \<lparr>ch_order = r\<lparr>o_frozen_position_volume := o_frozen_position_volume r - volume\<rparr>,
                ch_account = a\<lparr>
                  a_available_cash := quantize_money (a_available_cash a + turnover - commission),
                  a_cash_balance := quantize_money (a_cash_balance a + turnover - commission),
                  a_realized_pnl := quantize_money (a_realized_pnl a + realized),
                  a_daily_close_pnl := quantize_money (a_daily_close_pnl a + realized)\<rparr>,
                ch_position = close_out (p1\<lparr>
                  p_realized_pnl := quantize_money (p_realized_pnl p1 + realized),
                  p_daily_close_pnl := quantize_money (p_daily_close_pnl p1 + realized)\<rparr>),
                ch_realized_pnl = realized\<rparr>))"

definition fill_cash ::
  "instrument \<Rightarrow> decimal \<Rightarrow> int \<Rightarrow> decimal \<Rightarrow> decimal \<Rightarrow> order \<Rightarrow> account \<Rightarrow> position
   \<Rightarrow> cash_fill result" where
  "fill_cash ins multiplier volume turnover commission r a p =
     (if o_direction r = BUY then fill_buy ins multiplier volume turnover commission r a p
      else if o_direction r = SELL then fill_sell ins volume turnover commission r a p
      else Inl (DataAccessError ''CASH_SECURITY_DIRECTION_INVALID''))"

section \<open>After the fill\<close>

definition refresh_account_pnl_facts :: "account \<Rightarrow> account" where
  "refresh_account_pnl_facts a =
     a\<lparr>a_daily_pnl := quantize_money
         (a_daily_position_pnl a + a_daily_close_pnl a - a_daily_commission a),
       a_cumulative_net_pnl := quantize_money
         (a_realized_pnl a + a_unrealized_pnl a - a_used_commission a)\<rparr>"

definition charged_account :: "datetime \<Rightarrow> decimal \<Rightarrow> account \<Rightarrow> account" where
  "charged_account now commission a =
     (refresh_account_pnl_facts (a\<lparr>
        a_used_commission := quantize_money (a_used_commission a + commission),
        a_daily_commission := quantize_money (a_daily_commission a + commission)\<rparr>))
     \<lparr>a_updated_at := now\<rparr>"

definition update_order :: "datetime \<Rightarrow> decimal \<Rightarrow> int \<Rightarrow> order \<Rightarrow> order" where
  "update_order now price volume r =
     (let traded = o_traded_volume r + volume; remaining = o_remaining_volume r - volume;
          average = (case o_average_price r of None \<Rightarrow> 0 | Some x \<Rightarrow> x)
      in r\<lparr>o_traded_volume := traded, o_remaining_volume := remaining,
           o_average_price := Some (quantize_money
             ((of_int (o_traded_volume r) * average + of_int volume * price) / of_int traded)),
           o_status := (if remaining = 0 then FILLED else PARTIALLY_FILLED),
           o_updated_at := now\<rparr>)"

definition cash_trade ::
  "datetime \<Rightarrow> string \<Rightarrow> string \<Rightarrow> string \<Rightarrow> decimal \<Rightarrow> int \<Rightarrow> decimal \<Rightarrow> decimal \<Rightarrow> decimal \<Rightarrow> order
   \<Rightarrow> trade" where
  "cash_trade now tid market_event_id stream_id price volume turnover commission realized r =
     \<lparr>t_trade_id = tid, t_order_id = o_order_id r, t_account_id = o_account_id r,
      t_market_event_id = market_event_id, t_market_stream_message_id = stream_id,
      t_order_book_id = o_order_book_id r, t_exchange_id = o_exchange_id r,
      t_symbol = o_symbol r, t_trading_day = o_trading_day r,
      t_instrument_type = o_instrument_type r, t_direction = o_direction r,
      t_offset_flag = None, t_trade_price = price, t_trade_volume = volume,
      t_turnover = turnover, t_margin = 0, t_premium_cash_flow = 0, t_margin_rule_id = None,
      t_margin_rule_version = None, t_margin_calculation_version = None,
      t_commission = commission, t_realized_pnl = realized, t_daily_close_pnl = realized,
      t_trade_time = now, t_created_at = now\<rparr>"

record cash_settle_ids =
  ct_trade_id :: string
  ct_position_id :: string
  ct_trade_event :: string
  ct_order_event :: string
  ct_position_fact :: string
  ct_account_fact :: string

definition cash_trade_payload :: "string \<Rightarrow> order \<Rightarrow> trade \<Rightarrow> datetime \<Rightarrow> payload" where
  "cash_trade_payload event_id r t now =
     [(''event_id'', JString event_id), (''event_type'', JString ''TRADE_CREATED''),
      (''trade_id'', JString (t_trade_id t)), (''order_id'', JString (o_order_id r)),
      (''account_id'', JString (o_account_id r)), (''account_type'', JString ''SECURITIES_CASH''),
      (''instrument_type'', JString (instrument_type_value (o_instrument_type r))),
      (''exchange_id'', JString (o_exchange_id r)), (''symbol'', JString (o_symbol r)),
      (''order_book_id'', JString (o_order_book_id r)),
      (''direction'', JString (direction_value (o_direction r))),
      (''trade_price'', JDecimal (t_trade_price t)), (''trade_volume'', JInt (t_trade_volume t)),
      (''turnover'', JDecimal (t_turnover t)), (''commission'', JDecimal (t_commission t)),
      (''realized_pnl'', JDecimal (t_realized_pnl t)),
      (''market_event_id'', JString (t_market_event_id t)), (''updated_at'', JTime now)]"

definition cash_order_event_type :: "order \<Rightarrow> string" where
  "cash_order_event_type r =
     (if o_status r = FILLED then ''ORDER_FILLED'' else ''ORDER_PARTIALLY_FILLED'')"

definition cash_order_fill_payload :: "string \<Rightarrow> order \<Rightarrow> datetime \<Rightarrow> payload" where
  "cash_order_fill_payload event_id r now =
     [(''event_id'', JString event_id), (''event_type'', JString (cash_order_event_type r)),
      (''order_id'', JString (o_order_id r)), (''account_id'', JString (o_account_id r)),
      (''account_type'', JString ''SECURITIES_CASH''),
      (''instrument_type'', JString (instrument_type_value (o_instrument_type r))),
      (''exchange_id'', JString (o_exchange_id r)), (''symbol'', JString (o_symbol r)),
      (''order_book_id'', JString (o_order_book_id r)),
      (''direction'', JString (direction_value (o_direction r))),
      (''status'', JString (order_status_value (o_status r))),
      (''traded_volume'', JInt (o_traded_volume r)),
      (''remaining_volume'', JInt (o_remaining_volume r)),
      (''average_price'', json_decimal (o_average_price r)),
      (''frozen_cash'', JDecimal (o_frozen_cash r)),
      (''frozen_commission'', JDecimal (o_frozen_commission r)),
      (''frozen_position_volume'', JInt (o_frozen_position_volume r)), (''updated_at'', JTime now)]"

definition cash_settle_events ::
  "cash_settle_ids \<Rightarrow> datetime \<Rightarrow> order \<Rightarrow> trade \<Rightarrow> account \<Rightarrow> position \<Rightarrow> outbox_event list" where
  "cash_settle_events ids now r t a p =
     [create_event (ct_trade_event ids) ''TRADE'' (t_trade_id t) ''TRADE_CREATED''
        (cash_trade_payload (ct_trade_event ids) r t now) now,
      create_event (ct_order_event ids) ''ORDER'' (o_order_id r) (cash_order_event_type r)
        (cash_order_fill_payload (ct_order_event ids) r now) now,
      create_position_updated (ct_position_fact ids) p now None,
      create_account_updated (ct_account_fact ids) a now None (Some ''SECURITIES_CASH'')
        (Some ''CASH_SECURITY_TRADE_SETTLED'') False]"

section \<open>\<open>settle\<close>\<close>

datatype cash_action = CASH_NOT_MATCHED | CASH_ORDER_NOT_FOUND | CASH_IDEMPOTENT
  | CASH_ORDER_NOT_ACTIVE | CASH_SETTLED

record cash_settlement_result =
  cr_trade_id :: "string option"
  cr_order_id :: string
  cr_action :: cash_action

definition cash_result :: "string option \<Rightarrow> string \<Rightarrow> cash_action \<Rightarrow> cash_settlement_result" where
  "cash_result tid oid action = \<lparr>cr_trade_id = tid, cr_order_id = oid, cr_action = action\<rparr>"

record cash_command =
  cw_order_id :: string
  cw_market_event_id :: string
  cw_market_stream_message_id :: string
  cw_match :: cash_security_match_result

definition cash_order_active :: "order \<Rightarrow> bool" where
  "cash_order_active r \<longleftrightarrow> o_instrument_type r \<in> cash_security_instrument_types
     \<and> o_offset_flag r = None \<and> o_status r \<in> {ACCEPTED, PARTIALLY_FILLED}
     \<and> 0 < o_remaining_volume r"

text \<open>The fill itself, with the order, the account and the instrument in hand.\<close>

definition settle_located ::
  "cash_db \<Rightarrow> datetime \<Rightarrow> cash_settle_ids \<Rightarrow> cash_command \<Rightarrow> decimal \<Rightarrow> order \<Rightarrow> account \<Rightarrow> instrument
   \<Rightarrow> decimal \<Rightarrow> (cash_db \<times> cash_settlement_result) result" where
  "settle_located d now ids cmd price r a ins multiplier =
     (let volume = min (o_remaining_volume r) (csr_fill_volume (cw_match cmd));
          turnover = quantize_money (price * of_int volume * multiplier)
      in rbind (settle_fees d now (o_order_id r) (ct_trade_id ids) price volume) (\<lambda>(d1, commission).
         case cash_position_for_update (cd_core d1) now (ct_position_id ids) multiplier r of
           (core, p) \<Rightarrow>
             rbind (fill_cash ins multiplier volume turnover commission r a p) (\<lambda>fill.
             let a' = charged_account now commission (ch_account fill);
                 p' = (ch_position fill)\<lparr>p_updated_at := now\<rparr>;
                 r' = update_order now price volume (ch_order fill);
                 t = cash_trade now (ct_trade_id ids) (cw_market_event_id cmd)
                       (cw_market_stream_message_id cmd) price volume turnover commission
                       (ch_realized_pnl fill) r
             in Inr (d1\<lparr>cd_core := add_events (cash_settle_events ids now r' t a' p')
                          (put_order r' (put_account a' (put_position p' (add_trade t core))))\<rparr>,
                     cash_result (Some (ct_trade_id ids)) (o_order_id r) CASH_SETTLED))))"

definition cash_settle ::
  "cash_db \<Rightarrow> datetime \<Rightarrow> cash_settle_ids \<Rightarrow> cash_command \<Rightarrow> (cash_db \<times> cash_settlement_result) result"
where
  "cash_settle d now ids cmd =
     (let oid = cw_order_id cmd; m = cw_match cmd
      in case (if csr_matched m \<and> 0 < csr_fill_volume m then csr_fill_price m else None) of
           None \<Rightarrow> Inr (d, cash_result None oid CASH_NOT_MATCHED)
         | Some price \<Rightarrow>
           (case get_order (cd_core d) oid of
              None \<Rightarrow> Inr (d, cash_result None oid CASH_ORDER_NOT_FOUND)
            | Some r \<Rightarrow>
              (case get_trade_by_order_market_event (cd_core d) oid (cw_market_event_id cmd) of
                 Some t \<Rightarrow> Inr (d, cash_result (Some (t_trade_id t)) oid CASH_IDEMPOTENT)
               | None \<Rightarrow>
                 if \<not> cash_order_active r
                 then Inr (d, cash_result None oid CASH_ORDER_NOT_ACTIVE)
                 else (case get_account (cd_core d) (o_account_id r) of
                   None \<Rightarrow> Inl (DataAccessError ''CASH_SECURITY_ACCOUNT_REQUIRED'')
                 | Some a \<Rightarrow>
                   if a_account_type a \<notin> cash_account_types
                   then Inl (DataAccessError ''CASH_SECURITY_ACCOUNT_REQUIRED'')
                   else (case get_listed_instrument (cd_core d) (o_exchange_id r) (o_symbol r) of
                     None \<Rightarrow> Inl (DataAccessError ''CASH_SECURITY_INSTRUMENT_INVALID'')
                   | Some ins \<Rightarrow>
                     if i_instrument_type ins \<noteq> o_instrument_type r \<or> \<not> i_is_active ins
                        \<or> \<not> i_is_tradeable ins
                     then Inl (DataAccessError ''CASH_SECURITY_INSTRUMENT_INVALID'')
                     else case i_contract_multiplier ins of
                       None \<Rightarrow> Inl PyTypeError
                     | Some multiplier \<Rightarrow> settle_located d now ids cmd price r a ins multiplier)))))"

end
