(* ===== verification/Cash_Positions.thy ===== *)
theory Cash_Positions
  imports Cash_Settlement
begin

text \<open>
  What the position service promises to the orders and fills: volumes stay balanced, bought shares of
  a T+1 security are locked and what can be frozen was held overnight, costs leave in proportion and
  a fill changes nothing else of the row.
\<close>

lemma settlement_days_Inr:
  "settlement_days it tp = Inr n \<Longrightarrow> n \<in> {0, 1} \<and> it \<in> cash_security_instrument_types"
  by (cases "(it, tp)" rule: settlement_days.cases)
    (auto simp: cash_security_instrument_types_def split: option.splits if_splits)

text \<open>
  The buckets of a holding by the settlement days of its security: what was bought today of a T+1
  security is exactly what is locked, and nothing of a T+0 security is locked.
\<close>

definition buckets_ok :: "int \<Rightarrow> position \<Rightarrow> bool" where
  "buckets_ok days p \<longleftrightarrow> p_settlement_locked_volume p = (if days = 1 then p_today_volume p else 0)"

text \<open>The columns of a position that identify it, and those that only derivatives use.\<close>

definition same_position :: "position \<Rightarrow> position \<Rightarrow> bool" where
  "same_position p p' \<longleftrightarrow>
     p_position_id p' = p_position_id p \<and> p_account_id p' = p_account_id p
     \<and> p_exchange_id p' = p_exchange_id p \<and> p_symbol p' = p_symbol p
     \<and> p_direction p' = p_direction p \<and> p_instrument_type p' = p_instrument_type p
     \<and> p_order_book_id p' = p_order_book_id p \<and> p_used_margin p' = p_used_margin p"

lemma same_position_refl [simp]: "same_position p p"
  by (simp add: same_position_def)

lemma same_position_trans: "same_position p q \<Longrightarrow> same_position q r \<Longrightarrow> same_position p r"
  by (simp add: same_position_def)

lemma same_position_upd [simp]:
  "same_position q (p\<lparr>p_total_volume := v\<rparr>) = same_position q p"
  "same_position q (p\<lparr>p_today_volume := v\<rparr>) = same_position q p"
  "same_position q (p\<lparr>p_yesterday_volume := v\<rparr>) = same_position q p"
  "same_position q (p\<lparr>p_frozen_volume := v\<rparr>) = same_position q p"
  "same_position q (p\<lparr>p_settlement_locked_volume := v\<rparr>) = same_position q p"
  "same_position q (p\<lparr>p_available_volume := v\<rparr>) = same_position q p"
  "same_position q (p\<lparr>p_position_cost := c\<rparr>) = same_position q p"
  "same_position q (p\<lparr>p_average_open_price := c\<rparr>) = same_position q p"
  "same_position q (p\<lparr>p_today_pnl_base_cost := c\<rparr>) = same_position q p"
  "same_position q (p\<lparr>p_yesterday_pnl_base_cost := c\<rparr>) = same_position q p"
  "same_position q (p\<lparr>p_daily_pnl_base_cost := c\<rparr>) = same_position q p"
  "same_position q (p\<lparr>p_daily_pnl_base_established := b\<rparr>) = same_position q p"
  "same_position q (p\<lparr>p_realized_pnl := c\<rparr>) = same_position q p"
  "same_position q (p\<lparr>p_daily_close_pnl := c\<rparr>) = same_position q p"
  by (simp_all add: same_position_def)

lemma same_position_updates [simp]:
  "same_position p (p\<lparr>p_updated_at := t\<rparr>)" "same_position p (close_out p)"
  "same_position p (freeze_sell now v p)"
  by (simp_all add: same_position_def close_out_def freeze_sell_def)

lemma apply_buy_Inr:
  assumes "apply_buy p it v turnover tp = Inr p'"
  obtains days where "settlement_days it tp = Inr days" "days \<in> {0, 1}"
    "p_total_volume p' = p_total_volume p + v" "p_today_volume p' = p_today_volume p + v"
    "p_yesterday_volume p' = p_yesterday_volume p" "p_frozen_volume p' = p_frozen_volume p"
    "p_settlement_locked_volume p' = p_settlement_locked_volume p + (if days = 1 then v else 0)"
    "p_available_volume p' = p_available_volume p + (if days = 1 then 0 else v)"
    "p_position_cost p' = quantize_money (p_position_cost p + turnover)"
    "p_realized_pnl p' = p_realized_pnl p" "same_position p p'"
    "p_daily_pnl_base_established p' = p_daily_pnl_base_established p"
proof -
  from assms obtain days where days: "settlement_days it tp = Inr days"
    unfolding apply_buy_def rbind_Inr_iff by blast
  have "days \<in> {0, 1}" using settlement_days_Inr [OF days] by blast
  then show thesis
    using assms days
    by (intro that [of days]) (auto simp: apply_buy_def Let_def split: if_splits)
qed

lemma sold_base_costs_frame [simp]:
  "p_total_volume (sold_base_costs p y t p1) = p_total_volume p1"
  "p_today_volume (sold_base_costs p y t p1) = p_today_volume p1"
  "p_yesterday_volume (sold_base_costs p y t p1) = p_yesterday_volume p1"
  "p_frozen_volume (sold_base_costs p y t p1) = p_frozen_volume p1"
  "p_settlement_locked_volume (sold_base_costs p y t p1) = p_settlement_locked_volume p1"
  "p_available_volume (sold_base_costs p y t p1) = p_available_volume p1"
  "p_position_cost (sold_base_costs p y t p1) = p_position_cost p1"
  "p_average_open_price (sold_base_costs p y t p1) = p_average_open_price p1"
  "p_realized_pnl (sold_base_costs p y t p1) = p_realized_pnl p1"
  "p_daily_pnl_base_established (sold_base_costs p y t p1) = p_daily_pnl_base_established p1"
  "same_position q (sold_base_costs p y t p1) = same_position q p1"
  by (simp_all add: sold_base_costs_def Let_def same_position_def)

lemma apply_sell_Inr:
  assumes "apply_sell p it v tp = Inr (p', cost)"
  obtains days y where "settlement_days it tp = Inr days" "days \<in> {0, 1}"
    "v \<le> p_frozen_volume p" "v \<le> p_total_volume p"
    "y = (if days = 1 then v else min (p_yesterday_volume p) v)"
    "days = 1 \<longrightarrow> v \<le> p_yesterday_volume p"
    "p_total_volume p' = p_total_volume p - v"
    "p_today_volume p' = p_today_volume p - (v - y)"
    "p_yesterday_volume p' = p_yesterday_volume p - y"
    "p_frozen_volume p' = p_frozen_volume p - v"
    "p_settlement_locked_volume p' = p_settlement_locked_volume p"
    "p_available_volume p' = p_total_volume p' - p_frozen_volume p' - p_settlement_locked_volume p'"
    "cost = sold_cost p v" "p_position_cost p' = quantize_money (p_position_cost p - cost)"
    "p_realized_pnl p' = p_realized_pnl p" "same_position p p'"
    "p_daily_pnl_base_established p' = p_daily_pnl_base_established p"
proof -
  from assms obtain days where days: "settlement_days it tp = Inr days"
    by (auto simp: apply_sell_def rbind_Inr_iff split: if_splits)
  define y where "y = (if days = 1 then v else min (p_yesterday_volume p) v)"
  define left where "left = quantize_money (p_position_cost p - sold_cost p v)"
  let ?n = "p_total_volume p - v" and ?f = "p_frozen_volume p - v"
  let ?p1 = "p\<lparr>p_yesterday_volume := p_yesterday_volume p - y,
      p_today_volume := p_today_volume p - (v - y), p_frozen_volume := ?f,
      p_total_volume := ?n, p_position_cost := left,
      p_available_volume := ?n - ?f - p_settlement_locked_volume p,
      p_average_open_price := (if ?n \<noteq> 0 then quantize_money (left / of_int ?n) else 0)\<rparr>"
  have checks: "v \<le> p_frozen_volume p" "v \<le> p_total_volume p" "days = 1 \<longrightarrow> v \<le> p_yesterday_volume p"
    using assms days by (auto simp: apply_sell_def rbind_Inr_iff split: if_splits)
  then have "Inr (sold_base_costs p y (v - y) ?p1, sold_cost p v) = apply_sell p it v tp"
    using days by (simp add: apply_sell_def Let_def y_def left_def not_less)
  with assms have p': "p' = sold_base_costs p y (v - y) ?p1" "cost = sold_cost p v" by simp_all
  show thesis
    by (rule that [OF days _ checks(1,2) y_def checks(3)])
      (use settlement_days_Inr [OF days] in \<open>simp_all add: p' left_def\<close>)
qed

lemma apply_buy_keeps:
  assumes "apply_buy p it v turnover tp = Inr p'" "position_volumes_ok p" "0 < v"
    and "settlement_days it tp = Inr days" "buckets_ok days p"
  shows "position_volumes_ok p' \<and> buckets_ok days p'"
  using assms(1)
proof (rule apply_buy_Inr)
  fix days'
  assume a: "settlement_days it tp = Inr days'" "days' \<in> {0, 1}"
    "p_total_volume p' = p_total_volume p + v" "p_today_volume p' = p_today_volume p + v"
    "p_yesterday_volume p' = p_yesterday_volume p" "p_frozen_volume p' = p_frozen_volume p"
    "p_settlement_locked_volume p' = p_settlement_locked_volume p + (if days' = 1 then v else 0)"
    "p_available_volume p' = p_available_volume p + (if days' = 1 then 0 else v)"
  have "days' = days" using a(1) assms(4) by simp
  with a assms show ?thesis by (auto simp: position_volumes_ok_def buckets_ok_def)
qed

lemma apply_sell_keeps:
  assumes "apply_sell p it v tp = Inr (p', cost)" "position_volumes_ok p" "0 < v"
    and "settlement_days it tp = Inr days" "buckets_ok days p"
  shows "position_volumes_ok p' \<and> buckets_ok days p'"
  using assms(1)
proof (rule apply_sell_Inr)
  fix days' y
  assume a: "settlement_days it tp = Inr days'" "days' \<in> {0, 1}"
    "v \<le> p_frozen_volume p" "v \<le> p_total_volume p"
    "y = (if days' = 1 then v else min (p_yesterday_volume p) v)"
    "days' = 1 \<longrightarrow> v \<le> p_yesterday_volume p"
    "p_total_volume p' = p_total_volume p - v"
    "p_today_volume p' = p_today_volume p - (v - y)"
    "p_yesterday_volume p' = p_yesterday_volume p - y"
    "p_frozen_volume p' = p_frozen_volume p - v"
    "p_settlement_locked_volume p' = p_settlement_locked_volume p"
    "p_available_volume p' = p_total_volume p' - p_frozen_volume p' - p_settlement_locked_volume p'"
  have "days' = days" using a(1) assms(4) by simp
  with a assms(2,3,5) show ?thesis
    by (auto simp: position_volumes_ok_def buckets_ok_def split: if_splits)
qed

text \<open>What is frozen of a holding can be sold: the checks of \<open>apply_sell\<close> never fail.\<close>

lemma frozen_can_be_sold:
  assumes "position_volumes_ok p" "settlement_days it tp = Inr days" "buckets_ok days p"
    and "v \<le> p_frozen_volume p"
  shows "\<exists>p' cost. apply_sell p it v tp = Inr (p', cost)"
proof -
  have "days \<in> {0, 1}" using settlement_days_Inr [OF assms(2)] by blast
  with assms have "v \<le> p_total_volume p" "days = 1 \<longrightarrow> v \<le> p_yesterday_volume p"
    by (auto simp: position_volumes_ok_def buckets_ok_def)
  with assms show ?thesis by (auto simp: apply_sell_def Let_def)
qed

section \<open>Costs\<close>

text \<open>What a holding cost is money, nothing is left of it when all is sold, and it never is negative.\<close>

definition cost_ok :: "position \<Rightarrow> bool" where
  "cost_ok p \<longleftrightarrow> is_money (p_position_cost p) \<and> 0 \<le> p_position_cost p
     \<and> (p_total_volume p = 0 \<longrightarrow> p_position_cost p = 0)"

lemma sold_cost_bounds:
  assumes "cost_ok p" "0 < v" "v \<le> p_total_volume p"
  shows "is_money (sold_cost p v)" "0 \<le> sold_cost p v" "sold_cost p v \<le> p_position_cost p"
proof -
  show "is_money (sold_cost p v)" using assms by (simp add: sold_cost_def cost_ok_def)
  have c: "0 \<le> p_position_cost p" "is_money (p_position_cost p)" using assms by (simp_all add: cost_ok_def)
  have t: "(0 :: decimal) < of_int (p_total_volume p)" "(of_int v :: decimal) \<le> of_int (p_total_volume p)"
    using assms(2,3) by simp_all
  have part: "0 \<le> p_position_cost p * of_int v / of_int (p_total_volume p)"
    "p_position_cost p * of_int v / of_int (p_total_volume p) \<le> p_position_cost p"
    using c t assms(2) by (simp_all add: divide_le_eq mult_left_mono)
  show "0 \<le> sold_cost p v" using part(1) c by (simp add: sold_cost_def)
  show "sold_cost p v \<le> p_position_cost p"
    using quantize_money_le [OF part(2) c(2)] by (simp add: sold_cost_def)
qed

lemma apply_buy_cost:
  assumes "apply_buy p it v turnover tp = Inr p'" "cost_ok p" "is_money turnover" "0 \<le> turnover"
    and "0 < v" "0 \<le> p_total_volume p"
  shows "cost_ok p' \<and> p_position_cost p' = p_position_cost p + turnover"
  using assms(1)
proof (rule apply_buy_Inr)
  assume a: "p_total_volume p' = p_total_volume p + v"
    "p_position_cost p' = quantize_money (p_position_cost p + turnover)"
  then have "p_position_cost p' = p_position_cost p + turnover"
    using assms(2,3) by (simp add: cost_ok_def is_money_add)
  with a assms(2-6) show ?thesis by (simp add: cost_ok_def is_money_add)
qed

lemma apply_sell_cost:
  assumes "apply_sell p it v tp = Inr (p', cost)" "cost_ok p" "0 < v"
  shows "cost_ok p' \<and> is_money cost \<and> 0 \<le> cost \<and> p_position_cost p' = p_position_cost p - cost"
  using assms(1)
proof (rule apply_sell_Inr)
  assume a: "v \<le> p_total_volume p" "p_total_volume p' = p_total_volume p - v" "cost = sold_cost p v"
    "p_position_cost p' = quantize_money (p_position_cost p - cost)"
  note b = sold_cost_bounds [OF assms(2,3) a(1)]
  have "p_position_cost p' = p_position_cost p - cost"
    using a(4) b(1) assms(2) by (simp add: a(3) cost_ok_def is_money_diff)
  moreover have "p_total_volume p' = 0 \<longrightarrow> cost = p_position_cost p"
    using a by (simp add: sold_cost_def)
  ultimately show ?thesis using b assms(2) by (auto simp: cost_ok_def a(3) is_money_diff)
qed

end
