(* ===== verification/Cash_Book.thy ===== *)
theory Cash_Book
  imports Cash_Positions
begin

text \<open>
  The consistency of the tables that the cash security services start from and keep: beside the book
  of the trading core, what sell orders hold of a position is what the position has frozen, a buy
  holds money and a sell shares only, and an account's money is its available cash and its frozen
  pools.
\<close>

section \<open>Rows written by key\<close>

definition upsert :: "('r \<Rightarrow> 'k) \<Rightarrow> 'r \<Rightarrow> 'r list \<Rightarrow> 'r list" where
  "upsert key r rows = (if key r \<in> key ` set rows then replace_row key r rows else rows @ [r])"

lemma upsert_member:
  "x \<in> set (upsert key r rows) \<Longrightarrow> x = r \<or> x \<in> set rows \<and> key x \<noteq> key r"
  by (cases "key r \<in> key ` set rows") (auto simp: upsert_def replace_row_def, metis imageI)

lemma upsert_self: "r \<in> set (upsert key r rows)"
  by (auto simp: upsert_def replace_row_def)

lemma upsert_other: "x \<in> set rows \<Longrightarrow> key x \<noteq> key r \<Longrightarrow> x \<in> set (upsert key r rows)"
  by (auto simp: upsert_def replace_row_def image_iff)

lemma upsert_distinct: "distinct (map key rows) \<Longrightarrow> distinct (map key (upsert key r rows))"
  by (auto simp: upsert_def)

lemma find_upsert: "find_row key k (upsert key r rows) = (if k = key r then Some r else find_row key k rows)"
proof (cases "key r \<in> key ` set rows")
  case True
  then show ?thesis by (auto simp: upsert_def find_row_replace)
next
  case False
  then have "find_row key (key r) rows = None" by (simp add: find_row_None_iff)
  moreover have "find_row key k (rows @ [r]) = (case find_row key k rows of
      None \<Rightarrow> if k = key r then Some r else None | Some x \<Rightarrow> Some x)"
    by (induction rows) auto
  ultimately show ?thesis using False by (auto simp: upsert_def split: option.splits)
qed

text \<open>A sum over a table changes by what the row contributes now and contributed before.\<close>

definition part_of :: "('r \<Rightarrow> bool) \<Rightarrow> ('r \<Rightarrow> 'n::ab_group_add) \<Rightarrow> 'r option \<Rightarrow> 'n" where
  "part_of P f r = (case r of None \<Rightarrow> 0 | Some x \<Rightarrow> if P x then f x else 0)"

lemma sum_of_absent: "key r \<notin> key ` set rows \<Longrightarrow> find_row key (key r) rows = None"
  by (simp add: find_row_None_iff)

lemma sum_of_upsert:
  assumes "distinct (map key rows)"
  shows "sum_of P f (upsert key r rows)
       = sum_of P f rows + part_of P f (Some r) - part_of P f (find_row key (key r) rows)"
proof (cases "find_row key (key r) rows")
  case None
  then have "key r \<notin> key ` set rows" by (simp add: find_row_None_iff)
  with None show ?thesis by (simp add: upsert_def part_of_def)
next
  case (Some old)
  then have "key r \<in> key ` set rows" using find_row_None_iff [of key "key r" rows] by auto
  with Some show ?thesis
    by (simp add: upsert_def part_of_def sum_of_def sum_replace_row [OF assms Some])
qed

section \<open>The invariant\<close>

definition is_cash :: "order \<Rightarrow> bool" where
  "is_cash r \<longleftrightarrow> o_instrument_type r \<in> cash_security_instrument_types"

definition same_holding :: "position \<Rightarrow> order \<Rightarrow> bool" where
  "same_holding p r \<longleftrightarrow> p_account_id p = o_account_id r \<and> p_exchange_id p = o_exchange_id r
     \<and> p_symbol p = o_symbol r"

definition holding_of :: "position \<Rightarrow> order \<Rightarrow> bool" where
  "holding_of p r \<longleftrightarrow> is_cash r \<and> same_holding p r"

definition cash_order_ok :: "order \<Rightarrow> bool" where
  "cash_order_ok r \<longleftrightarrow> o_offset_flag r = None \<and> o_frozen_margin r = 0 \<and> 0 \<le> o_limit_price r
     \<and> (o_direction r = BUY \<and> o_frozen_position_volume r = 0
        \<or> o_direction r = SELL \<and> o_frozen_cash r = 0 \<and> o_frozen_commission r = 0
          \<and> o_frozen_position_volume r = o_remaining_volume r)"

text \<open>The instrument of a holding determines its type and its settlement days.\<close>

definition listing_ok :: "db \<Rightarrow> position \<Rightarrow> bool" where
  "listing_ok d p \<longleftrightarrow>
     (case get_listed_instrument d (p_exchange_id p) (p_symbol p) of
        None \<Rightarrow> True
      | Some ins \<Rightarrow> i_instrument_type ins = p_instrument_type p
          \<and> (case settlement_days (p_instrument_type p) (i_market_tplus ins) of
               Inl _ \<Rightarrow> True | Inr days \<Rightarrow> buckets_ok days p))"

definition cash_position_ok :: "db \<Rightarrow> position \<Rightarrow> bool" where
  "cash_position_ok d p \<longleftrightarrow> p_direction p = LONG \<and> cost_ok p \<and> is_money (p_realized_pnl p)
     \<and> p_frozen_volume p = sum_of (holding_of p) o_frozen_position_volume (db_orders d)"

definition cash_account_ok :: "account \<Rightarrow> bool" where
  "cash_account_ok a \<longleftrightarrow> is_money (a_cash_balance a) \<and> is_money (a_realized_pnl a)
     \<and> is_money (a_used_commission a) \<and> liquid (pools a) = a_cash_balance a"

definition cash_ok :: "db \<Rightarrow> bool" where
  "cash_ok d \<longleftrightarrow>
     (\<forall>r \<in> set (db_orders d). is_cash r \<longrightarrow> cash_order_ok r)
     \<and> (\<forall>r \<in> set (db_orders d). is_cash r \<and> o_frozen_position_volume r \<noteq> 0 \<longrightarrow>
          (\<exists>p \<in> set (db_positions d). same_holding p r \<and> p_direction p = LONG
             \<and> p_instrument_type p = o_instrument_type r))
     \<and> (\<forall>p \<in> set (db_positions d). listing_ok d p
          \<and> (\<not> is_derivative (p_instrument_type p) \<longrightarrow> cash_position_ok d p))
     \<and> (\<forall>a \<in> set (db_accounts d). a_account_type a \<in> cash_account_types \<longrightarrow> cash_account_ok a)
     \<and> (\<forall>i \<in> set (db_instruments d). case i_contract_multiplier i of None \<Rightarrow> True | Some m \<Rightarrow> 0 < m)
     \<and> distinct (map (\<lambda>i. (i_exchange_id i, i_symbol i)) (db_instruments d))"

section \<open>One step\<close>

text \<open>
  All three operations write one order, its account and at most one position, and perhaps a trade.
  \<open>order_before\<close> is what the order held, nothing when it is new.
\<close>

definition order_before :: "db \<Rightarrow> order \<Rightarrow> (order \<Rightarrow> 'n::zero) \<Rightarrow> 'n" where
  "order_before d r f = (case get_order d (o_order_id r) of None \<Rightarrow> 0 | Some x \<Rightarrow> f x)"

definition position_before :: "db \<Rightarrow> position \<Rightarrow> int" where
  "position_before d p = (case find_row p_position_id (p_position_id p) (db_positions d) of
     None \<Rightarrow> 0 | Some q \<Rightarrow> p_frozen_volume q)"

definition position_fits :: "db \<Rightarrow> order \<Rightarrow> position \<Rightarrow> bool" where
  "position_fits d r p \<longleftrightarrow> same_holding p r \<and> p_direction p = LONG
     \<and> p_instrument_type p = o_instrument_type r
     \<and> (case find_row p_position_id (p_position_id p) (db_positions d) of
          None \<Rightarrow> get_position d (p_account_id p) (p_exchange_id p) (p_symbol p) LONG = None
        | Some q \<Rightarrow> same_position q p)
     \<and> p_frozen_volume p = position_before d p
         + (o_frozen_position_volume r - order_before d r o_frozen_position_volume)
     \<and> position_volumes_ok p \<and> cost_ok p \<and> is_money (p_realized_pnl p) \<and> listing_ok d p"

definition cash_write :: "db \<Rightarrow> order \<Rightarrow> account \<Rightarrow> position option \<Rightarrow> trade list \<Rightarrow> db \<Rightarrow> bool" where
  "cash_write d r a pos ts d' \<longleftrightarrow>
     db_orders d' = upsert o_order_id r (db_orders d)
     \<and> db_accounts d' = replace_row a_account_id a (db_accounts d)
     \<and> db_positions d' = (case pos of None \<Rightarrow> db_positions d
                          | Some p \<Rightarrow> upsert p_position_id p (db_positions d))
     \<and> db_trades d' = db_trades d @ ts
     \<and> db_details d' = db_details d \<and> db_allocations d' = db_allocations d
     \<and> db_trade_allocations d' = db_trade_allocations d
     \<and> db_instruments d' = db_instruments d"

definition cash_move :: "db \<Rightarrow> order \<Rightarrow> account \<Rightarrow> account \<Rightarrow> position option \<Rightarrow> bool" where
  "cash_move d r a a' pos \<longleftrightarrow>
     get_account d (o_account_id r) = Some a \<and> a_account_id a' = a_account_id a
     \<and> a_account_type a' = a_account_type a
     \<and> a_frozen_margin a' = a_frozen_margin a
     \<and> a_frozen_cash a' = a_frozen_cash a + (o_frozen_cash r - order_before d r o_frozen_cash)
     \<and> a_frozen_commission a'
         = a_frozen_commission a + (o_frozen_commission r - order_before d r o_frozen_commission)
     \<and> account_row_ok a' \<and> cash_account_ok a'
     \<and> is_cash r \<and> order_row_ok r \<and> cash_order_ok r
     \<and> (case get_order d (o_order_id r) of None \<Rightarrow> True
        | Some x \<Rightarrow> o_account_id r = o_account_id x \<and> o_exchange_id r = o_exchange_id x
            \<and> o_symbol r = o_symbol x \<and> o_instrument_type r = o_instrument_type x)
     \<and> (case pos of
          None \<Rightarrow> o_frozen_position_volume r = 0
                 \<and> order_before d r o_frozen_position_volume = 0
        | Some p \<Rightarrow> position_fits d r p)"

lemma get_order_row: "get_order d oid = find_row o_order_id oid (db_orders d)"
  by (simp add: get_order_def)

lemma move_old_cash:
  assumes "cash_move d r a a' pos" "cash_ok d" "get_order d (o_order_id r) = Some x"
  shows "is_cash x" "cash_order_ok x" "o_frozen_margin x = 0" "o_account_id x = o_account_id r"
    "o_exchange_id x = o_exchange_id r" "o_symbol x = o_symbol r"
proof -
  have r: "is_cash r" "o_account_id r = o_account_id x" "o_exchange_id r = o_exchange_id x"
    "o_symbol r = o_symbol x" "o_instrument_type r = o_instrument_type x"
    using assms(1,3) by (simp_all add: cash_move_def)
  then show "is_cash x" "o_account_id x = o_account_id r" "o_exchange_id x = o_exchange_id r"
    "o_symbol x = o_symbol r" by (simp_all add: is_cash_def)
  then show "cash_order_ok x"
    using assms(2,3) find_row_SomeD [of o_order_id "o_order_id r" "db_orders d" x]
    by (simp add: cash_ok_def get_order_row)
  then show "o_frozen_margin x = 0" by (simp add: cash_order_ok_def)
qed

lemma cash_write_sum:
  assumes "cash_write d r a pos ts d'" "keys_ok d"
    and "\<forall>x. get_order d (o_order_id r) = Some x \<longrightarrow> P x = P r"
  shows "sum_of P f (db_orders d')
       = sum_of P f (db_orders d) + (if P r then f r - order_before d r f else 0)"
proof -
  have keys: "distinct (map o_order_id (db_orders d))" using assms(2) by (simp add: keys_ok_def)
  have "db_orders d' = upsert o_order_id r (db_orders d)" using assms(1) by (simp add: cash_write_def)
  with assms(3) show ?thesis
    by (auto simp: sum_of_upsert [OF keys] part_of_def order_before_def get_order_row
        split: option.splits)
qed

lemma move_accounts:
  assumes "cash_write d r a' pos ts d'" "cash_move d r a a' pos" "book_ok d" "cash_ok d"
    and "b \<in> set (db_accounts d')"
  shows "account_row_ok b \<and> account_backed (db_orders d') b
    \<and> (a_account_type b \<in> cash_account_types \<longrightarrow> cash_account_ok b)"
proof -
  note m = assms(2) [unfolded cash_move_def]
  have keys: "keys_ok d" using assms(3) by (simp add: book_ok_def)
  have aid: "a_account_id a = o_account_id r" "account_backed (db_orders d) a"
    using book_ok_account [OF assms(3)] m by blast+
  have P: "of_account k x = of_account k r" if "get_order d (o_order_id r) = Some x" for k x
    using move_old_cash(4) [OF assms(2,4) that] by (simp add: of_account_def)
  have sums: "sum_of (of_account k) f (db_orders d') = sum_of (of_account k) f (db_orders d)
      + (if of_account k r then f r - order_before d r f else 0)" for k and f :: "order \<Rightarrow> decimal"
    by (rule cash_write_sum [OF assms(1) keys]) (use P in blast)
  have margin: "o_frozen_margin r = 0" "order_before d r o_frozen_margin = 0"
    using m move_old_cash(3) [OF assms(2,4)]
    by (auto simp: cash_order_ok_def order_before_def split: option.splits)
  have "account_backed (db_orders d') a'"
    using m aid margin by (simp add: account_backed_def sums of_account_def)
  moreover have "account_backed (db_orders d') b"
    if "b \<in> set (db_accounts d)" "a_account_id b \<noteq> o_account_id r"
    using that assms(3) by (simp add: account_backed_def sums of_account_def book_ok_def)
  moreover have "b = a' \<or> b \<in> set (db_accounts d) \<and> a_account_id b \<noteq> o_account_id r"
    using assms(1,5) m aid by (auto simp: cash_write_def replace_row_def split: if_splits)
  ultimately show ?thesis using m assms(3,4) by (auto simp: book_ok_def cash_ok_def)
qed

lemma move_orders:
  assumes "cash_write d r a' pos ts d'" "cash_move d r a a' pos" "book_ok d" "cash_ok d"
    and "x \<in> set (db_orders d')"
  shows "order_row_ok x \<and> order_backed (db_allocations d') x \<and> (is_cash x \<longrightarrow> cash_order_ok x)"
proof -
  note m = assms(2) [unfolded cash_move_def]
  have "order_backed (db_allocations d) r"
    using m by (simp add: order_backed_def order_closes_def cash_order_ok_def)
  moreover have "x = r \<or> x \<in> set (db_orders d)"
    using assms(1,5) upsert_member [of x o_order_id r "db_orders d"] by (auto simp: cash_write_def)
  ultimately show ?thesis
    using m assms(1,3,4) by (auto simp: cash_write_def book_ok_def cash_ok_def)
qed

text \<open>Positions are identified by account, exchange, code and direction.\<close>

lemma position_found:
  assumes "keys_ok d" "p \<in> set (db_positions d)"
  shows "get_position d (p_account_id p) (p_exchange_id p) (p_symbol p) (p_direction p) = Some p"
  unfolding get_position_def
proof (rule first_row_unique [OF assms(2)])
  fix q assume q: "q \<in> set (db_positions d)" "p_account_id q = p_account_id p
      \<and> p_exchange_id q = p_exchange_id p \<and> p_symbol q = p_symbol p \<and> p_direction q = p_direction p"
  have "distinct (map (\<lambda>p. (p_account_id p, p_exchange_id p, p_symbol p, p_direction p)) (db_positions d))"
    using assms(1) by (simp add: keys_ok_def)
  from distinct_key_eq [OF this q(1) assms(2)] q(2) show "q = p" by simp
qed simp

lemma get_position_member:
  assumes "get_position d aid ex code dir = Some p"
  shows "p \<in> set (db_positions d) \<and> p_account_id p = aid \<and> p_exchange_id p = ex
    \<and> p_symbol p = code \<and> p_direction p = dir"
  using assms unfolding get_position_def by (auto dest: first_row_SomeD)

lemma same_position_holding: "same_position q p \<Longrightarrow> holding_of p r = holding_of q r"
  by (auto simp: same_position_def holding_of_def same_holding_def)

text \<open>What orders hold of a position that does not exist is nothing.\<close>

lemma no_position_no_hold:
  assumes "cash_ok d" "get_position d (p_account_id p) (p_exchange_id p) (p_symbol p) LONG = None"
  shows "sum_of (holding_of p) o_frozen_position_volume (db_orders d) = 0"
proof (rule sum_of_zero)
  fix x assume x: "x \<in> set (db_orders d)" "holding_of p x"
  show "o_frozen_position_volume x = 0"
  proof (rule ccontr)
    assume "o_frozen_position_volume x \<noteq> 0"
    with assms(1) x obtain q where q: "q \<in> set (db_positions d)" "same_holding q x" "p_direction q = LONG"
      unfolding cash_ok_def holding_of_def by blast
    with x(2) assms(2) show False
      by (auto simp: get_position_def find_None_iff holding_of_def same_holding_def)
  qed
qed

lemma written_position_sum:
  assumes "cash_write d r a' (Some p) ts d'" "cash_move d r a a' (Some p)" "book_ok d" "cash_ok d"
  shows "sum_of (holding_of p) o_frozen_position_volume (db_orders d') = p_frozen_volume p"
proof -
  note m = assms(2) [unfolded cash_move_def]
  have fits: "position_fits d r p" and cash: "is_cash r" using m by simp_all
  note f = fits [unfolded position_fits_def]
  have keys: "keys_ok d" using assms(3) by (simp add: book_ok_def)
  have held: "holding_of p r" using f cash by (simp add: holding_of_def)
  have P: "\<forall>x. get_order d (o_order_id r) = Some x \<longrightarrow> holding_of p x = holding_of p r"
    using move_old_cash [OF assms(2,4)] cash by (simp add: holding_of_def same_holding_def)
  have "sum_of (holding_of p) o_frozen_position_volume (db_orders d) = position_before d p"
  proof (cases "find_row p_position_id (p_position_id p) (db_positions d)")
    case None
    with f no_position_no_hold [OF assms(4), of p] show ?thesis by (simp add: position_before_def)
  next
    case (Some q)
    then have q: "q \<in> set (db_positions d)" "same_position q p"
      using f find_row_SomeD [OF Some] by simp_all
    then have "\<not> is_derivative (p_instrument_type q)"
      using f cash by (simp add: same_position_def is_derivative_def is_cash_def)
    with q assms(4) have "cash_position_ok d q" by (simp add: cash_ok_def)
    moreover have "holding_of p = holding_of q" using same_position_holding [OF q(2)] by blast
    ultimately show ?thesis using Some by (simp add: position_before_def cash_position_ok_def)
  qed
  with cash_write_sum [OF assms(1) keys P, of o_frozen_position_volume] held f show ?thesis by simp
qed

text \<open>Another position is held by other orders.\<close>

lemma other_position_sum:
  assumes "cash_write d r a' pos ts d'" "cash_move d r a a' pos" "book_ok d" "cash_ok d"
    and q: "q \<in> set (db_positions d)" "p_direction q = LONG"
    and other: "\<And>p. pos = Some p \<Longrightarrow> p_position_id q \<noteq> p_position_id p"
  shows "sum_of (holding_of q) o_frozen_position_volume (db_orders d')
    = sum_of (holding_of q) o_frozen_position_volume (db_orders d)"
proof -
  note m = assms(2) [unfolded cash_move_def]
  have keys: "keys_ok d" using assms(3) by (simp add: book_ok_def)
  have cash: "is_cash r" using m by simp
  have P: "\<forall>x. get_order d (o_order_id r) = Some x \<longrightarrow> holding_of q x = holding_of q r"
    using move_old_cash [OF assms(2,4)] cash by (simp add: holding_of_def same_holding_def)
  have "holding_of q r \<Longrightarrow> o_frozen_position_volume r = order_before d r o_frozen_position_volume"
  proof (cases pos)
    case None
    with m show ?thesis by simp
  next
    case (Some p)
    assume h: "holding_of q r"
    have f: "position_fits d r p" using m Some by simp
    note f = f [unfolded position_fits_def]
    have same: "p_account_id q = p_account_id p" "p_exchange_id q = p_exchange_id p"
      "p_symbol q = p_symbol p" using f h by (simp_all add: holding_of_def same_holding_def)
    have found: "get_position d (p_account_id p) (p_exchange_id p) (p_symbol p) LONG = Some q"
      using position_found [OF keys q(1)] same q(2) by simp
    show ?thesis
    proof (cases "find_row p_position_id (p_position_id p) (db_positions d)")
      case None
      with f found show ?thesis by simp
    next
      case (Some q')
      then have q': "q' \<in> set (db_positions d)" "same_position q' p" "p_position_id q' = p_position_id p"
        using f find_row_SomeD [OF Some] by simp_all
      with position_found [OF keys q'(1)] found f have "q' = q" by (simp add: same_position_def)
      with q'(3) other \<open>pos = Some p\<close> show ?thesis by simp
    qed
  qed
  with cash_write_sum [OF assms(1) keys P, of o_frozen_position_volume] show ?thesis by auto
qed

lemma listing_ok_same: "db_instruments d' = db_instruments d \<Longrightarrow> listing_ok d' p = listing_ok d p"
  by (simp add: listing_ok_def get_listed_instrument_def)

lemma written_positions:
  "cash_write d r a pos ts d' \<Longrightarrow> q \<in> set (db_positions d') \<Longrightarrow>
     (\<exists>p. pos = Some p \<and> q = p)
     \<or> q \<in> set (db_positions d) \<and> (\<forall>p. pos = Some p \<longrightarrow> p_position_id q \<noteq> p_position_id p)"
  by (cases pos) (auto simp: cash_write_def dest: upsert_member)

lemma move_positions:
  assumes "cash_write d r a' pos ts d'" "cash_move d r a a' pos" "book_ok d" "cash_ok d"
    and "q \<in> set (db_positions d')"
  shows "position_volumes_ok q \<and> position_backed (db_details d') q \<and> listing_ok d' q
    \<and> (\<not> is_derivative (p_instrument_type q) \<longrightarrow> cash_position_ok d' q)"
proof -
  note m = assms(2) [unfolded cash_move_def]
  have same: "db_instruments d' = db_instruments d" "db_details d' = db_details d"
    using assms(1) by (simp_all add: cash_write_def)
  from written_positions [OF assms(1,5)] show ?thesis
  proof (elim disjE exE conjE)
    fix p assume p: "pos = Some p" "q = p"
    have fits: "position_fits d r p" and cash: "is_cash r" using m p by simp_all
    note f = fits [unfolded position_fits_def]
    have "\<not> is_derivative (p_instrument_type p)"
      using f cash by (simp add: is_derivative_def is_cash_def)
    moreover have "p_frozen_volume p = sum_of (holding_of p) o_frozen_position_volume (db_orders d')"
      using written_position_sum assms p by metis
    ultimately show ?thesis
      using f by (simp add: p position_backed_def cash_position_ok_def listing_ok_same [OF same(1)])
  next
    assume q: "q \<in> set (db_positions d)" "\<forall>p. pos = Some p \<longrightarrow> p_position_id q \<noteq> p_position_id p"
    have old: "position_volumes_ok q" "position_backed (db_details d) q" "listing_ok d q"
      "\<not> is_derivative (p_instrument_type q) \<longrightarrow> cash_position_ok d q"
      using q(1) assms(3,4) by (simp_all add: book_ok_def cash_ok_def)
    moreover have "cash_position_ok d' q" if "cash_position_ok d q"
      using that other_position_sum [OF assms(1-4) q(1)] q(2) by (simp add: cash_position_ok_def)
    ultimately show ?thesis by (auto simp: same(2) listing_ok_same [OF same(1)])
  qed
qed

text \<open>The position an order holds shares of is still there.\<close>

lemma move_holdings:
  assumes "cash_write d r a' pos ts d'" "cash_move d r a a' pos" "cash_ok d" "keys_ok d"
    and "x \<in> set (db_orders d')" "is_cash x" "o_frozen_position_volume x \<noteq> 0"
  shows "\<exists>p \<in> set (db_positions d'). same_holding p x \<and> p_direction p = LONG
    \<and> p_instrument_type p = o_instrument_type x"
proof -
  note m = assms(2) [unfolded cash_move_def] and keys = assms(4)
  have "x = r \<or> x \<in> set (db_orders d)"
    using assms(1,5) upsert_member [of x o_order_id r "db_orders d"] by (auto simp: cash_write_def)
  then show ?thesis
  proof
    assume x: "x = r"
    with m assms(7) obtain p where p: "pos = Some p" "position_fits d r p" by (cases pos) auto
    moreover from p(1) assms(1) have "p \<in> set (db_positions d')"
      by (simp add: cash_write_def upsert_self)
    ultimately show ?thesis using x by (auto simp: position_fits_def)
  next
    assume "x \<in> set (db_orders d)"
    with assms(3,6,7) obtain q where q: "q \<in> set (db_positions d)" "same_holding q x"
      "p_direction q = LONG" "p_instrument_type q = o_instrument_type x"
      unfolding cash_ok_def by blast
    show ?thesis
    proof (cases pos)
      case None
      with assms(1) q show ?thesis by (auto simp: cash_write_def)
    next
      case (Some p)
      then have fits: "position_fits d r p" and d': "db_positions d' = upsert p_position_id p (db_positions d)"
        using m assms(1) by (simp_all add: cash_write_def)
      show ?thesis
      proof (cases "p_position_id q = p_position_id p")
        case True
        have "distinct (map p_position_id (db_positions d))"
          using keys by (simp add: keys_ok_def)
        from find_row_distinct [OF this q(1)] True fits have "same_position q p"
          by (simp add: position_fits_def)
        with q have "same_holding p x" "p_direction p = LONG" "p_instrument_type p = o_instrument_type x"
          by (simp_all add: same_position_def same_holding_def)
        then show ?thesis using d' upsert_self by metis
      next
        case False
        with q d' upsert_other [of q "db_positions d" p_position_id p] show ?thesis by auto
      qed
    qed
  qed
qed

definition fresh_trades :: "db \<Rightarrow> trade list \<Rightarrow> bool" where
  "fresh_trades d ts \<longleftrightarrow>
     distinct (map (\<lambda>t. (t_order_id t, t_market_event_id t)) (db_trades d @ ts))"

lemma move_keys:
  assumes "cash_write d r a' pos ts d'" "cash_move d r a a' pos" "keys_ok d" "fresh_trades d ts"
  shows "keys_ok d'"
proof -
  note m = assms(2) [unfolded cash_move_def] and w = assms(1) [unfolded cash_write_def]
  let ?key = "\<lambda>p. (p_account_id p, p_exchange_id p, p_symbol p, p_direction p)"
  have old: "distinct (map p_position_id (db_positions d))" "distinct (map ?key (db_positions d))"
    using assms(3) by (simp_all add: keys_ok_def)
  have "distinct (map p_position_id (db_positions d')) \<and> distinct (map ?key (db_positions d'))"
  proof (cases pos)
    case None
    with w old show ?thesis by simp
  next
    case (Some p)
    then have fits: "position_fits d r p" and d': "db_positions d' = upsert p_position_id p (db_positions d)"
      using m w by simp_all
    have "distinct (map ?key (upsert p_position_id p (db_positions d)))"
    proof (cases "find_row p_position_id (p_position_id p) (db_positions d)")
      case None
      with fits have none: "get_position d (p_account_id p) (p_exchange_id p) (p_symbol p) LONG = None"
        "p_direction p = LONG" "p_position_id p \<notin> p_position_id ` set (db_positions d)"
        by (simp_all add: position_fits_def find_row_None_iff)
      have "?key p \<notin> ?key ` set (db_positions d)"
      proof
        assume "?key p \<in> ?key ` set (db_positions d)"
        then obtain q :: position where "q \<in> set (db_positions d)" "?key p = ?key q" by (rule imageE)
        with none(1,2) show False unfolding get_position_def find_None_iff by auto
      qed
      with old none(3) show ?thesis by (simp add: upsert_def)
    next
      case (Some q)
      then have q: "q \<in> set (db_positions d)" "same_position q p" "p_position_id q = p_position_id p"
        using fits find_row_SomeD [OF Some] by (simp_all add: position_fits_def)
      have "?key (if p_position_id x = p_position_id p then p else x) = ?key x"
        if x: "x \<in> set (db_positions d)" for x :: position
      proof (cases "p_position_id x = p_position_id p")
        case True
        with distinct_key_eq [OF old(1) x q(1)] q(3) have "x = q" by simp
        with True q(2) show ?thesis by (simp add: same_position_def)
      qed simp
      then have "map ?key (replace_row p_position_id p (db_positions d)) = map ?key (db_positions d)"
        by (simp add: replace_row_def)
      moreover have "p_position_id p \<in> p_position_id ` set (db_positions d)"
        using q(1) q(3) [symmetric] by (rule image_eqI [rotated])
      ultimately show ?thesis using old by (simp add: upsert_def)
    qed
    with d' upsert_distinct [OF old(1)] show ?thesis by simp
  qed
  with w assms(3,4) show ?thesis
    by (simp add: keys_ok_def upsert_distinct fresh_trades_def)
qed

text \<open>A step of this shape keeps the book and the invariant of the cash securities.\<close>

lemma cash_step_keeps:
  assumes "cash_write d r a' pos ts d'" "cash_move d r a a' pos" "book_ok d" "cash_ok d"
    and "fresh_trades d ts"
  shows "book_ok d'" "cash_ok d'"
proof -
  have keys: "keys_ok d" using assms(3) by (simp add: book_ok_def)
  note w = assms(1) [unfolded cash_write_def]
  show "book_ok d'"
    using move_keys [OF assms(1,2) keys assms(5)] move_orders [OF assms(1-4)]
      move_accounts [OF assms(1-4)] move_positions [OF assms(1-4)] assms(3) w
    by (simp add: book_ok_def)
  show "cash_ok d'"
    unfolding cash_ok_def
    using move_orders [OF assms(1-4)] move_accounts [OF assms(1-4)] move_positions [OF assms(1-4)]
      move_holdings [OF assms(1,2,4) keys] assms(4) w
    by (simp add: cash_ok_def)
qed

end
