(* ===== verification/Cash_Settlement_Book.thy ===== *)
theory Cash_Settlement_Book
  imports Cash_Book
begin

text \<open>
  What one fill of a cash security order does to the tables, and that it keeps them consistent.
\<close>

section \<open>Fees\<close>

lemma settle_fees_core:
  assumes "settle_fees d now oid tid price volume = Inr (d1, commission)"
  shows "cd_core d1 = cd_core d" "is_money commission"
  using assms
  by (auto simp: settle_fees_def Let_def rbind_Inr_iff add_trade_components_def split: if_splits)

section \<open>The fill of one order\<close>

definition cash_flow :: "order \<Rightarrow> decimal \<Rightarrow> decimal" where
  "cash_flow r turnover = (if o_direction r = BUY then - turnover else turnover)"

definition fill_effect ::
  "int \<Rightarrow> decimal \<Rightarrow> decimal \<Rightarrow> order \<Rightarrow> account \<Rightarrow> position \<Rightarrow> cash_fill \<Rightarrow> bool" where
  "fill_effect volume turnover commission r a p f \<longleftrightarrow>
     same_position p (ch_position f) \<and> cost_ok (ch_position f)
     \<and> is_money (p_realized_pnl (ch_position f)) \<and> position_volumes_ok (ch_position f)
     \<and> p_frozen_volume (ch_position f) = p_frozen_volume p
         + (o_frozen_position_volume (ch_order f) - o_frozen_position_volume r)
     \<and> p_position_cost (ch_position f) - a_realized_pnl (ch_account f)
         = p_position_cost p - a_realized_pnl a - cash_flow r turnover
     \<and> a_account_id (ch_account f) = a_account_id a
     \<and> a_account_type (ch_account f) = a_account_type a
     \<and> a_frozen_margin (ch_account f) = a_frozen_margin a
     \<and> a_frozen_cash (ch_account f)
         = a_frozen_cash a + (o_frozen_cash (ch_order f) - o_frozen_cash r)
     \<and> a_frozen_commission (ch_account f)
         = a_frozen_commission a + (o_frozen_commission (ch_order f) - o_frozen_commission r)
     \<and> account_row_ok (ch_account f)
     \<and> a_cash_balance (ch_account f) = a_cash_balance a + cash_flow r turnover - commission
     \<and> liquid (pools (ch_account f)) = liquid (pools a) + cash_flow r turnover - commission
     \<and> is_money (a_realized_pnl (ch_account f))
     \<and> a_used_commission (ch_account f) = a_used_commission a
     \<and> ch_order f = r\<lparr>o_frozen_cash := o_frozen_cash (ch_order f),
                      o_frozen_commission := o_frozen_commission (ch_order f),
                      o_frozen_position_volume := o_frozen_position_volume (ch_order f)\<rparr>
     \<and> is_money (o_frozen_cash (ch_order f)) \<and> 0 \<le> o_frozen_cash (ch_order f)
     \<and> is_money (o_frozen_commission (ch_order f)) \<and> 0 \<le> o_frozen_commission (ch_order f)
     \<and> (if o_direction r = BUY then o_frozen_position_volume (ch_order f) = o_frozen_position_volume r
        else o_frozen_cash (ch_order f) = o_frozen_cash r
          \<and> o_frozen_commission (ch_order f) = o_frozen_commission r
          \<and> o_frozen_position_volume (ch_order f) = o_frozen_position_volume r - volume)"

lemma fill_buy_effect:
  assumes run: "fill_buy ins m v turnover commission r a p = Inr f"
    and vol: "0 < v" "v \<le> o_remaining_volume r" and m: "0 < m" "0 \<le> o_limit_price r"
    and money: "is_money turnover" "0 \<le> turnover" "is_money commission"
    and rows: "order_row_ok r" "account_row_ok a" "cash_account_ok a"
    and pos: "position_volumes_ok p" "cost_ok p" "is_money (p_realized_pnl p)"
    and days: "\<And>days. settlement_days (o_instrument_type r) (i_market_tplus ins) = Inr days \<Longrightarrow> buckets_ok days p"
    and dir: "o_direction r = BUY"
  shows "fill_effect v turnover commission r a p f
    \<and> (\<forall>days. settlement_days (o_instrument_type r) (i_market_tplus ins) = Inr days
         \<longrightarrow> buckets_ok days (ch_position f))"
proof -
  let ?left = "o_remaining_volume r - v"
  define rc where "rc = quantize_money (o_limit_price r * of_int ?left * m)"
  define rk where "rk = (if ?left = 0 then 0 else max 0 (quantize_money (o_frozen_commission r - commission)))"
  define av where "av = quantize_money (a_available_cash a + o_frozen_cash r + o_frozen_commission r
      - turnover - commission - rc - rk)"
  have rc: "is_money rc" "0 \<le> rc" using vol m by (simp_all add: rc_def)
  have rk: "is_money rk" "0 \<le> rk" by (simp_all add: rk_def is_money_max)
  have mr: "is_money (o_frozen_cash r)" "is_money (o_frozen_commission r)"
    using rows(1) by (simp_all add: order_row_ok_def)
  have ma: "is_money (a_available_cash a)" "is_money (a_frozen_cash a)" "is_money (a_frozen_commission a)"
    "is_money (a_cash_balance a)" "is_money (a_realized_pnl a)"
    using rows(2,3) by (simp_all add: account_row_ok_def cash_account_ok_def)
  have av_eq: "av = a_available_cash a + o_frozen_cash r + o_frozen_commission r
      - turnover - commission - rc - rk" "is_money av"
    using ma mr money rc rk by (simp_all add: av_def is_money_add is_money_diff)
  from run obtain p' where buy: "apply_buy p (o_instrument_type r) v turnover (i_market_tplus ins) = Inr p'"
    and f: "f = \<lparr>ch_order = r\<lparr>o_frozen_cash := rc, o_frozen_commission := rk\<rparr>,
       ch_account = a\<lparr>a_available_cash := av,
         a_frozen_cash := quantize_money (a_frozen_cash a - o_frozen_cash r + rc),
         a_frozen_commission := quantize_money (a_frozen_commission a - o_frozen_commission r + rk),
         a_cash_balance := quantize_money (a_cash_balance a - turnover - commission)\<rparr>,
       ch_position = p', ch_realized_pnl = 0\<rparr>"
    unfolding fill_buy_def Let_def rc_def [symmetric] rk_def [symmetric] av_def [symmetric]
    by (auto simp: rbind_Inr_iff split: if_splits)
  have volumes: "0 \<le> p_total_volume p" using pos(1) by (auto simp: position_volumes_ok_def)
  obtain days where d: "settlement_days (o_instrument_type r) (i_market_tplus ins) = Inr days"
    "p_frozen_volume p' = p_frozen_volume p" "same_position p p'" "p_realized_pnl p' = p_realized_pnl p"
    using buy by (rule apply_buy_Inr) blast
  note keeps = apply_buy_keeps [OF buy pos(1) vol(1) d(1) days [OF d(1)]]
    and cost = apply_buy_cost [OF buy pos(2) money(1,2) vol(1) volumes]
  have "fill_effect v turnover commission r a p f"
    using d keeps cost pos(3) rc rk mr ma money rows(2) dir
    by (simp add: f fill_effect_def cash_flow_def liquid_def pools_def av_eq account_row_ok_def
        is_money_add is_money_diff)
  with keeps d(1) show ?thesis by (simp add: f)
qed

lemma fill_sell_effect:
  assumes run: "fill_sell ins v turnover commission r a p = Inr f"
    and vol: "0 < v"
    and money: "is_money turnover" "is_money commission"
    and rows: "order_row_ok r" "account_row_ok a" "cash_account_ok a"
    and pos: "position_volumes_ok p" "cost_ok p" "is_money (p_realized_pnl p)"
    and days: "\<And>days. settlement_days (o_instrument_type r) (i_market_tplus ins) = Inr days \<Longrightarrow> buckets_ok days p"
    and dir: "o_direction r \<noteq> BUY"
  shows "fill_effect v turnover commission r a p f
    \<and> (\<forall>days. settlement_days (o_instrument_type r) (i_market_tplus ins) = Inr days
         \<longrightarrow> buckets_ok days (ch_position f))"
proof -
  have ma: "is_money (a_available_cash a)" "is_money (a_cash_balance a)" "is_money (a_realized_pnl a)"
    using rows(2,3) by (simp_all add: account_row_ok_def cash_account_ok_def)
  from run obtain p1 cost where sell: "apply_sell p (o_instrument_type r) v (i_market_tplus ins) = Inr (p1, cost)"
    and f: "f = \<lparr>ch_order = r\<lparr>o_frozen_position_volume := o_frozen_position_volume r - v\<rparr>,
       ch_account = a\<lparr>
         a_available_cash := quantize_money (a_available_cash a + turnover - commission),
         a_cash_balance := quantize_money (a_cash_balance a + turnover - commission),
         a_realized_pnl := quantize_money (a_realized_pnl a + quantize_money (turnover - cost)),
         a_daily_close_pnl := quantize_money (a_daily_close_pnl a + quantize_money (turnover - cost))\<rparr>,
       ch_position = close_out (p1\<lparr>
         p_realized_pnl := quantize_money (p_realized_pnl p1 + quantize_money (turnover - cost)),
         p_daily_close_pnl := quantize_money (p_daily_close_pnl p1 + quantize_money (turnover - cost))\<rparr>),
       ch_realized_pnl = quantize_money (turnover - cost)\<rparr>"
    by (auto simp: fill_sell_def Let_def rbind_Inr_iff split: if_splits)
  obtain n where d: "settlement_days (o_instrument_type r) (i_market_tplus ins) = Inr n"
    "p_frozen_volume p1 = p_frozen_volume p - v" "same_position p p1" "p_realized_pnl p1 = p_realized_pnl p"
    using sell by (rule apply_sell_Inr) blast
  note keeps = apply_sell_keeps [OF sell pos(1) vol d(1) days [OF d(1)]]
    and cost = apply_sell_cost [OF sell pos(2) vol]
  let ?q = "close_out (p1\<lparr>
      p_realized_pnl := quantize_money (p_realized_pnl p1 + quantize_money (turnover - cost)),
      p_daily_close_pnl := quantize_money (p_daily_close_pnl p1 + quantize_money (turnover - cost))\<rparr>)"
  have q: "position_volumes_ok ?q = position_volumes_ok p1" "buckets_ok k ?q = buckets_ok k p1"
    "cost_ok ?q = cost_ok p1" "p_position_cost ?q = p_position_cost p1"
    "p_frozen_volume ?q = p_frozen_volume p1" "is_money (p_realized_pnl ?q)" "same_position p ?q" for k
    using d(3) by (simp_all add: close_out_def position_volumes_ok_def buckets_ok_def cost_ok_def
        same_position_def)
  have "is_money (turnover - cost)" using money cost by (simp add: is_money_diff)
  then have "fill_effect v turnover commission r a p f"
    using d q keeps cost ma money rows dir
    by (simp add: f fill_effect_def cash_flow_def liquid_def pools_def account_row_ok_def
        order_row_ok_def is_money_add is_money_diff)
  with keeps d(1) q show ?thesis by (simp add: f)
qed

lemma fill_cash_effect:
  assumes run: "fill_cash ins m v turnover commission r a p = Inr f"
    and vol: "0 < v" "v \<le> o_remaining_volume r" and m: "0 < m" "0 \<le> o_limit_price r"
    and money: "is_money turnover" "0 \<le> turnover" "is_money commission"
    and rows: "order_row_ok r" "account_row_ok a" "cash_account_ok a"
    and pos: "position_volumes_ok p" "cost_ok p" "is_money (p_realized_pnl p)"
    and days: "\<And>days. settlement_days (o_instrument_type r) (i_market_tplus ins) = Inr days \<Longrightarrow> buckets_ok days p"
  shows "fill_effect v turnover commission r a p f
    \<and> (\<forall>days. settlement_days (o_instrument_type r) (i_market_tplus ins) = Inr days
         \<longrightarrow> buckets_ok days (ch_position f))"
proof (cases "o_direction r = BUY")
  case True
  with run have buy: "fill_buy ins m v turnover commission r a p = Inr f" by (simp add: fill_cash_def)
  show ?thesis by (rule fill_buy_effect [OF buy vol m money rows pos days True])
next
  case False
  with run have sell: "fill_sell ins v turnover commission r a p = Inr f"
    by (simp add: fill_cash_def split: if_splits)
  show ?thesis by (rule fill_sell_effect [OF sell vol(1) money(1,3) rows pos days False])
qed

end
