(* ===== verification/Cash_Fill_Book.thy ===== *)
theory Cash_Fill_Book
  imports Cash_Settlement_Book
begin

text \<open>
  A settled fill writes the order, its account and its holding, adds one trade, and keeps the tables
  consistent.
\<close>

section \<open>The holding of the order\<close>

lemma listed_holding:
  assumes "cash_ok d" "get_position d aid ex code LONG = Some p"
    and "get_listed_instrument d ex code = Some ins"
    and "i_instrument_type ins = it" "it \<in> cash_security_instrument_types"
  shows "p_instrument_type p = it" "cash_position_ok d p"
    "settlement_days it (i_market_tplus ins) = Inr days \<Longrightarrow> buckets_ok days p"
proof -
  have p: "p \<in> set (db_positions d)" "p_exchange_id p = ex" "p_symbol p = code"
    using get_position_member [OF assms(2)] by simp_all
  have l: "listing_ok d p" "\<not> is_derivative (p_instrument_type p) \<longrightarrow> cash_position_ok d p"
    using assms(1) p(1) by (simp_all add: cash_ok_def)
  then show it: "p_instrument_type p = it" using assms(3,4) p by (simp add: listing_ok_def)
  with l(2) assms(5) show "cash_position_ok d p" by (simp add: is_derivative_def)
  show "settlement_days it (i_market_tplus ins) = Inr days \<Longrightarrow> buckets_ok days p"
    using l(1) it assms(3,4) p by (simp add: listing_ok_def)
qed

text \<open>\<open>held\<close>: the row a fill starts from, read from the table or new with nothing in it.\<close>

definition held :: "db \<Rightarrow> order \<Rightarrow> instrument \<Rightarrow> position \<Rightarrow> bool" where
  "held d r ins p \<longleftrightarrow> same_holding p r \<and> p_direction p = LONG
     \<and> p_instrument_type p = o_instrument_type r
     \<and> (case find_row p_position_id (p_position_id p) (db_positions d) of
          None \<Rightarrow> get_position d (p_account_id p) (p_exchange_id p) (p_symbol p) LONG = None
            \<and> p_position_cost p = 0
        | Some q \<Rightarrow> q = p)
     \<and> p_frozen_volume p = position_before d p
     \<and> position_volumes_ok p \<and> cost_ok p \<and> is_money (p_realized_pnl p)
     \<and> (\<forall>days. settlement_days (o_instrument_type r) (i_market_tplus ins) = Inr days
          \<longrightarrow> buckets_ok days p)"

lemma position_found_by_id:
  assumes "keys_ok d" "p \<in> set (db_positions d)"
  shows "find_row p_position_id (p_position_id p) (db_positions d) = Some p"
proof -
  have "distinct (map p_position_id (db_positions d))" using assms(1) by (simp add: keys_ok_def)
  from find_row_distinct [OF this assms(2)] show ?thesis by simp
qed

lemma replace_new:
  assumes "key p = key q" "key q \<notin> key ` set rows"
  shows "replace_row key q (rows @ [p]) = upsert key q rows"
  using assms replace_row_absent [OF assms(2)] by (simp add: upsert_def replace_row_def)

lemma position_in_hand:
  assumes "cash_position_for_update d now pid m r = (d1, p)" "book_ok d" "cash_ok d"
    and "get_listed_instrument d (o_exchange_id r) (o_symbol r) = Some ins"
    and "i_instrument_type ins = o_instrument_type r" "is_cash r"
    and "pid \<notin> p_position_id ` set (db_positions d)"
  shows "held d r ins p"
    "same_position p q \<Longrightarrow> replace_row p_position_id q (db_positions d1)
       = upsert p_position_id q (db_positions d)"
    "d1 = d \<or> d1 = add_position p d"
proof -
  let ?get = "get_position d (o_account_id r) (o_exchange_id r) (o_symbol r) LONG"
  have keys: "keys_ok d" using assms(2) by (simp add: book_ok_def)
  have "held d r ins p \<and> (same_position p q \<longrightarrow> replace_row p_position_id q (db_positions d1)
       = upsert p_position_id q (db_positions d)) \<and> (d1 = d \<or> d1 = add_position p d)"
  proof (cases ?get)
    case None
    with assms(1) have p: "p = new_cash_position now pid m r" "d1 = add_position p d"
      by (auto simp: cash_position_for_update_def Let_def)
    have "find_row p_position_id pid (db_positions d) = None"
      using assms(7) by (simp add: find_row_None_iff)
    with None have "held d r ins p"
      by (simp add: held_def p new_cash_position_def same_holding_def position_before_def
          position_volumes_ok_def cost_ok_def buckets_ok_def)
    moreover have "replace_row p_position_id q (db_positions d @ [p]) = upsert p_position_id q (db_positions d)"
      if "same_position p q"
    proof (rule replace_new)
      show "p_position_id p = p_position_id q" using that by (simp add: same_position_def)
      then show "p_position_id q \<notin> p_position_id ` set (db_positions d)"
        using assms(7) by (simp add: p(1) new_cash_position_def)
    qed
    ultimately show ?thesis by (simp add: p(2) add_position_def)
  next
    case (Some p0)
    with assms(1) have p: "p0 = p" "d1 = d"
      by (simp_all add: cash_position_for_update_def)
    from Some p have got: "?get = Some p" by simp
    note member = get_position_member [OF got]
    note l = listed_holding [OF assms(3) got assms(4) assms(5) assms(6) [unfolded is_cash_def]]
    have "position_volumes_ok p" using assms(2) member by (simp add: book_ok_def)
    with member l keys have "held d r ins p"
      using position_found_by_id [OF keys, of p]
      by (simp add: held_def same_holding_def cash_position_ok_def position_before_def)
    moreover have "upsert p_position_id q (db_positions d) = replace_row p_position_id q (db_positions d)"
      if "same_position p q"
      using that member by (auto simp: upsert_def same_position_def intro: image_eqI [rotated])
    ultimately show ?thesis using p(2) by simp
  qed
  then show "held d r ins p" "same_position p q \<Longrightarrow> replace_row p_position_id q (db_positions d1)
       = upsert p_position_id q (db_positions d)" "d1 = d \<or> d1 = add_position p d" by blast+
qed


section \<open>The rows a fill writes\<close>

lemma charged_account_frame [simp]:
  "a_account_id (charged_account now c a) = a_account_id a"
  "a_account_type (charged_account now c a) = a_account_type a"
  "a_available_cash (charged_account now c a) = a_available_cash a"
  "a_frozen_margin (charged_account now c a) = a_frozen_margin a"
  "a_frozen_cash (charged_account now c a) = a_frozen_cash a"
  "a_frozen_commission (charged_account now c a) = a_frozen_commission a"
  "a_cash_balance (charged_account now c a) = a_cash_balance a"
  "a_realized_pnl (charged_account now c a) = a_realized_pnl a"
  "a_risk_available_cash (charged_account now c a) = a_risk_available_cash a"
  "a_used_commission (charged_account now c a) = quantize_money (a_used_commission a + c)"
  "pools (charged_account now c a) = pools a"
  by (simp_all add: charged_account_def refresh_account_pnl_facts_def pools_def)

lemma update_order_frame [simp]:
  "o_order_id (update_order now price v r) = o_order_id r"
  "o_account_id (update_order now price v r) = o_account_id r"
  "o_exchange_id (update_order now price v r) = o_exchange_id r"
  "o_symbol (update_order now price v r) = o_symbol r"
  "o_instrument_type (update_order now price v r) = o_instrument_type r"
  "o_direction (update_order now price v r) = o_direction r"
  "o_offset_flag (update_order now price v r) = o_offset_flag r"
  "o_limit_price (update_order now price v r) = o_limit_price r"
  "o_frozen_margin (update_order now price v r) = o_frozen_margin r"
  "o_frozen_cash (update_order now price v r) = o_frozen_cash r"
  "o_frozen_commission (update_order now price v r) = o_frozen_commission r"
  "o_frozen_position_volume (update_order now price v r) = o_frozen_position_volume r"
  "o_total_volume (update_order now price v r) = o_total_volume r"
  "o_cancelled_volume (update_order now price v r) = o_cancelled_volume r"
  "o_traded_volume (update_order now price v r) = o_traded_volume r + v"
  "o_remaining_volume (update_order now price v r) = o_remaining_volume r - v"
  by (simp_all add: update_order_def Let_def)

text \<open>The rows of the order, the account and the holding after a fill, as \<open>cash_move\<close> asks for them.\<close>

lemma fill_moves:
  assumes fill: "fill_effect v turnover commission r a p f"
    and ins: "get_listed_instrument d (o_exchange_id r) (o_symbol r) = Some ins"
      "i_instrument_type ins = o_instrument_type r"
    and days: "\<forall>days. settlement_days (o_instrument_type r) (i_market_tplus ins) = Inr days
         \<longrightarrow> buckets_ok days (ch_position f)"
    and r: "get_order d oid = Some r" "is_cash r" "cash_order_ok r" "order_row_ok r"
    and a: "get_account d (o_account_id r) = Some a" "cash_account_ok a"
    and v: "0 < v" "v \<le> o_remaining_volume r" and money: "is_money turnover" "is_money commission"
    and hand: "held d r ins p"
  shows "cash_move d (update_order now price v (ch_order f)) a
    (charged_account now commission (ch_account f)) (Some ((ch_position f)\<lparr>p_updated_at := now\<rparr>))"
proof -
  note e = fill [unfolded fill_effect_def]
  let ?r = "update_order now price v (ch_order f)" and ?p = "(ch_position f)\<lparr>p_updated_at := now\<rparr>"
  have id: "o_order_id r = oid" using find_row_SomeD [OF r(1) [unfolded get_order_row]] by simp
  obtain fc fk fv where f: "ch_order f = r\<lparr>o_frozen_cash := fc, o_frozen_commission := fk,
      o_frozen_position_volume := fv\<rparr>" using e by blast
  note e = e [unfolded f, simplified]
  have before: "order_before d ?r (g :: order \<Rightarrow> decimal) = g r"
    "order_before d ?r (h :: order \<Rightarrow> int) = h r" for g h
    using r(1) id by (simp_all add: order_before_def f)
  note before = before [unfolded f]
  have order: "order_row_ok ?r \<and> cash_order_ok ?r"
    using e r(3,4) v by (auto simp: f order_row_ok_def cash_order_ok_def order_volume_balanced_def split: if_splits)
  have account: "cash_account_ok (charged_account now commission (ch_account f))"
    using e a(2) money by (auto simp: cash_account_ok_def cash_flow_def is_money_add is_money_diff)
  have "listing_ok d ?p"
    using e hand ins days
    by (auto simp: listing_ok_def held_def same_position_def same_holding_def buckets_ok_def split: sum.splits)
  moreover have same: "same_position p ?p"
    using e [THEN conjunct1] by (simp add: same_position_def)
  moreover have "position_before d ?p = p_frozen_volume p" "same_holding ?p ?r"
    using same hand by (simp_all add: held_def position_before_def same_position_def same_holding_def f)
  moreover have "position_volumes_ok ?p = position_volumes_ok (ch_position f)"
    "cost_ok ?p = cost_ok (ch_position f)" by (simp_all add: position_volumes_ok_def cost_ok_def)
  ultimately have "position_fits d ?r ?p"
    using e hand by (auto simp: position_fits_def held_def before f same_position_def split: option.splits)
  moreover have "account_row_ok (ch_account f)" using e by blast
  then have "account_row_ok (charged_account now commission (ch_account f))"
    by (simp add: account_row_ok_def)
  ultimately show ?thesis using e order account r a(1) id before
    by (simp add: cash_move_def f is_cash_def)
qed


section \<open>\<open>settle_located\<close>\<close>

text \<open>What a fill needs: the rows it was located by, and the constraints of the tables.\<close>

definition fill_ready :: "db \<Rightarrow> string \<Rightarrow> string \<Rightarrow> order \<Rightarrow> account \<Rightarrow> instrument \<Rightarrow> decimal \<Rightarrow> bool" where
  "fill_ready d pid ev r a ins m \<longleftrightarrow> get_order d (o_order_id r) = Some r \<and> cash_order_active r
     \<and> get_account d (o_account_id r) = Some a \<and> a_account_type a \<in> cash_account_types
     \<and> get_listed_instrument d (o_exchange_id r) (o_symbol r) = Some ins
     \<and> i_instrument_type ins = o_instrument_type r \<and> i_contract_multiplier ins = Some m
     \<and> get_trade_by_order_market_event d (o_order_id r) ev = None
     \<and> pid \<notin> p_position_id ` set (db_positions d)"

text \<open>The rows of the order, the account, the holding and the trade, from what \<open>fill_cash\<close> returned.\<close>

definition cash_filled_order :: "datetime \<Rightarrow> decimal \<Rightarrow> int \<Rightarrow> cash_fill \<Rightarrow> order" where
  "cash_filled_order now price v f = update_order now price v (ch_order f)"

definition cash_filled_account :: "datetime \<Rightarrow> decimal \<Rightarrow> cash_fill \<Rightarrow> account" where
  "cash_filled_account now commission f = charged_account now commission (ch_account f)"

definition cash_filled_position :: "datetime \<Rightarrow> cash_fill \<Rightarrow> position" where
  "cash_filled_position now f = (ch_position f)\<lparr>p_updated_at := now\<rparr>"

lemma positive_multiplier:
  assumes "cash_ok d" "get_listed_instrument d ex code = Some ins" "i_contract_multiplier ins = Some m"
  shows "0 < m"
proof -
  have "ins \<in> set (db_instruments d)"
    using assms(2) unfolding get_listed_instrument_def by (auto dest: first_row_SomeD)
  with assms(1,3) show ?thesis by (force simp: cash_ok_def)
qed

lemma order_in_hand:
  assumes "book_ok d" "cash_ok d" "fill_ready d pid ev r a ins m"
  shows "order_row_ok r" "is_cash r" "cash_order_ok r" "account_row_ok a" "cash_account_ok a"
    "0 < m" "0 < o_remaining_volume r" "0 \<le> o_limit_price r"
proof -
  note g = assms(3) [unfolded fill_ready_def cash_order_active_def]
  have r: "r \<in> set (db_orders d)" "order_row_ok r" using book_ok_order [OF assms(1)] g by blast+
  have a: "a \<in> set (db_accounts d)" "account_row_ok a" using book_ok_account [OF assms(1)] g by blast+
  show "order_row_ok r" "account_row_ok a" "0 < o_remaining_volume r" using r a g by simp_all
  show "is_cash r" using g by (simp add: is_cash_def)
  with r(1) assms(2) show "cash_order_ok r" by (simp add: cash_ok_def)
  then show "0 \<le> o_limit_price r" by (simp add: cash_order_ok_def)
  show "cash_account_ok a" using a(1) g assms(2) by (simp add: cash_ok_def)
  show "0 < m" using positive_multiplier [OF assms(2)] g by blast
qed

lemma settle_located_effect:
  assumes run: "settle_located d now ids cmd price r a ins m = Inr (d', res)"
    and ok: "book_ok (cd_core d)" "cash_ok (cd_core d)"
    and ready: "fill_ready (cd_core d) (ct_position_id ids) (cw_market_event_id cmd) r a ins m"
    and pos: "0 \<le> price" "0 < csr_fill_volume (cw_match cmd)"
  obtains v turnover commission p f t where
    "v = min (o_remaining_volume r) (csr_fill_volume (cw_match cmd))"
    "turnover = quantize_money (price * of_int v * m)" "0 < v" "v \<le> o_remaining_volume r"
    "is_money commission" "held (cd_core d) r ins p" "fill_effect v turnover commission r a p f"
    "fill_cash ins m v turnover commission r a p = Inr f"
    "t_order_id t = o_order_id r" "t_market_event_id t = cw_market_event_id cmd"
    "t_trade_volume t = v" "t_turnover t = turnover" "t_commission t = commission"
    "cash_write (cd_core d) (cash_filled_order now price v f) (cash_filled_account now commission f)
       (Some (cash_filled_position now f)) [t] (cd_core d')"
    "cash_move (cd_core d) (cash_filled_order now price v f) a (cash_filled_account now commission f)
       (Some (cash_filled_position now f))"
    "res = cash_result (Some (ct_trade_id ids)) (o_order_id r) CASH_SETTLED"
proof -
  note r = order_in_hand [OF ok ready] and g = ready [unfolded fill_ready_def]
  define v where "v = min (o_remaining_volume r) (csr_fill_volume (cw_match cmd))"
  define turnover where "turnover = quantize_money (price * of_int v * m)"
  have v: "0 < v" "v \<le> o_remaining_volume r" using r pos by (simp_all add: v_def)
  have money: "is_money turnover" "0 \<le> turnover"
    using pos(1) v r(6) by (simp_all add: turnover_def)
  note run = run [unfolded settle_located_def Let_def, folded v_def, folded turnover_def]
  from run obtain d1 commission where
    fees: "settle_fees d now (o_order_id r) (ct_trade_id ids) price v = Inr (d1, commission)"
    by (auto simp: rbind_Inr_iff)
  obtain core p where hand: "cash_position_for_update (cd_core d1) now (ct_position_id ids) m r = (core, p)"
    by (rule prod.exhaust)
  from run fees hand obtain f where
    fill: "fill_cash ins m v turnover commission r a p = Inr f"
    and res: "res = cash_result (Some (ct_trade_id ids)) (o_order_id r) CASH_SETTLED"
    and d': "d' = d1\<lparr>cd_core := add_events (cash_settle_events ids now (cash_filled_order now price v f)
          (cash_trade now (ct_trade_id ids) (cw_market_event_id cmd) (cw_market_stream_message_id cmd)
             price v turnover commission (ch_realized_pnl f) r)
          (cash_filled_account now commission f) (cash_filled_position now f))
        (put_order (cash_filled_order now price v f) (put_account (cash_filled_account now commission f)
          (put_position (cash_filled_position now f) (add_trade
            (cash_trade now (ct_trade_id ids) (cw_market_event_id cmd) (cw_market_stream_message_id cmd)
              price v turnover commission (ch_realized_pnl f) r) core))))\<rparr>"
    by (auto simp: rbind_Inr_iff cash_filled_order_def cash_filled_account_def cash_filled_position_def)
  note core = settle_fees_core [OF fees]
  let ?t = "cash_trade now (ct_trade_id ids) (cw_market_event_id cmd) (cw_market_stream_message_id cmd)
      price v turnover commission (ch_realized_pnl f) r"
  note hand = hand [unfolded core(1)]
  have ins: "get_listed_instrument (cd_core d) (o_exchange_id r) (o_symbol r) = Some ins"
    "i_instrument_type ins = o_instrument_type r" using g by simp_all
  note held = position_in_hand [OF hand ok ins r(2)]
  have h: "held (cd_core d) r ins p" using held(1) g by simp
  have vol: "position_volumes_ok p" "cost_ok p" "is_money (p_realized_pnl p)"
    "\<And>days. settlement_days (o_instrument_type r) (i_market_tplus ins) = Inr days \<Longrightarrow> buckets_ok days p"
    using h by (simp_all add: held_def)
  have eff: "fill_effect v turnover commission r a p f"
    and days: "\<forall>days. settlement_days (o_instrument_type r) (i_market_tplus ins) = Inr days
         \<longrightarrow> buckets_ok days (ch_position f)"
    using fill_cash_effect [OF fill v r(6,8) money core(2) r(1,4,5) vol] by blast+
  have move: "cash_move (cd_core d) (cash_filled_order now price v f) a (cash_filled_account now commission f)
       (Some (cash_filled_position now f))"
    unfolding cash_filled_order_def cash_filled_account_def cash_filled_position_def
    using fill_moves [OF eff ins days _ r(2,3,1) _ r(5) v money(1) core(2) h] g by blast
  obtain fc fk fv where "ch_order f = r\<lparr>o_frozen_cash := fc, o_frozen_commission := fk,
      o_frozen_position_volume := fv\<rparr>" using eff unfolding fill_effect_def by blast
  then have "o_order_id (cash_filled_order now price v f) = o_order_id r" by (simp add: cash_filled_order_def)
  moreover have "o_order_id r \<in> o_order_id ` set (db_orders (cd_core d))"
    using book_ok_order [OF ok(1)] g by blast
  ultimately have orders: "replace_row o_order_id (cash_filled_order now price v f) (db_orders (cd_core d))
      = upsert o_order_id (cash_filled_order now price v f) (db_orders (cd_core d))"
    by (simp add: upsert_def)
  have "same_position p (cash_filled_position now f)"
    using eff [unfolded fill_effect_def, THEN conjunct1]
    by (simp add: cash_filled_position_def same_position_def)
  note positions = held(2) [OF _ this]
  have wrote: "cash_write (cd_core d) (cash_filled_order now price v f) (cash_filled_account now commission f)
       (Some (cash_filled_position now f)) [?t] (cd_core d')"
    using held(3) positions orders g
    by (auto simp: cash_write_def d' add_events_def put_order_def put_account_def put_position_def
        add_trade_def add_position_def)
  show thesis
    by (rule that [OF v_def turnover_def v core(2) h eff fill _ _ _ _ _ wrote move res])
      (simp_all add: cash_trade_def)
qed


section \<open>What a fill does not do\<close>

text \<open>A fill of a T+1 security sells shares of earlier days only.\<close>

lemma close_out_today: "p_today_volume (close_out p) = p_today_volume p"
  by (simp add: close_out_def)

lemma fill_keeps_today:
  assumes "fill_cash ins m v turnover commission r a p = Inr f" "0 < v"
    and "settlement_days (o_instrument_type r) (i_market_tplus ins) = Inr 1"
  shows "p_today_volume p \<le> p_today_volume (ch_position f)"
    "o_direction r = SELL \<Longrightarrow> v \<le> p_yesterday_volume p"
proof -
  have "p_today_volume p \<le> p_today_volume (ch_position f)
      \<and> (o_direction r = SELL \<longrightarrow> v \<le> p_yesterday_volume p)"
  proof (cases "o_direction r = BUY")
    case True
    with assms(1) obtain p' where
      b: "apply_buy p (o_instrument_type r) v turnover (i_market_tplus ins) = Inr p'"
      and f: "ch_position f = p'"
      by (auto simp: fill_cash_def fill_buy_def Let_def rbind_Inr_iff split: if_splits)
    from b show ?thesis by (rule apply_buy_Inr) (use assms(2) True f in simp)
  next
    case False
    with assms(1) obtain p1 cost where
      s: "apply_sell p (o_instrument_type r) v (i_market_tplus ins) = Inr (p1, cost)"
      and t: "p_today_volume (ch_position f) = p_today_volume p1"
      by (auto simp: fill_cash_def fill_sell_def Let_def rbind_Inr_iff close_out_today split: if_split_asm)
    from s show ?thesis by (rule apply_sell_Inr) (use assms(3) t in simp)
  qed
  then show "p_today_volume p \<le> p_today_volume (ch_position f)"
    "o_direction r = SELL \<Longrightarrow> v \<le> p_yesterday_volume p" by simp_all
qed

text \<open>
  The checks of a fill that guard the books never strike: only a buy for which the account has no
  money left is refused.
\<close>

lemma fill_cash_error:
  assumes "fill_cash ins m v turnover commission r a p = Inl e"
    and "cash_order_ok r" "v \<le> o_remaining_volume r" "position_volumes_ok p"
    and "o_frozen_position_volume r \<le> p_frozen_volume p"
    and "o_frozen_cash r \<le> a_frozen_cash a" "o_frozen_commission r \<le> a_frozen_commission a"
    and days: "settlement_days (o_instrument_type r) (i_market_tplus ins) = Inr days" "buckets_ok days p"
  shows "o_direction r = BUY \<and> e = BusinessRuleError ''CASH_SECURITY_SETTLEMENT_CASH_INSUFFICIENT''"
proof (cases "o_direction r = BUY")
  case True
  with assms(1,6,7) days(1) show ?thesis
    by (auto simp: fill_cash_def fill_buy_def apply_buy_def Let_def rbind_Inl_iff split: if_splits)
next
  case False
  with assms(2) have s: "o_direction r = SELL" "o_frozen_position_volume r = o_remaining_volume r"
    by (auto simp: cash_order_ok_def)
  with assms(3,5) have "v \<le> p_frozen_volume p" by simp
  from frozen_can_be_sold [OF assms(4) days this] obtain p' cost where
    "apply_sell p (o_instrument_type r) v (i_market_tplus ins) = Inr (p', cost)" by blast
  with assms(1,3) s have False by (simp add: fill_cash_def fill_sell_def Let_def not_less)
  then show ?thesis ..
qed

end
