(* ===== verification/Cash_Order_Book.thy ===== *)
theory Cash_Order_Book
  imports Cash_Fill_Book
begin

text \<open>
  Placing and withdrawing cash security orders write rows of the shape \<open>cash_write\<close> and move
  resources as \<open>cash_move\<close> states.
\<close>

section \<open>Placing\<close>

definition cash_services :: "cash_service set" where
  "cash_services = {stock_order_service, convertible_bond_order_service, etf_order_service}"

lemmas service_defs = cash_services_def stock_order_service_def convertible_bond_order_service_def
  etf_order_service_def

lemma validated_reference_Inr:
  "validated_reference ins rule daily q = Inr re \<Longrightarrow> re_instrument re = ins"
  by (auto simp: validated_reference_def rbind_Inr_iff split: option.splits)

lemma reference_instrument:
  assumes "resolve_and_validate (sv_policy sv) d (Some ins) q day = Inr re" "sv \<in> cash_services"
  shows "re_instrument re = ins" "i_instrument_type ins = sv_instrument_type sv"
    "sv_instrument_type sv \<in> cash_security_instrument_types"
  using assms
  by (auto simp: service_defs stock_resolve_and_validate_def bond_resolve_and_validate_def
      etf_resolve_and_validate_def cash_security_instrument_types_def
      split: if_splits option.splits dest: validated_reference_Inr)

lemma validate_sell_Inr:
  assumes "validate_sell policy q rule position = Inr p"
  shows "position = Some p \<and> rq_volume q \<le> p_available_volume p"
  using assms
  by (cases policy) (auto simp: stock_validate_sell_def etf_validate_sell_def Let_def
      split: option.splits if_splits)

lemma calculate_components_money:
  "calculate_components price v cs = Inr fee \<Longrightarrow> is_money fee"
  by (auto simp: calculate_components_def rbind_Inr_iff)

lemma resolve_instrument_member:
  assumes "resolve_instrument d q = Inr (Some ins)" "cash_ok d"
  shows "ins \<in> set (db_instruments d)"
    "get_listed_instrument d (i_exchange_id ins) (i_symbol ins) = Some ins"
proof -
  show member: "ins \<in> set (db_instruments d)"
    using assms(1)
    by (auto simp: resolve_instrument_def rbind_Inr_iff get_instrument_def get_listed_instrument_def
        split: if_splits dest!: first_row_SomeD find_row_SomeD)
  show "get_listed_instrument d (i_exchange_id ins) (i_symbol ins) = Some ins"
    unfolding get_listed_instrument_def
  proof (rule first_row_unique [OF member])
    fix y assume y: "y \<in> set (db_instruments d)" "i_exchange_id y = i_exchange_id ins \<and> i_symbol y = i_symbol ins"
    have "distinct (map (\<lambda>i. (i_exchange_id i, i_symbol i)) (db_instruments d))"
      using assms(2) by (simp add: cash_ok_def)
    from distinct_key_eq [OF this y(1) member] y(2) show "y = ins" by simp
  qed simp
qed

lemma prepare_cash_order_Inr:
  assumes "prepare_cash_order d sv day_of q = Inr pn" "sv \<in> cash_services" "cash_ok (cd_core d)"
  obtains ins where "re_instrument (cq_reference pn) = ins" "ins \<in> set (db_instruments (cd_core d))"
    "get_listed_instrument (cd_core d) (i_exchange_id ins) (i_symbol ins) = Some ins"
    "i_instrument_type ins = sv_instrument_type sv"
    "sv_instrument_type sv \<in> cash_security_instrument_types"
    "rq_limit_price q = Some (cq_price pn)" "is_money (cq_fee pn)"
    "i_contract_multiplier ins = Some (cq_multiplier pn)"
proof -
  from assms(1) obtain ins where found: "resolve_instrument (cd_core d) q = Inr (Some ins)"
    by (auto simp: prepare_cash_order_def rbind_Inr_iff split: option.split_asm)
  note run = assms(1) [unfolded prepare_cash_order_def found rbind_simps option.case]
  from run obtain day re where re: "resolve_and_validate (sv_policy sv) d (Some ins) q day = Inr re"
    and day: "day_of ins = Inr day"
    by (auto simp: rbind_Inr_iff)
  note run = run [unfolded day re rbind_simps Let_def]
  from run obtain items m price where items: "resolve_cash_security_components (cd_core d)
      (i_id (re_instrument re)) (i_product_id (re_instrument re)) (i_exchange_id (re_instrument re))
      (sv_instrument_type sv) (rq_direction q) day = Inr items"
    "items \<noteq> []" "i_contract_multiplier (re_instrument re) = Some m" "rq_limit_price q = Some price"
    by (auto simp: rbind_Inr_iff split: if_splits option.splits)
  from run obtain fee where
    pn: "cq_reference pn = re" "rq_limit_price q = Some (cq_price pn)" "cq_fee pn = fee"
      "i_contract_multiplier (re_instrument re) = Some (cq_multiplier pn)"
    and fee: "calculate_components price (rq_volume q) (map (fee_component m) items) = Inr fee"
    by (auto simp: items rbind_Inr_iff)
  note i = reference_instrument [OF re assms(2)] and m = resolve_instrument_member [OF found assms(3)]
  show thesis
    by (rule that [of ins]) (use pn i m calculate_components_money [OF fee] in simp_all)
qed

text \<open>A buy moves money from the available cash into the pools.\<close>

lemma freeze_buy_Inr:
  assumes "freeze_buy (Some a) cash commission = Inr a'" "account_row_ok a" "is_money cash" "is_money commission"
  shows "a' = a\<lparr>a_available_cash := a_available_cash a - cash - commission,
      a_frozen_cash := a_frozen_cash a + cash, a_frozen_commission := a_frozen_commission a + commission\<rparr>"
    "0 \<le> cash" "0 \<le> commission" "a_status a = ACCOUNT_NORMAL" "cash + commission \<le> a_available_cash a"
    "account_row_ok a'"
  using assms
  by (auto simp: freeze_buy_def rbind_Inr_iff cash_account_tradable_def Let_def account_row_ok_def
      is_money_add is_money_diff split: if_splits)

definition cash_creation_fresh :: "db \<Rightarrow> cash_create_ids \<Rightarrow> bool" where
  "cash_creation_fresh d ids \<longleftrightarrow> cn_order_id ids \<notin> o_order_id ` set (db_orders d)"

text \<open>What a new cash order holds of the account, and of the position.\<close>

definition cash_placed :: "cash_service \<Rightarrow> order_request \<Rightarrow> cash_plan \<Rightarrow> order \<Rightarrow> bool" where
  "cash_placed sv q pn r \<longleftrightarrow> o_direction r = rq_direction q \<and> o_status r = ACCEPTED
     \<and> o_instrument_type r = sv_instrument_type sv \<and> o_total_volume r = rq_volume q
     \<and> o_remaining_volume r = rq_volume q \<and> o_traded_volume r = 0 \<and> o_limit_price r = cq_price pn
     \<and> o_offset_flag r = None
     \<and> o_frozen_cash r = (if rq_direction q = BUY
          then quantize_money (cq_price pn * of_int (rq_volume q) * cq_multiplier pn) else 0)
     \<and> o_frozen_commission r = (if rq_direction q = BUY then cq_fee pn else 0)
     \<and> o_frozen_position_volume r = (if rq_direction q = BUY then 0 else rq_volume q)"

lemma place_cash_order_placed:
  assumes "place_cash_order d sv now ids q pn a = Inr (d', r)"
  shows "cash_placed sv q pn r" "o_order_id r = cn_order_id ids" "o_account_id r = a_account_id a"
  using assms
  by (auto simp: place_cash_order_def freeze_cash_order_def rbind_Inr_iff Let_def accepted_cash_order_def
      cash_placed_def freeze_buy_def cash_account_tradable_def split: if_splits)

lemma freeze_sell_keeps:
  assumes "position_volumes_ok p" "0 < v" "v \<le> p_available_volume p"
  shows "position_volumes_ok (freeze_sell now v p)"
  using assms by (auto simp: position_volumes_ok_def freeze_sell_def)

lemma freeze_sell_frame [simp]:
  "cost_ok (freeze_sell now v p) = cost_ok p" "p_realized_pnl (freeze_sell now v p) = p_realized_pnl p"
  "p_frozen_volume (freeze_sell now v p) = p_frozen_volume p + v"
  "buckets_ok days (freeze_sell now v p) = buckets_ok days p"
  "p_position_id (freeze_sell now v p) = p_position_id p"
  by (simp_all add: cost_ok_def freeze_sell_def buckets_ok_def)


lemma listing_ok_freeze_sell [simp]: "listing_ok d (freeze_sell now v p) = listing_ok d p"
  by (auto simp: listing_ok_def freeze_sell_def buckets_ok_def split: option.splits sum.splits)

text \<open>Writing back a position read from the table.\<close>

lemma put_held_position:
  assumes "p \<in> set (db_positions d)" "same_position p q"
  shows "replace_row p_position_id q (db_positions d) = upsert p_position_id q (db_positions d)"
  using assms by (auto simp: upsert_def same_position_def intro: image_eqI [rotated])

text \<open>Placing and withdrawing move no money and no shares between days.\<close>

definition value_frame :: "db \<Rightarrow> account \<Rightarrow> account \<Rightarrow> position option \<Rightarrow> bool" where
  "value_frame d a a' pos \<longleftrightarrow> a_cash_balance a' = a_cash_balance a
     \<and> a_realized_pnl a' = a_realized_pnl a \<and> a_used_commission a' = a_used_commission a
     \<and> (case pos of None \<Rightarrow> True
        | Some p \<Rightarrow> \<exists>q. find_row p_position_id (p_position_id p) (db_positions d) = Some q
            \<and> p_position_cost p = p_position_cost q \<and> p_today_volume p = p_today_volume q)"

lemma position_fits_held:
  assumes "keys_ok d" "p \<in> set (db_positions d)" "same_position p q"
    and "same_holding p r" "p_direction p = LONG" "p_instrument_type p = o_instrument_type r"
    and "p_frozen_volume q = p_frozen_volume p
        + (o_frozen_position_volume r - order_before d r o_frozen_position_volume)"
    and "position_volumes_ok q" "cost_ok q" "is_money (p_realized_pnl q)" "listing_ok d q"
  shows "position_fits d r q"
proof -
  have "find_row p_position_id (p_position_id q) (db_positions d) = Some p"
    using position_found_by_id [OF assms(1,2)] assms(3) by (simp add: same_position_def)
  with assms show ?thesis
    by (simp add: position_fits_def position_before_def same_position_def same_holding_def)
qed

lemma placed_order_ok:
  assumes "cash_placed sv q pn r" "place_cash_order d sv now ids q pn a = Inr (d', r)"
    and "0 < rq_volume q" "0 \<le> cq_price pn" "rq_direction q \<in> {BUY, SELL}" "is_money (cq_fee pn)"
    and "0 \<le> o_frozen_cash r" "0 \<le> o_frozen_commission r"
  shows "order_row_ok r" "cash_order_ok r"
proof -
  have "o_cancelled_volume r = 0" "o_frozen_margin r = 0"
    using assms(2) by (auto simp: place_cash_order_def rbind_Inr_iff Let_def accepted_cash_order_def)
  with assms show "order_row_ok r"
    by (simp add: order_row_ok_def cash_placed_def order_volume_balanced_def)
  show "cash_order_ok r"
    using assms \<open>o_frozen_margin r = 0\<close>
    by (auto simp: cash_order_ok_def cash_placed_def split: if_splits)
qed

lemma place_cash_order_moves:
  assumes place: "place_cash_order d sv now ids q pn a = Inr (d', r)"
    and plan: "prepare_cash_order d sv day_of q = Inr pn" "sv \<in> cash_services"
    and ok: "book_ok (cd_core d)" "cash_ok (cd_core d)"
    and a: "get_account (cd_core d) (a_account_id a) = Some a" "a_account_type a \<in> cash_account_types"
    and fresh: "cash_creation_fresh (cd_core d) ids"
    and q: "0 < rq_volume q" "0 \<le> cq_price pn" "rq_direction q \<in> {BUY, SELL}"
  shows "\<exists>a' pos. cash_write (cd_core d) r a' pos [] (cd_core d') \<and> cash_move (cd_core d) r a a' pos
    \<and> value_frame (cd_core d) a a' pos"
proof -
  let ?d = "cd_core d"
  obtain ins where ins: "re_instrument (cq_reference pn) = ins"
    "get_listed_instrument ?d (i_exchange_id ins) (i_symbol ins) = Some ins"
    "i_instrument_type ins = sv_instrument_type sv"
    "sv_instrument_type sv \<in> cash_security_instrument_types" "is_money (cq_fee pn)"
    using prepare_cash_order_Inr [OF plan ok(2)] by blast
  note placed = place_cash_order_placed [OF place]
  have new: "get_order ?d (o_order_id r) = None"
    using fresh placed(2) by (simp add: get_order_row find_row_None_iff cash_creation_fresh_def)
  then have before: "order_before ?d r (g :: order \<Rightarrow> decimal) = 0"
    "order_before ?d r (h :: order \<Rightarrow> int) = 0" for g h by (simp_all add: order_before_def)
  have orders: "db_orders ?d @ [r] = upsert o_order_id r (db_orders ?d)"
    using new by (simp add: upsert_def get_order_row find_row_None_iff)
  have arow: "account_row_ok a" using book_ok_account [OF ok(1) a(1)] by blast
  have acash: "cash_account_ok a" using ok(2) book_ok_account [OF ok(1) a(1)] a(2) by (simp add: cash_ok_def)
  from place obtain cx where cx: "freeze_cash_order d sv now q pn a = Inr cx"
    and r: "r = accepted_cash_order now (cn_order_id ids) sv q pn cx"
    and d': "cd_core d' = add_events (cash_create_events ids sv now r ((cx_account cx)\<lparr>a_updated_at := now\<rparr>)
          (cx_position cx)) (add_order r (put_account ((cx_account cx)\<lparr>a_updated_at := now\<rparr>)
            (put_position_option (cx_position cx) ?d)))"
    by (auto simp: place_cash_order_def rbind_Inr_iff Let_def add_snapshots_def on_core_def)
  have sym: "o_exchange_id r = i_exchange_id ins" "o_symbol r = i_symbol ins"
    by (simp_all add: r accepted_cash_order_def Let_def ins)
  note placed' = placed(1) [unfolded cash_placed_def]
  have cash: "is_cash r" using placed' ins by (simp add: is_cash_def)
  show ?thesis
  proof (cases "rq_direction q = BUY")
    case True
    then obtain a1 where buy: "freeze_buy (Some a)
        (quantize_money (cq_price pn * of_int (rq_volume q) * cq_multiplier pn)) (cq_fee pn) = Inr a1"
      and c: "cx_account cx = a1" "cx_position cx = None"
      using cx by (auto simp: freeze_cash_order_def rbind_Inr_iff Let_def)
    note f = freeze_buy_Inr [OF buy arow _ ins(5)]
    have row: "order_row_ok r" "cash_order_ok r"
      using placed_order_ok [OF placed(1) place q ins(5)] placed' True f by simp_all
    have "cash_move ?d r a (a1\<lparr>a_updated_at := now\<rparr>) None"
      using f placed' True placed(3) a new before row cash acash
      by (simp add: cash_move_def cash_account_ok_def liquid_def pools_def account_row_ok_def)
    moreover have "cash_write ?d r (a1\<lparr>a_updated_at := now\<rparr>) None [] (cd_core d')"
      by (simp add: cash_write_def d' c orders add_events_def add_order_def put_account_def
          put_position_option_def)
    moreover have "value_frame ?d a (a1\<lparr>a_updated_at := now\<rparr>) None"
      by (simp add: value_frame_def f(1))
    ultimately show ?thesis by blast
  next
    case False
    then obtain p where sell: "validate_sell (sv_policy sv) q (re_rule (cq_reference pn))
        (get_position ?d (a_account_id a) (i_exchange_id ins) (i_symbol ins) LONG) = Inr p"
      and c: "cx_account cx = a" "cx_position cx = Some (freeze_sell now (rq_volume q) p)"
      using cx by (auto simp: freeze_cash_order_def rbind_Inr_iff Let_def ins)
    note v = validate_sell_Inr [OF sell]
    note got = v [THEN conjunct1]
    note member = get_position_member [OF got]
      and held = listed_holding [OF ok(2) got ins(2,3,4)]
    have vol: "position_volumes_ok p" "listing_ok ?d p" using ok member by (simp_all add: book_ok_def cash_ok_def)
    have keys: "keys_ok ?d" using ok(1) by (simp add: book_ok_def)
    let ?p = "freeze_sell now (rq_volume q) p"
    have row: "order_row_ok r" "cash_order_ok r"
      using placed_order_ok [OF placed(1) place q ins(5)] placed' False by simp_all
    have "position_fits ?d r ?p"
      using member held vol v placed' placed(3) False freeze_sell_keeps [OF vol(1) q(1)] sym before
      by (intro position_fits_held [OF keys, of p]) (auto simp: same_holding_def cash_position_ok_def)
    then have "cash_move ?d r a (a\<lparr>a_updated_at := now\<rparr>) (Some ?p)"
      using placed' False placed(3) a new before row cash acash arow
      by (simp add: cash_move_def cash_account_ok_def pools_def account_row_ok_def)
    moreover have "cash_write ?d r (a\<lparr>a_updated_at := now\<rparr>) (Some ?p) [] (cd_core d')"
      using put_held_position [of p ?d ?p] member
      by (simp add: cash_write_def d' c orders add_events_def add_order_def put_account_def
          put_position_option_def put_position_def)
    moreover have "value_frame ?d a (a\<lparr>a_updated_at := now\<rparr>) (Some ?p)"
      using position_found_by_id [OF keys, of p] member by (simp add: value_frame_def freeze_sell_def)
    ultimately show ?thesis by blast
  qed
qed


section \<open>Withdrawing\<close>

text \<open>The position of an order that holds shares, and what the position and the account cover.\<close>

lemma held_position:
  assumes ok: "book_ok d" "cash_ok d"
    and r: "r \<in> set (db_orders d)" "is_cash r" "o_frozen_position_volume r \<noteq> 0"
  obtains p where "get_position d (o_account_id r) (o_exchange_id r) (o_symbol r) LONG = Some p"
    "p \<in> set (db_positions d)" "same_holding p r" "p_direction p = LONG"
    "p_instrument_type p = o_instrument_type r" "position_volumes_ok p" "listing_ok d p"
    "cash_position_ok d p" "o_frozen_position_volume r \<le> p_frozen_volume p"
proof -
  have "\<exists>p \<in> set (db_positions d). same_holding p r \<and> p_direction p = LONG
      \<and> p_instrument_type p = o_instrument_type r"
    using ok(2) r unfolding cash_ok_def by blast
  then obtain p where p: "p \<in> set (db_positions d)" "same_holding p r" "p_direction p = LONG"
    "p_instrument_type p = o_instrument_type r" by blast
  have "keys_ok d" using ok(1) by (simp add: book_ok_def)
  from position_found [OF this p(1)] p(2,3)
  have got: "get_position d (o_account_id r) (o_exchange_id r) (o_symbol r) LONG = Some p"
    by (simp add: same_holding_def)
  have "\<not> is_derivative (p_instrument_type p)" using p(4) r(2) by (simp add: is_derivative_def is_cash_def)
  then have rows: "position_volumes_ok p" "listing_ok d p" "cash_position_ok d p"
    using ok p(1) by (simp_all add: book_ok_def cash_ok_def)
  have "o_frozen_position_volume r \<le> sum_of (holding_of p) o_frozen_position_volume (db_orders d)"
  proof (rule sum_of_le_member [OF r(1)])
    show "holding_of p r" using p(2) r(2) by (simp add: holding_of_def)
    fix x assume x: "x \<in> set (db_orders d)" "holding_of p x"
    then have "cash_order_ok x" "order_row_ok x" using ok by (simp_all add: cash_ok_def book_ok_def holding_of_def)
    then show "0 \<le> o_frozen_position_volume x" by (auto simp: cash_order_ok_def order_row_ok_def)
  qed
  with rows(3) have "o_frozen_position_volume r \<le> p_frozen_volume p" by (simp add: cash_position_ok_def)
  then show thesis by (rule that [OF got p rows])
qed

lemma held_money:
  assumes "book_ok d" "r \<in> set (db_orders d)" "get_account d (o_account_id r) = Some a"
  shows "o_frozen_cash r \<le> a_frozen_cash a" "o_frozen_commission r \<le> a_frozen_commission a"
    "order_row_ok r" "account_row_ok a" "a \<in> set (db_accounts d)"
proof -
  have a: "a_account_id a = o_account_id r" "account_backed (db_orders d) a" "account_row_ok a"
    "a \<in> set (db_accounts d)"
    using book_ok_account [OF assms(1,3)] by blast+
  have rows: "\<forall>x \<in> set (db_orders d). order_row_ok x" using assms(1) by (simp add: book_ok_def)
  from account_covers_order [OF a(2) assms(2) a(1) [symmetric] this]
  show "o_frozen_cash r \<le> a_frozen_cash a" "o_frozen_commission r \<le> a_frozen_commission a" by simp_all
  show "order_row_ok r" "account_row_ok a" "a \<in> set (db_accounts d)" using rows assms(2) a by simp_all
qed

definition release_sell :: "datetime \<Rightarrow> int \<Rightarrow> position \<Rightarrow> position" where
  "release_sell now volume p =
     p\<lparr>p_frozen_volume := p_frozen_volume p - volume,
       p_available_volume := p_total_volume p - (p_frozen_volume p - volume) - p_settlement_locked_volume p,
       p_updated_at := now\<rparr>"

lemma release_sell_frame [simp]:
  "cost_ok (release_sell now v p) = cost_ok p" "p_realized_pnl (release_sell now v p) = p_realized_pnl p"
  "p_frozen_volume (release_sell now v p) = p_frozen_volume p - v"
  "same_position p (release_sell now v p)" "listing_ok d (release_sell now v p) = listing_ok d p"
  by (auto simp: cost_ok_def release_sell_def same_position_def listing_ok_def buckets_ok_def
      split: option.splits sum.splits)

lemma release_sell_keeps:
  "position_volumes_ok p \<Longrightarrow> 0 \<le> v \<Longrightarrow> v \<le> p_frozen_volume p \<Longrightarrow> position_volumes_ok (release_sell now v p)"
  by (auto simp: position_volumes_ok_def release_sell_def)

text \<open>What is released: nothing that the account or the position does not hold.\<close>

definition released :: "db \<Rightarrow> datetime \<Rightarrow> order \<Rightarrow> account \<Rightarrow> account \<Rightarrow> position option \<Rightarrow> bool" where
  "released d now r a a1 pos \<longleftrightarrow>
     a1 = a\<lparr>a_available_cash := a_available_cash a + o_frozen_cash r + o_frozen_commission r,
            a_frozen_cash := a_frozen_cash a - o_frozen_cash r,
            a_frozen_commission := a_frozen_commission a - o_frozen_commission r\<rparr>
     \<and> (if o_direction r = BUY then pos = None
        else \<exists>p. get_position d (o_account_id r) (o_exchange_id r) (o_symbol r) LONG = Some p
               \<and> o_frozen_position_volume r \<le> p_frozen_volume p
               \<and> pos = Some (release_sell now (o_frozen_position_volume r) p))"

lemma release_cash_order_succeeds:
  assumes ok: "book_ok (cd_core d)" "cash_ok (cd_core d)"
    and r: "r \<in> set (db_orders (cd_core d))" "is_cash r" "0 < o_remaining_volume r"
    and a: "get_account (cd_core d) (o_account_id r) = Some a"
  shows "\<exists>a1 pos. release_cash_order d now r a = Inr (a1, pos) \<and> released (cd_core d) now r a a1 pos"
proof -
  have c: "cash_order_ok r" using ok(2) r by (simp add: cash_ok_def)
  note h = held_money [OF ok(1) r(1) a]
  have money: "is_money (o_frozen_cash r)" "is_money (o_frozen_commission r)" "0 \<le> o_frozen_cash r"
    "0 \<le> o_frozen_commission r" "is_money (a_available_cash a)" "is_money (a_frozen_cash a)"
    "is_money (a_frozen_commission a)" using h by (simp_all add: order_row_ok_def account_row_ok_def)
  show ?thesis
  proof (cases "o_direction r = BUY")
    case True
    with c have "o_frozen_position_volume r = 0" "o_frozen_margin r = 0" by (simp_all add: cash_order_ok_def)
    with True h(1,2) money show ?thesis
      by (simp add: release_cash_order_def release_buy_def released_def Let_def not_less
          is_money_add is_money_diff)
  next
    case False
    with c have s: "o_direction r = SELL" "o_frozen_cash r = 0" "o_frozen_commission r = 0"
      "o_frozen_position_volume r = o_remaining_volume r" by (auto simp: cash_order_ok_def)
    then have "o_frozen_position_volume r \<noteq> 0" using r(3) by simp
    then obtain p where "get_position (cd_core d) (o_account_id r) (o_exchange_id r) (o_symbol r) LONG = Some p"
      "o_frozen_position_volume r \<le> p_frozen_volume p"
      using held_position [OF ok r(1,2)] by metis
    with s show ?thesis
      by (simp add: release_cash_order_def released_def release_sell_def Let_def not_less)
  qed
qed


lemma cancelled_cash_order_frame [simp]:
  "o_order_id (cancelled_cash_order now r) = o_order_id r"
  "o_account_id (cancelled_cash_order now r) = o_account_id r"
  "o_exchange_id (cancelled_cash_order now r) = o_exchange_id r"
  "o_symbol (cancelled_cash_order now r) = o_symbol r"
  "o_instrument_type (cancelled_cash_order now r) = o_instrument_type r"
  "o_direction (cancelled_cash_order now r) = o_direction r"
  "o_frozen_cash (cancelled_cash_order now r) = 0"
  "o_frozen_commission (cancelled_cash_order now r) = 0"
  "o_frozen_position_volume (cancelled_cash_order now r) = 0"
  "o_remaining_volume (cancelled_cash_order now r) = 0"
  "o_traded_volume (cancelled_cash_order now r) = o_traded_volume r"
  "o_total_volume (cancelled_cash_order now r) = o_total_volume r"
  "o_cancelled_volume (cancelled_cash_order now r) = o_cancelled_volume r + o_remaining_volume r"
  "is_cash (cancelled_cash_order now r) = is_cash r"
  "same_holding p (cancelled_cash_order now r) = same_holding p r"
  by (simp_all add: cancelled_cash_order_def is_cash_def same_holding_def)

lemma cancelled_order_ok:
  assumes "order_row_ok r" "cash_order_ok r"
  shows "order_row_ok (cancelled_cash_order now r)" "cash_order_ok (cancelled_cash_order now r)"
  using assms
  by (auto simp: cancelled_cash_order_def order_row_ok_def cash_order_ok_def order_volume_balanced_def)

lemma released_moves:
  assumes rel: "released d now r a a1 pos" and ok: "book_ok d" "cash_ok d"
    and r: "get_order d (o_order_id r) = Some r" "is_cash r" "0 < o_remaining_volume r"
    and a: "get_account d (o_account_id r) = Some a" "a_account_type a \<in> cash_account_types"
  shows "cash_move d (cancelled_cash_order now r) a (a1\<lparr>a_updated_at := now\<rparr>) pos"
proof -
  let ?r = "cancelled_cash_order now r"
  have member: "r \<in> set (db_orders d)" using book_ok_order [OF ok(1) r(1)] by blast
  note h = held_money [OF ok(1) member a(1)]
  have c: "cash_order_ok r" "cash_account_ok a" using ok(2) r member a h by (simp_all add: cash_ok_def)
  have before: "order_before d ?r (g :: order \<Rightarrow> decimal) = g r"
    "order_before d ?r (k :: order \<Rightarrow> int) = k r" for g k
    using r(1) by (simp_all add: order_before_def)
  have a1: "a1 = a\<lparr>a_available_cash := a_available_cash a + o_frozen_cash r + o_frozen_commission r,
      a_frozen_cash := a_frozen_cash a - o_frozen_cash r,
      a_frozen_commission := a_frozen_commission a - o_frozen_commission r\<rparr>"
    using rel by (simp add: released_def)
  have account: "account_row_ok (a1\<lparr>a_updated_at := now\<rparr>)" "cash_account_ok (a1\<lparr>a_updated_at := now\<rparr>)"
    using h c(2) by (simp_all add: a1 account_row_ok_def order_row_ok_def is_money_add is_money_diff
        cash_account_ok_def liquid_def pools_def)
  have fits: "case pos of None \<Rightarrow> o_frozen_position_volume r = 0 | Some p \<Rightarrow> position_fits d ?r p"
  proof (cases "o_direction r = BUY")
    case True
    with rel c(1) show ?thesis by (auto simp: released_def cash_order_ok_def)
  next
    case False
    with rel obtain p where p: "get_position d (o_account_id r) (o_exchange_id r) (o_symbol r) LONG = Some p"
      "pos = Some (release_sell now (o_frozen_position_volume r) p)" by (auto simp: released_def)
    have v: "0 < o_frozen_position_volume r" using False c(1) r(3) by (auto simp: cash_order_ok_def)
    then have "o_frozen_position_volume r \<noteq> 0" by simp
    from held_position [OF ok member r(2) this]
    have f: "p \<in> set (db_positions d)" "same_holding p r" "p_direction p = LONG"
      "p_instrument_type p = o_instrument_type r" "position_volumes_ok p" "listing_ok d p"
      "cash_position_ok d p" "o_frozen_position_volume r \<le> p_frozen_volume p"
      using p(1) by (metis option.inject)+
    have keys: "keys_ok d" using ok(1) by (simp add: book_ok_def)
    show ?thesis
      using f v before p(2) release_sell_keeps [OF f(5), of "o_frozen_position_volume r"]
      by (auto simp: cash_position_ok_def intro!: position_fits_held [OF keys f(1)])
  qed
  show ?thesis
    using fits a(1) account before r h cancelled_order_ok [OF h(3) c(1)]
    by (auto simp: cash_move_def a1 split: option.splits)
qed

lemma cancel_cash_located_moves:
  assumes run: "cancel_cash_located d sv now ids r a = Inr (d', r')"
    and ok: "book_ok (cd_core d)" "cash_ok (cd_core d)"
    and r: "get_order (cd_core d) (o_order_id r) = Some r" "is_cash r"
    and a: "get_account (cd_core d) (o_account_id r) = Some a" "a_account_type a \<in> cash_account_types"
  shows "r' = cancelled_cash_order now r \<and> 0 < o_remaining_volume r
    \<and> o_status r \<in> {ACCEPTED, PARTIALLY_FILLED}
    \<and> (\<exists>a1 pos. released (cd_core d) now r a a1 pos
         \<and> cash_write (cd_core d) r' (a1\<lparr>a_updated_at := now\<rparr>) pos [] (cd_core d')
         \<and> cash_move (cd_core d) r' a (a1\<lparr>a_updated_at := now\<rparr>) pos
         \<and> value_frame (cd_core d) a (a1\<lparr>a_updated_at := now\<rparr>) pos)"
proof -
  let ?d = "cd_core d"
  have member: "r \<in> set (db_orders ?d)" using book_ok_order [OF ok(1) r(1)] by blast
  have active: "o_status r \<in> {ACCEPTED, PARTIALLY_FILLED}" "0 < o_remaining_volume r"
    using run by (auto simp: cancel_cash_located_def not_le split: if_splits)
  from release_cash_order_succeeds [OF ok member r(2) active(2) a(1)]
  obtain a1 pos where rel: "release_cash_order d now r a = Inr (a1, pos)" "released ?d now r a a1 pos"
    by blast
  with run active have res: "r' = cancelled_cash_order now r"
    and d': "cd_core d' = add_events (cash_cancel_events ids sv now r' (a1\<lparr>a_updated_at := now\<rparr>) pos)
        (put_order r' (put_account (a1\<lparr>a_updated_at := now\<rparr>) (put_position_option pos ?d)))"
    by (auto simp: cancel_cash_located_def Let_def on_core_def split: if_splits)
  note move = released_moves [OF rel(2) ok r active(2) a]
  have keys: "keys_ok ?d" using ok(1) by (simp add: book_ok_def)
  have orders: "replace_row o_order_id r' (db_orders ?d) = upsert o_order_id r' (db_orders ?d)"
    using member by (auto simp: res upsert_def)
  have positions: "db_positions (put_position_option pos ?d) = (case pos of None \<Rightarrow> db_positions ?d
      | Some p \<Rightarrow> upsert p_position_id p (db_positions ?d))"
  proof (cases pos)
    case (Some q)
    with rel(2) obtain p where "get_position ?d (o_account_id r) (o_exchange_id r) (o_symbol r) LONG = Some p"
      "q = release_sell now (o_frozen_position_volume r) p" by (auto simp: released_def split: if_splits)
    with Some put_held_position [of p ?d q] get_position_member show ?thesis
      by (auto simp: put_position_option_def put_position_def)
  qed (simp add: put_position_option_def)
  have "cash_write ?d r' (a1\<lparr>a_updated_at := now\<rparr>) pos [] (cd_core d')"
    using positions orders
    by (cases pos) (auto simp: cash_write_def d' add_events_def put_order_def put_account_def
        put_position_option_def put_position_def)
  moreover have "value_frame ?d a (a1\<lparr>a_updated_at := now\<rparr>) pos"
    using rel(2) position_found_by_id [OF keys]
    by (auto simp: released_def value_frame_def release_sell_def split: if_splits
        dest!: get_position_member)
  ultimately show ?thesis using rel(2) move res active by blast
qed

end
