(* ===== verification/Cash_Trading.thy ===== *)
theory Cash_Trading
  imports Cash_Order_Book Order_Creation_Book
begin

text \<open>
  Any sequence of committed operations of the cash security services, and what holds after it: the
  books are consistent, money is conserved, the shares bought today of a T+1 security stay.
\<close>

section \<open>The steps\<close>

definition command_priced :: "cash_command \<Rightarrow> bool" where
  "command_priced cmd \<longleftrightarrow> (case csr_fill_price (cw_match cmd) of None \<Rightarrow> True | Some p \<Rightarrow> 0 \<le> p)"

definition settlement_fresh :: "db \<Rightarrow> cash_settle_ids \<Rightarrow> bool" where
  "settlement_fresh d ids \<longleftrightarrow> ct_position_id ids \<notin> p_position_id ` set (db_positions d)"

inductive cash_step :: "cash_db \<Rightarrow> cash_db \<Rightarrow> bool" where
  cash_create: "create_cash_order d sv enabled day_of now ids scope q = Inr (d', r) \<Longrightarrow>
     sv \<in> cash_services \<Longrightarrow> validate_request raw = Inr q \<Longrightarrow> rq_direction q \<in> {BUY, SELL} \<Longrightarrow>
     cash_creation_fresh (cd_core d) ids \<Longrightarrow> cash_step d d'"
| cash_cancel: "cancel_cash_order d sv enabled now ids scope oid aid = Inr (d', r) \<Longrightarrow>
     sv \<in> cash_services \<Longrightarrow> cash_step d d'"
| cash_fill: "cash_settle d now ids cmd = Inr (d', res) \<Longrightarrow> command_priced cmd \<Longrightarrow>
     settlement_fresh (cd_core d) ids \<Longrightarrow> cash_step d d'"
| cash_rule: "create_rule rule d = Inr d' \<Longrightarrow> cash_step d d'"
| cash_fact: "upsert_fact daily d = Inr (d', outcome) \<Longrightarrow> cash_step d d'"

section \<open>What a step writes\<close>

text \<open>
  The book value of an account: what it paid for what it holds stays in it as cost, what a sale earns
  over the cost is realised profit, and fees are spent.
\<close>

definition spent_cash :: "account \<Rightarrow> decimal" where
  "spent_cash a = a_cash_balance a - a_realized_pnl a + a_used_commission a"

definition position_cost_before :: "db \<Rightarrow> position \<Rightarrow> decimal" where
  "position_cost_before d p = (case find_row p_position_id (p_position_id p) (db_positions d) of
     None \<Rightarrow> 0 | Some q \<Rightarrow> p_position_cost q)"

definition value_kept :: "db \<Rightarrow> account \<Rightarrow> account \<Rightarrow> position option \<Rightarrow> bool" where
  "value_kept d a a' pos \<longleftrightarrow> spent_cash a'
     + (case pos of None \<Rightarrow> 0 | Some p \<Rightarrow> p_position_cost p - position_cost_before d p) = spent_cash a"

definition today_kept :: "db \<Rightarrow> position option \<Rightarrow> bool" where
  "today_kept d pos \<longleftrightarrow> (case pos of None \<Rightarrow> True | Some p \<Rightarrow>
     p_instrument_type p = STOCK \<longrightarrow>
     (case find_row p_position_id (p_position_id p) (db_positions d) of
        None \<Rightarrow> True | Some q \<Rightarrow> p_today_volume q \<le> p_today_volume p))"

definition cash_change :: "db \<Rightarrow> order \<Rightarrow> account \<Rightarrow> account \<Rightarrow> position option \<Rightarrow> trade list \<Rightarrow> db \<Rightarrow> bool" where
  "cash_change d r a a' pos ts d' \<longleftrightarrow> cash_write d r a' pos ts d' \<and> cash_move d r a a' pos
     \<and> fresh_trades d ts \<and> a_account_type a \<in> cash_account_types
     \<and> value_kept d a a' pos \<and> today_kept d pos"

lemma value_frame_keeps: "value_frame d a a' pos \<Longrightarrow> value_kept d a a' pos \<and> today_kept d pos"
  by (cases pos) (auto simp: value_frame_def value_kept_def today_kept_def spent_cash_def
      position_cost_before_def)

lemma create_changes:
  assumes run: "create_cash_order d sv enabled day_of now ids scope q = Inr (d', r)"
    and req: "sv \<in> cash_services" "validate_request raw = Inr q" "rq_direction q \<in> {BUY, SELL}"
    and fresh: "cash_creation_fresh (cd_core d) ids"
    and ok: "book_ok (cd_core d)" "cash_ok (cd_core d)"
  shows "d' = d \<or> (\<exists>r a a' pos. cash_change (cd_core d) r a a' pos [] (cd_core d'))"
proof (cases "d' = d")
  case False
  have keys: "keys_ok (cd_core d)" using ok(1) by (simp add: book_ok_def)
  from run obtain a where sc: "scoped_account (cd_core d) scope (rq_account_id q) = Some a"
    by (auto simp: create_cash_order_def split: if_splits option.splits)
  note a = scoped_account_SomeD [OF sc keys]
  note run = run [unfolded create_cash_order_def sc option.case]
  from run obtain pn where plan: "prepare_cash_order d sv day_of q = Inr pn"
    and place: "place_cash_order d sv now ids q pn a = Inr (d', r)"
    and type: "a_account_type a \<in> cash_account_types"
    using False
    by (auto simp: rbind_Inr_iff require_stock_account_def split: if_splits option.splits)
  have price: "rq_limit_price q = Some (cq_price pn)"
    using prepare_cash_order_Inr [OF plan req(1) ok(2)] by blast
  have q: "0 < rq_volume q" "0 \<le> cq_price pn"
    using req(2) price by (auto simp: validate_request_def rbind_Inr_iff Let_def split: if_splits)
  have "get_account (cd_core d) (a_account_id a) = Some a" using a by simp
  from place_cash_order_moves [OF place plan req(1) ok this type fresh q req(3)]
  obtain a' pos where m: "cash_write (cd_core d) r a' pos [] (cd_core d')"
    "cash_move (cd_core d) r a a' pos" "value_frame (cd_core d) a a' pos" by blast
  note framed = value_frame_keeps [OF m(3)]
  with m framed type keys show ?thesis by (auto simp: cash_change_def fresh_trades_def keys_ok_def)
qed simp


lemma scoped_order_SomeD:
  assumes "scoped_order d sc oid = Some r" "keys_ok d"
  shows "get_order d (o_order_id r) = Some r"
proof -
  have member: "r \<in> set (db_orders d)"
    using assms(1)
    by (auto simp: scoped_order_def get_order_def get_order_for_user_def
        split: if_splits option.splits dest!: find_row_SomeD first_row_SomeD)
  have "distinct (map o_order_id (db_orders d))" using assms(2) by (simp add: keys_ok_def)
  from find_row_distinct [OF this member] show ?thesis by (simp add: get_order_def)
qed

lemma cancel_cash_order_Inr:
  assumes run: "cancel_cash_order d sv enabled now ids scope oid aid = Inr (d', r')" "d' \<noteq> d"
    and "sv \<in> cash_services" "book_ok (cd_core d)"
  obtains r a where "cancel_cash_located d sv now ids r a = Inr (d', r')"
    "get_order (cd_core d) (o_order_id r) = Some r" "is_cash r"
    "get_account (cd_core d) (o_account_id r) = Some a" "a_account_type a \<in> cash_account_types"
proof -
  have keys: "keys_ok (cd_core d)" using assms(4) by (simp add: book_ok_def)
  from run obtain r a where r: "scoped_order (cd_core d) scope (strip oid) = Some r"
    and a: "scoped_account (cd_core d) scope (o_account_id r) = Some a"
    and c: "cancel_cash_located d sv now ids r a = Inr (d', r')" "o_instrument_type r = sv_instrument_type sv"
      "a_account_type a \<in> cash_account_types"
    by (auto simp: cancel_cash_order_def split: if_split_asm option.split_asm)
  have "is_cash r"
    using c(2) assms(3) by (auto simp: is_cash_def service_defs cash_security_instrument_types_def)
  then show thesis
    using that c(1,3) scoped_order_SomeD [OF r keys] scoped_account_SomeD(1) [OF a keys] by blast
qed

lemma cancel_changes:
  assumes run: "cancel_cash_order d sv enabled now ids scope oid aid = Inr (d', r')"
    and "sv \<in> cash_services" and ok: "book_ok (cd_core d)" "cash_ok (cd_core d)"
  shows "d' = d \<or> (\<exists>r a a' pos. cash_change (cd_core d) r a a' pos [] (cd_core d'))"
proof (cases "d' = d")
  case False
  obtain r a where c: "cancel_cash_located d sv now ids r a = Inr (d', r')"
    and l: "get_order (cd_core d) (o_order_id r) = Some r" "is_cash r"
      "get_account (cd_core d) (o_account_id r) = Some a" "a_account_type a \<in> cash_account_types"
    by (rule cancel_cash_order_Inr [OF run False assms(2) ok(1)])
  from cancel_cash_located_moves [OF c ok l] obtain a1 pos where
    "cash_write (cd_core d) r' (a1\<lparr>a_updated_at := now\<rparr>) pos [] (cd_core d')"
    "cash_move (cd_core d) r' a (a1\<lparr>a_updated_at := now\<rparr>) pos"
    "value_frame (cd_core d) a (a1\<lparr>a_updated_at := now\<rparr>) pos" by blast
  moreover have "fresh_trades (cd_core d) []" using ok(1) by (simp add: fresh_trades_def book_ok_def keys_ok_def)
  ultimately show ?thesis using l(4) value_frame_keeps unfolding cash_change_def by blast
qed simp

text \<open>A settlement that commits a fill located the rows it writes.\<close>

lemma cash_settle_Inr:
  assumes run: "cash_settle d now ids cmd = Inr (d', res)" "d' \<noteq> d"
    and fresh: "settlement_fresh (cd_core d) ids" and book: "book_ok (cd_core d)"
  obtains price r a ins m where "csr_fill_price (cw_match cmd) = Some price"
    "0 < csr_fill_volume (cw_match cmd)" "cw_order_id cmd = o_order_id r"
    "fill_ready (cd_core d) (ct_position_id ids) (cw_market_event_id cmd) r a ins m"
    "settle_located d now ids cmd price r a ins m = Inr (d', res)"
proof -
  from run obtain price r a ins m where c: "csr_fill_price (cw_match cmd) = Some price"
    "0 < csr_fill_volume (cw_match cmd)" "get_order (cd_core d) (cw_order_id cmd) = Some r"
    "get_trade_by_order_market_event (cd_core d) (cw_order_id cmd) (cw_market_event_id cmd) = None"
    "cash_order_active r" "get_account (cd_core d) (o_account_id r) = Some a"
    "a_account_type a \<in> cash_account_types"
    "get_listed_instrument (cd_core d) (o_exchange_id r) (o_symbol r) = Some ins"
    "i_instrument_type ins = o_instrument_type r" "i_contract_multiplier ins = Some m"
    "settle_located d now ids cmd price r a ins m = Inr (d', res)"
    by (auto simp: cash_settle_def Let_def split: if_split_asm option.split_asm)
  then have id: "o_order_id r = cw_order_id cmd" using book_ok_order [OF book] by blast
  show thesis
    by (rule that [of price r a ins m]) (use c id fresh in \<open>simp_all add: fill_ready_def settlement_fresh_def\<close>)
qed

lemma get_trade_None_fresh:
  assumes "keys_ok d" "get_trade_by_order_market_event d (t_order_id t) (t_market_event_id t) = None"
  shows "fresh_trades d [t]"
  using assms
  by (auto simp: fresh_trades_def keys_ok_def get_trade_by_order_market_event_def find_None_iff)

lemma stock_settles_next_day:
  "p_instrument_type p = STOCK \<Longrightarrow> p_instrument_type p = o_instrument_type r \<Longrightarrow>
     settlement_days (o_instrument_type r) tp = Inr 1"
  by simp

lemma settle_changes:
  assumes run: "cash_settle d now ids cmd = Inr (d', res)" and priced: "command_priced cmd"
    and fresh: "settlement_fresh (cd_core d) ids" and ok: "book_ok (cd_core d)" "cash_ok (cd_core d)"
  shows "d' = d \<or> (\<exists>r a a' pos ts. cash_change (cd_core d) r a a' pos ts (cd_core d'))"
proof (cases "d' = d")
  case False
  let ?d = "cd_core d"
  have keys: "keys_ok ?d" using ok(1) by (simp add: book_ok_def)
  from cash_settle_Inr [OF run False fresh ok(1)] obtain price r a ins m where
    c: "csr_fill_price (cw_match cmd) = Some price" "0 < csr_fill_volume (cw_match cmd)"
    and ready: "fill_ready ?d (ct_position_id ids) (cw_market_event_id cmd) r a ins m"
    and located: "settle_located d now ids cmd price r a ins m = Inr (d', res)" by metis
  have "0 \<le> price" using priced c(1) by (simp add: command_priced_def)
  from settle_located_effect [OF located ok ready this c(2)] obtain v turnover commission p f t where
    v: "0 < v" and money: "is_money commission" and hand: "held ?d r ins p"
    and eff: "fill_effect v turnover commission r a p f"
    and fill: "fill_cash ins m v turnover commission r a p = Inr f"
    and t: "t_order_id t = o_order_id r" "t_market_event_id t = cw_market_event_id cmd"
    and w: "cash_write ?d (cash_filled_order now price v f) (cash_filled_account now commission f)
       (Some (cash_filled_position now f)) [t] (cd_core d')"
      "cash_move ?d (cash_filled_order now price v f) a (cash_filled_account now commission f)
       (Some (cash_filled_position now f))" by metis
  have same: "same_position p (ch_position f)" using eff by (simp add: fill_effect_def)
  have before: "position_cost_before ?d (cash_filled_position now f) = p_position_cost p"
    using hand same
    by (auto simp: held_def position_cost_before_def cash_filled_position_def same_position_def
        split: option.splits)
  have used: "is_money (a_used_commission a)"
    using order_in_hand(5) [OF ok ready] by (simp add: cash_account_ok_def)
  have "p_position_cost (ch_position f) - a_realized_pnl (ch_account f)
      = p_position_cost p - a_realized_pnl a - cash_flow r turnover
    \<and> a_cash_balance (ch_account f) = a_cash_balance a + cash_flow r turnover - commission
    \<and> a_used_commission (ch_account f) = a_used_commission a"
    using eff unfolding fill_effect_def by blast
  then have "value_kept ?d a (cash_filled_account now commission f) (Some (cash_filled_position now f))"
    using used money before
    by (simp add: value_kept_def spent_cash_def cash_filled_account_def cash_filled_position_def
        is_money_add)
  moreover have "today_kept ?d (Some (cash_filled_position now f))"
    using fill_keeps_today(1) [OF fill v] hand same
    by (auto simp: today_kept_def held_def cash_filled_position_def same_position_def split: option.splits)
  moreover have "fresh_trades ?d [t]"
    using get_trade_None_fresh [OF keys, of t] ready t by (simp add: fill_ready_def)
  moreover have "a_account_type a \<in> cash_account_types" using ready by (simp add: fill_ready_def)
  ultimately show ?thesis using w unfolding cash_change_def by blast
qed simp

lemma cash_step_changes:
  assumes "cash_step d d'" "book_ok (cd_core d)" "cash_ok (cd_core d)"
  shows "cd_core d' = cd_core d
    \<or> (\<exists>r a a' pos ts. cash_change (cd_core d) r a a' pos ts (cd_core d'))"
  using assms
proof (cases rule: cash_step.cases)
  case (cash_create sv enabled day_of now ids scope q r raw)
  from create_changes [OF this assms(2,3)] show ?thesis by auto
next
  case (cash_cancel sv enabled now ids scope oid aid r)
  from cancel_changes [OF this assms(2,3)] show ?thesis by auto
next
  case (cash_fill now ids cmd res)
  from settle_changes [OF this assms(2,3)] show ?thesis by auto
next
  case (cash_rule rule)
  then show ?thesis by (auto simp: create_rule_def split: if_splits)
next
  case (cash_fact daily outcome)
  then show ?thesis by (auto simp: upsert_fact_def split: if_splits option.splits)
qed

end
