(* ===== verification/Cash_Samples.thy ===== *)
theory Cash_Samples
  imports Cash_Trading Samples
begin

text \<open>
  A small book of cash securities for the concrete instances: an account with a buy order, a sell
  order, and a holding of one stock of which a part was bought today.
\<close>

definition sample_stock :: instrument where
  "sample_stock = sample_futures\<lparr>i_id := 2, i_order_book_id := ''600000.XSHG'', i_symbol := ''600000'',
     i_exchange_id := ''SSE'', i_market_type := ''STOCK'', i_instrument_type := STOCK,
     i_contract_multiplier := Some 1, i_min_volume := 100, i_max_volume := 1000000,
     i_round_lot := Some 100\<rparr>"

definition sample_cash_order :: "string \<Rightarrow> order_direction \<Rightarrow> decimal \<Rightarrow> decimal \<Rightarrow> int \<Rightarrow> order" where
  "sample_cash_order oid direction cash commission frozen =
     (sample_order oid direction OPEN 100 0 commission frozen)
       \<lparr>o_order_book_id := ''600000.XSHG'', o_symbol := ''600000'', o_exchange_id := ''SSE'',
        o_instrument_type := STOCK, o_offset_flag := None, o_limit_price := 10, o_frozen_cash := cash\<rparr>"

definition sample_holding :: position where
  "sample_holding = (sample_position 300 100)
     \<lparr>p_order_book_id := ''600000.XSHG'', p_exchange_id := ''SSE'', p_symbol := ''600000'',
      p_instrument_type := STOCK, p_today_volume := 100, p_yesterday_volume := 200,
      p_settlement_locked_volume := 100, p_available_volume := 100, p_position_cost := 3000,
      p_average_open_price := 10, p_used_margin := 0, p_daily_pnl_base_established := True,
      p_yesterday_pnl_base_cost := 2000, p_today_pnl_base_cost := 1000, p_daily_pnl_base_cost := 3000\<rparr>"

definition sample_snapshot :: "string \<Rightarrow> string \<Rightarrow> string \<Rightarrow> fee_snapshot" where
  "sample_snapshot oid ft scope_name =
     \<lparr>fs_order_id = oid, fs_fee_type = ft, fs_rule_item_id = 1, fs_rule_version = ''1'',
      fs_direction = BUY, fs_calculation_type = BY_AMOUNT, fs_commission_parameter = 1/1000,
      fs_minimum_fee = 5, fs_aggregation_scope = scope_name, fs_contract_multiplier = 1,
      fs_data_source = ''SAMPLE'', fs_created_at = 0\<rparr>"

definition sample_cash_core :: db where
  "sample_cash_core = sample_db
     \<lparr>db_accounts := [sample_account\<lparr>a_account_type := ''SECURITIES_CASH'', a_available_cash := 98995,
        a_frozen_cash := 1000, a_frozen_commission := 5\<rparr>],
      db_orders := [sample_cash_order ''B1'' BUY 1000 5 0, sample_cash_order ''S1'' SELL 0 0 100],
      db_instruments := [sample_stock], db_positions := [sample_holding], db_details := [],
      db_allocations := []\<rparr>"

definition sample_cash_db :: cash_db where
  "sample_cash_db =
     \<lparr>cd_core = sample_cash_core,
      cd_snapshots = [sample_snapshot ''S1'' ''COMMISSION'' ''ORDER''], cd_accumulators = [],
      cd_trade_fees = [], cd_rules = [], cd_facts = []\<rparr>"

lemmas cash_sample_defs = sample_cash_db_def sample_cash_core_def sample_holding_def
  sample_cash_order_def sample_stock_def sample_snapshot_def sample_defs

lemma sample_cash_book: "book_ok (cd_core sample_cash_db)"
  by (simp add: book_ok_def keys_ok_def cash_sample_defs order_row_ok_def order_volume_balanced_def
      order_backed_def order_closes_def account_row_ok_def account_backed_def allocation_ok_def
      position_volumes_ok_def position_backed_def of_account_def of_order_def of_position_def
      is_derivative_def cash_security_instrument_types_def)

lemma sample_cash_ok: "cash_ok (cd_core sample_cash_db)"
  by (simp add: cash_ok_def is_cash_def cash_order_ok_def same_holding_def holding_of_def listing_ok_def
      get_listed_instrument_def buckets_ok_def cash_position_ok_def cost_ok_def cash_account_ok_def
      cash_account_types_def liquid_def pools_def cash_sample_defs is_derivative_def
      cash_security_instrument_types_def)

definition sample_cash_ids :: cash_settle_ids where
  "sample_cash_ids = \<lparr>ct_trade_id = ''T1'', ct_position_id = ''P9'', ct_trade_event = ''E1'',
     ct_order_event = ''E2'', ct_position_fact = ''E3'', ct_account_fact = ''E4''\<rparr>"

definition sample_cash_command :: "string \<Rightarrow> int \<Rightarrow> cash_command" where
  "sample_cash_command oid volume =
     \<lparr>cw_order_id = oid, cw_market_event_id = ''M1'', cw_market_stream_message_id = ''S1'',
      cw_match = \<lparr>csr_matched = True, csr_fill_price = Some 11, csr_fill_volume = volume, csr_reason = None\<rparr>\<rparr>"

definition sample_cash_settle :: "string \<Rightarrow> int \<Rightarrow> (cash_db \<times> cash_settlement_result) result" where
  "sample_cash_settle oid volume = cash_settle sample_cash_db 60 sample_cash_ids (sample_cash_command oid volume)"

lemma sample_cash_fresh: "settlement_fresh (cd_core sample_cash_db) sample_cash_ids"
  by (simp add: settlement_fresh_def sample_cash_ids_def cash_sample_defs)

lemma sample_cash_priced: "command_priced (sample_cash_command oid v)"
  by (simp add: command_priced_def sample_cash_command_def)

lemmas cash_settle_defs = cash_settle_def sample_cash_command_def sample_cash_ids_def Let_def
  get_order_def get_trade_by_order_market_event_def cash_order_active_def get_account_def
  cash_account_types_def get_listed_instrument_def settle_located_def settle_fees_def
  order_snapshots_def settle_fee_def accumulator_for_def get_accumulator_def accumulate_fee_def
  new_accumulator_def at_least_minimum_def cash_position_for_update_def get_position_def
  add_trade_components_def accumulator_key_def fill_cash_def fill_sell_def fill_buy_def apply_sell_def
  apply_buy_def sold_cost_def sold_base_costs_def base_reduction_def

lemma sample_sell_fill: "\<exists>d' res. sample_cash_settle ''S1'' 50 = Inr (d', res)"
  by (simp add: sample_cash_settle_def cash_settle_defs cash_sample_defs cash_security_instrument_types_def)

lemma sample_buy_fill:
  "sample_cash_settle ''B1'' 50 = Inl (DataAccessError ''CASH_SECURITY_FEE_SNAPSHOT_MISSING'')"
  by (simp add: sample_cash_settle_def cash_settle_defs cash_sample_defs cash_security_instrument_types_def)

lemma sample_cash_run:
  obtains d' where "cash_step\<^sup>*\<^sup>* sample_cash_db d'"
    "\<exists>res. sample_cash_settle ''S1'' 50 = Inr (d', res)"
proof -
  from sample_sell_fill obtain d' res where run: "sample_cash_settle ''S1'' 50 = Inr (d', res)" by blast
  then have "cash_step sample_cash_db d'"
    unfolding sample_cash_settle_def by (rule cash_fill [OF _ sample_cash_priced sample_cash_fresh])
  with run show thesis by (intro that) auto
qed

end
