(* ===== verification/Cash_Properties.thy ===== *)
theory Cash_Properties
  imports Cash_Trading Cash_Samples
begin

text \<open>
  What the cash security services promise over any run: consistent books, conserved money, shares
  that stay for a day, refusals that never come from the books, and withdrawals that never fail.
\<close>

section \<open>One step\<close>

lemma cash_step_keeps_books:
  assumes "cash_step d d'" "book_ok (cd_core d)" "cash_ok (cd_core d)"
  shows "book_ok (cd_core d') \<and> cash_ok (cd_core d')"
  using cash_step_changes [OF assms]
proof (elim disjE exE)
  fix r a a' pos ts
  assume "cash_change (cd_core d) r a a' pos ts (cd_core d')"
  then show ?thesis using cash_step_keeps [OF _ _ assms(2,3)] unfolding cash_change_def by blast
qed (use assms in simp)

lemma cash_steps_keep_books:
  assumes "cash_step\<^sup>*\<^sup>* d d'" "book_ok (cd_core d)" "cash_ok (cd_core d)"
  shows "book_ok (cd_core d') \<and> cash_ok (cd_core d')"
  using assms by (induction rule: rtranclp_induct) (blast dest: cash_step_keeps_books)+

text \<open>The money of an account: its cash, what it paid for its holdings and for fees, less its profit.\<close>

definition cash_wealth :: "db \<Rightarrow> string \<Rightarrow> decimal" where
  "cash_wealth d aid =
     (case get_account d aid of
        None \<Rightarrow> 0
      | Some a \<Rightarrow> spent_cash a + sum_of (\<lambda>p. p_account_id p = aid) p_position_cost (db_positions d))"

lemma written_account:
  assumes "cash_change d r a a' pos ts d'"
  shows "get_account d' aid = (if aid = o_account_id r then Some a' else get_account d aid)"
    "get_account d (o_account_id r) = Some a" "a_account_id a = o_account_id r"
proof -
  have c: "cash_write d r a' pos ts d'" "cash_move d r a a' pos"
    using assms by (simp_all add: cash_change_def)
  have a: "get_account d (o_account_id r) = Some a" "a_account_id a' = a_account_id a"
    using c(2) by (simp_all add: cash_move_def)
  from a(1) show "get_account d (o_account_id r) = Some a" .
  from a(1) show id: "a_account_id a = o_account_id r"
    unfolding get_account_def by (rule find_row_SomeD [THEN conjunct2])
  have "o_account_id r \<in> a_account_id ` set (db_accounts d)"
    using find_row_SomeD [OF a(1) [unfolded get_account_def]] by (auto intro: image_eqI [rotated])
  with id a c(1) show "get_account d' aid = (if aid = o_account_id r then Some a' else get_account d aid)"
    by (auto simp: get_account_def cash_write_def find_row_replace)
qed

lemma written_costs:
  assumes "cash_change d r a a' pos ts d'" "book_ok d"
  shows "sum_of (\<lambda>p. p_account_id p = aid) p_position_cost (db_positions d')
       = sum_of (\<lambda>p. p_account_id p = aid) p_position_cost (db_positions d)
         + (if aid = o_account_id r then spent_cash a - spent_cash a' else 0)"
proof -
  have c: "cash_write d r a' pos ts d'" "cash_move d r a a' pos" "value_kept d a a' pos"
    using assms by (simp_all add: cash_change_def)
  have keys: "distinct (map p_position_id (db_positions d))"
    using assms(2) by (simp add: book_ok_def keys_ok_def)
  show ?thesis
  proof (cases pos)
    case None
    with c show ?thesis by (simp add: cash_write_def value_kept_def)
  next
    case (Some p)
    then have w: "db_positions d' = upsert p_position_id p (db_positions d)"
      and fits: "position_fits d r p" and kept: "spent_cash a' + (p_position_cost p - position_cost_before d p) = spent_cash a"
      using c by (simp_all add: cash_write_def cash_move_def value_kept_def)
    have owner: "p_account_id p = o_account_id r" "\<forall>q. find_row p_position_id (p_position_id p) (db_positions d) = Some q
        \<longrightarrow> p_account_id q = o_account_id r"
      using fits by (auto simp: position_fits_def same_holding_def same_position_def)
    show ?thesis
      unfolding w sum_of_upsert [OF keys]
      using kept owner
      by (auto simp: part_of_def position_cost_before_def split: option.splits)
  qed
qed

lemma cash_step_conserves:
  assumes "cash_step d d'" "book_ok (cd_core d)" "cash_ok (cd_core d)"
  shows "cash_wealth (cd_core d') aid = cash_wealth (cd_core d) aid"
  using cash_step_changes [OF assms]
proof (elim disjE exE)
  fix r a a' pos ts
  assume c: "cash_change (cd_core d) r a a' pos ts (cd_core d')"
  show ?thesis
    using written_account [OF c] written_costs [OF c assms(2)]
    by (auto simp: cash_wealth_def split: option.splits)
qed simp

text \<open>A stock holding keeps what was bought today.\<close>

definition holds_today :: "db \<Rightarrow> string \<Rightarrow> string \<Rightarrow> string \<Rightarrow> int \<Rightarrow> bool" where
  "holds_today d aid ex code v \<longleftrightarrow>
     (\<exists>p. get_position d aid ex code LONG = Some p \<and> p_instrument_type p = STOCK
        \<and> v \<le> p_today_volume p)"

lemma cash_change_holds_today:
  assumes c: "cash_change d r a a' pos ts d'" and "book_ok d" "book_ok d'"
    and h: "holds_today d aid ex code v"
  shows "holds_today d' aid ex code v"
proof -
  have w: "cash_write d r a' pos ts d'" "cash_move d r a a' pos" "today_kept d pos"
    using c by (simp_all add: cash_change_def)
  have keys: "keys_ok d" "keys_ok d'" using assms(2,3) by (simp_all add: book_ok_def)
  from h obtain p where got: "get_position d aid ex code LONG = Some p"
    and p: "p_instrument_type p = STOCK" "v \<le> p_today_volume p" by (auto simp: holds_today_def)
  note m = get_position_member [OF got]
  have "\<exists>q \<in> set (db_positions d'). same_position p q \<and> p_today_volume p \<le> p_today_volume q"
  proof (cases "\<exists>q. pos = Some q \<and> p_position_id q = p_position_id p")
    case True
    then obtain q where q: "pos = Some q" "p_position_id q = p_position_id p" by blast
    then have "find_row p_position_id (p_position_id q) (db_positions d) = Some p"
      using position_found_by_id [OF keys(1)] m by simp
    moreover have "position_fits d r q" using w(2) q by (simp add: cash_move_def)
    ultimately have "same_position p q" by (simp add: position_fits_def)
    moreover from this have "p_instrument_type q = STOCK" using p by (simp add: same_position_def)
    ultimately show ?thesis
      using w(1,3) q \<open>find_row _ _ _ = Some p\<close>
      by (auto simp: cash_write_def today_kept_def upsert_self)
  next
    case False
    then have "p \<in> set (db_positions d')"
      using w(1) m by (cases pos) (auto simp: cash_write_def intro: upsert_other)
    then show ?thesis by (intro bexI [of _ p]) simp_all
  qed
  then obtain q where q: "q \<in> set (db_positions d')" "same_position p q"
    "p_today_volume p \<le> p_today_volume q" by blast
  then have "get_position d' aid ex code LONG = Some q"
    using position_found [OF keys(2) q(1)] m by (simp add: same_position_def)
  with q p show ?thesis by (auto simp: holds_today_def same_position_def)
qed


lemma cash_steps_hold_today:
  assumes "cash_step\<^sup>*\<^sup>* d d'" "book_ok (cd_core d)" "cash_ok (cd_core d)"
    and "holds_today (cd_core d) aid ex code v"
  shows "holds_today (cd_core d') aid ex code v"
  using assms
proof (induction rule: rtranclp_induct)
  case (step d1 d2)
  have ok: "book_ok (cd_core d1)" "cash_ok (cd_core d1)"
    using cash_steps_keep_books [OF step.hyps(1) step.prems(1,2)] by simp_all
  have ok2: "book_ok (cd_core d2)" using cash_step_keeps_books [OF step.hyps(2) ok] by simp
  from cash_step_changes [OF step.hyps(2) ok] show ?case
  proof (elim disjE exE)
    fix r a a' pos ts
    assume "cash_change (cd_core d1) r a a' pos ts (cd_core d2)"
    from cash_change_holds_today [OF this ok(1) ok2] show ?thesis using step by blast
  qed (use step in simp)
qed

lemma cash_steps_conserve:
  assumes "cash_step\<^sup>*\<^sup>* d d'" "book_ok (cd_core d)" "cash_ok (cd_core d)"
  shows "cash_wealth (cd_core d') aid = cash_wealth (cd_core d) aid"
  using assms
proof (induction rule: rtranclp_induct)
  case (step d1 d2)
  have ok: "book_ok (cd_core d1)" "cash_ok (cd_core d1)"
    using cash_steps_keep_books [OF step.hyps(1) step.prems] by simp_all
  from cash_step_conserves [OF step.hyps(2) ok] step show ?case by simp
qed simp

section \<open>Which errors a settlement can report\<close>

definition fee_errors :: "app_error set" where
  "fee_errors = {PyValueError, DataAccessError ''CASH_SECURITY_FEE_SNAPSHOT_INVALID'',
     DataAccessError ''CASH_SECURITY_FEE_SCOPE_INVALID'',
     DataAccessError ''CASH_SECURITY_FEE_SNAPSHOT_MISSING''}"

text \<open>The errors that would mean that order, account and position contradict each other.\<close>

definition integrity_errors :: "app_error set" where
  "integrity_errors = {DataAccessError ''CASH_SECURITY_SELL_FREEZE_INCONSISTENT'',
     DataAccessError ''CASH_SECURITY_BUY_FREEZE_INCONSISTENT'',
     DataAccessError ''CASH_SECURITY_DIRECTION_INVALID'',
     t_plus_one_violation STOCK, t_plus_one_violation ETF}"

lemma settle_fee_error: "settle_fee now oid v turnover s accs = Inl e \<Longrightarrow> e \<in> fee_errors"
  by (auto simp: settle_fee_def rbind_Inl_iff cash_fee_from_snapshot_def accumulate_fee_def fee_errors_def
      Let_def split: if_split_asm option.split_asm prod.split_asm)

lemma settle_fees_loop_error:
  "settle_fees_loop now oid tid v turnover ss st = Inl e \<Longrightarrow> e \<in> fee_errors"
  by (induction ss arbitrary: st)
    (auto simp: rbind_Inl_iff split: prod.split_asm dest: settle_fee_error)

lemma settle_fees_error: "settle_fees d now oid tid price v = Inl e \<Longrightarrow> e \<in> fee_errors"
  by (auto simp: settle_fees_def rbind_Inl_iff Let_def split: if_split_asm prod.split_asm
      dest: settle_fees_loop_error) (simp add: fee_errors_def)

lemma settlement_days_error:
  "settlement_days it tp = Inl e \<Longrightarrow> e = DataAccessError ''CASH_SECURITY_POSITION_INSTRUMENT_INVALID''"
  by (cases "(it, tp)" rule: settlement_days.cases) (auto split: option.split_asm if_split_asm)

lemma fill_cash_days_error:
  assumes "fill_cash ins m v turnover commission r a p = Inl e"
    and "cash_order_ok r" "v \<le> o_remaining_volume r" "position_volumes_ok p"
    and "o_frozen_position_volume r \<le> p_frozen_volume p"
    and "o_frozen_cash r \<le> a_frozen_cash a" "o_frozen_commission r \<le> a_frozen_commission a"
    and "settlement_days (o_instrument_type r) (i_market_tplus ins) = Inl e'"
  shows "e \<in> {e', BusinessRuleError ''CASH_SECURITY_SETTLEMENT_CASH_INSUFFICIENT''}"
proof (cases "o_direction r = BUY")
  case True
  with assms(1,6-8) show ?thesis
    by (auto simp: fill_cash_def fill_buy_def apply_buy_def Let_def rbind_Inl_iff split: if_splits)
next
  case False
  with assms(2) have s: "o_direction r = SELL" "o_frozen_position_volume r = o_remaining_volume r"
    by (auto simp: cash_order_ok_def)
  with assms(3-5) have "v \<le> p_frozen_volume p" "v \<le> p_total_volume p" by (auto simp: position_volumes_ok_def)
  with assms(1,3,8) s show ?thesis
    by (simp add: fill_cash_def fill_sell_def apply_sell_def Let_def not_less)
qed

lemma settle_located_error:
  assumes run: "settle_located d now ids cmd price r a ins m = Inl e"
    and ok: "book_ok (cd_core d)" "cash_ok (cd_core d)"
    and ready: "fill_ready (cd_core d) (ct_position_id ids) (cw_market_event_id cmd) r a ins m"
  shows "e \<notin> integrity_errors"
proof -
  let ?d = "cd_core d"
  define v where "v = min (o_remaining_volume r) (csr_fill_volume (cw_match cmd))"
  note g = ready [unfolded fill_ready_def] and r = order_in_hand [OF ok ready]
  show ?thesis
  proof (cases "settle_fees d now (o_order_id r) (ct_trade_id ids) price v")
    case (Inl e')
    with run have "e \<in> fee_errors"
      using settle_fees_error [OF Inl] by (simp add: settle_located_def Let_def v_def)
    then show ?thesis by (auto simp: fee_errors_def integrity_errors_def t_plus_one_violation_def)
  next
    case (Inr fees)
    obtain d1 commission where fees: "settle_fees d now (o_order_id r) (ct_trade_id ids) price v = Inr (d1, commission)"
      using Inr by (cases fees) simp
    note core = settle_fees_core(1) [OF fees]
    obtain d2 p where hand: "cash_position_for_update ?d now (ct_position_id ids) m r = (d2, p)"
      by (rule prod.exhaust)
    have fill: "fill_cash ins m v (quantize_money (price * of_int v * m)) commission r a p = Inl e"
      using run fees hand core by (auto simp: settle_located_def Let_def v_def rbind_Inl_iff)
    have ins: "get_listed_instrument ?d (o_exchange_id r) (o_symbol r) = Some ins"
      "i_instrument_type ins = o_instrument_type r" using g by simp_all
    have h: "held ?d r ins p" using position_in_hand(1) [OF hand ok ins r(2)] g by simp
    have member: "r \<in> set (db_orders ?d)" using book_ok_order [OF ok(1)] g by blast
    have "get_account ?d (o_account_id r) = Some a" using g by blast
    note money = held_money [OF ok(1) member this]
    have "o_frozen_position_volume r \<le> p_frozen_volume p"
    proof (cases "o_frozen_position_volume r = 0")
      case True
      with h show ?thesis by (auto simp: held_def position_volumes_ok_def)
    next
      case False
      from held_position [OF ok member r(2) False] obtain q where
        "get_position ?d (o_account_id r) (o_exchange_id r) (o_symbol r) LONG = Some q"
        "o_frozen_position_volume r \<le> p_frozen_volume q" by metis
      with hand show ?thesis by (auto simp: cash_position_for_update_def)
    qed
    note c = fill r(3) _ _ this money(1,2)
    have v: "v \<le> o_remaining_volume r" "position_volumes_ok p" using h by (simp_all add: v_def held_def)
    show ?thesis
    proof (cases "settlement_days (o_instrument_type r) (i_market_tplus ins)")
      case (Inl e')
      from fill_cash_days_error [OF c Inl] v settlement_days_error [OF Inl] show ?thesis
        by (auto simp: integrity_errors_def t_plus_one_violation_def)
    next
      case (Inr days)
      with h have "buckets_ok days p" by (simp add: held_def)
      from fill_cash_error [OF c Inr this] v show ?thesis
        by (auto simp: integrity_errors_def t_plus_one_violation_def)
    qed
  qed
qed

lemma cash_settle_error:
  assumes run: "cash_settle d now ids cmd = Inl e"
    and ok: "book_ok (cd_core d)" "cash_ok (cd_core d)" and fresh: "settlement_fresh (cd_core d) ids"
  shows "e \<notin> integrity_errors"
proof (rule ccontr)
  assume bad: "\<not> e \<notin> integrity_errors"
  from run bad obtain price r a ins m where c: "get_order (cd_core d) (cw_order_id cmd) = Some r"
    "get_trade_by_order_market_event (cd_core d) (cw_order_id cmd) (cw_market_event_id cmd) = None"
    "cash_order_active r" "get_account (cd_core d) (o_account_id r) = Some a"
    "a_account_type a \<in> cash_account_types"
    "get_listed_instrument (cd_core d) (o_exchange_id r) (o_symbol r) = Some ins"
    "i_instrument_type ins = o_instrument_type r" "i_contract_multiplier ins = Some m"
    "settle_located d now ids cmd price r a ins m = Inl e"
    by (auto simp: cash_settle_def Let_def integrity_errors_def t_plus_one_violation_def
        split: if_split_asm option.split_asm)
  then have "o_order_id r = cw_order_id cmd" using book_ok_order [OF ok(1)] by blast
  with c fresh have "fill_ready (cd_core d) (ct_position_id ids) (cw_market_event_id cmd) r a ins m"
    by (simp add: fill_ready_def settlement_fresh_def)
  from settle_located_error [OF c(9) ok this] bad show False by simp
qed


section \<open>The properties\<close>

text \<open>
  C16: Any sequence of placed, withdrawn and settled orders, created rules and recorded facts of the
  cash security services keeps the tables consistent: what the orders hold of an account and of a
  position is what is frozen there, the volumes and costs of every position balance, and an account's
  available and frozen money is its cash balance.
\<close>

theorem cash_runs_keep_books:
  assumes "cash_step\<^sup>*\<^sup>* d d'" "book_ok (cd_core d)" "cash_ok (cd_core d)"
  shows "book_ok (cd_core d') \<and> cash_ok (cd_core d')"
  using assms by (rule cash_steps_keep_books)

theorem cash_runs_keep_books_witness:
  "\<exists>d' res. sample_cash_settle ''S1'' 50 = Inr (d', res) \<and> book_ok (cd_core d') \<and> cash_ok (cd_core d')"
proof (rule sample_cash_run)
  fix d'
  assume run: "cash_step\<^sup>*\<^sup>* sample_cash_db d'" and res: "\<exists>res. sample_cash_settle ''S1'' 50 = Inr (d', res)"
  from cash_runs_keep_books [OF run sample_cash_book sample_cash_ok] res show ?thesis by blast
qed

text \<open>
  C17: Money is conserved by the cash security services: for every account, its cash balance plus the
  cost of its holdings plus the fees it paid minus its realised profit never changes, whatever is
  bought, sold, placed or withdrawn.
\<close>

theorem cash_money_conserved:
  assumes "cash_step\<^sup>*\<^sup>* d d'" "book_ok (cd_core d)" "cash_ok (cd_core d)"
  shows "cash_wealth (cd_core d') aid = cash_wealth (cd_core d) aid"
  using assms by (rule cash_steps_conserve)

theorem cash_money_conserved_witness:
  "\<exists>d' res. sample_cash_settle ''S1'' 50 = Inr (d', res) \<and> cash_wealth (cd_core d') ''A1'' = 103000"
proof (rule sample_cash_run)
  fix d'
  assume run: "cash_step\<^sup>*\<^sup>* sample_cash_db d'" and res: "\<exists>res. sample_cash_settle ''S1'' 50 = Inr (d', res)"
  have "cash_wealth (cd_core sample_cash_db) ''A1'' = 103000"
    by (simp add: cash_wealth_def get_account_def spent_cash_def cash_sample_defs)
  with cash_money_conserved [OF run sample_cash_book sample_cash_ok, of "''A1''"] res show ?thesis by auto
qed

text \<open>
  C18: The T+1 rule holds over any run: the shares of a stock bought today are still held afterwards,
  however many sell orders are placed and filled.
\<close>

theorem stock_bought_today_stays:
  assumes "cash_step\<^sup>*\<^sup>* d d'" "book_ok (cd_core d)" "cash_ok (cd_core d)"
    and "get_position (cd_core d) aid ex code LONG = Some p" "p_instrument_type p = STOCK"
  shows "\<exists>p'. get_position (cd_core d') aid ex code LONG = Some p' \<and> p_today_volume p \<le> p_today_volume p'"
  using cash_steps_hold_today [OF assms(1-3), of aid ex code "p_today_volume p"] assms(4,5)
  by (auto simp: holds_today_def)

theorem stock_bought_today_stays_witness:
  "\<exists>d' res p'. sample_cash_settle ''S1'' 50 = Inr (d', res)
     \<and> get_position (cd_core d') ''A1'' ''SSE'' ''600000'' LONG = Some p' \<and> 100 \<le> p_today_volume p'"
proof (rule sample_cash_run)
  fix d'
  assume run: "cash_step\<^sup>*\<^sup>* sample_cash_db d'" and res: "\<exists>res. sample_cash_settle ''S1'' 50 = Inr (d', res)"
  have p: "get_position (cd_core sample_cash_db) ''A1'' ''SSE'' ''600000'' LONG = Some sample_holding"
    "p_instrument_type sample_holding = STOCK" "p_today_volume sample_holding = 100"
    by (simp_all add: get_position_def cash_sample_defs)
  from stock_bought_today_stays [OF run sample_cash_book sample_cash_ok p(1,2)] p(3) res
  show ?thesis by auto
qed

text \<open>
  C19: In consistent tables a settlement never fails because order, account and position contradict
  each other: the errors that report a missing freeze, a violated T+1 rule or an unknown direction are
  unreachable, for every command.
\<close>

theorem settlement_integrity_errors_unreachable:
  assumes "cash_settle d now ids cmd = Inl e" "book_ok (cd_core d)" "cash_ok (cd_core d)"
    and "settlement_fresh (cd_core d) ids"
  shows "e \<notin> integrity_errors"
  using assms by (rule cash_settle_error)

theorem settlement_integrity_errors_unreachable_witness:
  "\<exists>e. sample_cash_settle ''B1'' 50 = Inl e \<and> e \<notin> integrity_errors"
  using settlement_integrity_errors_unreachable
    [OF sample_buy_fill [unfolded sample_cash_settle_def] sample_cash_book sample_cash_ok sample_cash_fresh]
    sample_buy_fill by blast



end
