(* ===== verification/Cash_Fees.thy ===== *)
theory Cash_Fees
  imports Cash_Samples
begin

text \<open>
  What the fees of a cash security order add up to over its fills, and that the rule tables the
  orders are checked against never answer ambiguously.
\<close>

section \<open>Fees per order\<close>

text \<open>The fee of one snapshot over the fills of an order, each a volume and a turnover.\<close>

fun charge_fills ::
  "datetime \<Rightarrow> string \<Rightarrow> fee_snapshot \<Rightarrow> (int \<times> decimal) list \<Rightarrow> fee_accumulator list \<times> decimal
   \<Rightarrow> (fee_accumulator list \<times> decimal) result" where
  "charge_fills now oid s [] st = Inr st"
| "charge_fills now oid s ((v, turnover) # fills) (accs, charged) =
     rbind (settle_fee now oid v turnover s accs) (\<lambda>(accs', fee).
     charge_fills now oid s fills (accs', charged + fee))"

lemma get_accumulator_replace:
  assumes "get_accumulator accs oid ft = Some a" "accumulator_key a' = (oid, ft)"
  shows "get_accumulator (replace_row accumulator_key a' accs) oid ft = Some a'"
  using assms
  by (induction accs) (auto simp: get_accumulator_def replace_row_def accumulator_key_def)

lemma get_accumulator_append:
  "get_accumulator accs oid ft = None \<Longrightarrow> accumulator_key a = (oid, ft) \<Longrightarrow>
     get_accumulator (accs @ [a]) oid ft = Some a"
  by (induction accs) (auto simp: get_accumulator_def accumulator_key_def)

lemma get_accumulator_key: "get_accumulator accs oid ft = Some a \<Longrightarrow> accumulator_key a = (oid, ft)"
  unfolding get_accumulator_def accumulator_key_def by (auto dest: first_row_SomeD)

text \<open>The accumulator of an order says what was charged, and the next fill pays what is missing.\<close>

definition accumulated :: "fee_snapshot \<Rightarrow> fee_accumulator \<Rightarrow> bool" where
  "accumulated s a \<longleftrightarrow> is_money (fa_cumulative_turnover a)
     \<and> (\<exists>due. fee_due (fs_calculation_type s) (fs_commission_parameter s) (fa_cumulative_volume a)
                 (fa_cumulative_turnover a) = Some due
            \<and> fa_charged_fee a = at_least_minimum s due)"

lemma at_least_minimum_money [simp]: "is_money (at_least_minimum s due)"
  by (simp add: at_least_minimum_def is_money_max)

lemma accumulate_fee_Inr:
  assumes "accumulate_fee now s v turnover a = Inr (a', fee)"
    and "is_money turnover" "is_money (fa_cumulative_turnover a)" "is_money (fa_charged_fee a)"
  shows "accumulated s a'" "accumulator_key a' = accumulator_key a"
    "fa_cumulative_volume a' = fa_cumulative_volume a + v"
    "fa_cumulative_turnover a' = fa_cumulative_turnover a + turnover"
    "fa_charged_fee a' = fa_charged_fee a + fee"
  using assms
  by (auto simp: accumulate_fee_def accumulated_def Let_def accumulator_key_def is_money_add
      is_money_diff split: option.splits)

lemma settle_fee_order:
  assumes "settle_fee now oid v turnover s accs = Inr (accs', fee)"
    and "fs_aggregation_scope s = ''ORDER''" "is_money turnover"
    and "case get_accumulator accs oid (fs_fee_type s) of None \<Rightarrow> True | Some a \<Rightarrow> accumulated s a"
  obtains a' where "get_accumulator accs' oid (fs_fee_type s) = Some a'" "accumulated s a'"
    "fa_cumulative_volume a' = (case get_accumulator accs oid (fs_fee_type s) of
       None \<Rightarrow> 0 | Some a \<Rightarrow> fa_cumulative_volume a) + v"
    "fa_cumulative_turnover a' = (case get_accumulator accs oid (fs_fee_type s) of
       None \<Rightarrow> 0 | Some a \<Rightarrow> fa_cumulative_turnover a) + turnover"
    "fa_charged_fee a' = (case get_accumulator accs oid (fs_fee_type s) of
       None \<Rightarrow> 0 | Some a \<Rightarrow> fa_charged_fee a) + fee"
proof (cases "get_accumulator accs oid (fs_fee_type s)")
  case None
  let ?a = "new_accumulator now oid (fs_fee_type s)"
  have key: "accumulator_key ?a = (oid, fs_fee_type s)" by (simp add: accumulator_key_def new_accumulator_def)
  from assms(1,2) None obtain a' where acc: "accumulate_fee now s v turnover ?a = Inr (a', fee)"
    and accs': "accs' = replace_row accumulator_key a' (accs @ [?a])"
    by (auto simp: settle_fee_def accumulator_for_def rbind_Inr_iff Let_def)
  have "is_money (fa_cumulative_turnover ?a)" "is_money (fa_charged_fee ?a)" by (simp_all add: new_accumulator_def)
  note r = accumulate_fee_Inr [OF acc assms(3) this]
  from get_accumulator_replace [OF get_accumulator_append [OF None key], of a'] r(2) key
  have "get_accumulator accs' oid (fs_fee_type s) = Some a'" by (simp add: accs')
  from that [OF this r(1)] r(3-5) None show thesis by (simp add: new_accumulator_def)
next
  case (Some a)
  from assms(1,2) Some obtain a' where acc: "accumulate_fee now s v turnover a = Inr (a', fee)"
    and accs': "accs' = replace_row accumulator_key a' accs"
    by (auto simp: settle_fee_def accumulator_for_def rbind_Inr_iff)
  have "is_money (fa_cumulative_turnover a)" "is_money (fa_charged_fee a)"
    using assms(4) Some by (auto simp: accumulated_def)
  note r = accumulate_fee_Inr [OF acc assms(3) this]
  from get_accumulator_replace [OF Some, of a'] r(2) get_accumulator_key [OF Some]
  have "get_accumulator accs' oid (fs_fee_type s) = Some a'" by (simp add: accs')
  from that [OF this r(1)] r(3-5) Some show thesis by simp
qed

lemma charge_fills_from:
  assumes "charge_fills now oid s fills (accs, charged) = Inr (accs', paid)"
    and "fs_aggregation_scope s = ''ORDER''" "\<forall>f \<in> set fills. is_money (snd f)"
    and "get_accumulator accs oid (fs_fee_type s) = Some a" "accumulated s a" "charged = fa_charged_fee a"
  shows "\<exists>a'. accumulated s a' \<and> paid = fa_charged_fee a'
    \<and> fa_cumulative_volume a' = fa_cumulative_volume a + sum_list (map fst fills)
    \<and> fa_cumulative_turnover a' = fa_cumulative_turnover a + sum_list (map snd fills)"
  using assms(1,3-6)
proof (induction fills arbitrary: accs charged a)
  case (Cons f fills)
  obtain v turnover where f: "f = (v, turnover)" by (cases f)
  from Cons.prems(1) obtain accs1 fee where fee: "settle_fee now oid v turnover s accs = Inr (accs1, fee)"
    and rest: "charge_fills now oid s fills (accs1, charged + fee) = Inr (accs', paid)"
    by (auto simp: f rbind_Inr_iff)
  have money: "is_money turnover" "\<forall>f \<in> set fills. is_money (snd f)" using Cons.prems(2) by (simp_all add: f)
  have "case get_accumulator accs oid (fs_fee_type s) of None \<Rightarrow> True | Some a \<Rightarrow> accumulated s a"
    using Cons.prems(3,4) by simp
  from settle_fee_order [OF fee assms(2) money(1) this] obtain a1 where
    a1: "get_accumulator accs1 oid (fs_fee_type s) = Some a1" "accumulated s a1"
      "fa_cumulative_volume a1 = fa_cumulative_volume a + v"
      "fa_cumulative_turnover a1 = fa_cumulative_turnover a + turnover"
      "fa_charged_fee a1 = fa_charged_fee a + fee"
    using Cons.prems(3) by auto
  from Cons.IH [OF rest money(2) a1(1,2)] Cons.prems(5) a1 show ?case by (auto simp: f algebra_simps)
qed (auto intro: exI [of _ a])

lemma charge_fills_new:
  assumes "charge_fills now oid s fills (accs, 0) = Inr (accs', paid)" "fills \<noteq> []"
    and "fs_aggregation_scope s = ''ORDER''" "\<forall>f \<in> set fills. is_money (snd f)"
    and "get_accumulator accs oid (fs_fee_type s) = None"
  shows "\<exists>due. fee_due (fs_calculation_type s) (fs_commission_parameter s) (sum_list (map fst fills))
           (sum_list (map snd fills)) = Some due \<and> paid = at_least_minimum s due"
proof -
  from assms(2) obtain v turnover rest where fills: "fills = (v, turnover) # rest"
    by (metis list.exhaust prod.exhaust)
  from assms(1) obtain accs1 fee where fee: "settle_fee now oid v turnover s accs = Inr (accs1, fee)"
    and rest: "charge_fills now oid s rest (accs1, fee) = Inr (accs', paid)"
    by (auto simp: fills rbind_Inr_iff)
  have money: "is_money turnover" "\<forall>f \<in> set rest. is_money (snd f)" using assms(4) by (simp_all add: fills)
  have "case get_accumulator accs oid (fs_fee_type s) of None \<Rightarrow> True | Some a \<Rightarrow> accumulated s a"
    using assms(5) by simp
  from settle_fee_order [OF fee assms(3) money(1) this] obtain a where
    a: "get_accumulator accs1 oid (fs_fee_type s) = Some a" "accumulated s a"
      "fa_cumulative_volume a = v" "fa_cumulative_turnover a = turnover" "fa_charged_fee a = fee"
    using assms(5) by auto
  from charge_fills_from [OF rest assms(3) money(2) a(1,2)] a obtain a' where
    "accumulated s a'" "paid = fa_charged_fee a'"
    "fa_cumulative_volume a' = v + sum_list (map fst rest)"
    "fa_cumulative_turnover a' = turnover + sum_list (map snd rest)" by auto
  then show ?thesis by (auto simp: accumulated_def fills)
qed

section \<open>The fees of one trade\<close>

lemma cash_fee_from_snapshot_money: "cash_fee_from_snapshot s v turnover = Inr fee \<Longrightarrow> is_money fee"
  by (auto simp: cash_fee_from_snapshot_def split: option.splits)

lemma settle_fee_money: "settle_fee now oid v turnover s accs = Inr (accs', fee) \<Longrightarrow> is_money fee"
  by (auto simp: settle_fee_def rbind_Inr_iff accumulate_fee_def Let_def
      split: if_splits prod.splits option.splits dest: cash_fee_from_snapshot_money)

lemma settle_fees_loop_rows:
  assumes "settle_fees_loop now oid tid v turnover ss (accs, charged, rows) = Inr (accs', charged', rows')"
    and "is_money charged"
  shows "\<exists>new. rows' = rows @ new \<and> map tf_fee_type new = map fs_fee_type ss
    \<and> (\<forall>x \<in> set new. tf_trade_id x = tid)
    \<and> charged' = charged + sum_list (map tf_fee_amount new) \<and> is_money charged'"
  using assms
proof (induction ss arbitrary: accs charged rows)
  case (Cons s ss)
  from Cons.prems(1) obtain accs1 fee where fee: "settle_fee now oid v turnover s accs = Inr (accs1, fee)"
    and rest: "settle_fees_loop now oid tid v turnover ss (accs1, charged + fee,
      rows @ [\<lparr>tf_trade_id = tid, tf_fee_type = fs_fee_type s, tf_fee_amount = fee, tf_created_at = now\<rparr>])
        = Inr (accs', charged', rows')"
    by (auto simp: rbind_Inr_iff)
  have "is_money (charged + fee)" using Cons.prems(2) settle_fee_money [OF fee] by (simp add: is_money_add)
  from Cons.IH [OF rest this] show ?case
    by (elim exE conjE) (rule exI, intro conjI, rule trans, assumption, simp, auto)
qed simp


text \<open>
  C21: A fee charged per order costs the same however the order is filled: over any sequence of fills
  the amounts charged add up to the fee of the whole volume and turnover, and to the minimum fee where
  that is more, so the minimum is paid once and no rounding is lost.
\<close>

theorem order_fee_independent_of_fills:
  assumes "charge_fills now oid s fills (accs, 0) = Inr (accs', paid)" "fills \<noteq> []"
    and "fs_aggregation_scope s = ''ORDER''" "list_all (\<lambda>f. is_money (snd f)) fills"
    and "get_accumulator accs oid (fs_fee_type s) = None"
  shows "\<exists>due. fee_due (fs_calculation_type s) (fs_commission_parameter s) (sum_list (map fst fills))
           (sum_list (map snd fills)) = Some due \<and> paid = at_least_minimum s due"
  using assms(4) by (intro charge_fills_new [OF assms(1-3) _ assms(5)]) (simp add: list_all_iff)

theorem order_fee_independent_of_fills_witness:
  "\<exists>accs' paid. charge_fills 60 ''S1'' (sample_snapshot ''S1'' ''COMMISSION'' ''ORDER'')
       [(50, 550), (50, 9450)] ([], 0) = Inr (accs', paid) \<and> paid = 10"
proof -
  let ?s = "sample_snapshot ''S1'' ''COMMISSION'' ''ORDER''"
  have "\<exists>accs' paid. charge_fills 60 ''S1'' ?s [(50, 550), (50, 9450)] ([], 0) = Inr (accs', paid)"
    by (simp add: settle_fee_def accumulator_for_def get_accumulator_def new_accumulator_def
        accumulate_fee_def sample_snapshot_def Let_def at_least_minimum_def replace_row_def
        accumulator_key_def)
  then obtain accs' paid where
    run: "charge_fills 60 ''S1'' ?s [(50, 550), (50, 9450)] ([], 0) = Inr (accs', paid)" by blast
  have "paid = 10"
    using order_fee_independent_of_fills [OF run]
    by (simp add: get_accumulator_def sample_snapshot_def at_least_minimum_def)
  with run show ?thesis by blast
qed

text \<open>
  The commission of a trade is the sum of the fee components stored with it, one for each fee the
  order was accepted with.
\<close>

theorem trade_commission_is_sum_of_components:
  assumes "settle_fees d now oid tid price volume = Inr (d', commission)"
  shows "\<exists>rows. cd_trade_fees d' = cd_trade_fees d @ rows
    \<and> map tf_fee_type rows = map fs_fee_type (order_snapshots d oid)
    \<and> map tf_trade_id rows = replicate (length rows) tid
    \<and> commission = sum_list (map tf_fee_amount rows) \<and> is_money commission"
proof -
  from assms obtain accs charged rows where
    loop: "settle_fees_loop now oid tid volume (quantize_money (price * of_int volume))
      (order_snapshots d oid) (cd_accumulators d, 0, []) = Inr (accs, charged, rows)"
    and d': "cd_trade_fees d' = cd_trade_fees d @ rows" "commission = quantize_money charged"
    by (auto simp: settle_fees_def Let_def rbind_Inr_iff add_trade_components_def split: if_splits)
  from settle_fees_loop_rows [OF loop] have new: "map tf_fee_type rows = map fs_fee_type (order_snapshots d oid)"
    "\<forall>x \<in> set rows. tf_trade_id x = tid" "charged = sum_list (map tf_fee_amount rows)" "is_money charged"
    by auto
  from new(2) have "map tf_trade_id rows = replicate (length rows) tid" by (induction rows) auto
  with new d' show ?thesis by auto
qed

theorem trade_commission_is_sum_of_components_witness:
  "\<exists>d' c. settle_fees sample_cash_db 60 ''S1'' ''T1'' 11 50 = Inr (d', c)
     \<and> map tf_fee_type (cd_trade_fees d') = [''COMMISSION'']"
proof -
  have "\<exists>d' c. settle_fees sample_cash_db 60 ''S1'' ''T1'' 11 50 = Inr (d', c)"
    by (simp add: cash_settle_defs cash_sample_defs)
  then obtain d' c where run: "settle_fees sample_cash_db 60 ''S1'' ''T1'' 11 50 = Inr (d', c)" by blast
  have "cd_trade_fees sample_cash_db = []" "order_snapshots sample_cash_db ''S1''
      = [sample_snapshot ''S1'' ''COMMISSION'' ''ORDER'']"
    by (simp_all add: order_snapshots_def cash_sample_defs)
  with trade_commission_is_sum_of_components [OF run]
  have "map tf_fee_type (cd_trade_fees d') = [''COMMISSION'']" by (auto simp: sample_snapshot_def)
  with run show ?thesis by (intro exI conjI)
qed

section \<open>Rules and facts\<close>

definition rules_disjoint :: "stock_rule list \<Rightarrow> bool" where
  "rules_disjoint = sorted_wrt (\<lambda>r s. sk_instrument_id r = sk_instrument_id s \<longrightarrow> \<not> periods_overlap r s)"

lemma periods_overlap_commute: "periods_overlap r s = periods_overlap s r"
  by (auto simp: periods_overlap_def)

lemma effective_overlap:
  "rule_effective i day r \<Longrightarrow> rule_effective i day s \<Longrightarrow>
     sk_instrument_id r = sk_instrument_id s \<and> periods_overlap r s"
  by (auto simp: rule_effective_def periods_overlap_def split: option.splits)

lemma create_rule_disjoint:
  "create_rule r d = Inr d' \<Longrightarrow> rules_disjoint (cd_rules d) \<Longrightarrow> rules_disjoint (cd_rules d')"
  by (auto simp: create_rule_def rules_disjoint_def sorted_wrt_append periods_overlap_commute split: if_splits)

lemma at_most_one_effective: "rules_disjoint rs \<Longrightarrow> length (filter (rule_effective i day) rs) \<le> 1"
proof (induction rs)
  case (Cons r rs)
  have later: "\<forall>s \<in> set rs. sk_instrument_id r = sk_instrument_id s \<longrightarrow> \<not> periods_overlap r s"
    and rest: "rules_disjoint rs" using Cons.prems by (simp_all add: rules_disjoint_def)
  have "filter (rule_effective i day) rs = []" if "rule_effective i day r"
    unfolding filter_empty_conv using later effective_overlap [OF that] by blast
  with Cons.IH [OF rest] show ?case by simp
qed simp

lemma resolve_iff:
  assumes "rules_disjoint (cd_rules d)"
  shows "resolve_for_trading_day d i day = Some r \<longleftrightarrow> r \<in> set (cd_rules d) \<and> rule_effective i day r"
proof -
  have len: "length (filter (rule_effective i day) (cd_rules d)) \<le> 1"
    by (rule at_most_one_effective [OF assms])
  have iff: "r \<in> set (filter (rule_effective i day) (cd_rules d))
      \<longleftrightarrow> r \<in> set (cd_rules d) \<and> rule_effective i day r" by auto
  show ?thesis
  proof (cases "filter (rule_effective i day) (cd_rules d)")
    case Nil
    with iff show ?thesis by (auto simp: resolve_for_trading_day_def)
  next
    case (Cons x xs)
    with len have "xs = []" by simp
    with Cons iff show ?thesis by (auto simp: resolve_for_trading_day_def)
  qed
qed

text \<open>
  The trading rules created through the repository never overlap for an instrument, so on every
  day at most one is in force: the lookup for a trading day returns exactly the rule in force, and
  fails only when there is none.
\<close>

theorem trading_rule_unambiguous:
  assumes "rfold (\<lambda>d r. create_rule r d) d rules = Inr d'" "cd_rules d = []"
  shows "resolve_for_trading_day d' i day = Some r \<longleftrightarrow> r \<in> set (cd_rules d') \<and> rule_effective i day r"
proof (rule resolve_iff)
  show "rules_disjoint (cd_rules d')"
    by (rule rfold_Inr_invariant [OF assms(1)])
      (simp add: assms(2) rules_disjoint_def, rule create_rule_disjoint)
qed

definition sample_stock_rule :: "string \<Rightarrow> date \<Rightarrow> date option \<Rightarrow> stock_rule" where
  "sample_stock_rule version first end_day =
     \<lparr>sk_id = 1, sk_instrument_id = 2, sk_buy_lot_size = 100, sk_buy_volume_must_be_multiple = True,
      sk_sell_min_unit = 100, sk_sell_odd_lot_allowed = True, sk_settlement_days = 1,
      sk_price_limit_type = ''NONE'', sk_rule_version = version, sk_effective_from = first,
      sk_effective_to = end_day\<rparr>"

theorem trading_rule_unambiguous_witness:
  "\<exists>d'. rfold (\<lambda>d r. create_rule r d) sample_cash_db
       [sample_stock_rule ''1'' 10 (Some 20), sample_stock_rule ''2'' 21 None] = Inr d'
     \<and> resolve_for_trading_day d' 2 20 = Some (sample_stock_rule ''1'' 10 (Some 20))"
proof -
  let ?rules = "[sample_stock_rule ''1'' 10 (Some 20), sample_stock_rule ''2'' 21 None]"
  have "\<exists>d'. rfold (\<lambda>d r. create_rule r d) sample_cash_db ?rules = Inr d' \<and> cd_rules d' = ?rules"
    by (simp add: create_rule_def sample_stock_rule_def periods_overlap_def is_cash_instrument_def
        cash_sample_defs cash_security_instrument_types_def)
  then obtain d' where run: "rfold (\<lambda>d r. create_rule r d) sample_cash_db ?rules = Inr d'" "cd_rules d' = ?rules"
    by blast
  have "cd_rules sample_cash_db = []" by (simp add: sample_cash_db_def)
  from trading_rule_unambiguous [OF run(1) this, of 2 20 "sample_stock_rule ''1'' 10 (Some 20)"] run
  show ?thesis by (auto simp: rule_effective_def sample_stock_rule_def)
qed

lemma find_row_snoc: "find_row key k rows = None \<Longrightarrow> key r = k \<Longrightarrow> find_row key k (rows @ [r]) = Some r"
  by (induction rows) (auto split: if_splits)

lemma upsert_fact_idempotent:
  assumes "upsert_fact f d = Inr (d', outcome)" "outcome \<in> {INSERTED, UPDATED, DUPLICATE}"
  shows "upsert_fact f d' = Inr (d', DUPLICATE)"
proof -
  have cash: "is_cash_instrument d (df_instrument_id f)"
    using assms(1) by (simp add: upsert_fact_def split: if_splits)
  let ?key = "(df_instrument_id f, df_trading_day f)"
  have key: "fact_key (f\<lparr>df_created_at := t\<rparr>) = ?key" for t by (simp add: fact_key_def)
  show ?thesis
  proof (cases "get_fact d (df_instrument_id f) (df_trading_day f)")
    case None
    with assms(1) cash have d': "d' = d\<lparr>cd_facts := cd_facts d @ [f\<lparr>df_created_at := df_updated_at f\<rparr>]\<rparr>"
      by (simp add: upsert_fact_def)
    have "get_fact d' (df_instrument_id f) (df_trading_day f) = Some (f\<lparr>df_created_at := df_updated_at f\<rparr>)"
      using None by (simp add: get_fact_def d' find_row_snoc fact_key_def)
    moreover have "is_cash_instrument d' (df_instrument_id f)"
      using cash by (simp add: is_cash_instrument_def d')
    ultimately show ?thesis by (simp add: upsert_fact_def)
  next
    case (Some c)
    show ?thesis
    proof (cases "df_source_event_id c = df_source_event_id f")
      case True
      with Some assms(1) cash show ?thesis by (auto simp: upsert_fact_def)
    next
      case False
      with Some assms cash have d': "d' = d\<lparr>cd_facts := replace_row fact_key
          (f\<lparr>df_created_at := df_created_at c\<rparr>) (cd_facts d)\<rparr>"
        by (auto simp: upsert_fact_def split: if_splits)
      have "get_fact d' (df_instrument_id f) (df_trading_day f) = Some (f\<lparr>df_created_at := df_created_at c\<rparr>)"
        using find_row_replace_Some [OF Some [unfolded get_fact_def]] key by (simp add: get_fact_def d')
      moreover have "is_cash_instrument d' (df_instrument_id f)"
        using cash by (simp add: is_cash_instrument_def d')
      ultimately show ?thesis by (simp add: upsert_fact_def)
    qed
  qed
qed

end
