(* ===== verification/Settlement_Replay.thy ===== *)
theory Settlement_Replay
  imports Products Book "HOL-Library.Char_ord" "HOL-Library.List_Lexorder"
begin

text \<open>
  \<open>app/services/settlement_replay_service.py\<close>: the daily settlement rebuilds the state of a trading
  day from facts that never change, the opened details, the trades, the rows of the closing trades and
  the prices, without reading what the positions currently hold. Tables stand in the order of their
  ids, so sorting by time keeps the order of ids within a time.
\<close>

section \<open>Inputs and results\<close>

text \<open>\<open>SettlementInstrument\<close> of the daily settlement.\<close>

record settlement_instrument =
  sm_id :: int
  sm_order_book_id :: string
  sm_exchange_id :: string
  sm_symbol :: string
  sm_product_id :: string
  sm_instrument_type :: instrument_type
  sm_multiplier :: decimal
  sm_expire_date :: "date option"
  sm_last_trading_date :: "date option"
  sm_underlying_instrument_id :: "int option"
  sm_option_type :: "option_type option"
  sm_strike_price :: "decimal option"
  sm_market_tplus :: "int option"
  sm_is_tradeable :: bool

type_synonym price_table = "(string \<times> string) \<Rightarrow> decimal option"

record replay_input =
  rp_trading_day :: date
  rp_prior_settlements :: "string \<Rightarrow> decimal option"
  rp_prior_expired :: "string list"
  rp_instruments :: "string \<Rightarrow> settlement_instrument option"
  rp_instruments_by_id :: "int \<Rightarrow> settlement_instrument option"
  rp_prices :: price_table
  rp_has_prior_batch :: bool
  rp_previous_prices :: "price_table option"

record replayed_detail =
  rd_position_detail_id :: string
  rd_position_id :: string
  rd_opening_volume :: int
  rd_today_open_volume :: int
  rd_close_today_volume :: int
  rd_close_yesterday_volume :: int
  rd_ending_volume_before_expiry :: int
  rd_ending_volume :: int
  rd_previous_basis :: decimal
  rd_close_pnl :: decimal
  rd_holding_pnl :: decimal
  rd_cumulative_economic_pnl :: decimal

record replayed_position =
  rv_position_id :: string
  rv_account_id :: string
  rv_order_book_id :: string
  rv_exchange_id :: string
  rv_symbol :: string
  rv_instrument_type :: instrument_type
  rv_direction :: position_direction
  rv_multiplier :: decimal
  rv_opening_yesterday_volume :: int
  rv_today_open_volume :: int
  rv_today_close_today_volume :: int
  rv_today_close_yesterday_volume :: int
  rv_ending_volume_before_expiry :: int
  rv_ending_volume :: int
  rv_previous_basis :: "decimal option"
  rv_settlement_price :: decimal
  rv_holding_pnl :: decimal
  rv_close_pnl :: decimal
  rv_option_economic_pnl :: decimal
  rv_commission :: decimal
  rv_premium_cash_flow :: decimal
  rv_cumulative_economic_pnl :: decimal
  rv_cumulative_realized_pnl :: decimal
  rv_expiry_intrinsic_value :: decimal
  rv_expiry_cash_flow :: decimal
  rv_expiry_realized_pnl :: decimal
  rv_expired_closed :: bool
  rv_details :: "replayed_detail list"

text \<open>The trades by account: an account without trades has none.\<close>

record replay_result =
  rr_positions :: "replayed_position list"
  rr_trades_by_account :: "string \<Rightarrow> trade list"

section \<open>Signs and terminal prices\<close>

fun position_sign :: "position_direction \<Rightarrow> decimal result" where
  "position_sign LONG = Inr 1"
| "position_sign SHORT = Inr (- 1)"
| "position_sign (UnknownPositionDirection _) = Inl (DataAccessError ''REPLAY_DIRECTION_INVALID'')"

definition replay_terminal_price :: "settlement_instrument \<Rightarrow> decimal \<Rightarrow> decimal result" where
  "replay_terminal_price ins underlying_price =
     (case sm_strike_price ins of
        None \<Rightarrow> Inl PyTypeError
      | Some strike \<Rightarrow>
          (case sm_option_type ins of
             Some CALL \<Rightarrow> Inr (quantize_money (max (underlying_price - strike) 0))
           | Some PUT \<Rightarrow> Inr (quantize_money (max (strike - underlying_price) 0))
           | None \<Rightarrow> Inl (DataAccessError ''REPLAY_OPTION_TYPE_INVALID'')))"

section \<open>The facts in scope\<close>

text \<open>Details of positions that expired on an earlier day are settled for good, with all their trades.\<close>

definition expired_detail_ids :: "replay_input \<Rightarrow> detail list \<Rightarrow> string set" where
  "expired_detail_ids inp details =
     set (map d_position_detail_id (filter (\<lambda>x. d_position_id x \<in> set (rp_prior_expired inp)) details))"

definition excluded_trade_ids ::
  "string set \<Rightarrow> detail list \<Rightarrow> trade_position_allocation list \<Rightarrow> string set" where
  "excluded_trade_ids expired details allocations =
     set (map d_open_trade_id (filter (\<lambda>x. d_position_detail_id x \<in> expired) details))
     \<union> set (map tp_trade_id (filter (\<lambda>x. tp_position_detail_id x \<in> expired) allocations))"

section \<open>Consistency of the facts\<close>

definition open_trade_matches :: "detail \<Rightarrow> trade option \<Rightarrow> bool" where
  "open_trade_matches dt trade \<longleftrightarrow>
     (case trade of
        None \<Rightarrow> False
      | Some t \<Rightarrow> t_offset_flag t = Some OPEN \<and> t_trade_volume t = d_original_volume dt
          \<and> t_account_id t = d_account_id dt \<and> t_order_book_id t = d_order_book_id dt
          \<and> t_trading_day t = d_open_trading_day dt \<and> t_trade_price t = d_open_price dt)"

text \<open>Every detail has an opening trade of its own.\<close>

fun check_open_details :: "trade list \<Rightarrow> string list \<Rightarrow> detail list \<Rightarrow> unit result" where
  "check_open_details trades seen [] = Inr ()"
| "check_open_details trades seen (dt # rest) =
     (if d_open_trade_id dt \<in> set seen then Inl (DataAccessError ''REPLAY_OPEN_DETAIL_DUPLICATE'')
      else if \<not> open_trade_matches dt (find_row t_trade_id (d_open_trade_id dt) trades)
      then Inl (DataAccessError ''REPLAY_OPEN_TRADE_INCONSISTENT'')
      else check_open_details trades (d_open_trade_id dt # seen) rest)"

definition closing_rows ::
  "trade_position_allocation list \<Rightarrow> trade \<Rightarrow> trade_position_allocation list" where
  "closing_rows allocations t = filter (\<lambda>x. tp_trade_id x = t_trade_id t) allocations"

definition check_trade ::
  "detail list \<Rightarrow> trade_position_allocation list \<Rightarrow> trade \<Rightarrow> unit result" where
  "check_trade details allocations t =
     (if t_offset_flag t = Some OPEN then
        (if t_trade_id t \<in> d_open_trade_id ` set details then Inr ()
         else Inl (DataAccessError ''REPLAY_OPEN_DETAIL_MISSING''))
      else
        let rows = closing_rows allocations t
        in if (\<Sum>x \<leftarrow> rows. tp_close_volume x) \<noteq> t_trade_volume t
           then Inl (DataAccessError ''REPLAY_CLOSE_ALLOCATION_INCONSISTENT'')
           else if quantize_money (\<Sum>x \<leftarrow> rows. tp_commission x) \<noteq> quantize_money (t_commission t)
           then Inl (DataAccessError ''REPLAY_CLOSE_COMMISSION_INCONSISTENT'')
           else Inr ())"

definition check_trades ::
  "detail list \<Rightarrow> trade_position_allocation list \<Rightarrow> trade list \<Rightarrow> unit result" where
  "check_trades details allocations trades =
     rfold (\<lambda>_ t. check_trade details allocations t) () trades"

section \<open>What the trades of the day cost each position\<close>

type_synonym position_sums = "string \<Rightarrow> decimal"

definition add_for :: "string \<Rightarrow> decimal \<Rightarrow> position_sums \<Rightarrow> position_sums" where
  "add_for k x amounts = amounts(k := quantize_money (amounts k + x))"

definition target_positions ::
  "detail list \<Rightarrow> trade_position_allocation list \<Rightarrow> trade \<Rightarrow> string list" where
  "target_positions details allocations t =
     (if t_offset_flag t = Some OPEN
      then (case find_row d_open_trade_id (t_trade_id t) details of
              None \<Rightarrow> [] | Some dt \<Rightarrow> [d_position_id dt])
      else remdups (map tp_position_id (closing_rows allocations t)))"

definition attribute_trade ::
  "detail list \<Rightarrow> trade_position_allocation list \<Rightarrow> position_sums \<times> position_sums \<Rightarrow> trade
   \<Rightarrow> (position_sums \<times> position_sums) result" where
  "attribute_trade details allocations st t =
     (case (st, target_positions details allocations t) of
        ((commission, premium), [k]) \<Rightarrow>
          Inr (add_for k (t_commission t) commission, add_for k (t_premium_cash_flow t) premium)
      | _ \<Rightarrow> Inl (DataAccessError ''REPLAY_TRADE_POSITION_AMBIGUOUS''))"

definition attribute_trades ::
  "detail list \<Rightarrow> trade_position_allocation list \<Rightarrow> trade list
   \<Rightarrow> (position_sums \<times> position_sums) result" where
  "attribute_trades details allocations daily =
     rfold (attribute_trade details allocations) (\<lambda>_. 0, \<lambda>_. 0) daily"

section \<open>One detail\<close>

text \<open>What the details of a position have in common while it is replayed.\<close>

record replay_context =
  rc_position_id :: string
  rc_instrument :: settlement_instrument
  rc_multiplier :: decimal
  rc_sign :: decimal
  rc_terminal_price :: "decimal option"
  rc_expires_today :: bool

text \<open>The price that the result of the day is measured from.\<close>

definition replay_basis :: "replay_input \<Rightarrow> replay_context \<Rightarrow> detail \<Rightarrow> decimal result" where
  "replay_basis inp cx dt =
     (if d_open_trading_day dt < rp_trading_day inp then
        (case rp_previous_prices inp of
           Some previous \<Rightarrow>
             (case previous (sm_exchange_id (rc_instrument cx), sm_symbol (rc_instrument cx)) of
                None \<Rightarrow> Inl (DataAccessError ''REPLAY_PREVIOUS_LAST_TICK_MISSING'')
              | Some price \<Rightarrow> Inr price)
         | None \<Rightarrow>
             (case rp_prior_settlements inp (rc_position_id cx) of
                Some price \<Rightarrow> Inr price
              | None \<Rightarrow> if rp_has_prior_batch inp
                        then Inl (DataAccessError ''PRIOR_POSITION_SETTLEMENT_MISSING'')
                        else Inr (d_open_price dt)))
      else Inr (d_open_price dt))"

definition closed_on ::
  "(date \<Rightarrow> bool) \<Rightarrow> trade_position_allocation list \<Rightarrow> trade_position_allocation list" where
  "closed_on P rows = filter (\<lambda>x. P (tp_close_trading_day x)) rows"

definition closed_volume :: "trade_position_allocation list \<Rightarrow> int" where
  "closed_volume rows = (\<Sum>x \<leftarrow> rows. tp_close_volume x)"

definition closed_by :: "offset_flag \<Rightarrow> trade_position_allocation list \<Rightarrow> int" where
  "closed_by flag rows = closed_volume (filter (\<lambda>x. tp_resolved_offset_flag x = flag) rows)"

definition opening_volume :: "replay_input \<Rightarrow> string \<Rightarrow> trade_position_allocation list \<Rightarrow> detail \<Rightarrow> int" where
  "opening_volume inp position_id rows dt =
     (if position_id \<in> set (rp_prior_expired inp) then 0
      else if d_open_trading_day dt < rp_trading_day inp
      then d_original_volume dt - closed_volume (closed_on (\<lambda>day. day < rp_trading_day inp) rows)
      else 0)"

definition opened_today :: "replay_input \<Rightarrow> detail \<Rightarrow> int" where
  "opened_today inp dt =
     (if d_open_trading_day dt = rp_trading_day inp then d_original_volume dt else 0)"

text \<open>The volumes of a detail on the day, checked against its rows.\<close>

definition check_rows ::
  "replay_input \<Rightarrow> replay_context \<Rightarrow> trade_position_allocation list \<Rightarrow> detail \<Rightarrow> unit result" where
  "check_rows inp cx rows dt =
     (let day = rp_trading_day inp; today_rows = closed_on (\<lambda>x. x = day) rows;
          close_today = closed_by CLOSE_TODAY today_rows;
          close_yesterday = closed_by CLOSE_YESTERDAY today_rows;
          opening = opening_volume inp (rc_position_id cx) rows dt;
          ending = opening + opened_today inp dt - close_today - close_yesterday
      in if \<exists>x \<in> set rows. tp_position_id x \<noteq> rc_position_id cx
              \<or> tp_open_trading_day x \<noteq> d_open_trading_day dt \<or> tp_open_price x \<noteq> d_open_price dt
         then Inl (DataAccessError ''REPLAY_ALLOCATION_DETAIL_INCONSISTENT'')
         else if closed_volume (closed_on (\<lambda>x. day < x) rows) \<noteq> 0
         then Inl (DataAccessError ''REPLAY_FUTURE_ALLOCATION_EXISTS'')
         else if close_today + close_yesterday \<noteq> closed_volume today_rows
         then Inl (DataAccessError ''REPLAY_CLOSE_OFFSET_INVALID'')
         else if close_today \<noteq> 0 \<and> d_open_trading_day dt \<noteq> day
         then Inl (DataAccessError ''REPLAY_CLOSE_TODAY_INVALID'')
         else if close_yesterday \<noteq> 0 \<and> day \<le> d_open_trading_day dt
         then Inl (DataAccessError ''REPLAY_CLOSE_YESTERDAY_INVALID'')
         else if opening < 0 \<or> ending < 0
         then Inl (DataAccessError ''REPLAY_POSITION_VOLUME_NEGATIVE'')
         else if (case sm_expire_date (rc_instrument cx) of None \<Rightarrow> False | Some e \<Rightarrow> e < day) \<and> 0 < ending
         then Inl (DataAccessError ''HISTORICAL_EXPIRED_POSITION_ACTIVE'')
         else if 0 < ending \<and> rc_terminal_price cx = None
         then Inl (DataAccessError ''REPLAY_SETTLEMENT_PRICE_MISSING'')
         else Inr ())"

definition terminal_price_of :: "replay_context \<Rightarrow> decimal" where
  "terminal_price_of cx = (case rc_terminal_price cx of None \<Rightarrow> 0 | Some p \<Rightarrow> p)"

text \<open>The price is only used when a volume is left, and then it is there.\<close>

definition held_result :: "replay_context \<Rightarrow> decimal \<Rightarrow> int \<Rightarrow> decimal" where
  "held_result cx base ending =
     quantize_money (if 0 < ending
       then (terminal_price_of cx - base) * rc_multiplier cx * of_int ending * rc_sign cx else 0)"

definition closed_result ::
  "replay_context \<Rightarrow> decimal \<Rightarrow> trade_position_allocation list \<Rightarrow> decimal" where
  "closed_result cx base today_rows =
     quantize_money (\<Sum>x \<leftarrow> today_rows.
       (tp_close_price x - base) * rc_multiplier cx * of_int (tp_close_volume x) * rc_sign cx)"

definition replay_detail ::
  "replay_input \<Rightarrow> replay_context \<Rightarrow> trade_position_allocation list \<Rightarrow> detail
   \<Rightarrow> replayed_detail result" where
  "replay_detail inp cx allocations dt =
     (let rows = filter (\<lambda>x. tp_position_detail_id x = d_position_detail_id dt) allocations;
          today_rows = closed_on (\<lambda>day. day = rp_trading_day inp) rows;
          opening = opening_volume inp (rc_position_id cx) rows dt;
          opened = opened_today inp dt;
          close_today = closed_by CLOSE_TODAY today_rows;
          close_yesterday = closed_by CLOSE_YESTERDAY today_rows;
          ending = opening + opened - close_today - close_yesterday
      in rbind (check_rows inp cx rows dt) (\<lambda>_.
         rbind (replay_basis inp cx dt) (\<lambda>basis.
         Inr \<lparr>rd_position_detail_id = d_position_detail_id dt, rd_position_id = rc_position_id cx,
              rd_opening_volume = opening, rd_today_open_volume = opened,
              rd_close_today_volume = close_today, rd_close_yesterday_volume = close_yesterday,
              rd_ending_volume_before_expiry = ending,
              rd_ending_volume = (if rc_expires_today cx then 0 else ending),
              rd_previous_basis = quantize_money basis,
              rd_close_pnl = closed_result cx basis today_rows,
              rd_holding_pnl = held_result cx basis ending,
              rd_cumulative_economic_pnl =
                held_result cx (d_open_price dt) (if rc_expires_today cx then 0 else ending)\<rparr>)))"


section \<open>One position\<close>

definition same_lot :: "detail \<Rightarrow> detail \<Rightarrow> bool" where
  "same_lot first dt \<longleftrightarrow> d_account_id dt = d_account_id first
     \<and> d_order_book_id dt = d_order_book_id first \<and> d_direction dt = d_direction first
     \<and> d_multiplier_snapshot dt = d_multiplier_snapshot first"

definition expires_on :: "product_strategy \<Rightarrow> settlement_instrument \<Rightarrow> date \<Rightarrow> bool" where
  "expires_on strategy ins day \<longleftrightarrow> family strategy = OPTIONS_FAMILY \<and> sm_expire_date ins = Some day"

text \<open>An option that expires today ends at its intrinsic value over the price of its underlying.\<close>

definition expiry_price :: "replay_input \<Rightarrow> settlement_instrument \<Rightarrow> decimal result" where
  "expiry_price inp ins =
     (case rp_instruments_by_id inp (case sm_underlying_instrument_id ins of
          None \<Rightarrow> - 1 | Some i \<Rightarrow> if i = 0 then - 1 else i) of
        None \<Rightarrow> Inl (DataAccessError ''REPLAY_UNDERLYING_MISSING'')
      | Some underlying \<Rightarrow>
          (case rp_prices inp (sm_exchange_id underlying, sm_symbol underlying) of
             None \<Rightarrow> Inl (DataAccessError ''REPLAY_UNDERLYING_PRICE_MISSING'')
           | Some price \<Rightarrow> replay_terminal_price ins price))"

text \<open>The context of a position, and its settlement price.\<close>

definition open_context ::
  "product_registry \<Rightarrow> replay_input \<Rightarrow> string \<Rightarrow> detail list \<Rightarrow> detail
   \<Rightarrow> (replay_context \<times> decimal option \<times> bool) result" where
  "open_context reg inp position_id details first =
     (if \<exists>x \<in> set details. \<not> same_lot first x
      then Inl (DataAccessError ''REPLAY_DETAIL_IDENTITY_INCONSISTENT'')
      else case rp_instruments inp (d_order_book_id first) of
        None \<Rightarrow> Inl (DataAccessError ''REPLAY_INSTRUMENT_MISSING'')
      | Some ins \<Rightarrow>
        if d_multiplier_snapshot first \<le> 0
        then Inl (DataAccessError ''REPLAY_MULTIPLIER_INVALID'')
        else
          rbind (position_sign (d_direction first)) (\<lambda>sign.
          let settlement_price = rp_prices inp (sm_exchange_id ins, sm_symbol ins)
          in rbind (product_resolve reg (sm_instrument_type ins)) (\<lambda>strategy.
             if family strategy = FUTURES_FAMILY \<and> sm_instrument_type ins \<noteq> FUTURES
             then Inl (DataAccessError ''PRODUCT_DAILY_SETTLEMENT_NOT_IMPLEMENTED'')
             else
               let expires = expires_on strategy ins (rp_trading_day inp)
               in rbind (if expires then rbind (expiry_price inp ins) (\<lambda>p. Inr (Some p))
                         else Inr settlement_price) (\<lambda>terminal.
                  Inr (\<lparr>rc_position_id = position_id, rc_instrument = ins,
                        rc_multiplier = d_multiplier_snapshot first, rc_sign = sign,
                        rc_terminal_price = terminal, rc_expires_today = expires\<rparr>,
                       settlement_price, family strategy = OPTIONS_FAMILY)))))"

definition summed :: "(replayed_detail \<Rightarrow> int) \<Rightarrow> replayed_detail list \<Rightarrow> int" where
  "summed f xs = (\<Sum>x \<leftarrow> xs. f x)"

text \<open>Money is added up one detail after the other and rounded each time.\<close>

definition added :: "('a \<Rightarrow> decimal) \<Rightarrow> 'a list \<Rightarrow> decimal" where
  "added f xs = foldl (\<lambda>acc x. quantize_money (acc + f x)) 0 xs"

definition realized_of :: "trade_position_allocation list \<Rightarrow> detail \<Rightarrow> decimal" where
  "realized_of allocations dt =
     (\<Sum>x \<leftarrow> filter (\<lambda>x. tp_position_detail_id x = d_position_detail_id dt) allocations. tp_realized_pnl x)"

definition close_position ::
  "replay_context \<Rightarrow> trade_position_allocation list \<Rightarrow> position_sums \<times> position_sums \<Rightarrow> bool
   \<Rightarrow> detail \<Rightarrow> decimal \<Rightarrow> detail list \<Rightarrow> replayed_detail list \<Rightarrow> replayed_position" where
  "close_position cx allocations costs options first settlement_price details results =
     (let opening = summed rd_opening_volume results;
          ending = summed rd_ending_volume_before_expiry results;
          holding = added rd_holding_pnl results; close = added rd_close_pnl results;
          intrinsic = (if rc_expires_today cx then terminal_price_of cx else 0);
          expired_closed = rc_expires_today cx \<and> 0 < ending;
          expiry_cash = (if expired_closed
            then quantize_money (intrinsic * rc_multiplier cx * of_int ending * rc_sign cx) else 0);
          expiry_realized = (if expired_closed
            then quantize_money (\<Sum>(dt, x) \<leftarrow> zip details results.
              (intrinsic - d_open_price dt) * rc_multiplier cx
              * of_int (rd_ending_volume_before_expiry x) * rc_sign cx) else 0)
      in \<lparr>rv_position_id = rc_position_id cx, rv_account_id = d_account_id first,
          rv_order_book_id = d_order_book_id first, rv_exchange_id = d_exchange_id first,
          rv_symbol = d_symbol first, rv_instrument_type = sm_instrument_type (rc_instrument cx),
          rv_direction = d_direction first, rv_multiplier = rc_multiplier cx,
          rv_opening_yesterday_volume = opening,
          rv_today_open_volume = summed rd_today_open_volume results,
          rv_today_close_today_volume = summed rd_close_today_volume results,
          rv_today_close_yesterday_volume = summed rd_close_yesterday_volume results,
          rv_ending_volume_before_expiry = ending,
          rv_ending_volume = (if expired_closed then 0 else ending),
          rv_previous_basis = (if 0 < opening
            then Some (quantize_money ((\<Sum>x \<leftarrow> results.
              rd_previous_basis x * of_int (rd_opening_volume x)) / of_int opening)) else None),
          rv_settlement_price = settlement_price, rv_holding_pnl = holding, rv_close_pnl = close,
          rv_option_economic_pnl = (if options then quantize_money (holding + close) else 0),
          rv_commission = fst costs (rc_position_id cx),
          rv_premium_cash_flow = snd costs (rc_position_id cx),
          rv_cumulative_economic_pnl =
            (if expired_closed then 0 else added rd_cumulative_economic_pnl results),
          rv_cumulative_realized_pnl =
            quantize_money (added (realized_of allocations) details + expiry_realized),
          rv_expiry_intrinsic_value = intrinsic, rv_expiry_cash_flow = expiry_cash,
          rv_expiry_realized_pnl = expiry_realized, rv_expired_closed = expired_closed,
          rv_details = results\<rparr>)"

text \<open>None for a position on which nothing happened and nothing was held.\<close>

definition replay_position ::
  "product_registry \<Rightarrow> replay_input \<Rightarrow> trade_position_allocation list
   \<Rightarrow> position_sums \<times> position_sums \<Rightarrow> detail list \<Rightarrow> string \<Rightarrow> replayed_position option result" where
  "replay_position reg inp allocations costs all_details position_id =
     (let details = filter (\<lambda>x. d_position_id x = position_id) all_details; first = hd details
      in rbind (open_context reg inp position_id details first) (\<lambda>(cx, settlement_price, options).
         let ordered = sort_key d_id details
         in rbind (rmap (replay_detail inp cx allocations) ordered) (\<lambda>results.
            let opening = summed rd_opening_volume results;
                opened = summed rd_today_open_volume results;
                closed = summed rd_close_today_volume results + summed rd_close_yesterday_volume results
            in if opening + opened - closed \<noteq> summed rd_ending_volume_before_expiry results
               then Inl (DataAccessError ''REPLAY_POSITION_CONSERVATION_FAILED'')
               else if opening = 0 \<and> opened = 0 \<and> closed = 0 then Inr None
               else case settlement_price of
                 None \<Rightarrow> Inl (DataAccessError ''REPLAY_AUDIT_PRICE_MISSING'')
               | Some price \<Rightarrow>
                   Inr (Some (close_position cx allocations costs options first price ordered results)))))"

section \<open>\<open>replay\<close>\<close>

definition daily_trades :: "replay_input \<Rightarrow> trade list \<Rightarrow> trade list" where
  "daily_trades inp trades = filter (\<lambda>t. t_trading_day t = rp_trading_day inp) trades"

definition replay_positions ::
  "product_registry \<Rightarrow> replay_input \<Rightarrow> trade_position_allocation list
   \<Rightarrow> position_sums \<times> position_sums \<Rightarrow> detail list \<Rightarrow> replayed_position list result" where
  "replay_positions reg inp allocations costs details =
     rbind (rmap (replay_position reg inp allocations costs details)
              (sort (remdups (map d_position_id details)))) (\<lambda>found.
     Inr (List.map_filter id found))"

definition replay_scoped ::
  "product_registry \<Rightarrow> replay_input \<Rightarrow> detail list \<Rightarrow> trade list \<Rightarrow> trade_position_allocation list
   \<Rightarrow> replay_result result" where
  "replay_scoped reg inp details trades allocations =
     (if \<not> distinct (map t_trade_id trades) then Inl (DataAccessError ''REPLAY_TRADE_DUPLICATE'')
      else
        rbind (check_open_details trades [] details) (\<lambda>_.
        rbind (check_trades details allocations trades) (\<lambda>_.
        rbind (attribute_trades details allocations (daily_trades inp trades)) (\<lambda>costs.
        rbind (replay_positions reg inp allocations costs details) (\<lambda>positions.
        Inr \<lparr>rr_positions = positions,
             rr_trades_by_account = (\<lambda>a. sort_key t_trade_time
               (filter (\<lambda>t. t_account_id t = a) (daily_trades inp trades)))\<rparr>)))))"

definition replay ::
  "product_registry \<Rightarrow> replay_input \<Rightarrow> detail list \<Rightarrow> trade list \<Rightarrow> trade_position_allocation list
   \<Rightarrow> replay_result result" where
  "replay reg inp details trades allocations =
     (let expired = expired_detail_ids inp details;
          excluded = excluded_trade_ids expired details allocations
      in replay_scoped reg inp (filter (\<lambda>x. d_position_detail_id x \<notin> expired) details)
           (filter (\<lambda>t. t_trade_id t \<notin> excluded) trades)
           (filter (\<lambda>x. tp_position_detail_id x \<notin> expired) allocations))"

end
