(* ===== verification/Settlement_Inputs.thy ===== *)
theory Settlement_Inputs
  imports Settlement_Replay
begin

text \<open>
  What the daily settlement (\<open>app/services/daily_settlement_service.py\<close>) reads of the tables through a
  trading day (\<open>app/repositories/daily_settlement_repository.py\<close>) and hands to the replay: facts of
  details that were closed before the day are left out, they belong to earlier settlements.
\<close>

section \<open>The facts through a day\<close>

definition lock_position_details_through_day :: "db \<Rightarrow> date \<Rightarrow> detail list" where
  "lock_position_details_through_day d day = filter (\<lambda>x. d_open_trading_day x \<le> day) (db_details d)"

definition list_trades_through_day :: "db \<Rightarrow> date \<Rightarrow> trade list" where
  "list_trades_through_day d day = sort_key t_trade_time (filter (\<lambda>t. t_trading_day t \<le> day) (db_trades d))"

definition list_trade_allocations_through_day :: "db \<Rightarrow> date \<Rightarrow> trade_position_allocation list" where
  "list_trade_allocations_through_day d day = filter (\<lambda>x. tp_close_trading_day x \<le> day) (db_trade_allocations d)"

section \<open>\<open>_select_derivative_replay_inputs\<close>\<close>

definition in_replay_scope :: "date \<Rightarrow> trade_position_allocation list \<Rightarrow> detail \<Rightarrow> bool" where
  "in_replay_scope day allocations dt \<longleftrightarrow>
     (let rows = filter (\<lambda>x. tp_position_detail_id x = d_position_detail_id dt) allocations
      in closed_volume (closed_on (\<lambda>x. x \<le> day) rows) < d_original_volume dt
         \<or> d_open_trading_day dt = day \<or> closed_on (\<lambda>x. x = day) rows \<noteq> [])"

definition select_derivative_replay_inputs ::
  "detail list \<Rightarrow> trade list \<Rightarrow> trade_position_allocation list \<Rightarrow> string list \<Rightarrow> date
   \<Rightarrow> detail list \<times> trade list \<times> trade_position_allocation list" where
  "select_derivative_replay_inputs details trades allocations position_ids day =
     (let derivative_details = filter (\<lambda>x. d_position_id x \<in> set position_ids) details;
          scoped = set (map d_position_detail_id (filter (in_replay_scope day allocations) derivative_details));
          replay_details = filter (\<lambda>x. d_position_detail_id x \<in> scoped) derivative_details;
          replay_allocations = filter (\<lambda>x. tp_position_detail_id x \<in> scoped) allocations;
          required = d_open_trade_id ` set replay_details \<union> tp_trade_id ` set replay_allocations
      in (replay_details,
          filter (\<lambda>t. t_instrument_type t \<notin> cash_security_instrument_types
                    \<and> (t_trade_id t \<in> required \<or> t_trading_day t = day)) trades,
          replay_allocations))"

section \<open>The replay of the derivative positions\<close>

definition stale_expired :: "string list \<Rightarrow> position \<Rightarrow> bool" where
  "stale_expired expired p \<longleftrightarrow> p_instrument_type p \<notin> cash_security_instrument_types
     \<and> p_position_id p \<in> set expired \<and> p_total_volume p \<noteq> 0"

definition derivative_position_ids :: "db \<Rightarrow> string list" where
  "derivative_position_ids d = map p_position_id
     (filter (\<lambda>p. p_instrument_type p \<notin> cash_security_instrument_types) (db_positions d))"

definition replay_derivatives :: "product_registry \<Rightarrow> replay_input \<Rightarrow> db \<Rightarrow> replay_result result" where
  "replay_derivatives reg inp d =
     (let day = rp_trading_day inp;
          (details, trades, allocations) = select_derivative_replay_inputs
            (lock_position_details_through_day d day) (list_trades_through_day d day)
            (list_trade_allocations_through_day d day) (derivative_position_ids d) day
      in if list_ex (stale_expired (rp_prior_expired inp)) (db_positions d)
         then Inl (DataAccessError ''HISTORICAL_EXPIRED_POSITION_ACTIVE'')
         else replay reg inp details trades allocations)"

text \<open>The volume of a position in the result, 0 when nothing of it is reported.\<close>

definition replayed_volume :: "replay_result \<Rightarrow> string \<Rightarrow> int" where
  "replayed_volume res k =
     (case find_row rv_position_id k (rr_positions res) of
        None \<Rightarrow> 0 | Some q \<Rightarrow> rv_ending_volume_before_expiry q)"

end
