(* ===== verification/Sums.thy ===== *)
theory Sums
  imports Book
begin

text \<open>
  Sums over tables when rows are written back or left out, and pointwise related lists: what the
  settlement and margin proofs share.
\<close>

lemma sum_of_scope:
  "(\<And>x. x \<in> set xs \<Longrightarrow> P x \<Longrightarrow> \<not> Q x \<Longrightarrow> f x = 0) \<Longrightarrow>
     sum_of P f (filter Q xs) = sum_of P f xs"
  by (induction xs) auto

text \<open>Rows written back one after the other.\<close>

lemma sum_of_put:
  assumes "distinct (map key rows)" "distinct (map key olds)"
    "list_all2 (\<lambda>x y. x \<in> set rows \<and> key y = key x \<and> P y = P x) olds news"
  shows "sum_of P f (fold (replace_row key) news rows)
    = sum_of P f rows + (\<Sum>(x, y) \<leftarrow> zip olds news. if P x then f y - f x else 0)"
  using assms
proof (induction olds arbitrary: news rows)
  case (Cons x olds)
  then obtain y ys where news: "news = y # ys" and xy: "x \<in> set rows" "key y = key x" "P y = P x"
    and rest: "list_all2 (\<lambda>x y. x \<in> set rows \<and> key y = key x \<and> P y = P x) olds ys"
    by (auto simp: list_all2_Cons1)
  have keys: "map key (replace_row key y rows) = map key rows" by simp
  have "list_all2 (\<lambda>x z. x \<in> set (replace_row key y rows) \<and> key z = key x \<and> P z = P x) olds ys"
    using rest by (rule list.rel_mono_strong)
      (use Cons.prems(2) xy(2) in \<open>auto simp: replace_row_def intro: image_eqI [rotated]\<close>)
  with Cons.IH [of "replace_row key y rows" ys] Cons.prems(1,2)
  have "sum_of P f (fold (replace_row key) ys (replace_row key y rows))
    = sum_of P f (replace_row key y rows) + (\<Sum>(x, y) \<leftarrow> zip olds ys. if P x then f y - f x else 0)"
    unfolding keys by simp
  moreover have "find_row key (key y) rows = Some x"
    using find_row_distinct [OF Cons.prems(1) xy(1)] xy(2) by simp
  from sum_of_replace [OF Cons.prems(1) this xy(3)]
  have "sum_of P f (replace_row key y rows) = sum_of P f rows + (if P x then f y - f x else 0)" .
  ultimately show ?case by (simp add: news)
qed simp


lemma set_fold_replace: "x \<in> set (fold (replace_row key) news rows) \<Longrightarrow> x \<in> set rows \<or> x \<in> set news"
proof (induction news arbitrary: rows)
  case (Cons y news)
  from Cons.IH [of "replace_row key y rows"] Cons.prems set_replace_row [of key y rows] show ?case by auto
qed simp

section \<open>Pointwise related lists\<close>

lemma list_all2_left: "list_all2 R xs ys \<Longrightarrow> x \<in> set xs \<Longrightarrow> \<exists>y \<in> set ys. R x y"
  by (induction rule: list_all2_induct) auto

lemma list_all2_right: "list_all2 R xs ys \<Longrightarrow> y \<in> set ys \<Longrightarrow> \<exists>x \<in> set xs. R x y"
  by (induction rule: list_all2_induct) auto

lemma list_all2_map2:
  "length zs = length xs \<Longrightarrow> (\<And>z x. x \<in> set xs \<Longrightarrow> R x (f z x)) \<Longrightarrow> list_all2 R xs (map2 f zs xs)"
  by (induction zs xs rule: list_induct2) auto

lemma sum_zip_map2:
  "length zs = length xs \<Longrightarrow> (\<And>x. x \<in> set xs \<Longrightarrow> P x) \<Longrightarrow> (\<And>z x. f (u z x) = z) \<Longrightarrow>
     (\<Sum>(x, y) \<leftarrow> zip xs (map2 u zs xs). if P x then f y - f x else 0)
       = sum_list zs - (\<Sum>x \<leftarrow> xs. f x :: decimal)"
  by (induction zs xs rule: list_induct2) auto

lemma sum_zip_false:
  "(\<And>x. x \<in> set xs \<Longrightarrow> \<not> P x) \<Longrightarrow> (\<Sum>(x, y) \<leftarrow> zip xs ys. if P x then f y - f x else 0) = (0 :: decimal)"
  by (induction xs ys rule: list_induct2') auto


end
