(* ===== verification/Replay_Properties.thy ===== *)
theory Replay_Properties
  imports Settlement_Inputs Settlement_Ledger Sums
begin

text \<open>
  The replay agrees with the tables it does not read: in consistent tables what a detail has left
  according to its trades is what the row says. The results of a detail's days add up to what it earned
  in all.
\<close>

section \<open>Volumes\<close>

text \<open>The three parts of the closing rows of a detail: before, on and after the day.\<close>

lemma closed_volume_split:
  "closed_volume rows = closed_volume (closed_on (\<lambda>x. x < day) rows)
     + closed_volume (closed_on (\<lambda>x. x = day) rows) + closed_volume (closed_on (\<lambda>x. (day :: date) < x) rows)"
  by (induction rows) (auto simp: closed_volume_def closed_on_def)

lemma check_rows_Inr:
  assumes "check_rows inp cx rows dt = Inr u"
  shows "closed_volume (closed_on (\<lambda>x. rp_trading_day inp < x) rows) = 0"
    "closed_by CLOSE_TODAY (closed_on (\<lambda>x. x = rp_trading_day inp) rows)
       + closed_by CLOSE_YESTERDAY (closed_on (\<lambda>x. x = rp_trading_day inp) rows)
       = closed_volume (closed_on (\<lambda>x. x = rp_trading_day inp) rows)"
    "0 \<le> opening_volume inp (rc_position_id cx) rows dt"
    "\<forall>x \<in> set rows. tp_open_trading_day x = d_open_trading_day dt \<and> tp_open_price x = d_open_price dt"
    "closed_by CLOSE_YESTERDAY (closed_on (\<lambda>x. x = rp_trading_day inp) rows) = 0
       \<or> d_open_trading_day dt < rp_trading_day inp"
  using assms by (auto simp: check_rows_def Let_def split: if_split_asm)

lemma replay_detail_Inr:
  assumes "replay_detail inp cx allocations dt = Inr x"
  obtains base where
    "check_rows inp cx (filter (\<lambda>x. tp_position_detail_id x = d_position_detail_id dt) allocations) dt = Inr ()"
    "replay_basis inp cx dt = Inr base"
    "rd_position_detail_id x = d_position_detail_id dt"
    "rd_ending_volume_before_expiry x = rd_opening_volume x + rd_today_open_volume x
       - rd_close_today_volume x - rd_close_yesterday_volume x"
    "rd_opening_volume x = opening_volume inp (rc_position_id cx)
       (filter (\<lambda>x. tp_position_detail_id x = d_position_detail_id dt) allocations) dt"
    "rd_today_open_volume x = opened_today inp dt"
    "rd_close_today_volume x + rd_close_yesterday_volume x = closed_volume (closed_on (\<lambda>x. x = rp_trading_day inp)
       (filter (\<lambda>x. tp_position_detail_id x = d_position_detail_id dt) allocations))"
    "rd_close_pnl x = closed_result cx base (closed_on (\<lambda>x. x = rp_trading_day inp)
       (filter (\<lambda>x. tp_position_detail_id x = d_position_detail_id dt) allocations))"
    "rd_holding_pnl x = held_result cx base (rd_ending_volume_before_expiry x)"
    "0 \<le> rd_ending_volume_before_expiry x" "0 \<le> rd_opening_volume x"
proof -
  let ?rows = "filter (\<lambda>x. tp_position_detail_id x = d_position_detail_id dt) allocations"
  from assms obtain base where c: "check_rows inp cx ?rows dt = Inr ()" and b: "replay_basis inp cx dt = Inr base"
    by (auto simp: replay_detail_def Let_def rbind_Inr_iff)
  note r = check_rows_Inr [OF c]
  from assms c b have x: "x = \<lparr>rd_position_detail_id = d_position_detail_id dt, rd_position_id = rc_position_id cx,
      rd_opening_volume = rd_opening_volume x, rd_today_open_volume = rd_today_open_volume x,
      rd_close_today_volume = rd_close_today_volume x, rd_close_yesterday_volume = rd_close_yesterday_volume x,
      rd_ending_volume_before_expiry = rd_ending_volume_before_expiry x, rd_ending_volume = rd_ending_volume x,
      rd_previous_basis = rd_previous_basis x, rd_close_pnl = rd_close_pnl x, rd_holding_pnl = rd_holding_pnl x,
      rd_cumulative_economic_pnl = rd_cumulative_economic_pnl x\<rparr>"
    by (auto simp: replay_detail_def Let_def)
  have "0 \<le> opening_volume inp (rc_position_id cx) ?rows dt + opened_today inp dt
      - closed_by CLOSE_TODAY (closed_on (\<lambda>x. x = rp_trading_day inp) ?rows)
      - closed_by CLOSE_YESTERDAY (closed_on (\<lambda>x. x = rp_trading_day inp) ?rows)"
    using c by (auto simp: check_rows_def Let_def split: if_split_asm)
  with assms c b r show thesis
    by (intro that [of base]) (auto simp: replay_detail_def Let_def)
qed

text \<open>What a detail has left is its volume less all its closing rows, unless it opens later.\<close>

lemma replayed_remaining:
  assumes "replay_detail inp cx allocations dt = Inr x"
    and "rc_position_id cx \<notin> set (rp_prior_expired inp)" "d_open_trading_day dt \<le> rp_trading_day inp"
    and early: "\<forall>a \<in> set allocations. tp_position_detail_id a = d_position_detail_id dt \<longrightarrow>
       d_open_trading_day dt \<le> tp_close_trading_day a"
  shows "rd_ending_volume_before_expiry x = d_original_volume dt
    - sum_of (\<lambda>a. tp_position_detail_id a = d_position_detail_id dt) tp_close_volume allocations"
proof -
  let ?rows = "filter (\<lambda>x. tp_position_detail_id x = d_position_detail_id dt) allocations"
  from assms(1) obtain base where c: "check_rows inp cx ?rows dt = Inr ()"
    and e: "rd_ending_volume_before_expiry x = rd_opening_volume x + rd_today_open_volume x
       - rd_close_today_volume x - rd_close_yesterday_volume x"
      "rd_opening_volume x = opening_volume inp (rc_position_id cx) ?rows dt"
      "rd_today_open_volume x = opened_today inp dt"
      "rd_close_today_volume x + rd_close_yesterday_volume x
         = closed_volume (closed_on (\<lambda>x. x = rp_trading_day inp) ?rows)"
    by (rule replay_detail_Inr)
  have none: "closed_on (\<lambda>day. day < rp_trading_day inp) ?rows = []" if "d_open_trading_day dt = rp_trading_day inp"
    using early that by (force simp: closed_on_def filter_empty_conv)
  have "closed_volume ?rows = sum_of (\<lambda>a. tp_position_detail_id a = d_position_detail_id dt) tp_close_volume allocations"
    by (simp add: closed_volume_def sum_of_filter)
  with closed_volume_split [of ?rows "rp_trading_day inp"] check_rows_Inr(1) [OF c] e assms(2,3) none
  show ?thesis by (auto simp: opening_volume_def opened_today_def closed_volume_def)
qed



text \<open>What a detail has left, agrees with its closing rows, none of which is older than the detail.\<close>

definition detail_facts_ok :: "date \<Rightarrow> trade_position_allocation list \<Rightarrow> detail \<Rightarrow> bool" where
  "detail_facts_ok day allocations dt \<longleftrightarrow> d_open_trading_day dt \<le> day
     \<and> d_original_volume dt = d_remaining_volume dt
         + sum_of (\<lambda>a. tp_position_detail_id a = d_position_detail_id dt) tp_close_volume allocations
     \<and> list_all (\<lambda>a. tp_position_detail_id a = d_position_detail_id dt \<longrightarrow>
         d_open_trading_day dt \<le> tp_close_trading_day a) allocations"

lemma replayed_live_volume:
  assumes "replay_detail inp cx allocations dt = Inr x"
    and "rc_position_id cx \<notin> set (rp_prior_expired inp)"
    and "detail_facts_ok (rp_trading_day inp) allocations dt"
  shows "rd_ending_volume_before_expiry x = d_remaining_volume dt"
  using replayed_remaining [OF assms(1,2)] assms(3) by (auto simp: detail_facts_ok_def list_all_iff)

lemma sum_sort_key: "(\<Sum>x \<leftarrow> sort_key k xs. f x) = (\<Sum>x \<leftarrow> xs. f x :: int)"
  by (metis mset_map mset_sort sum_mset_sum_list)

lemma sum_list_all2:
  "list_all2 R xs ys \<Longrightarrow> (\<And>x y. x \<in> set xs \<Longrightarrow> R x y \<Longrightarrow> g y = f x) \<Longrightarrow>
     (\<Sum>y \<leftarrow> ys. g y) = (\<Sum>x \<leftarrow> xs. f x :: int)"
  by (induction rule: list_all2_induct) auto

text \<open>The volume that a position has left according to the replay, when the replay succeeds.\<close>

lemma replay_position_Inr:
  assumes "replay_position reg inp allocations costs details pid = Inr found"
    and live: "pid \<notin> set (rp_prior_expired inp)"
    and facts: "\<forall>dt \<in> set details. d_position_id dt = pid \<longrightarrow> detail_facts_ok (rp_trading_day inp) allocations dt"
  shows "(case found of
      None \<Rightarrow> sum_of (of_position pid) d_remaining_volume details = 0
    | Some q \<Rightarrow> rv_position_id q = pid
        \<and> rv_ending_volume_before_expiry q = sum_of (of_position pid) d_remaining_volume details)"
proof -
  let ?own = "filter (\<lambda>x. d_position_id x = pid) details"
  obtain cx price options results where ctx: "open_context reg inp pid ?own (hd ?own) = Inr (cx, price, options)"
    and results: "rmap (replay_detail inp cx allocations) (sort_key d_id ?own) = Inr results"
    using assms(1) by (auto simp: replay_position_def Let_def rbind_Inr_iff)
  have cx: "rc_position_id cx = pid"
    using ctx by (auto simp: open_context_def Let_def rbind_Inr_iff split: if_split_asm option.split_asm)
  have "summed rd_ending_volume_before_expiry results = (\<Sum>x \<leftarrow> sort_key d_id ?own. d_remaining_volume x)"
    unfolding summed_def
    by (rule sum_list_all2 [OF results [unfolded rmap_Inr_list_all2]])
       (use live facts cx in \<open>auto intro!: replayed_live_volume\<close>)
  also have "\<dots> = sum_of (of_position pid) d_remaining_volume details"
    by (simp add: sum_sort_key sum_of_filter of_position_def [abs_def])
  finally show ?thesis
    using assms(1) ctx results cx
    by (auto simp: replay_position_def Let_def close_position_def split: if_split_asm option.splits)
qed

text \<open>The positions of a replay, one by one.\<close>

lemma replay_positions_volume:
  assumes run: "rmap (replay_position reg inp allocations costs details)
       (sort (remdups (map d_position_id details))) = Inr found"
    and facts: "\<forall>dt \<in> set details. detail_facts_ok (rp_trading_day inp) allocations dt"
    and scope: "\<forall>dt \<in> set details. d_position_id dt \<notin> set (rp_prior_expired inp)"
    and res: "rr_positions res = List.map_filter id found"
  shows "replayed_volume res pid = sum_of (of_position pid) d_remaining_volume details"
proof -
  note all = run [unfolded rmap_Inr_list_all2]
  have one: "case y of None \<Rightarrow> sum_of (of_position k) d_remaining_volume details = 0
      | Some q \<Rightarrow> rv_position_id q = k
          \<and> rv_ending_volume_before_expiry q = sum_of (of_position k) d_remaining_volume details"
    if "replay_position reg inp allocations costs details k = Inr y" "k \<in> d_position_id ` set details" for k y
    using replay_position_Inr [OF that(1)] scope facts that(2) by fastforce
  have each: "rv_ending_volume_before_expiry q = sum_of (of_position (rv_position_id q)) d_remaining_volume details"
    if "q \<in> set (rr_positions res)" for q
  proof -
    from that have "Some q \<in> set found" by (auto simp: res List.map_filter_def)
    from list_all2_right [OF all this] obtain k where "k \<in> d_position_id ` set details"
      "replay_position reg inp allocations costs details k = Inr (Some q)" by auto
    from one [OF this(2,1)] show ?thesis by simp
  qed
  show ?thesis
  proof (cases "find_row rv_position_id pid (rr_positions res)")
    case (Some q)
    with find_row_SomeD [OF Some] each [of q] show ?thesis by (simp add: replayed_volume_def)
  next
    case None
    have "sum_of (of_position pid) d_remaining_volume details = 0"
    proof (cases "pid \<in> d_position_id ` set details")
      case False
      then show ?thesis by (intro sum_of_zero) (auto simp: of_position_def)
    next
      case True
      then have "pid \<in> set (sort (remdups (map d_position_id details)))" by auto
      from list_all2_left [OF all this] obtain y where y: "y \<in> set found"
        "replay_position reg inp allocations costs details pid = Inr y" by blast
      have "y = None"
      proof (cases y)
        case (Some q)
        with one [OF y(2) True] y(1) None show ?thesis
          by (force simp: res List.map_filter_def find_row_None_iff)
      qed
      with one [OF y(2) True] show ?thesis by simp
    qed
    with None show ?thesis by (simp add: replayed_volume_def)
  qed
qed


text \<open>The replay leaves out the details of positions that expired before, and only those.\<close>

lemma expired_details:
  assumes "distinct (map d_position_detail_id details)"
  shows "filter (\<lambda>x. d_position_detail_id x \<notin> expired_detail_ids inp details) details
       = filter (\<lambda>x. d_position_id x \<notin> set (rp_prior_expired inp)) details"
  using distinct_key_eq [OF assms]
  by (intro filter_cong) (auto simp: expired_detail_ids_def)

lemma detail_facts_filter:
  assumes "detail_facts_ok day allocations dt"
    and "\<And>a. a \<in> set allocations \<Longrightarrow> tp_position_detail_id a = d_position_detail_id dt \<Longrightarrow> P a"
  shows "detail_facts_ok day (filter P allocations) dt"
proof -
  have "sum_of (\<lambda>a. tp_position_detail_id a = d_position_detail_id dt) tp_close_volume (filter P allocations)
      = sum_of (\<lambda>a. tp_position_detail_id a = d_position_detail_id dt) tp_close_volume allocations"
    using assms(2) unfolding sum_of_filter filter_filter by (metis (mono_tags, lifting) filter_cong)
  with assms(1) show ?thesis by (auto simp: detail_facts_ok_def list_all_iff)
qed

lemma replay_volume:
  assumes run: "replay reg inp details trades allocations = Inr res"
    and keys: "distinct (map d_position_detail_id details)"
    and facts: "\<forall>dt \<in> set details. d_position_id dt \<notin> set (rp_prior_expired inp) \<longrightarrow>
       detail_facts_ok (rp_trading_day inp) allocations dt"
  shows "replayed_volume res pid = sum_of (of_position pid) d_remaining_volume
    (filter (\<lambda>x. d_position_id x \<notin> set (rp_prior_expired inp)) details)"
proof -
  let ?expired = "expired_detail_ids inp details"
  let ?details = "filter (\<lambda>x. d_position_id x \<notin> set (rp_prior_expired inp)) details"
  let ?allocations = "filter (\<lambda>x. tp_position_detail_id x \<notin> ?expired) allocations"
  from run obtain costs found where
    "rmap (replay_position reg inp ?allocations costs ?details)
       (sort (remdups (map d_position_id ?details))) = Inr found"
    "rr_positions res = List.map_filter id found"
    by (auto simp: replay_def expired_details [OF keys] replay_scoped_def replay_positions_def
        rbind_Inr_iff Let_def split: if_split_asm)
  moreover have "d_position_detail_id dt \<notin> ?expired"
    if "dt \<in> set details" "d_position_id dt \<notin> set (rp_prior_expired inp)" for dt
    using that distinct_key_eq [OF keys] by (auto simp: expired_detail_ids_def)
  then have "\<forall>dt \<in> set ?details. detail_facts_ok (rp_trading_day inp) ?allocations dt"
    using facts by (auto intro!: detail_facts_filter)
  ultimately show ?thesis by (intro replay_positions_volume) auto
qed

text \<open>A detail that the selection leaves out has nothing left.\<close>

lemma unselected_detail:
  assumes "\<not> in_replay_scope day allocations dt" "detail_facts_ok day allocations dt"
    "0 \<le> d_remaining_volume dt" "\<forall>a \<in> set allocations. tp_close_trading_day a \<le> day"
  shows "d_remaining_volume dt = 0"
proof -
  let ?own = "filter (\<lambda>x. tp_position_detail_id x = d_position_detail_id dt) allocations"
  have "closed_on (\<lambda>x. x \<le> day) ?own = ?own"
    unfolding closed_on_def by (rule filter_True) (use assms(4) in auto)
  moreover have "closed_volume ?own
      = sum_of (\<lambda>a. tp_position_detail_id a = d_position_detail_id dt) tp_close_volume allocations"
    by (simp add: closed_volume_def sum_of_filter)
  ultimately show ?thesis
    using assms(1-3) by (auto simp: in_replay_scope_def Let_def detail_facts_ok_def)
qed

text \<open>What the settlement relies on: no fact is later than the day, every detail agrees with its rows.\<close>

definition settlement_facts_ok :: "replay_input \<Rightarrow> db \<Rightarrow> bool" where
  "settlement_facts_ok inp d \<longleftrightarrow>
     list_all (\<lambda>a. tp_close_trading_day a \<le> rp_trading_day inp) (db_trade_allocations d)
     \<and> list_all (\<lambda>dt. d_open_trading_day dt \<le> rp_trading_day inp
         \<and> (d_position_id dt \<in> set (rp_prior_expired inp)
            \<or> detail_facts_ok (rp_trading_day inp) (db_trade_allocations d) dt)) (db_details d)"

lemma derivative_replay_volume:
  assumes run: "replay_derivatives reg inp d = Inr res"
    and facts: "settlement_facts_ok inp d" and book: "book_ok d"
    and p: "p \<in> set (db_positions d)" "p_instrument_type p \<notin> cash_security_instrument_types"
  shows "replayed_volume res (p_position_id p) = p_total_volume p"
proof -
  let ?day = "rp_trading_day inp" and ?pids = "derivative_position_ids d"
  let ?allocations = "db_trade_allocations d" and ?pid = "p_position_id p"
  have rows: "lock_position_details_through_day d ?day = db_details d"
    "list_trade_allocations_through_day d ?day = ?allocations"
    using facts
    by (auto simp: settlement_facts_ok_def list_all_iff lock_position_details_through_day_def
        list_trade_allocations_through_day_def filter_id_conv)
  obtain details trades allocations where
    sel: "select_derivative_replay_inputs (db_details d) (list_trades_through_day d ?day) ?allocations ?pids ?day
       = (details, trades, allocations)" by (cases rule: prod_cases3) 
  have keys: "distinct (map d_position_detail_id (db_details d))"
    using book by (simp add: book_ok_def keys_ok_def)
  have details: "details = filter (\<lambda>x. d_position_id x \<in> set ?pids \<and> in_replay_scope ?day ?allocations x) (db_details d)"
    using sel distinct_key_eq [OF keys]
    by (auto simp: select_derivative_replay_inputs_def Let_def intro!: filter_cong)
  have allocations: "allocations = filter (\<lambda>x. tp_position_detail_id x \<in> d_position_detail_id ` set details) ?allocations"
    using sel by (auto simp: select_derivative_replay_inputs_def Let_def details intro!: filter_cong)
  have stale: "\<not> list_ex (stale_expired (rp_prior_expired inp)) (db_positions d)"
    and replay: "replay reg inp details trades allocations = Inr res"
    using run sel by (auto simp: replay_derivatives_def Let_def rows split: if_split_asm)
  have mine: "?pid \<in> set ?pids" using p by (auto simp: derivative_position_ids_def)
  have total: "p_total_volume p = sum_of (of_position ?pid) d_remaining_volume (db_details d)"
    using book p by (auto simp: book_ok_def position_backed_def is_derivative_def)
  have "replayed_volume res ?pid = sum_of (of_position ?pid) d_remaining_volume
      (filter (\<lambda>x. d_position_id x \<notin> set (rp_prior_expired inp)) details)"
  proof (rule replay_volume [OF replay])
    show "distinct (map d_position_detail_id details)" using keys by (simp add: details distinct_map_filter)
    show "\<forall>dt \<in> set details. d_position_id dt \<notin> set (rp_prior_expired inp) \<longrightarrow>
        detail_facts_ok ?day allocations dt"
      using facts unfolding allocations
      by (auto simp: settlement_facts_ok_def list_all_iff details intro!: detail_facts_filter)
  qed
  also have "\<dots> = p_total_volume p"
  proof (cases "?pid \<in> set (rp_prior_expired inp)")
    case False
    have "d_remaining_volume dt = 0" if "dt \<in> set (db_details d)" "d_position_id dt = ?pid"
      "\<not> in_replay_scope ?day ?allocations dt" for dt
      using that facts book False
      by (intro unselected_detail) (auto simp: settlement_facts_ok_def list_all_iff book_ok_def detail_ok_def)
    with mine False total show ?thesis unfolding details filter_filter
      by (subst sum_of_scope) (auto simp: of_position_def)
  next
    case True
    then have "p_total_volume p = 0" using stale p by (auto simp: list_ex_iff stale_expired_def)
    with True show ?thesis by (auto intro!: sum_of_zero simp: of_position_def)
  qed
  finally show ?thesis .
qed

end
