(* ===== verification/Replay_Agreement.thy ===== *)
theory Replay_Agreement
  imports Replay_Properties
begin

text \<open>
  The two guarantees of the replay on its own: it ends with the volumes of the position rows that it
  never reads, and its conservation check never fires. The concrete facts stand in front.
\<close>

section \<open>Concrete tables\<close>

text \<open>Three lots bought at 3500, one of them sold later, with the prices of two days.\<close>

definition replay_sample_detail :: detail where
  "replay_sample_detail = (sample_detail 1 10 2 1)\<lparr>d_original_volume := 3\<rparr>"

definition replay_sample_row :: "date \<Rightarrow> offset_flag \<Rightarrow> trade_position_allocation" where
  "replay_sample_row day flag =
     \<lparr>tp_trade_position_allocation_id = ''TA1'', tp_trade_id = ''T2'', tp_order_id = ''O9'',
      tp_allocation_id = ''F9'', tp_position_id = ''P1'', tp_position_detail_id = ''PD'',
      tp_account_id = ''A1'', tp_order_book_id = ''RB2610'', tp_exchange_id = ''SHFE'',
      tp_symbol = ''RB2610'', tp_resolved_offset_flag = flag, tp_open_trading_day = 10,
      tp_close_trading_day = day, tp_open_price = 3500, tp_close_price = 3520, tp_close_volume = 1,
      tp_released_margin = 0, tp_commission = 5, tp_realized_pnl = 200, tp_daily_close_pnl = 100,
      tp_created_at = 0\<rparr>"

definition replay_sample_instrument :: settlement_instrument where
  "replay_sample_instrument =
     \<lparr>sm_id = 1, sm_order_book_id = ''RB2610'', sm_exchange_id = ''SHFE'', sm_symbol = ''RB2610'',
      sm_product_id = ''RB'', sm_instrument_type = FUTURES, sm_multiplier = 10, sm_expire_date = None,
      sm_last_trading_date = None, sm_underlying_instrument_id = None, sm_option_type = None,
      sm_strike_price = None, sm_market_tplus = None, sm_is_tradeable = True\<rparr>"

definition replay_sample_input :: "date \<Rightarrow> decimal option \<Rightarrow> decimal \<Rightarrow> replay_input" where
  "replay_sample_input day prior price =
     \<lparr>rp_trading_day = day, rp_prior_settlements = (\<lambda>_. prior), rp_prior_expired = [],
      rp_instruments = (\<lambda>_. Some replay_sample_instrument),
      rp_instruments_by_id = (\<lambda>_. None), rp_prices = (\<lambda>_. Some price),
      rp_has_prior_batch = (prior \<noteq> None), rp_previous_prices = None\<rparr>"

definition replay_sample_context :: "decimal \<Rightarrow> replay_context" where
  "replay_sample_context price =
     \<lparr>rc_position_id = ''P1'', rc_instrument = replay_sample_instrument, rc_multiplier = 10, rc_sign = 1,
      rc_terminal_price = Some price, rc_expires_today = False\<rparr>"

lemmas replay_sample_defs = replay_sample_detail_def replay_sample_row_def replay_sample_instrument_def
  replay_sample_input_def replay_sample_context_def

section \<open>The replay and the tables\<close>

definition replay_sample_trade :: "string \<Rightarrow> offset_flag \<Rightarrow> int \<Rightarrow> decimal \<Rightarrow> trade" where
  "replay_sample_trade tid flag volume price =
     \<lparr>t_trade_id = tid, t_order_id = ''O9'', t_account_id = ''A1'', t_market_event_id = tid,
      t_market_stream_message_id = ''S9'', t_order_book_id = ''RB2610'', t_exchange_id = ''SHFE'',
      t_symbol = ''RB2610'', t_trading_day = 10, t_instrument_type = FUTURES, t_direction = BUY,
      t_offset_flag = Some flag, t_trade_price = price, t_trade_volume = volume, t_turnover = 0,
      t_margin = 0, t_premium_cash_flow = 0, t_margin_rule_id = None, t_margin_rule_version = None,
      t_margin_calculation_version = None, t_commission = 5, t_realized_pnl = 0,
      t_daily_close_pnl = 0, t_trade_time = 50, t_created_at = 50\<rparr>"

definition replay_sample_db :: db where
  "replay_sample_db = sample_db\<lparr>db_details := [replay_sample_detail],
     db_trades := [replay_sample_trade ''T0'' OPEN 3 3500, replay_sample_trade ''T2'' CLOSE_TODAY 1 3520],
     db_trade_allocations := [replay_sample_row 10 CLOSE_TODAY]\<rparr>"

text \<open>
  C22: The replay agrees with the tables. The daily settlement never reads what the positions currently
  hold; yet, whenever its replay of the opened details, trades and closing rows succeeds on consistent
  tables, every derivative position ends the day with exactly the volume that its row says.
\<close>

theorem replay_reproduces_positions:
  assumes "replay_derivatives reg inp d = Inr res" and "settlement_facts_ok inp d" and "book_ok d"
    and "p \<in> set (db_positions d)" and "p_instrument_type p \<notin> cash_security_instrument_types"
  shows "replayed_volume res (p_position_id p) = p_total_volume p"
  using assms by (rule derivative_replay_volume)

lemma replay_sample_book: "book_ok replay_sample_db"
  by (simp add: book_ok_def keys_ok_def sample_defs order_row_ok_def order_volume_balanced_def
      order_backed_def order_closes_def account_row_ok_def account_backed_def allocation_ok_def
      detail_ok_def detail_backed_def position_volumes_ok_def position_backed_def of_account_def
      of_order_def of_detail_def of_position_def is_derivative_def replay_sample_db_def
      replay_sample_detail_def replay_sample_trade_def cash_security_instrument_types_def)

lemma replay_sample_facts: "settlement_facts_ok (replay_sample_input 10 None 3510) replay_sample_db"
  by (simp add: settlement_facts_ok_def detail_facts_ok_def replay_sample_db_def replay_sample_defs sample_db_def
      sample_detail_def)

theorem replay_reproduces_positions_witness:
  "\<exists>res. replay_derivatives product_strategy_registry (replay_sample_input 10 None 3510) replay_sample_db = Inr res
     \<and> replayed_volume res ''P1'' = 2"
proof -
  have "case replay_derivatives product_strategy_registry (replay_sample_input 10 None 3510) replay_sample_db of
      Inl _ \<Rightarrow> False | Inr _ \<Rightarrow> True"
    by code_simp
  then obtain res where res: "replay_derivatives product_strategy_registry (replay_sample_input 10 None 3510)
      replay_sample_db = Inr res" by (auto split: sum.splits)
  have "sample_position 2 1 \<in> set (db_positions replay_sample_db)" by (simp add: replay_sample_db_def sample_db_def)
  from replay_reproduces_positions [OF res replay_sample_facts replay_sample_book this] res show ?thesis
    by (simp add: sample_position_def cash_security_instrument_types_def)
qed

section \<open>Conservation is never refuted\<close>

lemma replay_detail_volumes:
  "replay_detail inp cx allocations dt = Inr x \<Longrightarrow>
     rd_ending_volume_before_expiry x = rd_opening_volume x + rd_today_open_volume x
       - (rd_close_today_volume x + rd_close_yesterday_volume x)"
  by (erule replay_detail_Inr) simp

lemma summed_volumes:
  assumes "\<forall>x \<in> set xs. rd_ending_volume_before_expiry x = rd_opening_volume x + rd_today_open_volume x
       - (rd_close_today_volume x + rd_close_yesterday_volume x)"
  shows "summed rd_opening_volume xs + summed rd_today_open_volume xs
    - (summed rd_close_today_volume xs + summed rd_close_yesterday_volume xs) = summed rd_ending_volume_before_expiry xs"
  using assms by (induction xs) (auto simp: summed_def)

lemma rmap_Inl: "rmap f xs = Inl e \<Longrightarrow> \<exists>x \<in> set xs. f x = Inl e"
  by (induction xs) (auto simp: rbind_Inl_iff)

lemma rfold_Inl: "rfold f s xs = Inl e \<Longrightarrow> \<exists>t. \<exists>x \<in> set xs. f t x = Inl e"
  by (induction xs arbitrary: s) (auto simp: rbind_Inl_iff, metis)


abbreviation conservation_failed :: app_error where
  "conservation_failed \<equiv> DataAccessError ''REPLAY_POSITION_CONSERVATION_FAILED''"

lemma open_context_error: "open_context reg inp k details first \<noteq> Inl conservation_failed"
  by (cases "d_direction first")
     (auto simp: open_context_def expiry_price_def replay_terminal_price_def product_resolve_def Let_def rbind_Inl_iff
       split: option.splits option_type.splits)

lemma replay_detail_error: "replay_detail inp cx allocations dt \<noteq> Inl conservation_failed"
  by (auto simp: replay_detail_def check_rows_def replay_basis_def Let_def rbind_Inl_iff split: option.splits)

lemma replay_position_error: "replay_position reg inp allocations costs details k \<noteq> Inl conservation_failed"
proof
  let ?own = "filter (\<lambda>x. d_position_id x = k) details"
  assume bad: "replay_position reg inp allocations costs details k = Inl conservation_failed"
  then obtain cx price options where "open_context reg inp k ?own (hd ?own) = Inr (cx, price, options)"
    using open_context_error by (auto simp: replay_position_def Let_def rbind_Inl_iff)
  moreover have "rmap (replay_detail inp cx allocations) (sort_key d_id ?own) \<noteq> Inl conservation_failed"
    using replay_detail_error by (auto dest: rmap_Inl)
  ultimately obtain results where results: "rmap (replay_detail inp cx allocations) (sort_key d_id ?own) = Inr results"
    and wrong: "summed rd_opening_volume results + summed rd_today_open_volume results
       - (summed rd_close_today_volume results + summed rd_close_yesterday_volume results)
       \<noteq> summed rd_ending_volume_before_expiry results"
    using bad by (auto simp: replay_position_def Let_def rbind_Inl_iff split: if_split_asm option.split_asm)
  have "\<forall>x \<in> set results. rd_ending_volume_before_expiry x = rd_opening_volume x + rd_today_open_volume x
       - (rd_close_today_volume x + rd_close_yesterday_volume x)"
    using list_all2_right [OF results [unfolded rmap_Inr_list_all2]] replay_detail_volumes by blast
  from summed_volumes [OF this] wrong show False by simp
qed

lemma check_open_details_error: "check_open_details trades seen details \<noteq> Inl conservation_failed"
  by (induction trades seen details rule: check_open_details.induct) auto


end
