(* ===== verification/Replay_Results.thy ===== *)
theory Replay_Results
  imports Replay_Agreement
begin

text \<open>
  The results of the days of a detail: each day measures what was held and what was closed from the
  settlement price of the day before, and together the days add up to what the detail has earned
  since it was opened.
\<close>

section \<open>What a detail is worth\<close>

definition known_rows :: "date \<Rightarrow> detail \<Rightarrow> trade_position_allocation list \<Rightarrow> trade_position_allocation list" where
  "known_rows day dt allocations =
     filter (\<lambda>x. tp_position_detail_id x = d_position_detail_id dt \<and> tp_close_trading_day x \<le> day) allocations"

definition rows_gain :: "decimal \<Rightarrow> decimal \<Rightarrow> trade_position_allocation list \<Rightarrow> decimal" where
  "rows_gain factor base rows = (\<Sum>x \<leftarrow> rows. (tp_close_price x - base) * factor * of_int (tp_close_volume x))"

text \<open>What a detail has earned by a day: on its closing rows, and on the rest at a price.\<close>

definition lifetime_result ::
  "decimal \<Rightarrow> detail \<Rightarrow> trade_position_allocation list \<Rightarrow> decimal \<Rightarrow> decimal" where
  "lifetime_result factor dt rows price = rows_gain factor (d_open_price dt) rows
     + (price - d_open_price dt) * factor * of_int (d_original_volume dt - closed_volume rows)"

lemma rows_gain_base:
  "rows_gain factor base rows = rows_gain factor base' rows + (base' - base) * factor * of_int (closed_volume rows)"
  by (induction rows) (auto simp: rows_gain_def closed_volume_def algebra_simps)

lemma rows_gain_append: "rows_gain factor base (xs @ ys) = rows_gain factor base xs + rows_gain factor base ys"
  by (simp add: rows_gain_def)

lemma closed_volume_append: "closed_volume (xs @ ys) = closed_volume xs + closed_volume ys"
  by (simp add: closed_volume_def)

text \<open>One more day.\<close>

lemma lifetime_result_step:
  "lifetime_result factor dt (before @ today) price - lifetime_result factor dt before base
     = rows_gain factor base today
       + (price - base) * factor * of_int (d_original_volume dt - closed_volume (before @ today))"
  unfolding rows_gain_base [of factor base today "d_open_price dt"] lifetime_result_def rows_gain_append
    closed_volume_append
  by (simp add: algebra_simps)

lemma lifetime_result_mset:
  assumes "mset xs = mset ys"
  shows "lifetime_result factor dt xs price = lifetime_result factor dt ys price"
proof -
  have "(\<Sum>x \<leftarrow> xs. f x) = (\<Sum>x \<leftarrow> ys. f x)" for f :: "trade_position_allocation \<Rightarrow> decimal"
    by (metis assms mset_map sum_mset_sum_list)
  moreover have "(\<Sum>x \<leftarrow> xs. f x) = (\<Sum>x \<leftarrow> ys. f x)" for f :: "trade_position_allocation \<Rightarrow> int"
    by (metis assms mset_map sum_mset_sum_list)
  ultimately show ?thesis by (simp add: lifetime_result_def rows_gain_def closed_volume_def)
qed

section \<open>One day\<close>

text \<open>Prices on the money grid and whole factors: nothing is rounded.\<close>

definition exact_context :: "replay_context \<Rightarrow> bool" where
  "exact_context cx \<longleftrightarrow> is_money (terminal_price_of cx) \<and> rc_multiplier cx * rc_sign cx \<in> \<int>"

lemma is_money_factor: "is_money x \<Longrightarrow> f \<in> \<int> \<Longrightarrow> is_money (x * f * of_int v)"
  by (auto elim!: Ints_cases simp: mult.commute [of x] mult.assoc
      simp flip: of_int_mult intro!: is_money_int_mult)

lemma closed_result_exact:
  assumes "exact_context cx" "is_money base" "\<forall>x \<in> set rows. is_money (tp_close_price x)"
  shows "closed_result cx base rows = rows_gain (rc_multiplier cx * rc_sign cx) base rows"
proof -
  have "is_money (rows_gain (rc_multiplier cx * rc_sign cx) base rows)"
    using assms by (auto simp: rows_gain_def exact_context_def intro!: is_money_sum_list is_money_factor is_money_diff)
  then show ?thesis by (simp add: closed_result_def rows_gain_def ac_simps)
qed

lemma held_result_exact:
  assumes "exact_context cx" "is_money base" "0 \<le> ending"
  shows "held_result cx base ending = (terminal_price_of cx - base) * (rc_multiplier cx * rc_sign cx) * of_int ending"
proof -
  have "is_money ((terminal_price_of cx - base) * (rc_multiplier cx * rc_sign cx) * of_int ending)"
    using assms by (auto simp: exact_context_def intro!: is_money_factor is_money_diff)
  then show ?thesis using assms(3) by (auto simp: held_result_def ac_simps)
qed


text \<open>What the replay of a day is given, and the days of one detail.\<close>

definition rows_through :: "date \<Rightarrow> trade_position_allocation list \<Rightarrow> trade_position_allocation list" where
  "rows_through day allocations = filter (\<lambda>x. tp_close_trading_day x \<le> day) allocations"

definition detail_history_ok :: "detail \<Rightarrow> trade_position_allocation list \<Rightarrow> bool" where
  "detail_history_ok dt allocations \<longleftrightarrow> is_money (d_open_price dt)
     \<and> list_all (\<lambda>x. tp_position_detail_id x = d_position_detail_id dt \<longrightarrow>
         d_open_trading_day dt \<le> tp_close_trading_day x \<and> is_money (tp_close_price x)) allocations"

definition rows_before :: "date \<Rightarrow> detail \<Rightarrow> trade_position_allocation list \<Rightarrow> trade_position_allocation list" where
  "rows_before day dt allocations =
     filter (\<lambda>x. tp_position_detail_id x = d_position_detail_id dt \<and> tp_close_trading_day x < day) allocations"

lemma known_rows_split:
  "mset (known_rows day dt allocations) = mset (rows_before day dt allocations
     @ closed_on (\<lambda>x. x = day) (known_rows day dt allocations))"
  by (rule multiset_eqI) (auto simp: known_rows_def rows_before_def closed_on_def)

lemma replayed_day:
  assumes run: "replay_detail inp cx (rows_through (rp_trading_day inp) allocations) dt = Inr x"
    and live: "rc_position_id cx \<notin> set (rp_prior_expired inp)" "d_open_trading_day dt \<le> rp_trading_day inp"
    and base: "replay_basis inp cx dt = Inr base" "is_money base"
    and exact: "exact_context cx" and history: "detail_history_ok dt allocations"
  shows "rd_close_pnl x + rd_holding_pnl x
    = lifetime_result (rc_multiplier cx * rc_sign cx) dt (known_rows (rp_trading_day inp) dt allocations) (terminal_price_of cx)
      - lifetime_result (rc_multiplier cx * rc_sign cx) dt (rows_before (rp_trading_day inp) dt allocations) base"
proof -
  let ?day = "rp_trading_day inp" and ?f = "rc_multiplier cx * rc_sign cx"
  let ?known = "known_rows ?day dt allocations" and ?before = "rows_before ?day dt allocations"
  let ?today = "closed_on (\<lambda>x. x = ?day) ?known"
  have rows: "filter (\<lambda>x. tp_position_detail_id x = d_position_detail_id dt) (rows_through ?day allocations) = ?known"
    by (auto simp: rows_through_def known_rows_def intro!: filter_cong)
  have own: "\<forall>a \<in> set (rows_through ?day allocations). tp_position_detail_id a = d_position_detail_id dt \<longrightarrow>
      d_open_trading_day dt \<le> tp_close_trading_day a"
    using history by (auto simp: rows_through_def detail_history_ok_def list_all_iff)
  have "rd_ending_volume_before_expiry x = d_original_volume dt - closed_volume ?known"
    using replayed_remaining [OF run live own] by (simp add: sum_of_filter rows closed_volume_def)
  moreover obtain b where "replay_basis inp cx dt = Inr b" "rd_close_pnl x = closed_result cx b ?today"
    "rd_holding_pnl x = held_result cx b (rd_ending_volume_before_expiry x)" "0 \<le> rd_ending_volume_before_expiry x"
    using run by (rule replay_detail_Inr) (simp add: rows)
  ultimately have "rd_close_pnl x + rd_holding_pnl x = rows_gain ?f base ?today
      + (terminal_price_of cx - base) * ?f * of_int (d_original_volume dt - closed_volume ?known)"
    using base exact history
    by (subst (asm) closed_result_exact)
       (auto simp: held_result_exact closed_on_def known_rows_def detail_history_ok_def list_all_iff)
  also have "closed_volume ?known = closed_volume (?before @ ?today)"
    by (metis closed_volume_def known_rows_split mset_map sum_mset_sum_list)
  finally show ?thesis
    unfolding lifetime_result_mset [OF known_rows_split] lifetime_result_step .
qed

section \<open>All days\<close>

text \<open>
  The settlements of consecutive trading days: a day measures from the settlement price of the day
  before, and nothing was closed between the days.
\<close>

fun settled_daily :: "detail \<Rightarrow> trade_position_allocation list \<Rightarrow> (replay_input \<times> replay_context) list \<Rightarrow> bool" where
  "settled_daily dt allocations ((i, c) # (j, e) # rest) \<longleftrightarrow>
     rp_trading_day i < rp_trading_day j \<and> rp_previous_prices j = None
     \<and> rp_prior_settlements j (rc_position_id e) = Some (terminal_price_of c)
     \<and> rows_before (rp_trading_day j) dt allocations = known_rows (rp_trading_day i) dt allocations
     \<and> settled_daily dt allocations ((j, e) # rest)"
| "settled_daily dt allocations _ \<longleftrightarrow> True"

definition lot_contexts :: "decimal \<Rightarrow> (replay_input \<times> replay_context) list \<Rightarrow> bool" where
  "lot_contexts factor days \<longleftrightarrow> list_all (\<lambda>(i, c). exact_context c \<and> rc_multiplier c * rc_sign c = factor
     \<and> rc_position_id c \<notin> set (rp_prior_expired i)) days"

definition daily_replays ::
  "detail \<Rightarrow> trade_position_allocation list \<Rightarrow> (replay_input \<times> replay_context) list \<Rightarrow> replayed_detail list result" where
  "daily_replays dt allocations days =
     rmap (\<lambda>(i, c). replay_detail i c (rows_through (rp_trading_day i) allocations) dt) days"

lemma later_days:
  assumes "daily_replays dt allocations ((i, c) # days) = Inr (x # xs)" "settled_daily dt allocations ((i, c) # days)"
    "lot_contexts factor ((i, c) # days)" "d_open_trading_day dt \<le> rp_trading_day i" "detail_history_ok dt allocations"
  shows "(\<Sum>y \<leftarrow> xs. rd_close_pnl y + rd_holding_pnl y)
    = (let (j, e) = last ((i, c) # days) in
       lifetime_result factor dt (known_rows (rp_trading_day j) dt allocations) (terminal_price_of e))
      - lifetime_result factor dt (known_rows (rp_trading_day i) dt allocations) (terminal_price_of c)"
  using assms
proof (induction days arbitrary: i c x xs)
  case Nil
  then show ?case by (auto simp: daily_replays_def rbind_Inr_iff)
next
  case (Cons d days)
  obtain j e where d: "d = (j, e)" by (cases d)
  from Cons.prems(1) d obtain y ys where xs: "xs = y # ys" "daily_replays dt allocations ((j, e) # days) = Inr (y # ys)"
    and y: "replay_detail j e (rows_through (rp_trading_day j) allocations) dt = Inr y"
    by (auto simp: daily_replays_def rbind_Inr_iff)
  from Cons.prems(2) d have link: "rp_trading_day i < rp_trading_day j" "rp_previous_prices j = None"
      "rp_prior_settlements j (rc_position_id e) = Some (terminal_price_of c)"
      "rows_before (rp_trading_day j) dt allocations = known_rows (rp_trading_day i) dt allocations"
      "settled_daily dt allocations ((j, e) # days)" by auto
  have "replay_basis j e dt = Inr (terminal_price_of c)"
    using link(1-3) Cons.prems(4) by (simp add: replay_basis_def)
  from replayed_day [OF y _ _ this] link Cons.prems d
  have "rd_close_pnl y + rd_holding_pnl y
      = lifetime_result factor dt (known_rows (rp_trading_day j) dt allocations) (terminal_price_of e)
      - lifetime_result factor dt (known_rows (rp_trading_day i) dt allocations) (terminal_price_of c)"
    by (auto simp: lot_contexts_def exact_context_def)
  moreover have "(\<Sum>z \<leftarrow> ys. rd_close_pnl z + rd_holding_pnl z)
    = (let (j', e') = last ((j, e) # days) in
       lifetime_result factor dt (known_rows (rp_trading_day j') dt allocations) (terminal_price_of e'))
      - lifetime_result factor dt (known_rows (rp_trading_day j) dt allocations) (terminal_price_of e)"
    using Cons.prems link d by (intro Cons.IH [OF xs(2)]) (auto simp: lot_contexts_def)
  ultimately show ?case using d xs(1) by simp
qed


lemma first_day:
  assumes "daily_replays dt allocations ((i, c) # days) = Inr (x # xs)" "d_open_trading_day dt = rp_trading_day i"
    "lot_contexts factor ((i, c) # days)" "detail_history_ok dt allocations"
  shows "rd_close_pnl x + rd_holding_pnl x
    = lifetime_result factor dt (known_rows (rp_trading_day i) dt allocations) (terminal_price_of c)"
proof -
  have x: "replay_detail i c (rows_through (rp_trading_day i) allocations) dt = Inr x"
    using assms(1) by (auto simp: daily_replays_def rbind_Inr_iff)
  have base: "replay_basis i c dt = Inr (d_open_price dt)" using assms(2) by (simp add: replay_basis_def)
  have "rows_before (rp_trading_day i) dt allocations = []"
    using assms(2,4) by (force simp: rows_before_def detail_history_ok_def list_all_iff filter_empty_conv)
  moreover have "lifetime_result factor dt [] (d_open_price dt) = 0"
    by (simp add: lifetime_result_def rows_gain_def)
  ultimately show ?thesis
    using replayed_day [OF x _ _ base] assms(2-4) by (auto simp: lot_contexts_def detail_history_ok_def)
qed

section \<open>The results add up\<close>




end
