(* ===== verification/Cash_Replay.thy ===== *)
theory Cash_Replay
  imports Cash_Settlement "HOL-Library.Char_ord" "HOL-Library.List_Lexorder" "HOL-Library.Product_Lexorder"
begin

text \<open>
  \<open>app/services/cash_security_position_replay_service.py\<close>: the holding of a cash security is rebuilt
  from its trades and the adjustments of corporate actions, day by day, without reading the row of
  the position. Tables stand in the order of their ids.
\<close>

section \<open>Adjustments and the projection\<close>

text \<open>The keys of \<open>replay_payload\<close> that are read, each None when the payload has no such key.\<close>

record position_adjustment =
  aj_id :: int
  aj_action_id :: string
  aj_action_version :: int
  aj_component_id :: string
  aj_position_id :: string
  aj_adjustment_type :: string
  aj_effective_trading_day :: date
  aj_business_version :: string
  aj_total_volume_delta :: int
  aj_today_volume_delta :: int
  aj_yesterday_volume_delta :: int
  aj_pending_volume_delta :: int
  aj_available_volume_delta :: int
  aj_frozen_volume_delta :: int
  aj_settlement_locked_volume_delta :: int
  aj_position_cost_delta :: decimal
  aj_daily_pnl_base_cost_delta :: decimal
  aj_average_open_price_after :: "decimal option"
  aj_payload_yesterday_pnl_base_cost :: "decimal option"
  aj_payload_today_pnl_base_cost :: "decimal option"
  aj_payload_daily_pnl_base_established :: "bool option"

record cash_projection =
  cp_total_volume :: int
  cp_today_volume :: int
  cp_yesterday_volume :: int
  cp_pending_share_volume :: int
  cp_frozen_volume :: int
  cp_settlement_locked_volume :: int
  cp_available_volume :: int
  cp_position_cost :: decimal
  cp_daily_pnl_base_cost :: decimal
  cp_yesterday_pnl_base_cost :: decimal
  cp_today_pnl_base_cost :: decimal
  cp_daily_pnl_base_established :: bool
  cp_average_open_price :: decimal
  cp_authoritative :: bool

definition empty_projection :: "bool \<Rightarrow> cash_projection" where
  "empty_projection authoritative =
     \<lparr>cp_total_volume = 0, cp_today_volume = 0, cp_yesterday_volume = 0,
      cp_pending_share_volume = 0, cp_frozen_volume = 0, cp_settlement_locked_volume = 0,
      cp_available_volume = 0, cp_position_cost = 0, cp_daily_pnl_base_cost = 0,
      cp_yesterday_pnl_base_cost = 0, cp_today_pnl_base_cost = 0,
      cp_daily_pnl_base_established = False, cp_average_open_price = 0,
      cp_authoritative = authoritative\<rparr>"

section \<open>One trade\<close>

definition refresh_available_and_average :: "bool \<Rightarrow> cash_projection \<Rightarrow> cash_projection" where
  "refresh_available_and_average preserve_explicit_average c =
     c\<lparr>cp_available_volume := cp_total_volume c - cp_frozen_volume c - cp_settlement_locked_volume c,
       cp_average_open_price :=
         (if cp_total_volume c = 0 then 0
          else if preserve_explicit_average then cp_average_open_price c
          else quantize_money (cp_position_cost c / of_int (cp_total_volume c))),
       cp_daily_pnl_base_cost :=
         quantize_money (cp_yesterday_pnl_base_cost c + cp_today_pnl_base_cost c)\<rparr>"

text \<open>The base cost that is left of a bucket when a volume of it is sold.\<close>

definition reduced_base :: "decimal \<Rightarrow> int \<Rightarrow> int \<Rightarrow> decimal" where
  "reduced_base base sold before =
     (if sold = 0 then base
      else quantize_money (base - (if sold = before then base
                                   else quantize_money (base * of_int sold / of_int before))))"

definition reduce_bases :: "int \<Rightarrow> int \<Rightarrow> int \<Rightarrow> int \<Rightarrow> cash_projection \<Rightarrow> cash_projection" where
  "reduce_bases yesterday_sold yesterday_before today_sold today_before c =
     (let y = reduced_base (cp_yesterday_pnl_base_cost c) yesterday_sold yesterday_before;
          t = reduced_base (cp_today_pnl_base_cost c) today_sold today_before
      in c\<lparr>cp_yesterday_pnl_base_cost := y, cp_today_pnl_base_cost := t,
           cp_daily_pnl_base_cost := quantize_money (y + t)\<rparr>)"

definition apply_replayed_buy :: "int \<Rightarrow> trade \<Rightarrow> cash_projection \<Rightarrow> cash_projection" where
  "apply_replayed_buy days t c =
     (let volume = t_trade_volume t
      in refresh_available_and_average False
           (c\<lparr>cp_total_volume := cp_total_volume c + volume,
              cp_today_volume := cp_today_volume c + volume,
              cp_settlement_locked_volume :=
                (if days = 1 then cp_settlement_locked_volume c + volume
                 else cp_settlement_locked_volume c),
              cp_available_volume :=
                (if days = 1 then cp_available_volume c else cp_available_volume c + volume),
              cp_position_cost := quantize_money (cp_position_cost c + t_turnover t),
              cp_today_pnl_base_cost := quantize_money (cp_today_pnl_base_cost c + t_turnover t)\<rparr>))"

text \<open>How a sale is taken out of the buckets: of yesterday first, of today only when T+0.\<close>

definition replayed_sale ::
  "int \<Rightarrow> instrument_type \<Rightarrow> int \<Rightarrow> cash_projection \<Rightarrow> (int \<times> int) result" where
  "replayed_sale days it volume c =
     (if cp_total_volume c < volume
      then Inl (DataAccessError ''CASH_SECURITY_REPLAY_SELL_VOLUME_INVALID'')
      else if days = 1 then
        (if cp_yesterday_volume c < volume
         then Inl (DataAccessError (if it = STOCK then ''CASH_SECURITY_REPLAY_STOCK_T_PLUS_ONE''
                                    else ''CASH_SECURITY_REPLAY_ETF_T_PLUS_ONE''))
         else Inr (volume, 0))
      else
        let yesterday_sold = min (cp_yesterday_volume c) volume
        in if cp_today_volume c < volume - yesterday_sold
           then Inl (DataAccessError ''CASH_SECURITY_REPLAY_T_ZERO_SELL_VOLUME_INVALID'')
           else Inr (yesterday_sold, volume - yesterday_sold))"

definition apply_replayed_sell ::
  "int \<Rightarrow> instrument_type \<Rightarrow> trade \<Rightarrow> cash_projection \<Rightarrow> cash_projection result" where
  "apply_replayed_sell days it t c =
     (let volume = t_trade_volume t
      in rbind (replayed_sale days it volume c) (\<lambda>(yesterday_sold, today_sold).
         let cost = (if volume = cp_total_volume c then cp_position_cost c
                     else quantize_money (cp_position_cost c * of_int volume / of_int (cp_total_volume c)));
             c1 = c\<lparr>cp_total_volume := cp_total_volume c - volume,
                    cp_yesterday_volume := cp_yesterday_volume c - yesterday_sold,
                    cp_today_volume := cp_today_volume c - today_sold,
                    cp_position_cost := quantize_money (cp_position_cost c - cost)\<rparr>
         in Inr (refresh_available_and_average False
              (reduce_bases yesterday_sold (cp_yesterday_volume c) today_sold (cp_today_volume c) c1))))"

definition apply_replayed_trade ::
  "instrument_type \<Rightarrow> int option \<Rightarrow> cash_projection \<Rightarrow> trade \<Rightarrow> cash_projection result" where
  "apply_replayed_trade it market_tplus c t =
     rbind (settlement_days it market_tplus) (\<lambda>days.
     case t_direction t of
       BUY \<Rightarrow> Inr (apply_replayed_buy days t c)
     | SELL \<Rightarrow> apply_replayed_sell days it t c
     | UnknownDirection _ \<Rightarrow> Inl (DataAccessError ''CASH_SECURITY_REPLAY_TRADE_DIRECTION_INVALID''))"

section \<open>One adjustment\<close>

definition digit_text :: "nat \<Rightarrow> char" where
  "digit_text n = ''0123456789'' ! n"

fun nat_text :: "nat \<Rightarrow> string" where
  "nat_text n = (if n < 10 then [digit_text n] else nat_text (n div 10) @ [digit_text (n mod 10)])"

definition int_text :: "int \<Rightarrow> string" where
  "int_text i = (if i < 0 then CHR ''-'' # nat_text (nat (- i)) else nat_text (nat i))"

definition value_or :: "'a \<Rightarrow> 'a option \<Rightarrow> 'a" where
  "value_or x found = (case found of None \<Rightarrow> x | Some y \<Rightarrow> y)"

definition apply_adjustment :: "cash_projection \<Rightarrow> position_adjustment \<Rightarrow> cash_projection result" where
  "apply_adjustment c row =
     (if aj_business_version row \<noteq> int_text (aj_action_version row)
      then Inl (DataAccessError ''CORPORATE_ACTION_ADJUSTMENT_VERSION_INVALID'')
      else
        let c1 = c\<lparr>cp_total_volume := cp_total_volume c + aj_total_volume_delta row,
                   cp_today_volume := cp_today_volume c + aj_today_volume_delta row,
                   cp_yesterday_volume := cp_yesterday_volume c + aj_yesterday_volume_delta row,
                   cp_pending_share_volume := cp_pending_share_volume c + aj_pending_volume_delta row,
                   cp_frozen_volume := cp_frozen_volume c + aj_frozen_volume_delta row,
                   cp_settlement_locked_volume :=
                     cp_settlement_locked_volume c + aj_settlement_locked_volume_delta row,
                   cp_available_volume := cp_available_volume c + aj_available_volume_delta row,
                   cp_position_cost := quantize_money (cp_position_cost c + aj_position_cost_delta row),
                   cp_daily_pnl_base_cost :=
                     quantize_money (cp_daily_pnl_base_cost c + aj_daily_pnl_base_cost_delta row)\<rparr>;
            c2 = (if aj_adjustment_type row = ''REPLAY_OPENING_BALANCE'' then
                    c1\<lparr>cp_yesterday_pnl_base_cost := value_or 0 (aj_payload_yesterday_pnl_base_cost row),
                       cp_today_pnl_base_cost := value_or 0 (aj_payload_today_pnl_base_cost row),
                       cp_daily_pnl_base_established :=
                         value_or False (aj_payload_daily_pnl_base_established row)\<rparr>
                  else
                    c1\<lparr>cp_yesterday_pnl_base_cost := quantize_money
                         (cp_yesterday_pnl_base_cost c1 + aj_daily_pnl_base_cost_delta row)\<rparr>);
            c3 = (case aj_average_open_price_after row of
                    None \<Rightarrow> c2 | Some price \<Rightarrow> c2\<lparr>cp_average_open_price := price\<rparr>)
        in Inr (refresh_available_and_average (aj_average_open_price_after row \<noteq> None) c3))"

section \<open>The days\<close>

definition projection_valid :: "cash_projection \<Rightarrow> bool" where
  "projection_valid c \<longleftrightarrow> 0 \<le> cp_total_volume c \<and> 0 \<le> cp_today_volume c \<and> 0 \<le> cp_yesterday_volume c
     \<and> 0 \<le> cp_pending_share_volume c \<and> 0 \<le> cp_frozen_volume c \<and> 0 \<le> cp_settlement_locked_volume c
     \<and> 0 \<le> cp_available_volume c \<and> cp_total_volume c = cp_today_volume c + cp_yesterday_volume c"

definition validate_projection :: "cash_projection \<Rightarrow> unit result" where
  "validate_projection c =
     (if \<not> projection_valid c then Inl (DataAccessError ''CASH_SECURITY_REPLAY_POSITION_INVALID'')
      else if cp_available_volume c \<noteq> cp_total_volume c - cp_frozen_volume c - cp_settlement_locked_volume c
      then Inl (DataAccessError ''CASH_SECURITY_REPLAY_AVAILABLE_INVALID'')
      else Inr ())"

text \<open>What carries over to the next day with facts.\<close>

definition roll_day :: "cash_projection \<Rightarrow> cash_projection" where
  "roll_day c = c\<lparr>cp_yesterday_volume := cp_yesterday_volume c + cp_today_volume c, cp_today_volume := 0,
     cp_settlement_locked_volume := 0, cp_today_pnl_base_cost := 0,
     cp_daily_pnl_base_cost := cp_yesterday_pnl_base_cost c\<rparr>"

definition adjustment_key :: "position_adjustment \<Rightarrow> string \<times> int \<times> string" where
  "adjustment_key row = (aj_action_id row, aj_action_version row, aj_component_id row)"

definition replay_day ::
  "instrument_type \<Rightarrow> int option \<Rightarrow> trade list \<Rightarrow> position_adjustment list \<Rightarrow> cash_projection \<Rightarrow> date
   \<Rightarrow> cash_projection result" where
  "replay_day it market_tplus trades adjustments c day =
     rbind (rfold (apply_replayed_trade it market_tplus) c
              (sort_key t_trade_time (filter (\<lambda>t. t_trading_day t = day) trades))) (\<lambda>c1.
     rbind (rfold apply_adjustment c1
              (sort_key adjustment_key (filter (\<lambda>r. aj_effective_trading_day r = day) adjustments))) (\<lambda>c2.
     rbind (validate_projection c2) (\<lambda>_. Inr c2)))"

fun replay_days ::
  "instrument_type \<Rightarrow> int option \<Rightarrow> trade list \<Rightarrow> position_adjustment list \<Rightarrow> cash_projection \<Rightarrow> date list
   \<Rightarrow> cash_projection result" where
  "replay_days it market_tplus trades adjustments c [] = Inr c"
| "replay_days it market_tplus trades adjustments c [day] =
     replay_day it market_tplus trades adjustments c day"
| "replay_days it market_tplus trades adjustments c (day # days) =
     rbind (replay_day it market_tplus trades adjustments c day) (\<lambda>c1.
     replay_days it market_tplus trades adjustments (roll_day c1) days)"

definition trade_of_position :: "position \<Rightarrow> date \<Rightarrow> trade \<Rightarrow> bool" where
  "trade_of_position p day t \<longleftrightarrow> t_account_id t = p_account_id p \<and> t_exchange_id t = p_exchange_id p
     \<and> t_symbol t = p_symbol p \<and> t_instrument_type t = p_instrument_type p \<and> t_trading_day t \<le> day"

definition cash_replay ::
  "position \<Rightarrow> trade list \<Rightarrow> position_adjustment list \<Rightarrow> date \<Rightarrow> int option \<Rightarrow> cash_projection result" where
  "cash_replay p trades adjustments day market_tplus =
     (let rows = filter (\<lambda>r. aj_effective_trading_day r \<le> day) adjustments;
          cash_trades = filter (trade_of_position p day) trades
      in if rows = [] \<and> cash_trades = [] then Inr (empty_projection False)
         else replay_days (p_instrument_type p) market_tplus cash_trades rows (empty_projection True)
                (sort (remdups (map t_trading_day cash_trades @ map aj_effective_trading_day rows))))"


section \<open>The row of the position at the daily settlement\<close>

text \<open>The replayed quantities and costs overwrite those of the row when there are facts to replay.\<close>

definition project_onto :: "cash_projection \<Rightarrow> position \<Rightarrow> position" where
  "project_onto c p =
     (if \<not> cp_authoritative c then p
      else p\<lparr>p_total_volume := cp_total_volume c, p_today_volume := cp_today_volume c,
             p_yesterday_volume := cp_yesterday_volume c,
             p_pending_share_volume := cp_pending_share_volume c,
             p_frozen_volume := cp_frozen_volume c,
             p_settlement_locked_volume := cp_settlement_locked_volume c,
             p_available_volume := cp_available_volume c, p_position_cost := cp_position_cost c,
             p_daily_pnl_base_cost := cp_daily_pnl_base_cost c,
             p_yesterday_pnl_base_cost := cp_yesterday_pnl_base_cost c,
             p_today_pnl_base_cost := cp_today_pnl_base_cost c,
             p_daily_pnl_base_established := cp_daily_pnl_base_established c,
             p_average_open_price := cp_average_open_price c\<rparr>)"

record frozen_price =
  fz_exchange_id :: string
  fz_symbol :: string
  fz_price :: decimal
  fz_tick_time :: datetime
  fz_tick_trading_day :: date
  fz_source_event_id :: string
  fz_previous_price :: "decimal option"
  fz_previous_tick_time :: "datetime option"
  fz_previous_tick_trading_day :: "date option"
  fz_previous_source_event_id :: "string option"

text \<open>The row is valued at the frozen price; the day's result is measured from the base cost.\<close>

definition mark_cash_position :: "frozen_price \<Rightarrow> position \<Rightarrow> position" where
  "mark_cash_position fz p =
     (let value = quantize_money (fz_price fz * of_int (p_total_volume p) * p_multiplier_snapshot p);
          basis = (if \<not> p_daily_pnl_base_established p \<and> p_daily_pnl_base_cost p = 0
                   then p_position_cost p else p_daily_pnl_base_cost p)
      in p\<lparr>p_mark_price := Some (fz_price fz), p_mark_time := Some (fz_tick_time fz),
           p_mark_source_event_id := Some (fz_source_event_id fz), p_market_value := value,
           p_unrealized_pnl := quantize_money (value - p_position_cost p),
           p_daily_position_pnl := quantize_money (value - basis)\<rparr>)"

text \<open>
  \<open>_consume_cash_security_adjustments\<close> refuses a stream that is not in the order of its keys or whose
  versions disagree.
\<close>

definition stream_key :: "position_adjustment \<Rightarrow> date \<times> string \<times> int \<times> string \<times> int" where
  "stream_key row = (aj_effective_trading_day row, aj_action_id row, aj_action_version row,
     aj_component_id row, aj_id row)"

fun consume_adjustments ::
  "(date \<times> string \<times> int \<times> string \<times> int) option \<Rightarrow> position_adjustment list \<Rightarrow> unit result" where
  "consume_adjustments previous [] = Inr ()"
| "consume_adjustments previous (row # rest) =
     (if (case previous of None \<Rightarrow> False | Some k \<Rightarrow> stream_key row < k)
      then Inl (DataAccessError ''CORPORATE_ACTION_ADJUSTMENT_ORDER_INVALID'')
      else if aj_business_version row \<noteq> int_text (aj_action_version row)
      then Inl (DataAccessError ''CORPORATE_ACTION_ADJUSTMENT_VERSION_INVALID'')
      else consume_adjustments (Some (stream_key row)) rest)"

text \<open>
  \<open>adjustments\<close> stand in the order in which the repository lists them; \<open>market_tplus\<close> looks up the
  instrument of the position.
\<close>

definition replay_cash_position ::
  "(string \<times> string \<Rightarrow> frozen_price option) \<Rightarrow> trade list \<Rightarrow> position_adjustment list \<Rightarrow> date
   \<Rightarrow> (position \<Rightarrow> int option result) \<Rightarrow> position \<Rightarrow> position result" where
  "replay_cash_position prices trades adjustments day market_tplus p =
     (case prices (p_exchange_id p, p_symbol p) of
        None \<Rightarrow> Inl (DataAccessError ''CASH_SECURITY_SETTLEMENT_PRICE_MISSING'')
      | Some fz \<Rightarrow>
          (let own = filter (\<lambda>r. aj_position_id r = p_position_id p) adjustments
           in rbind (consume_adjustments None own) (\<lambda>_.
              rbind (market_tplus p) (\<lambda>tplus.
              rbind (cash_replay p trades own day tplus) (\<lambda>c.
              Inr (mark_cash_position fz (project_onto c p)))))))"

text \<open>
  Carrying a holding over to the next trading day: what was bought today becomes held, locks are
  lifted, the value at the close is the base of the next day. \<open>now\<close> and times are in seconds,
  \<open>local_day\<close> is the Shanghai date of a time.
\<close>

definition carried_over :: "date \<Rightarrow> datetime \<Rightarrow> position \<Rightarrow> position" where
  "carried_over next_trading_day now p =
     p\<lparr>p_today_volume := 0, p_yesterday_volume := p_total_volume p, p_settlement_locked_volume := 0,
       p_available_volume := p_total_volume p, p_daily_pnl_base_cost := p_market_value p,
       p_yesterday_pnl_base_cost := p_market_value p, p_today_pnl_base_cost := 0,
       p_daily_pnl_base_established := True, p_daily_position_pnl := 0, p_daily_close_pnl := 0,
       p_trading_day := next_trading_day, p_updated_at := now\<rparr>"

definition mark_valid :: "(datetime \<Rightarrow> date) \<Rightarrow> date \<Rightarrow> datetime \<Rightarrow> int \<Rightarrow> position \<Rightarrow> bool" where
  "mark_valid local_day day now max_age p \<longleftrightarrow>
     (case (p_mark_price p, p_mark_time p, p_mark_source_event_id p) of
        (Some price, Some time, Some _) \<Rightarrow>
          0 < price \<and> local_day time = day \<and> 0 \<le> now - time \<and> now - time \<le> max_age
      | _ \<Rightarrow> False)"

definition carry_cash_position ::
  "(datetime \<Rightarrow> date) \<Rightarrow> date \<Rightarrow> date \<Rightarrow> datetime \<Rightarrow> int \<Rightarrow> position \<Rightarrow> position result" where
  "carry_cash_position local_day day next_trading_day now max_age p =
     (if p_frozen_volume p \<noteq> 0
      then Inl (DataAccessError ''CASH_SECURITY_SETTLEMENT_FROZEN_VOLUME'')
      else if p_total_volume p \<noteq> p_today_volume p + p_yesterday_volume p
      then Inl (DataAccessError ''CASH_SECURITY_SETTLEMENT_VOLUME_MISMATCH'')
      else if 0 < p_total_volume p \<and> \<not> mark_valid local_day day now max_age p
      then Inl (DataAccessError ''CASH_SECURITY_SETTLEMENT_MARK_MISSING'')
      else Inr (carried_over next_trading_day now p))"

end
