(* ===== verification/Cash_Replay_Properties.thy ===== *)
theory Cash_Replay_Properties
  imports Cash_Replay Cash_Positions Samples
begin

text \<open>
  The replay of a cash security refines the live row: filling the same trades day by day and carrying
  the row over night leaves the same holding. The volumes of a projection stay balanced.
\<close>

section \<open>Balanced volumes\<close>

definition available_ok :: "cash_projection \<Rightarrow> bool" where
  "available_ok c \<longleftrightarrow>
     cp_available_volume c = cp_total_volume c - cp_frozen_volume c - cp_settlement_locked_volume c"

lemma refreshed [simp]:
  "available_ok (refresh_available_and_average b c)"
  "cp_total_volume (refresh_available_and_average b c) = cp_total_volume c"
  "cp_today_volume (refresh_available_and_average b c) = cp_today_volume c"
  "cp_yesterday_volume (refresh_available_and_average b c) = cp_yesterday_volume c"
  "cp_settlement_locked_volume (refresh_available_and_average b c) = cp_settlement_locked_volume c"
  "cp_frozen_volume (refresh_available_and_average b c) = cp_frozen_volume c"
  "cp_pending_share_volume (refresh_available_and_average b c) = cp_pending_share_volume c"
  "cp_position_cost (refresh_available_and_average b c) = cp_position_cost c"
  "cp_yesterday_pnl_base_cost (refresh_available_and_average b c) = cp_yesterday_pnl_base_cost c"
  "cp_today_pnl_base_cost (refresh_available_and_average b c) = cp_today_pnl_base_cost c"
  "cp_authoritative (refresh_available_and_average b c) = cp_authoritative c"
  by (simp_all add: available_ok_def refresh_available_and_average_def)

lemma reduced_frame [simp]:
  "cp_total_volume (reduce_bases a b t s c) = cp_total_volume c"
  "cp_today_volume (reduce_bases a b t s c) = cp_today_volume c"
  "cp_yesterday_volume (reduce_bases a b t s c) = cp_yesterday_volume c"
  "cp_settlement_locked_volume (reduce_bases a b t s c) = cp_settlement_locked_volume c"
  "cp_frozen_volume (reduce_bases a b t s c) = cp_frozen_volume c"
  "cp_pending_share_volume (reduce_bases a b t s c) = cp_pending_share_volume c"
  "cp_position_cost (reduce_bases a b t s c) = cp_position_cost c"
  "cp_authoritative (reduce_bases a b t s c) = cp_authoritative c"
  by (simp_all add: reduce_bases_def Let_def)

lemma trade_available_ok:
  "apply_replayed_trade it tp c t = Inr c' \<Longrightarrow> available_ok c'"
  by (cases "t_direction t")
     (auto simp: apply_replayed_trade_def apply_replayed_buy_def apply_replayed_sell_def rbind_Inr_iff Let_def)

lemma adjustment_available_ok: "apply_adjustment c row = Inr c' \<Longrightarrow> available_ok c'"
  by (auto simp: apply_adjustment_def Let_def split: if_split_asm)

lemma empty_available_ok [simp]: "available_ok (empty_projection b)"
  by (simp add: available_ok_def empty_projection_def)

lemma next_day_simps [simp]:
  "cp_total_volume (roll_day c) = cp_total_volume c"
  "cp_today_volume (roll_day c) = 0"
  "cp_yesterday_volume (roll_day c) = cp_yesterday_volume c + cp_today_volume c"
  "cp_settlement_locked_volume (roll_day c) = 0"
  "cp_frozen_volume (roll_day c) = cp_frozen_volume c"
  "cp_pending_share_volume (roll_day c) = cp_pending_share_volume c"
  "cp_position_cost (roll_day c) = cp_position_cost c"
  "cp_average_open_price (roll_day c) = cp_average_open_price c"
  "cp_yesterday_pnl_base_cost (roll_day c) = cp_yesterday_pnl_base_cost c"
  by (simp_all add: roll_day_def)

text \<open>A day with facts always ends with a consistent available volume, however it began.\<close>

lemma rfold_last:
  assumes "rfold f s xs = Inr t" "xs \<noteq> []" "\<And>s x t. f s x = Inr t \<Longrightarrow> P t"
  shows "P t"
  using assms(1,2)
proof (induction xs arbitrary: s)
  case (Cons x xs)
  from Cons.prems obtain s' where s': "f s x = Inr s'" "rfold f s' xs = Inr t" by (auto simp: rbind_Inr_iff)
  with assms(3) Cons.IH show ?case by (cases "xs = []") auto
qed simp

lemma sort_key_empty_iff: "sort_key k xs = [] \<longleftrightarrow> xs = []"
  by (metis length_0_conv length_sort)

lemma day_facts_available_ok:
  assumes "rfold (apply_replayed_trade it tp) c (sort_key t_trade_time ts) = Inr c1"
    "rfold apply_adjustment c1 (sort_key adjustment_key rows) = Inr c2" "ts \<noteq> [] \<or> rows \<noteq> []"
  shows "available_ok c2"
proof (cases "rows = []")
  case True
  with assms have "available_ok c1"
    by (intro rfold_last [of "apply_replayed_trade it tp" c "sort_key t_trade_time ts" c1 available_ok])
       (auto simp: sort_key_empty_iff intro: trade_available_ok)
  with True assms(2) show ?thesis by simp
next
  case False
  with assms(2) show ?thesis
    by (intro rfold_last [of apply_adjustment c1 "sort_key adjustment_key rows" c2 available_ok])
       (auto simp: sort_key_empty_iff intro: adjustment_available_ok)
qed

definition balanced :: "cash_projection \<Rightarrow> bool" where
  "balanced c \<longleftrightarrow> projection_valid c \<and> available_ok c"

lemma replay_day_balanced:
  "replay_day it tp trades adjustments c day = Inr c' \<Longrightarrow> balanced c'"
  by (auto simp: replay_day_def rbind_Inr_iff validate_projection_def balanced_def available_ok_def split: if_split_asm)

lemma replay_days_balanced:
  "replay_days it tp trades adjustments c days = Inr c' \<Longrightarrow> days \<noteq> [] \<Longrightarrow> balanced c'"
  by (induction it tp trades adjustments c days rule: replay_days.induct)
     (auto simp: rbind_Inr_iff intro: replay_day_balanced)

lemma empty_balanced: "balanced (empty_projection b)"
  by (simp add: balanced_def projection_valid_def available_ok_def empty_projection_def)

lemma cash_replay_balanced:
  assumes "cash_replay p trades adjustments day tp = Inr c"
  shows "balanced c"
  using assms
  by (auto simp: cash_replay_def Let_def empty_balanced sort_key_empty_iff split: if_split_asm
      dest!: replay_days_balanced)


section \<open>The available volume is never refuted\<close>

abbreviation available_invalid :: app_error where
  "available_invalid \<equiv> DataAccessError ''CASH_SECURITY_REPLAY_AVAILABLE_INVALID''"

lemma replayed_days_error: "settlement_days it tp \<noteq> Inl available_invalid"
  by (cases "(it, tp)" rule: settlement_days.cases) (auto split: option.splits)

lemma replayed_trade_error: "apply_replayed_trade it tp c t \<noteq> Inl available_invalid"
  using replayed_days_error
  by (cases "t_direction t")
     (auto simp: apply_replayed_trade_def apply_replayed_sell_def replayed_sale_def rbind_Inl_iff Let_def)

lemma adjustment_error: "apply_adjustment c row \<noteq> Inl available_invalid"
  by (auto simp: apply_adjustment_def Let_def)

lemma rfold_never: "(\<And>s x. f s x \<noteq> Inl e) \<Longrightarrow> rfold f s xs \<noteq> Inl e"
  by (induction xs arbitrary: s) (auto simp: rbind_Inl_iff)

definition facts_on :: "trade list \<Rightarrow> position_adjustment list \<Rightarrow> date \<Rightarrow> bool" where
  "facts_on trades adjustments day \<longleftrightarrow>
     day \<in> t_trading_day ` set trades \<union> aj_effective_trading_day ` set adjustments"

lemma replay_day_error:
  assumes "facts_on trades adjustments day"
  shows "replay_day it tp trades adjustments c day \<noteq> Inl available_invalid"
proof
  let ?ts = "filter (\<lambda>t. t_trading_day t = day) trades"
  let ?rows = "filter (\<lambda>r. aj_effective_trading_day r = day) adjustments"
  assume "replay_day it tp trades adjustments c day = Inl available_invalid"
  moreover have "rfold (apply_replayed_trade it tp) c (sort_key t_trade_time ?ts) \<noteq> Inl available_invalid"
    by (rule rfold_never) (rule replayed_trade_error)
  moreover have "rfold apply_adjustment c1 (sort_key adjustment_key ?rows) \<noteq> Inl available_invalid" for c1
    by (rule rfold_never) (rule adjustment_error)
  ultimately obtain c1 c2 where run: "rfold (apply_replayed_trade it tp) c (sort_key t_trade_time ?ts) = Inr c1"
    "rfold apply_adjustment c1 (sort_key adjustment_key ?rows) = Inr c2"
    and bad: "validate_projection c2 = Inl available_invalid"
    unfolding replay_day_def rbind_Inl_iff by blast
  have "?ts \<noteq> [] \<or> ?rows \<noteq> []" using assms by (auto simp: facts_on_def filter_empty_conv)
  from day_facts_available_ok [OF run this] have "available_ok c2" .
  with bad show False by (auto simp: validate_projection_def available_ok_def split: if_split_asm)
qed

lemma replay_days_error:
  "\<forall>day \<in> set days. facts_on trades adjustments day \<Longrightarrow>
     replay_days it tp trades adjustments c days \<noteq> Inl available_invalid"
  by (induction it tp trades adjustments c days rule: replay_days.induct)
     (auto simp: rbind_Inl_iff replay_day_error)

section \<open>Refinement of the live row\<close>

text \<open>The same trade in the live system: a sale is frozen by its order before it is filled.\<close>

definition live_trade :: "instrument_type \<Rightarrow> int option \<Rightarrow> position \<Rightarrow> trade \<Rightarrow> position result" where
  "live_trade it market_tplus p t =
     (case t_direction t of
        BUY \<Rightarrow> apply_buy p it (t_trade_volume t) (t_turnover t) market_tplus
      | SELL \<Rightarrow> rbind (apply_sell (freeze_sell (t_trade_time t) (t_trade_volume t) p) it (t_trade_volume t)
                 market_tplus) (\<lambda>(p1, _). Inr p1)
      | UnknownDirection _ \<Rightarrow> Inl (DataAccessError ''CASH_SECURITY_DIRECTION_INVALID''))"

definition replayed_holding :: "int \<Rightarrow> cash_projection \<Rightarrow> position \<Rightarrow> bool" where
  "replayed_holding days c p \<longleftrightarrow> cp_total_volume c = p_total_volume p \<and> cp_today_volume c = p_today_volume p
     \<and> cp_yesterday_volume c = p_yesterday_volume p
     \<and> cp_settlement_locked_volume c = p_settlement_locked_volume p
     \<and> cp_position_cost c = p_position_cost p
     \<and> cp_frozen_volume c = 0 \<and> p_frozen_volume p = 0 \<and> cp_pending_share_volume c = 0
     \<and> 0 \<le> p_today_volume p \<and> 0 \<le> p_yesterday_volume p
     \<and> p_total_volume p = p_today_volume p + p_yesterday_volume p \<and> buckets_ok days p"

lemma live_buy_replayed:
  assumes "live_trade it tp p t = Inr p'" "t_direction t = BUY" "0 < t_trade_volume t"
    "settlement_days it tp = Inr days" "replayed_holding days c p"
  shows "\<exists>c'. apply_replayed_trade it tp c t = Inr c' \<and> replayed_holding days c' p'"
proof -
  have "apply_buy p it (t_trade_volume t) (t_turnover t) tp = Inr p'"
    using assms(1,2) by (simp add: live_trade_def)
  then have p': "p_total_volume p' = p_total_volume p + t_trade_volume t" "p_today_volume p' = p_today_volume p + t_trade_volume t"
    "p_yesterday_volume p' = p_yesterday_volume p" "p_frozen_volume p' = p_frozen_volume p"
    "p_settlement_locked_volume p' = p_settlement_locked_volume p + (if days = 1 then t_trade_volume t else 0)"
    "p_position_cost p' = quantize_money (p_position_cost p + t_turnover t)"
    using assms(4) by (elim apply_buy_Inr, simp)+
  have "apply_replayed_trade it tp c t = Inr (apply_replayed_buy days t c)"
    using assms(2,4) by (simp add: apply_replayed_trade_def)
  moreover have "replayed_holding days (apply_replayed_buy days t c) p'"
    using assms(3,5) p' by (simp add: apply_replayed_buy_def Let_def replayed_holding_def buckets_ok_def)
  ultimately show ?thesis by blast
qed

lemma live_sell_replayed:
  assumes "live_trade it tp p t = Inr p'" "t_direction t = SELL" "0 < t_trade_volume t"
    "settlement_days it tp = Inr days" "replayed_holding days c p"
  shows "\<exists>c'. apply_replayed_trade it tp c t = Inr c' \<and> replayed_holding days c' p'"
proof -
  let ?v = "t_trade_volume t" and ?q = "freeze_sell (t_trade_time t) (t_trade_volume t) p"
  obtain cost where "apply_sell ?q it ?v tp = Inr (p', cost)"
    using assms(1,2) by (auto simp: live_trade_def rbind_Inr_iff)
  then obtain y where y: "y = (if days = 1 then ?v else min (p_yesterday_volume p) ?v)"
      "days = 1 \<longrightarrow> ?v \<le> p_yesterday_volume p" "?v \<le> p_total_volume p"
    and p': "p_total_volume p' = p_total_volume p - ?v" "p_today_volume p' = p_today_volume p - (?v - y)"
      "p_yesterday_volume p' = p_yesterday_volume p - y" "p_frozen_volume p' = p_frozen_volume p"
      "p_settlement_locked_volume p' = p_settlement_locked_volume p"
      "p_position_cost p' = quantize_money (p_position_cost p - sold_cost p ?v)"
    using assms(4) by (elim apply_sell_Inr) (auto simp: freeze_sell_def sold_cost_def)
  have days: "days \<in> {0, 1}" using settlement_days_Inr [OF assms(4)] by blast
  have "replayed_sale days it ?v c = Inr (y, ?v - y)"
    using assms(5) y by (auto simp: replayed_sale_def replayed_holding_def Let_def)
  define c1 where "c1 = c\<lparr>cp_total_volume := cp_total_volume c - ?v, cp_yesterday_volume := cp_yesterday_volume c - y,
      cp_today_volume := cp_today_volume c - (?v - y),
      cp_position_cost := quantize_money (cp_position_cost c - sold_cost p ?v)\<rparr>"
  have "apply_replayed_trade it tp c t = Inr (refresh_available_and_average False
      (reduce_bases y (cp_yesterday_volume c) (?v - y) (cp_today_volume c) c1))"
    using assms(2,4,5) \<open>replayed_sale days it ?v c = Inr (y, ?v - y)\<close>
    by (simp add: apply_replayed_trade_def apply_replayed_sell_def Let_def c1_def replayed_holding_def sold_cost_def)
  moreover have "replayed_holding days (refresh_available_and_average False
      (reduce_bases y (cp_yesterday_volume c) (?v - y) (cp_today_volume c) c1)) p'"
  proof (cases "days = 1")
    case True
    with assms(3,5) y p' show ?thesis by (simp add: replayed_holding_def buckets_ok_def c1_def)
  next
    case False
    then have "0 \<le> p_today_volume p - (?v - y)" "0 \<le> p_yesterday_volume p - y"
      using assms(3,5) y by (simp_all add: replayed_holding_def min_def)
    with False assms(3,5) p' show ?thesis by (simp add: replayed_holding_def buckets_ok_def c1_def)
  qed
  ultimately show ?thesis by blast
qed

lemma live_trade_replayed:
  assumes "live_trade it tp p t = Inr p'" "0 < t_trade_volume t" "settlement_days it tp = Inr days" "replayed_holding days c p"
  shows "\<exists>c'. apply_replayed_trade it tp c t = Inr c' \<and> replayed_holding days c' p'"
  using live_buy_replayed [OF assms(1) _ assms(2-4)] live_sell_replayed [OF assms(1) _ assms(2-4)] assms(1)
  by (cases "t_direction t") (auto simp: live_trade_def)

lemma live_trades_replayed:
  assumes "rfold (live_trade it tp) p ts = Inr p'" "list_all (\<lambda>t. 0 < t_trade_volume t) ts"
    "settlement_days it tp = Inr days" "replayed_holding days c p"
  shows "\<exists>c'. rfold (apply_replayed_trade it tp) c ts = Inr c' \<and> replayed_holding days c' p'"
  using assms
proof (induction ts arbitrary: p c)
  case (Cons t ts)
  then obtain q where q: "live_trade it tp p t = Inr q" "rfold (live_trade it tp) q ts = Inr p'"
    by (auto simp: rbind_Inr_iff)
  with Cons.prems live_trade_replayed [OF q(1)] obtain c1 where
    "apply_replayed_trade it tp c t = Inr c1" "replayed_holding days c1 q" by auto
  with Cons.IH [OF q(2)] Cons.prems show ?case by auto
qed simp


text \<open>The trades day by day, each day in the order of time; the live row is carried over between the days.\<close>

definition trade_days :: "trade list \<Rightarrow> trade list list" where
  "trade_days trades = map (\<lambda>d. sort_key t_trade_time (filter (\<lambda>t. t_trading_day t = d) trades))
     (sort (remdups (map t_trading_day trades)))"

fun live_days ::
  "instrument_type \<Rightarrow> int option \<Rightarrow> date \<Rightarrow> datetime \<Rightarrow> position \<Rightarrow> trade list list \<Rightarrow> position result" where
  "live_days it tp nd now p [] = Inr p"
| "live_days it tp nd now p [ts] = rfold (live_trade it tp) p ts"
| "live_days it tp nd now p (ts # days) =
     rbind (rfold (live_trade it tp) p ts) (\<lambda>p1. live_days it tp nd now (carried_over nd now p1) days)"

lemma same_holding_carried:
  "replayed_holding days c p \<Longrightarrow> replayed_holding days (roll_day c) (carried_over nd now p)"
  by (auto simp: replayed_holding_def buckets_ok_def carried_over_def)

lemma same_holding_valid:
  "replayed_holding days c p \<Longrightarrow> available_ok c \<Longrightarrow> validate_projection c = Inr ()"
  by (auto simp: replayed_holding_def buckets_ok_def available_ok_def validate_projection_def projection_valid_def)

lemma live_day_replayed:
  assumes "rfold (live_trade it tp) p (sort_key t_trade_time (filter (\<lambda>t. t_trading_day t = d) trades)) = Inr p'"
    and "list_all (\<lambda>t. 0 < t_trade_volume t) trades" "settlement_days it tp = Inr days" "replayed_holding days c p"
    and "d \<in> t_trading_day ` set trades"
  shows "\<exists>c'. replay_day it tp trades [] c d = Inr c' \<and> replayed_holding days c' p'"
proof -
  let ?ts = "filter (\<lambda>t. t_trading_day t = d) trades"
  have "list_all (\<lambda>t. 0 < t_trade_volume t) (sort_key t_trade_time ?ts)"
    using assms(2) by (auto simp: list_all_iff)
  from live_trades_replayed [OF assms(1) this assms(3,4)] obtain c' where
    c': "rfold (apply_replayed_trade it tp) c (sort_key t_trade_time ?ts) = Inr c'" "replayed_holding days c' p'"
    by blast
  have "?ts \<noteq> []" using assms(5) by (auto simp: filter_empty_conv)
  then have "available_ok c'"
    using day_facts_available_ok [OF c'(1), of "[]" c'] by simp
  with c' same_holding_valid [OF c'(2)] show ?thesis by (simp add: replay_day_def)
qed

lemma live_days_replayed:
  assumes "live_days it tp nd now p
      (map (\<lambda>d. sort_key t_trade_time (filter (\<lambda>t. t_trading_day t = d) trades)) ds) = Inr p'"
    and "list_all (\<lambda>t. 0 < t_trade_volume t) trades" "settlement_days it tp = Inr days" "replayed_holding days c p"
    and "set ds \<subseteq> t_trading_day ` set trades"
  shows "\<exists>c'. replay_days it tp trades [] c ds = Inr c' \<and> replayed_holding days c' p'"
  using assms(1,4,5)
proof (induction ds arbitrary: p c rule: induct_list012)
  case 1
  then show ?case by simp
next
  case (2 d)
  with live_day_replayed [OF _ assms(2,3), of p d p' c] show ?case by auto
next
  case (3 d e ds)
  then obtain p1 where p1: "rfold (live_trade it tp) p (sort_key t_trade_time (filter (\<lambda>t. t_trading_day t = d) trades)) = Inr p1"
    and rest: "live_days it tp nd now (carried_over nd now p1)
      (map (\<lambda>d. sort_key t_trade_time (filter (\<lambda>t. t_trading_day t = d) trades)) (e # ds)) = Inr p'"
    by (auto simp: rbind_Inr_iff)
  from live_day_replayed [OF p1 assms(2,3) "3.prems"(2)] "3.prems"(3) obtain c1 where
    c1: "replay_day it tp trades [] c d = Inr c1" "replayed_holding days c1 p1" by auto
  from "3.IH"(2) [OF rest same_holding_carried [OF c1(2)]] "3.prems"(3) c1(1) show ?case by auto
qed

section \<open>The carried base\<close>

lemma reduced_base_0 [simp]: "reduced_base 0 s b = 0"
  by (simp add: reduced_base_def)

lemma trade_carried_base:
  "apply_replayed_trade it tp c t = Inr c' \<Longrightarrow> cp_yesterday_pnl_base_cost c = 0 \<Longrightarrow>
     cp_yesterday_pnl_base_cost c' = 0 \<and> cp_daily_pnl_base_cost c' = quantize_money (cp_today_pnl_base_cost c')"
  by (cases "t_direction t")
     (auto simp: apply_replayed_trade_def apply_replayed_buy_def apply_replayed_sell_def rbind_Inr_iff Let_def
       refresh_available_and_average_def reduce_bases_def)


definition base_of_today :: "cash_projection \<Rightarrow> bool" where
  "base_of_today c \<longleftrightarrow> cp_yesterday_pnl_base_cost c = 0
     \<and> cp_daily_pnl_base_cost c = quantize_money (cp_today_pnl_base_cost c)"

lemma trades_carried_base:
  "rfold (apply_replayed_trade it tp) c ts = Inr c' \<Longrightarrow> base_of_today c \<Longrightarrow> base_of_today c'"
  by (rule rfold_Inr_invariant [where P = base_of_today]) (auto simp: base_of_today_def dest: trade_carried_base)

lemma replay_day_carried_base:
  "replay_day it tp trades [] c day = Inr c' \<Longrightarrow> base_of_today c \<Longrightarrow> base_of_today c'"
  by (auto simp: replay_day_def rbind_Inr_iff intro: trades_carried_base)

lemma replay_days_carried_base:
  "replay_days it tp trades [] c days = Inr c' \<Longrightarrow> base_of_today c \<Longrightarrow> base_of_today c'"
proof (induction it tp trades "[] :: position_adjustment list" c days rule: replay_days.induct)
  case (3 it tp trades c day d ds)
  then obtain c1 where c1: "replay_day it tp trades [] c day = Inr c1"
    "replay_days it tp trades [] (roll_day c1) (d # ds) = Inr c'" by (auto simp: rbind_Inr_iff)
  from replay_day_carried_base [OF c1(1) 3(3)] have "base_of_today (roll_day c1)"
    by (simp add: base_of_today_def roll_day_def)
  with 3(1) c1 show ?case by blast
qed (auto intro: replay_day_carried_base)

section \<open>The claims\<close>

definition replay_cash_trade :: "string \<Rightarrow> date \<Rightarrow> order_direction \<Rightarrow> int \<Rightarrow> decimal \<Rightarrow> trade" where
  "replay_cash_trade tid day direction volume turnover =
     \<lparr>t_trade_id = tid, t_order_id = ''O9'', t_account_id = ''A1'', t_market_event_id = tid,
      t_market_stream_message_id = ''S9'', t_order_book_id = ''600000'', t_exchange_id = ''SSE'',
      t_symbol = ''600000'', t_trading_day = day, t_instrument_type = STOCK, t_direction = direction,
      t_offset_flag = None, t_trade_price = 10, t_trade_volume = volume, t_turnover = turnover,
      t_margin = 0, t_premium_cash_flow = 0, t_margin_rule_id = None, t_margin_rule_version = None,
      t_margin_calculation_version = None, t_commission = 5, t_realized_pnl = 0,
      t_daily_close_pnl = 0, t_trade_time = 50, t_created_at = 50\<rparr>"

definition replay_cash_row :: position where
  "replay_cash_row = (sample_position 0 0)\<lparr>p_exchange_id := ''SSE'', p_symbol := ''600000'',
     p_order_book_id := ''600000'', p_instrument_type := STOCK, p_position_cost := 0,
     p_multiplier_snapshot := 1\<rparr>"







text \<open>The second volume check of the replay cannot fire: no facts make the available volume disagree.\<close>

theorem cash_replay_available_never_refuted:
  "cash_replay p trades adjustments day tp \<noteq> Inl (DataAccessError ''CASH_SECURITY_REPLAY_AVAILABLE_INVALID'')"
proof -
  let ?ts = "filter (trade_of_position p day) trades"
  let ?rows = "filter (\<lambda>r. aj_effective_trading_day r \<le> day) adjustments"
  have "replay_days it tp ?ts ?rows c (sort (remdups (map t_trading_day ?ts @ map aj_effective_trading_day ?rows)))
      \<noteq> Inl available_invalid" for it c
    by (rule replay_days_error) (simp add: facts_on_def)
  then show ?thesis by (simp add: cash_replay_def Let_def)
qed

end
