(* ===== verification/Position_Margin.thy ===== *)
theory Position_Margin
  imports Option_Margin Outbox_Events Freeze Risk_State Codes Reference_Rules
begin

text \<open>
  The margin of a held short option. \<open>app/services/option_margin_adjustment_service.py\<close> brings the
  margin of a position in line with the latest prices, the daily settlement computes it from the
  settlement prices; both read the rule from the snapshot that the position carries and spread the
  amount over the details. \<open>last_price\<close> is what the tick store answers for an exchange and code: None
  without a tick, when the tick cannot be parsed or when it has no price.
\<close>

section \<open>The rule in the snapshot\<close>

text \<open>
  Numbers in a snapshot are \<open>JInt\<close> or \<open>JDecimal\<close>. A missing key and a null are caught and reported;
  other text is no number: \<open>int\<close> raises ValueError, which is caught, \<open>Decimal\<close> raises
  InvalidOperation, which is not.
\<close>

definition snapshot_incomplete :: app_error where
  "snapshot_incomplete = DataAccessError ''OPTION_MARGIN_SNAPSHOT_INCOMPLETE''"

definition decimal_field :: "payload \<Rightarrow> string \<Rightarrow> decimal result" where
  "decimal_field xs k =
     (case map_of xs k of
        None \<Rightarrow> Inl snapshot_incomplete
      | Some (JDecimal x) \<Rightarrow> Inr x
      | Some (JInt i) \<Rightarrow> Inr (of_int i)
      | Some (JBool b) \<Rightarrow> Inr (if b then 1 else 0)
      | Some JNull \<Rightarrow> Inl snapshot_incomplete
      | Some _ \<Rightarrow> Inl PyRuntimeError)"

definition int_field :: "payload \<Rightarrow> string \<Rightarrow> int result" where
  "int_field xs k =
     (case map_of xs k of
        Some (JInt i) \<Rightarrow> Inr i
      | Some (JBool b) \<Rightarrow> Inr (if b then 1 else 0)
      | _ \<Rightarrow> Inl snapshot_incomplete)"

text \<open>Version and algorithm are written as strings; \<open>str\<close> of any other value is not modelled.\<close>

definition text_field :: "payload \<Rightarrow> string \<Rightarrow> string result" where
  "text_field xs k =
     (case map_of xs k of Some (JString s) \<Rightarrow> Inr s | _ \<Rightarrow> Inl snapshot_incomplete)"

definition snapshot_values :: "rule_snapshot \<Rightarrow> payload" where
  "snapshot_values s = (case s of None \<Rightarrow> [] | Some xs \<Rightarrow> xs)"

definition margin_algorithm_of :: "string \<Rightarrow> margin_algorithm" where
  "margin_algorithm_of s =
     (if s = ''COMMODITY_FUTURES_OPTION'' then COMMODITY_FUTURES_OPTION
      else if s = ''CFFEX_INDEX_OPTION'' then CFFEX_INDEX_OPTION else UnknownAlgorithm s)"

definition rule_of_position :: "position \<Rightarrow> option_margin_rule result" where
  "rule_of_position p =
     (let xs = snapshot_values (p_margin_rule_snapshot p)
      in rbind (int_field xs ''rule_id'') (\<lambda>rule_id.
         rbind (text_field xs ''rule_version'') (\<lambda>version.
         rbind (text_field xs ''margin_algorithm'') (\<lambda>algorithm.
         rbind (decimal_field xs ''margin_adjustment_rate'') (\<lambda>adjustment.
         rbind (decimal_field xs ''minimum_guarantee_rate'') (\<lambda>guarantee.
         rbind (decimal_field xs ''out_of_money_deduction_rate'') (\<lambda>deduction.
         rbind (decimal_field xs ''minimum_underlying_margin_ratio'') (\<lambda>ratio.
         rbind (decimal_field xs ''extra_margin_rate'') (\<lambda>extra.
         Inr \<lparr>mrs_rule_id = rule_id, mrs_rule_version = version,
              mrs_margin_algorithm = margin_algorithm_of algorithm,
              mrs_margin_adjustment_rate = adjustment, mrs_minimum_guarantee_rate = guarantee,
              mrs_out_of_money_deduction_rate = deduction,
              mrs_minimum_underlying_margin_ratio = ratio, mrs_extra_margin_rate = extra\<rparr>)))))))))"

definition commodity_underlying_inputs :: "position \<Rightarrow> (decimal \<times> decimal) result" where
  "commodity_underlying_inputs p =
     (let xs = snapshot_values (p_margin_rule_snapshot p)
      in rbind (decimal_field xs ''underlying_margin_rate'') (\<lambda>rate.
         rbind (decimal_field xs ''underlying_multiplier'') (\<lambda>multiplier. Inr (rate, multiplier))))"

text \<open>
  The seller's margin of the whole position at two prices. \<open>terms\<close> are the option type and strike of
  the contract, or the error that reading them raises.
\<close>

definition seller_margin_of ::
  "(option_type \<times> decimal) result \<Rightarrow> instrument_type \<Rightarrow> string \<Rightarrow> position \<Rightarrow> decimal \<Rightarrow> decimal
   \<Rightarrow> datetime \<Rightarrow> decimal result" where
  "seller_margin_of terms it exchange_id p option_price underlying_price now =
     rbind (rule_of_position p) (\<lambda>rule.
     rbind (if it = FUTURES_OPTION then commodity_underlying_inputs p else Inr (0, 1)) (\<lambda>(rate, multiplier).
     rbind (resolve_option_margin it exchange_id (mrs_margin_algorithm rule)) (\<lambda>calculate.
     rbind terms (\<lambda>(option_type, strike).
     rbind (calculate
       \<lparr>om_option_type = option_type, om_strike_price = strike, om_option_price = option_price,
        om_underlying_price = underlying_price, om_option_multiplier = p_multiplier_snapshot p,
        om_underlying_multiplier = multiplier, om_volume = p_total_volume p,
        om_price_mode = SETTLEMENT, om_calculated_at = now, om_rule = rule,
        om_underlying_margin_per_lot =
          (if it = FUTURES_OPTION then quantize_money (underlying_price * multiplier * rate) else 0)\<rparr>) (\<lambda>res.
     Inr (or_total_margin res))))))"

section \<open>Spreading an amount over the details\<close>

text \<open>
  Every active detail takes its share by volume, the last one what is left, so that the shares add up
  to the amount although each is rounded.
\<close>

fun margin_shares :: "decimal \<Rightarrow> int \<Rightarrow> decimal \<Rightarrow> detail list \<Rightarrow> decimal list" where
  "margin_shares amount volume left [] = []"
| "margin_shares amount volume left [x] = [left]"
| "margin_shares amount volume left (x # xs) =
     (let share = quantize_money (amount * of_int (d_remaining_volume x) / of_int volume)
      in share # margin_shares amount volume (quantize_money (left - share)) xs)"

definition active_details :: "detail list \<Rightarrow> detail list" where
  "active_details details = filter (\<lambda>x. 0 < d_remaining_volume x) details"

definition held_volume :: "detail list \<Rightarrow> int" where
  "held_volume details = (\<Sum>x \<leftarrow> details. d_remaining_volume x)"

section \<open>\<open>OptionMarginAdjustmentService.adjust\<close>\<close>

definition get_position_by_id :: "db \<Rightarrow> string \<Rightarrow> position option" where
  "get_position_by_id d pid = find_row p_position_id pid (db_positions d)"

definition instrument_key :: "instrument \<Rightarrow> string \<times> string" where
  "instrument_key ins = (normalize_text (i_exchange_id ins), normalize_text (i_order_book_id ins))"

definition usable_price :: "decimal option \<Rightarrow> decimal result" where
  "usable_price price =
     (case price of
        Some x \<Rightarrow> if 0 < x then Inr x else Inl (DataAccessError ''OPTION_MARGIN_PRICE_UNAVAILABLE'')
      | None \<Rightarrow> Inl (DataAccessError ''OPTION_MARGIN_PRICE_UNAVAILABLE''))"

definition instrument_terms :: "instrument \<Rightarrow> (option_type \<times> decimal) result" where
  "instrument_terms ins =
     (case i_option_type ins of
        None \<Rightarrow> Inl PyValueError
      | Some ot \<Rightarrow> (case i_strike_price ins of None \<Rightarrow> Inl PyTypeError | Some k \<Rightarrow> Inr (ot, k)))"

text \<open>The rows that the adjustment locks, and the prices and the margin it computes from them.\<close>

record margin_target =
  mt_account :: account
  mt_position :: position
  mt_details :: "detail list"
  mt_option_price :: decimal
  mt_underlying_price :: decimal
  mt_required :: decimal

definition locate_margin_target ::
  "(string \<times> string \<Rightarrow> decimal option) \<Rightarrow> datetime \<Rightarrow> db \<Rightarrow> string \<Rightarrow> string \<Rightarrow> margin_target result" where
  "locate_margin_target last_price now d account_id position_id =
     (case get_account d account_id of
        None \<Rightarrow> Inl (DataAccessError ''ACCOUNT_NOT_FOUND'')
      | Some a \<Rightarrow>
        (case get_position_by_id d position_id of
           None \<Rightarrow> Inl (DataAccessError ''OPTION_MARGIN_POSITION_INVALID'')
         | Some p \<Rightarrow>
           if p_account_id p \<noteq> account_id \<or> p_instrument_type p \<notin> {FUTURES_OPTION, INDEX_OPTION}
              \<or> p_direction p \<noteq> SHORT
           then Inl (DataAccessError ''OPTION_MARGIN_POSITION_INVALID'')
           else
             let details = list_open_details (db_details d) position_id;
                 multiplier = p_multiplier_snapshot p
             in if multiplier \<le> 0 \<or> list_ex (\<lambda>x. d_multiplier_snapshot x \<noteq> multiplier) (active_details details)
                then Inl (DataAccessError ''OPTION_MARGIN_MULTIPLIER_INCONSISTENT'')
                else
                  (case get_instrument d (p_order_book_id p) of
                     None \<Rightarrow> Inl (DataAccessError ''OPTION_UNDERLYING_NOT_FOUND'')
                   | Some ins \<Rightarrow>
                     (case Option.bind (i_underlying_instrument_id ins) (get_instrument_by_id d) of
                        None \<Rightarrow> Inl (DataAccessError ''OPTION_UNDERLYING_NOT_FOUND'')
                      | Some underlying \<Rightarrow>
                          rbind (usable_price (last_price (instrument_key ins))) (\<lambda>option_price.
                          rbind (usable_price (last_price (instrument_key underlying))) (\<lambda>underlying_price.
                          rbind (seller_margin_of (instrument_terms ins) (p_instrument_type p) (i_exchange_id ins)
                                   p option_price underlying_price now) (\<lambda>required.
                          Inr \<lparr>mt_account = a, mt_position = p, mt_details = details,
                               mt_option_price = option_price, mt_underlying_price = underlying_price,
                               mt_required = required\<rparr>)))))))"

definition account_valuation_input :: "decimal \<Rightarrow> account \<Rightarrow> valuation_input" where
  "account_valuation_input collateral_ratio a =
     \<lparr>v_cash_balance = a_cash_balance a, v_futures_unrealized_pnl = a_unrealized_pnl a,
      v_long_option_market_value = a_long_option_market_value a,
      v_short_option_market_value = a_short_option_market_value a,
      v_used_margin = a_used_margin a, v_option_used_margin = a_option_used_margin a,
      v_option_realtime_required_margin = a_option_realtime_required_margin a,
      v_frozen_margin = a_frozen_margin a, v_frozen_cash = a_frozen_cash a,
      v_frozen_commission = a_frozen_commission a, v_option_collateral_ratio = collateral_ratio\<rparr>"

definition margin_consistent :: "margin_target \<Rightarrow> unit result" where
  "margin_consistent t =
     (let p = mt_position t; active = active_details (mt_details t)
      in if list_ex (\<lambda>x. d_margin_rule_id x \<noteq> p_margin_rule_id p
              \<or> d_margin_rule_version x \<noteq> p_margin_rule_version p
              \<or> snapshot_values (d_margin_rule_snapshot x) \<noteq> snapshot_values (p_margin_rule_snapshot p)) active
         then Inl (DataAccessError ''OPTION_MARGIN_RULE_INCONSISTENT'')
         else if held_volume active \<noteq> p_total_volume p
         then Inl (DataAccessError ''OPTION_MARGIN_POSITION_INCONSISTENT'')
         else Inr ())"

definition margin_required_account :: "margin_target \<Rightarrow> account" where
  "margin_required_account t =
     (mt_account t)\<lparr>a_option_realtime_required_margin := quantize_money
        (a_option_realtime_required_margin (mt_account t) - p_realtime_required_margin (mt_position t)
         + mt_required t)\<rparr>"

definition margin_priced_position :: "datetime \<Rightarrow> margin_target \<Rightarrow> position" where
  "margin_priced_position now t =
     (mt_position t)\<lparr>p_realtime_required_margin := mt_required t,
        p_margin_price_mode := Some SETTLEMENT,
        p_margin_underlying_price := Some (mt_underlying_price t),
        p_margin_option_price := Some (mt_option_price t),
        p_margin_calculated_at := Some now, p_updated_at := now\<rparr>"

definition shared :: "(decimal \<Rightarrow> detail \<Rightarrow> detail) \<Rightarrow> decimal \<Rightarrow> detail list \<Rightarrow> detail list" where
  "shared f amount active = map2 f (margin_shares amount (held_volume active) amount active) active"

text \<open>Not enough money for more margin: only the realtime requirement is recorded.\<close>

definition margin_deficit_step ::
  "datetime \<Rightarrow> account_valuation_result \<Rightarrow> margin_target \<Rightarrow> account \<times> position \<times> detail list" where
  "margin_deficit_step now v t =
     (let a = margin_required_account t
      in (a\<lparr>a_available_cash := vr_available_cash v, a_risk_available_cash := vr_risk_available_cash v,
            a_equity := vr_equity v, a_net_option_market_value := vr_net_option_market_value v,
            a_risk_state := preserve_for_local_update (a_risk_state a) False True, a_updated_at := now\<rparr>,
          margin_priced_position now t,
          shared (\<lambda>share x. x\<lparr>d_realtime_required_margin := share\<rparr>) (mt_required t)
            (active_details (mt_details t))))"

text \<open>The margin of the position, its details and its account becomes what is required.\<close>

definition margin_moved_account :: "margin_target \<Rightarrow> account" where
  "margin_moved_account t =
     (let a = margin_required_account t; delta = quantize_money (mt_required t - p_used_margin (mt_position t))
      in a\<lparr>a_used_margin := quantize_money (a_used_margin a + delta),
           a_option_used_margin := quantize_money (a_option_used_margin a + delta)\<rparr>)"

definition margin_adjusted_step ::
  "decimal \<Rightarrow> datetime \<Rightarrow> margin_target \<Rightarrow> (account \<times> position \<times> detail list) result" where
  "margin_adjusted_step collateral_ratio now t =
     (let a = margin_moved_account t; v = account_valuation (account_valuation_input collateral_ratio a)
      in if a_used_margin a < 0 \<or> a_option_used_margin a < 0
         then Inl (DataAccessError ''OPTION_MARGIN_ACCOUNT_INCONSISTENT'')
         else Inr (a\<lparr>a_available_cash := vr_available_cash v,
                     a_risk_available_cash := vr_risk_available_cash v, a_equity := vr_equity v,
                     a_risk_state := preserve_for_local_update (a_risk_state a) False
                       (vr_risk_available_cash v < 0),
                     a_updated_at := now\<rparr>,
                   (margin_priced_position now t)\<lparr>p_used_margin := mt_required t\<rparr>,
                   shared (\<lambda>share x. x\<lparr>d_remaining_margin := share, d_realtime_required_margin := share\<rparr>)
                     (mt_required t) (active_details (mt_details t))))"

text \<open>The events: of the account when the margin moved, of the position when anything did.\<close>

definition margin_events ::
  "string \<Rightarrow> string \<Rightarrow> datetime \<Rightarrow> bool \<Rightarrow> bool \<Rightarrow> account \<Rightarrow> position \<Rightarrow> outbox_event list" where
  "margin_events account_fact position_fact now account_moved position_moved a p =
     (if account_moved
      then [create_account_updated account_fact a now None None (Some ''OPTION_MARGIN_ADJUSTMENT'') False] else [])
     @ (if position_moved
        then [create_position_updated position_fact p now (Some ''OPTION_MARGIN_ADJUSTMENT'')] else [])"

definition write_margin :: "account \<times> position \<times> detail list \<Rightarrow> db \<Rightarrow> db" where
  "write_margin rows d = (case rows of (a, p, details) \<Rightarrow> put_details details (put_position p (put_account a d)))"

text \<open>More margin is only taken when the account can pay for it; margin is always released.\<close>

definition adjust_margin_target ::
  "decimal \<Rightarrow> datetime \<Rightarrow> string \<Rightarrow> string \<Rightarrow> db \<Rightarrow> margin_target \<Rightarrow> db result" where
  "adjust_margin_target collateral_ratio now account_fact position_fact d t =
     (let p = mt_position t; required = mt_required t;
          delta = quantize_money (required - p_used_margin p);
          proposed = account_valuation (account_valuation_input collateral_ratio (margin_required_account t))
      in if 0 < delta \<and> vr_risk_available_cash proposed < 0 then
           (let rows = margin_deficit_step now proposed t
            in Inr (add_events (margin_events account_fact position_fact now False
                      (required \<noteq> p_realtime_required_margin p) (fst rows) (fst (snd rows)))
                    (write_margin rows d)))
         else
           rbind (margin_adjusted_step collateral_ratio now t) (\<lambda>rows.
           Inr (add_events (margin_events account_fact position_fact now (delta \<noteq> 0)
                  (delta \<noteq> 0 \<or> required \<noteq> p_realtime_required_margin p) (fst rows) (fst (snd rows)))
                (write_margin rows d))))"

definition adjust_position_margin ::
  "decimal \<Rightarrow> (string \<times> string \<Rightarrow> decimal option) \<Rightarrow> datetime \<Rightarrow> string \<Rightarrow> string \<Rightarrow> db \<Rightarrow> string \<Rightarrow> string
   \<Rightarrow> db result" where
  "adjust_position_margin collateral_ratio last_price now account_fact position_fact d account_id position_id =
     rbind (ensure_trading_open (db_batches d) None) (\<lambda>_.
     rbind (locate_margin_target last_price now d account_id position_id) (\<lambda>t.
     rbind (margin_consistent t) (\<lambda>_.
     adjust_margin_target collateral_ratio now account_fact position_fact d t)))"

end
