(* ===== verification/Position_Margin_Book.thy ===== *)
theory Position_Margin_Book
  imports Position_Margin Settlement_Ledger Sums
begin

text \<open>
  The adjustment keeps the margin ledger: the shares of the details add up exactly, so the position,
  its details and the account move by the same amount. What the order wrote into the rule snapshot is
  what the adjustment reads from it.
\<close>

section \<open>Shares\<close>

lemma margin_shares_length [simp]: "length (margin_shares amount volume left xs) = length xs"
  by (induction amount volume left xs rule: margin_shares.induct) (simp_all add: Let_def)

lemma margin_shares_sum:
  "xs \<noteq> [] \<Longrightarrow> is_money left \<Longrightarrow> sum_list (margin_shares amount volume left xs) = left"
proof (induction amount volume left xs rule: margin_shares.induct)
  case (3 amount volume left x y xs)
  let ?share = "quantize_money (amount * of_int (d_remaining_volume x) / of_int volume)"
  have "is_money (left - ?share)" using 3(3) by (intro is_money_diff) simp_all
  with 3(1) [OF refl] show ?case by (simp add: Let_def)
qed simp_all

lemma margin_shares_money:
  "is_money left \<Longrightarrow> s \<in> set (margin_shares amount volume left xs) \<Longrightarrow> is_money s"
  by (induction amount volume left xs rule: margin_shares.induct) (auto simp: Let_def)

section \<open>The margin of positions\<close>

text \<open>
  A position uses the margin that its details carry, which belong to its account; a closed detail
  carries none.
\<close>

definition position_margin_ok :: "db \<Rightarrow> bool" where
  "position_margin_ok d \<longleftrightarrow>
     (\<forall>p \<in> set (db_positions d). is_derivative (p_instrument_type p) \<longrightarrow>
        p_used_margin p = sum_of (of_position (p_position_id p)) d_remaining_margin (db_details d)
        \<and> (\<forall>x \<in> set (db_details d). d_position_id x = p_position_id p \<longrightarrow> d_account_id x = p_account_id p))
     \<and> (\<forall>x \<in> set (db_details d). is_money (d_remaining_margin x) \<and> 0 \<le> d_remaining_volume x
          \<and> (d_remaining_volume x = 0 \<longrightarrow> d_remaining_margin x = 0))"

lemma results_money: "is_money (or_total_margin (commodity_result q))" "is_money (or_total_margin (cffex_result q))"
  by (simp_all add: commodity_result_def cffex_result_def Let_def)

lemma calculators_money:
  "commodity_margin q = Inr r \<Longrightarrow> is_money (or_total_margin r) \<and> 0 < om_volume q"
  "cffex_margin q = Inr r \<Longrightarrow> is_money (or_total_margin r) \<and> 0 < om_volume q"
  using results_money [of q]
  by (auto simp: commodity_margin_def cffex_margin_def commodity_validate_def split: if_split_asm)

lemma seller_margin_money:
  assumes "seller_margin_of terms it ex p op up now = Inr m"
  shows "is_money m \<and> 0 < p_total_volume p"
proof -
  let ?inputs = "if it = FUTURES_OPTION then commodity_underlying_inputs p else Inr (0, 1)"
  obtain rule where rule: "rule_of_position p = Inr rule"
    using assms by (cases "rule_of_position p") (simp_all add: seller_margin_of_def)
  obtain rate mult where inputs: "?inputs = Inr (rate, mult)"
    using assms rule by (cases ?inputs) (auto simp only: seller_margin_of_def rbind_simps)
  obtain calc where calc: "resolve_option_margin it ex (mrs_margin_algorithm rule) = Inr calc"
    using assms rule inputs
    by (cases "resolve_option_margin it ex (mrs_margin_algorithm rule)")
       (auto simp only: seller_margin_of_def rbind_simps prod.case)
  obtain ot strike where terms: "terms = Inr (ot, strike)"
    using assms rule inputs calc by (cases terms) (auto simp only: seller_margin_of_def rbind_simps prod.case)
  obtain q res where "calc q = Inr res" "om_volume q = p_total_volume p" "m = or_total_margin res"
    using assms [unfolded seller_margin_of_def rule inputs calc terms rbind_simps prod.case rbind_Inr_iff]
    by (elim exE conjE) (erule that, simp, simp)
  moreover have "calc = commodity_margin \<or> calc = cffex_margin"
    using calc by (auto simp: resolve_option_margin_def split: if_split_asm)
  ultimately show ?thesis using calculators_money [of q res] by auto
qed

lemma locate_margin_target_Inr:
  assumes loc: "locate_margin_target last_price now d aid pid = Inr t"
  obtains "get_account d aid = Some (mt_account t)" "mt_position t \<in> set (db_positions d)"
    "p_position_id (mt_position t) = pid" "p_account_id (mt_position t) = aid"
    "p_instrument_type (mt_position t) \<in> {FUTURES_OPTION, INDEX_OPTION}"
    "mt_details t = list_open_details (db_details d) pid" "is_money (mt_required t)"
    "0 < p_total_volume (mt_position t)"
proof -
  obtain a where a: "get_account d aid = Some a"
    using loc by (cases "get_account d aid") (simp_all add: locate_margin_target_def)
  obtain p where p: "get_position_by_id d pid = Some p"
    using loc a by (cases "get_position_by_id d pid") (simp_all add: locate_margin_target_def)
  have guard: "p_account_id p = aid" "p_instrument_type p \<in> {FUTURES_OPTION, INDEX_OPTION}"
    using loc a p by (auto simp: locate_margin_target_def split: if_split_asm)
  have found: "p \<in> set (db_positions d)" "p_position_id p = pid"
    using find_row_SomeD [OF p [unfolded get_position_by_id_def]] by auto
  note steps = loc [unfolded locate_margin_target_def a p option.case Let_def]
  obtain ins where ins: "get_instrument d (p_order_book_id p) = Some ins"
    using steps by (cases "get_instrument d (p_order_book_id p)") (simp_all split: if_split_asm)
  obtain underlying where
    underlying: "Option.bind (i_underlying_instrument_id ins) (get_instrument_by_id d) = Some underlying"
    using steps [unfolded ins option.case]
    by (cases "Option.bind (i_underlying_instrument_id ins) (get_instrument_by_id d)")
       (simp_all split: if_split_asm)
  from steps [unfolded ins underlying option.case] obtain op up required where
    "seller_margin_of (instrument_terms ins) (p_instrument_type p) (i_exchange_id ins) p op up now = Inr required"
    and "t = \<lparr>mt_account = a, mt_position = p, mt_details = list_open_details (db_details d) pid,
       mt_option_price = op, mt_underlying_price = up, mt_required = required\<rparr>"
    by (auto simp: rbind_Inr_iff split: if_split_asm)
  with seller_margin_money [of "instrument_terms ins" "p_instrument_type p" "i_exchange_id ins" p op up now required]
    a guard found show thesis by (intro that) simp_all
qed

text \<open>Moving the active details of one position to new margins.\<close>

lemma active_open_details: "active_details (list_open_details xs pid) = list_open_details xs pid"
  by (auto simp: active_details_def list_open_details_def intro!: filter_cong)

lemma open_details_margin:
  assumes "position_margin_ok d"
  shows "(\<Sum>x \<leftarrow> list_open_details (db_details d) pid. d_remaining_margin x)
    = sum_of (of_position pid) d_remaining_margin (db_details d)"
proof -
  have "sum_of (of_position pid) d_remaining_margin (filter (\<lambda>x. 0 < d_remaining_volume x) (db_details d))
      = sum_of (of_position pid) d_remaining_margin (db_details d)"
    using assms by (intro sum_of_scope) (force simp: position_margin_ok_def)
  then show ?thesis
    by (simp add: sum_of_filter list_open_details_def of_position_def conj_commute)
qed

text \<open>One position, its open details and its account are rewritten; the money moves together.\<close>

lemma margin_move_keeps_ledger:
  assumes ok: "position_margin_ok d" "margin_backed d" and keys: "keys_ok d"
    and a: "get_account d (p_account_id p) = Some a" and p: "p \<in> set (db_positions d)" "is_derivative (p_instrument_type p)"
    and shares: "length shares = length (list_open_details (db_details d) (p_position_id p))"
      "\<forall>x \<in> set shares. is_money x" "sum_list shares = p_used_margin p'"
    and moved: "a_account_id a' = a_account_id a" "a_used_margin a' = a_used_margin a + (p_used_margin p' - p_used_margin p)"
      "p_position_id p' = p_position_id p" "p_account_id p' = p_account_id p"
      "p_instrument_type p' = p_instrument_type p"
    and u: "\<And>s x. d_remaining_margin (u s x) = s" "\<And>s x. d_position_detail_id (u s x) = d_position_detail_id x"
      "\<And>s x. d_position_id (u s x) = d_position_id x" "\<And>s x. d_account_id (u s x) = d_account_id x"
      "\<And>s x. d_remaining_volume (u s x) = d_remaining_volume x"
    and d': "db_accounts d' = replace_row a_account_id a' (db_accounts d)"
      "db_positions d' = replace_row p_position_id p' (db_positions d)"
      "db_details d' = fold (replace_row d_position_detail_id)
         (map2 u shares (list_open_details (db_details d) (p_position_id p))) (db_details d)"
  shows "position_margin_ok d' \<and> margin_backed d'"
proof -
  let ?pid = "p_position_id p" and ?rows = "db_details d"
  let ?open = "list_open_details ?rows ?pid"
  have ks: "distinct (map d_position_detail_id ?rows)" "distinct (map a_account_id (db_accounts d))"
    "distinct (map p_position_id (db_positions d))" using keys by (simp_all add: keys_ok_def)
  have op: "distinct (map d_position_detail_id ?open)"
    using ks(1) by (simp add: list_open_details_def distinct_map_filter)
  have own: "d_account_id x = p_account_id p" if "x \<in> set ?open" for x
    using ok(1) p that by (auto simp: position_margin_ok_def list_open_details_def)
  have put: "sum_of P d_remaining_margin (db_details d') = sum_of P d_remaining_margin ?rows
      + (\<Sum>(x, y) \<leftarrow> zip ?open (map2 u shares ?open). if P x then d_remaining_margin y - d_remaining_margin x else 0)"
    if "\<And>s x. P (u s x) = P x" for P
    unfolding d'(3) using shares(1) that u(2)
    by (intro sum_of_put [OF ks(1) op] list_all2_map2) (auto simp: list_open_details_def)
  have used: "p_used_margin p = (\<Sum>x \<leftarrow> ?open. d_remaining_margin x)"
    using ok(1) p by (auto simp: open_details_margin [OF ok(1)] position_margin_ok_def)
  have inside: "sum_of P d_remaining_margin (db_details d')
      = sum_of P d_remaining_margin ?rows + (p_used_margin p' - p_used_margin p)"
    if "\<And>s x. P (u s x) = P x" "\<And>x. x \<in> set ?open \<Longrightarrow> P x" for P
    using put [OF that(1)] sum_zip_map2 [of shares ?open P d_remaining_margin u, OF shares(1) that(2) u(1)] shares(3) used
    by simp
  have outside: "sum_of P d_remaining_margin (db_details d') = sum_of P d_remaining_margin ?rows"
    if "\<And>s x. P (u s x) = P x" "\<And>x. x \<in> set ?open \<Longrightarrow> \<not> P x" for P
    using put [OF that(1)] sum_zip_false [of ?open P, OF that(2)] by simp
  have backed: "margin_backed d'"
  proof (rule margin_backed_account [OF ok(2) ks(2) a d'(1) moved(1) moved(2)])
    show "sum_of (\<lambda>dt. d_account_id dt = p_account_id p) d_remaining_margin (db_details d')
        = sum_of (\<lambda>dt. d_account_id dt = p_account_id p) d_remaining_margin (db_details d)
          + (p_used_margin p' - p_used_margin p)"
      by (rule inside) (auto simp: u(4) own)
    show "\<forall>b. b \<noteq> p_account_id p \<longrightarrow>
        sum_of (\<lambda>dt. d_account_id dt = b) d_remaining_margin (db_details d')
          = sum_of (\<lambda>dt. d_account_id dt = b) d_remaining_margin (db_details d)"
      by (intro allI impI outside) (auto simp: u(4) own)
  qed
  have each: "\<exists>y \<in> set ?rows. d_position_id x = d_position_id y \<and> d_account_id x = d_account_id y
      \<and> d_remaining_volume x = d_remaining_volume y
      \<and> (x = y \<or> 0 < d_remaining_volume y \<and> d_remaining_margin x \<in> set shares)"
    if "x \<in> set (db_details d')" for x
  proof (cases "x \<in> set ?rows")
    case False
    then have "x \<in> set (map2 u shares ?open)" using that set_fold_replace [of x] unfolding d'(3) by blast
    then obtain s y where "x = u s y" "s \<in> set shares" "y \<in> set ?open"
      by (auto dest: set_zip_leftD set_zip_rightD)
    with u show ?thesis by (intro bexI [of _ y]) (auto simp: list_open_details_def)
  qed auto
  have linked: "d_account_id x = p_account_id q"
    if "x \<in> set (db_details d')" "q \<in> set (db_positions d)" "is_derivative (p_instrument_type q)"
      "d_position_id x = p_position_id q" for x q
    using each [OF that(1)] ok(1) that by (fastforce simp: position_margin_ok_def)
  have "p_used_margin p' = sum_of (of_position ?pid) d_remaining_margin (db_details d')"
    using inside [of "of_position ?pid"] ok(1) p by (auto simp: of_position_def u(3) list_open_details_def position_margin_ok_def)
  moreover have "p_used_margin q = sum_of (of_position (p_position_id q)) d_remaining_margin (db_details d')"
    if "q \<in> set (db_positions d)" "is_derivative (p_instrument_type q)" "p_position_id q \<noteq> ?pid" for q
    using outside [of "of_position (p_position_id q)"] ok(1) that
    by (auto simp: of_position_def u(3) list_open_details_def position_margin_ok_def)
  moreover have "is_money (d_remaining_margin x) \<and> 0 \<le> d_remaining_volume x
      \<and> (d_remaining_volume x = 0 \<longrightarrow> d_remaining_margin x = 0)" if "x \<in> set (db_details d')" for x
    using each [OF that] ok(1) shares(2) by (auto simp: position_margin_ok_def)
  ultimately have "position_margin_ok d'"
    using p moved(3-5) linked unfolding position_margin_ok_def d'(2) replace_row_def by auto
  from this backed show ?thesis ..
qed


section \<open>\<open>adjust\<close>\<close>

lemma adjusted_rows:
  assumes "margin_adjusted_step ratio now t = Inr (a', p', details')"
  shows "a_account_id a' = a_account_id (mt_account t)"
    "a_used_margin a' = quantize_money (a_used_margin (mt_account t)
       + quantize_money (mt_required t - p_used_margin (mt_position t)))"
    "p_position_id p' = p_position_id (mt_position t)" "p_account_id p' = p_account_id (mt_position t)"
    "p_instrument_type p' = p_instrument_type (mt_position t)" "p_used_margin p' = mt_required t"
    "details' = shared (\<lambda>share x. x\<lparr>d_remaining_margin := share, d_realtime_required_margin := share\<rparr>)
       (mt_required t) (active_details (mt_details t))"
  using assms
  by (auto simp: margin_adjusted_step_def Let_def margin_moved_account_def margin_required_account_def
      margin_priced_position_def split: if_split_asm)

lemma deficit_rows:
  assumes "margin_deficit_step now v t = (a', p', details')"
  shows "a_account_id a' = a_account_id (mt_account t)" "a_used_margin a' = a_used_margin (mt_account t)"
    "p_position_id p' = p_position_id (mt_position t)" "p_account_id p' = p_account_id (mt_position t)"
    "p_instrument_type p' = p_instrument_type (mt_position t)" "p_used_margin p' = p_used_margin (mt_position t)"
    "details' = shared (\<lambda>share x. x\<lparr>d_realtime_required_margin := share\<rparr>)
       (mt_required t) (active_details (mt_details t))"
  using assms
  by (auto simp: margin_deficit_step_def Let_def margin_required_account_def margin_priced_position_def)

lemma write_margin_tables:
  "db_accounts (add_events es (write_margin (a', p', xs) d)) = replace_row a_account_id a' (db_accounts d)"
  "db_positions (add_events es (write_margin (a', p', xs) d)) = replace_row p_position_id p' (db_positions d)"
  "db_details (add_events es (write_margin (a', p', xs) d)) = fold (replace_row d_position_detail_id) xs (db_details d)"
  by (simp_all add: write_margin_def put_defs)

lemma adjusted_keeps_ledger:
  assumes step: "margin_adjusted_step ratio now t = Inr (a', p', details')"
    and target: "locate_margin_target last_price now d aid pid = Inr t" and consistent: "margin_consistent t = Inr ()"
    and ok: "position_margin_ok d" "margin_backed d" "keys_ok d"
  shows "position_margin_ok (add_events es (write_margin (a', p', details') d))
    \<and> margin_backed (add_events es (write_margin (a', p', details') d))"
proof -
  let ?p = "mt_position t" and ?open = "list_open_details (db_details d) pid"
  note r = adjusted_rows [OF step]
  obtain "get_account d aid = Some (mt_account t)" and p: "?p \<in> set (db_positions d)" "p_position_id ?p = pid"
    "p_account_id ?p = aid" "p_instrument_type ?p \<in> {FUTURES_OPTION, INDEX_OPTION}"
    "mt_details t = ?open" "is_money (mt_required t)" "0 < p_total_volume ?p"
    by (rule locate_margin_target_Inr [OF target])
  then have a: "get_account d (p_account_id ?p) = Some (mt_account t)" by simp
  have derivative: "is_derivative (p_instrument_type ?p)"
    using p(4) by (auto simp: is_derivative_def cash_security_instrument_types_def)
  have "held_volume ?open = p_total_volume ?p"
    using consistent by (auto simp: margin_consistent_def Let_def p(5) active_open_details split: if_split_asm)
  with p(7) have "?open \<noteq> []" by (auto simp: held_volume_def)
  define shares where "shares = margin_shares (mt_required t) (held_volume ?open) (mt_required t) ?open"
  have shares: "length shares = length ?open" "\<forall>x \<in> set shares. is_money x" "sum_list shares = p_used_margin p'"
    using margin_shares_sum [OF \<open>?open \<noteq> []\<close> p(6)] margin_shares_money [OF p(6)] r(6) by (auto simp: shares_def)
  have "p_used_margin ?p = (\<Sum>x \<leftarrow> ?open. d_remaining_margin x)"
    using ok(1) p(1,2) derivative by (auto simp: open_details_margin [OF ok(1)] position_margin_ok_def)
  then have "is_money (p_used_margin ?p)"
    using ok(1) by (auto simp: position_margin_ok_def list_open_details_def intro!: is_money_sum_list)
  moreover have "is_money (a_used_margin (mt_account t))"
    using find_row_SomeD [OF a [unfolded get_account_def]] ok(1,2)
    by (auto simp: margin_backed_def position_margin_ok_def intro!: money_sum_of)
  ultimately have "a_used_margin a' = a_used_margin (mt_account t) + (p_used_margin p' - p_used_margin ?p)"
    using p(6) r(2,6) by (simp add: is_money_add is_money_diff)
  with shares p derivative show ?thesis
    by (intro margin_move_keeps_ledger [OF ok(1,2,3) a p(1) derivative, of shares p' a'
          "\<lambda>share x. x\<lparr>d_remaining_margin := share, d_realtime_required_margin := share\<rparr>"])
       (simp_all add: r write_margin_tables shared_def active_open_details shares_def)
qed


text \<open>When the money is short only the realtime requirement of the details changes.\<close>

definition margin_view :: "detail \<Rightarrow> string \<times> string \<times> decimal \<times> int" where
  "margin_view x = (d_position_id x, d_account_id x, d_remaining_margin x, d_remaining_volume x)"

lemma map_view_put:
  assumes "distinct (map key rows)" "\<forall>y \<in> set news. \<exists>x \<in> set rows. key y = key x \<and> view y = view x"
  shows "map view (fold (replace_row key) news rows) = map view rows"
  using assms
proof (induction news arbitrary: rows)
  case (Cons y news)
  then obtain x where x: "x \<in> set rows" "key y = key x" "view y = view x" by auto
  have same: "map view (replace_row key y rows) = map view rows"
    using Cons.prems(1) x distinct_key_eq [OF Cons.prems(1) _ x(1)] by (auto simp: replace_row_def)
  have "\<exists>w \<in> set (replace_row key y rows). key z = key w \<and> view z = view w" if "z \<in> set news" for z
  proof -
    from Cons.prems(2) that obtain w where w: "w \<in> set rows" "key z = key w" "view z = view w" by auto
    show ?thesis
    proof (cases "key w = key y")
      case True
      with w x distinct_key_eq [OF Cons.prems(1) w(1) x(1)] have "w = x" by simp
      with w x show ?thesis by (intro bexI [of _ y]) (auto simp: replace_row_def intro: image_eqI [of _ _ x])
    next
      case False
      with w show ?thesis by (intro bexI [of _ w]) (auto simp: replace_row_def intro: image_eqI [of _ _ w])
    qed
  qed
  with Cons.IH [of "replace_row key y rows"] Cons.prems(1) same show ?case by simp
qed simp

lemma sums_by_view:
  "sum_of (of_position k) d_remaining_margin xs = sum_of (\<lambda>v. fst v = k) (\<lambda>v. fst (snd (snd v))) (map margin_view xs)"
  "sum_of (\<lambda>x. d_account_id x = k) d_remaining_margin xs
     = sum_of (\<lambda>v. fst (snd v) = k) (\<lambda>v. fst (snd (snd v))) (map margin_view xs)"
  by (induction xs) (simp_all add: margin_view_def of_position_def)

lemma position_margin_by_view:
  "position_margin_ok d \<longleftrightarrow>
     (\<forall>p \<in> set (db_positions d). is_derivative (p_instrument_type p) \<longrightarrow>
        p_used_margin p = sum_of (\<lambda>v. fst v = p_position_id p) (\<lambda>v. fst (snd (snd v))) (map margin_view (db_details d))
        \<and> (\<forall>v \<in> set (map margin_view (db_details d)). fst v = p_position_id p \<longrightarrow> fst (snd v) = p_account_id p))
     \<and> (\<forall>v \<in> set (map margin_view (db_details d)). is_money (fst (snd (snd v))) \<and> 0 \<le> snd (snd (snd v))
          \<and> (snd (snd (snd v)) = 0 \<longrightarrow> fst (snd (snd v)) = 0))"
  by (simp add: position_margin_ok_def sums_by_view margin_view_def)

lemma deficit_keeps_ledger:
  assumes step: "margin_deficit_step now v t = (a', p', details')"
    and target: "locate_margin_target last_price now d aid pid = Inr t"
    and ok: "position_margin_ok d" "margin_backed d" "keys_ok d"
  shows "position_margin_ok (add_events es (write_margin (a', p', details') d))
    \<and> margin_backed (add_events es (write_margin (a', p', details') d))"
proof -
  let ?d = "add_events es (write_margin (a', p', details') d)"
  let ?p = "mt_position t" and ?open = "list_open_details (db_details d) pid"
  note r = deficit_rows [OF step]
  obtain a: "get_account d aid = Some (mt_account t)" and p: "?p \<in> set (db_positions d)" "mt_details t = ?open"
    by (rule locate_margin_target_Inr [OF target])
  have ks: "distinct (map d_position_detail_id (db_details d))" using ok(3) by (simp add: keys_ok_def)
  have "\<forall>y \<in> set details'. \<exists>x \<in> set (db_details d). d_position_detail_id y = d_position_detail_id x
      \<and> margin_view y = margin_view x"
    unfolding r(7) shared_def p(2) active_open_details
    by (auto simp: margin_view_def list_open_details_def dest!: set_zip_rightD)
  from map_view_put [OF ks this]
  have view: "map margin_view (db_details ?d) = map margin_view (db_details d)" by (simp only: write_margin_tables)
  have "position_margin_ok ?d"
    using ok(1) p(1) r(3-6) unfolding position_margin_by_view view write_margin_tables(1,2) replace_row_def by auto
  moreover have "margin_backed ?d"
    using ok(2) find_row_SomeD [OF a [unfolded get_account_def]] r(1,2)
    unfolding margin_backed_def sums_by_view view write_margin_tables(1,2) replace_row_def by auto
  ultimately show ?thesis ..
qed

section \<open>A short option\<close>

text \<open>Two lots of a short index option in two details, with the margin of old prices.\<close>

definition short_sample_snapshot :: rule_snapshot where
  "short_sample_snapshot = Some (option_rule_to_json_mapping
     \<lparr>mrs_rule_id = 1, mrs_rule_version = ''1'', mrs_margin_algorithm = CFFEX_INDEX_OPTION,
      mrs_margin_adjustment_rate = 1/10, mrs_minimum_guarantee_rate = 1/2,
      mrs_out_of_money_deduction_rate = 0, mrs_minimum_underlying_margin_ratio = 0,
      mrs_extra_margin_rate = 0\<rparr>)"

definition short_sample_detail :: "int \<Rightarrow> string \<Rightarrow> detail" where
  "short_sample_detail i k = (sample_detail i 10 1 0)\<lparr>d_position_detail_id := k, d_instrument_type := INDEX_OPTION,
     d_direction := SHORT, d_remaining_margin := 30000, d_multiplier_snapshot := 100,
     d_margin_rule_snapshot := short_sample_snapshot\<rparr>"

definition short_sample_db :: db where
  "short_sample_db = sample_db\<lparr>
     db_accounts := [sample_account\<lparr>a_cash_balance := 200000, a_available_cash := 140000, a_used_margin := 60000,
       a_option_used_margin := 60000, a_short_option_market_value := 4000\<rparr>],
     db_instruments := [sample_futures\<lparr>i_instrument_type := INDEX_OPTION, i_underlying_instrument_id := Some 2,
         i_option_type := Some CALL, i_strike_price := Some 4000\<rparr>,
       sample_futures\<lparr>i_id := 2, i_order_book_id := ''IDX'', i_instrument_type := INDEX\<rparr>],
     db_positions := [(sample_position 2 0)\<lparr>p_instrument_type := INDEX_OPTION, p_direction := SHORT,
       p_used_margin := 60000, p_multiplier_snapshot := 100, p_margin_rule_snapshot := short_sample_snapshot\<rparr>],
     db_details := [short_sample_detail 1 ''PD1'', short_sample_detail 2 ''PD2''],
     db_orders := [], db_allocations := []\<rparr>"

lemmas short_sample_defs = short_sample_db_def short_sample_detail_def sample_db_def sample_account_def
  sample_futures_def sample_position_def sample_detail_def

lemma short_sample_ledger: "position_margin_ok short_sample_db" "margin_backed short_sample_db" "keys_ok short_sample_db"
  by (simp_all add: position_margin_ok_def margin_backed_def keys_ok_def short_sample_defs of_position_def
      is_derivative_def cash_security_instrument_types_def)

section \<open>The claims\<close>

lemma adjust_margin_target_Inr:
  assumes "adjust_margin_target ratio now e1 e2 d t = Inr d'"
  shows "\<exists>rows es. d' = add_events es (write_margin rows d)
    \<and> (margin_adjusted_step ratio now t = Inr rows \<or> (\<exists>v. margin_deficit_step now v t = rows))"
proof (cases "0 < quantize_money (mt_required t - p_used_margin (mt_position t))
    \<and> vr_risk_available_cash (account_valuation (account_valuation_input ratio (margin_required_account t))) < 0")
  case True
  with assms have "\<exists>es. d' = add_events es (write_margin (margin_deficit_step now
      (account_valuation (account_valuation_input ratio (margin_required_account t))) t) d)"
    unfolding adjust_margin_target_def Let_def by (simp only: if_True simp_thms sum.inject) metis
  then show ?thesis by blast
next
  case False
  with assms show ?thesis
    unfolding adjust_margin_target_def Let_def by (simp only: if_False simp_thms rbind_Inr_iff sum.inject) metis
qed

text \<open>
  C31: Adjusting the margin of a short option keeps the margin ledger. Whenever the adjustment succeeds,
  with more margin, with less, or with none because the money is short, the position still uses exactly
  what its details carry, and the account exactly what all its details carry, although every share is
  rounded.
\<close>

theorem position_margin_adjustment_keeps_ledger:
  assumes "adjust_position_margin ratio last_price now e1 e2 d aid pid = Inr d'"
    and "position_margin_ok d" and "margin_backed d" and "keys_ok d"
  shows "position_margin_ok d' \<and> margin_backed d'"
proof -
  obtain t where t: "locate_margin_target last_price now d aid pid = Inr t" "margin_consistent t = Inr ()"
    and "adjust_margin_target ratio now e1 e2 d t = Inr d'"
    using assms(1) by (auto simp: adjust_position_margin_def rbind_Inr_iff)
  from adjust_margin_target_Inr [OF this(3)] obtain rows es where d': "d' = add_events es (write_margin rows d)"
    and step: "margin_adjusted_step ratio now t = Inr rows \<or> (\<exists>v. margin_deficit_step now v t = rows)" by blast
  obtain a' p' xs where rows: "rows = (a', p', xs)" by (cases rows)
  from step show ?thesis
    using adjusted_keeps_ledger [OF _ t assms(2-4)] deficit_keeps_ledger [OF _ t(1) assms(2-4)]
    unfolding d' rows by blast
qed

theorem position_margin_adjustment_keeps_ledger_witness:
  "\<exists>d'. adjust_position_margin 0 (\<lambda>k. Some (if snd k = ''IDX'' then 4200 else 250)) 60 ''E1'' ''E2'' short_sample_db
       ''A1'' ''P1'' = Inr d' \<and> position_margin_ok d' \<and> margin_backed d'"
proof -
  let ?price = "\<lambda>k :: string \<times> string. Some (if snd k = ''IDX'' then 4200 else (250 :: decimal))"
  have "case locate_margin_target ?price 60 short_sample_db ''A1'' ''P1'' of Inl _ \<Rightarrow> False
      | Inr t \<Rightarrow> margin_consistent t = Inr () \<and> mt_required t = 134000 \<and> p_used_margin (mt_position t) = 60000
          \<and> 0 \<le> vr_risk_available_cash (account_valuation (account_valuation_input 0 (margin_required_account t)))
          \<and> 0 \<le> a_used_margin (margin_moved_account t) \<and> 0 \<le> a_option_used_margin (margin_moved_account t)"
    by code_simp
  then obtain t where t: "locate_margin_target ?price 60 short_sample_db ''A1'' ''P1'' = Inr t"
    and guards: "margin_consistent t = Inr ()"
      "\<not> vr_risk_available_cash (account_valuation (account_valuation_input 0 (margin_required_account t))) < 0"
      "\<not> a_used_margin (margin_moved_account t) < 0" "\<not> a_option_used_margin (margin_moved_account t) < 0"
    by (auto split: sum.splits)
  have gate: "ensure_trading_open (db_batches short_sample_db) None = Inr ()"
    by (simp add: short_sample_defs ensure_trading_open_def)
  from guards obtain rows where "margin_adjusted_step 0 60 t = Inr rows"
    by (simp add: margin_adjusted_step_def Let_def)
  with guards have "\<exists>d'. adjust_margin_target 0 60 ''E1'' ''E2'' short_sample_db t = Inr d'"
    by (simp add: adjust_margin_target_def Let_def)
  with gate t guards(1) obtain d' where
    d': "adjust_position_margin 0 ?price 60 ''E1'' ''E2'' short_sample_db ''A1'' ''P1'' = Inr d'"
    by (auto simp: adjust_position_margin_def)
  from position_margin_adjustment_keeps_ledger [OF d' short_sample_ledger] d' show ?thesis by blast
qed



end
