(* ===== verification/Daily_Settlement.thy ===== *)
theory Daily_Settlement
  imports Settlement_Inputs Cash_Replay Position_Margin
begin

text \<open>
  \<open>app/services/daily_settlement_service.py\<close>, \<open>_settle_batch_from_facts\<close>: the account part of the daily
  settlement. The replayed positions are written to the rows, the account's cash is explained from its
  trades and earlier settlements, its results and margin are recomputed and checked against each other.
  The JSON snapshots that the result rows carry for audit are left out.
\<close>

section \<open>Cash effects and rules\<close>

text \<open>\<open>_trade_cash_effect\<close>\<close>

definition trade_cash_effect :: "trade \<Rightarrow> decimal result" where
  "trade_cash_effect t =
     (if t_instrument_type t = FUTURES then Inr (quantize_money (t_daily_close_pnl t - t_commission t))
      else if t_instrument_type t \<in> {FUTURES_OPTION, INDEX_OPTION}
      then Inr (quantize_money (t_premium_cash_flow t - t_commission t))
      else if t_instrument_type t \<in> cash_security_instrument_types then
        (case t_direction t of
           BUY \<Rightarrow> Inr (quantize_money (- t_turnover t - t_commission t))
         | SELL \<Rightarrow> Inr (quantize_money (t_turnover t - t_commission t))
         | UnknownDirection _ \<Rightarrow> Inl (DataAccessError ''REPLAY_CASH_SECURITY_DIRECTION_INVALID''))
      else Inl (DataAccessError ''REPLAY_TRADE_TYPE_UNSUPPORTED''))"

text \<open>The quantized sum of the cash effects of trades.\<close>

definition trades_cash :: "trade list \<Rightarrow> decimal result" where
  "trades_cash trades = rbind (rmap trade_cash_effect trades) (\<lambda>xs. Inr (quantize_money (sum_list xs)))"

text \<open>\<open>_futures_replay_pnl_components\<close>\<close>

definition futures_replay_pnl_components :: "replayed_position \<Rightarrow> decimal \<times> decimal" where
  "futures_replay_pnl_components q =
     (if 0 < rv_ending_volume q then quantize_money (rv_holding_pnl q) else 0, quantize_money (rv_close_pnl q))"

text \<open>
  \<open>_load_futures_rules\<close>: the rules of the day by contract, later rows win. A rule without a rate raises
  TypeError.
\<close>

type_synonym futures_rules = "string \<times> string \<Rightarrow> (decimal \<times> decimal) option"

definition load_futures_rules :: "margin_rule list \<Rightarrow> futures_rules result" where
  "load_futures_rules rows =
     rfold (\<lambda>rules r. case (mr_long_margin_rate r, mr_short_margin_rate r) of
              (Some long, Some short) \<Rightarrow> Inr (rules((mr_exchange_id r, mr_symbol r) \<mapsto> (long, short)))
            | _ \<Rightarrow> Inl PyTypeError)
       (\<lambda>_. None) rows"

text \<open>\<open>_assert_cash_security_replay_safe\<close>: the status of the action behind each blocker.\<close>

definition assert_cash_security_replay_safe :: "string option list \<Rightarrow> unit result" where
  "assert_cash_security_replay_safe blockers =
     (if blockers = [] then Inr ()
      else if Some ''MANUAL_REVIEW_REQUIRED'' \<in> set blockers
      then Inl (DataAccessError ''CASH_SECURITY_REPLAY_MANUAL_REVIEW_REQUIRED'')
      else Inl (DataAccessError ''CASH_SECURITY_REPLAY_FACT_INCOMPLETE''))"

text \<open>\<open>_allocate_margin\<close>: the active details, in their order, take their shares.\<close>

fun take_shares :: "decimal list \<Rightarrow> detail list \<Rightarrow> detail list" where
  "take_shares (share # shares) (x # xs) =
     (if 0 < d_remaining_volume x
      then x\<lparr>d_remaining_margin := share, d_realtime_required_margin := share\<rparr> # take_shares shares xs
      else x # take_shares (share # shares) xs)"
| "take_shares shares xs = xs"

definition allocate_margin :: "detail list \<Rightarrow> decimal \<Rightarrow> detail list result" where
  "allocate_margin details amount =
     (let active = active_details details; volume = held_volume active
      in if active = [] \<or> volume \<le> 0
         then (if amount \<noteq> 0 then Inl (DataAccessError ''DATA_ACCESS_ERROR'') else Inr details)
         else Inr (take_shares (margin_shares amount volume amount active) details))"

section \<open>One replayed position\<close>

record settlement_day =
  sd_batch_id :: string
  sd_trading_day :: date
  sd_next_trading_day :: date
  sd_now :: datetime
  sd_instruments :: "string \<Rightarrow> settlement_instrument option"
  sd_instruments_by_id :: "int \<Rightarrow> settlement_instrument option"
  sd_prices :: "string \<times> string \<Rightarrow> frozen_price option"
  sd_futures_rules :: futures_rules
  sd_thresholds :: risk_thresholds
  sd_option_collateral_ratio :: decimal

text \<open>A detail becomes what its replay ends with; what is left is measured from the settlement price.\<close>

definition settle_detail :: "datetime \<Rightarrow> decimal \<Rightarrow> replayed_detail \<Rightarrow> detail \<Rightarrow> detail" where
  "settle_detail now price r x =
     x\<lparr>d_remaining_volume := rd_ending_volume r, d_frozen_volume := 0,
       d_status := (if 0 < rd_ending_volume r then DETAIL_OPEN else DETAIL_CLOSED),
       d_pnl_base_price := (if 0 < rd_ending_volume r then price else d_pnl_base_price x),
       d_updated_at := now\<rparr>"

definition settled_details :: "datetime \<Rightarrow> replayed_position \<Rightarrow> detail list \<Rightarrow> detail list result" where
  "settled_details now q details =
     rmap (\<lambda>r. case find_row d_position_detail_id (rd_position_detail_id r) details of
                 None \<Rightarrow> Inl PyKeyError
               | Some x \<Rightarrow> Inr (settle_detail now (rv_settlement_price q) r x)) (rv_details q)"

definition remaining_cost :: "decimal \<Rightarrow> detail list \<Rightarrow> decimal" where
  "remaining_cost multiplier details =
     quantize_money (\<Sum>x \<leftarrow> details. d_open_price x * multiplier * of_int (d_remaining_volume x))"

definition settle_volumes ::
  "date \<Rightarrow> datetime \<Rightarrow> replayed_position \<Rightarrow> detail list \<Rightarrow> position \<Rightarrow> position result" where
  "settle_volumes next_trading_day now q details p =
     (let ending = rv_ending_volume q; cost = remaining_cost (rv_multiplier q) details
      in if ending < p_settlement_locked_volume p
         then Inl (DataAccessError ''REPLAY_SETTLEMENT_LOCKED_VOLUME_MISMATCH'')
         else Inr (p\<lparr>p_total_volume := ending, p_today_volume := 0, p_yesterday_volume := ending,
                     p_frozen_volume := 0, p_available_volume := ending - p_settlement_locked_volume p,
                     p_position_cost := cost,
                     p_average_open_price :=
                       (if 0 < ending then quantize_money (cost / rv_multiplier q / of_int ending) else 0),
                     p_realized_pnl := rv_cumulative_realized_pnl q,
                     p_unrealized_pnl := rv_cumulative_economic_pnl q, p_daily_position_pnl := 0,
                     p_daily_close_pnl := 0, p_trading_day := next_trading_day, p_updated_at := now\<rparr>))"

text \<open>The margin of what is left, the market value of options, and the rows that carry them.\<close>

record settled_position =
  sp_position :: position
  sp_details :: "detail list"
  sp_settlement_margin :: decimal
  sp_option_market_value :: decimal

definition futures_margin ::
  "settlement_day \<Rightarrow> replayed_position \<Rightarrow> detail list \<Rightarrow> position \<Rightarrow> settled_position result" where
  "futures_margin sd q details p =
     (case sd_futures_rules sd (rv_exchange_id q, rv_symbol q) of
        None \<Rightarrow> Inl (DataAccessError ''SETTLEMENT_MARGIN_RULE_MISSING'')
      | Some (long_rate, short_rate) \<Rightarrow>
          let rate = (if rv_direction q = LONG then long_rate else short_rate);
              margin = quantize_money
                (rv_settlement_price q * rv_multiplier q * of_int (rv_ending_volume q) * rate)
          in rbind (allocate_margin details margin) (\<lambda>xs.
             Inr \<lparr>sp_position = p,
                  sp_details = map (\<lambda>x. x\<lparr>d_realtime_required_margin := 0\<rparr>) xs,
                  sp_settlement_margin = margin, sp_option_market_value = 0\<rparr>))"

definition settlement_terms :: "settlement_instrument \<Rightarrow> (option_type \<times> decimal) result" where
  "settlement_terms ins =
     (case (sm_option_type ins, sm_strike_price ins) of
        (Some ot, Some k) \<Rightarrow> Inr (ot, k) | _ \<Rightarrow> Inl (DataAccessError ''DATA_ACCESS_ERROR''))"

definition priced_for_settlement :: "datetime \<Rightarrow> decimal \<Rightarrow> decimal \<Rightarrow> position \<Rightarrow> position" where
  "priced_for_settlement now option_price underlying_price p =
     p\<lparr>p_margin_price_mode := Some SETTLEMENT, p_margin_option_price := Some option_price,
       p_margin_underlying_price := Some underlying_price, p_margin_calculated_at := Some now\<rparr>"

definition detail_priced_for_settlement :: "datetime \<Rightarrow> decimal \<Rightarrow> decimal \<Rightarrow> detail \<Rightarrow> detail" where
  "detail_priced_for_settlement now option_price underlying_price x =
     x\<lparr>d_margin_price_mode := Some SETTLEMENT, d_margin_option_price := Some option_price,
       d_margin_underlying_price := Some underlying_price, d_margin_calculated_at := Some now\<rparr>"

definition option_margin ::
  "settlement_day \<Rightarrow> settlement_instrument \<Rightarrow> replayed_position \<Rightarrow> detail list \<Rightarrow> position
   \<Rightarrow> settled_position result" where
  "option_margin sd ins q details p =
     (case sd_instruments_by_id sd (case sm_underlying_instrument_id ins of
          None \<Rightarrow> - 1 | Some i \<Rightarrow> if i = 0 then - 1 else i) of
        None \<Rightarrow> Inl (DataAccessError ''DATA_ACCESS_ERROR'')
      | Some underlying \<Rightarrow>
        (case sd_prices sd (sm_exchange_id underlying, sm_symbol underlying) of
           None \<Rightarrow> Inl PyKeyError
         | Some fz \<Rightarrow>
             let price = rv_settlement_price q; underlying_price = fz_price fz;
                 market_value = quantize_money (price * rv_multiplier q * of_int (rv_ending_volume q))
             in rbind (if rv_direction q = SHORT
                       then seller_margin_of (settlement_terms ins) (sm_instrument_type ins) (sm_exchange_id ins)
                              p price underlying_price (sd_now sd)
                       else Inr 0) (\<lambda>margin.
                rbind (allocate_margin details margin) (\<lambda>xs.
                Inr \<lparr>sp_position = priced_for_settlement (sd_now sd) price underlying_price p,
                     sp_details = map (detail_priced_for_settlement (sd_now sd) price underlying_price) xs,
                     sp_settlement_margin = margin, sp_option_market_value = market_value\<rparr>))))"

definition no_margin :: "detail list \<Rightarrow> position \<Rightarrow> settled_position" where
  "no_margin details p =
     \<lparr>sp_position = p,
      sp_details = map (\<lambda>x. x\<lparr>d_remaining_margin := 0, d_realtime_required_margin := 0\<rparr>) details,
      sp_settlement_margin = 0, sp_option_market_value = 0\<rparr>"

definition settles_as_option :: "instrument_type \<Rightarrow> bool" where
  "settles_as_option it \<longleftrightarrow> it \<in> {FUTURES_OPTION, INDEX_OPTION}"

definition settle_projection ::
  "settlement_day \<Rightarrow> position list \<Rightarrow> detail list \<Rightarrow> replayed_position \<Rightarrow> settled_position result" where
  "settle_projection sd positions details q =
     (case (find_row p_position_id (rv_position_id q) positions, sd_instruments sd (rv_order_book_id q)) of
        (Some p, Some ins) \<Rightarrow>
          rbind (settled_details (sd_now sd) q details) (\<lambda>xs.
          rbind (settle_volumes (sd_next_trading_day sd) (sd_now sd) q xs p) (\<lambda>p1.
          rbind (if rv_instrument_type q = FUTURES \<and> 0 < rv_ending_volume q then futures_margin sd q xs p1
                 else if settles_as_option (rv_instrument_type q) \<and> 0 < rv_ending_volume q
                 then option_margin sd ins q xs p1
                 else Inr (no_margin xs p1)) (\<lambda>s.
          let short_option = settles_as_option (rv_instrument_type q) \<and> rv_direction q = SHORT
          in Inr (s\<lparr>sp_position := (sp_position s)\<lparr>p_used_margin := sp_settlement_margin s,
                    p_realtime_required_margin := (if short_option then sp_settlement_margin s else 0),
                    p_option_market_value := sp_option_market_value s\<rparr>\<rparr>))))
      | _ \<Rightarrow> Inl PyKeyError)"

end
