(* ===== verification/Account_Settlement.thy ===== *)
theory Account_Settlement
  imports Daily_Settlement
begin

text \<open>
  \<open>app/services/daily_settlement_service.py\<close>, \<open>_settle_batch_from_facts\<close>, the loop over the accounts:
  explaining the cash, adding up the settled positions, the results of the day with their two
  conservation checks, valuation and risk, and the row of results.
\<close>

section \<open>Totals over the positions of an account\<close>

record account_totals =
  at_used_margin :: decimal
  at_option_used_margin :: decimal
  at_long_option_value :: decimal
  at_short_option_value :: decimal
  at_futures_holding_pnl :: decimal
  at_futures_close_pnl :: decimal
  at_option_economic_pnl :: decimal
  at_option_premium_cash :: decimal
  at_expiry_cash :: decimal
  at_commission :: decimal
  at_cumulative_economic :: decimal

definition no_totals :: account_totals where
  "no_totals =
     \<lparr>at_used_margin = 0, at_option_used_margin = 0, at_long_option_value = 0, at_short_option_value = 0,
      at_futures_holding_pnl = 0, at_futures_close_pnl = 0, at_option_economic_pnl = 0,
      at_option_premium_cash = 0, at_expiry_cash = 0, at_commission = 0, at_cumulative_economic = 0\<rparr>"

definition plus_money :: "decimal \<Rightarrow> bool \<Rightarrow> decimal \<Rightarrow> decimal" where
  "plus_money acc counted x = (if counted then quantize_money (acc + x) else acc)"

definition add_position_totals :: "replayed_position \<Rightarrow> settled_position \<Rightarrow> account_totals \<Rightarrow> account_totals" where
  "add_position_totals q s a =
     (let futures = rv_instrument_type q = FUTURES; option = settles_as_option (rv_instrument_type q);
          open = option \<and> 0 < rv_ending_volume q; short = rv_direction q = SHORT;
          (holding, close) = futures_replay_pnl_components q
      in \<lparr>at_used_margin = quantize_money (at_used_margin a + sp_settlement_margin s),
          at_option_used_margin = plus_money (at_option_used_margin a) (open \<and> short) (sp_settlement_margin s),
          at_long_option_value = plus_money (at_long_option_value a) (open \<and> \<not> short) (sp_option_market_value s),
          at_short_option_value = plus_money (at_short_option_value a) (open \<and> short) (sp_option_market_value s),
          at_futures_holding_pnl = plus_money (at_futures_holding_pnl a) futures holding,
          at_futures_close_pnl = plus_money (at_futures_close_pnl a) futures close,
          at_option_economic_pnl = plus_money (at_option_economic_pnl a) option (rv_option_economic_pnl q),
          at_option_premium_cash = plus_money (at_option_premium_cash a) option (rv_premium_cash_flow q),
          at_expiry_cash = quantize_money (at_expiry_cash a + rv_expiry_cash_flow q),
          at_commission = quantize_money (at_commission a + rv_commission q),
          at_cumulative_economic = quantize_money (at_cumulative_economic a + rv_cumulative_economic_pnl q)\<rparr>)"

definition settle_positions ::
  "settlement_day \<Rightarrow> position list \<Rightarrow> detail list \<Rightarrow> replayed_position list
   \<Rightarrow> (settled_position list \<times> account_totals) result" where
  "settle_positions sd positions details qs =
     rfold (\<lambda>(done, totals) q. rbind (settle_projection sd positions details q) (\<lambda>s.
              Inr (done @ [s], add_position_totals q s totals)))
       ([], no_totals) qs"

section \<open>Facts about an account\<close>

text \<open>
  The rows of earlier settlements and of corporate actions, as far as they are read:
  \<open>DailyAccountSettlement\<close>, \<open>OptionExpirySettlementDetail\<close>, \<open>CashSecurityCorporateActionLedger\<close>.
\<close>

record account_settlement =
  as_account_id :: string
  as_trading_day :: date
  as_cash_balance_before :: decimal
  as_opening_cash_balance :: decimal
  as_cash_balance_after :: decimal
  as_futures_settlement_pnl :: decimal
  as_option_expiry_cash_flow :: decimal
  as_trade_cash_flow :: decimal
  as_futures_close_pnl :: decimal
  as_option_economic_pnl :: decimal
  as_option_premium_cash_flow :: decimal
  as_daily_close_pnl :: decimal
  as_daily_net_pnl :: decimal
  as_daily_commission :: decimal
  as_valued_account :: account
  as_settled_at :: datetime

record expiry_settlement =
  es_batch_id :: string
  es_trading_day :: date
  es_account_id :: string
  es_position_id :: string
  es_option_order_book_id :: string
  es_option_type :: "option_type option"
  es_direction :: position_direction
  es_underlying_order_book_id :: string
  es_underlying_exchange_id :: string
  es_underlying_symbol :: string
  es_underlying_settlement_price :: decimal
  es_strike_price :: decimal
  es_multiplier_snapshot :: decimal
  es_quantity :: int
  es_intrinsic_value :: decimal
  es_gross_cash_amount :: decimal
  es_cash_flow :: decimal
  es_realized_pnl :: decimal
  es_settled_at :: datetime

record corporate_ledger =
  cl_account_id :: string
  cl_effective_trading_day :: date
  cl_cash_delta :: decimal
  cl_corporate_action_income_delta :: decimal

text \<open>Sums over the rows of an account, quantized after every row.\<close>

definition added_where :: "('a \<Rightarrow> bool) \<Rightarrow> ('a \<Rightarrow> decimal) \<Rightarrow> 'a list \<Rightarrow> decimal" where
  "added_where P f rows = added f (filter P rows)"

record account_facts =
  af_trades :: "trade list"
  af_prior_accounts :: "account_settlement list"
  af_prior_expiries :: "expiry_settlement list"
  af_ledgers :: "corporate_ledger list"
  af_projections :: "replayed_position list"
  af_cash_positions :: "position list"

text \<open>The rows of one account out of the lists of all accounts.\<close>

definition facts_of :: "string \<Rightarrow> account_facts \<Rightarrow> account_facts" where
  "facts_of k fs =
     \<lparr>af_trades = filter (\<lambda>t. t_account_id t = k) (af_trades fs),
      af_prior_accounts = filter (\<lambda>r. as_account_id r = k) (af_prior_accounts fs),
      af_prior_expiries = filter (\<lambda>r. es_account_id r = k) (af_prior_expiries fs),
      af_ledgers = filter (\<lambda>r. cl_account_id r = k) (af_ledgers fs),
      af_projections = filter (\<lambda>q. rv_account_id q = k) (af_projections fs),
      af_cash_positions = filter (\<lambda>p. p_account_id p = k) (af_cash_positions fs)\<rparr>"

definition corporate_cash :: "(date \<Rightarrow> bool) \<Rightarrow> account_facts \<Rightarrow> decimal" where
  "corporate_cash P fs = added_where (\<lambda>r. P (cl_effective_trading_day r)) cl_cash_delta (af_ledgers fs)"

definition corporate_income :: "date \<Rightarrow> account_facts \<Rightarrow> decimal" where
  "corporate_income day fs =
     added_where (\<lambda>r. cl_effective_trading_day r = day) cl_corporate_action_income_delta (af_ledgers fs)"

definition trades_on :: "date \<Rightarrow> account_facts \<Rightarrow> trade list" where
  "trades_on day fs = filter (\<lambda>t. t_trading_day t = day) (af_trades fs)"

definition is_cash_trade :: "trade \<Rightarrow> bool" where
  "is_cash_trade t \<longleftrightarrow> t_instrument_type t \<in> cash_security_instrument_types"

definition money_sum :: "('a \<Rightarrow> decimal) \<Rightarrow> 'a list \<Rightarrow> decimal" where
  "money_sum f xs = quantize_money (\<Sum>x \<leftarrow> xs. f x)"

section \<open>The cash before the settlement\<close>

record explained_cash =
  ec_opening_cash :: decimal
  ec_today_trade_cash :: decimal
  ec_expected_before :: decimal

text \<open>The initial cash, the trades and the settlements so far explain the balance, or the batch fails.\<close>

definition explain_cash :: "date \<Rightarrow> account_facts \<Rightarrow> account \<Rightarrow> explained_cash result" where
  "explain_cash day fs a =
     rbind (trades_cash (filter (\<lambda>t. t_trading_day t < day) (af_trades fs))) (\<lambda>opening_trade_cash.
     rbind (trades_cash (trades_on day fs)) (\<lambda>today_trade_cash.
       let opening = quantize_money (a_initial_cash a + opening_trade_cash
             + added as_futures_settlement_pnl (af_prior_accounts fs)
             + added es_cash_flow (af_prior_expiries fs) + corporate_cash (\<lambda>x. x < day) fs);
           expected = quantize_money (opening + today_trade_cash + corporate_cash (\<lambda>x. x = day) fs)
       in if quantize_money (a_cash_balance a) \<noteq> expected
          then Inl (DataAccessError ''REPLAY_OPENING_CASH_MISMATCH'')
          else Inr \<lparr>ec_opening_cash = opening, ec_today_trade_cash = today_trade_cash,
                    ec_expected_before = expected\<rparr>))"

section \<open>The results of the day\<close>

definition option_close_pnl :: "replayed_position list \<Rightarrow> decimal" where
  "option_close_pnl qs = (\<Sum>q \<leftarrow> filter (\<lambda>q. settles_as_option (rv_instrument_type q)) qs. rv_close_pnl q)"

definition cash_close_pnl :: "date \<Rightarrow> account_facts \<Rightarrow> decimal" where
  "cash_close_pnl day fs = (\<Sum>t \<leftarrow> filter is_cash_trade (trades_on day fs). t_daily_close_pnl t)"

definition cash_position_pnl :: "account_facts \<Rightarrow> decimal" where
  "cash_position_pnl fs = money_sum p_daily_position_pnl (af_cash_positions fs)"

definition total_close_pnl :: "date \<Rightarrow> account_facts \<Rightarrow> decimal" where
  "total_close_pnl day fs =
     quantize_money ((\<Sum>q \<leftarrow> af_projections fs. rv_close_pnl q) + cash_close_pnl day fs)"

text \<open>The balance, margins, market values and results of the settled account.\<close>

definition settled_account ::
  "date \<Rightarrow> account_facts \<Rightarrow> explained_cash \<Rightarrow> account_totals \<Rightarrow> account \<Rightarrow> account" where
  "settled_account day fs ec tot a =
     (let ending_cash = quantize_money (ec_expected_before ec + at_futures_holding_pnl tot + at_expiry_cash tot);
          commission = money_sum t_commission (trades_on day fs);
          cash_unrealized = money_sum p_unrealized_pnl (af_cash_positions fs);
          used_commission = money_sum t_commission (af_trades fs);
          realized = quantize_money (money_sum t_realized_pnl (af_trades fs)
            + added es_realized_pnl (af_prior_expiries fs)
            + money_sum rv_expiry_realized_pnl (af_projections fs))
      in a\<lparr>a_cash_balance := ending_cash, a_used_margin := at_used_margin tot,
           a_option_used_margin := at_option_used_margin tot,
           a_option_realtime_required_margin := at_option_used_margin tot,
           a_stock_market_value := money_sum p_market_value (af_cash_positions fs),
           a_unrealized_pnl := cash_unrealized,
           a_long_option_market_value := at_long_option_value tot,
           a_short_option_market_value := at_short_option_value tot,
           a_net_option_market_value := quantize_money (at_long_option_value tot - at_short_option_value tot),
           a_used_commission := used_commission, a_realized_pnl := realized,
           a_cumulative_net_pnl := quantize_money (realized + at_cumulative_economic tot + cash_unrealized
             + a_corporate_action_income a - used_commission),
           a_daily_position_pnl := quantize_money (at_futures_holding_pnl tot + at_option_economic_pnl tot
             + cash_position_pnl fs - option_close_pnl (af_projections fs)),
           a_daily_close_pnl := total_close_pnl day fs, a_daily_commission := commission,
           a_daily_pnl := quantize_money (at_futures_holding_pnl tot + at_futures_close_pnl tot
             + at_option_economic_pnl tot + cash_position_pnl fs + cash_close_pnl day fs
             + corporate_income day fs - commission)\<rparr>)"

definition check_results :: "date \<Rightarrow> account_facts \<Rightarrow> account_totals \<Rightarrow> account \<Rightarrow> unit result" where
  "check_results day fs tot a =
     (let expected_position = quantize_money (money_sum rv_holding_pnl (af_projections fs) + cash_position_pnl fs);
          expected_net = quantize_money (expected_position + total_close_pnl day fs - a_daily_commission a)
      in if a_daily_position_pnl a \<noteq> expected_position
         then Inl (DataAccessError ''REPLAY_POSITION_PNL_CONSERVATION_FAILED'')
         else if a_daily_pnl a \<noteq> expected_net
         then Inl (DataAccessError ''REPLAY_NET_PNL_CONSERVATION_FAILED'')
         else Inr ())"

section \<open>Valuation and risk\<close>

definition quantize_ratio :: "decimal \<Rightarrow> decimal" where
  "quantize_ratio x = of_int (round_half_up (x * 100000000)) / 100000000"

definition value_account :: "decimal \<Rightarrow> account_totals \<Rightarrow> account \<Rightarrow> account" where
  "value_account collateral_ratio tot a =
     (if a_account_type a \<in> {''SECURITIES_CASH'', ''STOCK''} then
        a\<lparr>a_equity := quantize_money (a_cash_balance a + a_stock_market_value a
             + a_corporate_action_receivable a + a_pending_security_value a),
          a_available_cash := a_cash_balance a, a_risk_available_cash := a_cash_balance a,
          a_risk_ratio := 0\<rparr>
      else
        let v = account_valuation
              \<lparr>v_cash_balance = a_cash_balance a, v_futures_unrealized_pnl = 0,
               v_long_option_market_value = at_long_option_value tot,
               v_short_option_market_value = at_short_option_value tot,
               v_used_margin = at_used_margin tot, v_option_used_margin = at_option_used_margin tot,
               v_option_realtime_required_margin = at_option_used_margin tot, v_frozen_margin = 0,
               v_frozen_cash = 0, v_frozen_commission = 0, v_option_collateral_ratio = collateral_ratio\<rparr>
        in a\<lparr>a_equity := vr_equity v, a_available_cash := vr_available_cash v,
             a_risk_available_cash := vr_risk_available_cash v,
             a_net_option_market_value := vr_net_option_market_value v,
             a_risk_ratio := (if vr_equity v \<le> 0 then 0
               else quantize_ratio (vr_effective_required_margin v / vr_equity v))\<rparr>)"

definition assess_account :: "risk_thresholds \<Rightarrow> account \<Rightarrow> account result" where
  "assess_account th a =
     rbind (evaluate th (a_risk_state a)
              \<lparr>ri_valuation_available = True, ri_equity = a_equity a,
               ri_risk_available_cash = a_risk_available_cash a, ri_risk_ratio = a_risk_ratio a\<rparr>) (\<lambda>decision.
     Inr (a\<lparr>a_risk_state := rd_state decision\<rparr>))"

section \<open>One account\<close>

text \<open>Shares that are not listed yet count with the frozen price, where there is one.\<close>

definition pending_security_value ::
  "(string \<times> string \<Rightarrow> frozen_price option) \<Rightarrow> position list \<Rightarrow> decimal" where
  "pending_security_value prices ps =
     quantize_money (\<Sum>p \<leftarrow> ps. case prices (p_exchange_id p, p_symbol p) of
        None \<Rightarrow> 0 | Some fz \<Rightarrow> fz_price fz * of_int (p_pending_share_volume p) * p_multiplier_snapshot p)"

definition settlement_row ::
  "settlement_day \<Rightarrow> account_facts \<Rightarrow> explained_cash \<Rightarrow> account_totals \<Rightarrow> account \<Rightarrow> account_settlement" where
  "settlement_row sd fs ec tot a =
     \<lparr>as_account_id = a_account_id a, as_trading_day = sd_trading_day sd,
      as_cash_balance_before = ec_expected_before ec, as_opening_cash_balance = ec_opening_cash ec,
      as_cash_balance_after = a_cash_balance a, as_futures_settlement_pnl = at_futures_holding_pnl tot,
      as_option_expiry_cash_flow = at_expiry_cash tot, as_trade_cash_flow = ec_today_trade_cash ec,
      as_futures_close_pnl = at_futures_close_pnl tot,
      as_option_economic_pnl = at_option_economic_pnl tot,
      as_option_premium_cash_flow = at_option_premium_cash tot,
      as_daily_close_pnl = total_close_pnl (sd_trading_day sd) fs, as_daily_net_pnl = a_daily_pnl a,
      as_daily_commission = a_daily_commission a, as_valued_account = a, as_settled_at = sd_now sd\<rparr>"

definition next_day_account :: "settlement_day \<Rightarrow> account \<Rightarrow> account" where
  "next_day_account sd a =
     a\<lparr>a_daily_position_pnl := 0, a_daily_close_pnl := 0, a_daily_commission := 0, a_daily_pnl := 0,
       a_trading_day := Some (sd_next_trading_day sd), a_updated_at := sd_now sd\<rparr>"

record settled_account_result =
  sr_account :: account
  sr_positions :: "settled_position list"
  sr_row :: account_settlement

text \<open>\<open>fs\<close> are the facts of this account only.\<close>

definition settle_account ::
  "settlement_day \<Rightarrow> position list \<Rightarrow> detail list \<Rightarrow> account_facts \<Rightarrow> account
   \<Rightarrow> settled_account_result result" where
  "settle_account sd positions details fs a0 =
     (let day = sd_trading_day sd;
          a = a0\<lparr>a_pending_security_value := pending_security_value (sd_prices sd) (af_cash_positions fs)\<rparr>
      in if a_frozen_margin a \<noteq> 0 \<or> a_frozen_cash a \<noteq> 0 \<or> a_frozen_commission a \<noteq> 0
         then Inl (DataAccessError ''SETTLEMENT_FROZEN_RESOURCE_INCONSISTENT'')
         else
           rbind (explain_cash day fs a) (\<lambda>ec.
           rbind (settle_positions sd positions details (af_projections fs)) (\<lambda>(settled, tot).
           if money_sum t_commission (filter (\<lambda>t. \<not> is_cash_trade t) (trades_on day fs)) \<noteq> at_commission tot
           then Inl (DataAccessError ''REPLAY_COMMISSION_CONSERVATION_FAILED'')
           else
             let a1 = settled_account day fs ec tot a
             in rbind (check_results day fs tot a1) (\<lambda>_.
                rbind (assess_account (sd_thresholds sd) (value_account (sd_option_collateral_ratio sd) tot a1)) (\<lambda>a2.
                Inr \<lparr>sr_account = next_day_account sd a2, sr_positions = settled,
                     sr_row = settlement_row sd fs ec tot a2\<rparr>)))))"

end
