(* ===== verification/Settlement_Results.thy ===== *)
theory Settlement_Results
  imports Account_Settlement Replay_Properties
begin

text \<open>
  The two conservation checks of an account's results, decided: given what the replay reports, the
  results of the positions always add up, and the net result does exactly when no corporate action
  earned anything on the day.
\<close>

section \<open>What the replay reports\<close>

definition projection_ok :: "replayed_position \<Rightarrow> bool" where
  "projection_ok q \<longleftrightarrow> is_money (rv_holding_pnl q) \<and> is_money (rv_close_pnl q)
     \<and> is_money (rv_option_economic_pnl q) \<and> is_money (rv_expiry_cash_flow q)
     \<and> (rv_instrument_type q = FUTURES \<longrightarrow> rv_ending_volume q = 0 \<longrightarrow> rv_holding_pnl q = 0)
     \<and> (settles_as_option (rv_instrument_type q) \<longrightarrow>
          rv_option_economic_pnl q = rv_holding_pnl q + rv_close_pnl q)
     \<and> 0 \<le> rv_ending_volume q"

lemma added_money [simp]: "is_money (added f xs)"
proof -
  have "is_money acc \<Longrightarrow> is_money (foldl (\<lambda>acc x. quantize_money (acc + f x)) acc xs)" for acc
    by (induction xs arbitrary: acc) simp_all
  then show ?thesis by (simp add: added_def)
qed

lemma added_sum:
  assumes "\<forall>x \<in> set xs. is_money (f x)"
  shows "added f xs = (\<Sum>x \<leftarrow> xs. f x)"
proof -
  have "is_money acc \<Longrightarrow> foldl (\<lambda>acc x. quantize_money (acc + f x)) acc xs = acc + (\<Sum>x \<leftarrow> xs. f x)" for acc
    using assms by (induction xs arbitrary: acc) (simp_all add: is_money_add)
  from this [of 0] show ?thesis by (simp add: added_def)
qed

lemma summed_nonneg_zero:
  assumes "\<forall>x \<in> set xs. 0 \<le> rd_ending_volume_before_expiry x" "summed rd_ending_volume_before_expiry xs = 0"
  shows "\<forall>x \<in> set xs. rd_ending_volume_before_expiry x = 0"
proof -
  have "summed rd_ending_volume_before_expiry xs \<ge> 0" if "\<forall>x \<in> set xs. 0 \<le> rd_ending_volume_before_expiry x" for xs
    using that by (auto simp: summed_def intro!: sum_list_nonneg)
  with assms show ?thesis by (induction xs) (fastforce simp: summed_def)+
qed

text \<open>With the registry of the program the options are the two option types.\<close>

lemma options_family:
  assumes "product_resolve product_strategy_registry it = Inr s" "it \<in> {FUTURES, FUTURES_OPTION, INDEX_OPTION}"
  shows "family s = OPTIONS_FAMILY \<longleftrightarrow> settles_as_option it"
  using assms
  by (auto simp: resolve_product_strategy_def [symmetric] settles_as_option_def futures_product_strategy_def
      option_product_strategy_def)

lemma open_context_Inr:
  assumes "open_context product_strategy_registry inp k details first = Inr (cx, price, options)"
    "sm_instrument_type (rc_instrument cx) \<in> {FUTURES, FUTURES_OPTION, INDEX_OPTION}"
  shows "options = settles_as_option (sm_instrument_type (rc_instrument cx))"
    "rc_expires_today cx \<Longrightarrow> settles_as_option (sm_instrument_type (rc_instrument cx))"
  using assms options_family
  by (auto simp: open_context_def Let_def rbind_Inr_iff expires_on_def split: if_split_asm option.split_asm)

lemma closed_position_ok:
  assumes results: "list_all2 (\<lambda>dt x. replay_detail inp cx allocations dt = Inr x) ordered results"
    and ctx: "options = settles_as_option (sm_instrument_type (rc_instrument cx))"
      "rc_expires_today cx \<Longrightarrow> settles_as_option (sm_instrument_type (rc_instrument cx))"
  shows "projection_ok (close_position cx allocations costs options first price ordered results)"
proof -
  let ?q = "close_position cx allocations costs options first price ordered results"
  have each: "0 \<le> rd_ending_volume_before_expiry x
      \<and> (rd_ending_volume_before_expiry x = 0 \<longrightarrow> rd_holding_pnl x = 0)" if "x \<in> set results" for x
  proof -
    from list_all2_right [OF results that] obtain dt where "replay_detail inp cx allocations dt = Inr x" by blast
    then obtain base where "rd_holding_pnl x = held_result cx base (rd_ending_volume_before_expiry x)"
      "0 \<le> rd_ending_volume_before_expiry x" by (rule replay_detail_Inr)
    then show ?thesis by (simp add: held_result_def)
  qed
  have "0 \<le> summed rd_ending_volume_before_expiry results"
    using each by (auto simp: summed_def intro!: sum_list_nonneg)
  moreover have "rv_holding_pnl ?q = 0"
    if "sm_instrument_type (rc_instrument cx) = FUTURES" "rv_ending_volume ?q = 0"
  proof -
    from that ctx(2) have "summed rd_ending_volume_before_expiry results = 0"
      by (auto simp: close_position_def Let_def settles_as_option_def split: if_split_asm)
    with summed_nonneg_zero [of results] each have "\<forall>x \<in> set results. rd_holding_pnl x = 0" by blast
    then have "added rd_holding_pnl results = 0"
      by (subst added_sum) (auto simp: sum_list_eq_0_iff intro!: sum_list_0 cong: map_cong)
    then show ?thesis by (simp add: close_position_def Let_def)
  qed
  ultimately show ?thesis
    unfolding projection_ok_def using ctx(1)
    by (auto simp: close_position_def Let_def is_money_add)
qed

lemma replay_projections_ok:
  assumes run: "replay product_strategy_registry inp details trades allocations = Inr res"
    and q: "q \<in> set (rr_positions res)" "rv_instrument_type q \<in> {FUTURES, FUTURES_OPTION, INDEX_OPTION}"
  shows "projection_ok q"
proof -
  obtain ds als costs where pos: "replay_positions product_strategy_registry inp als costs ds = Inr (rr_positions res)"
    using run by (auto simp: replay_def replay_scoped_def Let_def rbind_Inr_iff split: if_split_asm)
  then obtain found where found: "rmap (replay_position product_strategy_registry inp als costs ds)
      (sort (remdups (map d_position_id ds))) = Inr found" and "rr_positions res = List.map_filter id found"
    by (auto simp: replay_positions_def rbind_Inr_iff)
  then have "Some q \<in> set found" using q(1) by (auto simp: List.map_filter_def)
  from list_all2_right [OF found [unfolded rmap_Inr_list_all2] this] obtain k where
    k: "replay_position product_strategy_registry inp als costs ds k = Inr (Some q)" by blast
  let ?own = "filter (\<lambda>x. d_position_id x = k) ds"
  obtain cx price options results p where ctx: "open_context product_strategy_registry inp k ?own (hd ?own) = Inr (cx, price, options)"
    and results: "rmap (replay_detail inp cx als) (sort_key d_id ?own) = Inr results"
    and qeq: "q = close_position cx als costs options (hd ?own) p (sort_key d_id ?own) results"
    using k by (auto simp: replay_position_def Let_def rbind_Inr_iff split: if_split_asm option.split_asm)
  have "rv_instrument_type q = sm_instrument_type (rc_instrument cx)" by (simp add: qeq close_position_def Let_def)
  with q(2) open_context_Inr [OF ctx] show ?thesis
    unfolding qeq by (intro closed_position_ok [OF results [unfolded rmap_Inr_list_all2]]) auto
qed


section \<open>The totals\<close>

definition total_over :: "(replayed_position \<Rightarrow> bool) \<Rightarrow> (replayed_position \<Rightarrow> decimal) \<Rightarrow> replayed_position list \<Rightarrow> decimal" where
  "total_over P f qs = (\<Sum>q \<leftarrow> qs. if P q then f q else 0)"

definition totals_money :: "account_totals \<Rightarrow> bool" where
  "totals_money t \<longleftrightarrow> is_money (at_futures_holding_pnl t) \<and> is_money (at_futures_close_pnl t)
     \<and> is_money (at_option_economic_pnl t) \<and> is_money (at_expiry_cash t)"

lemma add_position_totals_pnl:
  assumes "projection_ok q" "totals_money t"
  shows "at_futures_holding_pnl (add_position_totals q s t)
      = at_futures_holding_pnl t + (if rv_instrument_type q = FUTURES then rv_holding_pnl q else 0)"
    "at_futures_close_pnl (add_position_totals q s t)
      = at_futures_close_pnl t + (if rv_instrument_type q = FUTURES then rv_close_pnl q else 0)"
    "at_option_economic_pnl (add_position_totals q s t)
      = at_option_economic_pnl t + (if settles_as_option (rv_instrument_type q) then rv_holding_pnl q + rv_close_pnl q else 0)"
    "at_expiry_cash (add_position_totals q s t) = at_expiry_cash t + rv_expiry_cash_flow q"
    "totals_money (add_position_totals q s t)"
  using assms
  by (auto simp: add_position_totals_def futures_replay_pnl_components_def plus_money_def projection_ok_def
      totals_money_def Let_def is_money_add not_less)

lemma settle_positions_totals:
  assumes "settle_positions sd ps ds qs = Inr (rows, t)" "\<forall>q \<in> set qs. projection_ok q"
  shows "at_futures_holding_pnl t = total_over (\<lambda>q. rv_instrument_type q = FUTURES) rv_holding_pnl qs
    \<and> at_futures_close_pnl t = total_over (\<lambda>q. rv_instrument_type q = FUTURES) rv_close_pnl qs
    \<and> at_option_economic_pnl t = total_over (\<lambda>q. settles_as_option (rv_instrument_type q))
        (\<lambda>q. rv_holding_pnl q + rv_close_pnl q) qs
    \<and> at_expiry_cash t = (\<Sum>q \<leftarrow> qs. rv_expiry_cash_flow q)
    \<and> totals_money t"
proof -
  let ?step = "\<lambda>(done, totals) q. rbind (settle_projection sd ps ds q) (\<lambda>s.
              Inr (done @ [s], add_position_totals q s totals))"
  have "at_futures_holding_pnl t = at_futures_holding_pnl t0 + total_over (\<lambda>q. rv_instrument_type q = FUTURES) rv_holding_pnl qs
    \<and> at_futures_close_pnl t = at_futures_close_pnl t0 + total_over (\<lambda>q. rv_instrument_type q = FUTURES) rv_close_pnl qs
    \<and> at_option_economic_pnl t = at_option_economic_pnl t0 + total_over (\<lambda>q. settles_as_option (rv_instrument_type q))
        (\<lambda>q. rv_holding_pnl q + rv_close_pnl q) qs
    \<and> at_expiry_cash t = at_expiry_cash t0 + (\<Sum>q \<leftarrow> qs. rv_expiry_cash_flow q)
    \<and> totals_money t"
    if "rfold ?step (done0, t0) qs = Inr (rows, t)" "totals_money t0" "\<forall>q \<in> set qs. projection_ok q" for done0 t0
    using that
  proof (induction qs arbitrary: done0 t0)
    case (Cons q qs)
    then obtain s where "rfold ?step (done0 @ [s], add_position_totals q s t0) qs = Inr (rows, t)"
      by (auto simp: rbind_Inr_iff)
    note Cons.IH [OF this]
    with add_position_totals_pnl [of q t0 s] Cons.prems(2,3) show ?case
      by (simp add: total_over_def)
  qed (simp add: total_over_def)
  moreover have "totals_money no_totals" by (simp add: no_totals_def totals_money_def)
  ultimately have "at_futures_holding_pnl t = at_futures_holding_pnl no_totals
      + total_over (\<lambda>q. rv_instrument_type q = FUTURES) rv_holding_pnl qs
    \<and> at_futures_close_pnl t = at_futures_close_pnl no_totals
      + total_over (\<lambda>q. rv_instrument_type q = FUTURES) rv_close_pnl qs
    \<and> at_option_economic_pnl t = at_option_economic_pnl no_totals
      + total_over (\<lambda>q. settles_as_option (rv_instrument_type q)) (\<lambda>q. rv_holding_pnl q + rv_close_pnl q) qs
    \<and> at_expiry_cash t = at_expiry_cash no_totals + (\<Sum>q \<leftarrow> qs. rv_expiry_cash_flow q)
    \<and> totals_money t"
    using assms unfolding settle_positions_def by blast
  then show ?thesis by (simp add: no_totals_def)
qed

section \<open>The checks\<close>

definition derivative_projection :: "replayed_position \<Rightarrow> bool" where
  "derivative_projection q \<longleftrightarrow> rv_instrument_type q \<in> {FUTURES, FUTURES_OPTION, INDEX_OPTION}"

lemma split_by_type:
  assumes "\<forall>q \<in> set qs. derivative_projection q"
  shows "total_over (\<lambda>q. rv_instrument_type q = FUTURES) f qs + total_over (\<lambda>q. settles_as_option (rv_instrument_type q)) f qs
    = (\<Sum>q \<leftarrow> qs. f q)"
  using assms by (induction qs) (auto simp: total_over_def derivative_projection_def settles_as_option_def)

lemma option_close_total: "option_close_pnl qs = total_over (\<lambda>q. settles_as_option (rv_instrument_type q)) rv_close_pnl qs"
  by (induction qs) (auto simp: option_close_pnl_def total_over_def)

lemma total_over_add: "total_over P (\<lambda>q. f q + g q) qs = total_over P f qs + total_over P g qs"
  by (induction qs) (auto simp: total_over_def)

text \<open>Given positions as the replay reports them, the outcome of both checks.\<close>

lemma check_results_eq:
  assumes tot: "settle_positions sd ps ds (af_projections fs) = Inr (rows, tot)"
    and ok: "\<forall>q \<in> set (af_projections fs). projection_ok q \<and> derivative_projection q"
    and money: "\<forall>t \<in> set (af_trades fs). is_money (t_daily_close_pnl t)"
  shows "check_results day fs tot (settled_account day fs ec tot a)
    = (if corporate_income day fs = 0 then Inr ()
       else Inl (DataAccessError ''REPLAY_NET_PNL_CONSERVATION_FAILED''))"
proof -
  let ?qs = "af_projections fs"
  let ?hold = "\<Sum>q \<leftarrow> ?qs. rv_holding_pnl q" and ?close = "\<Sum>q \<leftarrow> ?qs. rv_close_pnl q"
  let ?cash = "cash_position_pnl fs" and ?cc = "cash_close_pnl day fs"
  let ?commission = "money_sum t_commission (trades_on day fs)"
  note t = settle_positions_totals [OF tot] 
  have types: "\<forall>q \<in> set ?qs. derivative_projection q" using ok by blast
  have m: "is_money ?hold" "is_money ?close" "is_money ?cash" "is_money ?cc" "is_money ?commission"
    "is_money (corporate_income day fs)"
    using ok money
    by (auto simp: projection_ok_def cash_position_pnl_def money_sum_def cash_close_pnl_def trades_on_def
        corporate_income_def added_where_def intro!: is_money_sum_list)
  have sums: "at_futures_holding_pnl tot + at_option_economic_pnl tot - option_close_pnl ?qs = ?hold"
    "at_futures_holding_pnl tot + at_futures_close_pnl tot + at_option_economic_pnl tot = ?hold + ?close"
    using t ok split_by_type [OF types, of rv_holding_pnl] split_by_type [OF types, of rv_close_pnl]
    by (simp_all add: option_close_total total_over_add)
  have position: "a_daily_position_pnl (settled_account day fs ec tot a) = ?hold + ?cash"
    using sums(1) m(1,3) by (simp add: settled_account_def Let_def is_money_add algebra_simps)
  have net: "a_daily_pnl (settled_account day fs ec tot a)
      = ?hold + ?close + ?cash + ?cc + corporate_income day fs - ?commission"
    using sums(2) m by (simp add: settled_account_def Let_def is_money_add is_money_diff algebra_simps)
  have commission: "a_daily_commission (settled_account day fs ec tot a) = ?commission"
    by (simp add: settled_account_def Let_def)
  have expected: "quantize_money (money_sum rv_holding_pnl ?qs + ?cash) = ?hold + ?cash"
    using m(1,3) by (simp add: money_sum_def is_money_add)
  have total: "quantize_money (?hold + ?cash + total_close_pnl day fs - ?commission)
      = ?hold + ?cash + ?close + ?cc - ?commission"
    using m by (simp add: total_close_pnl_def is_money_add is_money_diff algebra_simps)
  show ?thesis
    by (auto simp: check_results_def Let_def position net commission expected total)
qed


section \<open>The claims\<close>

text \<open>
  C26: The results of a settled account, decided. For positions as the replay reports them the daily
  settlement never finds the position results wrong; it accepts the net result exactly when no corporate
  action has earned anything on the day. Any dividend or interest booked on the day, which the net result
  counts and the expected one does not, fails the settlement of the whole market.
\<close>

theorem settlement_results_decided:
  assumes "replay product_strategy_registry inp details trades allocations = Inr res"
    and "set (af_projections fs) \<subseteq> set (rr_positions res)"
    and "list_all derivative_projection (af_projections fs)"
    and "settle_positions sd positions rows (af_projections fs) = Inr (done, tot)"
    and "list_all (\<lambda>t. is_money (t_daily_close_pnl t)) (af_trades fs)"
  shows "check_results day fs tot (settled_account day fs ec tot a)
    = (if corporate_income day fs = 0 then Inr ()
       else Inl (DataAccessError ''REPLAY_NET_PNL_CONSERVATION_FAILED''))"
proof (rule check_results_eq [OF assms(4)])
  show "\<forall>q \<in> set (af_projections fs). projection_ok q \<and> derivative_projection q"
    using replay_projections_ok [OF assms(1)] assms(2,3)
    by (auto simp: list_all_iff derivative_projection_def)
  show "\<forall>t \<in> set (af_trades fs). is_money (t_daily_close_pnl t)" using assms(5) by (simp add: list_all_iff)
qed

text \<open>A dividend of 100 on a day on which nothing else happened.\<close>

definition dividend_facts :: account_facts where
  "dividend_facts = \<lparr>af_trades = [], af_prior_accounts = [], af_prior_expiries = [],
     af_ledgers = [\<lparr>cl_account_id = ''A1'', cl_effective_trading_day = 10, cl_cash_delta = 0,
       cl_corporate_action_income_delta = 100\<rparr>], af_projections = [], af_cash_positions = []\<rparr>"

theorem settlement_results_decided_witness:
  "check_results 10 dividend_facts no_totals (settled_account 10 dividend_facts \<lparr>ec_opening_cash = 0, ec_today_trade_cash = 0, ec_expected_before = 0\<rparr>
       no_totals sample_account)
    = Inl (DataAccessError ''REPLAY_NET_PNL_CONSERVATION_FAILED'')"
proof -
  let ?inp = "\<lparr>rp_trading_day = 10, rp_prior_settlements = (\<lambda>_. None), rp_prior_expired = [],
      rp_instruments = (\<lambda>_. None), rp_instruments_by_id = (\<lambda>_. None), rp_prices = (\<lambda>_. None),
      rp_has_prior_batch = False, rp_previous_prices = None\<rparr>"
  obtain res where res: "replay product_strategy_registry ?inp [] [] [] = Inr res"
    by (simp add: replay_def replay_scoped_def replay_positions_def attribute_trades_def check_trades_def
        daily_trades_def)
  have tot: "settle_positions sd [] [] (af_projections dividend_facts) = Inr ([], no_totals)" for sd
    by (simp add: settle_positions_def dividend_facts_def)
  show ?thesis
    using settlement_results_decided [OF res, of dividend_facts undefined "[]" "[]" "[]" no_totals 10
        "\<lparr>ec_opening_cash = 0, ec_today_trade_cash = 0, ec_expected_before = 0\<rparr>" sample_account] tot
    by (simp add: dividend_facts_def corporate_income_def added_where_def added_def)
qed

end
