(* ===== verification/Settlement_Cash.thy ===== *)
theory Settlement_Cash
  imports Settlement_Results
begin

text \<open>
  The cash of an account is explained from day to day: what a settlement leaves is what the next one
  starts from, so that only movements that no trade, settlement or corporate action records can fail it.
\<close>

section \<open>Cash effects of trades\<close>

definition effect_of :: "trade \<Rightarrow> decimal" where
  "effect_of t = (case trade_cash_effect t of Inl _ \<Rightarrow> 0 | Inr x \<Rightarrow> x)"

definition has_effect :: "trade \<Rightarrow> bool" where
  "has_effect t \<longleftrightarrow> trade_cash_effect t = Inr (effect_of t)"

lemma effect_money [simp]: "is_money (effect_of t)"
  by (auto simp: effect_of_def trade_cash_effect_def split: order_direction.splits)

lemma rmap_effects: "rmap trade_cash_effect ts = Inr xs \<longleftrightarrow> list_all has_effect ts \<and> xs = map effect_of ts"
  by (induction ts arbitrary: xs)
     (auto simp: rbind_Inr_iff has_effect_def effect_of_def split: sum.splits)

lemma effects_money [simp]: "is_money (\<Sum>t \<leftarrow> ts. effect_of t)"
  by (intro is_money_sum_list) auto

lemma trades_cash_Inr: "trades_cash ts = Inr x \<longleftrightarrow> list_all has_effect ts \<and> x = (\<Sum>t \<leftarrow> ts. effect_of t)"
  by (auto simp: trades_cash_def rbind_Inr_iff rmap_effects)

lemma effects_by_day:
  assumes "list_all (\<lambda>t. t_trading_day t \<le> day) ts"
  shows "(\<Sum>t \<leftarrow> ts. effect_of t) = (\<Sum>t \<leftarrow> filter (\<lambda>t. t_trading_day t < day) ts. effect_of t)
    + (\<Sum>t \<leftarrow> filter (\<lambda>t. t_trading_day t = day) ts. effect_of t)"
  using assms by (induction ts) auto

section \<open>From one day to the next\<close>

lemma added_append:
  "\<forall>x \<in> set (xs @ ys). is_money (f x) \<Longrightarrow> added f (xs @ ys) = added f xs + added f ys"
  by (simp add: added_sum)

lemma totals_are_money:
  assumes "settle_positions sd ps ds qs = Inr (rows, t)"
  shows "is_money (at_futures_holding_pnl t) \<and> is_money (at_expiry_cash t)"
proof -
  let ?step = "\<lambda>(done, totals) q. rbind (settle_projection sd ps ds q) (\<lambda>s.
              Inr (done @ [s], add_position_totals q s totals))"
  have "is_money (at_futures_holding_pnl t) \<and> is_money (at_expiry_cash t)"
    if "rfold ?step (done0, t0) qs = Inr (rows, t)" "is_money (at_futures_holding_pnl t0) \<and> is_money (at_expiry_cash t0)"
    for done0 t0
    using that
  proof (induction qs arbitrary: done0 t0)
    case (Cons q qs)
    then obtain s where "rfold ?step (done0 @ [s], add_position_totals q s t0) qs = Inr (rows, t)"
      by (auto simp: rbind_Inr_iff)
    note Cons.IH [OF this]
    then show ?case using Cons.prems(2)
      by (simp add: add_position_totals_def futures_replay_pnl_components_def plus_money_def Let_def)
  qed simp
  from this [of "[]" no_totals] assms show ?thesis
    by (simp add: settle_positions_def no_totals_def)
qed

text \<open>What a successful settlement of an account leaves behind.\<close>

lemma settle_account_Inr:
  assumes "settle_account sd ps ds fs a = Inr r"
  obtains ec tot where "explain_cash (sd_trading_day sd) fs a = Inr ec"
    "settle_positions sd ps ds (af_projections fs) = Inr (sr_positions r, tot)"
    "as_cash_balance_after (sr_row r)
       = quantize_money (ec_expected_before ec + at_futures_holding_pnl tot + at_expiry_cash tot)"
    "as_futures_settlement_pnl (sr_row r) = at_futures_holding_pnl tot"
    "as_option_expiry_cash_flow (sr_row r) = at_expiry_cash tot"
    "a_cash_balance (sr_account r) = as_cash_balance_after (sr_row r)"
    "a_initial_cash (sr_account r) = a_initial_cash a"
    "a_account_id (sr_account r) = a_account_id a"
    "a_trading_day (sr_account r) = Some (sd_next_trading_day sd)"
    "a_used_margin (sr_account r) = at_used_margin tot"
proof -
  let ?a = "a\<lparr>a_pending_security_value := pending_security_value (sd_prices sd) (af_cash_positions fs)\<rparr>"
  from assms obtain ec tot rows a2 where 1: "explain_cash (sd_trading_day sd) fs ?a = Inr ec"
    "settle_positions sd ps ds (af_projections fs) = Inr (rows, tot)"
    and 2: "assess_account (sd_thresholds sd) (value_account (sd_option_collateral_ratio sd) tot
        (settled_account (sd_trading_day sd) fs ec tot ?a)) = Inr a2"
    and r: "r = \<lparr>sr_account = next_day_account sd a2, sr_positions = rows, sr_row = settlement_row sd fs ec tot a2\<rparr>"
    by (auto simp: settle_account_def Let_def rbind_Inr_iff split: if_split_asm)
  from 2 have a2: "a_cash_balance a2 = quantize_money (ec_expected_before ec + at_futures_holding_pnl tot + at_expiry_cash tot)"
    "a_initial_cash a2 = a_initial_cash a" "a_account_id a2 = a_account_id a" "a_used_margin a2 = at_used_margin tot"
    by (auto simp: assess_account_def rbind_Inr_iff value_account_def settled_account_def Let_def split: if_split_asm)
  have "explain_cash (sd_trading_day sd) fs a = Inr ec" using 1(1) by (simp add: explain_cash_def)
  with 1(2) a2 r show thesis
    by (intro that [of ec tot]) (simp_all add: settlement_row_def next_day_account_def)
qed


definition facts_money :: "account_facts \<Rightarrow> bool" where
  "facts_money fs \<longleftrightarrow> list_all (\<lambda>r. is_money (as_futures_settlement_pnl r)) (af_prior_accounts fs)
     \<and> list_all (\<lambda>r. is_money (es_cash_flow r)) (af_prior_expiries fs)
     \<and> list_all (\<lambda>r. is_money (cl_cash_delta r)) (af_ledgers fs)"

definition known_by :: "date \<Rightarrow> account_facts \<Rightarrow> bool" where
  "known_by day fs \<longleftrightarrow> list_all (\<lambda>t. t_trading_day t \<le> day) (af_trades fs)
     \<and> list_all (\<lambda>r. cl_effective_trading_day r \<le> day) (af_ledgers fs)"

text \<open>The facts of the next day: its own trades and ledger rows, and what the settlement recorded.\<close>

definition later_facts ::
  "account_facts \<Rightarrow> account_settlement \<Rightarrow> expiry_settlement list \<Rightarrow> trade list \<Rightarrow> corporate_ledger list \<Rightarrow> account_facts" where
  "later_facts fs row es ts ls =
     fs\<lparr>af_trades := af_trades fs @ ts, af_prior_accounts := af_prior_accounts fs @ [row],
        af_prior_expiries := af_prior_expiries fs @ es, af_ledgers := af_ledgers fs @ ls\<rparr>"

lemma ledger_split:
  assumes "list_all (\<lambda>r. cl_effective_trading_day r \<le> day) ls"
  shows "(\<Sum>r \<leftarrow> ls. cl_cash_delta r) = (\<Sum>r \<leftarrow> filter (\<lambda>r. cl_effective_trading_day r < day) ls. cl_cash_delta r)
    + (\<Sum>r \<leftarrow> filter (\<lambda>r. cl_effective_trading_day r = day) ls. cl_cash_delta r)"
  using assms by (induction ls) auto

lemma explain_cash_Inr:
  assumes "facts_money fs" "is_money (a_initial_cash a)"
  shows "explain_cash day fs a = Inr ec \<longleftrightarrow>
    list_all has_effect (filter (\<lambda>t. t_trading_day t < day) (af_trades fs)) \<and> list_all has_effect (trades_on day fs)
    \<and> ec_opening_cash ec = a_initial_cash a
        + (\<Sum>t \<leftarrow> filter (\<lambda>t. t_trading_day t < day) (af_trades fs). effect_of t)
        + (\<Sum>r \<leftarrow> af_prior_accounts fs. as_futures_settlement_pnl r) + (\<Sum>r \<leftarrow> af_prior_expiries fs. es_cash_flow r)
        + (\<Sum>r \<leftarrow> filter (\<lambda>r. cl_effective_trading_day r < day) (af_ledgers fs). cl_cash_delta r)
    \<and> ec_today_trade_cash ec = (\<Sum>t \<leftarrow> trades_on day fs. effect_of t)
    \<and> ec_expected_before ec = ec_opening_cash ec + ec_today_trade_cash ec
        + (\<Sum>r \<leftarrow> filter (\<lambda>r. cl_effective_trading_day r = day) (af_ledgers fs). cl_cash_delta r)
    \<and> quantize_money (a_cash_balance a) = ec_expected_before ec"
proof -
  let ?opening = "a_initial_cash a + (\<Sum>t \<leftarrow> filter (\<lambda>t. t_trading_day t < day) (af_trades fs). effect_of t)
        + (\<Sum>r \<leftarrow> af_prior_accounts fs. as_futures_settlement_pnl r) + (\<Sum>r \<leftarrow> af_prior_expiries fs. es_cash_flow r)
        + (\<Sum>r \<leftarrow> filter (\<lambda>r. cl_effective_trading_day r < day) (af_ledgers fs). cl_cash_delta r)"
  let ?today = "\<Sum>r \<leftarrow> filter (\<lambda>r. cl_effective_trading_day r = day) (af_ledgers fs). cl_cash_delta r"
  have sums: "added as_futures_settlement_pnl (af_prior_accounts fs) = (\<Sum>r \<leftarrow> af_prior_accounts fs. as_futures_settlement_pnl r)"
    "added es_cash_flow (af_prior_expiries fs) = (\<Sum>r \<leftarrow> af_prior_expiries fs. es_cash_flow r)"
    "corporate_cash (\<lambda>x. x < day) fs
      = (\<Sum>r \<leftarrow> filter (\<lambda>r. cl_effective_trading_day r < day) (af_ledgers fs). cl_cash_delta r)"
    "corporate_cash (\<lambda>x. x = day) fs = ?today"
    using assms(1) by (auto simp: facts_money_def list_all_iff corporate_cash_def added_where_def intro!: added_sum)
  have money: "is_money ?opening" "is_money (\<Sum>t \<leftarrow> trades_on day fs. effect_of t)" "is_money ?today"
    using assms by (auto simp: facts_money_def list_all_iff intro!: is_money_add is_money_sum_list)
  have q: "quantize_money (?opening + (\<Sum>t \<leftarrow> trades_on day fs. effect_of t) + ?today)
      = ?opening + (\<Sum>t \<leftarrow> trades_on day fs. effect_of t) + ?today"
    by (intro quantize_money_idem is_money_add money)
  show ?thesis
    unfolding explain_cash_def sums rbind_Inr_iff trades_cash_Inr Let_def
    using q money(1) by (cases ec) auto
qed

text \<open>
  C27: Cash is explained from day to day. After a successful settlement of an account, the next day's
  settlement never finds its opening cash wrong, provided that only trades, each by its cash effect, and
  corporate actions move the balance in between: it opens with exactly the balance that the settlement
  left. The mark to market of futures and the cash of expired options are part of it.
\<close>

theorem next_day_cash_explained:
  assumes "settle_account sd ps ds fs a = Inr r"
    and "facts_money fs" and "is_money (a_initial_cash a)" and "known_by (sd_trading_day sd) fs"
    and "sd_trading_day sd < day"
    and "list_all (\<lambda>x. is_money (es_cash_flow x)) es"
    and "(\<Sum>x \<leftarrow> es. es_cash_flow x) = as_option_expiry_cash_flow (sr_row r)"
    and "list_all (\<lambda>t. t_trading_day t = day \<and> has_effect t) ts"
    and "list_all (\<lambda>x. cl_effective_trading_day x = day \<and> is_money (cl_cash_delta x)) ls"
    and "a_initial_cash a' = a_initial_cash a"
    and "a_cash_balance a' = a_cash_balance (sr_account r)
           + (\<Sum>t \<leftarrow> ts. effect_of t) + (\<Sum>x \<leftarrow> ls. cl_cash_delta x)"
  shows "explain_cash day (later_facts fs (sr_row r) es ts ls) a'
    = Inr \<lparr>ec_opening_cash = as_cash_balance_after (sr_row r), ec_today_trade_cash = (\<Sum>t \<leftarrow> ts. effect_of t),
           ec_expected_before = a_cash_balance a'\<rparr>"
proof -
  let ?today = "sd_trading_day sd" and ?fs = "later_facts fs (sr_row r) es ts ls"
  obtain ec tot where ec: "explain_cash ?today fs a = Inr ec"
    and tot: "settle_positions sd ps ds (af_projections fs) = Inr (sr_positions r, tot)"
    and after: "as_cash_balance_after (sr_row r)
       = quantize_money (ec_expected_before ec + at_futures_holding_pnl tot + at_expiry_cash tot)"
      "as_futures_settlement_pnl (sr_row r) = at_futures_holding_pnl tot"
      "as_option_expiry_cash_flow (sr_row r) = at_expiry_cash tot"
      "a_cash_balance (sr_account r) = as_cash_balance_after (sr_row r)"
    by (rule settle_account_Inr [OF assms(1)])
  note e = ec [unfolded explain_cash_Inr [OF assms(2,3)]]
  have m: "is_money (at_futures_holding_pnl tot)" "is_money (at_expiry_cash tot)" "is_money (ec_expected_before ec)"
    using totals_are_money [OF tot] e by (metis quantize_money_is_money)+
  have balance: "as_cash_balance_after (sr_row r) = ec_expected_before ec + at_futures_holding_pnl tot + at_expiry_cash tot"
    unfolding after(1) by (intro quantize_money_idem is_money_add m)
  have fm: "facts_money ?fs"
    using assms(2,6,9) m(1) by (auto simp: later_facts_def facts_money_def after(2) list_all_iff)
  have fresh: "filter (\<lambda>t. t_trading_day t < day) (af_trades ?fs) = af_trades fs" "trades_on day ?fs = ts"
    "filter (\<lambda>x. cl_effective_trading_day x < day) (af_ledgers ?fs) = af_ledgers fs"
    "filter (\<lambda>x. cl_effective_trading_day x = day) (af_ledgers ?fs) = ls"
    using assms(4,5,8,9)
    by (auto simp: later_facts_def trades_on_def known_by_def list_all_iff filter_empty_conv filter_id_conv
        intro!: filter_True)
  have known: "list_all (\<lambda>t. t_trading_day t \<le> ?today) (af_trades fs)"
    "list_all (\<lambda>x. cl_effective_trading_day x \<le> ?today) (af_ledgers fs)"
    using assms(4) by (simp_all add: known_by_def)
  have effects: "list_all has_effect (af_trades fs)" "list_all has_effect ts"
    using e known(1) assms(8) by (force simp: list_all_iff trades_on_def)+
  have rows: "af_prior_accounts ?fs = af_prior_accounts fs @ [sr_row r]"
    "af_prior_expiries ?fs = af_prior_expiries fs @ es"
    by (simp_all add: later_facts_def)
  have opens: "as_cash_balance_after (sr_row r) = a_initial_cash a' + (\<Sum>t \<leftarrow> af_trades fs. effect_of t)
      + (\<Sum>x \<leftarrow> af_prior_accounts ?fs. as_futures_settlement_pnl x) + (\<Sum>x \<leftarrow> af_prior_expiries ?fs. es_cash_flow x)
      + (\<Sum>x \<leftarrow> af_ledgers fs. cl_cash_delta x)"
    using e effects_by_day [OF known(1)] ledger_split [OF known(2)] assms(7)
    unfolding balance rows after(3) assms(10) by (simp add: after(2) trades_on_def)
  have money: "is_money (a_cash_balance a')"
    unfolding assms(11) after(4) balance
    using assms(9) m by (auto simp: list_all_iff intro!: is_money_add is_money_sum_list)
  have initial: "is_money (a_initial_cash a')" using assms(3,10) by simp
  show ?thesis
    unfolding explain_cash_Inr [OF fm initial] fresh
    using effects opens money by (simp add: assms(11) after(4) quantize_money_idem)
qed

text \<open>An account that pays 500 for rights on day 10, and receives 200 on day 11.\<close>

definition settled_day :: settlement_day where
  "settled_day =
     \<lparr>sd_batch_id = ''B1'', sd_trading_day = 10, sd_next_trading_day = 11, sd_now = 0,
      sd_instruments = (\<lambda>_. None), sd_instruments_by_id = (\<lambda>_. None), sd_prices = (\<lambda>_. None),
      sd_futures_rules = (\<lambda>_. None),
      sd_thresholds = \<lparr>warning_ratio = 8/10, liquidation_ratio = 1, recovery_ratio = 7/10\<rparr>,
      sd_option_collateral_ratio = 1\<rparr>"

definition rights_facts :: account_facts where
  "rights_facts = \<lparr>af_trades = [], af_prior_accounts = [], af_prior_expiries = [],
     af_ledgers = [\<lparr>cl_account_id = ''A1'', cl_effective_trading_day = 10, cl_cash_delta = - 500,
       cl_corporate_action_income_delta = 0\<rparr>], af_projections = [], af_cash_positions = []\<rparr>"

definition rights_account :: account where
  "rights_account = sample_account\<lparr>a_account_type := ''SECURITIES_CASH'', a_cash_balance := 99500\<rparr>"

lemma is_money_uminus_numeral [simp]: "is_money (- numeral k)"
  using is_money_of_int [of "- numeral k"] by simp

theorem next_day_cash_explained_witness:
  "\<exists>r. settle_account settled_day [] [] rights_facts rights_account = Inr r
     \<and> explain_cash 11 (later_facts rights_facts (sr_row r) [] []
           [\<lparr>cl_account_id = ''A1'', cl_effective_trading_day = 11, cl_cash_delta = 200,
             cl_corporate_action_income_delta = 0\<rparr>]) (rights_account\<lparr>a_cash_balance := 99700\<rparr>)
         = Inr \<lparr>ec_opening_cash = 99500, ec_today_trade_cash = 0, ec_expected_before = 99700\<rparr>"
proof -
  have fm: "facts_money rights_facts" "known_by 10 rights_facts"
    by (simp_all add: facts_money_def known_by_def rights_facts_def)
  have ec: "explain_cash 10 rights_facts a
    = Inr \<lparr>ec_opening_cash = 100000, ec_today_trade_cash = 0, ec_expected_before = 99500\<rparr>"
    if "a_initial_cash a = 100000" "a_cash_balance a = 99500" for a
    using that explain_cash_Inr [OF fm(1), of a]
    by (simp add: trades_on_def rights_facts_def)
  obtain r where r: "settle_account settled_day [] [] rights_facts rights_account = Inr r"
    "a_cash_balance (sr_account r) = 99500" "as_cash_balance_after (sr_row r) = 99500"
    "as_option_expiry_cash_flow (sr_row r) = 0"
    by (simp add: settle_account_def settled_day_def rights_account_def sample_account_def ec
        settle_positions_def money_sum_def trades_on_def)
       (simp add: rights_facts_def no_totals_def check_results_def settled_account_def Let_def money_sum_def
        trades_on_def total_close_pnl_def option_close_pnl_def cash_close_pnl_def cash_position_pnl_def
        corporate_income_def added_where_def added_def pending_security_value_def assess_account_def evaluate_def
        validate_thresholds_def limit_exceeded_def value_account_def ensure_def settlement_row_def next_day_account_def)
  have "sd_trading_day settled_day = 10" "a_initial_cash rights_account = 100000"
    by (simp_all add: settled_day_def rights_account_def sample_account_def)
  note day = this
  show ?thesis
    using next_day_cash_explained [OF r(1) fm(1) _ _ _ _ _ _ _ _ _, of 11 "[]" "[]"
        "[\<lparr>cl_account_id = ''A1'', cl_effective_trading_day = 11, cl_cash_delta = 200,
             cl_corporate_action_income_delta = 0\<rparr>]" "rights_account\<lparr>a_cash_balance := 99700\<rparr>"] r fm(2) day
    by auto
qed

end
