(* ===== verification/Settlement_Barrier.thy ===== *)
theory Settlement_Barrier
  imports Cash_Orders Samples
begin

text \<open>
  The order barrier of \<open>app/services/daily_settlement_service.py\<close>: before a day is settled every active
  order is withdrawn, one transaction after the other, until the query finds none, and then the active
  orders are counted. The loop has no bound of its own, so that not returning is the value None; it is
  shown that it returns whenever orders are addressed by their ids.
\<close>

section \<open>Active orders\<close>

text \<open>\<open>LIMIT_LIKE_ORDER_TYPES\<close>, \<open>SUPPORTED_ACTIVE_OFFSET_FLAGS\<close> and cash security orders, which have no flag.\<close>

definition limit_like_order_types :: "order_type list" where
  "limit_like_order_types = [LIMIT, COUNTERPARTY, LAST]"

definition active_offset :: "offset_flag option \<Rightarrow> bool" where
  "active_offset flag =
     (flag \<in> {None, Some OPEN, Some CLOSE, Some CLOSE_TODAY, Some CLOSE_YESTERDAY})"

definition active_order :: "order \<Rightarrow> bool" where
  "active_order r \<longleftrightarrow> o_status r \<in> {ACCEPTED, PARTIALLY_FILLED} \<and> 0 < o_remaining_volume r"

definition listed_active :: "order \<Rightarrow> bool" where
  "listed_active r \<longleftrightarrow> active_order r \<and> o_order_type r \<in> set limit_like_order_types
     \<and> active_offset (o_offset_flag r)"

text \<open>\<open>list_active_after_id\<close> with cursor 0 and a batch of one; the table stands in the order of ids.\<close>

definition next_active_order :: "db \<Rightarrow> order option" where
  "next_active_order d = first_row listed_active (db_orders d)"

definition count_active_orders :: "db \<Rightarrow> nat" where
  "count_active_orders d = length (filter active_order (db_orders d))"

section \<open>The loop\<close>

text \<open>
  The services by type, \<open>cash_security_cancellation_services\<close>, whether order entry is enabled for a type,
  and the ids and times drawn for the n-th cancellation.
\<close>

record barrier_env =
  be_services :: "instrument_type \<Rightarrow> cash_service option"
  be_entry_enabled :: "instrument_type \<Rightarrow> bool"
  be_ids :: "nat \<Rightarrow> cancel_ids"
  be_cash_ids :: "nat \<Rightarrow> cash_cancel_ids"
  be_now :: "nat \<Rightarrow> datetime"

text \<open>The services that are there when none are given: an ETF has none.\<close>

definition default_cancellation_services :: "instrument_type \<Rightarrow> cash_service option" where
  "default_cancellation_services =
     [STOCK \<mapsto> stock_order_service, CONVERTIBLE_BOND \<mapsto> convertible_bond_order_service]"

definition cancel_active :: "barrier_env \<Rightarrow> nat \<Rightarrow> cash_db \<Rightarrow> order \<Rightarrow> cash_db result" where
  "cancel_active env n d r =
     (if o_instrument_type r \<in> cash_security_instrument_types then
        (case be_services env (o_instrument_type r) of
           None \<Rightarrow> Inl PyKeyError
         | Some sv \<Rightarrow>
             rbind (cancel_cash_order d sv (be_entry_enabled env (o_instrument_type r)) (be_now env n)
                      (be_cash_ids env n) scope_admin (o_order_id r) (o_account_id r)) (\<lambda>(d', _). Inr d'))
      else
        rbind (cancel_order (cd_core d) (be_ids env n) (be_now env n) (o_order_id r) (o_account_id r)
                 (Some scope_admin) True False) (\<lambda>(core, _). Inr (d\<lparr>cd_core := core\<rparr>)))"

text \<open>
  Every cancellation is committed by itself: an error leaves what was cancelled before. The result is
  the error, if any, with the tables and the number of cancelled orders.
\<close>

partial_function (option) cancel_active_orders ::
  "barrier_env \<Rightarrow> nat \<Rightarrow> cash_db \<Rightarrow> (app_error option \<times> cash_db \<times> nat) option" where
  "cancel_active_orders env n d =
     (case next_active_order (cd_core d) of
        None \<Rightarrow> Some (None, d, n)
      | Some r \<Rightarrow>
          (case cancel_active env n d r of
             Inl e \<Rightarrow> Some (Some e, d, n)
           | Inr d' \<Rightarrow> cancel_active_orders env (Suc n) d'))"

definition confirm_barrier :: "db \<Rightarrow> unit result" where
  "confirm_barrier d =
     (if count_active_orders d \<noteq> 0 then Inl (DailySettlementError ''ACTIVE_ORDER_BARRIER_FAILED'')
      else Inr ())"

section \<open>One cancellation\<close>

text \<open>Orders are found by the ids that their rows carry.\<close>

definition orders_addressed :: "db \<Rightarrow> bool" where
  "orders_addressed d \<longleftrightarrow> distinct (map o_order_id (db_orders d))
     \<and> list_all (\<lambda>r. strip (o_order_id r) = o_order_id r) (db_orders d)"

lemma addressed_order:
  assumes "orders_addressed d" "r \<in> set (db_orders d)"
  shows "get_order d (strip (o_order_id r)) = Some r"
  using assms find_row_distinct [of o_order_id "db_orders d" r]
  by (simp add: orders_addressed_def list_all_iff get_order_def)

lemma scope_admin_order: "scoped_order d scope_admin k = get_order d k"
  by (simp add: scoped_order_def scope_admin_def)

lemma put_orders_simps [simp]:
  "db_orders (put_account a d) = db_orders d" "db_orders (put_position p d) = db_orders d"
  "db_orders (put_details xs d) = db_orders d" "db_orders (put_allocations fs d) = db_orders d"
  "db_orders (add_events es d) = db_orders d" "db_orders (put_position_option po d) = db_orders d"
  "db_orders (put_order r d) = replace_row o_order_id r (db_orders d)"
  by (simp_all add: put_account_def put_position_def put_details_def put_allocations_def add_events_def
      put_position_option_def put_order_def split: option.splits)

text \<open>A cancellation that succeeds replaces the row of its order by one that is not active any more.\<close>

lemma cancel_active_orders_table:
  assumes run: "cancel_active env n d r = Inr d'" and r: "r \<in> set (db_orders (cd_core d))" "active_order r"
    and addressed: "orders_addressed (cd_core d)"
  obtains r' where "db_orders (cd_core d') = replace_row o_order_id r' (db_orders (cd_core d))"
    "o_order_id r' = o_order_id r" "o_remaining_volume r' = 0"
proof (cases "o_instrument_type r \<in> cash_security_instrument_types")
  case True
  with run obtain sv x where "cancel_cash_order d sv (be_entry_enabled env (o_instrument_type r)) (be_now env n)
      (be_cash_ids env n) scope_admin (o_order_id r) (o_account_id r) = Inr (d', x)"
    by (auto simp: cancel_active_def rbind_Inr_iff split: option.split_asm)
  then obtain a where "cancel_cash_located d sv (be_now env n) (be_cash_ids env n) r a = Inr (d', x)"
    using r(2) addressed_order [OF addressed r(1)]
    by (auto simp: cancel_cash_order_def scope_admin_order active_order_def terminal_statuses_def
        split: if_split_asm option.split_asm)
  then obtain a' p where "d' = on_core (\<lambda>core. add_events (cash_cancel_events (be_cash_ids env n) sv (be_now env n)
        (cancelled_cash_order (be_now env n) r) a' p)
      (put_order (cancelled_cash_order (be_now env n) r) (put_account a' (put_position_option p core)))) d"
    by (auto simp: cancel_cash_located_def rbind_Inr_iff Let_def split: if_split_asm)
  then show thesis
    by (intro that [of "cancelled_cash_order (be_now env n) r"]) (simp_all add: on_core_def cancelled_cash_order_def)
next
  case False
  with run obtain core x where c: "cancel_order (cd_core d) (be_ids env n) (be_now env n) (o_order_id r)
      (o_account_id r) (Some scope_admin) True False = Inr (core, x)" and d': "d' = d\<lparr>cd_core := core\<rparr>"
    by (auto simp: cancel_active_def rbind_Inr_iff)
  then obtain a where "cancel_located (cd_core d) (be_ids env n) (be_now env n) False r a = Inr (core, x)"
    using r(2) addressed_order [OF addressed r(1)]
    by (auto simp: cancel_order_def locate_order_def scope_admin_order active_order_def idempotent_statuses_def
        rbind_Inr_iff split: if_split_asm option.split_asm)
  then obtain a' released where "core = write_cancellation (be_ids env n) (be_now env n) r
      (cancelled_order (be_now env n) False r) a' released (cd_core d)"
    by (auto simp: cancel_located_def rbind_Inr_iff Let_def split: if_split_asm)
  then show thesis using d'
    by (intro that [of "cancelled_order (be_now env n) False r"])
       (auto simp: write_cancellation_def cancelled_order_def Let_def split: option.splits)
qed

section \<open>The whole loop\<close>

definition how_many :: "(order \<Rightarrow> bool) \<Rightarrow> cash_db \<Rightarrow> nat" where
  "how_many P d = length (filter P (db_orders (cd_core d)))"

lemma replaced_count:
  assumes "distinct (map key xs)" "x \<in> set xs" "key y = key x" "\<not> P y"
  shows "length (filter P (replace_row key y xs)) + (if P x then 1 else 0) = length (filter P xs)"
  using assms
proof (induction xs)
  case (Cons z xs)
  have same: "replace_row key y xs = xs" if "key x = key z"
    using that Cons.prems(1,3) by (intro replace_row_absent) (metis distinct.simps(2) list.simps(9) set_map)
  show ?case
  proof (cases "key x = key z")
    case True
    then have "x = z" using Cons.prems(1,2) by (metis distinct.simps(2) image_eqI list.simps(9) set_ConsD set_map)
    with same [OF True] Cons.prems(3,4) show ?thesis by (simp add: replace_row_def)
  next
    case False
    with Cons show ?thesis by (auto simp: replace_row_def)
  qed
qed simp

lemma cancel_active_counts:
  assumes "cancel_active env n d r = Inr d'" "r \<in> set (db_orders (cd_core d))" "active_order r"
    "orders_addressed (cd_core d)" and P: "\<And>x. P x \<Longrightarrow> active_order x"
  shows "how_many P d' + (if P r then 1 else 0) = how_many P d"
proof -
  obtain r' where r': "db_orders (cd_core d') = replace_row o_order_id r' (db_orders (cd_core d))"
    "o_order_id r' = o_order_id r" "o_remaining_volume r' = 0"
    by (rule cancel_active_orders_table [OF assms(1-4)])
  then have "\<not> P r'" using P [of r'] by (auto simp: active_order_def)
  with replaced_count [OF _ assms(2) r'(2), of P] assms(4) show ?thesis
    by (simp add: how_many_def r'(1) orders_addressed_def)
qed

lemma cancel_active_addressed:
  assumes "cancel_active env n d r = Inr d'" "r \<in> set (db_orders (cd_core d))" "active_order r"
    "orders_addressed (cd_core d)"
  shows "orders_addressed (cd_core d')"
proof -
  obtain r' where r': "db_orders (cd_core d') = replace_row o_order_id r' (db_orders (cd_core d))"
    "o_order_id r' = o_order_id r"
    by (rule cancel_active_orders_table [OF assms])
  have "distinct (map o_order_id (db_orders (cd_core d')))"
    using assms(4) unfolding r'(1) orders_addressed_def map_replace_row by simp
  moreover have "list_all (\<lambda>r. strip (o_order_id r) = o_order_id r) (db_orders (cd_core d'))"
    using assms(2,4) r'(2) unfolding r'(1) by (auto simp: orders_addressed_def list_all_iff replace_row_def)
  ultimately show ?thesis by (simp add: orders_addressed_def)
qed

definition barrier_outcome :: "cash_db \<Rightarrow> nat \<Rightarrow> (app_error option \<times> cash_db \<times> nat) option \<Rightarrow> bool" where
  "barrier_outcome d n out \<longleftrightarrow> (\<exists>e d' m. out = Some (e, d', m) \<and> orders_addressed (cd_core d')
     \<and> how_many listed_active d' + m = how_many listed_active d + n
     \<and> how_many (\<lambda>r. active_order r \<and> \<not> listed_active r) d' = how_many (\<lambda>r. active_order r \<and> \<not> listed_active r) d
     \<and> (how_many listed_active d' = 0 \<longleftrightarrow> e = None))"

lemma next_active_Some:
  assumes "next_active_order (cd_core d) = Some r"
  shows "r \<in> set (db_orders (cd_core d))" "listed_active r" "active_order r"
  using first_row_SomeD [OF assms [unfolded next_active_order_def]] by (auto simp: listed_active_def)

lemma next_active_None: "next_active_order (cd_core d) = None \<longleftrightarrow> how_many listed_active d = 0"
  by (auto simp: next_active_order_def how_many_def find_None_iff filter_empty_conv)

lemma barrier_loop:
  "orders_addressed (cd_core d) \<Longrightarrow> barrier_outcome d n (cancel_active_orders env n d)"
proof (induction "how_many listed_active d" arbitrary: d n)
  case 0
  then have "next_active_order (cd_core d) = None" by (simp add: next_active_None)
  with 0 show ?case by (subst cancel_active_orders.simps) (simp add: barrier_outcome_def)
next
  case (Suc k)
  then obtain r where found: "next_active_order (cd_core d) = Some r"
    by (metis next_active_None nat.distinct(1) not_Some_eq)
  note r = next_active_Some [OF found]
  show ?case
  proof (cases "cancel_active env n d r")
    case (Inl e)
    with found Suc.hyps(2) Suc.prems show ?thesis
      by (subst cancel_active_orders.simps) (simp add: barrier_outcome_def)
  next
    case (Inr d')
    note counts = cancel_active_counts [OF Inr r(1,3) Suc.prems]
    have listed: "how_many listed_active d' + 1 = how_many listed_active d"
      using counts [of listed_active] r(2) by (simp add: listed_active_def)
    have rest: "how_many (\<lambda>r. active_order r \<and> \<not> listed_active r) d'
        = how_many (\<lambda>r. active_order r \<and> \<not> listed_active r) d"
      using counts [of "\<lambda>r. active_order r \<and> \<not> listed_active r"] r(2) by simp
    have "k = how_many listed_active d'" using listed Suc.hyps(2) by simp
    from Suc.hyps(1) [OF this cancel_active_addressed [OF Inr r(1,3) Suc.prems], of "Suc n"]
    show ?thesis using found Inr listed rest
      by (subst cancel_active_orders.simps) (auto simp: barrier_outcome_def)
  qed
qed

text \<open>
  C25: The order barrier is reached. In tables whose orders are found by their ids the cancellation loop
  returns: it stops at the first cancellation that fails, or when no order is listed any more, and then
  it has cancelled exactly the orders that were listed. The barrier behind it is confirmed exactly when
  no active order stays unlisted, so one active MARKET order, which the loop never lists, fails the
  settlement of the day.
\<close>

theorem order_barrier_reached:
  assumes "orders_addressed (cd_core d)"
  shows "\<exists>e d' m. cancel_active_orders env n d = Some (e, d', m)
    \<and> how_many listed_active d' + m = how_many listed_active d + n
    \<and> (e = None \<longleftrightarrow> how_many listed_active d' = 0)
    \<and> (confirm_barrier (cd_core d') = Inr ()
        \<longleftrightarrow> e = None \<and> how_many (\<lambda>r. active_order r \<and> \<not> listed_active r) d = 0)"
proof -
  have "length (filter active_order xs) = length (filter listed_active xs)
      + length (filter (\<lambda>r. active_order r \<and> \<not> listed_active r) xs)" for xs
    by (induction xs) (auto simp: listed_active_def)
  then have "how_many active_order c
      = how_many listed_active c + how_many (\<lambda>r. active_order r \<and> \<not> listed_active r) c" for c
    by (simp add: how_many_def)
  moreover have "confirm_barrier (cd_core c) = Inr () \<longleftrightarrow> how_many active_order c = 0" for c
    by (simp add: confirm_barrier_def count_active_orders_def how_many_def)
  moreover from barrier_loop [OF assms, of n env, unfolded barrier_outcome_def]
  obtain e d' m where "cancel_active_orders env n d = Some (e, d', m)"
    "how_many listed_active d' + m = how_many listed_active d + n"
    "how_many (\<lambda>r. active_order r \<and> \<not> listed_active r) d' = how_many (\<lambda>r. active_order r \<and> \<not> listed_active r) d"
    "(how_many listed_active d' = 0) = (e = None)"
    by (elim exE conjE) (rule that)
  ultimately show ?thesis by (intro exI [of _ e] exI [of _ d'] exI [of _ m]) auto
qed

text \<open>The opening order of the sample book and an active MARKET order beside it.\<close>

definition barrier_sample_db :: cash_db where
  "barrier_sample_db =
     \<lparr>cd_core = sample_db\<lparr>db_orders := [sample_order ''O1'' BUY OPEN 2 7000 10 0,
        (sample_order ''O2'' BUY OPEN 1 0 0 0)\<lparr>o_order_type := MARKET\<rparr>]\<rparr>,
      cd_snapshots = [], cd_accumulators = [], cd_trade_fees = [], cd_rules = [], cd_facts = []\<rparr>"

definition barrier_sample_env :: barrier_env where
  "barrier_sample_env =
     \<lparr>be_services = default_cancellation_services, be_entry_enabled = (\<lambda>_. True),
      be_ids = (\<lambda>_. \<lparr>ci_order_event = ''E1'', ci_account_fact = ''E2'', ci_position_fact = ''E3''\<rparr>),
      be_cash_ids = (\<lambda>_. \<lparr>cy_order_event = ''E1'', cy_business_version = ''V'', cy_fact_event = ''E2''\<rparr>),
      be_now = (\<lambda>_. 60)\<rparr>"

theorem order_barrier_reached_witness:
  "\<exists>e d' m. cancel_active_orders barrier_sample_env 0 barrier_sample_db = Some (e, d', m)
    \<and> how_many listed_active d' + m = 1 \<and> confirm_barrier (cd_core d') \<noteq> Inr ()"
proof -
  have d: "orders_addressed (cd_core barrier_sample_db)" "how_many listed_active barrier_sample_db = 1"
    "how_many (\<lambda>r. active_order r \<and> \<not> listed_active r) barrier_sample_db = 1"
    by (simp_all add: orders_addressed_def how_many_def barrier_sample_db_def sample_order_def sample_db_def
        listed_active_def active_order_def limit_like_order_types_def active_offset_def strip_def lstrip_def is_space_def)
  from order_barrier_reached [OF d(1), of barrier_sample_env 0] show ?thesis
    unfolding d(2,3) by (elim exE conjE) (intro exI conjI, assumption, simp_all)
qed

end
