(* ===== verification/Settlement_Batch.thy ===== *)
theory Settlement_Batch
  imports Account_Settlement Settlement_Barrier
begin

text \<open>
  \<open>app/services/daily_settlement_service.py\<close>, \<open>_settle_batch_from_facts\<close> as one transaction: the facts
  of a trading day are read, the derivative positions replayed, the cash securities replayed and marked,
  every account settled, the holdings carried over, and the rows checked before they are written.
\<close>

section \<open>The rows of results\<close>

text \<open>\<open>DailyPositionSettlement\<close>; the two JSON snapshots are left out.\<close>

record position_settlement =
  dp_batch_id :: string
  dp_trading_day :: date
  dp_account_id :: string
  dp_position_id :: string
  dp_exchange_id :: string
  dp_symbol :: string
  dp_order_book_id :: string
  dp_instrument_type :: instrument_type
  dp_direction :: position_direction
  dp_multiplier_snapshot :: decimal
  dp_volume_before :: int
  dp_opening_yesterday_volume :: int
  dp_today_open_volume :: int
  dp_today_close_volume :: int
  dp_today_close_today_volume :: int
  dp_today_close_yesterday_volume :: int
  dp_today_volume_before :: int
  dp_yesterday_volume_before :: int
  dp_volume_after :: int
  dp_today_volume_after :: int
  dp_yesterday_volume_after :: int
  dp_previous_settlement_basis :: "decimal option"
  dp_settlement_price :: decimal
  dp_daily_settlement_pnl :: decimal
  dp_close_pnl :: decimal
  dp_option_economic_pnl :: decimal
  dp_commission :: decimal
  dp_premium_cash_flow :: decimal
  dp_cumulative_economic_pnl :: decimal
  dp_settlement_margin :: decimal
  dp_option_market_value :: decimal
  dp_expired_closed :: bool
  dp_settled_at :: datetime

definition today_close_volume :: "replayed_position \<Rightarrow> int" where
  "today_close_volume q = rv_today_close_today_volume q + rv_today_close_yesterday_volume q"

definition position_row :: "settlement_day \<Rightarrow> replayed_position \<Rightarrow> settled_position \<Rightarrow> position_settlement" where
  "position_row sd q s =
     \<lparr>dp_batch_id = sd_batch_id sd, dp_trading_day = sd_trading_day sd, dp_account_id = rv_account_id q,
      dp_position_id = rv_position_id q, dp_exchange_id = rv_exchange_id q, dp_symbol = rv_symbol q,
      dp_order_book_id = rv_order_book_id q, dp_instrument_type = rv_instrument_type q,
      dp_direction = rv_direction q, dp_multiplier_snapshot = rv_multiplier q,
      dp_volume_before = rv_ending_volume_before_expiry q,
      dp_opening_yesterday_volume = rv_opening_yesterday_volume q,
      dp_today_open_volume = rv_today_open_volume q, dp_today_close_volume = today_close_volume q,
      dp_today_close_today_volume = rv_today_close_today_volume q,
      dp_today_close_yesterday_volume = rv_today_close_yesterday_volume q,
      dp_today_volume_before = max (rv_today_open_volume q - rv_today_close_today_volume q) 0,
      dp_yesterday_volume_before =
        max (rv_opening_yesterday_volume q - rv_today_close_yesterday_volume q) 0,
      dp_volume_after = rv_ending_volume q, dp_today_volume_after = 0,
      dp_yesterday_volume_after = rv_ending_volume q, dp_previous_settlement_basis = rv_previous_basis q,
      dp_settlement_price = rv_settlement_price q, dp_daily_settlement_pnl = rv_holding_pnl q,
      dp_close_pnl = rv_close_pnl q, dp_option_economic_pnl = rv_option_economic_pnl q,
      dp_commission = rv_commission q, dp_premium_cash_flow = rv_premium_cash_flow q,
      dp_cumulative_economic_pnl = rv_cumulative_economic_pnl q,
      dp_settlement_margin = sp_settlement_margin s, dp_option_market_value = sp_option_market_value s,
      dp_expired_closed = rv_expired_closed q, dp_settled_at = sd_now sd\<rparr>"

text \<open>The cash settlement of an expired option; lookups that fail raise KeyError.\<close>

definition expiry_row :: "settlement_day \<Rightarrow> replayed_position \<Rightarrow> expiry_settlement result" where
  "expiry_row sd q =
     (case sd_instruments sd (rv_order_book_id q) of
        None \<Rightarrow> Inl PyKeyError
      | Some ins \<Rightarrow>
        (case Option.bind (sm_underlying_instrument_id ins) (sd_instruments_by_id sd) of
           None \<Rightarrow> Inl PyKeyError
         | Some underlying \<Rightarrow>
           (case sd_prices sd (sm_exchange_id underlying, sm_symbol underlying) of
              None \<Rightarrow> Inl PyKeyError
            | Some fz \<Rightarrow>
              (case sm_strike_price ins of
                 None \<Rightarrow> Inl PyTypeError
               | Some strike \<Rightarrow>
                 Inr \<lparr>es_batch_id = sd_batch_id sd, es_trading_day = sd_trading_day sd,
                      es_account_id = rv_account_id q, es_position_id = rv_position_id q,
                      es_option_order_book_id = rv_order_book_id q, es_option_type = sm_option_type ins,
                      es_direction = rv_direction q,
                      es_underlying_order_book_id = sm_order_book_id underlying,
                      es_underlying_exchange_id = sm_exchange_id underlying,
                      es_underlying_symbol = sm_symbol underlying,
                      es_underlying_settlement_price = fz_price fz, es_strike_price = strike,
                      es_multiplier_snapshot = rv_multiplier q,
                      es_quantity = rv_ending_volume_before_expiry q,
                      es_intrinsic_value = rv_expiry_intrinsic_value q,
                      es_gross_cash_amount = \<bar>rv_expiry_cash_flow q\<bar>, es_cash_flow = rv_expiry_cash_flow q,
                      es_realized_pnl = rv_expiry_realized_pnl q, es_settled_at = sd_now sd\<rparr>))))"

definition expiry_rows :: "settlement_day \<Rightarrow> replayed_position list \<Rightarrow> expiry_settlement list result" where
  "expiry_rows sd qs = rmap (expiry_row sd) (filter rv_expired_closed qs)"

section \<open>The facts of the day\<close>

text \<open>
  The tables of the settlement. Adjustments and ledger rows are those whose corporate action is not under
  review, superseded or cancelled, \<open>MarginRuleDaily\<close> is given by day; adjustments stand in the order of the replay stream. All stored rows
  of accounts are completed ones.
\<close>

record settlement_db =
  st_cash :: cash_db
  st_daily_rules :: "date \<Rightarrow> margin_rule list"
  st_adjustments :: "position_adjustment list"
  st_ledgers :: "corporate_ledger list"
  st_account_rows :: "account_settlement list"
  st_position_rows :: "position_settlement list"
  st_expiry_rows :: "expiry_settlement list"

abbreviation st_core :: "settlement_db \<Rightarrow> db" where
  "st_core t \<equiv> cd_core (st_cash t)"

text \<open>The latest row of a position before the day: \<open>setdefault\<close> over the rows, latest day first.\<close>

definition latest_prior_price :: "date \<Rightarrow> position_settlement list \<Rightarrow> string \<Rightarrow> decimal option" where
  "latest_prior_price day rows k =
     (case sort_key (\<lambda>r. - dp_trading_day r)
             (filter (\<lambda>r. dp_trading_day r < day \<and> dp_position_id r = k) rows) of
        [] \<Rightarrow> None | r # _ \<Rightarrow> Some (dp_settlement_price r))"

definition prior_account_rows :: "date \<Rightarrow> settlement_db \<Rightarrow> account_settlement list" where
  "prior_account_rows day t = filter (\<lambda>r. as_trading_day r < day) (st_account_rows t)"

definition prior_expiry_rows :: "date \<Rightarrow> settlement_db \<Rightarrow> expiry_settlement list" where
  "prior_expiry_rows day t = filter (\<lambda>r. es_trading_day r < day) (st_expiry_rows t)"

text \<open>\<open>with_previous\<close>: the prices come from a provider that knows the last price of the day before.\<close>

definition replay_input_of :: "bool \<Rightarrow> settlement_day \<Rightarrow> settlement_db \<Rightarrow> replay_input" where
  "replay_input_of with_previous sd t =
     (let day = sd_trading_day sd
      in \<lparr>rp_trading_day = day,
          rp_prior_settlements = latest_prior_price day (st_position_rows t),
          rp_prior_expired = map es_position_id (prior_expiry_rows day t),
          rp_instruments = sd_instruments sd, rp_instruments_by_id = sd_instruments_by_id sd,
          rp_prices = (\<lambda>k. map_option fz_price (sd_prices sd k)),
          rp_has_prior_batch = prior_account_rows day t \<noteq> [],
          rp_previous_prices =
            (if with_previous then Some (\<lambda>k. Option.bind (sd_prices sd k) fz_previous_price) else None)\<rparr>)"

definition versions_agree :: "position_adjustment list \<Rightarrow> unit result" where
  "versions_agree rows =
     (if list_all (\<lambda>r. aj_business_version r = int_text (aj_action_version r)) rows then Inr ()
      else Inl (DataAccessError ''CORPORATE_ACTION_ADJUSTMENT_VERSION_INVALID''))"

definition is_cash_position :: "position \<Rightarrow> bool" where
  "is_cash_position p \<longleftrightarrow> p_instrument_type p \<in> cash_security_instrument_types"

text \<open>Every replayed position has a row, and every account of one does.\<close>

definition check_aggregates :: "db \<Rightarrow> replayed_position list \<Rightarrow> unit result" where
  "check_aggregates d qs =
     rfold (\<lambda>_ q. if find_row p_position_id (rv_position_id q) (db_positions d) = None
                  then Inl (DataAccessError ''REPLAY_POSITION_AGGREGATE_MISSING'')
                  else if find_row a_account_id (rv_account_id q) (db_accounts d) = None
                  then Inl (DataAccessError ''REPLAY_ACCOUNT_MISSING'') else Inr ()) () qs"

definition tplus_of :: "settlement_day \<Rightarrow> position \<Rightarrow> int option result" where
  "tplus_of sd p = (case sd_instruments sd (p_order_book_id p) of
     None \<Rightarrow> Inl PyKeyError | Some ins \<Rightarrow> Inr (sm_market_tplus ins))"

definition mark_cash_positions :: "settlement_day \<Rightarrow> settlement_db \<Rightarrow> position list result" where
  "mark_cash_positions sd t =
     (let day = sd_trading_day sd
      in rmap (replay_cash_position (sd_prices sd) (list_trades_through_day (st_core t) day)
                 (filter (\<lambda>r. aj_effective_trading_day r \<le> day) (st_adjustments t)) day (tplus_of sd))
           (filter is_cash_position (db_positions (st_core t))))"

section \<open>The checks before the commit\<close>

definition check_position_row :: "position_settlement \<Rightarrow> unit result" where
  "check_position_row r =
     (if dp_opening_yesterday_volume r + dp_today_open_volume r - dp_today_close_volume r \<noteq> dp_volume_before r
      then Inl (DataAccessError ''REPLAY_POSITION_FACT_VOLUME_MISMATCH'')
      else if (if dp_expired_closed r then 0 else dp_volume_after r) \<noteq> dp_volume_after r
      then Inl (DataAccessError ''REPLAY_EXPIRY_VOLUME_MISMATCH'') else Inr ())"

definition position_invalid :: "position \<Rightarrow> bool" where
  "position_invalid p \<longleftrightarrow> p_total_volume p \<noteq> p_today_volume p + p_yesterday_volume p
     \<or> p_available_volume p \<noteq> p_total_volume p - p_frozen_volume p - p_settlement_locked_volume p"

text \<open>AND binds stronger than OR in the query, so that the frozen volumes are compared for every type.\<close>

definition details_disagree :: "detail list \<Rightarrow> position \<Rightarrow> bool" where
  "details_disagree details p \<longleftrightarrow>
     (let own = filter (\<lambda>x. d_position_id x = p_position_id p) details
      in (\<not> is_cash_position p \<and> p_total_volume p \<noteq> (\<Sum>x \<leftarrow> own. d_remaining_volume x))
         \<or> p_frozen_volume p \<noteq> (\<Sum>x \<leftarrow> own. d_frozen_volume x))"

definition check_tables :: "db \<Rightarrow> unit result" where
  "check_tables d =
     (if count_active_orders d \<noteq> 0 then Inl (DataAccessError ''REPLAY_ACTIVE_ORDER_BARRIER_FAILED'')
      else if list_ex position_invalid (db_positions d)
      then Inl (DataAccessError ''REPLAY_POSITION_AGGREGATE_MISMATCH'')
      else if list_ex (details_disagree (db_details d)) (db_positions d)
      then Inl (DataAccessError ''REPLAY_POSITION_DETAIL_MISMATCH'') else Inr ())"

section \<open>The batch\<close>

text \<open>What a run is given beside the day: the drawn event ids, the clock's local day, the age limit of marks.\<close>

record settlement_env =
  sv_account_event :: "string \<Rightarrow> string"
  sv_position_event :: "string \<Rightarrow> string"
  sv_batch_event :: string
  sv_local_day :: "datetime \<Rightarrow> date"
  sv_tick_max_age :: int
  sv_with_previous :: bool

definition settlement_facts :: "settlement_day \<Rightarrow> settlement_db \<Rightarrow> replay_result \<Rightarrow> position list \<Rightarrow> account_facts" where
  "settlement_facts sd t res marked =
     \<lparr>af_trades = list_trades_through_day (st_core t) (sd_trading_day sd),
      af_prior_accounts = prior_account_rows (sd_trading_day sd) t,
      af_prior_expiries = prior_expiry_rows (sd_trading_day sd) t,
      af_ledgers = st_ledgers t, af_projections = rr_positions res, af_cash_positions = marked\<rparr>"

definition completed_payload :: "settlement_env \<Rightarrow> settlement_day \<Rightarrow> nat \<Rightarrow> payload" where
  "completed_payload env sd accounts =
     [(''event_id'', JString (sv_batch_event env)), (''event_type'', JString ''DAILY_SETTLEMENT_COMPLETED''),
      (''batch_id'', JString (sd_batch_id sd)), (''trading_day'', JDate (sd_trading_day sd)),
      (''next_trading_day'', JDate (sd_next_trading_day sd)), (''accounts_settled'', JInt (int accounts)),
      (''settled_at'', JTime (sd_now sd))]"

definition settlement_events ::
  "settlement_env \<Rightarrow> settlement_day \<Rightarrow> account list \<Rightarrow> position list \<Rightarrow> outbox_event list" where
  "settlement_events env sd accounts positions =
     map (\<lambda>a. create_account_updated (sv_account_event env (a_account_id a)) a (sd_now sd) None None
                (Some ''DAILY_SETTLEMENT_REPLAY'') False) accounts
     @ map (\<lambda>p. create_position_updated (sv_position_event env (p_position_id p)) p (sd_now sd)
                (Some ''DAILY_SETTLEMENT_REPLAY'')) positions
     @ [create_event (sv_batch_event env) ''SETTLEMENT_BATCH'' (sd_batch_id sd) ''DAILY_SETTLEMENT_COMPLETED''
          (completed_payload env sd (length accounts)) (sd_now sd)]"

definition write_settlement ::
  "account list \<Rightarrow> position list \<Rightarrow> detail list \<Rightarrow> outbox_event list \<Rightarrow> db \<Rightarrow> db" where
  "write_settlement accounts positions details events d =
     add_events events (put_details details
       (d\<lparr>db_accounts := accounts, db_positions := fold (replace_row p_position_id) positions (db_positions d)\<rparr>))"

text \<open>
  The rows of expired options are built after the accounts here, in the code within their loop; the
  replay has looked up the same underlying and price before, so that only its error is seen.
\<close>

definition settle_batch :: "settlement_env \<Rightarrow> settlement_day \<Rightarrow> string option list \<Rightarrow> settlement_db \<Rightarrow> settlement_db result" where
  "settle_batch env sd blockers t =
     (let d = st_core t; day = sd_trading_day sd; details = lock_position_details_through_day d day
      in rbind (assert_cash_security_replay_safe blockers) (\<lambda>_.
         rbind (versions_agree (filter (\<lambda>r. aj_effective_trading_day r \<le> day) (st_adjustments t))) (\<lambda>_.
         if list_ex (\<lambda>r. as_trading_day r = day) (st_account_rows t)
         then Inl (DataAccessError ''ATOMIC_REPLAY_RESULT_ALREADY_EXISTS'')
         else
           rbind (replay_derivatives product_strategy_registry (replay_input_of (sv_with_previous env) sd t) d) (\<lambda>res.
           rbind (check_aggregates d (rr_positions res)) (\<lambda>_.
           rbind (load_futures_rules (st_daily_rules t day)) (\<lambda>rules.
           let sd1 = sd\<lparr>sd_futures_rules := rules\<rparr>
           in rbind (mark_cash_positions sd1 t) (\<lambda>marked.
              let fs = settlement_facts sd1 t res marked
              in rbind (rmap (\<lambda>a. settle_account sd1 (db_positions d) details (facts_of (a_account_id a) fs) a)
                         (db_accounts d)) (\<lambda>settled.
                 rbind (expiry_rows sd1 (rr_positions res)) (\<lambda>expiries.
                 rbind (rmap (carry_cash_position (sv_local_day env) day (sd_next_trading_day sd) (sd_now sd)
                          (sv_tick_max_age env)) marked) (\<lambda>carried.
                 let done = concat (map sr_positions settled);
                     qs = concat (map (\<lambda>a. af_projections (facts_of (a_account_id a) fs)) (db_accounts d));
                     rows = map2 (position_row sd1) qs done;
                     positions = map sp_position done @ carried;
                     accounts = map sr_account settled;
                     d' = write_settlement accounts positions (concat (map sp_details done))
                            (settlement_events env sd1 accounts positions) d
                 in rbind (rmap check_position_row rows) (\<lambda>_.
                    rbind (check_tables d') (\<lambda>_.
                    Inr (t\<lparr>st_cash := (st_cash t)\<lparr>cd_core := d'\<rparr>,
                           st_account_rows := st_account_rows t @ map sr_row settled,
                           st_position_rows := st_position_rows t @ rows,
                           st_expiry_rows := st_expiry_rows t @ expiries\<rparr>)))))))))))))"

end
