(* ===== verification/Spec2Isabelle.thy ===== *)
theory Spec2Isabelle
  imports Core_Properties Products Calculators Option_Margin Close_Allocator Risk_State Freeze
    Outbox_Publisher Settlement_Properties Settlement_Money Trading Trading_Day Order_Creation Order_Ledger
    Cash_Properties Cash_Fees Replay_Results Cash_Replay_Properties Position_Margin_Book Settlement_Cash
    Settlement_Batch
begin

text \<open>
  Verification library of a simulated trading back end (futures, options, stocks, convertible bonds and
  ETFs) written in Python over SQLAlchemy. Paths are relative to \<open>src/\<close>.

  \<^bold>\<open>The program.\<close> A client places an order; it is checked against reference data, priced, and money or
  shares are frozen for it (\<open>order_service.py\<close>, \<open>stock_order_service.py\<close>). A worker matches active orders
  against the quotes (\<open>app/matching/\<close>) and settles every match as one transaction: order, account,
  position, details, trade rows and outbox events change together (\<open>trade_settlement_service.py\<close> with its
  option and closing branches, \<open>cash_security_settlement_service.py\<close>). Cancelling gives back what is
  frozen. Events leave through a transactional outbox. At the end of a day all active orders are
  withdrawn, the day is replayed from its immutable facts, accounts are settled, valued and moved to the
  next day (\<open>daily_settlement_service.py\<close>). A gate closes trading while a settlement is under way.

  \<^bold>\<open>Theories and code.\<close>
  \<^item> \<open>Prelude\<close>, \<open>Money\<close>, \<open>Domain\<close>, \<open>Schema\<close>, \<open>Codes\<close>, \<open>Database\<close>, \<open>Book\<close>, \<open>Sums\<close>: service errors
    (\<open>app/common/exceptions.py\<close>) as a datatype and the result type; \<open>quantize_money\<close>; the enumerations of
    \<open>app/enums/\<close>; one record per class of \<open>app/models/\<close>; \<open>normalize_code\<close>; the tables as lists of rows in
    the order of their ids with the queries of \<open>app/repositories/\<close>; what consistent tables are (\<open>book_ok\<close>);
    sums over tables.
  \<^item> \<open>Matching\<close>, \<open>Fees\<close>, \<open>Proportional\<close>, \<open>Calculators\<close>, \<open>Option_Margin\<close>, \<open>Close_Allocator\<close>, \<open>Risk_State\<close>,
    \<open>Freeze\<close>, \<open>Products\<close>: the pure services: \<open>app/matching/\<close>, \<open>fee_calculator.py\<close>, the four pro-rata
    allocators, the profit, margin, premium, tick and valuation calculators, the two option margin
    calculators and their resolver, \<open>position_close_allocator.py\<close>, \<open>account_risk_state_service.py\<close> with
    the settlement gate, \<open>order_freeze_service.py\<close>, \<open>product_strategy_registry.py\<close>.
  \<^item> \<open>Trading_Day\<close>, \<open>Reference_Rules\<close>, \<open>Order_Requests\<close>, \<open>Order_Pricing\<close>, \<open>Order_Terms\<close>, \<open>Order_Creation\<close>:
    the trading day of an order, the rules found for it, the checks of a request, its price from the live
    quotes, and \<open>OrderService.create_order\<close> as one transaction.
  \<^item> \<open>Order_Cancellation\<close>, \<open>Outbox_Events\<close>, \<open>Outbox_Publisher\<close>, \<open>Option_Order_Margin\<close>: cancelling,
    the events that are written, the publisher's state machine, the margin of option orders.
  \<^item> \<open>Settlement_Base\<close>, \<open>Settlement_Events\<close>, \<open>Open_Settlement\<close>, \<open>Option_Settlement\<close>, \<open>Close_Settlement\<close>,
    \<open>Settlement\<close>: \<open>TradeSettlementService.settle\<close> and its three paths. Their consequences for the tables
    stand in \<open>Open_Settlement_Book\<close>, \<open>Close_Settlement_Book\<close>, \<open>Settlement_Book\<close>, \<open>Settlement_Ledger\<close>.
  \<^item> \<open>Cash_Securities\<close>, \<open>Cash_Policies\<close>, \<open>Cash_Orders\<close>, \<open>Cash_Settlement\<close>: funds, fees, positions,
    admission, orders and fills of cash securities; the lemmas are in \<open>Cash_Positions\<close>, \<open>Cash_Book\<close>,
    \<open>Cash_Settlement_Book\<close>, \<open>Cash_Fill_Book\<close>, \<open>Cash_Order_Book\<close>, \<open>Cash_Trading\<close>.
  \<^item> \<open>Settlement_Replay\<close>, \<open>Settlement_Inputs\<close>: \<open>settlement_replay_service.py\<close> and what it is given.
    \<open>Cash_Replay\<close>: \<open>cash_security_position_replay_service.py\<close>. \<open>Position_Margin\<close>:
    \<open>option_margin_adjustment_service.py\<close>. \<open>Settlement_Barrier\<close>, \<open>Daily_Settlement\<close>, \<open>Account_Settlement\<close>,
    \<open>Settlement_Batch\<close>: the order barrier, the settlement of a position, of an account, and the whole of
    \<open>_settle_batch_from_facts\<close>.
  \<^item> \<open>Samples\<close>, \<open>Settlement_Samples\<close>, \<open>Cash_Samples\<close>: small consistent tables for the concrete instances.

  \<^bold>\<open>How code becomes definitions.\<close> A service method that changes tables is a function from the tables and
  its arguments to a result: \<open>Inl\<close> is the exception, and means that the transaction was rolled back,
  \<open>Inr\<close> carries the committed tables. Every guard, early return and raise of the source is a branch, in
  its order. Ids and times that the code draws are arguments. A \<open>Decimal\<close> is its exact rational value:
  \<open>quantize_money\<close> is modelled, the context precision of 28 digits is not, no amount reaches it. Python
  integers are \<open>int\<close>, strings are lists of characters, a JSON column is a list of keys and values. Recursion is
  structural and no fuel is needed; the one loop without a bound of its own, the cancellation loop of
  the barrier, is a partial function for which returning is proved.

  \<^bold>\<open>Interfaces.\<close> \<open>frozen_pool\<close> (freeze and release of one reservation) is interpreted on the freezes of futures,
  options, stocks, closing commissions and cash buys; \<open>tail_allocator\<close> (shares that drain an amount) on the
  four allocators; \<open>level_one_matching\<close> on both engines; \<open>seller_margin\<close> on both option calculators;
  \<open>row_store\<close> (lookup after write) on the order and account tables.

  \<^bold>\<open>What the lemmas show.\<close>
  \<^item> The trading core (\<open>Trading\<close>, \<open>Order_Creation_Properties\<close>, \<open>Order_Ledger\<close>, \<open>Order_Cancellation_Book\<close>):
    creations, cancellations, fills and margin checks, in any order, keep the book and the ledger
    consistent; orders only progress; creating and cancelling refine an abstract ledger of reservations;
    what is accepted is admissible; retries create nothing; an active opening order can be cancelled.
  \<^item> Fills (\<open>Settlement_Properties\<close>, \<open>Settlement_Money\<close>): a fill happens once, never overfills, moves money
    without loss, and a refused one changes nothing.
  \<^item> Cash securities (\<open>Cash_Properties\<close>, \<open>Cash_Fees\<close>): any run keeps the books, conserves money, obeys T+1;
    a fee per order does not depend on its fills.
  \<^item> Replay (\<open>Replay_Properties\<close>, \<open>Replay_Agreement\<close>, \<open>Replay_Results\<close>, \<open>Cash_Replay_Properties\<close>): the replay finds
    the volumes of the rows that it never reads; the daily results of a detail add up to its whole
    result; replaying a cash security gives the holding of the live row.
  \<^item> Daily settlement (\<open>Settlement_Barrier\<close>, \<open>Settlement_Results\<close>, \<open>Settlement_Cash\<close>,
    \<open>Position_Margin_Book\<close>): the barrier is reached; the two checks of an account's results are decided;
    the cash of an account is explained from day to day; margins of position, details and account agree.
  \<^item> Pure services (\<open>Core_Properties\<close> and the theories of the services): allocation by age, frozen
    amounts that are drained exactly, recovery that is confirmed twice, retries that are bounded.

  \<^bold>\<open>Parameters.\<close> What the tick store and the quote worker answer, the parsed calendar JSON, the
  option collateral ratio and \<open>_calculate_required\<close> of the option order margin check. The sample instances
  give each a concrete value.

  \<^bold>\<open>Not modelled.\<close> Advisory locks, \<open>SELECT FOR UPDATE\<close> and the branches behind lost races on unique
  constraints or database failures: transactions run one after the other. Paging queries and response
  schemas. JSON audit snapshots of the daily settlement. Its preflight over calendars and sessions, the
  freezing of prices from ticks, the batch rows' stages and the recovery of Redis. The corporate action
  service, realtime valuation and liquidation, whose state is in Redis caches; market data intake over a
  vendor's callbacks; HTTP, WebSocket and authentication glue; migrations and scripts.
\<close>

end
